(* ===== verification/Prelude.thy ===== *)
theory Prelude
  imports Main "HOL-Library.Sublist" "HOL-Library.Word"
begin

text \<open>
  Shared vocabulary of the development.  A Go \<^verbatim>\<open>error\<close> result is an
  \<^typ>\<open>'e option\<close>: \<^term>\<open>None\<close> is \<^verbatim>\<open>nil\<close>, \<^term>\<open>Some e\<close> a returned error.
  A Go pair \<^verbatim>\<open>(value, error)\<close> is a sum: \<^term>\<open>Inl e\<close> the error, \<^term>\<open>Inr v\<close> the
  value.  A sequence of guards \<^verbatim>\<open>if cond { return err }\<close> is \<open>firstErr\<close> over the
  list of its guards in source order.
\<close>

named_theorems valid_simps \<open>what a successful validation gives\<close>
named_theorems row_simps \<open>projections of table updates\<close>
named_theorems eval_defs \<open>definitions unfolded to evaluate a concrete input\<close>

section \<open>Go errors\<close>

definition failIf :: "bool \<Rightarrow> 'e \<Rightarrow> 'e option" where
  "failIf b e = (if b then Some e else None)"

primrec firstErr :: "'e option list \<Rightarrow> 'e option" where
  "firstErr [] = None"
| "firstErr (x # xs) = (case x of None \<Rightarrow> firstErr xs | Some e \<Rightarrow> Some e)"

declare firstErr.simps [simp del]

lemma failIf_None [simp]: "failIf b e = None \<longleftrightarrow> \<not> b"
  by (simp add: failIf_def)

lemma failIf_Some [simp]: "failIf b e = Some e' \<longleftrightarrow> b \<and> e' = e"
  by (auto simp: failIf_def)

lemma failIf_True [simp]: "failIf True e = Some e"
  by (simp add: failIf_def)

lemma failIf_False [simp]: "failIf False e = None"
  by (simp add: failIf_def)

lemma firstErr_None_iff [simp]: "firstErr xs = None \<longleftrightarrow> (\<forall>x\<in>set xs. x = None)"
  by (induction xs) (auto simp: firstErr.simps split: option.splits)

lemma firstErr_Some_mem: "firstErr xs = Some e \<Longrightarrow> Some e \<in> set xs"
  by (induction xs) (auto simp: firstErr.simps split: option.splits)

lemma firstErr_append:
  "firstErr (xs @ ys) = (case firstErr xs of None \<Rightarrow> firstErr ys | Some e \<Rightarrow> Some e)"
  by (induction xs) (auto simp: firstErr.simps simp del: firstErr_None_iff split: option.splits)

lemma firstErr_Cons_None [simp]: "firstErr (None # xs) = firstErr xs"
  by (simp add: firstErr.simps)

lemma firstErr_Cons_Some [simp]: "firstErr (Some e # xs) = Some e"
  by (simp add: firstErr.simps)

section \<open>Results\<close>

definition guardR :: "'e option \<Rightarrow> 'e + 'a \<Rightarrow> 'e + 'a" where
  "guardR err k = (case err of None \<Rightarrow> k | Some e \<Rightarrow> Inl e)"

definition bindR :: "'e + 'a \<Rightarrow> ('a \<Rightarrow> 'e + 'b) \<Rightarrow> 'e + 'b" where
  "bindR r k = (case r of Inl e \<Rightarrow> Inl e | Inr v \<Rightarrow> k v)"

lemma guardR_simps [simp]: "guardR None k = k" "guardR (Some e) k = Inl e"
  by (simp_all add: guardR_def)

lemma bindR_simps [simp]: "bindR (Inl e) f = Inl e" "bindR (Inr v) f = f v"
  by (simp_all add: bindR_def)

lemma guardR_Inr [simp]: "guardR err k = Inr v \<longleftrightarrow> err = None \<and> k = Inr v"
  by (cases err) auto

lemma bindR_Inr [simp]: "bindR r f = Inr v \<longleftrightarrow> (\<exists>u. r = Inr u \<and> f u = Inr v)"
  by (cases r) auto

definition isOk :: "'e + 'a \<Rightarrow> bool" where
  "isOk r = (case r of Inl _ \<Rightarrow> False | Inr _ \<Rightarrow> True)"

lemma isOk_simps [simp]: "isOk (Inl e) = False" "isOk (Inr v) = True"
  by (simp_all add: isOk_def)

section \<open>Tables as row lists\<close>

text \<open>
  A database table is the list of its rows in insertion order.  An
  \<^verbatim>\<open>UPDATE ... WHERE\<close> is \<open>updWhere\<close>, a \<^verbatim>\<open>DELETE\<close> is a \<open>filter\<close>, and the row of a primary
  key is found by \<open>List.find\<close>.
\<close>

definition updWhere :: "('r \<Rightarrow> bool) \<Rightarrow> ('r \<Rightarrow> 'r) \<Rightarrow> 'r list \<Rightarrow> 'r list" where
  "updWhere p f rs = map (\<lambda>r. if p r then f r else r) rs"

definition rowsAffected :: "('r \<Rightarrow> bool) \<Rightarrow> 'r list \<Rightarrow> nat" where
  "rowsAffected p rs = length (filter p rs)"

lemma updWhere_simps [simp]:
  "updWhere p f [] = []"
  "updWhere p f (r # rs) = (if p r then f r else r) # updWhere p f rs"
  by (simp_all add: updWhere_def)

lemma length_updWhere [simp]: "length (updWhere p f rs) = length rs"
  by (simp add: updWhere_def)

lemma rowsAffected_0 [simp]: "rowsAffected p rs = 0 \<longleftrightarrow> (\<forall>r\<in>set rs. \<not> p r)"
  by (simp add: rowsAffected_def filter_empty_conv)

lemma map_key_updWhere [row_simps]:
  "(\<And>r. k (f r) = k r) \<Longrightarrow> map k (updWhere p f rs) = map k rs"
  by (simp add: updWhere_def)

lemma set_updWhere:
  "set (updWhere p f rs) = {f r |r. r \<in> set rs \<and> p r} \<union> {r. r \<in> set rs \<and> \<not> p r}"
  by (auto simp: updWhere_def)

lemma updWhere_mem: "r' \<in> set (updWhere p f rs) \<Longrightarrow>
    (\<exists>r. r \<in> set rs \<and> p r \<and> r' = f r) \<or> (r' \<in> set rs \<and> \<not> p r')"
  by (auto simp: updWhere_def)

lemma updWhere_none: "(\<And>r. r \<in> set rs \<Longrightarrow> \<not> p r) \<Longrightarrow> updWhere p f rs = rs"
  by (induction rs) auto

lemma find_updWhere_key:
  assumes "\<And>r. k (f r) = k r"
  shows "List.find (\<lambda>r. k r = x) (updWhere p f rs) =
         map_option (\<lambda>r. if p r then f r else r) (List.find (\<lambda>r. k r = x) rs)"
  by (induction rs) (auto simp: assms)

lemma find_Some_mem: "List.find p xs = Some x \<Longrightarrow> x \<in> set xs \<and> p x"
  by (induction xs) (auto split: if_splits)

lemma find_None_conv: "List.find p xs = None \<longleftrightarrow> (\<forall>x\<in>set xs. \<not> p x)"
  by (induction xs) auto

lemma distinct_find:
  "distinct (map k rs) \<Longrightarrow> r \<in> set rs \<Longrightarrow> List.find (\<lambda>s. k s = k r) rs = Some r"
  by (induction rs) force+

lemma distinct_key_inj:
  "distinct (map k rs) \<Longrightarrow> a \<in> set rs \<Longrightarrow> b \<in> set rs \<Longrightarrow> k a = k b \<Longrightarrow> a = b"
  by (metis distinct_find option.inject)

lemma find_append:
  "List.find p (xs @ ys) = (case List.find p xs of None \<Rightarrow> List.find p ys | Some x \<Rightarrow> Some x)"
  by (induction xs) auto

lemma distinct_map_filter_key: "distinct (map k rs) \<Longrightarrow> distinct (map k (filter p rs))"
  by (induction rs) auto

end
