(* ===== verification/GoString.thy ===== *)
theory GoString
  imports Prelude "HOL-Library.Char_ord"
begin

text \<open>
  Go strings as byte lists (\<^typ>\<open>string\<close>; a \<^typ>\<open>char\<close> is one byte) and the operations of
  the packages \<^verbatim>\<open>strings\<close>, \<^verbatim>\<open>net\<close> and \<^verbatim>\<open>net/url\<close> the program applies to them.
\<close>

definition byteval :: "char \<Rightarrow> nat" where
  "byteval c = of_char c"

definition byteIn :: "char \<Rightarrow> char \<Rightarrow> char \<Rightarrow> bool" where
  "byteIn lo hi c = (byteval lo \<le> byteval c \<and> byteval c \<le> byteval hi)"

lemma byteval_less [simp]: "byteval c < 256"
  by (simp add: byteval_def)

lemma byteval_inject [simp]: "byteval c = byteval d \<longleftrightarrow> c = d"
  by (simp add: byteval_def)

section \<open>Searching, splitting, joining\<close>

definition contains :: "char \<Rightarrow> string \<Rightarrow> bool" where
  "contains c s = (c \<in> set s)"

definition containsAny :: "string \<Rightarrow> string \<Rightarrow> bool" where
  "containsAny s cs = list_ex (\<lambda>c. c \<in> set cs) s"

lemma containsAny_iff: "containsAny s cs \<longleftrightarrow> set s \<inter> set cs \<noteq> {}"
  by (auto simp: containsAny_def list_ex_iff)

fun splitOn :: "char \<Rightarrow> string \<Rightarrow> string list" where
  "splitOn c [] = [[]]"
| "splitOn c (x # xs) =
     (if x = c then [] # splitOn c xs
      else (case splitOn c xs of [] \<Rightarrow> [[x]] | (w # ws) \<Rightarrow> (x # w) # ws))"

fun joinWith :: "string \<Rightarrow> string list \<Rightarrow> string" where
  "joinWith sep [] = []"
| "joinWith sep [w] = w"
| "joinWith sep (w # v # ws) = w @ sep @ joinWith sep (v # ws)"

lemma splitOn_nonempty [simp]: "splitOn c s \<noteq> []"
  by (induction s) (auto split: list.splits)

lemma splitOn_no_sep: "c \<notin> set w \<Longrightarrow> splitOn c w = [w]"
  by (induction w) auto

lemma splitOn_append_sep:
  "c \<notin> set w \<Longrightarrow> splitOn c (w @ c # s) = w # splitOn c s"
  by (induction w) auto

lemma splitOn_joinWith:
  "ws \<noteq> [] \<Longrightarrow> (\<forall>w\<in>set ws. c \<notin> set w) \<Longrightarrow> splitOn c (joinWith [c] ws) = ws"
  by (induction "[c]" ws rule: joinWith.induct)
    (auto simp: splitOn_no_sep splitOn_append_sep)

lemma joinWith_splitOn: "joinWith [c] (splitOn c s) = s"
proof (induction s)
  case (Cons x xs)
  then show ?case
    by (cases "splitOn c xs"; cases "tl (splitOn c xs)") auto
qed simp

lemma splitOn_parts_no_sep: "w \<in> set (splitOn c s) \<Longrightarrow> c \<notin> set w"
proof (induction s arbitrary: w)
  case (Cons x xs)
  then show ?case
    by (cases "splitOn c xs") (auto split: if_splits)
qed simp

lemma splitOn_set: "(\<Union>w\<in>set (splitOn c s). set w) = set s - {c}"
proof (induction s)
  case (Cons x xs)
  then show ?case
    by (cases "splitOn c xs") (auto split: if_splits)
qed simp

definition hasPrefix :: "string \<Rightarrow> string \<Rightarrow> bool" where
  "hasPrefix s p = prefix p s"

definition trimPrefix :: "string \<Rightarrow> string \<Rightarrow> string" where
  "trimPrefix s p = (if prefix p s then drop (length p) s else s)"

section \<open>Control characters, white space\<close>

text \<open>
  \<^verbatim>\<open>hasControl\<close> ranges over the runes of the string.  A rune below 0x80 is one byte, and
  no byte of a longer or ill-formed sequence is below 0x80, so the test is byte by byte.
\<close>

definition hasControl :: "string \<Rightarrow> bool" where
  "hasControl s = list_ex (\<lambda>c. byteval c < 0x20 \<or> byteval c = 0x7f) s"

text \<open>
  The UTF-8 encodings of the white space of \<^verbatim>\<open>unicode.IsSpace\<close>: the six ASCII ones,
  U+0085, U+00A0, U+1680, U+2000 to U+200A, U+2028, U+2029, U+202F, U+205F, U+3000.
\<close>

definition spaceRunes :: "string list" where
  "spaceRunes = map (map char_of)
     ([[9], [10], [11], [12], [13], [32], [0xC2, 0x85], [0xC2, 0xA0], [0xE1, 0x9A, 0x80],
       [0xE2, 0x80, 0x80], [0xE2, 0x80, 0x81], [0xE2, 0x80, 0x82], [0xE2, 0x80, 0x83],
       [0xE2, 0x80, 0x84], [0xE2, 0x80, 0x85], [0xE2, 0x80, 0x86], [0xE2, 0x80, 0x87],
       [0xE2, 0x80, 0x88], [0xE2, 0x80, 0x89], [0xE2, 0x80, 0x8A], [0xE2, 0x80, 0xA8],
       [0xE2, 0x80, 0xA9], [0xE2, 0x80, 0xAF], [0xE2, 0x81, 0x9F],
       [0xE3, 0x80, 0x80]] :: nat list list)"

function trimFront :: "string list \<Rightarrow> string \<Rightarrow> string" where
  "trimFront ps s =
     (case List.find (\<lambda>p. p \<noteq> [] \<and> prefix p s) ps of
        None \<Rightarrow> s
      | Some p \<Rightarrow> trimFront ps (drop (length p) s))"
  by pat_completeness auto
termination
  by (relation "measure (\<lambda>(ps, s). length s)")
    (auto dest!: find_Some_mem simp: prefix_def)

declare trimFront.simps [simp del]

definition TrimSpace :: "string \<Rightarrow> string" where
  "TrimSpace s = rev (trimFront (map rev spaceRunes) (rev (trimFront spaceRunes s)))"

lemma trimFront_head:
  assumes "\<And>p. p \<in> set ps \<Longrightarrow> p \<noteq> [] \<Longrightarrow> hd p \<noteq> c"
  shows "trimFront ps (c # s) = c # s"
proof -
  have "\<not> (p \<noteq> [] \<and> prefix p (c # s))" if "p \<in> set ps" for p
    using assms[OF that] by (cases p) auto
  then have "List.find (\<lambda>p. p \<noteq> [] \<and> prefix p (c # s)) ps = None"
    unfolding find_None_conv by blast
  then show ?thesis
    by (subst trimFront.simps) simp
qed

lemma trimFront_Nil [simp]: "trimFront ps [] = []"
  by (subst trimFront.simps) (auto split: option.splits dest!: find_Some_mem)

lemma length_trimFront: "length (trimFront ps s) \<le> length s"
proof (induction ps s rule: trimFront.induct)
  case (1 ps s)
  then show ?case
    by (subst trimFront.simps) (force split: option.splits)
qed

lemma length_TrimSpace: "length (TrimSpace s) \<le> length s"
  using length_trimFront[of spaceRunes s]
    length_trimFront[of "map rev spaceRunes" "rev (trimFront spaceRunes s)"]
  by (simp add: TrimSpace_def)

lemma set_trimFront: "set (trimFront ps s) \<subseteq> set s"
proof (induction ps s rule: trimFront.induct)
  case (1 ps s)
  then show ?case
    by (subst trimFront.simps) (auto split: option.splits dest: in_set_dropD)
qed

lemma set_TrimSpace: "set (TrimSpace s) \<subseteq> set s"
  using set_trimFront[of spaceRunes s]
    set_trimFront[of "map rev spaceRunes" "rev (trimFront spaceRunes s)"]
  by (auto simp: TrimSpace_def)

definition visibleASCII :: "char \<Rightarrow> bool" where
  "visibleASCII c = (0x21 \<le> byteval c \<and> byteval c \<le> 0x7e)"

lemma spaceRunes_heads:
  "p \<in> set spaceRunes \<Longrightarrow> p \<noteq> [] \<Longrightarrow> \<not> visibleASCII (hd p)"
  "p \<in> set (map rev spaceRunes) \<Longrightarrow> p \<noteq> [] \<Longrightarrow> \<not> visibleASCII (hd p)"
  by (auto simp: spaceRunes_def visibleASCII_def byteval_def)

lemma trimFront_visible:
  assumes "\<forall>c\<in>set s. visibleASCII c"
  shows "trimFront spaceRunes s = s" "trimFront (map rev spaceRunes) s = s"
  using assms spaceRunes_heads by (cases s; metis trimFront_head trimFront_Nil list.set_intros(1))+

lemma TrimSpace_visible [simp]: "\<forall>c\<in>set s. visibleASCII c \<Longrightarrow> TrimSpace s = s"
  by (simp add: TrimSpace_def trimFront_visible)

lemmas visible_eval = visibleASCII_def byteval_def

lemma TrimSpace_Nil [simp]: "TrimSpace [] = []"
  by (simp add: TrimSpace_def)

section \<open>Case, digits, addresses\<close>

definition isDigit :: "char \<Rightarrow> bool" where
  "isDigit c = byteIn (CHR ''0'') (CHR ''9'') c"

definition lowerByte :: "char \<Rightarrow> char" where
  "lowerByte c = (if byteIn (CHR ''A'') (CHR ''Z'') c then char_of (byteval c + 32) else c)"

text \<open>\<^verbatim>\<open>strings.ToLower\<close> on ASCII strings.\<close>

definition toLowerASCII :: "string \<Rightarrow> string" where
  "toLowerASCII s = map lowerByte s"

definition decValue :: "string \<Rightarrow> nat" where
  "decValue s = foldl (\<lambda>v c. v * 10 + (byteval c - byteval (CHR ''0''))) 0 s"

definition ipv4Field :: "string \<Rightarrow> bool" where
  "ipv4Field f = (f \<noteq> [] \<and> list_all isDigit f \<and> (length f > 1 \<longrightarrow> hd f \<noteq> CHR ''0'')
                 \<and> decValue f \<le> 255)"

text \<open>\<^verbatim>\<open>net.ParseIP(s) != nil\<close> for a string without a colon: dotted decimal IPv4.\<close>

definition isIPv4 :: "string \<Rightarrow> bool" where
  "isIPv4 s = (length (splitOn (CHR ''.'') s) = 4 \<and> list_all ipv4Field (splitOn (CHR ''.'') s))"

section \<open>Decimal and hexadecimal numerals\<close>

fun showNat :: "nat \<Rightarrow> string" where
  "showNat n = (if n < 10 then [char_of (48 + n)] else showNat (n div 10) @ [char_of (48 + n mod 10)])"

declare showNat.simps [simp del]

text \<open>The verb \<^verbatim>\<open>%d\<close> of \<^verbatim>\<open>fmt.Sprintf\<close>.\<close>

definition showInt :: "int \<Rightarrow> string" where
  "showInt i = (if i < 0 then CHR ''-'' # showNat (nat (- i)) else showNat (nat i))"

lemma decValue_append: "decValue (s @ [c]) = decValue s * 10 + (byteval c - byteval (CHR ''0''))"
  by (simp add: decValue_def)

lemma byteval_digit: "d < 10 \<Longrightarrow> byteval (char_of (48 + d)) = 48 + d"
  by (simp add: byteval_def)

lemma byteval_zero [simp]: "byteval (CHR ''0'') = 48"
  by (simp add: byteval_def)

lemma decValue_showNat [simp]: "decValue (showNat n) = n"
proof (induction n rule: showNat.induct)
  case (1 n)
  show ?case
  proof (cases "n < 10")
    case True
    then show ?thesis
      by (subst showNat.simps) (simp add: decValue_def byteval_digit)
  next
    case False
    then show ?thesis
      using 1 by (subst showNat.simps) (simp add: decValue_append byteval_digit)
  qed
qed

lemma showNat_inject [simp]: "showNat m = showNat n \<longleftrightarrow> m = n"
  by (metis decValue_showNat)

lemma showNat_digits: "c \<in> set (showNat n) \<Longrightarrow> isDigit c"
proof (induction n rule: showNat.induct)
  case (1 n)
  then show ?case
    by (subst (asm) (2) showNat.simps)
      (auto simp: isDigit_def byteIn_def byteval_digit byteval_def split: if_splits)
qed

lemma showNat_nonempty [simp]: "showNat n \<noteq> []"
  by (subst showNat.simps) simp

lemma showInt_inject [simp]: "showInt i = showInt j \<longleftrightarrow> i = j"
proof -
  have minus: "showNat n \<noteq> CHR ''-'' # s" for n s
  proof
    assume "showNat n = CHR ''-'' # s"
    then have "isDigit (CHR ''-'')"
      using showNat_digits[of "CHR ''-''" n] by simp
    then show False
      by (simp add: isDigit_def byteIn_def byteval_def)
  qed
  show ?thesis
    by (auto simp: showInt_def minus minus[symmetric] eq_nat_nat_iff)
qed

lemma showInt_chars: "c \<in> set (showInt i) \<Longrightarrow> isDigit c \<or> c = CHR ''-''"
  using showNat_digits by (auto simp: showInt_def split: if_splits)

definition hexDigit :: "nat \<Rightarrow> char" where
  "hexDigit d = (if d < 10 then char_of (48 + d) else char_of (87 + d))"

definition upperHexDigit :: "nat \<Rightarrow> char" where
  "upperHexDigit d = (if d < 10 then char_of (48 + d) else char_of (55 + d))"

text \<open>\<^verbatim>\<open>hex.EncodeToString\<close>.\<close>

definition hexEncode :: "string \<Rightarrow> string" where
  "hexEncode bs = concat (map (\<lambda>c. [hexDigit (byteval c div 16), hexDigit (byteval c mod 16)]) bs)"

lemma length_hexEncode [simp]: "length (hexEncode bs) = 2 * length bs"
  by (induction bs) (simp_all add: hexEncode_def)

lemma hexDigit_inject: "a < 16 \<Longrightarrow> b < 16 \<Longrightarrow> hexDigit a = hexDigit b \<Longrightarrow> a = b"
proof -
  assume bounds: "a < 16" "b < 16" and eq: "hexDigit a = hexDigit b"
  from bounds have ab: "byteval (hexDigit a) = (if a < 10 then 48 + a else 87 + a)"
    "byteval (hexDigit b) = (if b < 10 then 48 + b else 87 + b)"
    by (simp_all add: hexDigit_def byteval_def)
  have "byteval (hexDigit a) = byteval (hexDigit b)"
    by (simp only: eq)
  then show "a = b"
    unfolding ab using bounds by (simp split: if_splits)
qed

lemma hexEncode_inject [simp]: "hexEncode xs = hexEncode ys \<longleftrightarrow> xs = ys"
proof (induction xs arbitrary: ys)
  case Nil
  show ?case by (cases ys) (simp_all add: hexEncode_def)
next
  case (Cons x xs)
  show ?case
  proof (cases ys)
    case (Cons y ys')
    have "hexDigit (byteval x div 16) = hexDigit (byteval y div 16) \<Longrightarrow>
          hexDigit (byteval x mod 16) = hexDigit (byteval y mod 16) \<Longrightarrow> x = y"
    proof -
      assume a: "hexDigit (byteval x div 16) = hexDigit (byteval y div 16)"
        "hexDigit (byteval x mod 16) = hexDigit (byteval y mod 16)"
      have "byteval x div 16 < 16" "byteval y div 16 < 16"
        using byteval_less[of x] byteval_less[of y] by (simp_all add: less_mult_imp_div_less)
      with a have "byteval x div 16 = byteval y div 16" "byteval x mod 16 = byteval y mod 16"
        using hexDigit_inject by simp_all
      then have "byteval x = byteval y"
        by (metis div_mult_mod_eq)
      then show ?thesis by simp
    qed
    then show ?thesis
      using Cons.IH[of ys'] Cons by (auto simp: hexEncode_def)
  qed (simp add: hexEncode_def)
qed

lemma hexDigit_lower:
  assumes "d < 16"
  shows "byteIn (CHR ''0'') (CHR ''9'') (hexDigit d) \<or> byteIn (CHR ''a'') (CHR ''f'') (hexDigit d)"
  using assms by (auto simp: hexDigit_def byteIn_def byteval_def)

lemma hexEncode_chars:
  "c \<in> set (hexEncode bs) \<Longrightarrow> byteIn (CHR ''0'') (CHR ''9'') c \<or> byteIn (CHR ''a'') (CHR ''f'') c"
proof (induction bs)
  case (Cons b bs)
  have "byteval b div 16 < 16"
    using byteval_less[of b] by (simp add: less_mult_imp_div_less)
  then show ?case
    using Cons hexDigit_lower[of "byteval b div 16"] hexDigit_lower[of "byteval b mod 16"]
    by (auto simp: hexEncode_def)
qed (simp add: hexEncode_def)

lemma toLowerASCII_hexEncode [simp]: "toLowerASCII (hexEncode bs) = hexEncode bs"
proof -
  have "lowerByte c = c" if "c \<in> set (hexEncode bs)" for c
    using hexEncode_chars[OF that] by (auto simp: lowerByte_def byteIn_def byteval_def)
  then show ?thesis
    by (simp add: toLowerASCII_def map_idI)
qed

lemma length_showNat: "n < 10 ^ k \<Longrightarrow> 0 < k \<Longrightarrow> length (showNat n) \<le> k"
proof (induction k arbitrary: n)
  case (Suc k)
  show ?case
  proof (cases "n < 10")
    case True
    then show ?thesis by (subst showNat.simps) simp
  next
    case False
    then have "0 < k" "n div 10 < 10 ^ k"
      using Suc.prems(1) by (cases k; simp add: less_mult_imp_div_less mult.commute)+
    then show ?thesis
      using Suc.IH[of "n div 10"] False by (subst showNat.simps) simp
  qed
qed simp

end
