(* ===== verification/Certproto.thy ===== *)
theory Certproto
  imports GoString
begin

text \<open>
  The identifiers of the public protocol, \<^verbatim>\<open>pkg/certproto/protocol.go\<close>, \<^verbatim>\<open>http.go\<close> and the
  identifier checks of \<^verbatim>\<open>contract.go\<close>.  An error value is represented by its code; the
  message is text for people and no decision of the program reads it.
\<close>

section \<open>Error codes\<close>

type_synonym ErrorCode = string

abbreviation ErrorCodeInvalidRequest :: ErrorCode where
  "ErrorCodeInvalidRequest \<equiv> ''invalid_request''"
abbreviation ErrorCodeInvalidGeneration :: ErrorCode where
  "ErrorCodeInvalidGeneration \<equiv> ''invalid_generation''"
abbreviation ErrorCodeInvalidRevision :: ErrorCode where
  "ErrorCodeInvalidRevision \<equiv> ''invalid_revision''"
abbreviation ErrorCodeInvalidJobID :: ErrorCode where
  "ErrorCodeInvalidJobID \<equiv> ''invalid_job_id''"
abbreviation ErrorCodeInvalidIdempotencyKey :: ErrorCode where
  "ErrorCodeInvalidIdempotencyKey \<equiv> ''invalid_idempotency_key''"
abbreviation ErrorCodeInvalidDomain :: ErrorCode where
  "ErrorCodeInvalidDomain \<equiv> ''invalid_domain''"
abbreviation ErrorCodeInvalidPathSegment :: ErrorCode where
  "ErrorCodeInvalidPathSegment \<equiv> ''invalid_path_segment''"
abbreviation ErrorCodePathTraversal :: ErrorCode where
  "ErrorCodePathTraversal \<equiv> ''path_traversal''"
abbreviation ErrorCodeInvalidFileName :: ErrorCode where
  "ErrorCodeInvalidFileName \<equiv> ''invalid_file_name''"
abbreviation ErrorCodeUnknownFile :: ErrorCode where
  "ErrorCodeUnknownFile \<equiv> ''unknown_file''"
abbreviation ErrorCodeDuplicateFile :: ErrorCode where
  "ErrorCodeDuplicateFile \<equiv> ''duplicate_file''"
abbreviation ErrorCodeInvalidManifest :: ErrorCode where
  "ErrorCodeInvalidManifest \<equiv> ''invalid_manifest''"
abbreviation ErrorCodeInvalidJobStatus :: ErrorCode where
  "ErrorCodeInvalidJobStatus \<equiv> ''invalid_job_status''"
abbreviation ErrorCodeInvalidCapabilities :: ErrorCode where
  "ErrorCodeInvalidCapabilities \<equiv> ''invalid_capabilities''"
abbreviation ErrorCodeInvalidDeploymentReport :: ErrorCode where
  "ErrorCodeInvalidDeploymentReport \<equiv> ''invalid_deployment_report''"
abbreviation ErrorCodeUnauthorized :: ErrorCode where
  "ErrorCodeUnauthorized \<equiv> ''unauthorized''"
abbreviation ErrorCodeForbidden :: ErrorCode where
  "ErrorCodeForbidden \<equiv> ''forbidden''"
abbreviation ErrorCodeNotFound :: ErrorCode where
  "ErrorCodeNotFound \<equiv> ''not_found''"
abbreviation ErrorCodeConflict :: ErrorCode where
  "ErrorCodeConflict \<equiv> ''conflict''"
abbreviation ErrorCodeJobFailed :: ErrorCode where
  "ErrorCodeJobFailed \<equiv> ''job_failed''"
abbreviation ErrorCodeDeploymentFailed :: ErrorCode where
  "ErrorCodeDeploymentFailed \<equiv> ''deployment_failed''"
abbreviation ErrorCodeInternal :: ErrorCode where
  "ErrorCodeInternal \<equiv> ''internal''"

definition HTTPStatusForErrorCode :: "ErrorCode \<Rightarrow> nat" where
  "HTTPStatusForErrorCode code =
     (if code \<in> set [ErrorCodeInvalidRequest, ErrorCodeInvalidGeneration,
           ErrorCodeInvalidRevision, ErrorCodeInvalidJobID, ErrorCodeInvalidIdempotencyKey,
           ErrorCodeInvalidDomain, ErrorCodeInvalidPathSegment, ErrorCodePathTraversal,
           ErrorCodeInvalidFileName, ErrorCodeUnknownFile, ErrorCodeDuplicateFile,
           ErrorCodeInvalidManifest, ErrorCodeInvalidJobStatus, ErrorCodeInvalidCapabilities,
           ErrorCodeInvalidDeploymentReport] then 400
      else if code = ErrorCodeUnauthorized then 401
      else if code = ErrorCodeForbidden then 403
      else if code = ErrorCodeNotFound then 404
      else if code = ErrorCodeConflict then 409
      else if code \<in> set [ErrorCodeJobFailed, ErrorCodeDeploymentFailed, ErrorCodeInternal] then 500
      else 500)"

section \<open>Path segments and identifiers\<close>

definition isPathTraversal :: "string \<Rightarrow> bool" where
  "isPathTraversal value = containsAny value [CHR ''/'', CHR 0x5C]"

definition isUnreserved :: "char \<Rightarrow> bool" where
  "isUnreserved c = (byteIn (CHR ''a'') (CHR ''z'') c \<or> byteIn (CHR ''A'') (CHR ''Z'') c
     \<or> byteIn (CHR ''0'') (CHR ''9'') c
     \<or> c = CHR ''-'' \<or> c = CHR ''.'' \<or> c = CHR ''_'' \<or> c = CHR ''~'')"

definition isLowerHex :: "string \<Rightarrow> bool" where
  "isLowerHex s = list_all (\<lambda>c. byteIn (CHR ''0'') (CHR ''9'') c \<or> byteIn (CHR ''a'') (CHR ''f'') c) s"

definition validatePathSegment :: "string \<Rightarrow> ErrorCode option" where
  "validatePathSegment segment = firstErr
     [failIf (segment = []) ErrorCodeInvalidPathSegment,
      failIf (isPathTraversal segment \<or> segment = ''.'' \<or> segment = ''..'') ErrorCodePathTraversal,
      failIf (list_ex (\<lambda>c. byteval c < 0x20 \<or> byteval c = 0x7f) segment) ErrorCodeInvalidPathSegment]"

abbreviation MaxGenerationIDLength :: nat where "MaxGenerationIDLength \<equiv> 128"
abbreviation MaxJobIDLength :: nat where "MaxJobIDLength \<equiv> 128"
abbreviation MaxIdempotencyKeyLength :: nat where "MaxIdempotencyKeyLength \<equiv> 128"
abbreviation MaxDomainLength :: nat where "MaxDomainLength \<equiv> 253"

type_synonym GenerationID = string
type_synonym Revision = "64 word"

definition ValidateGenerationID :: "string \<Rightarrow> ErrorCode option" where
  "ValidateGenerationID gid = firstErr
     [failIf (isPathTraversal gid \<or> gid = ''.'' \<or> gid = ''..'') ErrorCodePathTraversal,
      failIf (validatePathSegment gid \<noteq> None) ErrorCodeInvalidGeneration,
      failIf (length gid > MaxGenerationIDLength) ErrorCodeInvalidGeneration,
      failIf (list_ex (\<lambda>c. \<not> isUnreserved c) gid) ErrorCodeInvalidGeneration]"

definition ValidateRevision :: "Revision \<Rightarrow> ErrorCode option" where
  "ValidateRevision revision = failIf (revision = 0) ErrorCodeInvalidRevision"

record CertificateVersion =
  cv_Generation :: GenerationID
  cv_Revision :: Revision

definition CertificateVersion_Validate :: "CertificateVersion \<Rightarrow> ErrorCode option" where
  "CertificateVersion_Validate v =
     firstErr [ValidateGenerationID (cv_Generation v), ValidateRevision (cv_Revision v)]"

definition ValidateJobID :: "string \<Rightarrow> ErrorCode option" where
  "ValidateJobID jid = firstErr
     [failIf (isPathTraversal jid \<or> jid = ''.'' \<or> jid = ''..'') ErrorCodePathTraversal,
      failIf (validatePathSegment jid \<noteq> None \<or> length jid > MaxJobIDLength) ErrorCodeInvalidJobID,
      failIf (list_ex (\<lambda>c. \<not> isUnreserved c) jid) ErrorCodeInvalidJobID]"

definition ValidateIdempotencyKey :: "string \<Rightarrow> ErrorCode option" where
  "ValidateIdempotencyKey key = firstErr
     [failIf (key = [] \<or> length key > MaxIdempotencyKeyLength) ErrorCodeInvalidIdempotencyKey,
      failIf (list_ex (\<lambda>c. byteval c < 0x21 \<or> byteval c > 0x7e) key) ErrorCodeInvalidIdempotencyKey]"

section \<open>Domains\<close>

definition labelErr :: "string \<Rightarrow> ErrorCode option" where
  "labelErr label = firstErr
     [failIf (label = [] \<or> length label > 63 \<or> hd label = CHR ''-'' \<or> last label = CHR ''-'')
        ErrorCodeInvalidDomain,
      failIf (list_ex (\<lambda>c. \<not> byteIn (CHR ''a'') (CHR ''z'') c \<and> \<not> byteIn (CHR ''0'') (CHR ''9'') c
                \<and> c \<noteq> CHR ''-'') label) ErrorCodeInvalidDomain]"

text \<open>
  \<^verbatim>\<open>ValidateDomain\<close> over the case mapping and the address parser it calls.  The program
  runs it with \<^verbatim>\<open>strings.ToLower\<close> and \<^verbatim>\<open>net.ParseIP\<close>; \<open>ValidateDomain_oracle\<close> below shows
  that only their values on ASCII strings without a colon matter.
\<close>

definition ValidateDomainWith :: "(string \<Rightarrow> string) \<Rightarrow> (string \<Rightarrow> bool) \<Rightarrow> string \<Rightarrow> ErrorCode option" where
  "ValidateDomainWith toLower parsesAsIP domain = firstErr
     ([failIf (domain = []) ErrorCodeInvalidDomain,
       failIf (length domain > MaxDomainLength \<or> domain \<noteq> toLower domain
               \<or> TrimSpace domain \<noteq> domain \<or> contains (CHR ''*'') domain
               \<or> containsAny domain [CHR ''/'', CHR 0x5C] \<or> parsesAsIP domain
               \<or> \<not> contains (CHR ''.'') domain) ErrorCodeInvalidDomain]
      @ map labelErr (splitOn (CHR ''.'') domain))"

definition ValidateDomain :: "string \<Rightarrow> ErrorCode option" where
  "ValidateDomain = ValidateDomainWith toLowerASCII isIPv4"

section \<open>Files and manifests\<close>

definition fixedFileNames :: "string list" where
  "fixedFileNames = [''cert.pem'', ''key.pem'', ''fullchain.pem'', ''ca.pem'', ''time.log'']"

definition IsFixedFileName :: "string \<Rightarrow> bool" where
  "IsFixedFileName name = list_ex (\<lambda>fixed. name = fixed) fixedFileNames"

definition ValidateFileName :: "string \<Rightarrow> ErrorCode option" where
  "ValidateFileName name = firstErr
     [failIf (name = []) ErrorCodeInvalidFileName,
      failIf (isPathTraversal name \<or> name = ''.'' \<or> name = ''..'') ErrorCodePathTraversal,
      failIf (\<not> IsFixedFileName name) ErrorCodeUnknownFile]"

record FileManifest =
  fm_Name :: string
  fm_Size :: "64 word"
  fm_SHA256 :: string

definition FileManifest_Validate :: "FileManifest \<Rightarrow> ErrorCode option" where
  "FileManifest_Validate f = firstErr
     [ValidateFileName (fm_Name f),
      failIf (sint (fm_Size f) < 0) ErrorCodeInvalidManifest,
      failIf (length (fm_SHA256 f) \<noteq> 64 \<or> length (fm_SHA256 f) div 2 \<noteq> 32
              \<or> \<not> isLowerHex (fm_SHA256 f)) ErrorCodeInvalidManifest]"

type_synonym CertificateManifest = "FileManifest list"

fun manifestLoop :: "string list \<Rightarrow> FileManifest list \<Rightarrow> ErrorCode option" where
  "manifestLoop seen [] = None"
| "manifestLoop seen (file # rest) =
     (case FileManifest_Validate file of
        Some e \<Rightarrow> Some e
      | None \<Rightarrow>
          if fm_Name file \<in> set seen then Some ErrorCodeDuplicateFile
          else manifestLoop (fm_Name file # seen) rest)"

definition CertificateManifest_Validate :: "CertificateManifest \<Rightarrow> ErrorCode option" where
  "CertificateManifest_Validate m = manifestLoop [] m"

section \<open>What the checks give\<close>

lemma isUnreserved_not_sep [simp]:
  "\<not> isUnreserved (CHR ''/'')" "\<not> isUnreserved (CHR 0x5C)"
  by (simp_all add: isUnreserved_def byteIn_def byteval_def)

lemma isUnreserved_visible: "isUnreserved c \<Longrightarrow> visibleASCII c"
  by (auto simp: isUnreserved_def visibleASCII_def byteIn_def byteval_def)

lemma isPathTraversal_iff: "isPathTraversal s \<longleftrightarrow> CHR ''/'' \<in> set s \<or> CHR 0x5C \<in> set s"
  by (auto simp: isPathTraversal_def containsAny_iff)

text \<open>A segment that every later use (URL path, directory name) treats as one plain name.\<close>

definition safeSegment :: "string \<Rightarrow> bool" where
  "safeSegment s = (s \<noteq> [] \<and> s \<noteq> ''.'' \<and> s \<noteq> ''..'' \<and> list_all isUnreserved s)"

lemma list_ex_not: "list_ex (\<lambda>c. \<not> p c) s = (\<not> list_all p s)"
  by (simp add: list_ex_iff list_all_iff)

lemma safeSegment_no_slash: "safeSegment s \<Longrightarrow> CHR ''/'' \<notin> set s"
  using isUnreserved_not_sep by (auto simp: safeSegment_def list_all_iff)

lemma unreserved_no_traversal: "list_all isUnreserved s \<Longrightarrow> \<not> isPathTraversal s"
  using isUnreserved_not_sep unfolding isPathTraversal_iff list_all_iff by blast

lemma unreserved_no_control: "list_all isUnreserved s \<Longrightarrow> \<not> list_ex (\<lambda>c. byteval c < 0x20 \<or> byteval c = 0x7f) s"
  using isUnreserved_visible by (fastforce simp: list_all_iff list_ex_iff visibleASCII_def)

lemma safeSegment_validatePathSegment: "safeSegment s \<Longrightarrow> validatePathSegment s = None"
  unfolding safeSegment_def validatePathSegment_def
  by (simp add: unreserved_no_traversal unreserved_no_control)

lemma ValidateGenerationID_ok [valid_simps]:
  "ValidateGenerationID s = None \<longleftrightarrow> safeSegment s \<and> length s \<le> 128"
proof
  assume "ValidateGenerationID s = None"
  then show "safeSegment s \<and> length s \<le> 128"
    by (auto simp: ValidateGenerationID_def validatePathSegment_def safeSegment_def list_ex_not)
next
  assume "safeSegment s \<and> length s \<le> 128"
  then show "ValidateGenerationID s = None"
    using safeSegment_validatePathSegment[of s]
    by (auto simp: ValidateGenerationID_def safeSegment_def list_ex_not unreserved_no_traversal)
qed

lemma ValidateJobID_ok [valid_simps]:
  "ValidateJobID s = None \<longleftrightarrow> safeSegment s \<and> length s \<le> 128"
proof
  assume "ValidateJobID s = None"
  then show "safeSegment s \<and> length s \<le> 128"
    by (auto simp: ValidateJobID_def validatePathSegment_def safeSegment_def list_ex_not)
next
  assume "safeSegment s \<and> length s \<le> 128"
  then show "ValidateJobID s = None"
    using safeSegment_validatePathSegment[of s]
    by (auto simp: ValidateJobID_def safeSegment_def list_ex_not unreserved_no_traversal)
qed

lemma ValidateRevision_ok [valid_simps]: "ValidateRevision r = None \<longleftrightarrow> r \<noteq> 0"
  by (simp add: ValidateRevision_def)

lemma ValidateIdempotencyKey_ok [valid_simps]:
  "ValidateIdempotencyKey k = None \<longleftrightarrow> k \<noteq> [] \<and> length k \<le> 128 \<and> list_all visibleASCII k"
  by (auto simp: ValidateIdempotencyKey_def list_ex_iff list_all_iff visibleASCII_def not_less)

definition domainByte :: "char \<Rightarrow> bool" where
  "domainByte c = (byteIn (CHR ''a'') (CHR ''z'') c \<or> byteIn (CHR ''0'') (CHR ''9'') c \<or> c = CHR ''-'')"

definition domainLabel :: "string \<Rightarrow> bool" where
  "domainLabel l = (l \<noteq> [] \<and> length l \<le> 63 \<and> hd l \<noteq> CHR ''-'' \<and> last l \<noteq> CHR ''-''
     \<and> list_all domainByte l)"

lemma labelErr_ok [valid_simps]: "labelErr l = None \<longleftrightarrow> domainLabel l"
  by (auto simp: labelErr_def domainLabel_def domainByte_def list_ex_iff list_all_iff not_less)

text \<open>The hosts the protocol accepts: at least two DNS labels, at most 253 bytes, no IPv4 address.\<close>

definition hostName :: "string \<Rightarrow> bool" where
  "hostName d = (length d \<le> 253 \<and> length (splitOn (CHR ''.'') d) \<ge> 2
     \<and> list_all domainLabel (splitOn (CHR ''.'') d) \<and> \<not> isIPv4 d)"

lemma domainByte_facts:
  "domainByte c \<Longrightarrow> isUnreserved c"
  "domainByte c \<Longrightarrow> lowerByte c = c"
  "domainByte c \<Longrightarrow> c \<noteq> CHR ''*''"
  "domainByte c \<Longrightarrow> byteval c < 128 \<and> c \<noteq> CHR '':''"
  by (auto simp: domainByte_def isUnreserved_def lowerByte_def byteIn_def byteval_def)

lemma splitOn_length_1: "length (splitOn c s) \<ge> 2 \<longleftrightarrow> c \<in> set s"
proof (induction s)
  case (Cons x xs)
  then show ?case
    using splitOn_nonempty[of c xs]
    by (cases "splitOn c xs") (auto simp: Suc_le_eq numeral_2_eq_2)
qed simp

lemma labels_bytes:
  "list_all domainLabel (splitOn (CHR ''.'') d) \<Longrightarrow> c \<in> set d \<Longrightarrow> domainByte c \<or> c = CHR ''.''"
proof -
  assume labels: "list_all domainLabel (splitOn (CHR ''.'') d)" and c: "c \<in> set d"
  show ?thesis
  proof (cases "c = CHR ''.''")
    case False
    then obtain l where "l \<in> set (splitOn (CHR ''.'') d)" "c \<in> set l"
      using c splitOn_set[of "CHR ''.''" d] by blast
    then show ?thesis
      using labels unfolding list_all_iff domainLabel_def by blast
  qed simp
qed

lemma labels_unreserved:
  "list_all domainLabel (splitOn (CHR ''.'') d) \<Longrightarrow> list_all isUnreserved d"
proof -
  assume labels: "list_all domainLabel (splitOn (CHR ''.'') d)"
  have "isUnreserved c" if "c \<in> set d" for c
    using labels_bytes[OF labels that] domainByte_facts(1) by (auto simp: isUnreserved_def)
  then show ?thesis
    by (simp add: list_all_iff)
qed

lemma labels_lower:
  assumes "list_all domainLabel (splitOn (CHR ''.'') d)"
  shows "toLowerASCII d = d"
proof -
  have "lowerByte c = c" if "c \<in> set d" for c
    using labels_bytes[OF assms that]
  proof
    assume "c = CHR ''.''"
    then show ?thesis
      by (simp add: lowerByte_def byteIn_def byteval_def)
  qed (rule domainByte_facts(2))
  then show ?thesis
    by (simp add: toLowerASCII_def map_idI)
qed

lemma labels_plain:
  assumes "list_all domainLabel (splitOn (CHR ''.'') d)"
  shows "TrimSpace d = d" "\<not> contains (CHR ''*'') d" "\<not> containsAny d [CHR ''/'', CHR 0x5C]"
proof -
  have unres: "list_all isUnreserved d"
    using assms by (rule labels_unreserved)
  then show "TrimSpace d = d"
    using isUnreserved_visible by (simp add: list_all_iff)
  show "\<not> contains (CHR ''*'') d"
    using labels_bytes[OF assms] domainByte_facts(3) by (auto simp: contains_def)
  show "\<not> containsAny d [CHR ''/'', CHR 0x5C]"
    using unreserved_no_traversal[OF unres] by (simp add: isPathTraversal_def)
qed

lemma ValidateDomainWith_ok:
  "ValidateDomainWith low ip d = None \<longleftrightarrow>
     length d \<le> 253 \<and> CHR ''.'' \<in> set d \<and> low d = d \<and> \<not> ip d
     \<and> list_all domainLabel (splitOn (CHR ''.'') d)"
proof
  assume "ValidateDomainWith low ip d = None"
  then show "length d \<le> 253 \<and> CHR ''.'' \<in> set d \<and> low d = d \<and> \<not> ip d
     \<and> list_all domainLabel (splitOn (CHR ''.'') d)"
    by (auto simp: ValidateDomainWith_def contains_def list_all_iff ball_Un valid_simps)
next
  assume *: "length d \<le> 253 \<and> CHR ''.'' \<in> set d \<and> low d = d \<and> \<not> ip d
     \<and> list_all domainLabel (splitOn (CHR ''.'') d)"
  then have "TrimSpace d = d" "\<not> contains (CHR ''*'') d" "\<not> containsAny d [CHR ''/'', CHR 0x5C]"
    using labels_plain by blast+
  with * show "ValidateDomainWith low ip d = None"
    by (auto simp: ValidateDomainWith_def contains_def list_all_iff ball_Un valid_simps)
qed

lemma ValidateDomain_ok [valid_simps]: "ValidateDomain d = None \<longleftrightarrow> hostName d"
  unfolding ValidateDomain_def ValidateDomainWith_ok hostName_def splitOn_length_1
  using labels_lower by blast

lemma ValidateDomain_code: "ValidateDomainWith low ip d = Some e \<Longrightarrow> e = ErrorCodeInvalidDomain"
proof -
  have label: "Some e = labelErr l \<Longrightarrow> e = ErrorCodeInvalidDomain" for l
    by (simp add: labelErr_def firstErr.simps failIf_def split: if_splits)
  assume "ValidateDomainWith low ip d = Some e"
  then have "Some e \<in> set ([failIf (d = []) ErrorCodeInvalidDomain,
       failIf (length d > MaxDomainLength \<or> d \<noteq> low d
               \<or> TrimSpace d \<noteq> d \<or> contains (CHR ''*'') d
               \<or> containsAny d [CHR ''/'', CHR 0x5C] \<or> ip d
               \<or> \<not> contains (CHR ''.'') d) ErrorCodeInvalidDomain]
      @ map labelErr (splitOn (CHR ''.'') d))"
    unfolding ValidateDomainWith_def by (rule firstErr_Some_mem)
  then show ?thesis
    using label by (auto simp: failIf_def simp del: failIf_Some split: if_splits)
qed

lemma ValidateDomain_oracle:
  assumes "\<And>s. \<forall>c\<in>set s. byteval c < 128 \<Longrightarrow> low s = toLowerASCII s"
    and "\<And>s. CHR '':'' \<notin> set s \<Longrightarrow> ip s = isIPv4 s"
  shows "ValidateDomainWith low ip d = ValidateDomain d"
proof -
  have "ValidateDomainWith low ip d = None \<longleftrightarrow> ValidateDomain d = None"
  proof (cases "list_all domainLabel (splitOn (CHR ''.'') d)")
    case True
    have "byteval c < 128 \<and> c \<noteq> CHR '':''" if "c \<in> set d" for c
      using labels_bytes[OF True that] domainByte_facts(4) by (auto simp: byteval_def)
    then have "low d = toLowerASCII d" "ip d = isIPv4 d"
      using assms by blast+
    then show ?thesis
      by (simp add: ValidateDomain_def ValidateDomainWith_ok)
  qed (simp add: ValidateDomain_def ValidateDomainWith_ok)
  then show ?thesis
    unfolding ValidateDomain_def
    by (cases "ValidateDomainWith low ip d"; cases "ValidateDomainWith toLowerASCII isIPv4 d")
      (auto dest: ValidateDomain_code)
qed

lemma hostName_safeSegment: "hostName d \<Longrightarrow> safeSegment d"
proof -
  assume h: "hostName d"
  then have u: "list_all isUnreserved d"
    using labels_unreserved by (simp add: hostName_def)
  have "d \<noteq> [] \<and> d \<noteq> ''.'' \<and> d \<noteq> ''..''"
    using h by (auto simp: hostName_def domainLabel_def)
  with u show ?thesis
    by (simp add: safeSegment_def)
qed

lemma ValidateFileName_ok [valid_simps]: "ValidateFileName n = None \<longleftrightarrow> n \<in> set fixedFileNames"
  by (auto simp: ValidateFileName_def IsFixedFileName_def fixedFileNames_def isPathTraversal_iff)

lemma fixedFileName_safe: "n \<in> set fixedFileNames \<Longrightarrow> safeSegment n"
  by (auto simp: fixedFileNames_def safeSegment_def isUnreserved_def byteIn_def byteval_def)

lemma manifestLoop_None:
  "manifestLoop seen m = None \<longleftrightarrow>
     (\<forall>f\<in>set m. FileManifest_Validate f = None \<and> fm_Name f \<notin> set seen) \<and> distinct (map fm_Name m)"
proof (induction seen m rule: manifestLoop.induct)
  case (2 seen f rest)
  show ?case
  proof (cases "FileManifest_Validate f = None \<and> fm_Name f \<notin> set seen")
    case True
    then show ?thesis
      using 2 by (auto simp: image_iff)
  qed (auto split: option.split)
qed simp

lemma HTTPStatus_client_range:
  "HTTPStatusForErrorCode c \<in> {400, 401, 403, 404, 409, 500}"
  by (simp add: HTTPStatusForErrorCode_def)

section \<open>Properties\<close>

text \<open>A valid manifest.  Validation accepts exactly the manifests whose entries have a
  fixed file name, a non-negative size and a 64-digit lower-case hexadecimal digest, and
  whose names are pairwise different; so a valid manifest has at most five entries.\<close>

theorem manifest_contract:
  "(CertificateManifest_Validate m = None \<longleftrightarrow>
      list_all (\<lambda>f. fm_Name f \<in> set fixedFileNames \<and> 0 \<le> sint (fm_Size f)
                  \<and> length (fm_SHA256 f) = 64 \<and> isLowerHex (fm_SHA256 f)) m
      \<and> distinct (map fm_Name m))
   \<and> (if CertificateManifest_Validate m = None then length m \<le> 5 else True)"
proof -
  have each: "FileManifest_Validate f = None \<longleftrightarrow> fm_Name f \<in> set fixedFileNames \<and> 0 \<le> sint (fm_Size f)
      \<and> length (fm_SHA256 f) = 64 \<and> isLowerHex (fm_SHA256 f)" for f
    by (auto simp: FileManifest_Validate_def valid_simps not_less)
  have iff: "CertificateManifest_Validate m = None \<longleftrightarrow>
      list_all (\<lambda>f. fm_Name f \<in> set fixedFileNames \<and> 0 \<le> sint (fm_Size f)
                  \<and> length (fm_SHA256 f) = 64 \<and> isLowerHex (fm_SHA256 f)) m \<and> distinct (map fm_Name m)"
    by (simp add: CertificateManifest_Validate_def manifestLoop_None each list_all_iff)
  have "length m \<le> 5" if "CertificateManifest_Validate m = None"
  proof -
    have "set (map fm_Name m) \<subseteq> set fixedFileNames" "distinct (map fm_Name m)"
      using that unfolding iff by (auto simp: list_all_iff)
    then have "length (map fm_Name m) \<le> card (set fixedFileNames)"
      by (metis card_mono distinct_card finite_set)
    then show ?thesis
      by (simp add: fixedFileNames_def)
  qed
  with iff show ?thesis by simp
qed

end
