(* ===== verification/UrlPath.thy ===== *)
theory UrlPath
  imports Certproto
begin

text \<open>
  URL construction (\<^verbatim>\<open>pkg/certproto/path.go\<close>) and the matching route parser of the server
  (\<^verbatim>\<open>internal/api/v2.go\<close>, \<^verbatim>\<open>internal/api/server.go\<close>).  The locale \<open>segment_check\<close> states the
  one promise URL construction needs from an identifier check; it is interpreted on the
  four checks of the protocol.
\<close>

section \<open>Escaping\<close>

text \<open>\<^verbatim>\<open>url.PathEscape\<close>: a byte is kept when it is unreserved or one of \<^verbatim>\<open>$ & + = : @\<close>.\<close>

definition keepsInSegment :: "char \<Rightarrow> bool" where
  "keepsInSegment c = (isUnreserved c \<or> c \<in> set ''$&+=:@'')"

definition escapeByte :: "char \<Rightarrow> string" where
  "escapeByte c = (if keepsInSegment c then [c]
     else [CHR ''%'', upperHexDigit (byteval c div 16), upperHexDigit (byteval c mod 16)])"

definition PathEscape :: "string \<Rightarrow> string" where
  "PathEscape s = concat (map escapeByte s)"

definition unhex :: "char \<Rightarrow> nat option" where
  "unhex c = (if byteIn (CHR ''0'') (CHR ''9'') c then Some (byteval c - 48)
     else if byteIn (CHR ''a'') (CHR ''f'') c then Some (byteval c - 87)
     else if byteIn (CHR ''A'') (CHR ''F'') c then Some (byteval c - 55)
     else None)"

text \<open>\<^verbatim>\<open>url.PathUnescape\<close>, which gives \<^verbatim>\<open>r.URL.Path\<close> on the server.\<close>

fun PathUnescape :: "string \<Rightarrow> string option" where
  "PathUnescape [] = Some []"
| "PathUnescape (c # s) =
     (if c \<noteq> CHR ''%'' then map_option ((#) c) (PathUnescape s)
      else (case s of
          h # l # rest \<Rightarrow>
            (case (unhex h, unhex l) of
               (Some a, Some b) \<Rightarrow> map_option ((#) (char_of (16 * a + b))) (PathUnescape rest)
             | _ \<Rightarrow> None)
        | _ \<Rightarrow> None))"

lemma byteval_upperHexDigit: "n < 16 \<Longrightarrow> byteval (upperHexDigit n) = (if n < 10 then 48 + n else 55 + n)"
  by (simp add: upperHexDigit_def byteval_def)

lemma upperHexDigit_not_slash: "n < 16 \<Longrightarrow> upperHexDigit n \<noteq> CHR ''/''"
proof
  assume n: "n < 16" and "upperHexDigit n = CHR ''/''"
  then have "byteval (CHR ''/'') = (if n < 10 then 48 + n else 55 + n)"
    using byteval_upperHexDigit[OF n] by simp
  then show False
    by (simp add: byteval_def split: if_splits)
qed

lemma unhex_upper: "n < 16 \<Longrightarrow> unhex (upperHexDigit n) = Some n"
  unfolding unhex_def byteIn_def by (simp add: byteval_upperHexDigit) (simp add: byteval_def)

lemma keepsInSegment_facts [simp]:
  "\<not> keepsInSegment (CHR ''%'')" "\<not> keepsInSegment (CHR ''/'')"
  by (simp_all add: keepsInSegment_def isUnreserved_def byteIn_def byteval_def)

lemma byte_nibbles: "byteval c div 16 < 16" "byteval c mod 16 < 16"
  using byteval_less[of c] by (simp_all add: less_mult_imp_div_less)

lemma char_of_byteval [simp]: "char_of (byteval c) = c"
  by (simp add: byteval_def)

lemma PathUnescape_escapeByte: "PathUnescape (escapeByte c @ s) = map_option ((#) c) (PathUnescape s)"
proof (cases "keepsInSegment c")
  case True
  then have "c \<noteq> CHR ''%''"
    by (metis keepsInSegment_facts(1))
  with True show ?thesis
    by (simp add: escapeByte_def)
next
  case False
  then show ?thesis
    using byte_nibbles[of c] by (simp add: escapeByte_def unhex_upper)
qed

lemma PathUnescape_PathEscape: "PathUnescape (PathEscape s) = Some s"
  by (induction s) (simp_all add: PathEscape_def PathUnescape_escapeByte)

lemma PathUnescape_plain: "CHR ''%'' \<notin> set s \<Longrightarrow> PathUnescape s = Some s"
  by (induction s) auto

lemma PathEscape_no_slash: "CHR ''/'' \<notin> set (PathEscape s)"
proof -
  have "CHR ''/'' \<notin> set (escapeByte c)" for c
    using upperHexDigit_not_slash[OF byte_nibbles(1)[of c]]
      upperHexDigit_not_slash[OF byte_nibbles(2)[of c]]
    by (auto simp: escapeByte_def)
  then show ?thesis
    by (auto simp: PathEscape_def)
qed

lemma PathEscape_unreserved: "list_all isUnreserved s \<Longrightarrow> PathEscape s = s"
  by (induction s) (auto simp: PathEscape_def escapeByte_def keepsInSegment_def)

section \<open>Building paths\<close>

definition EscapePathSegment :: "string \<Rightarrow> ErrorCode + string" where
  "EscapePathSegment segment = guardR (validatePathSegment segment) (Inr (PathEscape segment))"

fun escapeAll :: "string list \<Rightarrow> ErrorCode + string list" where
  "escapeAll [] = Inr []"
| "escapeAll (s # ss) = bindR (EscapePathSegment s) (\<lambda>v. bindR (escapeAll ss) (\<lambda>vs. Inr (v # vs)))"

definition BuildURLPath :: "string list \<Rightarrow> ErrorCode + string" where
  "BuildURLPath segments =
     (if segments = [] then Inl ErrorCodeInvalidPathSegment
      else bindR (escapeAll segments) (\<lambda>escaped. Inr (CHR ''/'' # joinWith ''/'' escaped)))"

definition V2APIPath :: string where "V2APIPath = ''/api/v2''"

definition v2PathSegments :: "string list" where
  "v2PathSegments = splitOn (CHR ''/'') (trimPrefix V2APIPath ''/'')"

abbreviation CertificatesPathSegment :: string where "CertificatesPathSegment \<equiv> ''certs''"
abbreviation GenerationsPathSegment :: string where "GenerationsPathSegment \<equiv> ''generations''"
abbreviation FilesPathSegment :: string where "FilesPathSegment \<equiv> ''files''"
abbreviation JobsPathSegment :: string where "JobsPathSegment \<equiv> ''jobs''"
abbreviation ReconcilePathSegment :: string where "ReconcilePathSegment \<equiv> ''reconcile''"
abbreviation StatusPathSegment :: string where "StatusPathSegment \<equiv> ''status''"
abbreviation ManifestPathSegment :: string where "ManifestPathSegment \<equiv> ''manifest''"
abbreviation DeploymentsPathSegment :: string where "DeploymentsPathSegment \<equiv> ''deployments''"

definition ReconcileURLPath :: "string \<Rightarrow> ErrorCode + string" where
  "ReconcileURLPath domain = guardR (ValidateDomain domain)
     (BuildURLPath [v2PathSegments ! 0, v2PathSegments ! 1, CertificatesPathSegment, domain,
                    ReconcilePathSegment])"

definition CertificateStatusURLPath :: "string \<Rightarrow> ErrorCode + string" where
  "CertificateStatusURLPath domain = guardR (ValidateDomain domain)
     (BuildURLPath [v2PathSegments ! 0, v2PathSegments ! 1, CertificatesPathSegment, domain,
                    StatusPathSegment])"

definition ManifestURLPath :: "string \<Rightarrow> string \<Rightarrow> ErrorCode + string" where
  "ManifestURLPath domain generationID = guardR (ValidateDomain domain)
     (guardR (ValidateGenerationID generationID)
       (BuildURLPath [v2PathSegments ! 0, v2PathSegments ! 1, CertificatesPathSegment, domain,
                      GenerationsPathSegment, generationID, ManifestPathSegment]))"

definition CertificateFileURLPath :: "string \<Rightarrow> string \<Rightarrow> string \<Rightarrow> ErrorCode + string" where
  "CertificateFileURLPath domain generationID fileName = guardR (ValidateDomain domain)
     (guardR (ValidateGenerationID generationID)
       (guardR (ValidateFileName fileName)
         (BuildURLPath [v2PathSegments ! 0, v2PathSegments ! 1, CertificatesPathSegment, domain,
                        GenerationsPathSegment, generationID, FilesPathSegment, fileName])))"

definition DeploymentsURLPath :: "string \<Rightarrow> ErrorCode + string" where
  "DeploymentsURLPath domain = guardR (ValidateDomain domain)
     (BuildURLPath [v2PathSegments ! 0, v2PathSegments ! 1, CertificatesPathSegment, domain,
                    DeploymentsPathSegment])"

definition JobURLPath :: "string \<Rightarrow> ErrorCode + string" where
  "JobURLPath jobID = guardR (ValidateJobID jobID)
     (BuildURLPath [v2PathSegments ! 0, v2PathSegments ! 1, JobsPathSegment, jobID])"

section \<open>Routing\<close>

definition trimSlashes :: "string \<Rightarrow> string" where
  "trimSlashes p = rev (dropWhile (\<lambda>c. c = CHR ''/'') (rev (dropWhile (\<lambda>c. c = CHR ''/'') p)))"

definition splitPath :: "string \<Rightarrow> string list" where
  "splitPath p = (let q = trimSlashes p in if q = [] then [] else splitOn (CHR ''/'') q)"

definition routeParts :: "string \<Rightarrow> string \<Rightarrow> string list" where
  "routeParts path pre =
     (if path \<noteq> pre \<and> \<not> hasPrefix path (pre @ ''/'') then []
      else splitPath (trimPrefix path pre))"

definition v2CertsPrefix :: string where
  "v2CertsPrefix = V2APIPath @ ''/'' @ CertificatesPathSegment"

definition v2JobsPrefix :: string where
  "v2JobsPrefix = V2APIPath @ ''/'' @ JobsPathSegment"

record v2CertOp =
  op_name :: string
  op_method :: string
  op_domain :: string
  op_generation :: string
  op_fileName :: string

definition parseV2CertPath :: "string list \<Rightarrow> v2CertOp option" where
  "parseV2CertPath parts =
     (if length parts = 0 \<or> parts ! 0 = [] then None
      else let n = length parts;
               mk = (\<lambda>name method generation fileName.
                 Some \<lparr>op_name = name, op_method = method, op_domain = parts ! 0,
                       op_generation = generation, op_fileName = fileName\<rparr>)
        in if n = 2 \<and> parts ! 1 = ''reconcile'' then mk ''reconcile'' ''POST'' [] []
           else if n = 2 \<and> parts ! 1 = ''status'' then mk ''status'' ''GET'' [] []
           else if n = 2 \<and> parts ! 1 = ''deployments'' then mk ''deployments'' ''POST'' [] []
           else if n = 4 \<and> parts ! 1 = GenerationsPathSegment \<and> parts ! 2 \<noteq> []
                \<and> parts ! 3 = ''manifest'' then mk ''manifest'' ''GET'' (parts ! 2) []
           else if n = 5 \<and> parts ! 1 = GenerationsPathSegment \<and> parts ! 2 \<noteq> []
                \<and> parts ! 3 = FilesPathSegment then mk ''file'' ''GET'' (parts ! 2) (parts ! 4)
           else None)"

definition v2CertMethods :: "string \<Rightarrow> string list" where
  "v2CertMethods path =
     (case parseV2CertPath (routeParts path v2CertsPrefix) of
        None \<Rightarrow> []
      | Some op \<Rightarrow> [op_method op])"

definition v2JobMethods :: "string \<Rightarrow> string list" where
  "v2JobMethods path =
     (let parts = routeParts path v2JobsPrefix
      in if length parts = 1 \<and> parts ! 0 \<noteq> [] then [''GET''] else [])"

definition adminTokenMethods :: "string \<Rightarrow> string list" where
  "adminTokenMethods path =
     (let n = length (routeParts path ''/api/v1/admin/tokens'')
      in if n = 0 then [''GET'', ''POST'']
         else if n = 1 then [''GET'', ''PUT'', ''PATCH'', ''DELETE'']
         else [])"

definition adminCertMethods :: "string \<Rightarrow> string list" where
  "adminCertMethods path =
     (let parts = routeParts path ''/api/v1/admin/certs'';
          n = length parts
      in if n = 0 then [''GET'', ''POST'']
         else if n = 1 \<and> parts ! 0 = ''status'' then [''GET'']
         else if n = 1 then [''DELETE'']
         else if n = 2 \<and> parts ! 1 = ''reissue'' then [''POST'']
         else [])"

definition adminSecretMethods :: "string \<Rightarrow> string list" where
  "adminSecretMethods path =
     (let n = length (routeParts path ''/api/v1/admin/secrets'')
      in if n = 0 then [''GET'', ''POST'']
         else if n = 1 \<or> n = 2 then [''DELETE'']
         else [])"

definition adminProviderMethods :: "string \<Rightarrow> string list" where
  "adminProviderMethods path =
     (let parts = routeParts path ''/api/v1/admin/providers''
      in if length parts = 0 \<or> length parts = 2 \<and> parts ! 1 = ''parameters'' then [''GET''] else [])"

datatype 'r routed = NotFound404 | MethodNotAllowed405 string | Handled 'r

definition methodHandler :: "string list \<Rightarrow> string \<Rightarrow> 'r \<Rightarrow> 'r routed" where
  "methodHandler methods method h =
     (if method \<notin> set methods then MethodNotAllowed405 (joinWith '', '' methods) else Handled h)"

definition routeMethodHandler ::
  "(string \<Rightarrow> string list) \<Rightarrow> string \<Rightarrow> string \<Rightarrow> 'r \<Rightarrow> 'r routed" where
  "routeMethodHandler methodsForPath method path h =
     (let methods = methodsForPath path
      in if length methods = 0 then NotFound404 else methodHandler methods method h)"

section \<open>Splitting a built path\<close>

lemma trimSlashes_ends:
  assumes "ws \<noteq> []" "\<forall>w\<in>set ws. w \<noteq> [] \<and> CHR ''/'' \<notin> set w"
  shows "trimSlashes (CHR ''/'' # joinWith ''/'' ws) = joinWith ''/'' ws"
proof -
  have ends: "joinWith ''/'' ws \<noteq> [] \<and> hd (joinWith ''/'' ws) \<noteq> CHR ''/''
      \<and> last (joinWith ''/'' ws) \<noteq> CHR ''/''"
    using assms
  proof (induction "''/''" ws rule: joinWith.induct)
    case (2 w)
    then show ?case by (cases w) (auto dest: last_in_set split: if_splits)
  next
    case (3 w v ws)
    then show ?case by (cases w) auto
  qed simp
  let ?j = "joinWith ''/'' ws"
  have "dropWhile (\<lambda>c. c = CHR ''/'') (CHR ''/'' # ?j) = ?j"
    using ends by (cases ?j) auto
  moreover have "dropWhile (\<lambda>c. c = CHR ''/'') (rev ?j) = rev ?j"
    using ends by (cases "rev ?j") (auto simp: hd_rev[symmetric])
  ultimately show ?thesis
    by (simp add: trimSlashes_def)
qed

lemma splitPath_join:
  assumes "ws \<noteq> []" "\<forall>w\<in>set ws. w \<noteq> [] \<and> CHR ''/'' \<notin> set w"
  shows "splitPath (CHR ''/'' # joinWith ''/'' ws) = ws"
proof -
  have "joinWith ''/'' ws \<noteq> []"
    using assms by (cases "(''/'', ws)" rule: joinWith.cases) auto
  then show ?thesis
    using assms by (simp add: splitPath_def trimSlashes_ends splitOn_joinWith)
qed

lemma routeParts_join:
  assumes "ws \<noteq> []" "\<forall>w\<in>set ws. w \<noteq> [] \<and> CHR ''/'' \<notin> set w"
  shows "routeParts (pre @ CHR ''/'' # joinWith ''/'' ws) pre = ws"
  using splitPath_join[OF assms] by (simp add: routeParts_def hasPrefix_def trimPrefix_def)

lemma joinWith_Cons: "ws \<noteq> [] \<Longrightarrow> joinWith sep (w # ws) = w @ sep @ joinWith sep ws"
  by (cases ws) simp_all

lemma safe_parts: "\<forall>w\<in>set ws. safeSegment w \<Longrightarrow> \<forall>w\<in>set ws. w \<noteq> [] \<and> CHR ''/'' \<notin> set w"
  using safeSegment_no_slash by (auto simp: safeSegment_def)

section \<open>The interface of an identifier check\<close>

locale segment_check =
  fixes check :: "string \<Rightarrow> ErrorCode option"
  assumes check_safe: "check s = None \<Longrightarrow> safeSegment s"
begin

lemma escape_identity: "check s = None \<Longrightarrow> EscapePathSegment s = Inr s"
  using check_safe[of s] safeSegment_validatePathSegment[of s]
  by (simp add: EscapePathSegment_def safeSegment_def PathEscape_unreserved)

lemma escape_fixed: "safeSegment s \<Longrightarrow> EscapePathSegment s = Inr s"
  using safeSegment_validatePathSegment[of s]
  by (simp add: EscapePathSegment_def safeSegment_def PathEscape_unreserved)

lemma one_path_level: "check s = None \<Longrightarrow> splitOn (CHR ''/'') s = [s]"
  using check_safe safeSegment_no_slash by (simp add: splitOn_no_sep)

lemma not_dots: "check s = None \<Longrightarrow> s \<noteq> [] \<and> s \<noteq> ''.'' \<and> s \<noteq> ''..''"
  using check_safe by (simp add: safeSegment_def)

end

interpretation domain_seg: segment_check ValidateDomain
  by unfold_locales (simp add: valid_simps hostName_safeSegment)

interpretation generation_seg: segment_check ValidateGenerationID
  by unfold_locales (simp add: valid_simps)

interpretation job_seg: segment_check ValidateJobID
  by unfold_locales (simp add: valid_simps)

interpretation file_seg: segment_check ValidateFileName
  by unfold_locales (simp add: valid_simps fixedFileName_safe)

lemma escapeAll_safe: "\<forall>w\<in>set ws. safeSegment w \<Longrightarrow> escapeAll ws = Inr ws"
  by (induction ws) (simp_all add: job_seg.escape_fixed)

lemma BuildURLPath_safe:
  "ws \<noteq> [] \<Longrightarrow> \<forall>w\<in>set ws. safeSegment w \<Longrightarrow> BuildURLPath ws = Inr (CHR ''/'' # joinWith ''/'' ws)"
  by (simp add: BuildURLPath_def escapeAll_safe)

lemma fixed_segments_safe:
  "safeSegment ''api''" "safeSegment ''v2''" "safeSegment ''certs''" "safeSegment ''jobs''"
  "safeSegment ''generations''" "safeSegment ''files''" "safeSegment ''reconcile''"
  "safeSegment ''status''" "safeSegment ''manifest''" "safeSegment ''deployments''"
  by (simp_all add: safeSegment_def isUnreserved_def byteIn_def byteval_def)

lemma v2PathSegments_eval: "v2PathSegments = [''api'', ''v2'']"
  by (simp add: v2PathSegments_def V2APIPath_def trimPrefix_def)

lemma v2CertsPrefix_eval: "v2CertsPrefix = ''/api/v2/certs''"
  by (simp add: v2CertsPrefix_def V2APIPath_def)

lemma v2JobsPrefix_eval: "v2JobsPrefix = ''/api/v2/jobs''"
  by (simp add: v2JobsPrefix_def V2APIPath_def)

lemma cert_path_parts:
  assumes "BuildURLPath (''api'' # ''v2'' # ''certs'' # ws) = Inr url"
    and "ws \<noteq> []" "\<forall>w\<in>set ws. safeSegment w"
  shows "routeParts url v2CertsPrefix = ws" "CHR ''%'' \<notin> set url"
proof -
  have url: "url = v2CertsPrefix @ CHR ''/'' # joinWith ''/'' ws"
    using assms BuildURLPath_safe[of "''api'' # ''v2'' # ''certs'' # ws"]
    by (simp add: fixed_segments_safe joinWith_Cons v2CertsPrefix_eval)
  then show "routeParts url v2CertsPrefix = ws"
    using assms(2) safe_parts[OF assms(3)] by (simp add: routeParts_join)
  have "CHR ''%'' \<notin> set (joinWith ''/'' ws)"
    using assms(3)
    by (induction "''/''" ws rule: joinWith.induct)
      (auto simp: safeSegment_def list_all_iff isUnreserved_def byteIn_def byteval_def)
  then show "CHR ''%'' \<notin> set url"
    by (simp add: url v2CertsPrefix_eval)
qed

lemma job_path_parts:
  assumes "BuildURLPath [''api'', ''v2'', ''jobs'', jid] = Inr url" "safeSegment jid"
  shows "routeParts url v2JobsPrefix = [jid]" "CHR ''%'' \<notin> set url"
proof -
  have url: "url = v2JobsPrefix @ CHR ''/'' # joinWith ''/'' [jid]"
    using assms BuildURLPath_safe[of "[''api'', ''v2'', ''jobs'', jid]"]
    by (simp add: fixed_segments_safe v2JobsPrefix_eval)
  show "routeParts url v2JobsPrefix = [jid]"
    unfolding url by (rule routeParts_join) (use assms(2) safe_parts[of "[jid]"] in auto)
  show "CHR ''%'' \<notin> set url"
    using assms(2)
    by (auto simp: url v2JobsPrefix_eval safeSegment_def list_all_iff isUnreserved_def byteIn_def byteval_def)
qed

section \<open>Properties\<close>

text \<open>What the server's certificate routes make of a request URL.\<close>

definition routedOp :: "string \<Rightarrow> v2CertOp option" where
  "routedOp url =
     (case PathUnescape url of
        None \<Rightarrow> None
      | Some path \<Rightarrow> parseV2CertPath (routeParts path v2CertsPrefix))"

lemma routedOp_built:
  assumes "BuildURLPath (''api'' # ''v2'' # ''certs'' # ws) = Inr url" "ws \<noteq> []" "\<forall>w\<in>set ws. safeSegment w"
  shows "routedOp url = parseV2CertPath ws"
  using cert_path_parts[OF assms] by (simp add: routedOp_def PathUnescape_plain)

lemma build_cert_path:
  assumes "ws \<noteq> []" "\<forall>w\<in>set ws. safeSegment w"
  shows "\<exists>url. BuildURLPath (''api'' # ''v2'' # ''certs'' # ws) = Inr url \<and> routedOp url = parseV2CertPath ws"
proof -
  have "BuildURLPath (''api'' # ''v2'' # ''certs'' # ws) =
      Inr (CHR ''/'' # joinWith ''/'' (''api'' # ''v2'' # ''certs'' # ws))"
    using assms by (intro BuildURLPath_safe) (auto simp: fixed_segments_safe)
  then show ?thesis
    using routedOp_built[OF _ assms] by blast
qed

text \<open>C10: Client and server agree on URLs.  For a valid domain, generation and file name every
  URL builder succeeds, and the server's router maps the URL it builds back to the same
  operation, method and arguments.\<close>

theorem built_urls_route_back:
  assumes "ValidateDomain d = None" "ValidateGenerationID g = None" "ValidateFileName f = None"
  shows "(\<exists>u. ReconcileURLPath d = Inr u \<and> routedOp u =
            Some \<lparr>op_name = ''reconcile'', op_method = ''POST'', op_domain = d, op_generation = [], op_fileName = []\<rparr>)
     \<and> (\<exists>u. CertificateStatusURLPath d = Inr u \<and> routedOp u =
            Some \<lparr>op_name = ''status'', op_method = ''GET'', op_domain = d, op_generation = [], op_fileName = []\<rparr>)
     \<and> (\<exists>u. DeploymentsURLPath d = Inr u \<and> routedOp u =
            Some \<lparr>op_name = ''deployments'', op_method = ''POST'', op_domain = d, op_generation = [], op_fileName = []\<rparr>)
     \<and> (\<exists>u. ManifestURLPath d g = Inr u \<and> routedOp u =
            Some \<lparr>op_name = ''manifest'', op_method = ''GET'', op_domain = d, op_generation = g, op_fileName = []\<rparr>)
     \<and> (\<exists>u. CertificateFileURLPath d g f = Inr u \<and> routedOp u =
            Some \<lparr>op_name = ''file'', op_method = ''GET'', op_domain = d, op_generation = g, op_fileName = f\<rparr>)"
proof -
  have safe: "safeSegment d" "safeSegment g" "safeSegment f"
    using assms domain_seg.check_safe generation_seg.check_safe file_seg.check_safe by blast+
  have ne: "d \<noteq> []" "g \<noteq> []"
    using safe by (simp_all add: safeSegment_def)
  show ?thesis
    using assms safe ne fixed_segments_safe
      build_cert_path[of "[d, ''reconcile'']"] build_cert_path[of "[d, ''status'']"]
      build_cert_path[of "[d, ''deployments'']"] build_cert_path[of "[d, ''generations'', g, ''manifest'']"]
      build_cert_path[of "[d, ''generations'', g, ''files'', f]"]
    by (simp add: ReconcileURLPath_def CertificateStatusURLPath_def DeploymentsURLPath_def ManifestURLPath_def
        CertificateFileURLPath_def v2PathSegments_eval parseV2CertPath_def)
qed

theorem built_urls_route_back_witness:
  "\<exists>u. CertificateFileURLPath ''a.example'' ''g-1'' ''key.pem'' = Inr u \<and> routedOp u =
     Some \<lparr>op_name = ''file'', op_method = ''GET'', op_domain = ''a.example'', op_generation = ''g-1'',
           op_fileName = ''key.pem''\<rparr>"
proof -
  have "ValidateDomain ''a.example'' = None"
    unfolding ValidateDomain_ok by code_simp
  moreover have "ValidateGenerationID ''g-1'' = None" "ValidateFileName ''key.pem'' = None"
    by code_simp+
  ultimately show ?thesis
    using built_urls_route_back[of "''a.example''" "''g-1''" "''key.pem''"] by blast
qed

text \<open>A path segment survives escaping.  Whatever bytes a segment has, unescaping what
  \<^verbatim>\<open>url.PathEscape\<close> produced gives it back, the escaped text never contains a slash, and
  \<^verbatim>\<open>EscapePathSegment\<close> refuses exactly empty, dot, slash, backslash and control segments.\<close>

theorem segment_escape_roundtrip:
  "PathUnescape (PathEscape s) = Some s \<and> CHR ''/'' \<notin> set (PathEscape s)
   \<and> (isOk (EscapePathSegment s) \<longleftrightarrow>
        s \<notin> {[], ''.'', ''..''} \<and> CHR ''/'' \<notin> set s \<and> CHR 0x5C \<notin> set s \<and> \<not> hasControl s)"
proof -
  have "isOk (EscapePathSegment s) \<longleftrightarrow> validatePathSegment s = None"
    by (cases "validatePathSegment s") (simp_all add: EscapePathSegment_def)
  then show ?thesis
    by (auto simp: PathUnescape_PathEscape PathEscape_no_slash validatePathSegment_def isPathTraversal_iff
        hasControl_def)
qed

end
