(* ===== verification/Contract.thy ===== *)
theory Contract
  imports UrlPath
begin

text \<open>
  The request and response bodies of the v2 protocol with their checks:
  \<^verbatim>\<open>pkg/certproto/contract.go\<close>, \<^verbatim>\<open>capabilities.go\<close> and the record types of \<^verbatim>\<open>protocol.go\<close>.

  A \<^verbatim>\<open>time.Time\<close> is the number of nanoseconds since Go's zero time, so \<^verbatim>\<open>IsZero\<close> is \<open>= 0\<close>
  and \<^verbatim>\<open>Before\<close> is \<open><\<close>; a \<^verbatim>\<open>*time.Time\<close> is an option.  \<^verbatim>\<open>encoding/json\<close> is represented by
  what its decoder reports: the first value it reads, or none, and what follows that value.
\<close>

type_synonym GoTime = int

definition IsZero :: "GoTime \<Rightarrow> bool" where
  "IsZero t = (t = 0)"

record ErrorResponse =
  er_Code :: ErrorCode
  er_Message :: string
  er_Retryable :: bool
  er_Details :: "(string \<times> string) list"

definition ErrorResponse_Error :: "ErrorResponse \<Rightarrow> string" where
  "ErrorResponse_Error e =
     (if er_Message e = [] then er_Code e
      else if er_Code e = [] then er_Message e
      else er_Code e @ '': '' @ er_Message e)"

section \<open>Strict decoding\<close>

datatype trailing = TrailEOF | TrailValue | TrailBroken

fun unmarshalStrictJSON :: "'a option \<times> trailing \<Rightarrow> ErrorCode + 'a" where
  "unmarshalStrictJSON (None, _) = Inl ErrorCodeInvalidRequest"
| "unmarshalStrictJSON (Some v, TrailEOF) = Inr v"
| "unmarshalStrictJSON (Some v, TrailValue) = Inl ErrorCodeInvalidRequest"
| "unmarshalStrictJSON (Some v, TrailBroken) = Inl ErrorCodeInvalidRequest"

text \<open>
  The shape shared by the \<^verbatim>\<open>UnmarshalJSON\<close> methods: decode, normalise, validate, and only
  then assign the receiver.  The result is the error and the receiver afterwards.
\<close>

definition decodeInto ::
  "('a \<Rightarrow> 'a) \<Rightarrow> ('a \<Rightarrow> ErrorCode option) \<Rightarrow> 'a \<Rightarrow> 'a option \<times> trailing \<Rightarrow> ErrorCode option \<times> 'a" where
  "decodeInto normalise validate receiver data =
     (case unmarshalStrictJSON data of
        Inl e \<Rightarrow> (Some e, receiver)
      | Inr decoded \<Rightarrow>
          (let v = normalise decoded
           in case validate v of Some e \<Rightarrow> (Some e, receiver) | None \<Rightarrow> (None, v)))"

section \<open>Reconcile requests\<close>

record ReconcileRequest =
  rr_IdempotencyKey :: string
  rr_Force :: bool
  rr_Operation :: string
  rr_Reason :: string

definition ReconcileRequest_Validate :: "ReconcileRequest \<Rightarrow> ErrorCode option" where
  "ReconcileRequest_Validate r = firstErr
     [ValidateIdempotencyKey (rr_IdempotencyKey r),
      failIf (length (rr_Operation r) > 64 \<or> hasControl (rr_Operation r)) ErrorCodeInvalidRequest,
      failIf (length (rr_Reason r) > 256 \<or> hasControl (rr_Reason r)) ErrorCodeInvalidRequest]"

definition ValidateForNewAttempt :: "ReconcileRequest \<Rightarrow> string \<Rightarrow> ErrorCode option" where
  "ValidateForNewAttempt r previousIdempotencyKey = firstErr
     [ReconcileRequest_Validate r,
      failIf (rr_Force r \<and> previousIdempotencyKey \<noteq> [] \<and> rr_IdempotencyKey r = previousIdempotencyKey)
        ErrorCodeConflict]"

definition ReconcileRequest_UnmarshalJSON ::
  "ReconcileRequest \<Rightarrow> ReconcileRequest option \<times> trailing \<Rightarrow> ErrorCode option \<times> ReconcileRequest" where
  "ReconcileRequest_UnmarshalJSON r data = decodeInto id ReconcileRequest_Validate r data"

definition ReconcileRequest_MarshalJSON :: "ReconcileRequest \<Rightarrow> ErrorCode + ReconcileRequest" where
  "ReconcileRequest_MarshalJSON r = guardR (ReconcileRequest_Validate r) (Inr r)"

section \<open>Job status\<close>

type_synonym JobState = string

abbreviation JobStateQueued :: JobState where "JobStateQueued \<equiv> ''queued''"
abbreviation JobStateRunning :: JobState where "JobStateRunning \<equiv> ''running''"
abbreviation JobStateSucceeded :: JobState where "JobStateSucceeded \<equiv> ''succeeded''"
abbreviation JobStateFailed :: JobState where "JobStateFailed \<equiv> ''failed''"
abbreviation JobStateCancelled :: JobState where "JobStateCancelled \<equiv> ''cancelled''"

record JobStatus =
  js_ID :: string
  js_State :: JobState
  js_Generation :: GenerationID
  js_Revision :: Revision
  js_Message :: string
  js_Retryable :: bool
  js_ErrorCode :: ErrorCode
  js_NextAttemptAt :: "GoTime option"
  js_Error :: "ErrorResponse option"
  js_CreatedAt :: GoTime
  js_StartedAt :: "GoTime option"
  js_FinishedAt :: "GoTime option"

definition JobState_IsTerminal :: "JobState \<Rightarrow> bool" where
  "JobState_IsTerminal s = (s \<in> set [JobStateSucceeded, JobStateFailed, JobStateCancelled])"

definition JobState_Validate :: "JobState \<Rightarrow> ErrorCode option" where
  "JobState_Validate s =
     (if s \<in> set [JobStateQueued, JobStateRunning, JobStateSucceeded, JobStateFailed, JobStateCancelled]
      then None else Some ErrorCodeInvalidJobStatus)"

definition validateTimeOrder :: "GoTime option \<Rightarrow> GoTime option \<Rightarrow> ErrorCode option" where
  "validateTimeOrder startedAt finishedAt = firstErr
     [failIf (startedAt \<noteq> None \<and> IsZero (the startedAt)) ErrorCodeInvalidRequest,
      failIf (finishedAt \<noteq> None \<and> IsZero (the finishedAt)) ErrorCodeInvalidRequest,
      failIf (startedAt \<noteq> None \<and> finishedAt \<noteq> None \<and> the finishedAt < the startedAt)
        ErrorCodeInvalidRequest]"

definition jobErrorErr :: "JobStatus \<Rightarrow> ErrorCode option" where
  "jobErrorErr j =
     (case js_Error j of
        None \<Rightarrow> None
      | Some e \<Rightarrow> firstErr
          [failIf (er_Code e = []) ErrorCodeInvalidJobStatus,
           failIf (js_ErrorCode j \<noteq> [] \<and> js_ErrorCode j \<noteq> er_Code e) ErrorCodeInvalidJobStatus,
           failIf (js_Retryable j \<noteq> er_Retryable e \<and> (js_Retryable j \<or> er_Retryable e))
             ErrorCodeInvalidJobStatus])"

definition jobErrorCode :: "JobStatus \<Rightarrow> ErrorCode" where
  "jobErrorCode j =
     (if js_ErrorCode j = [] then (case js_Error j of Some e \<Rightarrow> er_Code e | None \<Rightarrow> [])
      else js_ErrorCode j)"

definition JobStatus_Validate :: "JobStatus \<Rightarrow> ErrorCode option" where
  "JobStatus_Validate j = firstErr
     [ValidateJobID (js_ID j),
      JobState_Validate (js_State j),
      failIf ((js_Generation j = []) \<noteq> (js_Revision j = 0)) ErrorCodeInvalidJobStatus,
      (if js_Generation j \<noteq> []
       then firstErr [ValidateGenerationID (js_Generation j), ValidateRevision (js_Revision j)]
       else None),
      validateTimeOrder (js_StartedAt j) (js_FinishedAt j),
      failIf (js_StartedAt j \<noteq> None \<and> the (js_StartedAt j) < js_CreatedAt j) ErrorCodeInvalidJobStatus,
      failIf (js_FinishedAt j \<noteq> None \<and> the (js_FinishedAt j) < js_CreatedAt j) ErrorCodeInvalidJobStatus,
      failIf (length (js_Message j) > 1024 \<or> hasControl (js_Message j)) ErrorCodeInvalidJobStatus,
      jobErrorErr j,
      failIf (js_State j = JobStateFailed \<and> jobErrorCode j = []) ErrorCodeInvalidJobStatus,
      failIf (js_NextAttemptAt j \<noteq> None \<and> (\<not> js_Retryable j \<or> IsZero (the (js_NextAttemptAt j))))
        ErrorCodeInvalidJobStatus,
      failIf (js_NextAttemptAt j \<noteq> None \<and> \<not> IsZero (js_CreatedAt j)
              \<and> the (js_NextAttemptAt j) < js_CreatedAt j) ErrorCodeInvalidJobStatus]"

definition canonicalJobStatus :: "JobStatus \<Rightarrow> JobStatus" where
  "canonicalJobStatus j =
     (case js_Error j of
        None \<Rightarrow> j
      | Some e \<Rightarrow>
          (let j1 = (if js_ErrorCode j = [] then j\<lparr>js_ErrorCode := er_Code e\<rparr> else j)
           in if \<not> js_Retryable j1 then j1\<lparr>js_Retryable := er_Retryable e\<rparr> else j1))"

definition JobStatus_UnmarshalJSON ::
  "JobStatus \<Rightarrow> JobStatus option \<times> trailing \<Rightarrow> ErrorCode option \<times> JobStatus" where
  "JobStatus_UnmarshalJSON j data = decodeInto canonicalJobStatus JobStatus_Validate j data"

definition JobStatus_MarshalJSON :: "JobStatus \<Rightarrow> ErrorCode + JobStatus" where
  "JobStatus_MarshalJSON j =
     (let c = canonicalJobStatus j in guardR (JobStatus_Validate c) (Inr c))"

record JobAcceptedResponse =
  ja_Job :: JobStatus
  ja_Location :: string
  ja_Reused :: bool

definition JobAcceptedResponse_Validate :: "JobAcceptedResponse \<Rightarrow> ErrorCode option" where
  "JobAcceptedResponse_Validate r =
     (case JobStatus_Validate (ja_Job r) of
        Some e \<Rightarrow> Some e
      | None \<Rightarrow>
          (case JobURLPath (js_ID (ja_Job r)) of
             Inl e \<Rightarrow> Some e
           | Inr expected \<Rightarrow> failIf (ja_Location r \<noteq> expected) ErrorCodeInvalidRequest))"

section \<open>Deployment reports\<close>

type_synonym DeploymentState = string

abbreviation DeploymentStatePending :: DeploymentState where "DeploymentStatePending \<equiv> ''pending''"
abbreviation DeploymentStateDeploying :: DeploymentState where "DeploymentStateDeploying \<equiv> ''deploying''"
abbreviation DeploymentStateSucceeded :: DeploymentState where "DeploymentStateSucceeded \<equiv> ''succeeded''"
abbreviation DeploymentStateFailed :: DeploymentState where "DeploymentStateFailed \<equiv> ''failed''"
abbreviation DeploymentStateSkipped :: DeploymentState where "DeploymentStateSkipped \<equiv> ''skipped''"

record DeploymentReport =
  dr_Domain :: string
  dr_Target :: string
  dr_State :: DeploymentState
  dr_Success :: bool
  dr_Generation :: GenerationID
  dr_Revision :: Revision
  dr_Verified :: bool
  dr_Reloaded :: bool
  dr_Message :: string
  dr_Error :: "ErrorResponse option"
  dr_StartedAt :: "GoTime option"
  dr_FinishedAt :: "GoTime option"

definition DeploymentState_Validate :: "DeploymentState \<Rightarrow> ErrorCode option" where
  "DeploymentState_Validate s =
     (if s \<in> set [DeploymentStatePending, DeploymentStateDeploying, DeploymentStateSucceeded,
                  DeploymentStateFailed, DeploymentStateSkipped]
      then None else Some ErrorCodeInvalidDeploymentReport)"

definition validateText :: "string \<Rightarrow> nat \<Rightarrow> bool \<Rightarrow> ErrorCode option" where
  "validateText value mx required = firstErr
     [failIf (required \<and> TrimSpace value = []) ErrorCodeInvalidDeploymentReport,
      failIf (length value > mx \<or> hasControl value) ErrorCodeInvalidDeploymentReport]"

definition reportOutcomeErr :: "DeploymentReport \<Rightarrow> ErrorCode option" where
  "reportOutcomeErr r =
     (if dr_State r \<in> set [DeploymentStateSucceeded, DeploymentStateSkipped]
      then failIf (\<not> dr_Success r \<or> dr_Error r \<noteq> None) ErrorCodeInvalidDeploymentReport
      else if dr_State r = DeploymentStateFailed
      then failIf (dr_Success r \<or> (case dr_Error r of None \<Rightarrow> True | Some e \<Rightarrow> er_Code e = []))
             ErrorCodeInvalidDeploymentReport
      else if dr_State r \<in> set [DeploymentStatePending, DeploymentStateDeploying]
      then failIf (dr_Success r \<or> dr_Error r \<noteq> None) ErrorCodeInvalidDeploymentReport
      else None)"

definition DeploymentReport_Validate :: "DeploymentReport \<Rightarrow> ErrorCode option" where
  "DeploymentReport_Validate r = firstErr
     [ValidateDomain (dr_Domain r),
      ValidateGenerationID (dr_Generation r),
      ValidateRevision (dr_Revision r),
      validateText (dr_Target r) 128 True,
      validateText (dr_Message r) 1024 False,
      DeploymentState_Validate (dr_State r),
      validateTimeOrder (dr_StartedAt r) (dr_FinishedAt r),
      reportOutcomeErr r]"

definition ValidateForDomain :: "DeploymentReport \<Rightarrow> string \<Rightarrow> ErrorCode option" where
  "ValidateForDomain r domain = firstErr
     [ValidateDomain domain, DeploymentReport_Validate r,
      failIf (dr_Domain r \<noteq> domain) ErrorCodeConflict]"

definition DeploymentReport_UnmarshalJSON ::
  "DeploymentReport \<Rightarrow> DeploymentReport option \<times> trailing \<Rightarrow> ErrorCode option \<times> DeploymentReport" where
  "DeploymentReport_UnmarshalJSON r data = decodeInto id DeploymentReport_Validate r data"

definition DeploymentReport_MarshalJSON :: "DeploymentReport \<Rightarrow> ErrorCode + DeploymentReport" where
  "DeploymentReport_MarshalJSON r = guardR (DeploymentReport_Validate r) (Inr r)"

section \<open>Capabilities\<close>

record CapabilitiesURLs =
  cu_Capabilities :: string
  cu_Jobs :: string
  cu_Reconcile :: string
  cu_Status :: string
  cu_Manifest :: string
  cu_Files :: string
  cu_Deployments :: string

record Capabilities =
  cap_APIVersion :: string
  cap_AsyncJobs :: bool
  cap_JobPolling :: bool
  cap_TerminalJobReuse :: bool
  cap_ForceRequiresNewIdempotencyKey :: bool
  cap_URLs :: CapabilitiesURLs

abbreviation APIVersion :: string where "APIVersion \<equiv> ''v2''"

definition DefaultCapabilitiesURLs :: CapabilitiesURLs where
  "DefaultCapabilitiesURLs =
     \<lparr>cu_Capabilities = V2APIPath @ ''/capabilities'',
      cu_Jobs = V2APIPath @ ''/jobs/{job_id}'',
      cu_Reconcile = V2APIPath @ ''/certs/{domain}/reconcile'',
      cu_Status = V2APIPath @ ''/certs/{domain}/status'',
      cu_Manifest = V2APIPath @ ''/certs/{domain}/generations/{generation}/manifest'',
      cu_Files = V2APIPath @ ''/certs/{domain}/generations/{generation}/files/{file_name}'',
      cu_Deployments = V2APIPath @ ''/certs/{domain}/deployments''\<rparr>"

definition DefaultCapabilities :: Capabilities where
  "DefaultCapabilities =
     \<lparr>cap_APIVersion = APIVersion, cap_AsyncJobs = True, cap_JobPolling = True,
      cap_TerminalJobReuse = True, cap_ForceRequiresNewIdempotencyKey = True,
      cap_URLs = DefaultCapabilitiesURLs\<rparr>"

definition CapabilitiesURLs_Validate :: "CapabilitiesURLs \<Rightarrow> ErrorCode option" where
  "CapabilitiesURLs_Validate u =
     failIf (u \<noteq> DefaultCapabilitiesURLs) ErrorCodeInvalidCapabilities"

definition Capabilities_Validate :: "Capabilities \<Rightarrow> ErrorCode option" where
  "Capabilities_Validate c = firstErr
     [failIf (cap_APIVersion c \<noteq> APIVersion) ErrorCodeInvalidCapabilities,
      failIf (\<not> cap_AsyncJobs c \<or> \<not> cap_JobPolling c \<or> \<not> cap_TerminalJobReuse c
              \<or> \<not> cap_ForceRequiresNewIdempotencyKey c) ErrorCodeInvalidCapabilities,
      CapabilitiesURLs_Validate (cap_URLs c)]"

definition Capabilities_UnmarshalJSON ::
  "Capabilities \<Rightarrow> Capabilities option \<times> trailing \<Rightarrow> ErrorCode option \<times> Capabilities" where
  "Capabilities_UnmarshalJSON c data = decodeInto id Capabilities_Validate c data"

section \<open>Decoding\<close>

lemma decodeInto_error: "decodeInto n v r data = (Some e, r') \<Longrightarrow> r' = r"
  by (auto simp: decodeInto_def Let_def split: sum.splits option.splits)

lemma decodeInto_ok: "decodeInto n v r data = (None, r') \<longleftrightarrow>
    (\<exists>d. data = (Some d, TrailEOF) \<and> r' = n d \<and> v (n d) = None)"
  by (cases data rule: unmarshalStrictJSON.cases)
    (auto simp: decodeInto_def Let_def split: option.splits)

lemma decodeInto_encoded:
  "n w = w \<Longrightarrow> v w = None \<Longrightarrow> decodeInto n v r (Some w, TrailEOF) = (None, w)"
  by (simp add: decodeInto_def)

lemma canonical_fields [simp]:
  "js_ID (canonicalJobStatus j) = js_ID j"
  "js_State (canonicalJobStatus j) = js_State j"
  "js_Error (canonicalJobStatus j) = js_Error j"
  "js_Generation (canonicalJobStatus j) = js_Generation j"
  "js_Revision (canonicalJobStatus j) = js_Revision j"
  "js_Message (canonicalJobStatus j) = js_Message j"
  "js_NextAttemptAt (canonicalJobStatus j) = js_NextAttemptAt j"
  "js_CreatedAt (canonicalJobStatus j) = js_CreatedAt j"
  "js_StartedAt (canonicalJobStatus j) = js_StartedAt j"
  "js_FinishedAt (canonicalJobStatus j) = js_FinishedAt j"
  by (simp_all add: canonicalJobStatus_def Let_def split: option.split)

lemma canonical_ErrorCode [simp]: "js_ErrorCode (canonicalJobStatus j) = jobErrorCode j"
  by (simp add: canonicalJobStatus_def jobErrorCode_def Let_def split: option.split)

lemma canonical_Retryable [simp]:
  "js_Retryable (canonicalJobStatus j) =
     (js_Retryable j \<or> (case js_Error j of Some e \<Rightarrow> er_Retryable e | None \<Rightarrow> False))"
  by (simp add: canonicalJobStatus_def Let_def split: option.split)

lemma canonical_idem [simp]: "canonicalJobStatus (canonicalJobStatus j) = canonicalJobStatus j"
  by (cases j) (auto simp: canonicalJobStatus_def Let_def split: option.splits)

lemma jobErrorCode_canonical [simp]: "jobErrorCode (canonicalJobStatus j) = jobErrorCode j"
  by (simp add: jobErrorCode_def[of "canonicalJobStatus j"])
    (auto simp: jobErrorCode_def split: option.splits)

lemma canonical_valid:
  assumes "JobStatus_Validate j = None"
  shows "JobStatus_Validate (canonicalJobStatus j) = None"
proof -
  have "jobErrorErr j = None"
    using assms by (simp add: JobStatus_Validate_def)
  then have "jobErrorErr (canonicalJobStatus j) = None"
    by (auto simp: jobErrorErr_def jobErrorCode_def split: option.splits)
  moreover have "js_Retryable j \<Longrightarrow> js_Retryable (canonicalJobStatus j)"
    by simp
  ultimately show ?thesis
    using assms by (auto simp: JobStatus_Validate_def)
qed

section \<open>What a valid body satisfies\<close>

text \<open>The abstract contract of a job status, stated over the fields a client reads.\<close>

definition jobStatusContract :: "JobStatus \<Rightarrow> bool" where
  "jobStatusContract j =
     ((safeSegment (js_ID j) \<and> length (js_ID j) \<le> 128)
      \<and> js_State j \<in> {JobStateQueued, JobStateRunning, JobStateSucceeded, JobStateFailed, JobStateCancelled}
      \<and> (js_Generation j = [] \<longleftrightarrow> js_Revision j = 0)
      \<and> (js_Generation j \<noteq> [] \<longrightarrow> safeSegment (js_Generation j) \<and> length (js_Generation j) \<le> 128)
      \<and> ((\<forall>s. js_StartedAt j = Some s \<longrightarrow> s \<noteq> 0) \<and> (\<forall>f. js_FinishedAt j = Some f \<longrightarrow> f \<noteq> 0)
         \<and> (\<forall>s f. js_StartedAt j = Some s \<longrightarrow> js_FinishedAt j = Some f \<longrightarrow> s \<le> f))
      \<and> (\<forall>s. js_StartedAt j = Some s \<longrightarrow> js_CreatedAt j \<le> s)
      \<and> (\<forall>f. js_FinishedAt j = Some f \<longrightarrow> js_CreatedAt j \<le> f)
      \<and> (length (js_Message j) \<le> 1024 \<and> \<not> hasControl (js_Message j))
      \<and> (\<forall>e. js_Error j = Some e \<longrightarrow>
            er_Code e \<noteq> [] \<and> js_ErrorCode j \<in> {[], er_Code e} \<and> js_Retryable j = er_Retryable e)
      \<and> (js_State j = JobStateFailed \<longrightarrow> jobErrorCode j \<noteq> [])
      \<and> (\<forall>t. js_NextAttemptAt j = Some t \<longrightarrow> js_Retryable j \<and> t \<noteq> 0)
      \<and> (\<forall>t. js_NextAttemptAt j = Some t \<longrightarrow> js_CreatedAt j \<noteq> 0 \<longrightarrow> js_CreatedAt j \<le> t))"

lemma validateTimeOrder_ok [valid_simps]:
  "validateTimeOrder s f = None \<longleftrightarrow>
     (\<forall>a. s = Some a \<longrightarrow> a \<noteq> 0) \<and> (\<forall>b. f = Some b \<longrightarrow> b \<noteq> 0)
     \<and> (\<forall>a b. s = Some a \<longrightarrow> f = Some b \<longrightarrow> a \<le> b)"
  by (cases s; cases f) (auto simp: validateTimeOrder_def IsZero_def)

lemma JobState_Validate_ok [valid_simps]:
  "JobState_Validate s = None \<longleftrightarrow>
     s \<in> {JobStateQueued, JobStateRunning, JobStateSucceeded, JobStateFailed, JobStateCancelled}"
  by (simp add: JobState_Validate_def)

lemma jobErrorErr_ok [valid_simps]:
  "jobErrorErr j = None \<longleftrightarrow> (\<forall>e. js_Error j = Some e \<longrightarrow>
     er_Code e \<noteq> [] \<and> js_ErrorCode j \<in> {[], er_Code e} \<and> js_Retryable j = er_Retryable e)"
  by (auto simp: jobErrorErr_def split: option.splits)

lemma jobErrorCode_Nil:
  "jobErrorErr j = None \<Longrightarrow> jobErrorCode j = [] \<longleftrightarrow> js_ErrorCode j = [] \<and> js_Error j = None"
  by (auto simp: jobErrorCode_def jobErrorErr_def split: option.splits)

lemma safeSegment_nonempty: "safeSegment s \<Longrightarrow> s \<noteq> []"
  by (simp add: safeSegment_def)

lemma JobStatus_Validate_contract: "JobStatus_Validate j = None \<longleftrightarrow> jobStatusContract j"
proof (cases "js_Generation j = [] \<longleftrightarrow> js_Revision j = 0")
  case paired: True
  have e1: "(if js_Generation j \<noteq> []
       then firstErr [ValidateGenerationID (js_Generation j), ValidateRevision (js_Revision j)]
       else None) = None \<longleftrightarrow>
     (js_Generation j \<noteq> [] \<longrightarrow> safeSegment (js_Generation j) \<and> length (js_Generation j) \<le> 128)"
    using paired by (simp add: ValidateGenerationID_ok ValidateRevision_ok)
  have e2: "\<not> (x \<noteq> None \<and> the x < y) \<longleftrightarrow> (\<forall>v. x = Some v \<longrightarrow> y \<le> v)" for x :: "int option" and y
    by (cases x) (simp_all add: not_less)
  have e3: "\<not> (js_NextAttemptAt j \<noteq> None \<and> (\<not> js_Retryable j \<or> IsZero (the (js_NextAttemptAt j))))
     \<longleftrightarrow> (\<forall>t. js_NextAttemptAt j = Some t \<longrightarrow> js_Retryable j \<and> t \<noteq> 0)"
    by (cases "js_NextAttemptAt j") (simp_all add: IsZero_def)
  have e4: "\<not> (js_NextAttemptAt j \<noteq> None \<and> \<not> IsZero (js_CreatedAt j)
        \<and> the (js_NextAttemptAt j) < js_CreatedAt j)
     \<longleftrightarrow> (\<forall>t. js_NextAttemptAt j = Some t \<longrightarrow> js_CreatedAt j \<noteq> 0 \<longrightarrow> js_CreatedAt j \<le> t)"
    by (cases "js_NextAttemptAt j") (auto simp: IsZero_def)
  have e5: "\<not> (js_State j = JobStateFailed \<and> jobErrorCode j = [])
     \<longleftrightarrow> (js_State j = JobStateFailed \<longrightarrow> jobErrorCode j \<noteq> [])"
    "\<not> (length (js_Message j) > 1024 \<or> hasControl (js_Message j))
     \<longleftrightarrow> (length (js_Message j) \<le> 1024 \<and> \<not> hasControl (js_Message j))"
    "\<not> ((js_Generation j = []) \<noteq> (js_Revision j = 0)) \<longleftrightarrow> (js_Generation j = [] \<longleftrightarrow> js_Revision j = 0)"
    by (simp_all add: not_less)
  show ?thesis
    unfolding JobStatus_Validate_def firstErr_None_iff[of "_ # _"] jobStatusContract_def
    by (simp only: list.set ball_simps failIf_None ValidateJobID_ok JobState_Validate_ok e1 e2 e3 e4 e5
        validateTimeOrder_ok jobErrorErr_ok simp_thms)
next
  case False
  then show ?thesis
    by (simp only: JobStatus_Validate_def jobStatusContract_def firstErr_None_iff list.set ball_simps
        failIf_None simp_thms)
qed

lemma reportOutcome_ok:
  "DeploymentState_Validate (dr_State r) = None \<Longrightarrow> reportOutcomeErr r = None \<longleftrightarrow>
     (dr_Success r \<longleftrightarrow> dr_State r \<in> {DeploymentStateSucceeded, DeploymentStateSkipped})
     \<and> (case dr_Error r of
          None \<Rightarrow> dr_State r \<noteq> DeploymentStateFailed
        | Some e \<Rightarrow> dr_State r = DeploymentStateFailed \<and> er_Code e \<noteq> [])"
proof -
  assume "DeploymentState_Validate (dr_State r) = None"
  then have "dr_State r = DeploymentStatePending \<or> dr_State r = DeploymentStateDeploying
      \<or> dr_State r = DeploymentStateSucceeded \<or> dr_State r = DeploymentStateFailed
      \<or> dr_State r = DeploymentStateSkipped"
    by (simp add: DeploymentState_Validate_def split: if_splits)
  then show ?thesis
    by (elim disjE; cases "dr_Error r"; simp add: reportOutcomeErr_def)
qed

lemma validateText_ok [valid_simps]:
  "validateText v n req = None \<longleftrightarrow> (req \<longrightarrow> TrimSpace v \<noteq> []) \<and> length v \<le> n \<and> \<not> hasControl v"
  by (auto simp: validateText_def not_less)

section \<open>Properties\<close>

text \<open>Job status encoding.  What \<^verbatim>\<open>MarshalJSON\<close> emits satisfies the contract, decodes back
  to itself, and a failed decode leaves the receiver as it was; encoding normalises, so a
  valid status is always encoded.\<close>

theorem job_status_roundtrip:
  "(case JobStatus_MarshalJSON j of
      Inl e \<Rightarrow> JobStatus_Validate j \<noteq> None
    | Inr w \<Rightarrow> jobStatusContract w \<and> JobStatus_UnmarshalJSON old (Some w, TrailEOF) = (None, w))
   \<and> (case JobStatus_UnmarshalJSON old data of
        (Some e, r) \<Rightarrow> r = old
      | (None, r) \<Rightarrow> jobStatusContract r \<and> JobStatus_MarshalJSON r = Inr r)"
proof -
  have "jobStatusContract r \<and> JobStatus_MarshalJSON r = Inr r"
    if "JobStatus_UnmarshalJSON old data = (None, r)" for r
    using that JobStatus_Validate_contract[of r]
    by (auto simp: JobStatus_UnmarshalJSON_def decodeInto_ok JobStatus_MarshalJSON_def Let_def)
  moreover have "r = old" if "JobStatus_UnmarshalJSON old data = (Some e, r)" for e r
    using that unfolding JobStatus_UnmarshalJSON_def by (rule decodeInto_error)
  moreover have "case JobStatus_MarshalJSON j of
      Inl e \<Rightarrow> JobStatus_Validate j \<noteq> None
    | Inr w \<Rightarrow> jobStatusContract w \<and> JobStatus_UnmarshalJSON old (Some w, TrailEOF) = (None, w)"
  proof (cases "JobStatus_Validate (canonicalJobStatus j)")
    case None
    have "jobStatusContract (canonicalJobStatus j)"
      using None unfolding JobStatus_Validate_contract .
    moreover have "JobStatus_MarshalJSON j = Inr (canonicalJobStatus j)"
      unfolding JobStatus_MarshalJSON_def Let_def None by simp
    moreover have "JobStatus_UnmarshalJSON old (Some (canonicalJobStatus j), TrailEOF) = (None, canonicalJobStatus j)"
      unfolding JobStatus_UnmarshalJSON_def by (rule decodeInto_encoded) (simp_all add: None)
    ultimately show ?thesis
      by simp
  next
    case (Some e)
    then show ?thesis
      using canonical_valid[of j] by (auto simp: JobStatus_MarshalJSON_def Let_def)
  qed
  ultimately show ?thesis
    by (auto split: option.split prod.split)
qed

text \<open>The deployment report contract.  Validation accepts a report exactly when its domain,
  generation, revision, target, message, state and times are well formed, \<^verbatim>\<open>success\<close> is set
  for the states succeeded and skipped and for no other, and a structured error is present
  for the state failed and for no other.\<close>

theorem deployment_report_contract:
  "DeploymentReport_Validate r = None \<longleftrightarrow>
     hostName (dr_Domain r) \<and> safeSegment (dr_Generation r) \<and> length (dr_Generation r) \<le> 128
     \<and> dr_Revision r \<noteq> 0
     \<and> TrimSpace (dr_Target r) \<noteq> [] \<and> length (dr_Target r) \<le> 128 \<and> \<not> hasControl (dr_Target r)
     \<and> length (dr_Message r) \<le> 1024 \<and> \<not> hasControl (dr_Message r)
     \<and> DeploymentState_Validate (dr_State r) = None
     \<and> validateTimeOrder (dr_StartedAt r) (dr_FinishedAt r) = None
     \<and> (dr_Success r \<longleftrightarrow> dr_State r \<in> {DeploymentStateSucceeded, DeploymentStateSkipped})
     \<and> (case dr_Error r of
          None \<Rightarrow> dr_State r \<noteq> DeploymentStateFailed
        | Some e \<Rightarrow> dr_State r = DeploymentStateFailed \<and> er_Code e \<noteq> [])"
proof -
  have "DeploymentReport_Validate r = None \<longleftrightarrow>
      ValidateDomain (dr_Domain r) = None \<and> ValidateGenerationID (dr_Generation r) = None
      \<and> ValidateRevision (dr_Revision r) = None \<and> validateText (dr_Target r) 128 True = None
      \<and> validateText (dr_Message r) 1024 False = None \<and> DeploymentState_Validate (dr_State r) = None
      \<and> validateTimeOrder (dr_StartedAt r) (dr_FinishedAt r) = None \<and> reportOutcomeErr r = None"
    by (simp add: DeploymentReport_Validate_def)
  then show ?thesis
    unfolding ValidateDomain_ok ValidateGenerationID_ok ValidateRevision_ok validateText_ok
    using reportOutcome_ok[of r] by (cases "DeploymentState_Validate (dr_State r)") simp_all
qed

end
