(* ===== verification/Database.thy ===== *)
theory Database
  imports Certproto "HOL-Library.Product_Lexorder" "HOL-Library.List_Lexorder"
begin

text \<open>
  The tables of \<^verbatim>\<open>internal/store\<close> and the errors its operations return.  A table is the list
  of its rows; the schema is the one the five migrations leave behind.  A nullable column is
  an option, except \<^verbatim>\<open>lease_owner\<close>, which the code writes through \<^verbatim>\<open>nullString\<close> and reads
  through \<^verbatim>\<open>COALESCE(lease_owner, '')\<close>, so that the empty string stands for NULL in both
  directions.  Times are Unix seconds.  A statement either fails with a constraint or
  takes effect; loss of the database connection is outside the model.
\<close>

datatype StoreError =
    ErrNoRows
  | ErrInvalid string
  | ErrUnique
  | ErrForeignKey
  | ErrCheck
  | ErrCrypto
  | ErrRandom

definition isUniqueConstraint :: "StoreError \<Rightarrow> bool" where
  "isUniqueConstraint e = (e = ErrUnique)"

record TokenRow =
  tk_ID :: string
  tk_Secret :: "string option"
  tk_Ciphertext :: "string option"
  tk_Version :: int
  tk_RotatedAt :: "int option"
  tk_Note :: string
  tk_Enabled :: bool
  tk_IsAdmin :: bool
  tk_CreatedAt :: int
  tk_LastUsedAt :: "int option"

record Cert =
  ct_Domain :: string
  ct_SAN :: string
  ct_CA :: string
  ct_ChallengeMode :: string
  ct_DNSProvider :: "string option"
  ct_DNSProfile :: "string option"
  ct_WebrootPath :: "string option"
  ct_Keylength :: string
  ct_RenewDays :: int
  ct_ReloadCmd :: "string option"
  ct_CreatedAt :: int
  ct_UpdatedAt :: int
  ct_Source :: string

record Client =
  cl_TokenID :: string
  cl_Hostname :: "string option"
  cl_OSInfo :: "string option"
  cl_RegisteredAt :: int
  cl_LastSeenAt :: int

record TokenGrant =
  tg_TokenID :: string
  tg_Domain :: string
  tg_Permission :: string
  tg_CreatedAt :: int

record NonceRow =
  nc_Nonce :: string
  nc_CreatedAt :: int

record CertificateJob =
  cj_ID :: string
  cj_Domain :: string
  cj_Operation :: string
  cj_IdempotencyKey :: string
  cj_Status :: string
  cj_Attempts :: int
  cj_MaxAttempts :: int
  cj_NextAttemptAt :: "int option"
  cj_LeaseOwner :: string
  cj_LeaseUntil :: "int option"
  cj_LastErrorCode :: "string option"
  cj_LastErrorAt :: "int option"
  cj_RequestedBy :: "string option"
  cj_ErrorMessage :: "string option"
  cj_CreatedAt :: int
  cj_UpdatedAt :: int
  cj_StartedAt :: "int option"
  cj_FinishedAt :: "int option"

record CertificateGeneration =
  cg_ID :: int
  cg_JobID :: string
  cg_Domain :: string
  cg_Generation :: int
  cg_Revision :: int
  cg_Status :: string
  cg_CertificateRef :: "string option"
  cg_PrivateKeyRef :: "string option"
  cg_ManifestDigest :: "string option"
  cg_Serial :: "string option"
  cg_Fingerprint :: "string option"
  cg_Current :: bool
  cg_NotBefore :: "int option"
  cg_NotAfter :: "int option"
  cg_ErrorMessage :: "string option"
  cg_CreatedAt :: int
  cg_UpdatedAt :: int

record DeploymentRow =
  dp_ID :: int
  dp_GenerationID :: int
  dp_Generation :: string
  dp_Revision :: int
  dp_ManifestDigest :: "string option"
  dp_Target :: string
  dp_Status :: string
  dp_Detail :: "string option"
  dp_CreatedAt :: int
  dp_UpdatedAt :: int
  dp_CompletedAt :: "int option"

record AuditEvent =
  ae_ID :: int
  ae_ActorTokenID :: "string option"
  ae_Domain :: "string option"
  ae_Action :: string
  ae_Outcome :: string
  ae_Detail :: "string option"
  ae_CreatedAt :: int

record DNSProfile =
  dnp_ID :: string
  dnp_Provider :: string
  dnp_Profile :: string
  dnp_Account :: string
  dnp_CreatedAt :: int
  dnp_UpdatedAt :: int

text \<open>The database: its tables and the \<^verbatim>\<open>AUTOINCREMENT\<close> sequences.\<close>

record Db =
  db_tokens :: "TokenRow list"
  db_certs :: "Cert list"
  db_clients :: "Client list"
  db_grants :: "TokenGrant list"
  db_nonces :: "NonceRow list"
  db_jobs :: "CertificateJob list"
  db_generations :: "CertificateGeneration list"
  db_reports :: "DeploymentRow list"
  db_audit :: "AuditEvent list"
  db_dnsProfiles :: "DNSProfile list"
  db_genSeq :: int
  db_reportSeq :: int
  db_auditSeq :: int

definition emptyDb :: Db where
  "emptyDb = \<lparr>db_tokens = [], db_certs = [], db_clients = [], db_grants = [], db_nonces = [],
     db_jobs = [], db_generations = [], db_reports = [], db_audit = [], db_dnsProfiles = [],
     db_genSeq = 0, db_reportSeq = 0, db_auditSeq = 0\<rparr>"

definition certExists :: "Db \<Rightarrow> string \<Rightarrow> bool" where
  "certExists db d = list_ex (\<lambda>c. ct_Domain c = d) (db_certs db)"

definition tokenExists :: "Db \<Rightarrow> string \<Rightarrow> bool" where
  "tokenExists db t = list_ex (\<lambda>r. tk_ID r = t) (db_tokens db)"

definition nullString :: "string \<Rightarrow> string option" where
  "nullString value = (if value = [] then None else Some value)"

definition orEmpty :: "string option \<Rightarrow> string" where
  "orEmpty x = (case x of None \<Rightarrow> [] | Some s \<Rightarrow> s)"

definition boundedLimit :: "int \<Rightarrow> int" where
  "boundedLimit limit = (if limit \<le> 0 \<or> limit > 500 then 100 else limit)"

definition nonNegative :: "int \<Rightarrow> int" where
  "nonNegative value = (if value < 0 then 0 else value)"

definition page :: "int \<Rightarrow> int \<Rightarrow> 'a list \<Rightarrow> 'a list" where
  "page limit offset rows = take (nat (boundedLimit limit)) (drop (nat (nonNegative offset)) rows)"

text \<open>\<^verbatim>\<open>durationSeconds\<close> on a \<^verbatim>\<open>time.Duration\<close> in nanoseconds; Go's division truncates.\<close>

definition durationSeconds :: "int \<Rightarrow> int" where
  "durationSeconds value =
     (let seconds = (if value < 0 then - ((- value) div 1000000000) else value div 1000000000);
          remainder = value - seconds * 1000000000
      in if remainder \<noteq> 0 \<or> seconds < 1 then seconds + 1 else seconds)"

section \<open>Domain names in the store\<close>

definition storeLabelErr :: "string \<Rightarrow> StoreError option" where
  "storeLabelErr label = firstErr
     [failIf (label = [] \<or> length label > 63 \<or> hd label = CHR ''-'' \<or> last label = CHR ''-'')
        (ErrInvalid ''domain''),
      failIf (list_ex (\<lambda>r. \<not> byteIn (CHR ''a'') (CHR ''z'') r \<and> \<not> byteIn (CHR ''0'') (CHR ''9'') r
                \<and> r \<noteq> CHR ''-'') label) (ErrInvalid ''domain'')]"

definition validateCertificateDomain :: "string \<Rightarrow> StoreError option" where
  "validateCertificateDomain domain =
     (let bad = ErrInvalid ''domain'';
          base = (if hasPrefix domain ''*.'' then trimPrefix domain ''*.'' else domain)
      in firstErr
          ([failIf (domain = [] \<or> domain \<noteq> toLowerASCII domain \<or> TrimSpace domain \<noteq> domain
                    \<or> length domain > 253) bad,
            failIf (base = [] \<or> contains (CHR ''*'') domain \<or> isIPv4 base
                    \<or> \<not> contains (CHR ''.'') base) bad]
           @ map storeLabelErr (splitOn (CHR ''.'') base)))"

lemma storeLabelErr_ok [valid_simps]: "storeLabelErr label = None \<longleftrightarrow> domainLabel label"
  by (auto simp: storeLabelErr_def domainLabel_def domainByte_def list_ex_iff list_all_iff not_less)

lemma prefix_star_contains: "hasPrefix d ''*.'' \<Longrightarrow> contains (CHR ''*'') d"
  by (auto simp: hasPrefix_def contains_def prefix_def)

lemma validateCertificateDomain_ok [valid_simps]:
  "validateCertificateDomain d = None \<longleftrightarrow> hostName d"
proof
  assume v: "validateCertificateDomain d = None"
  then have "\<not> contains (CHR ''*'') d"
    by (simp add: validateCertificateDomain_def Let_def)
  then have "\<not> hasPrefix d ''*.''"
    using prefix_star_contains by blast
  with v show "hostName d"
    unfolding validateCertificateDomain_def Let_def hostName_def splitOn_length_1
    by (simp add: list_all_iff ball_Un valid_simps contains_def not_less)
next
  assume h: "hostName d"
  then have labels: "list_all domainLabel (splitOn (CHR ''.'') d)"
    by (simp add: hostName_def)
  have "\<not> hasPrefix d ''*.''"
    using labels_plain(2)[OF labels] prefix_star_contains by blast
  with h labels show "validateCertificateDomain d = None"
    using labels_lower[OF labels] labels_plain[OF labels] safeSegment_def[of d] hostName_safeSegment[OF h]
    unfolding validateCertificateDomain_def Let_def hostName_def splitOn_length_1
    by (simp add: list_all_iff ball_Un valid_simps contains_def not_less)
qed

section \<open>Arithmetic of the helpers\<close>

lemma durationSeconds_pos: "0 < d \<Longrightarrow> 1 \<le> durationSeconds d"
  using pos_imp_zdiv_nonneg_iff[of 1000000000 d] by (auto simp: durationSeconds_def Let_def)

lemma durationSeconds_covers: "0 < d \<Longrightarrow> d \<le> durationSeconds d * 1000000000"
proof -
  assume "0 < d"
  have "d = d div 1000000000 * 1000000000 + d mod 1000000000" by simp
  moreover have "d mod 1000000000 < 1000000000" by simp
  moreover have "0 \<le> d div 1000000000"
    using \<open>0 < d\<close> by (simp add: pos_imp_zdiv_nonneg_iff)
  ultimately show ?thesis
    using \<open>0 < d\<close> unfolding durationSeconds_def Let_def
    by (auto simp: algebra_simps pos_imp_zdiv_nonneg_iff)
qed

lemma boundedLimit_range: "1 \<le> boundedLimit n \<and> boundedLimit n \<le> 500"
  by (simp add: boundedLimit_def)

lemma length_page: "length (page l off rows) \<le> 500"
proof -
  have "nat (boundedLimit l) \<le> 500"
    using boundedLimit_range[of l] by (simp add: nat_le_iff)
  then show ?thesis
    by (simp add: page_def min.coboundedI2)
qed

section \<open>Property\<close>

text \<open>Protocol and store accept the same domains: exactly the host names of at least two
  labels that are no IPv4 address.  In particular the store refuses every wildcard, although
  the comment on its check announces wildcard support.\<close>

theorem domain_checks_agree:
  "(validateCertificateDomain d = None \<longleftrightarrow> hostName d) \<and> (ValidateDomain d = None \<longleftrightarrow> hostName d)
   \<and> validateCertificateDomain (''*.'' @ d) \<noteq> None"
proof -
  have "contains (CHR ''*'') (''*.'' @ d)"
    by (simp add: contains_def)
  then have "validateCertificateDomain (''*.'' @ d) \<noteq> None"
    by (simp add: validateCertificateDomain_def Let_def)
  then show ?thesis
    by (simp add: valid_simps)
qed

end
