(* ===== verification/StoreAccess.thy ===== *)
theory StoreAccess
  imports Database
begin

text \<open>
  Nonces (\<^verbatim>\<open>internal/store/logs.go\<close>), tokens and grants (\<^verbatim>\<open>tokens.go\<close>), certificate presets
  (\<^verbatim>\<open>certs.go\<close>) and clients (\<^verbatim>\<open>clients.go\<close>).  Two interfaces are stated as locales and
  interpreted on these definitions: \<open>nonce_log\<close>, what authentication needs of the nonce table,
  and \<open>grant_table\<close>, what authorisation needs of the grant table.
\<close>

section \<open>Nonces\<close>

definition CleanOldNonces :: "int \<Rightarrow> Db \<Rightarrow> Db" where
  "CleanOldNonces before db = db\<lparr>db_nonces := filter (\<lambda>r. \<not> nc_CreatedAt r < before) (db_nonces db)\<rparr>"

definition ConsumeNonce :: "int \<Rightarrow> string \<Rightarrow> int \<Rightarrow> Db \<Rightarrow> bool \<times> Db" where
  "ConsumeNonce now nonce ttlSec db =
     (let kept = filter (\<lambda>r. \<not> nc_CreatedAt r < now - ttlSec) (db_nonces db)
      in if list_ex (\<lambda>r. nc_Nonce r = nonce) kept then (False, db\<lparr>db_nonces := kept\<rparr>)
         else (True, db\<lparr>db_nonces := kept @ [\<lparr>nc_Nonce = nonce, nc_CreatedAt = now\<rparr>]\<rparr>))"

definition nonceHeld :: "Db \<Rightarrow> string \<Rightarrow> int \<Rightarrow> bool" where
  "nonceHeld db n t = list_ex (\<lambda>r. nc_Nonce r = n \<and> nc_CreatedAt r = t) (db_nonces db)"

locale nonce_log =
  fixes consume :: "int \<Rightarrow> string \<Rightarrow> int \<Rightarrow> 's \<Rightarrow> bool \<times> 's"
    and held :: "'s \<Rightarrow> string \<Rightarrow> int \<Rightarrow> bool"
  assumes consume_records: "consume now n ttl s = (True, s') \<Longrightarrow> held s' n now"
    and consume_refuses: "held s n t \<Longrightarrow> now - ttl \<le> t \<Longrightarrow> fst (consume now n ttl s) = False"
    and consume_keeps: "held s n t \<Longrightarrow> now - ttl \<le> t \<Longrightarrow> held (snd (consume now m ttl s)) n t"
begin

fun consumeAll :: "int \<Rightarrow> (int \<times> string) list \<Rightarrow> 's \<Rightarrow> 's" where
  "consumeAll ttl [] s = s"
| "consumeAll ttl ((now, n) # ops) s = consumeAll ttl ops (snd (consume now n ttl s))"

lemma held_consumeAll:
  "held s n t \<Longrightarrow> \<forall>(now, m) \<in> set ops. now - ttl \<le> t \<Longrightarrow> held (consumeAll ttl ops s) n t"
  by (induction ops arbitrary: s) (auto simp: consume_keeps)

lemma no_replay:
  assumes "consume t n ttl s = (True, s1)"
    and "\<forall>(now, m) \<in> set ops. now - ttl \<le> t" and "now - ttl \<le> t"
  shows "fst (consume now n ttl (consumeAll ttl ops s1)) = False"
  using assms held_consumeAll consume_records consume_refuses by blast

end

interpretation nl: nonce_log ConsumeNonce nonceHeld
  by unfold_locales
    (auto simp: ConsumeNonce_def nonceHeld_def Let_def list_ex_iff split: if_splits)

section \<open>Tokens\<close>

record Token =
  to_ID :: string
  to_Secret :: string
  to_Note :: string
  to_Enabled :: bool
  to_IsAdmin :: bool
  to_CreatedAt :: int
  to_LastUsedAt :: "int option"
  to_exposeSecret :: bool

text \<open>The JSON view of a token, with the secret omitted unless it is exposed.\<close>

record TokenJSON =
  tj_ID :: string
  tj_Secret :: string
  tj_Note :: string
  tj_Enabled :: bool
  tj_IsAdmin :: bool
  tj_CreatedAt :: int
  tj_LastUsedAt :: "int option"

definition Token_MarshalJSON :: "Token \<Rightarrow> TokenJSON" where
  "Token_MarshalJSON t =
     \<lparr>tj_ID = to_ID t, tj_Secret = (if to_exposeSecret t then to_Secret t else []),
      tj_Note = to_Note t, tj_Enabled = to_Enabled t, tj_IsAdmin = to_IsAdmin t,
      tj_CreatedAt = to_CreatedAt t, tj_LastUsedAt = to_LastUsedAt t\<rparr>"

abbreviation tokenSecretVersion :: int where "tokenSecretVersion \<equiv> 2"

text \<open>
  \<open>enc plain aad\<close> stands for \<^verbatim>\<open>encryptAESGCM\<close> under the store's key and \<open>dec cipher aad\<close> for
  \<^verbatim>\<open>decryptStoredSecret\<close>; both are parameters.
\<close>

definition tokenSecretAAD :: "string \<Rightarrow> string" where
  "tokenSecretAAD tid = ''certkeeper/tokens/v2/id='' @ tid"

definition CreateTokenWithSecret ::
  "(string \<Rightarrow> string \<Rightarrow> string option) \<Rightarrow> int \<Rightarrow> Token option \<Rightarrow> string \<Rightarrow> Db
     \<Rightarrow> (StoreError + Token) \<times> Db" where
  "CreateTokenWithSecret enc now tok secret db =
     (case tok of
        None \<Rightarrow> (Inl (ErrInvalid ''token''), db)
      | Some t \<Rightarrow>
          if TrimSpace (to_ID t) = [] then (Inl (ErrInvalid ''token id''), db)
          else if secret = [] then (Inl (ErrInvalid ''token secret''), db)
          else
            let t1 = (if to_CreatedAt t = 0 then t\<lparr>to_CreatedAt := now\<rparr> else t)
            in case enc secret (tokenSecretAAD (to_ID t1)) of
                 None \<Rightarrow> (Inl ErrCrypto, db)
               | Some ciphertext \<Rightarrow>
                   if tokenExists db (to_ID t1) then (Inl ErrUnique, db)
                   else (Inr (t1\<lparr>to_Secret := secret, to_exposeSecret := True\<rparr>),
                         db\<lparr>db_tokens := db_tokens db @
                           [\<lparr>tk_ID = to_ID t1, tk_Secret = None, tk_Ciphertext = Some ciphertext,
                             tk_Version = tokenSecretVersion, tk_RotatedAt = Some (to_CreatedAt t1),
                             tk_Note = to_Note t1, tk_Enabled = to_Enabled t1,
                             tk_IsAdmin = to_IsAdmin t1, tk_CreatedAt = to_CreatedAt t1,
                             tk_LastUsedAt = None\<rparr>]\<rparr>))"

definition CreateToken ::
  "(string \<Rightarrow> string \<Rightarrow> string option) \<Rightarrow> int \<Rightarrow> Token option \<Rightarrow> Db \<Rightarrow> (StoreError + Token) \<times> Db" where
  "CreateToken enc now tok db =
     (case tok of
        None \<Rightarrow> (Inl (ErrInvalid ''token''), db)
      | Some t \<Rightarrow> CreateTokenWithSecret enc now tok (to_Secret t) db)"

definition tokenOfRow :: "TokenRow \<Rightarrow> Token" where
  "tokenOfRow r =
     \<lparr>to_ID = tk_ID r, to_Secret = [], to_Note = tk_Note r, to_Enabled = tk_Enabled r,
      to_IsAdmin = tk_IsAdmin r, to_CreatedAt = tk_CreatedAt r, to_LastUsedAt = tk_LastUsedAt r,
      to_exposeSecret = False\<rparr>"

definition getTokenWithSecret ::
  "(string \<Rightarrow> string \<Rightarrow> string option) \<Rightarrow> string \<Rightarrow> Db \<Rightarrow> StoreError + Token option" where
  "getTokenWithSecret dec tid db =
     (case List.find (\<lambda>r. tk_ID r = tid) (db_tokens db) of
        None \<Rightarrow> Inr None
      | Some r \<Rightarrow>
          if orEmpty (tk_Ciphertext r) = [] then
            (case tk_Secret r of
               None \<Rightarrow> Inl (ErrInvalid ''scan'')
             | Some legacy \<Rightarrow> Inr (Some ((tokenOfRow r)\<lparr>to_Secret := legacy\<rparr>)))
          else if tk_Version r \<noteq> tokenSecretVersion then Inl (ErrInvalid ''secret version'')
          else (case dec (orEmpty (tk_Ciphertext r)) (tokenSecretAAD tid) of
                  None \<Rightarrow> Inl ErrCrypto
                | Some secret \<Rightarrow> Inr (Some ((tokenOfRow r)\<lparr>to_Secret := secret\<rparr>))))"

definition GetToken ::
  "(string \<Rightarrow> string \<Rightarrow> string option) \<Rightarrow> string \<Rightarrow> Db \<Rightarrow> StoreError + Token option" where
  "GetToken dec tid db =
     bindR (getTokenWithSecret dec tid db)
       (\<lambda>t. Inr (map_option (\<lambda>t. t\<lparr>to_exposeSecret := False\<rparr>) t))"

definition GetTokenWithSecret ::
  "(string \<Rightarrow> string \<Rightarrow> string option) \<Rightarrow> string \<Rightarrow> Db \<Rightarrow> StoreError + Token option" where
  "GetTokenWithSecret dec tid db =
     bindR (getTokenWithSecret dec tid db)
       (\<lambda>t. Inr (map_option (\<lambda>t. t\<lparr>to_exposeSecret := True\<rparr>) t))"

definition ListTokens :: "Db \<Rightarrow> Token list" where
  "ListTokens db = map tokenOfRow (sort_key tk_CreatedAt (db_tokens db))"

definition RotateTokenSecret ::
  "(string \<Rightarrow> string \<Rightarrow> string option) \<Rightarrow> int \<Rightarrow> string \<Rightarrow> string \<Rightarrow> Db \<Rightarrow> StoreError option \<times> Db" where
  "RotateTokenSecret enc now tid secret db =
     (if TrimSpace tid = [] \<or> secret = [] then (Some (ErrInvalid ''token id and secret''), db)
      else case enc secret (tokenSecretAAD tid) of
             None \<Rightarrow> (Some ErrCrypto, db)
           | Some ciphertext \<Rightarrow>
               if rowsAffected (\<lambda>r. tk_ID r = tid) (db_tokens db) = 0 then (Some ErrNoRows, db)
               else (None, db\<lparr>db_tokens := updWhere (\<lambda>r. tk_ID r = tid)
                      (\<lambda>r. r\<lparr>tk_Ciphertext := Some ciphertext, tk_Version := tokenSecretVersion,
                             tk_RotatedAt := Some now, tk_Secret := None\<rparr>) (db_tokens db)\<rparr>))"

definition UpdateTokenUsage :: "int \<Rightarrow> string \<Rightarrow> Db \<Rightarrow> Db" where
  "UpdateTokenUsage now tid db =
     db\<lparr>db_tokens := updWhere (\<lambda>r. tk_ID r = tid) (\<lambda>r. r\<lparr>tk_LastUsedAt := Some now\<rparr>) (db_tokens db)\<rparr>"

definition UpdateToken :: "string \<Rightarrow> string \<Rightarrow> bool \<Rightarrow> bool \<Rightarrow> Db \<Rightarrow> Db" where
  "UpdateToken tid note enabled isAdmin db =
     db\<lparr>db_tokens := updWhere (\<lambda>r. tk_ID r = tid)
          (\<lambda>r. r\<lparr>tk_Note := note, tk_Enabled := enabled, tk_IsAdmin := isAdmin\<rparr>) (db_tokens db)\<rparr>"

text \<open>
  Deleting a token cascades to its client and grants and clears the references kept by jobs
  and audit events.
\<close>

definition DeleteToken :: "string \<Rightarrow> Db \<Rightarrow> Db" where
  "DeleteToken tid db =
     db\<lparr>db_tokens := filter (\<lambda>r. tk_ID r \<noteq> tid) (db_tokens db),
        db_clients := filter (\<lambda>c. cl_TokenID c \<noteq> tid) (db_clients db),
        db_grants := filter (\<lambda>g. tg_TokenID g \<noteq> tid) (db_grants db),
        db_jobs := updWhere (\<lambda>j. cj_RequestedBy j = Some tid) (\<lambda>j. j\<lparr>cj_RequestedBy := None\<rparr>) (db_jobs db),
        db_audit := updWhere (\<lambda>a. ae_ActorTokenID a = Some tid) (\<lambda>a. a\<lparr>ae_ActorTokenID := None\<rparr>)
          (db_audit db)\<rparr>"

section \<open>Grants\<close>

definition validCertificatePermissions :: "string list" where
  "validCertificatePermissions = [''apply'', ''status'', ''read_cert'', ''read_private_key'', ''force'']"

definition grantRow :: "string \<Rightarrow> string \<Rightarrow> string \<Rightarrow> TokenGrant \<Rightarrow> bool" where
  "grantRow tokenID domain permission g =
     (tg_TokenID g = tokenID \<and> tg_Domain g = domain \<and> tg_Permission g = permission)"

definition Grant :: "int \<Rightarrow> string \<Rightarrow> string \<Rightarrow> string \<Rightarrow> Db \<Rightarrow> StoreError option \<times> Db" where
  "Grant now tokenID domain permission db =
     (case validateCertificateDomain domain of
        Some e \<Rightarrow> (Some e, db)
      | None \<Rightarrow>
          if permission \<notin> set validCertificatePermissions then (Some (ErrInvalid ''permission''), db)
          else if TrimSpace tokenID = [] then (Some (ErrInvalid ''token id''), db)
          else if list_ex (grantRow tokenID domain permission) (db_grants db) then (None, db)
          else if \<not> tokenExists db tokenID \<or> \<not> certExists db domain then (Some ErrForeignKey, db)
          else (None, db\<lparr>db_grants := db_grants db @
                  [\<lparr>tg_TokenID = tokenID, tg_Domain = domain, tg_Permission = permission,
                    tg_CreatedAt = now\<rparr>]\<rparr>))"

definition Revoke :: "string \<Rightarrow> string \<Rightarrow> string \<Rightarrow> Db \<Rightarrow> StoreError option \<times> Db" where
  "Revoke tokenID domain permission db =
     (case validateCertificateDomain domain of
        Some e \<Rightarrow> (Some e, db)
      | None \<Rightarrow>
          if permission \<notin> set validCertificatePermissions then (Some (ErrInvalid ''permission''), db)
          else (None, db\<lparr>db_grants := filter (\<lambda>g. \<not> grantRow tokenID domain permission g) (db_grants db)\<rparr>))"

definition ListGrants :: "string \<Rightarrow> Db \<Rightarrow> TokenGrant list" where
  "ListGrants tokenID db =
     sort_key (\<lambda>g. (tg_Domain g, tg_Permission g)) (filter (\<lambda>g. tg_TokenID g = tokenID) (db_grants db))"

definition HasCertificatePermission :: "Db \<Rightarrow> string \<Rightarrow> string \<Rightarrow> string \<Rightarrow> StoreError + bool" where
  "HasCertificatePermission db tokenID domain permission =
     (case validateCertificateDomain domain of
        Some e \<Rightarrow> Inl e
      | None \<Rightarrow>
          if permission \<notin> set validCertificatePermissions then Inl (ErrInvalid ''permission'')
          else if TrimSpace tokenID = [] then Inr False
          else Inr (list_ex (grantRow tokenID domain permission) (db_grants db)))"

locale grant_table =
  fixes grant :: "int \<Rightarrow> string \<Rightarrow> string \<Rightarrow> string \<Rightarrow> 's \<Rightarrow> 'e option \<times> 's"
    and revoke :: "string \<Rightarrow> string \<Rightarrow> string \<Rightarrow> 's \<Rightarrow> 'e option \<times> 's"
    and allowed :: "'s \<Rightarrow> string \<Rightarrow> string \<Rightarrow> string \<Rightarrow> 'e + bool"
  assumes grant_allows: "grant now t d p s = (None, s') \<Longrightarrow> allowed s' t d p = Inr True"
    and grant_frame: "(t, d, p) \<noteq> (t', d', p') \<Longrightarrow> allowed (snd (grant now t d p s)) t' d' p' = allowed s t' d' p'"
    and grant_error: "grant now t d p s = (Some e, s') \<Longrightarrow> s' = s"
    and revoke_denies: "revoke t d p s = (None, s') \<Longrightarrow> allowed s' t d p \<noteq> Inr True"
    and revoke_frame: "(t, d, p) \<noteq> (t', d', p') \<Longrightarrow> allowed (snd (revoke t d p s)) t' d' p' = allowed s t' d' p'"
    and revoke_error: "revoke t d p s = (Some e, s') \<Longrightarrow> s' = s"
begin

fun runGrants :: "(bool \<times> int \<times> string \<times> string \<times> string) list \<Rightarrow> 's \<Rightarrow> 's" where
  "runGrants [] s = s"
| "runGrants ((isGrant, now, t, d, p) # ops) s =
     runGrants ops (snd (if isGrant then grant now t d p s else revoke t d p s))"

lemma deny_by_default:
  assumes "allowed s t d p \<noteq> Inr True"
    and "\<forall>now. (True, now, t, d, p) \<notin> set ops"
  shows "allowed (runGrants ops s) t d p \<noteq> Inr True"
  using assms
proof (induction ops arbitrary: s)
  case (Cons op ops)
  obtain g now t' d' p' where op: "op = (g, now, t', d', p')"
    by (cases op) auto
  let ?s' = "snd (if g then grant now t' d' p' s else revoke t' d' p' s)"
  have "allowed ?s' t d p \<noteq> Inr True"
  proof (cases "(t', d', p') = (t, d, p)")
    case False
    then show ?thesis
      using Cons.prems(1) grant_frame revoke_frame by auto
  next
    case same: True
    then have "\<not> g"
      using Cons.prems(2) op by auto
    then show ?thesis
      using same Cons.prems(1) revoke_denies[of t d p s] revoke_error[of t d p s]
      by (cases "revoke t d p s"; cases "fst (revoke t d p s)") auto
  qed
  then show ?case
    using Cons op by auto
qed simp

lemma grant_then_unrelated:
  assumes "grant now t d p s = (None, s1)"
    and "\<forall>g n t' d' p'. (g, n, t', d', p') \<in> set ops \<longrightarrow> (t', d', p') \<noteq> (t, d, p)"
  shows "allowed (runGrants ops s1) t d p = Inr True"
proof -
  have "allowed (runGrants ops x) t d p = allowed x t d p" for x
    using assms(2)
  proof (induction ops arbitrary: x)
    case (Cons op ops)
    obtain g n t' d' p' where op: "op = (g, n, t', d', p')"
      by (cases op) auto
    then have "(t', d', p') \<noteq> (t, d, p)"
      using Cons.prems by auto
    then show ?case
      using Cons op by (auto simp: grant_frame revoke_frame)
  qed simp
  then show ?thesis
    using grant_allows[OF assms(1)] by simp
qed

end

lemma Grant_cases:
  "Grant now t d p db = (r, db') \<Longrightarrow>
     (\<exists>e. r = Some e \<and> db' = db) \<or>
     (r = None \<and> validateCertificateDomain d = None \<and> p \<in> set validCertificatePermissions
       \<and> TrimSpace t \<noteq> [] \<and> list_ex (grantRow t d p) (db_grants db')
       \<and> (db' = db \<or> tokenExists db t \<and> certExists db d \<and>
          db' = db\<lparr>db_grants := db_grants db @
                  [\<lparr>tg_TokenID = t, tg_Domain = d, tg_Permission = p, tg_CreatedAt = now\<rparr>]\<rparr>))"
  by (auto simp: Grant_def grantRow_def split: option.splits if_splits)

lemma Grant_other_rows:
  "(t, d, p) \<noteq> (t', d', p') \<Longrightarrow>
   list_ex (grantRow t' d' p') (db_grants (snd (Grant now t d p db))) = list_ex (grantRow t' d' p') (db_grants db)"
  using Grant_cases[of now t d p db "fst (Grant now t d p db)" "snd (Grant now t d p db)"]
  by (auto simp: grantRow_def)

lemma Revoke_other_rows:
  "(t, d, p) \<noteq> (t', d', p') \<Longrightarrow>
   list_ex (grantRow t' d' p') (db_grants (snd (Revoke t d p db))) = list_ex (grantRow t' d' p') (db_grants db)"
  by (auto simp: Revoke_def grantRow_def list_ex_iff split: option.splits)

lemma HasPermission_True_iff:
  "HasCertificatePermission db t d p = Inr True \<longleftrightarrow>
     validateCertificateDomain d = None \<and> p \<in> set validCertificatePermissions
     \<and> TrimSpace t \<noteq> [] \<and> list_ex (grantRow t d p) (db_grants db)"
  by (auto simp: HasCertificatePermission_def split: option.splits)

lemma HasPermission_Grant_frame:
  "(t, d, p) \<noteq> (t', d', p') \<Longrightarrow>
     HasCertificatePermission (snd (Grant now t d p s)) t' d' p' = HasCertificatePermission s t' d' p'"
  using Grant_other_rows[of t d p t' d' p' now s] unfolding HasCertificatePermission_def by (simp split: option.split)

lemma HasPermission_Revoke_frame:
  "(t, d, p) \<noteq> (t', d', p') \<Longrightarrow>
     HasCertificatePermission (snd (Revoke t d p s)) t' d' p' = HasCertificatePermission s t' d' p'"
  using Revoke_other_rows[of t d p t' d' p' s] unfolding HasCertificatePermission_def by (simp split: option.split)

interpretation gt: grant_table Grant Revoke HasCertificatePermission
proof unfold_locales
  show "Grant now t d p s = (None, s') \<Longrightarrow> HasCertificatePermission s' t d p = Inr True" for now t d p s s'
    using Grant_cases[of now t d p s None s'] by (auto simp: HasPermission_True_iff)
  show "(t, d, p) \<noteq> (t', d', p') \<Longrightarrow>
      HasCertificatePermission (snd (Grant now t d p s)) t' d' p' = HasCertificatePermission s t' d' p'"
    for t d p t' d' p' now s
    by (rule HasPermission_Grant_frame)
  show "Grant now t d p s = (Some e, s') \<Longrightarrow> s' = s" for now t d p s e s'
    using Grant_cases[of now t d p s "Some e" s'] by auto
  show "Revoke t d p s = (None, s') \<Longrightarrow> HasCertificatePermission s' t d p \<noteq> Inr True" for t d p s s'
    by (auto simp: HasPermission_True_iff Revoke_def list_ex_iff split: option.splits if_splits)
  show "(t, d, p) \<noteq> (t', d', p') \<Longrightarrow>
      HasCertificatePermission (snd (Revoke t d p s)) t' d' p' = HasCertificatePermission s t' d' p'"
    for t d p t' d' p' s
    by (rule HasPermission_Revoke_frame)
  show "Revoke t d p s = (Some e, s') \<Longrightarrow> s' = s" for t d p s e s'
    by (auto simp: Revoke_def split: option.splits if_splits)
qed

section \<open>Certificate presets\<close>

definition validateDNSProfile :: "string \<Rightarrow> string \<Rightarrow> StoreError option" where
  "validateDNSProfile provider profile =
     failIf (provider = [] \<or> profile = [] \<or> TrimSpace provider \<noteq> provider \<or> TrimSpace profile \<noteq> profile
       \<or> contains (CHR 0x00) provider \<or> contains (CHR 0x00) profile) (ErrInvalid ''dns profile'')"

definition UpsertCert :: "int \<Rightarrow> Cert option \<Rightarrow> Db \<Rightarrow> (StoreError + Cert) \<times> Db" where
  "UpsertCert now cert db =
     (case cert of
        None \<Rightarrow> (Inl ErrNoRows, db)
      | Some c0 \<Rightarrow>
          let profileErr =
            (case ct_DNSProfile c0 of
               None \<Rightarrow> None
             | Some profile \<Rightarrow>
                 (case ct_DNSProvider c0 of
                    None \<Rightarrow> Some (ErrInvalid ''provider required'')
                  | Some provider \<Rightarrow> firstErr
                      [validateDNSProfile provider profile,
                       failIf (\<not> list_ex (\<lambda>q. dnp_Provider q = provider \<and> dnp_Profile q = profile)
                                (db_dnsProfiles db)) (ErrInvalid ''profile missing'')]));
              c = c0\<lparr>ct_CreatedAt := now, ct_UpdatedAt := now\<rparr>
          in case profileErr of
               Some e \<Rightarrow> (Inl e, db)
             | None \<Rightarrow>
                 (case List.find (\<lambda>r. ct_Domain r = ct_Domain c) (db_certs db) of
                    None \<Rightarrow> (Inr c, db\<lparr>db_certs := db_certs db @ [c]\<rparr>)
                  | Some old \<Rightarrow>
                      let new = c\<lparr>ct_CreatedAt := ct_CreatedAt old\<rparr>
                      in (Inr new,
                          db\<lparr>db_certs := updWhere (\<lambda>r. ct_Domain r = ct_Domain c) (\<lambda>_. new) (db_certs db)\<rparr>)))"

definition GetCert :: "string \<Rightarrow> Db \<Rightarrow> Cert option" where
  "GetCert domain db = List.find (\<lambda>r. ct_Domain r = domain) (db_certs db)"

definition ListCerts :: "Db \<Rightarrow> Cert list" where
  "ListCerts db = sort_key ct_Domain (db_certs db)"

text \<open>
  The foreign keys of jobs and generations restrict the deletion; grants cascade and audit
  events lose their domain.
\<close>

definition DeleteCert :: "string \<Rightarrow> Db \<Rightarrow> StoreError option \<times> Db" where
  "DeleteCert domain db =
     (if certExists db domain \<and>
         (list_ex (\<lambda>j. cj_Domain j = domain) (db_jobs db)
          \<or> list_ex (\<lambda>g. cg_Domain g = domain) (db_generations db)) then (Some ErrForeignKey, db)
      else if \<not> certExists db domain then (None, db)
      else (None, db\<lparr>db_certs := filter (\<lambda>c. ct_Domain c \<noteq> domain) (db_certs db),
              db_grants := filter (\<lambda>g. tg_Domain g \<noteq> domain) (db_grants db),
              db_audit := updWhere (\<lambda>a. ae_Domain a = Some domain) (\<lambda>a. a\<lparr>ae_Domain := None\<rparr>) (db_audit db)\<rparr>))"

section \<open>Clients\<close>

definition UpsertClient :: "int \<Rightarrow> Client \<Rightarrow> Db \<Rightarrow> StoreError option \<times> Db" where
  "UpsertClient now c0 db =
     (let c = c0\<lparr>cl_LastSeenAt := now,
                 cl_RegisteredAt := (if cl_RegisteredAt c0 = 0 then now else cl_RegisteredAt c0)\<rparr>
      in if list_ex (\<lambda>r. cl_TokenID r = cl_TokenID c) (db_clients db) then
           (None, db\<lparr>db_clients := updWhere (\<lambda>r. cl_TokenID r = cl_TokenID c)
              (\<lambda>r. r\<lparr>cl_Hostname := cl_Hostname c, cl_OSInfo := cl_OSInfo c, cl_LastSeenAt := cl_LastSeenAt c\<rparr>)
              (db_clients db)\<rparr>)
         else if \<not> tokenExists db (cl_TokenID c) then (Some ErrForeignKey, db)
         else (None, db\<lparr>db_clients := db_clients db @ [c]\<rparr>))"

definition TouchClient :: "int \<Rightarrow> string \<Rightarrow> Db \<Rightarrow> Db" where
  "TouchClient now tokenID db =
     db\<lparr>db_clients := updWhere (\<lambda>r. cl_TokenID r = tokenID) (\<lambda>r. r\<lparr>cl_LastSeenAt := now\<rparr>) (db_clients db)\<rparr>"

definition ListClients :: "Db \<Rightarrow> Client list" where
  "ListClients db = sort_key (\<lambda>c. - cl_LastSeenAt c) (db_clients db)"

section \<open>Token secrets\<close>

lemma CreateTokenWithSecret_ok:
  assumes "CreateTokenWithSecret enc now (Some t) secret db = (Inr t', db')"
  shows "\<not> tokenExists db (to_ID t)" "to_ID t' = to_ID t" "to_Secret t' = secret"
    "\<exists>c r. enc secret (tokenSecretAAD (to_ID t)) = Some c \<and> db' = db\<lparr>db_tokens := db_tokens db @ [r]\<rparr>
        \<and> tk_ID r = to_ID t \<and> tk_Secret r = None \<and> tk_Ciphertext r = Some c
        \<and> tk_Version r = tokenSecretVersion \<and> tk_Enabled r = to_Enabled t \<and> tk_IsAdmin r = to_IsAdmin t"
  using assms by (auto simp: CreateTokenWithSecret_def Let_def split: if_splits option.splits)

lemma GetToken_hidden: "GetToken dec tid db = Inr (Some t) \<Longrightarrow> tj_Secret (Token_MarshalJSON t) = []"
  by (auto simp: GetToken_def Token_MarshalJSON_def)

section \<open>Properties\<close>

text \<open>No replay.  Once \<^verbatim>\<open>ConsumeNonce\<close> has accepted a nonce at time \<open>t\<close>, it refuses the
  same nonce at every time up to \<open>t + ttl\<close>, whatever nonces were consumed in between.\<close>

theorem nonce_no_replay:
  assumes "ConsumeNonce t n ttl db = (True, db1)"
    and "\<forall>(now, m) \<in> set ops. now \<le> t + ttl" and "now \<le> t + ttl"
  shows "fst (ConsumeNonce now n ttl (nl.consumeAll ttl ops db1)) = False"
proof (rule nl.no_replay[OF assms(1)])
  show "\<forall>(now, m) \<in> set ops. now - ttl \<le> t"
    using assms(2) by (auto simp: algebra_simps)
  show "now - ttl \<le> t"
    using assms(3) by simp
qed

theorem nonce_no_replay_witness:
  "fst (ConsumeNonce 400 ''aa'' 300 (nl.consumeAll 300 [(150, ''bb'')] (snd (ConsumeNonce 100 ''aa'' 300 emptyDb)))) = False"
proof -
  have "ConsumeNonce 100 ''aa'' 300 emptyDb = (True, snd (ConsumeNonce 100 ''aa'' 300 emptyDb))"
    by code_simp
  from nonce_no_replay[OF this, of "[(150, ''bb'')]" 400] show ?thesis by simp
qed

text \<open>C9: Deny by default.  A token that may not act on a domain still may not after any
  history of grants and revocations that contains no grant of exactly that permission on
  that domain to that token; and a successful grant holds through every history that does
  not touch that triple.\<close>

theorem permission_needs_grant:
  assumes "HasCertificatePermission db t d p \<noteq> Inr True"
    and "\<forall>now. (True, now, t, d, p) \<notin> set ops"
  shows "HasCertificatePermission (gt.runGrants ops db) t d p \<noteq> Inr True
     \<and> (\<forall>now db1. Grant now t d p db = (None, db1) \<longrightarrow>
          HasCertificatePermission (gt.runGrants (filter (\<lambda>(g, n, o'). o' \<noteq> (t, d, p)) ops) db1) t d p = Inr True)"
  using gt.deny_by_default[OF assms] gt.grant_then_unrelated[of _ t d p db]
  by force

theorem permission_needs_grant_witness:
  "HasCertificatePermission (gt.runGrants [(True, 1, ''t1'', ''a.example'', ''status'')] emptyDb) ''t1'' ''a.example'' ''apply''
     \<noteq> Inr True"
proof -
  have "HasCertificatePermission emptyDb ''t1'' ''a.example'' ''apply'' \<noteq> Inr True"
    by (simp add: HasPermission_True_iff emptyDb_def)
  from permission_needs_grant[OF this, of "[(True, 1, ''t1'', ''a.example'', ''status'')]"] show ?thesis
    by simp
qed

text \<open>Token secrets.  When decryption undoes encryption under the token's associated data, a
  created token is read back with the secret it was created with, the stored row holds no
  plain text, and the JSON of the ordinary read never shows the secret.\<close>

theorem token_secret_roundtrip:
  assumes "\<And>p aad c. enc p aad = Some c \<Longrightarrow> c \<noteq> [] \<and> dec c aad = Some p"
    and "CreateTokenWithSecret enc now (Some t) secret db = (Inr t', db')"
  shows "\<exists>r. GetToken dec (to_ID t) db' = Inr (Some r) \<and> to_Secret r = secret
      \<and> to_Enabled r = to_Enabled t \<and> to_IsAdmin r = to_IsAdmin t
      \<and> tj_Secret (Token_MarshalJSON r) = []
      \<and> list_all (\<lambda>row. tk_ID row = to_ID t \<longrightarrow> tk_Secret row = None) (db_tokens db')"
proof -
  note new = CreateTokenWithSecret_ok[OF assms(2)]
  obtain c r where r: "enc secret (tokenSecretAAD (to_ID t)) = Some c" "db' = db\<lparr>db_tokens := db_tokens db @ [r]\<rparr>"
    "tk_ID r = to_ID t" "tk_Secret r = None" "tk_Ciphertext r = Some c" "tk_Version r = tokenSecretVersion"
    "tk_Enabled r = to_Enabled t" "tk_IsAdmin r = to_IsAdmin t"
    using new(4) by blast
  have fresh: "\<forall>x\<in>set (db_tokens db). tk_ID x \<noteq> to_ID t"
    using new(1) by (simp add: tokenExists_def list_ex_iff)
  then have "List.find (\<lambda>x. tk_ID x = to_ID t) (db_tokens db) = None"
    by (simp add: find_None_conv)
  then have find: "List.find (\<lambda>x. tk_ID x = to_ID t) (db_tokens db') = Some r"
    using r(2,3) by (simp add: find_append)
  have dec: "c \<noteq> []" "dec c (tokenSecretAAD (to_ID t)) = Some secret"
    using assms(1)[OF r(1)] by simp_all
  have "getTokenWithSecret dec (to_ID t) db' = Inr (Some ((tokenOfRow r)\<lparr>to_Secret := secret\<rparr>))"
    using find r dec by (simp add: getTokenWithSecret_def orEmpty_def)
  then show ?thesis
    using r fresh by (simp add: GetToken_def Token_MarshalJSON_def tokenOfRow_def list_all_iff)
qed

theorem token_secret_roundtrip_witness:
  "\<exists>r. GetToken (\<lambda>c aad. Some (drop 1 c)) ''t1''
        (snd (CreateTokenWithSecret (\<lambda>p aad. Some (CHR ''x'' # p)) 5
           (Some \<lparr>to_ID = ''t1'', to_Secret = [], to_Note = [], to_Enabled = True, to_IsAdmin = False,
                  to_CreatedAt = 0, to_LastUsedAt = None, to_exposeSecret = False\<rparr>) ''s3cret'' emptyDb))
      = Inr (Some r) \<and> to_Secret r = ''s3cret''"
proof -
  let ?enc = "\<lambda>(p::string) (aad::string). Some (CHR ''x'' # p)"
  let ?dec = "\<lambda>(c::string) (aad::string). Some (drop 1 c)"
  let ?t = "\<lparr>to_ID = ''t1'', to_Secret = [], to_Note = [], to_Enabled = True, to_IsAdmin = False,
             to_CreatedAt = 0, to_LastUsedAt = None, to_exposeSecret = False\<rparr>"
  have ok: "?enc p aad = Some c \<Longrightarrow> c \<noteq> [] \<and> ?dec c aad = Some p" for p aad c
    by auto
  have run: "CreateTokenWithSecret ?enc 5 (Some ?t) ''s3cret'' emptyDb =
     (Inr (?t\<lparr>to_CreatedAt := 5, to_Secret := ''s3cret'', to_exposeSecret := True\<rparr>),
      snd (CreateTokenWithSecret ?enc 5 (Some ?t) ''s3cret'' emptyDb))"
    by (simp add: CreateTokenWithSecret_def tokenExists_def emptyDb_def visible_eval)
  show ?thesis
    using token_secret_roundtrip[of ?enc ?dec, OF ok run] by auto
qed

end
