(* ===== verification/StoreJobs.thy ===== *)
theory StoreJobs
  imports StoreAccess
begin

text \<open>
  The certificate job queue of \<^verbatim>\<open>internal/store/workflows.go\<close>: creation under an idempotency
  key, claiming with a lease, renewal, release, retry with backoff and status updates.  The
  locale \<open>lease_queue\<close> states what a worker may rely on while it holds a lease; it is
  interpreted on the store's operations.
\<close>

section \<open>States\<close>

definition validJobStatus :: "string \<Rightarrow> bool" where
  "validJobStatus status = (status \<in> set [''queued'', ''running'', ''succeeded'', ''failed'', ''cancelled''])"

definition isTerminalJobStatus :: "string \<Rightarrow> bool" where
  "isTerminalJobStatus status = (status = ''succeeded'' \<or> status = ''failed'' \<or> status = ''cancelled'')"

definition jobKey :: "CertificateJob \<Rightarrow> string \<times> string \<times> string" where
  "jobKey j = (cj_Domain j, cj_Operation j, cj_IdempotencyKey j)"

section \<open>Queries\<close>

definition GetCertificateJob :: "string \<Rightarrow> Db \<Rightarrow> CertificateJob option" where
  "GetCertificateJob jid db = List.find (\<lambda>j. cj_ID j = jid) (db_jobs db)"

definition getActiveCertificateJob :: "string \<Rightarrow> string \<Rightarrow> string \<Rightarrow> Db \<Rightarrow> CertificateJob option" where
  "getActiveCertificateJob domain operation key db =
     List.find (\<lambda>j. jobKey j = (domain, operation, key) \<and> cj_Status j \<in> set [''queued'', ''running''])
       (db_jobs db)"

definition firstRow :: "'r list \<Rightarrow> 'r option" where
  "firstRow rs = (case rs of [] \<Rightarrow> None | r # _ \<Rightarrow> Some r)"

definition GetByIdempotency :: "string \<Rightarrow> string \<Rightarrow> string \<Rightarrow> Db \<Rightarrow> CertificateJob option" where
  "GetByIdempotency domain operation key db =
     firstRow (sort_key (\<lambda>j. (cj_CreatedAt j, cj_ID j))
       (filter (\<lambda>j. jobKey j = (domain, operation, key)) (db_jobs db)))"

record JobFilter =
  jf_Domain :: string
  jf_Status :: string
  jf_Limit :: int
  jf_Offset :: int

definition ListCertificateJobs :: "JobFilter \<Rightarrow> Db \<Rightarrow> CertificateJob list" where
  "ListCertificateJobs f db =
     page (jf_Limit f) (jf_Offset f)
       (rev (sort_key (\<lambda>j. (cj_CreatedAt j, cj_ID j))
         (filter (\<lambda>j. (jf_Domain f \<noteq> [] \<longrightarrow> cj_Domain j = jf_Domain f)
                    \<and> (jf_Status f \<noteq> [] \<longrightarrow> cj_Status j = jf_Status f)) (db_jobs db))))"

section \<open>Creating a job\<close>

definition insertJob :: "CertificateJob \<Rightarrow> Db \<Rightarrow> StoreError + Db" where
  "insertJob job db =
     (if list_ex (\<lambda>r. cj_ID r = cj_ID job \<or> jobKey r = jobKey job) (db_jobs db) then Inl ErrUnique
      else if \<not> certExists db (cj_Domain job)
              \<or> (cj_RequestedBy job \<noteq> None \<and> \<not> tokenExists db (the (cj_RequestedBy job)))
      then Inl ErrForeignKey
      else Inr (db\<lparr>db_jobs := db_jobs db @ [job]\<rparr>))"

text \<open>The defaults the code fills in: ID, status, attempt limit and timestamps.\<close>

definition normalJob :: "int \<Rightarrow> string option \<Rightarrow> CertificateJob \<Rightarrow> CertificateJob" where
  "normalJob now newID j =
     j\<lparr>cj_ID := (if cj_ID j = [] then the newID else cj_ID j),
       cj_Status := (if cj_Status j = [] then ''queued'' else cj_Status j),
       cj_MaxAttempts := (if cj_MaxAttempts j = 0 then 3 else cj_MaxAttempts j),
       cj_CreatedAt := (if cj_CreatedAt j = 0 then now else cj_CreatedAt j),
       cj_UpdatedAt := now\<rparr>"

definition createErr :: "int \<Rightarrow> string option \<Rightarrow> CertificateJob \<Rightarrow> StoreError option" where
  "createErr now newID job0 = firstErr
     [validateCertificateDomain (cj_Domain job0),
      failIf (TrimSpace (cj_Operation job0) = [] \<or> TrimSpace (cj_IdempotencyKey job0) = [])
        (ErrInvalid ''operation''),
      failIf (cj_ID job0 = [] \<and> newID = None) ErrRandom,
      failIf (\<not> validJobStatus (cj_Status (normalJob now newID job0))) (ErrInvalid ''status''),
      failIf (cj_MaxAttempts (normalJob now newID job0) < 1 \<or> cj_Attempts job0 < 0
              \<or> cj_Attempts job0 > cj_MaxAttempts (normalJob now newID job0)) (ErrInvalid ''attempts'')]"

definition CreateCertificateJob ::
  "int \<Rightarrow> string option \<Rightarrow> CertificateJob option \<Rightarrow> Db \<Rightarrow> (StoreError + CertificateJob) \<times> Db" where
  "CreateCertificateJob now newID arg db =
     (case arg of
        None \<Rightarrow> (Inl (ErrInvalid ''job''), db)
      | Some job0 \<Rightarrow>
          let job = normalJob now newID job0
          in case createErr now newID job0 of
               Some e \<Rightarrow> (Inl e, db)
             | None \<Rightarrow>
                 (case insertJob job db of
                    Inr db' \<Rightarrow> (Inr job, db')
                  | Inl err \<Rightarrow>
                      if \<not> isUniqueConstraint err then (Inl err, db)
                      else (case GetByIdempotency (cj_Domain job) (cj_Operation job)
                                   (cj_IdempotencyKey job) db of
                              Some existing \<Rightarrow> (Inr existing, db)
                            | None \<Rightarrow> (Inl err, db))))"

section \<open>Leases\<close>

definition claimable :: "int \<Rightarrow> CertificateJob \<Rightarrow> bool" where
  "claimable now j =
     (cj_Attempts j < cj_MaxAttempts j \<and>
      ((cj_Status j = ''queued'' \<and> (cj_NextAttemptAt j = None \<or> the (cj_NextAttemptAt j) \<le> now)) \<or>
       (cj_Status j = ''running'' \<and> (cj_LeaseUntil j = None \<or> the (cj_LeaseUntil j) \<le> now))))"

definition claimKey :: "CertificateJob \<Rightarrow> int \<times> int \<times> string" where
  "claimKey j = ((case cj_NextAttemptAt j of Some t \<Rightarrow> t | None \<Rightarrow> cj_CreatedAt j), cj_CreatedAt j, cj_ID j)"

definition exhausted :: "int \<Rightarrow> CertificateJob \<Rightarrow> bool" where
  "exhausted now j =
     (cj_Status j = ''running'' \<and> cj_Attempts j \<ge> cj_MaxAttempts j
      \<and> (cj_LeaseUntil j = None \<or> the (cj_LeaseUntil j) \<le> now))"

text \<open>The UTF-8 bytes of the message the cleanup stores.\<close>

definition exhaustedMessage :: string where
  "exhaustedMessage = map char_of ([0xE4, 0xBB, 0xBB, 0xE5, 0x8A, 0xA1, 0xE8, 0xBE, 0xBE, 0xE5, 0x88, 0xB0, 0xE6, 0x9C,
     0x80, 0xE5, 0xA4, 0xA7, 0xE5, 0xB0, 0x9D, 0xE8, 0xAF, 0x95, 0xE6, 0xAC, 0xA1, 0xE6,
     0x95, 0xB0] :: nat list)"

definition failExhausted :: "int \<Rightarrow> CertificateJob \<Rightarrow> CertificateJob" where
  "failExhausted now j =
     j\<lparr>cj_Status := ''failed'', cj_LeaseOwner := [], cj_LeaseUntil := None,
       cj_LastErrorCode := Some ''attempts_exhausted'', cj_LastErrorAt := Some now,
       cj_ErrorMessage := Some exhaustedMessage, cj_FinishedAt := Some now, cj_UpdatedAt := now\<rparr>"

definition startAttempt :: "int \<Rightarrow> string \<Rightarrow> int \<Rightarrow> CertificateJob \<Rightarrow> CertificateJob" where
  "startAttempt now owner leaseUntil j =
     j\<lparr>cj_Status := ''running'', cj_Attempts := cj_Attempts j + 1, cj_LeaseOwner := owner,
       cj_LeaseUntil := Some leaseUntil, cj_NextAttemptAt := None,
       cj_StartedAt := (case cj_StartedAt j of None \<Rightarrow> Some now | Some t \<Rightarrow> Some t), cj_UpdatedAt := now\<rparr>"

definition nextClaim :: "int \<Rightarrow> CertificateJob list \<Rightarrow> CertificateJob option" where
  "nextClaim now jobs = firstRow (sort_key claimKey (filter (claimable now) jobs))"

definition Claim :: "int \<Rightarrow> string \<Rightarrow> int \<Rightarrow> Db \<Rightarrow> (StoreError + CertificateJob option) \<times> Db" where
  "Claim now owner leaseDuration db =
     (if TrimSpace owner = [] \<or> leaseDuration \<le> 0 then (Inl (ErrInvalid ''owner''), db)
      else
        let leaseUntil = now + durationSeconds leaseDuration;
            jobs = updWhere (exhausted now) (failExhausted now) (db_jobs db)
        in case nextClaim now jobs of
             None \<Rightarrow> (Inr None, db\<lparr>db_jobs := jobs\<rparr>)
           | Some j \<Rightarrow> (Inr (Some (startAttempt now owner leaseUntil j)),
                db\<lparr>db_jobs := updWhere (\<lambda>r. cj_ID r = cj_ID j) (startAttempt now owner leaseUntil) jobs\<rparr>))"

text \<open>The rows a lease operation of \<open>owner\<close> may touch at time \<open>now\<close>.\<close>

definition holdsLease :: "int \<Rightarrow> string \<Rightarrow> string \<Rightarrow> CertificateJob \<Rightarrow> bool" where
  "holdsLease now jid owner j =
     (cj_ID j = jid \<and> cj_Status j = ''running'' \<and> cj_LeaseOwner j = owner
      \<and> (case cj_LeaseUntil j of None \<Rightarrow> False | Some u \<Rightarrow> u > now))"

definition updateLeased ::
  "int \<Rightarrow> string \<Rightarrow> string \<Rightarrow> (CertificateJob \<Rightarrow> CertificateJob) \<Rightarrow> Db \<Rightarrow> StoreError option \<times> Db" where
  "updateLeased now jid owner f db =
     (if rowsAffected (holdsLease now jid owner) (db_jobs db) = 0 then (Some ErrNoRows, db)
      else (None, db\<lparr>db_jobs := updWhere (holdsLease now jid owner) f (db_jobs db)\<rparr>))"

definition RenewLease :: "int \<Rightarrow> string \<Rightarrow> string \<Rightarrow> int \<Rightarrow> Db \<Rightarrow> StoreError option \<times> Db" where
  "RenewLease now jid owner leaseDuration db =
     (if TrimSpace jid = [] \<or> TrimSpace owner = [] \<or> leaseDuration \<le> 0 then (Some (ErrInvalid ''lease''), db)
      else updateLeased now jid owner
        (\<lambda>j. j\<lparr>cj_LeaseUntil := Some (now + durationSeconds leaseDuration), cj_UpdatedAt := now\<rparr>) db)"

definition releaseRow :: "int \<Rightarrow> CertificateJob \<Rightarrow> CertificateJob" where
  "releaseRow now j =
     (let done = cj_Attempts j \<ge> cj_MaxAttempts j
      in j\<lparr>cj_Status := (if done then ''failed'' else ''queued''), cj_LeaseOwner := [], cj_LeaseUntil := None,
           cj_NextAttemptAt := (if done then None else Some now),
           cj_LastErrorCode := (if done then Some ''attempts_exhausted'' else cj_LastErrorCode j),
           cj_LastErrorAt := (if done then Some now else cj_LastErrorAt j),
           cj_FinishedAt := (if done then Some now else None), cj_UpdatedAt := now\<rparr>)"

definition ReleaseLease :: "int \<Rightarrow> string \<Rightarrow> string \<Rightarrow> Db \<Rightarrow> StoreError option \<times> Db" where
  "ReleaseLease now jid owner db =
     (if TrimSpace jid = [] \<or> TrimSpace owner = [] then (Some (ErrInvalid ''lease''), db)
      else updateLeased now jid owner (releaseRow now) db)"

definition ListRecoverable :: "int \<Rightarrow> int \<Rightarrow> Db \<Rightarrow> CertificateJob list" where
  "ListRecoverable now limit db =
     take (nat (boundedLimit limit)) (sort_key claimKey (filter (claimable now) (db_jobs db)))"

definition retryRow :: "int \<Rightarrow> string \<Rightarrow> string \<Rightarrow> int \<Rightarrow> CertificateJob \<Rightarrow> CertificateJob" where
  "retryRow now errorCode errorMessage nextAttemptAt j =
     (let done = cj_Attempts j \<ge> cj_MaxAttempts j
      in j\<lparr>cj_Status := (if done then ''failed'' else ''queued''),
           cj_NextAttemptAt := (if done then None else Some nextAttemptAt),
           cj_LeaseOwner := [], cj_LeaseUntil := None, cj_LastErrorCode := nullString errorCode,
           cj_LastErrorAt := Some now, cj_ErrorMessage := nullString errorMessage,
           cj_FinishedAt := (if done then Some now else None), cj_UpdatedAt := now\<rparr>)"

definition retryAt ::
  "string \<Rightarrow> string \<Rightarrow> string \<Rightarrow> string \<Rightarrow> int \<Rightarrow> int \<Rightarrow> Db \<Rightarrow> StoreError option \<times> Db" where
  "retryAt jid owner errorCode errorMessage nextAttemptAt now db =
     (if TrimSpace jid = [] \<or> TrimSpace owner = [] \<or> nextAttemptAt < now then (Some (ErrInvalid ''retry''), db)
      else updateLeased now jid owner (retryRow now errorCode errorMessage nextAttemptAt) db)"

text \<open>\<^verbatim>\<open>Retry\<close> reads the clock in nanoseconds and rounds down to Unix seconds twice.\<close>

definition Retry ::
  "int \<Rightarrow> string \<Rightarrow> string \<Rightarrow> string \<Rightarrow> string \<Rightarrow> int \<Rightarrow> Db \<Rightarrow> StoreError option \<times> Db" where
  "Retry nowNs jid owner errorCode errorMessage backoff db =
     (if backoff < 0 then (Some (ErrInvalid ''backoff''), db)
      else retryAt jid owner errorCode errorMessage ((nowNs + backoff) div 1000000000) (nowNs div 1000000000) db)"

section \<open>Status updates and deletion\<close>

definition statusRow :: "int \<Rightarrow> string \<Rightarrow> string \<Rightarrow> CertificateJob \<Rightarrow> CertificateJob" where
  "statusRow now status errorMessage j =
     (let terminal = isTerminalJobStatus status;
          start = (if status = ''running'' then Some now else None);
          finish = (if status = ''succeeded'' \<or> status = ''failed'' \<or> status = ''cancelled'' then Some now else None)
      in j\<lparr>cj_Status := status, cj_ErrorMessage := nullString errorMessage, cj_UpdatedAt := now,
           cj_StartedAt := (case cj_StartedAt j of None \<Rightarrow> start | Some t \<Rightarrow> Some t), cj_FinishedAt := finish,
           cj_LeaseOwner := (if terminal then [] else cj_LeaseOwner j),
           cj_LeaseUntil := (if terminal then None else cj_LeaseUntil j),
           cj_NextAttemptAt := (if terminal then None else cj_NextAttemptAt j)\<rparr>)"

definition UpdateCertificateJobStatus :: "int \<Rightarrow> string \<Rightarrow> string \<Rightarrow> string \<Rightarrow> Db \<Rightarrow> StoreError option \<times> Db" where
  "UpdateCertificateJobStatus now jid status errorMessage db =
     (if \<not> validJobStatus status then (Some (ErrInvalid ''status''), db)
      else if rowsAffected (\<lambda>j. cj_ID j = jid) (db_jobs db) = 0 then (Some ErrNoRows, db)
      else (None, db\<lparr>db_jobs := updWhere (\<lambda>j. cj_ID j = jid) (statusRow now status errorMessage) (db_jobs db)\<rparr>))"

definition DeleteCertificateJob :: "string \<Rightarrow> Db \<Rightarrow> StoreError option \<times> Db" where
  "DeleteCertificateJob jid db =
     (if rowsAffected (\<lambda>j. cj_ID j = jid) (db_jobs db) = 0 then (Some ErrNoRows, db)
      else if list_ex (\<lambda>g. cg_JobID g = jid) (db_generations db) then (Some ErrForeignKey, db)
      else (None, db\<lparr>db_jobs := filter (\<lambda>j. cj_ID j \<noteq> jid) (db_jobs db)\<rparr>))"

section \<open>Histories of the queue\<close>

datatype JobOp =
    OpCreate "string option" CertificateJob
  | OpClaim string int
  | OpRenew string string int
  | OpRelease string string
  | OpRetry string string string string int
  | OpStatus string string string
  | OpDelete string

fun jobStep :: "int \<Rightarrow> JobOp \<Rightarrow> Db \<Rightarrow> Db" where
  "jobStep now (OpCreate newID job) db = snd (CreateCertificateJob now newID (Some job) db)"
| "jobStep now (OpClaim owner dur) db = snd (Claim now owner dur db)"
| "jobStep now (OpRenew jid owner dur) db = snd (RenewLease now jid owner dur db)"
| "jobStep now (OpRelease jid owner) db = snd (ReleaseLease now jid owner db)"
| "jobStep now (OpRetry jid owner code msg nextAt) db = snd (retryAt jid owner code msg nextAt now db)"
| "jobStep now (OpStatus jid status msg) db = snd (UpdateCertificateJobStatus now jid status msg db)"
| "jobStep now (OpDelete jid) db = snd (DeleteCertificateJob jid db)"

inductive jobReach :: "Db \<Rightarrow> Db \<Rightarrow> bool" for db0 where
  reach_init: "jobReach db0 db0"
| reach_step: "jobReach db0 db \<Longrightarrow> jobReach db0 (jobStep now op db)"

fun jobRun :: "(int \<times> JobOp) list \<Rightarrow> Db \<Rightarrow> Db" where
  "jobRun [] db = db"
| "jobRun ((now, op) # ops) db = jobRun ops (jobStep now op db)"

text \<open>How often a history claims the job \<open>jid\<close>.\<close>

definition claimsJob :: "string \<Rightarrow> int \<Rightarrow> JobOp \<Rightarrow> Db \<Rightarrow> bool" where
  "claimsJob jid now op db =
     (case op of
        OpClaim owner dur \<Rightarrow>
          (case fst (Claim now owner dur db) of Inr (Some j) \<Rightarrow> cj_ID j = jid | _ \<Rightarrow> False)
      | _ \<Rightarrow> False)"

fun claimCount :: "string \<Rightarrow> (int \<times> JobOp) list \<Rightarrow> Db \<Rightarrow> nat" where
  "claimCount jid [] db = 0"
| "claimCount jid ((now, op) # ops) db =
     (if claimsJob jid now op db then 1 else 0) + claimCount jid ops (jobStep now op db)"

section \<open>The row chosen by an ordered query\<close>

lemma firstRow_None [simp]: "firstRow rs = None \<longleftrightarrow> rs = []"
  by (cases rs) (simp_all add: firstRow_def)

lemma firstRow_sort_Some:
  assumes "firstRow (sort_key k xs) = Some x"
  shows "x \<in> set xs" "\<forall>y\<in>set xs. k x \<le> k y"
proof -
  obtain rest where s: "sort_key k xs = x # rest"
    using assms by (cases "sort_key k xs") (auto simp: firstRow_def)
  then have "set xs = set (x # rest)"
    by (metis set_sort)
  moreover have "sorted (map k (x # rest))"
    using sorted_sort_key[of k xs] s by simp
  ultimately show "x \<in> set xs" "\<forall>y\<in>set xs. k x \<le> k y"
    by auto
qed

lemma sort_key_Nil [simp]: "sort_key k xs = [] \<longleftrightarrow> xs = []"
  by (metis length_0_conv length_sort)

lemma firstRow_sort_single: "xs = [x] \<Longrightarrow> firstRow (sort_key k xs) = Some x"
  by (simp add: firstRow_def)

section \<open>The invariant of the queue\<close>

definition jobOk :: "CertificateJob \<Rightarrow> bool" where
  "jobOk j = (validJobStatus (cj_Status j) \<and> hostName (cj_Domain j)
     \<and> 0 \<le> cj_Attempts j \<and> cj_Attempts j \<le> cj_MaxAttempts j \<and> 1 \<le> cj_MaxAttempts j)"

definition jobsInv :: "Db \<Rightarrow> bool" where
  "jobsInv db = (distinct (map cj_ID (db_jobs db)) \<and> distinct (map jobKey (db_jobs db))
     \<and> list_all jobOk (db_jobs db))"

definition keepsIdentity :: "(CertificateJob \<Rightarrow> CertificateJob) \<Rightarrow> bool" where
  "keepsIdentity f = (\<forall>j. cj_ID (f j) = cj_ID j \<and> jobKey (f j) = jobKey j \<and> cj_Domain (f j) = cj_Domain j)"

lemma row_identity [simp]:
  "keepsIdentity (failExhausted now)"
  "keepsIdentity (startAttempt now owner u)"
  "keepsIdentity (releaseRow now)"
  "keepsIdentity (retryRow now code msg nextAt)"
  "keepsIdentity (statusRow now st msg)"
  "keepsIdentity (\<lambda>j. j\<lparr>cj_LeaseUntil := l, cj_UpdatedAt := now\<rparr>)"
  by (simp_all add: keepsIdentity_def jobKey_def failExhausted_def startAttempt_def releaseRow_def
      retryRow_def statusRow_def Let_def)

lemma jobsInv_upd:
  assumes "jobsInv db" "keepsIdentity f"
    and "\<And>j. j \<in> set (db_jobs db) \<Longrightarrow> p j \<Longrightarrow> jobOk j \<Longrightarrow> jobOk (f j)"
  shows "jobsInv (db\<lparr>db_jobs := updWhere p f (db_jobs db)\<rparr>)"
proof -
  have "map cj_ID (updWhere p f (db_jobs db)) = map cj_ID (db_jobs db)"
    "map jobKey (updWhere p f (db_jobs db)) = map jobKey (db_jobs db)"
    using assms(2) by (auto simp: keepsIdentity_def intro!: map_key_updWhere)
  moreover have "list_all jobOk (updWhere p f (db_jobs db))"
    using assms(1,3) by (auto simp: jobsInv_def list_all_iff dest!: updWhere_mem)
  ultimately show ?thesis
    using assms(1) by (simp add: jobsInv_def)
qed

lemma jobsInv_same_id:
  "jobsInv db \<Longrightarrow> a \<in> set (db_jobs db) \<Longrightarrow> b \<in> set (db_jobs db) \<Longrightarrow> cj_ID a = cj_ID b \<Longrightarrow> a = b"
  unfolding jobsInv_def by (blast intro: distinct_key_inj)

lemma jobsInv_same_key:
  "jobsInv db \<Longrightarrow> a \<in> set (db_jobs db) \<Longrightarrow> b \<in> set (db_jobs db) \<Longrightarrow> jobKey a = jobKey b \<Longrightarrow> a = b"
  unfolding jobsInv_def by (blast intro: distinct_key_inj)

lemma jobOk_rows:
  "jobOk j \<Longrightarrow> jobOk (failExhausted now j)"
  "jobOk j \<Longrightarrow> cj_Attempts j < cj_MaxAttempts j \<Longrightarrow> jobOk (startAttempt now owner u j)"
  "jobOk j \<Longrightarrow> jobOk (releaseRow now j)"
  "jobOk j \<Longrightarrow> jobOk (retryRow now code msg nextAt j)"
  "jobOk j \<Longrightarrow> validJobStatus st \<Longrightarrow> jobOk (statusRow now st msg j)"
  "jobOk j \<Longrightarrow> jobOk (j\<lparr>cj_LeaseUntil := l, cj_UpdatedAt := now\<rparr>)"
  by (auto simp: jobOk_def validJobStatus_def failExhausted_def startAttempt_def releaseRow_def
      retryRow_def statusRow_def Let_def)

section \<open>Creation\<close>

lemma insertJob_ok:
  "insertJob job db = Inr db' \<longleftrightarrow>
     (\<forall>r\<in>set (db_jobs db). cj_ID r \<noteq> cj_ID job \<and> jobKey r \<noteq> jobKey job)
     \<and> certExists db (cj_Domain job)
     \<and> (\<forall>t. cj_RequestedBy job = Some t \<longrightarrow> tokenExists db t)
     \<and> db' = db\<lparr>db_jobs := db_jobs db @ [job]\<rparr>"
  by (auto simp: insertJob_def list_ex_iff)

lemma GetByIdempotency_mem:
  "GetByIdempotency d o_p k db = Some j \<Longrightarrow> j \<in> set (db_jobs db) \<and> jobKey j = (d, o_p, k)"
  unfolding GetByIdempotency_def by (drule firstRow_sort_Some(1)) simp

lemma GetByIdempotency_unique:
  assumes "jobsInv db" "j \<in> set (db_jobs db)" "jobKey j = (d, o_p, k)"
  shows "GetByIdempotency d o_p k db = Some j"
proof (cases "GetByIdempotency d o_p k db")
  case None
  then show ?thesis
    using assms by (auto simp: GetByIdempotency_def filter_empty_conv)
next
  case (Some j')
  then show ?thesis
    using GetByIdempotency_mem[OF Some] jobsInv_same_key[OF assms(1)] assms by auto
qed

lemma normalJob_key [simp]: "jobKey (normalJob now newID j) = jobKey j"
  by (simp add: normalJob_def jobKey_def)

lemma normalJob_fields [simp]:
  "cj_Domain (normalJob now newID j) = cj_Domain j"
  "cj_Operation (normalJob now newID j) = cj_Operation j"
  "cj_IdempotencyKey (normalJob now newID j) = cj_IdempotencyKey j"
  "cj_Attempts (normalJob now newID j) = cj_Attempts j"
  "cj_RequestedBy (normalJob now newID j) = cj_RequestedBy j"
  by (simp_all add: normalJob_def)

lemma normalJob_ok: "createErr now newID j = None \<Longrightarrow> jobOk (normalJob now newID j)"
  by (simp add: createErr_def jobOk_def valid_simps not_less)

lemma Create_cases:
  assumes "CreateCertificateJob now newID (Some j) db = (r, db')"
  obtains (refused) e where "r = Inl e" "db' = db"
  | (reused) old where "r = Inr old" "db' = db" "old \<in> set (db_jobs db)" "jobKey old = jobKey j"
  | (created) "r = Inr (normalJob now newID j)" "createErr now newID j = None"
      "insertJob (normalJob now newID j) db = Inr db'"
proof (cases "createErr now newID j")
  case (Some e)
  then have "r = Inl e" "db' = db"
    using assms by (simp_all add: CreateCertificateJob_def Let_def)
  then show ?thesis
    by (rule refused)
next
  case None
  show ?thesis
  proof (cases "insertJob (normalJob now newID j) db")
    case (Inr db2)
    then show ?thesis
      using assms None created by (simp add: CreateCertificateJob_def Let_def)
  next
    case (Inl err)
    have run: "(r, db') = (if \<not> isUniqueConstraint err then (Inl err, db)
        else (case GetByIdempotency (cj_Domain j) (cj_Operation j) (cj_IdempotencyKey j) db of
                Some existing \<Rightarrow> (Inr existing, db)
              | None \<Rightarrow> (Inl err, db)))"
      using assms None Inl
      by (cases "isUniqueConstraint err") (simp_all add: CreateCertificateJob_def Let_def)
    show ?thesis
    proof (cases "isUniqueConstraint err")
      case False
      then show ?thesis
        using run refused[of err] by simp
    next
      case unique: True
      show ?thesis
      proof (cases "GetByIdempotency (cj_Domain j) (cj_Operation j) (cj_IdempotencyKey j) db")
        case None
        then show ?thesis
          using run unique refused[of err] by simp
      next
        case (Some old)
        then show ?thesis
          using run unique reused[of old] GetByIdempotency_mem[OF Some] by (simp add: jobKey_def)
      qed
    qed
  qed
qed

lemma Create_jobsInv: "jobsInv db \<Longrightarrow> jobsInv (snd (CreateCertificateJob now newID (Some j) db))"
proof -
  assume inv: "jobsInv db"
  obtain r db' where run: "CreateCertificateJob now newID (Some j) db = (r, db')"
    by fastforce
  then show ?thesis
  proof (cases rule: Create_cases)
    case created
    then show ?thesis
      using inv normalJob_ok[of now newID j] run
      by (auto simp: jobsInv_def insertJob_ok image_iff)
  qed (use inv run in simp_all)
qed

section \<open>Claiming\<close>

lemma claimable_cleanup [simp]:
  "filter (claimable now) (updWhere (exhausted now) (failExhausted now) js) = filter (claimable now) js"
  by (induction js) (auto simp: claimable_def exhausted_def failExhausted_def)

lemma nextClaim_cleanup [simp]:
  "nextClaim now (updWhere (exhausted now) (failExhausted now) js) = nextClaim now js"
  by (simp add: nextClaim_def)

lemma nextClaim_Some:
  assumes "nextClaim now js = Some j"
  shows "j \<in> set js" "claimable now j" "\<forall>y\<in>set js. claimable now y \<longrightarrow> claimKey j \<le> claimKey y"
  using firstRow_sort_Some[OF assms[unfolded nextClaim_def]] by auto

lemma nextClaim_None: "nextClaim now js = None \<longleftrightarrow> (\<forall>y\<in>set js. \<not> claimable now y)"
  by (simp add: nextClaim_def filter_empty_conv)

lemma claimable_not_exhausted: "claimable now j \<Longrightarrow> \<not> exhausted now j"
  by (auto simp: claimable_def exhausted_def)

definition cleaned :: "int \<Rightarrow> Db \<Rightarrow> Db" where
  "cleaned now db = db\<lparr>db_jobs := updWhere (exhausted now) (failExhausted now) (db_jobs db)\<rparr>"

lemma Claim_cases:
  assumes "Claim now owner dur db = (r, db')"
  obtains (refused) "r = Inl (ErrInvalid ''owner'')" "db' = db" "TrimSpace owner = [] \<or> dur \<le> 0"
  | (idle) "r = Inr None" "db' = cleaned now db" "\<forall>y\<in>set (db_jobs db). \<not> claimable now y"
      "TrimSpace owner \<noteq> []" "0 < dur"
  | (claimed) j where "nextClaim now (db_jobs db) = Some j" "TrimSpace owner \<noteq> []" "0 < dur"
      "r = Inr (Some (startAttempt now owner (now + durationSeconds dur) j))"
      "db' = (cleaned now db)\<lparr>db_jobs := updWhere (\<lambda>x. cj_ID x = cj_ID j)
                (startAttempt now owner (now + durationSeconds dur)) (db_jobs (cleaned now db))\<rparr>"
  using assms nextClaim_None[of now "db_jobs db"]
  by (fastforce simp: Claim_def cleaned_def Let_def split: if_splits option.splits)

lemma cleaned_jobsInv: "jobsInv db \<Longrightarrow> jobsInv (cleaned now db)"
  unfolding cleaned_def by (rule jobsInv_upd) (auto intro: jobOk_rows)

lemma cleaned_mem: "j \<in> set (db_jobs db) \<Longrightarrow> \<not> exhausted now j \<Longrightarrow> j \<in> set (db_jobs (cleaned now db))"
  by (auto simp: cleaned_def set_updWhere)

lemma Claim_jobsInv: "jobsInv db \<Longrightarrow> jobsInv (snd (Claim now owner dur db))"
proof -
  assume inv: "jobsInv db"
  obtain r db' where run: "Claim now owner dur db = (r, db')"
    by fastforce
  then show ?thesis
  proof (cases rule: Claim_cases)
    case (claimed j)
    then have j: "j \<in> set (db_jobs db)" "claimable now j"
      using nextClaim_Some by blast+
    then have jc: "j \<in> set (db_jobs (cleaned now db))"
      using cleaned_mem claimable_not_exhausted by blast
    have "jobsInv db'"
      unfolding claimed(5)
    proof (rule jobsInv_upd[OF cleaned_jobsInv[OF inv]])
      fix x assume "x \<in> set (db_jobs (cleaned now db))" "cj_ID x = cj_ID j" "jobOk x"
      then show "jobOk (startAttempt now owner (now + durationSeconds dur) x)"
        using jobsInv_same_id[OF cleaned_jobsInv[OF inv] _ jc] j(2)
        by (auto simp: claimable_def intro: jobOk_rows)
    qed simp
    then show ?thesis by (simp add: run)
  qed (use inv run cleaned_jobsInv in simp_all)
qed

section \<open>Every operation keeps the invariant\<close>

lemma updateLeased_cases:
  assumes "updateLeased now jid owner f db = (r, db')"
  obtains (missing) "r = Some ErrNoRows" "db' = db" "\<forall>j\<in>set (db_jobs db). \<not> holdsLease now jid owner j"
  | (held) "r = None" "db' = db\<lparr>db_jobs := updWhere (holdsLease now jid owner) f (db_jobs db)\<rparr>"
  using assms by (auto simp: updateLeased_def split: if_splits)

lemma updateLeased_jobsInv:
  assumes "jobsInv db" "keepsIdentity f" "\<And>j. jobOk j \<Longrightarrow> jobOk (f j)"
  shows "jobsInv (snd (updateLeased now jid owner f db))"
  using assms by (auto simp: updateLeased_def intro: jobsInv_upd)

lemma lease_ops_jobsInv:
  assumes "jobsInv db"
  shows "jobsInv (snd (RenewLease now jid owner dur db))"
    and "jobsInv (snd (ReleaseLease now jid owner db))"
    and "jobsInv (snd (retryAt jid owner code msg nextAt now db))"
  using assms by (auto simp: RenewLease_def ReleaseLease_def retryAt_def
      intro!: updateLeased_jobsInv intro: jobOk_rows)

lemma status_jobsInv: "jobsInv db \<Longrightarrow> jobsInv (snd (UpdateCertificateJobStatus now jid status msg db))"
  by (auto simp: UpdateCertificateJobStatus_def intro!: jobsInv_upd intro: jobOk_rows)

lemma delete_jobsInv: "jobsInv db \<Longrightarrow> jobsInv (snd (DeleteCertificateJob jid db))"
  by (auto simp: DeleteCertificateJob_def jobsInv_def list_all_iff distinct_map_filter_key)

lemma jobStep_jobsInv: "jobsInv db \<Longrightarrow> jobsInv (jobStep now op db)"
  by (cases op) (simp_all add: Create_jobsInv Claim_jobsInv lease_ops_jobsInv status_jobsInv delete_jobsInv)

lemma jobRun_jobsInv: "jobsInv db \<Longrightarrow> jobsInv (jobRun ops db)"
  by (induction ops db rule: jobRun.induct) (simp_all add: jobStep_jobsInv)

section \<open>Following one job\<close>

lemma Get_updWhere:
  assumes "keepsIdentity f"
  shows "GetCertificateJob i (db\<lparr>db_jobs := updWhere p f (db_jobs db)\<rparr>) =
     map_option (\<lambda>r. if p r then f r else r) (GetCertificateJob i db)"
  using assms by (simp add: GetCertificateJob_def keepsIdentity_def find_updWhere_key)

lemma Get_mem: "GetCertificateJob i db = Some j \<Longrightarrow> j \<in> set (db_jobs db) \<and> cj_ID j = i"
  unfolding GetCertificateJob_def by (rule find_Some_mem)

lemma Get_of_mem: "jobsInv db \<Longrightarrow> j \<in> set (db_jobs db) \<Longrightarrow> GetCertificateJob (cj_ID j) db = Some j"
  by (simp add: GetCertificateJob_def jobsInv_def distinct_find)

lemma Get_append:
  "GetCertificateJob i db = Some j \<Longrightarrow> GetCertificateJob i (db\<lparr>db_jobs := db_jobs db @ rs\<rparr>) = Some j"
  by (simp add: GetCertificateJob_def find_append)

lemma Get_cleaned:
  "GetCertificateJob i (cleaned now db) =
     map_option (\<lambda>r. if exhausted now r then failExhausted now r else r) (GetCertificateJob i db)"
  unfolding cleaned_def by (rule Get_updWhere) simp

lemma Get_create:
  assumes "GetCertificateJob i db = Some j"
  shows "GetCertificateJob i (snd (CreateCertificateJob now newID (Some job) db)) = Some j"
proof -
  obtain r db' where run: "CreateCertificateJob now newID (Some job) db = (r, db')"
    by fastforce
  then show ?thesis
    by (cases rule: Create_cases) (use assms run in \<open>auto simp: insertJob_ok Get_append\<close>)
qed

lemma Get_claim:
  assumes inv: "jobsInv db" and get: "GetCertificateJob i db = Some j"
  shows "GetCertificateJob i (snd (Claim now owner dur db)) =
     Some (if claimsJob i now (OpClaim owner dur) db then startAttempt now owner (now + durationSeconds dur) j
           else if TrimSpace owner \<noteq> [] \<and> 0 < dur \<and> exhausted now j then failExhausted now j else j)"
proof -
  obtain r db' where run: "Claim now owner dur db = (r, db')"
    by fastforce
  then show ?thesis
  proof (cases rule: Claim_cases)
    case refused
    then show ?thesis
      using get run by (auto simp: claimsJob_def)
  next
    case idle
    then show ?thesis
      using get run by (auto simp: claimsJob_def Get_cleaned)
  next
    case (claimed c)
    have i: "claimsJob i now (OpClaim owner dur) db \<longleftrightarrow> cj_ID c = i"
      using run claimed by (simp add: claimsJob_def startAttempt_def)
    have "GetCertificateJob i db' =
        map_option (\<lambda>x. if cj_ID x = cj_ID c then startAttempt now owner (now + durationSeconds dur) x else x)
          (GetCertificateJob i (cleaned now db))"
      unfolding claimed(5) by (rule Get_updWhere) simp
    then have g: "GetCertificateJob i db' =
        Some (if cj_ID c = i then startAttempt now owner (now + durationSeconds dur)
                (if exhausted now j then failExhausted now j else j)
              else if exhausted now j then failExhausted now j else j)"
      using get Get_mem[OF get] by (simp add: Get_cleaned failExhausted_def)
    show ?thesis
    proof (cases "cj_ID c = i")
      case True
      have "c \<in> set (db_jobs db)" "claimable now c"
        using nextClaim_Some[OF claimed(1)] by blast+
      moreover have "c = j"
        using Get_of_mem[OF inv calculation(1)] get True by simp
      ultimately have "\<not> exhausted now j"
        using claimable_not_exhausted by blast
      then show ?thesis
        using g i True run by simp
    next
      case False
      then show ?thesis
        using g i claimed run by simp
    qed
  qed
qed

lemma Get_updateLeased:
  assumes "keepsIdentity f" "GetCertificateJob i db = Some j"
  shows "GetCertificateJob i (snd (updateLeased now jid owner f db)) =
     Some (if holdsLease now jid owner j then f j else j)"
  using assms Get_mem[OF assms(2)] by (auto simp: updateLeased_def Get_updWhere)

lemma Get_renew:
  "GetCertificateJob i db = Some j \<Longrightarrow> GetCertificateJob i (snd (RenewLease now jid owner dur db)) =
     Some (if TrimSpace jid \<noteq> [] \<and> TrimSpace owner \<noteq> [] \<and> 0 < dur \<and> holdsLease now jid owner j
           then j\<lparr>cj_LeaseUntil := Some (now + durationSeconds dur), cj_UpdatedAt := now\<rparr> else j)"
  by (simp add: RenewLease_def Get_updateLeased)

lemma Get_release:
  "GetCertificateJob i db = Some j \<Longrightarrow> GetCertificateJob i (snd (ReleaseLease now jid owner db)) =
     Some (if TrimSpace jid \<noteq> [] \<and> TrimSpace owner \<noteq> [] \<and> holdsLease now jid owner j
           then releaseRow now j else j)"
  by (simp add: ReleaseLease_def Get_updateLeased)

lemma Get_retry:
  "GetCertificateJob i db = Some j \<Longrightarrow>
   GetCertificateJob i (snd (retryAt jid owner code msg nextAt now db)) =
     Some (if TrimSpace jid \<noteq> [] \<and> TrimSpace owner \<noteq> [] \<and> now \<le> nextAt \<and> holdsLease now jid owner j
           then retryRow now code msg nextAt j else j)"
  by (simp add: retryAt_def Get_updateLeased not_less)

lemma Get_status:
  "GetCertificateJob i db = Some j \<Longrightarrow>
   GetCertificateJob i (snd (UpdateCertificateJobStatus now jid st msg db)) =
     Some (if validJobStatus st \<and> jid = i then statusRow now st msg j else j)"
  using Get_mem[of i db j] by (auto simp: UpdateCertificateJobStatus_def Get_updWhere)

lemma find_filter_other:
  "jid \<noteq> i \<Longrightarrow> List.find (\<lambda>j. cj_ID j = i) (filter (\<lambda>j. cj_ID j \<noteq> jid) js) = List.find (\<lambda>j. cj_ID j = i) js"
  by (induction js) auto

lemma Get_delete:
  "GetCertificateJob i db = Some j \<Longrightarrow> jid \<noteq> i \<Longrightarrow>
   GetCertificateJob i (snd (DeleteCertificateJob jid db)) = Some j"
  by (auto simp: DeleteCertificateJob_def GetCertificateJob_def find_filter_other)

lemmas Get_job = Get_create Get_claim Get_renew Get_release Get_retry Get_status Get_delete

subsection \<open>Attempts\<close>

lemma row_attempts [simp]:
  "cj_Attempts (failExhausted now j) = cj_Attempts j"
  "cj_Attempts (startAttempt now owner u j) = cj_Attempts j + 1"
  "cj_Attempts (releaseRow now j) = cj_Attempts j"
  "cj_Attempts (retryRow now code msg nextAt j) = cj_Attempts j"
  "cj_Attempts (statusRow now st msg j) = cj_Attempts j"
  "cj_MaxAttempts (failExhausted now j) = cj_MaxAttempts j"
  "cj_MaxAttempts (startAttempt now owner u j) = cj_MaxAttempts j"
  "cj_MaxAttempts (releaseRow now j) = cj_MaxAttempts j"
  "cj_MaxAttempts (retryRow now code msg nextAt j) = cj_MaxAttempts j"
  "cj_MaxAttempts (statusRow now st msg j) = cj_MaxAttempts j"
  by (simp_all add: failExhausted_def startAttempt_def releaseRow_def retryRow_def statusRow_def Let_def)

lemma row_ids [simp]:
  "cj_ID (failExhausted now j) = cj_ID j"
  "cj_ID (startAttempt now owner u j) = cj_ID j"
  "cj_ID (releaseRow now j) = cj_ID j"
  "cj_ID (retryRow now code msg nextAt j) = cj_ID j"
  "cj_ID (statusRow now st msg j) = cj_ID j"
  by (simp_all add: failExhausted_def startAttempt_def releaseRow_def retryRow_def statusRow_def Let_def)

lemma step_attempts:
  assumes "jobsInv db" "GetCertificateJob i db = Some j" "op \<noteq> OpDelete i"
  shows "\<exists>j'. GetCertificateJob i (jobStep now op db) = Some j' \<and> cj_MaxAttempts j' = cj_MaxAttempts j
     \<and> cj_Attempts j' = cj_Attempts j + (if claimsJob i now op db then 1 else 0)"
  using assms by (cases op) (auto simp: Get_job claimsJob_def)

lemma run_attempts:
  assumes "jobsInv db" "GetCertificateJob i db = Some j" "\<forall>now. (now, OpDelete i) \<notin> set ops"
  shows "\<exists>j'. GetCertificateJob i (jobRun ops db) = Some j' \<and> cj_MaxAttempts j' = cj_MaxAttempts j
     \<and> cj_Attempts j' = cj_Attempts j + int (claimCount i ops db)"
  using assms
proof (induction ops db arbitrary: j rule: jobRun.induct)
  case (2 now op ops db)
  then have "op \<noteq> OpDelete i"
    by auto
  then obtain j' where j': "GetCertificateJob i (jobStep now op db) = Some j'"
    "cj_MaxAttempts j' = cj_MaxAttempts j"
    "cj_Attempts j' = cj_Attempts j + (if claimsJob i now op db then 1 else 0)"
    using step_attempts[OF 2(2,3)] by blast
  show ?case
    using 2(1)[OF jobStep_jobsInv[OF 2(2)] j'(1)] 2(4) j'(2,3) by auto
qed simp

lemma row_keys [simp]:
  "jobKey (failExhausted now j) = jobKey j"
  "jobKey (startAttempt now owner u j) = jobKey j"
  "jobKey (releaseRow now j) = jobKey j"
  "jobKey (retryRow now code msg nextAt j) = jobKey j"
  "jobKey (statusRow now st msg j) = jobKey j"
  "jobKey (j\<lparr>cj_LeaseUntil := l, cj_UpdatedAt := now\<rparr>) = jobKey j"
  by (simp_all add: jobKey_def failExhausted_def startAttempt_def releaseRow_def retryRow_def statusRow_def Let_def)

lemma run_key:
  assumes "jobsInv db" "GetCertificateJob i db = Some j" "\<forall>now. (now, OpDelete i) \<notin> set ops"
  shows "\<exists>j'. GetCertificateJob i (jobRun ops db) = Some j' \<and> jobKey j' = jobKey j"
  using assms
proof (induction ops db arbitrary: j rule: jobRun.induct)
  case (2 now op ops db)
  then have "op \<noteq> OpDelete i"
    by auto
  then obtain j' where "GetCertificateJob i (jobStep now op db) = Some j'" "jobKey j' = jobKey j"
    using 2(2,3) by (cases op) (auto simp: Get_job)
  then show ?case
    using 2(1)[OF jobStep_jobsInv[OF 2(2)]] 2(4) by auto
qed simp

section \<open>The lease interface\<close>

text \<open>The live lease of a job: its owner and its end.\<close>

definition leaseOf :: "Db \<Rightarrow> string \<Rightarrow> (string \<times> int) option" where
  "leaseOf db jid =
     (case GetCertificateJob jid db of
        None \<Rightarrow> None
      | Some j \<Rightarrow> if cj_Status j = ''running'' then map_option (\<lambda>u. (cj_LeaseOwner j, u)) (cj_LeaseUntil j)
                  else None)"

text \<open>The operations by which the holder, or an administrator, ends or extends the lease.\<close>

fun actsOnLease :: "string \<Rightarrow> string \<Rightarrow> JobOp \<Rightarrow> bool" where
  "actsOnLease i owner (OpRenew jid o' _) = (jid = i \<and> o' = owner)"
| "actsOnLease i owner (OpRelease jid o') = (jid = i \<and> o' = owner)"
| "actsOnLease i owner (OpRetry jid o' _ _ _) = (jid = i \<and> o' = owner)"
| "actsOnLease i owner (OpStatus jid _ _) = (jid = i)"
| "actsOnLease i owner (OpDelete jid) = (jid = i)"
| "actsOnLease i owner (OpCreate _ _) = False"
| "actsOnLease i owner (OpClaim _ _) = False"

locale lease_queue =
  fixes step :: "int \<Rightarrow> 'op \<Rightarrow> 's \<Rightarrow> 's"
    and run :: "(int \<times> 'op) list \<Rightarrow> 's \<Rightarrow> 's"
    and inv :: "'s \<Rightarrow> bool"
    and lease :: "'s \<Rightarrow> string \<Rightarrow> (string \<times> int) option"
    and acts :: "string \<Rightarrow> string \<Rightarrow> 'op \<Rightarrow> bool"
    and claims :: "string \<Rightarrow> int \<Rightarrow> 'op \<Rightarrow> 's \<Rightarrow> bool"
  assumes run_Nil: "run [] s = s"
    and run_Cons: "run ((now, op) # ops) s = run ops (step now op s)"
    and inv_step: "inv s \<Longrightarrow> inv (step now op s)"
    and lease_frame: "inv s \<Longrightarrow> lease s i = Some (owner, u) \<Longrightarrow> now < u \<Longrightarrow> \<not> acts i owner op
        \<Longrightarrow> lease (step now op s) i = Some (owner, u)"
    and lease_blocks: "inv s \<Longrightarrow> lease s i = Some (owner, u) \<Longrightarrow> now < u \<Longrightarrow> \<not> claims i now op s"
begin

lemma lease_exclusive:
  assumes "inv s" "lease s i = Some (owner, u)"
    and "\<forall>(now, op) \<in> set ops. now < u \<and> \<not> acts i owner op"
  shows "lease (run ops s) i = Some (owner, u)"
  using assms
  by (induction ops arbitrary: s) (auto simp: run_Nil run_Cons inv_step lease_frame)

lemma no_second_claim:
  assumes "inv s" "lease s i = Some (owner, u)"
    and "\<forall>(now, op) \<in> set ops. now < u \<and> \<not> acts i owner op" and "t < u"
  shows "\<not> claims i t op (run ops s)"
proof -
  have "inv (run ops s)"
    using assms(1) by (induction ops arbitrary: s) (auto simp: run_Nil run_Cons inv_step)
  then show ?thesis
    using lease_exclusive[OF assms(1-3)] assms(4) lease_blocks by blast
qed

end

lemma leaseOf_live:
  assumes "leaseOf db i = Some (owner, u)"
  obtains j where "GetCertificateJob i db = Some j" "cj_Status j = ''running''"
    "cj_LeaseOwner j = owner" "cj_LeaseUntil j = Some u"
  using assms by (auto simp: leaseOf_def split: option.splits if_splits)

lemma live_not_claimed:
  assumes "jobsInv db" "leaseOf db i = Some (owner, u)" "now < u"
  shows "\<not> claimsJob i now op db"
proof
  assume "claimsJob i now op db"
  then obtain o2 dur c where op: "op = OpClaim o2 dur" and c: "fst (Claim now o2 dur db) = Inr (Some c)" "cj_ID c = i"
    by (auto simp: claimsJob_def split: JobOp.splits sum.splits option.splits)
  obtain j where j: "GetCertificateJob i db = Some j" "cj_Status j = ''running''" "cj_LeaseUntil j = Some u"
    using assms(2) by (rule leaseOf_live)
  obtain r db' where run: "Claim now o2 dur db = (r, db')"
    by fastforce
  then show False
  proof (cases rule: Claim_cases)
    case (claimed x)
    then have "cj_ID x = i"
      using c run by auto
    moreover have "x \<in> set (db_jobs db)" "claimable now x"
      using nextClaim_Some[OF claimed(1)] by blast+
    ultimately have "x = j"
      using Get_of_mem[OF assms(1)] j(1) by fastforce
    then show False
      using \<open>claimable now x\<close> j assms(3) by (simp add: claimable_def)
  qed (use c run in simp_all)
qed

lemma live_lease_frame:
  assumes inv: "jobsInv db" and live: "leaseOf db i = Some (owner, u)" and "now < u"
    and quiet: "\<not> actsOnLease i owner op"
  shows "leaseOf (jobStep now op db) i = Some (owner, u)"
proof -
  obtain j where j: "GetCertificateJob i db = Some j" "cj_Status j = ''running''" "cj_LeaseOwner j = owner"
    "cj_LeaseUntil j = Some u"
    using live by (rule leaseOf_live)
  have id: "cj_ID j = i"
    using Get_mem[OF j(1)] by simp
  have "\<not> exhausted now j"
    using j \<open>now < u\<close> by (simp add: exhausted_def)
  then have "GetCertificateJob i (jobStep now op db) = Some j"
    using quiet live_not_claimed[OF inv live \<open>now < u\<close>] inv j(1,3) id
    by (cases op) (auto simp: Get_job holdsLease_def)
  then show ?thesis
    using j by (simp add: leaseOf_def)
qed

interpretation lq: lease_queue jobStep jobRun jobsInv leaseOf actsOnLease claimsJob
  by unfold_locales (use jobStep_jobsInv live_lease_frame live_not_claimed in auto)

lemma claim_gives_lease:
  assumes "jobsInv db" "Claim now owner dur db = (Inr (Some j), db')"
  shows "leaseOf db' (cj_ID j) = Some (owner, now + durationSeconds dur)"
proof -
  have claims: "claimsJob (cj_ID j) now (OpClaim owner dur) db"
    using assms(2) by (simp add: claimsJob_def)
  from assms(2) obtain c where c: "nextClaim now (db_jobs db) = Some c" "cj_ID c = cj_ID j"
    by (cases rule: Claim_cases) auto
  have "GetCertificateJob (cj_ID j) db = Some c"
    using Get_of_mem[OF assms(1)] nextClaim_Some(1)[OF c(1)] c(2) by metis
  from Get_claim[OF assms(1) this, of now owner dur] show ?thesis
    using claims assms(2) by (simp add: leaseOf_def startAttempt_def)
qed

section \<open>A small database\<close>

definition demoCert :: Cert where
  "demoCert = \<lparr>ct_Domain = ''a.example'', ct_SAN = [], ct_CA = ''letsencrypt'', ct_ChallengeMode = ''dns_api'',
     ct_DNSProvider = Some ''cf'', ct_DNSProfile = None, ct_WebrootPath = None, ct_Keylength = ''ec-256'',
     ct_RenewDays = 30, ct_ReloadCmd = None, ct_CreatedAt = 1, ct_UpdatedAt = 1, ct_Source = ''preset''\<rparr>"

definition demoJob :: CertificateJob where
  "demoJob = \<lparr>cj_ID = ''j1'', cj_Domain = ''a.example'', cj_Operation = ''reconcile'',
     cj_IdempotencyKey = ''k1'', cj_Status = ''queued'', cj_Attempts = 0, cj_MaxAttempts = 3,
     cj_NextAttemptAt = None, cj_LeaseOwner = [], cj_LeaseUntil = None, cj_LastErrorCode = None,
     cj_LastErrorAt = None, cj_RequestedBy = None, cj_ErrorMessage = None, cj_CreatedAt = 50,
     cj_UpdatedAt = 50, cj_StartedAt = None, cj_FinishedAt = None\<rparr>"

definition demoDb :: Db where
  "demoDb = emptyDb\<lparr>db_certs := [demoCert], db_jobs := [demoJob]\<rparr>"

lemmas demo_defs = demoDb_def demoJob_def demoCert_def emptyDb_def

lemma demo_hostName: "hostName ''a.example''"
  by code_simp

lemma demo_inv: "jobsInv demoDb"
  by code_simp

lemma demo_claim: "Claim 100 ''w'' 60000000000 demoDb =
    (Inr (Some (startAttempt 100 ''w'' 160 demoJob)),
     demoDb\<lparr>db_jobs := [startAttempt 100 ''w'' 160 demoJob]\<rparr>)"
  by (simp add: Claim_def demo_defs durationSeconds_def nextClaim_def claimable_def exhausted_def firstRow_def
      visible_eval)

section \<open>Properties of the queue\<close>

text \<open>C1: Lease exclusivity.  After \<^verbatim>\<open>Claim\<close> has handed a job to an owner, the job keeps that
  owner and that lease end, and no other \<^verbatim>\<open>Claim\<close> returns it, through every history of store
  operations (by any number of workers) whose times lie before the end of the lease and
  which contains neither the owner's own renew, release or retry of the job nor an
  administrative status change or deletion of it.\<close>

theorem claim_exclusive:
  assumes "jobsInv db"
    and "Claim now owner dur db = (Inr (Some j), db')"
    and "\<forall>(t, op) \<in> set ops. t < now + durationSeconds dur \<and> \<not> actsOnLease (cj_ID j) owner op"
    and "t' < now + durationSeconds dur"
  shows "leaseOf (jobRun ops db') (cj_ID j) = Some (owner, now + durationSeconds dur)
     \<and> \<not> claimsJob (cj_ID j) t' op' (jobRun ops db')"
proof -
  have "jobsInv db'" "leaseOf db' (cj_ID j) = Some (owner, now + durationSeconds dur)"
    using Claim_jobsInv[OF assms(1), of now owner dur] claim_gives_lease[OF assms(1,2)] assms(2) by simp_all
  then show ?thesis
    using lq.lease_exclusive lq.no_second_claim assms(3,4) by blast
qed

theorem claim_exclusive_witness:
  "leaseOf (jobRun [(120, OpClaim ''x'' 60000000000), (130, OpRelease ''j1'' ''x'')]
      (demoDb\<lparr>db_jobs := [startAttempt 100 ''w'' 160 demoJob]\<rparr>)) ''j1'' = Some (''w'', 160)
   \<and> \<not> claimsJob ''j1'' 159 (OpClaim ''y'' 1000000000)
        (jobRun [(120, OpClaim ''x'' 60000000000), (130, OpRelease ''j1'' ''x'')]
          (demoDb\<lparr>db_jobs := [startAttempt 100 ''w'' 160 demoJob]\<rparr>))"
  using claim_exclusive[OF demo_inv demo_claim,
      of "[(120, OpClaim ''x'' 60000000000), (130, OpRelease ''j1'' ''x'')]" 159 "OpClaim ''y'' 1000000000"]
  by (simp add: durationSeconds_def startAttempt_def demoJob_def)

text \<open>C3: Bounded attempts.  Through any history that does not delete the job, the number of
  times \<^verbatim>\<open>Claim\<close> hands it out is the growth of its attempt counter and never exceeds the
  attempts it had left.\<close>

theorem claims_bounded:
  assumes "jobsInv db" "GetCertificateJob i db = Some j" "\<forall>now. (now, OpDelete i) \<notin> set ops"
  shows "\<exists>j'. GetCertificateJob i (jobRun ops db) = Some j'
      \<and> cj_Attempts j' = cj_Attempts j + int (claimCount i ops db)
      \<and> int (claimCount i ops db) \<le> cj_MaxAttempts j - cj_Attempts j"
proof -
  obtain j' where j': "GetCertificateJob i (jobRun ops db) = Some j'" "cj_MaxAttempts j' = cj_MaxAttempts j"
    "cj_Attempts j' = cj_Attempts j + int (claimCount i ops db)"
    using run_attempts[OF assms] by blast
  moreover have "jobOk j'"
    using jobRun_jobsInv[OF assms(1), of ops] Get_mem[OF j'(1)] by (auto simp: jobsInv_def list_all_iff)
  ultimately show ?thesis
    by (auto simp: jobOk_def)
qed

theorem claims_bounded_witness:
  "\<exists>j'. GetCertificateJob ''j1'' (jobRun [(100, OpClaim ''w'' 60000000000), (161, OpClaim ''x'' 60000000000)] demoDb) = Some j'
      \<and> cj_Attempts j' = 0 + int (claimCount ''j1'' [(100, OpClaim ''w'' 60000000000), (161, OpClaim ''x'' 60000000000)] demoDb)
      \<and> int (claimCount ''j1'' [(100, OpClaim ''w'' 60000000000), (161, OpClaim ''x'' 60000000000)] demoDb) \<le> 3 - 0"
proof -
  have "GetCertificateJob ''j1'' demoDb = Some demoJob"
    by (simp add: GetCertificateJob_def demo_defs)
  from claims_bounded[OF demo_inv this, of "[(100, OpClaim ''w'' 60000000000), (161, OpClaim ''x'' 60000000000)]"]
  show ?thesis by (simp add: demoJob_def)
qed

text \<open>C4: The invariant of the queue.  Job IDs stay unique, (domain, operation, idempotency key)
  stays unique, every status is one of the five, the domain is a valid host name and
  \<open>0 \<le> attempts \<le> max_attempts\<close>, in every database that operations can reach.\<close>

theorem queue_invariant:
  assumes "jobReach db0 db" "jobsInv db0"
  shows "distinct (map cj_ID (db_jobs db)) \<and> distinct (map jobKey (db_jobs db))
     \<and> list_all (\<lambda>j. validJobStatus (cj_Status j) \<and> hostName (cj_Domain j) \<and> 0 \<le> cj_Attempts j
           \<and> cj_Attempts j \<le> cj_MaxAttempts j \<and> 1 \<le> cj_MaxAttempts j) (db_jobs db)"
proof -
  have "jobsInv db"
    using assms by (induction rule: jobReach.induct) (auto intro: jobStep_jobsInv)
  then show ?thesis
    by (simp add: jobsInv_def jobOk_def[abs_def])
qed

theorem queue_invariant_witness:
  "distinct (map cj_ID (db_jobs (jobStep 100 (OpClaim ''w'' 60000000000) demoDb)))"
  using queue_invariant[OF reach_step[OF reach_init] demo_inv, of 100 "OpClaim ''w'' 60000000000"]
  by simp

text \<open>C2: Idempotent creation.  Once a job exists for (domain, operation, key), creating it
  again with that triple, after any history that does not delete it and whatever state the
  job is in by then, returns that job and changes nothing.\<close>

theorem create_idempotent:
  assumes "jobsInv db" "CreateCertificateJob now newID (Some j) db = (Inr job, db1)"
    and "\<forall>t. (t, OpDelete (cj_ID job)) \<notin> set ops"
    and "jobKey j2 = jobKey j" "createErr now2 newID2 j2 = None"
  shows "\<exists>job'. CreateCertificateJob now2 newID2 (Some j2) (jobRun ops db1) = (Inr job', jobRun ops db1)
     \<and> cj_ID job' = cj_ID job"
proof -
  have inv1: "jobsInv db1"
    using Create_jobsInv[OF assms(1), of now newID j] assms(2) by simp
  have "job \<in> set (db_jobs db1) \<and> jobKey job = jobKey j"
    using assms(2) by (cases rule: Create_cases) (auto simp: insertJob_ok)
  then obtain job' where job': "GetCertificateJob (cj_ID job) (jobRun ops db1) = Some job'" "jobKey job' = jobKey j"
    using run_key[OF inv1 Get_of_mem[OF inv1] assms(3)] by auto
  have mem: "job' \<in> set (db_jobs (jobRun ops db1))" "cj_ID job' = cj_ID job"
    using Get_mem[OF job'(1)] by simp_all
  have "insertJob (normalJob now2 newID2 j2) (jobRun ops db1) = Inl ErrUnique"
    using mem(1) job'(2) assms(4) by (auto simp: insertJob_def list_ex_iff)
  moreover have "GetByIdempotency (cj_Domain j2) (cj_Operation j2) (cj_IdempotencyKey j2) (jobRun ops db1) = Some job'"
    using mem(1) job'(2) assms(4) jobRun_jobsInv[OF inv1]
    by (intro GetByIdempotency_unique) (auto simp: jobKey_def)
  ultimately show ?thesis
    using mem(2) assms(5) by (simp add: CreateCertificateJob_def Let_def isUniqueConstraint_def)
qed

theorem create_idempotent_witness:
  "\<exists>job'. CreateCertificateJob 900 (Some ''other'') (Some (demoJob\<lparr>cj_ID := []\<rparr>))
        (jobRun [(100, OpClaim ''w'' 60000000000), (110, OpStatus ''j1'' ''succeeded'' [])] demoDb)
      = (Inr job', jobRun [(100, OpClaim ''w'' 60000000000), (110, OpStatus ''j1'' ''succeeded'' [])] demoDb)
     \<and> cj_ID job' = ''j1''"
proof -
  have ok0: "createErr 50 None demoJob = None"
    by (simp add: createErr_def normalJob_def demo_defs valid_simps demo_hostName validJobStatus_def visible_eval)
  have norm: "normalJob 50 None demoJob = demoJob"
    by (simp add: normalJob_def demoJob_def)
  have ins: "insertJob demoJob (demoDb\<lparr>db_jobs := []\<rparr>) = Inr demoDb"
    by (simp add: insertJob_ok demo_defs certExists_def)
  have created: "CreateCertificateJob 50 None (Some demoJob) (demoDb\<lparr>db_jobs := []\<rparr>) = (Inr demoJob, demoDb)"
    by (simp add: CreateCertificateJob_def ok0 norm ins)
  have inv: "jobsInv (demoDb\<lparr>db_jobs := []\<rparr>)"
    by code_simp
  have ok: "createErr 900 (Some ''other'') (demoJob\<lparr>cj_ID := []\<rparr>) = None"
    by (simp add: createErr_def normalJob_def demo_defs valid_simps demo_hostName validJobStatus_def visible_eval)
  have key: "jobKey (demoJob\<lparr>cj_ID := []\<rparr>) = jobKey demoJob"
    by (simp add: jobKey_def)
  show ?thesis
    using create_idempotent[OF inv created _ key ok, of "[(100, OpClaim ''w'' 60000000000), (110, OpStatus ''j1'' ''succeeded'' [])]"]
    by (simp add: demoJob_def)
qed

text \<open>What \<^verbatim>\<open>Claim\<close> hands out.  With a valid owner and duration it returns nothing exactly
  when no row is due; otherwise it returns a due row that is least in the order of next
  attempt time (creation time when none is set), creation time and ID, now running, owned
  by the caller, with one more attempt and a lease that covers the duration.\<close>

theorem claim_selects:
  assumes "TrimSpace owner \<noteq> []" "0 < dur"
  shows "case fst (Claim now owner dur db) of
           Inl e \<Rightarrow> False
         | Inr None \<Rightarrow> (\<forall>y\<in>set (db_jobs db). \<not> claimable now y)
         | Inr (Some j) \<Rightarrow> (\<exists>x\<in>set (db_jobs db). claimable now x
               \<and> (\<forall>y\<in>set (db_jobs db). claimable now y \<longrightarrow> claimKey x \<le> claimKey y)
               \<and> cj_ID j = cj_ID x \<and> cj_Status j = ''running'' \<and> cj_LeaseOwner j = owner
               \<and> cj_Attempts j = cj_Attempts x + 1 \<and> cj_NextAttemptAt j = None
               \<and> (\<exists>u. cj_LeaseUntil j = Some u \<and> dur \<le> (u - now) * 1000000000))"
proof -
  obtain r db' where run: "Claim now owner dur db = (r, db')"
    by fastforce
  then show ?thesis
  proof (cases rule: Claim_cases)
    case (claimed x)
    have "\<exists>u. Some (now + durationSeconds dur) = Some u \<and> dur \<le> (u - now) * 1000000000"
      using durationSeconds_covers[OF assms(2)] by simp
    then show ?thesis
      using nextClaim_Some[OF claimed(1)] run claimed(4)
      by (auto simp: startAttempt_def intro!: bexI[of _ x])
  qed (use assms run in simp_all)
qed

theorem claim_selects_witness:
  "case fst (Claim 100 ''w'' 60000000000 demoDb) of
     Inl e \<Rightarrow> False
   | Inr None \<Rightarrow> (\<forall>y\<in>set (db_jobs demoDb). \<not> claimable 100 y)
   | Inr (Some j) \<Rightarrow> (\<exists>x\<in>set (db_jobs demoDb). claimable 100 x
         \<and> (\<forall>y\<in>set (db_jobs demoDb). claimable 100 y \<longrightarrow> claimKey x \<le> claimKey y)
         \<and> cj_ID j = cj_ID x \<and> cj_Status j = ''running'' \<and> cj_LeaseOwner j = ''w''
         \<and> cj_Attempts j = cj_Attempts x + 1 \<and> cj_NextAttemptAt j = None
         \<and> (\<exists>u. cj_LeaseUntil j = Some u \<and> 60000000000 \<le> (u - 100) * 1000000000))"
proof -
  have "TrimSpace ''w'' \<noteq> []" by (simp add: visible_eval)
  from claim_selects[OF this, where dur = 60000000000 and now = 100 and db = demoDb] show ?thesis by simp
qed

text \<open>Giving up a lease.  A retry by the holder of the live lease requeues the job at the
  given time while attempts are left, and otherwise ends it as failed with no pending
  attempt; in both cases the lease is gone and the error recorded.  A retry by anyone else,
  or after the lease has ended, reports no rows and changes nothing.\<close>

theorem retry_outcome:
  assumes "jobsInv db" "GetCertificateJob i db = Some j" "TrimSpace i \<noteq> []" "TrimSpace owner \<noteq> []" "now \<le> nextAt"
  shows "if holdsLease now i owner j
    then fst (retryAt i owner code msg nextAt now db) = None
       \<and> (\<exists>j'. GetCertificateJob i (snd (retryAt i owner code msg nextAt now db)) = Some j'
           \<and> leaseOf (snd (retryAt i owner code msg nextAt now db)) i = None
           \<and> cj_LastErrorCode j' = nullString code \<and> cj_Attempts j' = cj_Attempts j
           \<and> (if cj_Attempts j < cj_MaxAttempts j
              then cj_Status j' = ''queued'' \<and> cj_NextAttemptAt j' = Some nextAt \<and> cj_FinishedAt j' = None
                 \<and> \<not> claimable (nextAt - 1) j' \<and> claimable nextAt j'
              else cj_Status j' = ''failed'' \<and> cj_NextAttemptAt j' = None \<and> cj_FinishedAt j' = Some now))
    else retryAt i owner code msg nextAt now db = (Some ErrNoRows, db)"
proof (cases "holdsLease now i owner j")
  case True
  have "GetCertificateJob i (snd (retryAt i owner code msg nextAt now db)) = Some (retryRow now code msg nextAt j)"
    using Get_retry[OF assms(2)] assms(3-5) True by simp
  moreover have "fst (retryAt i owner code msg nextAt now db) = None"
    using True assms Get_mem[OF assms(2)]
    by (auto simp: retryAt_def updateLeased_def rowsAffected_def filter_empty_conv not_less)
  ultimately show ?thesis
    using True by (simp add: leaseOf_def retryRow_def claimable_def Let_def)
next
  case False
  have "\<not> holdsLease now i owner x" if "x \<in> set (db_jobs db)" for x
  proof
    assume h: "holdsLease now i owner x"
    then have "cj_ID x = cj_ID j"
      using Get_mem[OF assms(2)] by (simp add: holdsLease_def)
    then have "x = j"
      using jobsInv_same_id[OF assms(1) that] Get_mem[OF assms(2)] by blast
    then show False using h False by simp
  qed
  then show ?thesis
    using False assms(3-5) by (simp add: retryAt_def updateLeased_def rowsAffected_def filter_empty_conv not_less)
qed

theorem retry_outcome_witness:
  "fst (retryAt ''j1'' ''w'' ''network'' [] 400 150
      (demoDb\<lparr>db_jobs := [startAttempt 100 ''w'' 160 demoJob]\<rparr>)) = None"
proof -
  have inv: "jobsInv (demoDb\<lparr>db_jobs := [startAttempt 100 ''w'' 160 demoJob]\<rparr>)"
    by code_simp
  have get: "GetCertificateJob ''j1'' (demoDb\<lparr>db_jobs := [startAttempt 100 ''w'' 160 demoJob]\<rparr>) =
      Some (startAttempt 100 ''w'' 160 demoJob)"
    by code_simp
  have ids: "TrimSpace ''j1'' \<noteq> []" "TrimSpace ''w'' \<noteq> []"
    by (simp_all add: visible_eval)
  show ?thesis
    using retry_outcome[OF inv get ids, of 150 400 "''network''" "[]"]
    by (simp add: holdsLease_def startAttempt_def demoJob_def)
qed

end
