(* ===== verification/StoreGenerations.thy ===== *)
theory StoreGenerations
  imports StoreJobs
begin

text \<open>
  Certificate generations, deployment reports and audit events of
  \<^verbatim>\<open>internal/store/workflows.go\<close>.  A transaction that fails leaves the database unchanged.
\<close>

definition validGenerationStatus :: "string \<Rightarrow> bool" where
  "validGenerationStatus status =
     (status \<in> set [''pending'', ''publishing'', ''issued'', ''failed'', ''revoked''])"

definition validDeploymentStatus :: "string \<Rightarrow> bool" where
  "validDeploymentStatus status = (status \<in> set [''pending'', ''running'', ''succeeded'', ''failed''])"

definition validSHA256Digest :: "string \<Rightarrow> bool" where
  "validSHA256Digest value = (length value = 64 \<and>
     list_all (\<lambda>c. byteIn (CHR ''0'') (CHR ''9'') c \<or> byteIn (CHR ''a'') (CHR ''f'') c) value)"

record GenerationArtifact =
  ga_Revision :: int
  ga_ManifestDigest :: string
  ga_Serial :: string
  ga_Fingerprint :: string
  ga_Current :: bool

section \<open>Generations\<close>

definition nextGeneration :: "string \<Rightarrow> Db \<Rightarrow> int" where
  "nextGeneration domain db =
     (case map cg_Generation (filter (\<lambda>g. cg_Domain g = domain) (db_generations db)) of
        [] \<Rightarrow> 1
      | n # ns \<Rightarrow> fold max ns n + 1)"

text \<open>The unique indexes a new or changed row must respect among the other rows.\<close>

definition generationClash :: "CertificateGeneration \<Rightarrow> CertificateGeneration \<Rightarrow> bool" where
  "generationClash g r =
     ((cg_JobID r = cg_JobID g \<and> cg_Generation r = cg_Generation g)
      \<or> (cg_Domain r = cg_Domain g \<and> cg_Generation r = cg_Generation g)
      \<or> (cg_Domain r = cg_Domain g \<and> cg_Revision r = cg_Revision g)
      \<or> (cg_Domain r = cg_Domain g \<and> cg_Current r \<and> cg_Current g))"

definition clearCurrent :: "int \<Rightarrow> string \<Rightarrow> int option \<Rightarrow> CertificateGeneration list \<Rightarrow> CertificateGeneration list" where
  "clearCurrent now domain except gs =
     updWhere (\<lambda>r. cg_Domain r = domain \<and> Some (cg_ID r) \<noteq> except \<and> cg_Current r)
       (\<lambda>r. r\<lparr>cg_Current := False, cg_UpdatedAt := now\<rparr>) gs"

text \<open>The row the insert writes: status, number, revision and timestamps filled in.\<close>

definition normalGeneration :: "int \<Rightarrow> Db \<Rightarrow> CertificateGeneration \<Rightarrow> CertificateGeneration" where
  "normalGeneration now db g0 =
     (let gen = (if cg_Generation g0 = 0 then nextGeneration (cg_Domain g0) db else cg_Generation g0)
      in g0\<lparr>cg_ID := db_genSeq db + 1,
            cg_Status := (if cg_Status g0 = [] then ''pending'' else cg_Status g0),
            cg_Generation := gen,
            cg_Revision := (if cg_Revision g0 = 0 then gen else cg_Revision g0),
            cg_CreatedAt := (if cg_CreatedAt g0 = 0 then now else cg_CreatedAt g0),
            cg_UpdatedAt := now\<rparr>)"

definition createGenerationErr :: "int \<Rightarrow> Db \<Rightarrow> CertificateGeneration \<Rightarrow> StoreError option" where
  "createGenerationErr now db g0 =
     (let g = normalGeneration now db g0
      in firstErr
        [failIf (cg_JobID g0 = [] \<or> cg_Domain g0 = []) (ErrInvalid ''job and domain''),
         validateCertificateDomain (cg_Domain g0),
         failIf (\<not> validGenerationStatus (cg_Status g)) (ErrInvalid ''status''),
         failIf (cg_Revision g < 1) (ErrInvalid ''revision''),
         (case GetCertificateJob (cg_JobID g0) db of
            None \<Rightarrow> Some ErrNoRows
          | Some job \<Rightarrow> failIf (cj_Domain job \<noteq> cg_Domain g0) (ErrInvalid ''job domain'')),
         failIf (cg_Current g0 \<and> cg_Status g \<noteq> ''issued'') (ErrInvalid ''current'')])"

definition CreateCertificateGeneration ::
  "int \<Rightarrow> CertificateGeneration option \<Rightarrow> Db \<Rightarrow> (StoreError + CertificateGeneration) \<times> Db" where
  "CreateCertificateGeneration now arg db =
     (case arg of
        None \<Rightarrow> (Inl (ErrInvalid ''generation''), db)
      | Some g0 \<Rightarrow>
          (case createGenerationErr now db g0 of
             Some e \<Rightarrow> (Inl e, db)
           | None \<Rightarrow>
               let g = normalGeneration now db g0;
                   rows = (if cg_Current g0 then clearCurrent now (cg_Domain g0) None (db_generations db)
                           else db_generations db)
               in if list_ex (generationClash g) rows then (Inl ErrUnique, db)
                  else if \<not> certExists db (cg_Domain g0) then (Inl ErrForeignKey, db)
                  else (Inr g, db\<lparr>db_generations := rows @ [g], db_genSeq := db_genSeq db + 1\<rparr>)))"

definition GetCertificateGeneration :: "int \<Rightarrow> Db \<Rightarrow> CertificateGeneration option" where
  "GetCertificateGeneration gid db = List.find (\<lambda>g. cg_ID g = gid) (db_generations db)"

definition ListCertificateGenerations :: "string \<Rightarrow> Db \<Rightarrow> CertificateGeneration list" where
  "ListCertificateGenerations domain db =
     rev (sort_key cg_Generation (filter (\<lambda>g. cg_Domain g = domain) (db_generations db)))"

definition UpdateCertificateGenerationStatus ::
  "int \<Rightarrow> int \<Rightarrow> string \<Rightarrow> string \<Rightarrow> string \<Rightarrow> string \<Rightarrow> int option \<Rightarrow> int option \<Rightarrow> Db
     \<Rightarrow> StoreError option \<times> Db" where
  "UpdateCertificateGenerationStatus now gid status certificateRef privateKeyRef errorMessage notBefore notAfter db =
     (if \<not> validGenerationStatus status then (Some (ErrInvalid ''status''), db)
      else (case GetCertificateGeneration gid db of
        None \<Rightarrow> (Some ErrNoRows, db)
      | Some g \<Rightarrow>
          let current = (status = ''issued'' \<and> certificateRef \<noteq> []);
              rows = (if current then clearCurrent now (cg_Domain g) (Some gid) (db_generations db)
                      else db_generations db)
          in (None, db\<lparr>db_generations := updWhere (\<lambda>r. cg_ID r = gid)
                (\<lambda>r. r\<lparr>cg_Status := status, cg_CertificateRef := nullString certificateRef,
                       cg_PrivateKeyRef := nullString privateKeyRef, cg_ErrorMessage := nullString errorMessage,
                       cg_NotBefore := notBefore, cg_NotAfter := notAfter, cg_Current := current,
                       cg_UpdatedAt := now\<rparr>) rows\<rparr>)))"

definition UpdateCertificateGenerationArtifact ::
  "int \<Rightarrow> int \<Rightarrow> GenerationArtifact \<Rightarrow> Db \<Rightarrow> StoreError option \<times> Db" where
  "UpdateCertificateGenerationArtifact now gid artifact db =
     (if ga_Revision artifact < 1 \<or> \<not> validSHA256Digest (ga_ManifestDigest artifact)
         \<or> \<not> validSHA256Digest (ga_Fingerprint artifact) then (Some (ErrInvalid ''artifact''), db)
      else (case GetCertificateGeneration gid db of
        None \<Rightarrow> (Some ErrNoRows, db)
      | Some g \<Rightarrow>
          if ga_Current artifact \<and> cg_Status g \<noteq> ''issued'' then (Some (ErrInvalid ''current''), db)
          else
            let rows = (if ga_Current artifact then clearCurrent now (cg_Domain g) (Some gid) (db_generations db)
                        else db_generations db)
            in if list_ex (\<lambda>r. cg_ID r \<noteq> gid \<and> cg_Domain r = cg_Domain g
                               \<and> cg_Revision r = ga_Revision artifact) rows
               then (Some ErrUnique, db)
               else (None, db\<lparr>db_generations := updWhere (\<lambda>r. cg_ID r = gid)
                  (\<lambda>r. r\<lparr>cg_Revision := ga_Revision artifact,
                         cg_ManifestDigest := Some (ga_ManifestDigest artifact),
                         cg_Serial := nullString (ga_Serial artifact),
                         cg_Fingerprint := Some (ga_Fingerprint artifact),
                         cg_Current := ga_Current artifact, cg_UpdatedAt := now\<rparr>) rows\<rparr>)))"

definition GetCurrentCertificateGeneration :: "string \<Rightarrow> Db \<Rightarrow> CertificateGeneration option" where
  "GetCurrentCertificateGeneration domain db =
     List.find (\<lambda>g. cg_Domain g = domain \<and> cg_Current g) (db_generations db)"

definition DeleteCertificateGeneration :: "int \<Rightarrow> Db \<Rightarrow> StoreError option \<times> Db" where
  "DeleteCertificateGeneration gid db =
     (if rowsAffected (\<lambda>g. cg_ID g = gid) (db_generations db) = 0 then (Some ErrNoRows, db)
      else if list_ex (\<lambda>r. dp_GenerationID r = gid) (db_reports db) then (Some ErrForeignKey, db)
      else (None, db\<lparr>db_generations := filter (\<lambda>g. cg_ID g \<noteq> gid) (db_generations db)\<rparr>))"

section \<open>Deployment reports\<close>

text \<open>
  On the update path of the upsert SQLite leaves \<^verbatim>\<open>last_insert_rowid\<close> unchanged, so the
  driver's \<^verbatim>\<open>LastInsertId\<close> is that of the connection's previous insert; \<open>lastRowid\<close> is that
  value.
\<close>

definition CreateDeploymentReport ::
  "int \<Rightarrow> int \<Rightarrow> DeploymentRow option \<Rightarrow> Db \<Rightarrow> (StoreError + DeploymentRow) \<times> Db" where
  "CreateDeploymentReport now lastRowid arg db =
     (case arg of
        None \<Rightarrow> (Inl (ErrInvalid ''report''), db)
      | Some r0 \<Rightarrow>
          if dp_GenerationID r0 \<le> 0 \<or> TrimSpace (dp_Target r0) = [] then (Inl (ErrInvalid ''report''), db)
          else
            let r1 = (if dp_Status r0 = [] then r0\<lparr>dp_Status := ''pending''\<rparr> else r0)
            in if \<not> validDeploymentStatus (dp_Status r1) then (Inl (ErrInvalid ''status''), db)
               else (case GetCertificateGeneration (dp_GenerationID r1) db of
                 None \<Rightarrow> (Inl ErrNoRows, db)
               | Some g \<Rightarrow>
                   let stored = orEmpty (cg_CertificateRef g)
                   in if dp_Generation r1 \<noteq> [] \<and> dp_Generation r1 \<noteq> stored then (Inl (ErrInvalid ''generation''), db)
                      else if dp_Revision r1 \<noteq> 0 \<and> dp_Revision r1 \<noteq> cg_Revision g then (Inl (ErrInvalid ''revision''), db)
                      else if dp_ManifestDigest r1 \<noteq> None \<and> dp_ManifestDigest r1 \<noteq> cg_ManifestDigest g
                      then (Inl (ErrInvalid ''digest''), db)
                      else
                        let r = r1\<lparr>dp_Generation := stored, dp_Revision := cg_Revision g,
                                   dp_ManifestDigest := cg_ManifestDigest g,
                                   dp_CreatedAt := (if dp_CreatedAt r1 = 0 then now else dp_CreatedAt r1),
                                   dp_UpdatedAt := now\<rparr>;
                            same = (\<lambda>x. dp_GenerationID x = dp_GenerationID r \<and> dp_Target x = dp_Target r)
                        in (case List.find same (db_reports db) of
                              None \<Rightarrow>
                                let rid = db_reportSeq db + 1
                                in (Inr (if dp_ID r = 0 then r\<lparr>dp_ID := rid\<rparr> else r),
                                    db\<lparr>db_reports := db_reports db @ [r\<lparr>dp_ID := rid\<rparr>],
                                       db_reportSeq := rid\<rparr>)
                            | Some old \<Rightarrow>
                                (Inr (if dp_ID r \<noteq> 0 then r
                                      else if lastRowid \<noteq> 0 then r\<lparr>dp_ID := lastRowid\<rparr>
                                      else r\<lparr>dp_ID := dp_ID old\<rparr>),
                                 db\<lparr>db_reports := updWhere same
                                    (\<lambda>x. x\<lparr>dp_Generation := dp_Generation r, dp_Revision := dp_Revision r,
                                           dp_ManifestDigest := dp_ManifestDigest r, dp_Status := dp_Status r,
                                           dp_Detail := dp_Detail r, dp_UpdatedAt := dp_UpdatedAt r,
                                           dp_CompletedAt := dp_CompletedAt r\<rparr>) (db_reports db)\<rparr>))))"

definition UpdateDeploymentReportStatus :: "int \<Rightarrow> int \<Rightarrow> string \<Rightarrow> string \<Rightarrow> Db \<Rightarrow> StoreError option \<times> Db" where
  "UpdateDeploymentReportStatus now rid status detail db =
     (if \<not> validDeploymentStatus status then (Some (ErrInvalid ''status''), db)
      else if rowsAffected (\<lambda>r. dp_ID r = rid) (db_reports db) = 0 then (Some ErrNoRows, db)
      else (None, db\<lparr>db_reports := updWhere (\<lambda>r. dp_ID r = rid)
             (\<lambda>r. r\<lparr>dp_Status := status, dp_Detail := nullString detail, dp_UpdatedAt := now,
                    dp_CompletedAt := (if status = ''succeeded'' \<or> status = ''failed'' then Some now else None)\<rparr>)
             (db_reports db)\<rparr>))"

definition GetDeploymentReport :: "int \<Rightarrow> Db \<Rightarrow> DeploymentRow option" where
  "GetDeploymentReport rid db = List.find (\<lambda>r. dp_ID r = rid) (db_reports db)"

definition DeleteDeploymentReport :: "int \<Rightarrow> Db \<Rightarrow> StoreError option \<times> Db" where
  "DeleteDeploymentReport rid db =
     (if rowsAffected (\<lambda>r. dp_ID r = rid) (db_reports db) = 0 then (Some ErrNoRows, db)
      else (None, db\<lparr>db_reports := filter (\<lambda>r. dp_ID r \<noteq> rid) (db_reports db)\<rparr>))"

definition ListDeploymentReports :: "int \<Rightarrow> Db \<Rightarrow> DeploymentRow list" where
  "ListDeploymentReports gid db =
     sort_key dp_Target (filter (\<lambda>r. dp_GenerationID r = gid) (db_reports db))"

section \<open>Audit events\<close>

definition AddAuditEvent :: "int \<Rightarrow> AuditEvent option \<Rightarrow> Db \<Rightarrow> (StoreError + AuditEvent) \<times> Db" where
  "AddAuditEvent now arg db =
     (case arg of
        None \<Rightarrow> (Inl (ErrInvalid ''event''), db)
      | Some e0 \<Rightarrow>
          if TrimSpace (ae_Action e0) = [] \<or> TrimSpace (ae_Outcome e0) = [] then (Inl (ErrInvalid ''event''), db)
          else (case (case ae_Domain e0 of None \<Rightarrow> None | Some d \<Rightarrow> validateCertificateDomain d) of
            Some e \<Rightarrow> (Inl e, db)
          | None \<Rightarrow>
              if (ae_ActorTokenID e0 \<noteq> None \<and> \<not> tokenExists db (the (ae_ActorTokenID e0)))
                 \<or> (ae_Domain e0 \<noteq> None \<and> \<not> certExists db (the (ae_Domain e0))) then (Inl ErrForeignKey, db)
              else
                let e = e0\<lparr>ae_ID := db_auditSeq db + 1,
                           ae_CreatedAt := (if ae_CreatedAt e0 = 0 then now else ae_CreatedAt e0)\<rparr>
                in (Inr e, db\<lparr>db_audit := db_audit db @ [e], db_auditSeq := db_auditSeq db + 1\<rparr>)))"

record AuditFilter =
  af_ActorTokenID :: string
  af_Domain :: string
  af_Action :: string
  af_Limit :: int
  af_Offset :: int

definition ListAuditEvents :: "AuditFilter \<Rightarrow> Db \<Rightarrow> AuditEvent list" where
  "ListAuditEvents f db =
     page (af_Limit f) (af_Offset f)
       (rev (sort_key (\<lambda>e. (ae_CreatedAt e, ae_ID e))
         (filter (\<lambda>e. (af_ActorTokenID f \<noteq> [] \<longrightarrow> ae_ActorTokenID e = Some (af_ActorTokenID f))
                    \<and> (af_Domain f \<noteq> [] \<longrightarrow> ae_Domain e = Some (af_Domain f))
                    \<and> (af_Action f \<noteq> [] \<longrightarrow> ae_Action e = af_Action f)) (db_audit db))))"

definition GetAuditEvent :: "int \<Rightarrow> Db \<Rightarrow> AuditEvent option" where
  "GetAuditEvent eid db = List.find (\<lambda>e. ae_ID e = eid) (db_audit db)"

definition DeleteAuditEvent :: "int \<Rightarrow> Db \<Rightarrow> StoreError option \<times> Db" where
  "DeleteAuditEvent eid db =
     (if rowsAffected (\<lambda>e. ae_ID e = eid) (db_audit db) = 0 then (Some ErrNoRows, db)
      else (None, db\<lparr>db_audit := filter (\<lambda>e. ae_ID e \<noteq> eid) (db_audit db)\<rparr>))"

section \<open>The invariant of the generation table\<close>

text \<open>
  What the unique indexes and the code keep: IDs below the sequence and distinct, one row per
  (domain, generation) and per (domain, revision), at most one current row per domain, and a
  current row is always issued.
\<close>

definition generationOk :: "int \<Rightarrow> CertificateGeneration \<Rightarrow> bool" where
  "generationOk seq g =
     (cg_ID g \<le> seq \<and> validGenerationStatus (cg_Status g) \<and> 1 \<le> cg_Revision g
      \<and> (cg_Current g \<longrightarrow> cg_Status g = ''issued''))"

definition numberKey :: "CertificateGeneration \<Rightarrow> string \<times> int" where
  "numberKey g = (cg_Domain g, cg_Generation g)"

definition revisionKey :: "CertificateGeneration \<Rightarrow> string \<times> int" where
  "revisionKey g = (cg_Domain g, cg_Revision g)"

definition rowsInv :: "int \<Rightarrow> CertificateGeneration list \<Rightarrow> bool" where
  "rowsInv seq gs =
     (distinct (map cg_ID gs) \<and> distinct (map numberKey gs) \<and> distinct (map revisionKey gs)
      \<and> distinct (map cg_Domain (filter cg_Current gs)) \<and> list_all (generationOk seq) gs)"

definition generationsInv :: "Db \<Rightarrow> bool" where
  "generationsInv db = rowsInv (db_genSeq db) (db_generations db)"

lemma rowsInv_same_id:
  "rowsInv seq gs \<Longrightarrow> a \<in> set gs \<Longrightarrow> b \<in> set gs \<Longrightarrow> cg_ID a = cg_ID b \<Longrightarrow> a = b"
  unfolding rowsInv_def by (blast dest: distinct_key_inj)

lemma clearCurrent_keys [simp]:
  "map cg_ID (clearCurrent now d ex gs) = map cg_ID gs"
  "map numberKey (clearCurrent now d ex gs) = map numberKey gs"
  "map revisionKey (clearCurrent now d ex gs) = map revisionKey gs"
  by (simp_all add: clearCurrent_def map_key_updWhere numberKey_def revisionKey_def)

lemma map_domain_current:
  "map cg_Domain (filter cg_Current (clearCurrent now d ex gs)) =
   map cg_Domain (filter (\<lambda>r. cg_Current r \<and> \<not> (cg_Domain r = d \<and> Some (cg_ID r) \<noteq> ex)) gs)"
  by (induction gs) (auto simp: clearCurrent_def)

lemma distinct_map_filter_sub:
  "distinct (map k (filter p gs)) \<Longrightarrow> (\<And>x. q x \<Longrightarrow> p x) \<Longrightarrow> distinct (map k (filter q gs))"
  by (induction gs) (auto split: if_splits)

lemma clearCurrent_mem:
  "r' \<in> set (clearCurrent now d ex gs) \<Longrightarrow> \<exists>r\<in>set gs. cg_ID r' = cg_ID r \<and> cg_Domain r' = cg_Domain r
     \<and> cg_Generation r' = cg_Generation r \<and> cg_Revision r' = cg_Revision r \<and> cg_Status r' = cg_Status r
     \<and> cg_JobID r' = cg_JobID r
     \<and> (cg_Current r' \<longrightarrow> cg_Current r \<and> (cg_Domain r = d \<longrightarrow> Some (cg_ID r) = ex))"
  unfolding clearCurrent_def by (drule updWhere_mem) auto

lemma clearCurrent_ok: "list_all (generationOk seq) gs \<Longrightarrow> list_all (generationOk seq) (clearCurrent now d ex gs)"
  by (induction gs) (auto simp: clearCurrent_def generationOk_def)

lemma clearCurrent_rowsInv: "rowsInv seq gs \<Longrightarrow> rowsInv seq (clearCurrent now d ex gs)"
  unfolding rowsInv_def by (auto simp: map_domain_current clearCurrent_ok elim: distinct_map_filter_sub)

lemma distinct_ids_rest: "distinct (map cg_ID (g # gs)) \<Longrightarrow> r \<in> set gs \<Longrightarrow> cg_ID r \<noteq> cg_ID g"
  by (metis distinct.simps(2) imageI list.set_map list.simps(9))

lemma distinct_update_key:
  assumes "distinct (map cg_ID gs)" "distinct (map k gs)"
    and "\<And>r x. r \<in> set gs \<Longrightarrow> x \<in> set gs \<Longrightarrow> cg_ID r = gid \<Longrightarrow> cg_ID x \<noteq> gid \<Longrightarrow> k (f r) \<noteq> k x"
  shows "distinct (map k (updWhere (\<lambda>r. cg_ID r = gid) f gs))"
  using assms
proof (induction gs)
  case (Cons g gs)
  have IH: "distinct (map k (updWhere (\<lambda>r. cg_ID r = gid) f gs))"
    using Cons by simp
  show ?case
  proof (cases "cg_ID g = gid")
    case True
    then have rest: "updWhere (\<lambda>r. cg_ID r = gid) f gs = gs"
      using distinct_ids_rest[OF Cons.prems(1)] by (intro updWhere_none) simp
    have "k (f g) \<noteq> k x" if "x \<in> set gs" for x
      using distinct_ids_rest[OF Cons.prems(1) that] Cons.prems(3)[of g x] True that by simp
    then have "k (f g) \<notin> k ` set gs"
      by auto
    then show ?thesis
      using True rest Cons.prems(2) by simp
  next
    case False
    have "k g \<noteq> k x" if x: "x \<in> set (updWhere (\<lambda>r. cg_ID r = gid) f gs)" for x
      using updWhere_mem[OF x] Cons.prems(2) Cons.prems(3)[of _ g] False by fastforce
    then have "k g \<notin> k ` set (updWhere (\<lambda>r. cg_ID r = gid) f gs)"
      by auto
    then show ?thesis
      using False IH by simp
  qed
qed simp

lemma distinct_update_current:
  assumes "distinct (map cg_ID gs)" "distinct (map cg_Domain (filter cg_Current gs))"
    and keep: "\<And>r. cg_Domain (f r) = cg_Domain r"
    and "\<And>r x. r \<in> set gs \<Longrightarrow> x \<in> set gs \<Longrightarrow> cg_ID r = gid \<Longrightarrow> cg_ID x \<noteq> gid \<Longrightarrow> cg_Current (f r) \<Longrightarrow>
          cg_Domain x = cg_Domain r \<Longrightarrow> \<not> cg_Current x"
  shows "distinct (map cg_Domain (filter cg_Current (updWhere (\<lambda>r. cg_ID r = gid) f gs)))"
  using assms(1,2,4)
proof (induction gs)
  case (Cons g gs)
  have IH: "distinct (map cg_Domain (filter cg_Current (updWhere (\<lambda>r. cg_ID r = gid) f gs)))"
  proof (rule Cons.IH)
    show "distinct (map cg_ID gs)" "distinct (map cg_Domain (filter cg_Current gs))"
      using Cons.prems(1,2) by (simp_all split: if_splits)
    show "\<not> cg_Current x" if "r \<in> set gs" "x \<in> set gs" "cg_ID r = gid" "cg_ID x \<noteq> gid"
      "cg_Current (f r)" "cg_Domain x = cg_Domain r" for r x
      using Cons.prems(3)[OF _ _ that(3-6)] that(1,2) by simp
  qed
  show ?case
  proof (cases "cg_ID g = gid")
    case True
    then have rest: "updWhere (\<lambda>r. cg_ID r = gid) f gs = gs"
      using distinct_ids_rest[OF Cons.prems(1)] by (intro updWhere_none) simp
    have "\<not> cg_Current x" if "cg_Current (f g)" "x \<in> set gs" "cg_Domain x = cg_Domain g" for x
      using distinct_ids_rest[OF Cons.prems(1) that(2)] Cons.prems(3)[of g x] True that by simp
    then have "cg_Current (f g) \<Longrightarrow> cg_Domain g \<notin> cg_Domain ` set (filter cg_Current gs)"
      by auto
    then show ?thesis
      using True rest IH by (simp add: keep)
  next
    case False
    have "cg_Domain g \<noteq> cg_Domain x"
      if g: "cg_Current g" and x: "x \<in> set (updWhere (\<lambda>r. cg_ID r = gid) f gs)" "cg_Current x" for x
      using updWhere_mem[OF x(1)]
    proof
      assume "\<exists>r. r \<in> set gs \<and> cg_ID r = gid \<and> x = f r"
      then obtain r where "r \<in> set gs" "cg_ID r = gid" "x = f r" by blast
      then show ?thesis
        using Cons.prems(3)[of r g] False g x(2) keep by fastforce
    next
      assume "x \<in> set gs \<and> cg_ID x \<noteq> gid"
      then show ?thesis
        using Cons.prems(2) g x(2) by auto
    qed
    then have "cg_Current g \<Longrightarrow> cg_Domain g \<notin> cg_Domain ` set (filter cg_Current (updWhere (\<lambda>r. cg_ID r = gid) f gs))"
      by auto
    then show ?thesis
      using False IH by simp
  qed
qed simp

lemma rowsInv_update_row:
  assumes inv: "rowsInv seq gs"
    and keep: "\<And>r. cg_ID (f r) = cg_ID r \<and> cg_Domain (f r) = cg_Domain r \<and> cg_Generation (f r) = cg_Generation r"
    and ok: "\<And>r. r \<in> set gs \<Longrightarrow> cg_ID r = gid \<Longrightarrow> generationOk seq (f r)"
    and rev: "\<And>r x. r \<in> set gs \<Longrightarrow> x \<in> set gs \<Longrightarrow> cg_ID r = gid \<Longrightarrow> cg_ID x \<noteq> gid \<Longrightarrow>
        revisionKey (f r) \<noteq> revisionKey x"
    and cur: "\<And>r x. r \<in> set gs \<Longrightarrow> x \<in> set gs \<Longrightarrow> cg_ID r = gid \<Longrightarrow> cg_ID x \<noteq> gid \<Longrightarrow> cg_Current (f r) \<Longrightarrow>
        cg_Domain x = cg_Domain r \<Longrightarrow> \<not> cg_Current x"
  shows "rowsInv seq (updWhere (\<lambda>r. cg_ID r = gid) f gs)"
proof -
  have inv': "distinct (map cg_ID gs)" "distinct (map numberKey gs)" "distinct (map revisionKey gs)"
    "distinct (map cg_Domain (filter cg_Current gs))" "list_all (generationOk seq) gs"
    using inv by (simp_all add: rowsInv_def)
  let ?gs = "updWhere (\<lambda>r. cg_ID r = gid) f gs"
  have "map cg_ID ?gs = map cg_ID gs" "map numberKey ?gs = map numberKey gs"
    using keep by (simp_all add: map_key_updWhere numberKey_def)
  moreover have "list_all (generationOk seq) ?gs"
    using inv'(5) ok by (auto simp: list_all_iff dest!: updWhere_mem)
  moreover have "distinct (map revisionKey ?gs)"
    using distinct_update_key[OF inv'(1,3)] rev by blast
  moreover have "distinct (map cg_Domain (filter cg_Current ?gs))"
    using distinct_update_current[OF inv'(1,4)] keep cur by blast
  ultimately show ?thesis
    using inv' by (simp add: rowsInv_def)
qed

lemma rowsInv_append:
  assumes "rowsInv seq gs" "generationOk (seq + 1) g" "cg_ID g = seq + 1"
    and "\<forall>r\<in>set gs. \<not> generationClash g r"
  shows "rowsInv (seq + 1) (gs @ [g])"
proof -
  have old: "cg_ID r \<le> seq" if "r \<in> set gs" for r
    using assms(1) that by (auto simp: rowsInv_def list_all_iff generationOk_def)
  then have "cg_ID g \<notin> cg_ID ` set gs"
    using assms(3) by force
  moreover have "numberKey g \<notin> numberKey ` set gs" "revisionKey g \<notin> revisionKey ` set gs"
    "cg_Current g \<Longrightarrow> cg_Domain g \<notin> cg_Domain ` set (filter cg_Current gs)"
    using assms(4) by (auto simp: generationClash_def numberKey_def revisionKey_def)
  moreover have "list_all (generationOk (seq + 1)) gs"
    using assms(1) by (fastforce simp: rowsInv_def list_all_iff generationOk_def)
  ultimately show ?thesis
    using assms(1,2) by (simp add: rowsInv_def)
qed

section \<open>Every operation keeps the invariant\<close>

lemma nextGeneration_step: "nextGeneration d db \<le> 0 \<Longrightarrow> \<exists>g\<in>set (db_generations db). cg_Generation g < 0"
proof -
  have fold_ge: "n \<le> fold max ns n" for n :: int and ns
    by (induction ns arbitrary: n) (simp, metis fold_simps(2) max.cobounded2 order_trans)
  assume le: "nextGeneration d db \<le> 0"
  show ?thesis
  proof (cases "filter (\<lambda>g. cg_Domain g = d) (db_generations db)")
    case (Cons g gs)
    then have "g \<in> set (db_generations db)"
      by (metis Cons_eq_filterD in_set_conv_decomp)
    moreover have "cg_Generation g < 0"
      using le fold_ge[of "cg_Generation g" "map cg_Generation gs"] Cons by (simp add: nextGeneration_def)
    ultimately show ?thesis
      by blast
  qed (use le in \<open>simp add: nextGeneration_def\<close>)
qed

lemma normalGeneration_fields [simp]:
  "cg_ID (normalGeneration now db g) = db_genSeq db + 1"
  "cg_Domain (normalGeneration now db g) = cg_Domain g"
  "cg_JobID (normalGeneration now db g) = cg_JobID g"
  "cg_Current (normalGeneration now db g) = cg_Current g"
  by (simp_all add: normalGeneration_def Let_def)

lemma createGenerationErr_None:
  assumes "createGenerationErr now db g0 = None"
  shows "generationOk (db_genSeq db + 1) (normalGeneration now db g0)"
    and "\<exists>j. GetCertificateJob (cg_JobID g0) db = Some j \<and> cj_Domain j = cg_Domain g0"
    and "hostName (cg_Domain g0)"
  using assms unfolding createGenerationErr_def Let_def
  by (simp_all add: generationOk_def valid_simps not_less split: option.splits)

lemma CreateGeneration_cases:
  assumes "CreateCertificateGeneration now (Some g0) db = (r, db')"
  obtains (refused) e where "r = Inl e" "db' = db"
  | (created) rows where "r = Inr (normalGeneration now db g0)" "createGenerationErr now db g0 = None"
      "certExists db (cg_Domain g0)"
      "rows = (if cg_Current g0 then clearCurrent now (cg_Domain g0) None (db_generations db) else db_generations db)"
      "\<forall>x\<in>set rows. \<not> generationClash (normalGeneration now db g0) x"
      "db' = db\<lparr>db_generations := rows @ [normalGeneration now db g0], db_genSeq := db_genSeq db + 1\<rparr>"
proof (cases "createGenerationErr now db g0")
  case (Some e)
  then have "r = Inl e" "db' = db"
    using assms by (simp_all add: CreateCertificateGeneration_def)
  then show ?thesis by (rule refused)
next
  case None
  let ?rows = "if cg_Current g0 then clearCurrent now (cg_Domain g0) None (db_generations db) else db_generations db"
  have run: "(r, db') = (if list_ex (generationClash (normalGeneration now db g0)) ?rows then (Inl ErrUnique, db)
        else if \<not> certExists db (cg_Domain g0) then (Inl ErrForeignKey, db)
        else (Inr (normalGeneration now db g0),
              db\<lparr>db_generations := ?rows @ [normalGeneration now db g0], db_genSeq := db_genSeq db + 1\<rparr>))"
    using assms None by (simp add: CreateCertificateGeneration_def Let_def)
  show ?thesis
  proof (cases "list_ex (generationClash (normalGeneration now db g0)) ?rows \<or> \<not> certExists db (cg_Domain g0)")
    case True
    then have "db' = db" "\<exists>e. r = Inl e"
      using run by (auto split: if_splits)
    then show ?thesis
      using refused by blast
  next
    case False
    then show ?thesis
      using run created[OF _ None _ refl] by (simp add: list_ex_iff)
  qed
qed

lemma CreateGeneration_inv:
  assumes inv: "generationsInv db"
  shows "generationsInv (snd (CreateCertificateGeneration now (Some g0) db))"
proof -
  obtain r db' where run: "CreateCertificateGeneration now (Some g0) db = (r, db')"
    by fastforce
  then show ?thesis
  proof (cases rule: CreateGeneration_cases)
    case (created rows)
    have "rowsInv (db_genSeq db) rows"
      using inv clearCurrent_rowsInv by (auto simp: created(4) generationsInv_def)
    then have "rowsInv (db_genSeq db + 1) (rows @ [normalGeneration now db g0])"
      using createGenerationErr_None(1)[OF created(2)] created(5) by (intro rowsInv_append) auto
    then show ?thesis
      by (simp add: run created(6) generationsInv_def)
  qed (use inv run in simp_all)
qed

lemma GetGeneration_mem: "GetCertificateGeneration gid db = Some g \<Longrightarrow> g \<in> set (db_generations db) \<and> cg_ID g = gid"
  unfolding GetCertificateGeneration_def by (rule find_Some_mem)

lemma cleared_id:
  assumes "rowsInv seq gs" "g \<in> set gs" "r \<in> set (clearCurrent now d ex gs)" "cg_ID r = cg_ID g"
  shows "cg_Domain r = cg_Domain g \<and> cg_Revision r = cg_Revision g \<and> cg_Status r = cg_Status g"
proof -
  obtain r0 where r0: "r0 \<in> set gs" "cg_ID r = cg_ID r0" "cg_Domain r = cg_Domain r0"
    "cg_Revision r = cg_Revision r0" "cg_Status r = cg_Status r0"
    using clearCurrent_mem[OF assms(3)] by blast
  then have "r0 = g"
    using rowsInv_same_id[OF assms(1) _ assms(2)] assms(4) by simp
  then show ?thesis using r0 by simp
qed

lemma rowsInv_revision_other:
  "rowsInv seq gs \<Longrightarrow> r \<in> set gs \<Longrightarrow> x \<in> set gs \<Longrightarrow> cg_ID r \<noteq> cg_ID x \<Longrightarrow> revisionKey r \<noteq> revisionKey x"
  unfolding rowsInv_def by (blast dest: distinct_key_inj)

lemma rowsInv_current_other:
  assumes "rowsInv seq gs" "r \<in> set gs" "x \<in> set gs" "cg_Current r" "cg_Current x" "cg_Domain r = cg_Domain x"
  shows "r = x"
proof -
  have "distinct (map cg_Domain (filter cg_Current gs))"
    using assms(1) by (simp add: rowsInv_def)
  note find = distinct_find[OF this]
  have "r \<in> set (filter cg_Current gs)" "x \<in> set (filter cg_Current gs)"
    using assms(2-5) by simp_all
  then have "Some r = Some x"
    using find[of r] find[of x] unfolding assms(6) by metis
  then show ?thesis by simp
qed

lemma UpdateStatus_inv:
  assumes inv: "generationsInv db"
  shows "generationsInv (snd (UpdateCertificateGenerationStatus now gid status ref key msg nb na db))"
proof (cases "validGenerationStatus status \<and> GetCertificateGeneration gid db \<noteq> None")
  case False
  then show ?thesis
    using inv by (auto simp: UpdateCertificateGenerationStatus_def)
next
  case True
  then obtain g where g: "GetCertificateGeneration gid db = Some g" and st: "validGenerationStatus status"
    by auto
  let ?cur = "status = ''issued'' \<and> ref \<noteq> []"
  let ?rows = "if ?cur then clearCurrent now (cg_Domain g) (Some gid) (db_generations db) else db_generations db"
  let ?f = "\<lambda>r. r\<lparr>cg_Status := status, cg_CertificateRef := nullString ref,
     cg_PrivateKeyRef := nullString key, cg_ErrorMessage := nullString msg,
     cg_NotBefore := nb, cg_NotAfter := na, cg_Current := ?cur, cg_UpdatedAt := now\<rparr>"
  have gm: "g \<in> set (db_generations db)" "cg_ID g = gid"
    using GetGeneration_mem[OF g] by simp_all
  have rinv: "rowsInv (db_genSeq db) (db_generations db)"
    using inv by (simp add: generationsInv_def)
  then have rows: "rowsInv (db_genSeq db) ?rows"
    by (simp add: clearCurrent_rowsInv)
  have "rowsInv (db_genSeq db) (updWhere (\<lambda>r. cg_ID r = gid) ?f ?rows)"
  proof (rule rowsInv_update_row[OF rows])
    show "generationOk (db_genSeq db) (?f r)" if "r \<in> set ?rows" for r
      using rows that st by (auto simp: rowsInv_def list_all_iff generationOk_def)
    show "revisionKey (?f r) \<noteq> revisionKey x"
      if "r \<in> set ?rows" "x \<in> set ?rows" "cg_ID r = gid" "cg_ID x \<noteq> gid" for r x
      using rowsInv_revision_other[OF rows that(1,2)] that(3,4) by (auto simp: revisionKey_def)
    show "\<not> cg_Current x"
      if "r \<in> set ?rows" "x \<in> set ?rows" "cg_ID r = gid" "cg_ID x \<noteq> gid" "cg_Current (?f r)" "cg_Domain x = cg_Domain r" for r x
    proof -
      have cur: "?cur" using that(5) by simp
      then have "cg_Domain r = cg_Domain g"
        using cleared_id[OF rinv gm(1)] that(1,3) gm(2) by simp
      then show ?thesis
        using clearCurrent_mem[of x now "cg_Domain g" "Some gid" "db_generations db"] cur that by auto
    qed
  qed simp_all
  then show ?thesis
    using g st by (simp add: UpdateCertificateGenerationStatus_def Let_def generationsInv_def)
qed

lemma UpdateArtifact_cases:
  assumes "UpdateCertificateGenerationArtifact now gid a db = (r, db')"
  obtains (refused) e where "r = Some e" "db' = db"
  | (updated) g where "r = None" "GetCertificateGeneration gid db = Some g" "1 \<le> ga_Revision a"
      "validSHA256Digest (ga_ManifestDigest a)" "validSHA256Digest (ga_Fingerprint a)"
      "ga_Current a \<longrightarrow> cg_Status g = ''issued''"
proof (cases "ga_Revision a < 1 \<or> \<not> validSHA256Digest (ga_ManifestDigest a) \<or> \<not> validSHA256Digest (ga_Fingerprint a)")
  case True
  then have "r = Some (ErrInvalid ''artifact'')" "db' = db"
    using assms by (auto simp: UpdateCertificateGenerationArtifact_def)
  then show ?thesis by (rule refused)
next
  case valid: False
  show ?thesis
  proof (cases "GetCertificateGeneration gid db")
    case None
    then have "r = Some ErrNoRows" "db' = db"
      using assms valid by (auto simp: UpdateCertificateGenerationArtifact_def)
    then show ?thesis by (rule refused)
  next
    case (Some g)
    have "(\<exists>e. r = Some e \<and> db' = db) \<or> (r = None \<and> (ga_Current a \<longrightarrow> cg_Status g = ''issued''))"
      using assms valid Some by (auto simp: UpdateCertificateGenerationArtifact_def Let_def split: if_splits)
    then show ?thesis
      using refused updated[OF _ Some] valid by force
  qed
qed

lemma UpdateArtifact_inv:
  assumes inv: "generationsInv db"
  shows "generationsInv (snd (UpdateCertificateGenerationArtifact now gid a db))"
proof -
  obtain res db' where res: "UpdateCertificateGenerationArtifact now gid a db = (res, db')"
    by fastforce
  then show ?thesis
  proof (cases rule: UpdateArtifact_cases)
    case (refused e)
    then show ?thesis
      using inv res by simp
  next
    case (updated g)
    note g = updated(2) and rev = updated(3) and iss = updated(6)
  let ?rows = "if ga_Current a then clearCurrent now (cg_Domain g) (Some gid) (db_generations db) else db_generations db"
  let ?f = "\<lambda>r. r\<lparr>cg_Revision := ga_Revision a, cg_ManifestDigest := Some (ga_ManifestDigest a),
     cg_Serial := nullString (ga_Serial a), cg_Fingerprint := Some (ga_Fingerprint a),
     cg_Current := ga_Current a, cg_UpdatedAt := now\<rparr>"
  have free: "\<forall>x\<in>set ?rows. \<not> (cg_ID x \<noteq> gid \<and> cg_Domain x = cg_Domain g \<and> cg_Revision x = ga_Revision a)"
    and run: "UpdateCertificateGenerationArtifact now gid a db =
      (None, db\<lparr>db_generations := updWhere (\<lambda>r. cg_ID r = gid) ?f ?rows\<rparr>)"
    using res updated by (simp_all add: UpdateCertificateGenerationArtifact_def Let_def list_ex_iff split: if_splits)
  have gm: "g \<in> set (db_generations db)" "cg_ID g = gid"
    using GetGeneration_mem[OF g] by simp_all
  have rinv: "rowsInv (db_genSeq db) (db_generations db)"
    using inv by (simp add: generationsInv_def)
  then have rows: "rowsInv (db_genSeq db) ?rows"
    by (simp add: clearCurrent_rowsInv)
  have same: "cg_Domain r = cg_Domain g \<and> cg_Status r = cg_Status g" if "r \<in> set ?rows" "cg_ID r = gid" for r
    using cleared_id[OF rinv gm(1)] rowsInv_same_id[OF rinv _ gm(1)] that gm(2) by (auto split: if_splits)
  have "rowsInv (db_genSeq db) (updWhere (\<lambda>r. cg_ID r = gid) ?f ?rows)"
  proof (rule rowsInv_update_row[OF rows])
    show "generationOk (db_genSeq db) (?f r)" if "r \<in> set ?rows" "cg_ID r = gid" for r
      using rows that same[OF that] rev iss by (auto simp: rowsInv_def list_all_iff generationOk_def)
    show "revisionKey (?f r) \<noteq> revisionKey x"
      if "r \<in> set ?rows" "x \<in> set ?rows" "cg_ID r = gid" "cg_ID x \<noteq> gid" for r x
      using free same[OF that(1,3)] that(2,4) by (auto simp: revisionKey_def)
    show "\<not> cg_Current x"
      if "r \<in> set ?rows" "x \<in> set ?rows" "cg_ID r = gid" "cg_ID x \<noteq> gid" "cg_Current (?f r)" "cg_Domain x = cg_Domain r" for r x
      using clearCurrent_mem[of x now "cg_Domain g" "Some gid" "db_generations db"] same[OF that(1,3)] that by auto
  qed simp_all
  then show ?thesis
    unfolding run by (simp add: generationsInv_def)
  qed
qed

lemma DeleteGeneration_inv:
  assumes "generationsInv db"
  shows "generationsInv (snd (DeleteCertificateGeneration gid db))"
proof -
  have "distinct (map cg_Domain (filter cg_Current (filter (\<lambda>g. cg_ID g \<noteq> gid) gs)))"
    if "distinct (map cg_Domain (filter cg_Current gs))" for gs
    using distinct_map_filter_key[OF that, of "\<lambda>g. cg_ID g \<noteq> gid"] by (simp add: filter_filter conj_commute)
  then show ?thesis
    using assms by (auto simp: DeleteCertificateGeneration_def generationsInv_def rowsInv_def list_all_iff
        distinct_map_filter_key)
qed

section \<open>Histories of the generation table\<close>

datatype GenOp =
    GenCreate CertificateGeneration
  | GenStatus int string string string string "int option" "int option"
  | GenArtifact int GenerationArtifact
  | GenDelete int

fun genStep :: "int \<Rightarrow> GenOp \<Rightarrow> Db \<Rightarrow> Db" where
  "genStep now (GenCreate g) db = snd (CreateCertificateGeneration now (Some g) db)"
| "genStep now (GenStatus gid st ref key msg nb na) db =
     snd (UpdateCertificateGenerationStatus now gid st ref key msg nb na db)"
| "genStep now (GenArtifact gid a) db = snd (UpdateCertificateGenerationArtifact now gid a db)"
| "genStep now (GenDelete gid) db = snd (DeleteCertificateGeneration gid db)"

inductive genReach :: "Db \<Rightarrow> Db \<Rightarrow> bool" for db0 where
  gen_init: "genReach db0 db0"
| gen_step: "genReach db0 db \<Longrightarrow> genReach db0 (genStep now op db)"

lemma genStep_inv: "generationsInv db \<Longrightarrow> generationsInv (genStep now op db)"
  by (cases op) (simp_all add: CreateGeneration_inv UpdateStatus_inv UpdateArtifact_inv DeleteGeneration_inv)

lemma GetCurrent_mem:
  assumes "GetCurrentCertificateGeneration d db = Some x"
  shows "x \<in> set (db_generations db) \<and> cg_Domain x = d \<and> cg_Current x"
  using find_Some_mem[OF assms[unfolded GetCurrentCertificateGeneration_def]] by simp

lemma genReach_inv: "genReach db0 db \<Longrightarrow> generationsInv db0 \<Longrightarrow> generationsInv db"
  by (induction rule: genReach.induct) (auto intro: genStep_inv)

section \<open>Properties\<close>

text \<open>C5: One current generation.  In every database the generation operations reach, a domain
  has at most one current generation, \<^verbatim>\<open>GetCurrentCertificateGeneration\<close> finds it, it is
  issued, and generation numbers and revisions are unique within the domain.\<close>

theorem single_current_generation:
  assumes "genReach db0 db" "generationsInv db0"
    and "g \<in> set (db_generations db)" "cg_Domain g = d"
  shows "(GetCurrentCertificateGeneration d db = Some g \<longleftrightarrow> cg_Current g)
     \<and> (if cg_Current g then cg_Status g = ''issued'' else True)
     \<and> (\<forall>x\<in>set (db_generations db). cg_Domain x = d \<and> (cg_Generation x = cg_Generation g \<or> cg_Revision x = cg_Revision g)
          \<longrightarrow> x = g)"
proof -
  have inv: "rowsInv (db_genSeq db) (db_generations db)"
    using genReach_inv[OF assms(1,2)] by (simp add: generationsInv_def)
  have "GetCurrentCertificateGeneration d db = Some g \<longleftrightarrow> cg_Current g"
  proof
    assume "cg_Current g"
    then have "GetCurrentCertificateGeneration d db \<noteq> None"
      using assms(3,4) unfolding GetCurrentCertificateGeneration_def find_None_conv by blast
    then obtain x where x: "GetCurrentCertificateGeneration d db = Some x"
      by blast
    from GetCurrent_mem[OF x] have xm: "x \<in> set (db_generations db)" "cg_Domain x = d" "cg_Current x"
      by simp_all
    have "x = g"
      by (rule rowsInv_current_other[OF inv xm(1) assms(3) xm(3) \<open>cg_Current g\<close>]) (simp add: xm assms(4))
    then show "GetCurrentCertificateGeneration d db = Some g"
      using x by simp
  qed (auto dest: GetCurrent_mem)
  moreover have "cg_Current g \<longrightarrow> cg_Status g = ''issued''"
    using inv assms(3) by (auto simp: rowsInv_def list_all_iff generationOk_def)
  moreover have "x = g" if "x \<in> set (db_generations db)" "numberKey x = numberKey g \<or> revisionKey x = revisionKey g" for x
  proof -
    have "distinct (map numberKey (db_generations db))" "distinct (map revisionKey (db_generations db))"
      using inv by (simp_all add: rowsInv_def)
    then show ?thesis
      using that(2) distinct_key_inj[OF _ that(1) assms(3)] by blast
  qed
  ultimately show ?thesis
    using assms(4) by (auto simp: numberKey_def revisionKey_def)
qed

definition demoGeneration :: CertificateGeneration where
  "demoGeneration = \<lparr>cg_ID = 1, cg_JobID = ''j1'', cg_Domain = ''a.example'', cg_Generation = 1, cg_Revision = 1,
     cg_Status = ''publishing'', cg_CertificateRef = None, cg_PrivateKeyRef = None, cg_ManifestDigest = None,
     cg_Serial = None, cg_Fingerprint = None, cg_Current = False, cg_NotBefore = None, cg_NotAfter = None,
     cg_ErrorMessage = None, cg_CreatedAt = 60, cg_UpdatedAt = 60\<rparr>"

theorem single_current_generation_witness:
  "GetCurrentCertificateGeneration ''a.example''
     (genStep 70 (GenStatus 1 ''issued'' ''g-1'' [] [] None None)
        (demoDb\<lparr>db_generations := [demoGeneration], db_genSeq := 1\<rparr>))
   = Some (demoGeneration\<lparr>cg_Status := ''issued'', cg_CertificateRef := Some ''g-1'', cg_Current := True, cg_UpdatedAt := 70\<rparr>)"
proof -
  let ?db0 = "demoDb\<lparr>db_generations := [demoGeneration], db_genSeq := 1\<rparr>"
  let ?g = "demoGeneration\<lparr>cg_Status := ''issued'', cg_CertificateRef := Some ''g-1'', cg_Current := True, cg_UpdatedAt := 70\<rparr>"
  have inv: "generationsInv ?db0"
    by code_simp
  have mem: "?g \<in> set (db_generations (genStep 70 (GenStatus 1 ''issued'' ''g-1'' [] [] None None) ?db0))"
    by code_simp
  have "cg_Domain ?g = ''a.example''" "cg_Current ?g"
    by (simp_all add: demoGeneration_def)
  then show ?thesis
    using single_current_generation[OF gen_step[OF gen_init] inv mem] by blast
qed

end
