(* ===== verification/Auth.thy ===== *)
theory Auth
  imports UrlPath StoreAccess
begin

text \<open>
  Request signing (\<^verbatim>\<open>pkg/ckauth\<close>) and request authentication (\<^verbatim>\<open>internal/api/server.go\<close>).
  \<open>mac\<close> and \<open>sha\<close> stand for HMAC-SHA256 and SHA-256, \<open>mime\<close> for \<^verbatim>\<open>mime.ParseMediaType\<close> and
  \<open>dec\<close> for the decryption of stored secrets; every statement holds for any such functions
  unless it names a hypothesis about them.
\<close>

section \<open>Signing\<close>

definition hmacHex :: "(string \<Rightarrow> string \<Rightarrow> string) \<Rightarrow> string \<Rightarrow> string \<Rightarrow> string" where
  "hmacHex mac payload secret = hexEncode (mac payload secret)"

definition signPayload :: "string \<Rightarrow> string \<Rightarrow> int \<Rightarrow> string \<Rightarrow> string \<Rightarrow> string" where
  "signPayload method path ts nonce bodyHash =
     joinWith [CHR 0x0A] [method, path, showInt ts, nonce, bodyHash]"

definition Sign ::
  "(string \<Rightarrow> string \<Rightarrow> string) \<Rightarrow> string \<Rightarrow> string \<Rightarrow> int \<Rightarrow> string \<Rightarrow> string \<Rightarrow> string \<Rightarrow> string" where
  "Sign mac method path ts nonce bodyHash secret =
     hmacHex mac (signPayload method path ts nonce bodyHash) secret"

definition SecureEqual :: "string \<Rightarrow> string \<Rightarrow> bool" where
  "SecureEqual a b = (if length a \<noteq> length b then False else a = b)"

definition DeriveSecret :: "(string \<Rightarrow> string \<Rightarrow> string) \<Rightarrow> string \<Rightarrow> string \<Rightarrow> string \<Rightarrow> string" where
  "DeriveSecret mac encKey tid fallback =
     (if encKey = [] then fallback
      else take 64 (hmacHex mac (tid @ ''|'' @ encKey) encKey))"

text \<open>\<open>rnd n\<close> is what the system's generator returns for \<open>n\<close> bytes, or its failure.\<close>

definition RandomHex :: "(nat \<Rightarrow> string option) \<Rightarrow> nat \<Rightarrow> string option" where
  "RandomHex rnd n = map_option hexEncode (rnd n)"

definition GenTokenID :: "(nat \<Rightarrow> string option) \<Rightarrow> string option" where
  "GenTokenID rnd = RandomHex rnd (12 div 2)"

definition GenSecret :: "(nat \<Rightarrow> string option) \<Rightarrow> string option" where
  "GenSecret rnd = RandomHex rnd 32"

definition GenNonce :: "(nat \<Rightarrow> string option) \<Rightarrow> string option" where
  "GenNonce rnd = RandomHex rnd 16"

section \<open>Header checks\<close>

definition validTokenID :: "string \<Rightarrow> bool" where
  "validTokenID s = (\<not> (length s = 0 \<or> length s > 64) \<and>
     list_all (\<lambda>c. byteIn (CHR ''a'') (CHR ''z'') c \<or> byteIn (CHR ''A'') (CHR ''Z'') c
        \<or> byteIn (CHR ''0'') (CHR ''9'') c \<or> c = CHR ''-'' \<or> c = CHR ''_'' \<or> c = CHR ''.'') s)"

definition validTimestampString :: "string \<Rightarrow> bool" where
  "validTimestampString s = (\<not> (length s = 0 \<or> length s > 20) \<and> list_all isDigit s)"

definition validHex :: "string \<Rightarrow> nat \<Rightarrow> bool" where
  "validHex value n = (length value = n \<and>
     list_all (\<lambda>c. byteIn (CHR ''0'') (CHR ''9'') c \<or> byteIn (CHR ''a'') (CHR ''f'') c
        \<or> byteIn (CHR ''A'') (CHR ''F'') c) value)"

abbreviation EmptyBodyHash :: string where "EmptyBodyHash \<equiv> ''0''"

definition validBodyHash :: "string \<Rightarrow> bool \<Rightarrow> bool" where
  "validBodyHash value hasBody =
     (if \<not> hasBody then length value = length EmptyBodyHash \<and> value = EmptyBodyHash
      else validHex value 64)"

text \<open>\<^verbatim>\<open>strconv.ParseInt(s, 10, 64)\<close> on a string of decimal digits.\<close>

definition parseInt64 :: "string \<Rightarrow> int option" where
  "parseInt64 s = (if decValue s < 2 ^ 63 then Some (int (decValue s)) else None)"

section \<open>Requests\<close>

text \<open>
  A request body stream: absent, delivering its bytes, or failing after some bytes.  The
  header function gives the values received under a header name.
\<close>

datatype ReqBody = NilBody | BodyBytes string | BodyBroken string

record Request =
  rq_Method :: string
  rq_Path :: string
  rq_RawQuery :: string
  rq_Header :: "string \<Rightarrow> string list"
  rq_ContentLength :: int
  rq_Body :: ReqBody

datatype AuthError = ErrAuthentication | ErrBodyTooLarge | ErrBodyRead | ErrJSONRequired

abbreviation maxRequestBodySize :: nat where "maxRequestBodySize \<equiv> 1048576"

definition readRequestBody :: "Request \<Rightarrow> AuthError + string" where
  "readRequestBody r =
     (case rq_Body r of
        NilBody \<Rightarrow> Inr []
      | BodyBytes s \<Rightarrow>
          if rq_ContentLength r > int maxRequestBodySize then Inl ErrBodyTooLarge
          else (let body = take (maxRequestBodySize + 1) s
                in if length body > maxRequestBodySize then Inl ErrBodyTooLarge else Inr body)
      | BodyBroken s \<Rightarrow>
          if rq_ContentLength r > int maxRequestBodySize then Inl ErrBodyTooLarge
          else if length s < maxRequestBodySize + 1 then Inl ErrBodyRead
          else Inl ErrBodyTooLarge)"

definition singleHeader :: "Request \<Rightarrow> string \<Rightarrow> string option" where
  "singleHeader r name =
     (case rq_Header r name of [v] \<Rightarrow> if v = [] then None else Some v | _ \<Rightarrow> None)"

definition isWriteMethod :: "string \<Rightarrow> bool" where
  "isWriteMethod method = (method \<in> set [''POST'', ''PUT'', ''PATCH'', ''DELETE''])"

definition isJSONContentType :: "(string \<Rightarrow> string option) \<Rightarrow> Request \<Rightarrow> bool" where
  "isJSONContentType mime r =
     (case rq_Header r ''Content-Type'' of
        [v] \<Rightarrow> (case mime v of None \<Rightarrow> False | Some mt \<Rightarrow> toLowerASCII mt = ''application/json'')
      | _ \<Rightarrow> False)"

definition writeRequestError :: "AuthError \<Rightarrow> nat" where
  "writeRequestError e =
     (case e of ErrBodyTooLarge \<Rightarrow> 413 | ErrBodyRead \<Rightarrow> 400 | ErrJSONRequired \<Rightarrow> 415
      | ErrAuthentication \<Rightarrow> 401)"

definition signedPathOf :: "Request \<Rightarrow> string" where
  "signedPathOf r = (if rq_RawQuery r \<noteq> [] then rq_Path r @ ''?'' @ rq_RawQuery r else rq_Path r)"

section \<open>Authentication\<close>

record AuthConfig =
  ac_TimestampWindowSec :: int
  ac_NonceTTLSec :: int

text \<open>The five authentication headers, when each occurs once and has its form.\<close>

definition authHeaders :: "Request \<Rightarrow> string \<Rightarrow> (string \<times> string \<times> string \<times> string \<times> string) option" where
  "authHeaders r body =
     (case (singleHeader r ''X-CK-Token-Id'', singleHeader r ''X-CK-Timestamp'', singleHeader r ''X-CK-Nonce'',
            singleHeader r ''X-CK-BodyHash'', singleHeader r ''X-CK-Signature'') of
        (Some tid, Some ts, Some nonce, Some bodyHash, Some sig) \<Rightarrow>
          if validTokenID tid \<and> validTimestampString ts \<and> validHex nonce 32
             \<and> validBodyHash bodyHash (length body > 0) \<and> validHex sig 64
          then Some (tid, ts, nonce, bodyHash, sig) else None
      | _ \<Rightarrow> None)"

definition expectedBodyHash :: "(string \<Rightarrow> string) \<Rightarrow> string \<Rightarrow> string" where
  "expectedBodyHash sha body = (if length body > 0 then hexEncode (sha body) else EmptyBodyHash)"

text \<open>
  Every check before the nonce is consumed: headers, timestamp window, body digest, token and
  signature.  The result is the token ID, the nonce and the token; each failure is the same
  authentication error.
\<close>

definition timestampOk :: "AuthConfig \<Rightarrow> int \<Rightarrow> int \<Rightarrow> bool" where
  "timestampOk cfg now ts =
     (let window = ac_TimestampWindowSec cfg; diff = now - ts
      in \<not> ts < 0 \<and> \<not> window < 0 \<and> \<not> (diff < - window \<or> diff > window))"

definition signatureOk ::
  "(string \<Rightarrow> string \<Rightarrow> string) \<Rightarrow> (string \<Rightarrow> string) \<Rightarrow> Request \<Rightarrow> string \<Rightarrow> int \<Rightarrow> string \<Rightarrow> string \<Rightarrow> Token \<Rightarrow> bool" where
  "signatureOk mac sha r body ts nonce sig t =
     SecureEqual (toLowerASCII sig)
       (Sign mac (rq_Method r) (signedPathOf r) ts nonce (expectedBodyHash sha body) (to_Secret t))"

definition checkRequest ::
  "(string \<Rightarrow> string \<Rightarrow> string) \<Rightarrow> (string \<Rightarrow> string) \<Rightarrow> (string \<Rightarrow> string \<Rightarrow> string option) \<Rightarrow> AuthConfig
     \<Rightarrow> int \<Rightarrow> Request \<Rightarrow> string \<Rightarrow> Db \<Rightarrow> (string \<times> string \<times> Token) option" where
  "checkRequest mac sha dec cfg now r body db =
     (case authHeaders r body of
        None \<Rightarrow> None
      | Some (tid, tsStr, nonce, bodyHash, sig) \<Rightarrow>
          (case (parseInt64 tsStr, GetToken dec tid db) of
             (Some ts, Inr (Some t)) \<Rightarrow>
               if timestampOk cfg now ts
                  \<and> SecureEqual (toLowerASCII bodyHash) (expectedBodyHash sha body)
                  \<and> to_Enabled t \<and> signatureOk mac sha r body ts nonce sig t
               then Some (tid, nonce, t) else None
           | _ \<Rightarrow> None))"

text \<open>
  The clock is read three times: for the timestamp (\<^verbatim>\<open>s.currentTime\<close>), when the nonce is stored
  (\<^verbatim>\<open>time.Now\<close> in \<^verbatim>\<open>ConsumeNonce\<close>) and when the use of the token is noted.  \<open>atOnce\<close> is a request
  that all three readings find in the same second.
\<close>

record AuthClock =
  ak_Check :: int
  ak_Nonce :: int
  ak_Usage :: int

abbreviation atOnce :: "int \<Rightarrow> AuthClock" where
  "atOnce now \<equiv> \<lparr>ak_Check = now, ak_Nonce = now, ak_Usage = now\<rparr>"

definition verifyTokenBody ::
  "(string \<Rightarrow> string \<Rightarrow> string) \<Rightarrow> (string \<Rightarrow> string) \<Rightarrow> (string \<Rightarrow> string \<Rightarrow> string option) \<Rightarrow> AuthConfig
     \<Rightarrow> AuthClock \<Rightarrow> Request \<Rightarrow> string \<Rightarrow> Db \<Rightarrow> (AuthError + Token) \<times> Db" where
  "verifyTokenBody mac sha dec cfg clock r body db =
     (case checkRequest mac sha dec cfg (ak_Check clock) r body db of
        None \<Rightarrow> (Inl ErrAuthentication, db)
      | Some (tid, nonce, t) \<Rightarrow>
          (let (ok, db1) = ConsumeNonce (ak_Nonce clock) nonce (ac_NonceTTLSec cfg) db
           in if \<not> ok then (Inl ErrAuthentication, db1)
              else (Inr t, UpdateTokenUsage (ak_Usage clock) tid db1)))"

definition verifyToken ::
  "(string \<Rightarrow> string \<Rightarrow> string) \<Rightarrow> (string \<Rightarrow> string) \<Rightarrow> (string \<Rightarrow> string \<Rightarrow> string option)
     \<Rightarrow> (string \<Rightarrow> string option) \<Rightarrow> AuthConfig \<Rightarrow> AuthClock \<Rightarrow> Request \<Rightarrow> Db \<Rightarrow> (AuthError + Token) \<times> Db" where
  "verifyToken mac sha dec mime cfg clock r db =
     (case readRequestBody r of
        Inl e \<Rightarrow> (Inl e, db)
      | Inr body \<Rightarrow>
          if isWriteMethod (rq_Method r) \<and> length body > 0 \<and> \<not> isJSONContentType mime r
          then (Inl ErrJSONRequired, db)
          else verifyTokenBody mac sha dec cfg clock r body db)"

datatype 'h Response = Status nat | Served 'h

text \<open>The two middlewares: the handler runs with the authenticated token, or not at all.\<close>

definition authed ::
  "(AuthError + Token) \<times> Db \<Rightarrow> (Token \<Rightarrow> Db \<Rightarrow> 'h \<times> Db) \<Rightarrow> 'h Response \<times> Db" where
  "authed verified h =
     (case verified of
        (Inl e, db) \<Rightarrow> (Status (writeRequestError e), db)
      | (Inr t, db) \<Rightarrow> (let (x, db') = h t db in (Served x, db')))"

definition admin ::
  "(AuthError + Token) \<times> Db \<Rightarrow> (Token \<Rightarrow> Db \<Rightarrow> 'h \<times> Db) \<Rightarrow> 'h Response \<times> Db" where
  "admin verified h =
     (case verified of
        (Inl e, db) \<Rightarrow> (Status (writeRequestError e), db)
      | (Inr t, db) \<Rightarrow>
          if \<not> to_IsAdmin t then (Status 403, db)
          else (let (x, db') = h t db in (Served x, db')))"

section \<open>The signed text\<close>

lemma append_sep_inject:
  "c \<notin> set a \<Longrightarrow> c \<notin> set b \<Longrightarrow> a @ c # s = b @ c # t \<longleftrightarrow> a = b \<and> s = t"
proof (induction a arbitrary: b)
  case Nil
  then show ?case by (cases b) auto
next
  case (Cons x a)
  then show ?case by (cases b) auto
qed

lemma append_last_sep_inject:
  assumes "c \<notin> set x" "c \<notin> set y"
  shows "s @ c # x = t @ c # y \<longleftrightarrow> s = t \<and> x = y"
proof -
  have "s @ c # x = t @ c # y \<longleftrightarrow> rev x @ c # rev s = rev y @ c # rev t"
    by (metis append.assoc append_Cons append_Nil rev.simps(2) rev_append rev_rev_ident)
  then show ?thesis
    using append_sep_inject[of c "rev x" "rev y" "rev s" "rev t"] assms by auto
qed

lemma showInt_no_newline: "CHR 0x0A \<notin> set (showInt i)"
  using showInt_chars[of "CHR 0x0A" i] by (auto simp: isDigit_def byteIn_def byteval_def)

lemma signPayload_inject:
  assumes "CHR 0x0A \<notin> set m" "CHR 0x0A \<notin> set m'"
    and "CHR 0x0A \<notin> set n" "CHR 0x0A \<notin> set n'" "CHR 0x0A \<notin> set h" "CHR 0x0A \<notin> set h'"
  shows "signPayload m p ts n h = signPayload m' p' ts' n' h' \<longleftrightarrow>
     m = m' \<and> p = p' \<and> ts = ts' \<and> n = n' \<and> h = h'"
proof -
  let ?c = "CHR 0x0A"
  have expand: "signPayload a b i k l = a @ ?c # ((b @ ?c # showInt i) @ ?c # k) @ ?c # l" for a b i k l
    by (simp add: signPayload_def)
  show ?thesis
    unfolding expand
    using assms by (simp only: append_sep_inject append_last_sep_inject showInt_no_newline showInt_inject
        not_False_eq_True) blast
qed

lemma validHex_no_newline: "validHex s n \<Longrightarrow> CHR 0x0A \<notin> set s"
  by (auto simp: validHex_def list_all_iff byteIn_def byteval_def)

section \<open>What acceptance means\<close>

lemma timestampOk_iff: "timestampOk cfg now ts \<longleftrightarrow> 0 \<le> ts \<and> \<bar>now - ts\<bar> \<le> ac_TimestampWindowSec cfg"
  by (auto simp: timestampOk_def Let_def)

lemma SecureEqual_iff [simp]: "SecureEqual a b \<longleftrightarrow> a = b"
  by (auto simp: SecureEqual_def)

lemma checkRequest_Some:
  assumes "checkRequest mac sha dec cfg now r body db = Some (tid, nonce, t)"
  obtains tsStr bodyHash sig ts where
    "authHeaders r body = Some (tid, tsStr, nonce, bodyHash, sig)" "parseInt64 tsStr = Some ts"
    "timestampOk cfg now ts" "toLowerASCII bodyHash = expectedBodyHash sha body"
    "GetToken dec tid db = Inr (Some t)" "to_Enabled t" "signatureOk mac sha r body ts nonce sig t"
  using assms unfolding checkRequest_def
  by (auto split: option.splits sum.splits prod.splits if_splits)

lemma verifyTokenBody_cases:
  obtains (rejected) "checkRequest mac sha dec cfg (ak_Check clock) r body db = None"
      "verifyTokenBody mac sha dec cfg clock r body db = (Inl ErrAuthentication, db)"
  | (checked) tid nonce t ok db1 where "checkRequest mac sha dec cfg (ak_Check clock) r body db = Some (tid, nonce, t)"
      "ConsumeNonce (ak_Nonce clock) nonce (ac_NonceTTLSec cfg) db = (ok, db1)"
      "verifyTokenBody mac sha dec cfg clock r body db =
         (if ok then (Inr t, UpdateTokenUsage (ak_Usage clock) tid db1) else (Inl ErrAuthentication, db1))"
proof (cases "checkRequest mac sha dec cfg (ak_Check clock) r body db")
  case None
  then show ?thesis
    by (intro rejected) (simp_all add: verifyTokenBody_def)
next
  case (Some x)
  obtain tid nonce t where x: "x = (tid, nonce, t)"
    by (cases x) auto
  obtain ok db1 where "ConsumeNonce (ak_Nonce clock) nonce (ac_NonceTTLSec cfg) db = (ok, db1)"
    by fastforce
  then show ?thesis
    using Some x by (intro checked) (auto simp: verifyTokenBody_def)
qed

lemma verifyTokenBody_accepts:
  assumes "verifyTokenBody mac sha dec cfg clock r body db = (Inr t, db')"
  obtains tid nonce db1 where "checkRequest mac sha dec cfg (ak_Check clock) r body db = Some (tid, nonce, t)"
    "ConsumeNonce (ak_Nonce clock) nonce (ac_NonceTTLSec cfg) db = (True, db1)" "db' = UpdateTokenUsage (ak_Usage clock) tid db1"
  using assms by (cases rule: verifyTokenBody_cases[of mac sha dec cfg clock r body db]) (auto split: if_splits)

lemma nonceHeld_usage [simp]: "nonceHeld (UpdateTokenUsage now tid db) = nonceHeld db"
  by (simp add: nonceHeld_def UpdateTokenUsage_def fun_eq_iff)

lemma verify_keeps_nonce:
  assumes "nonceHeld db n t0" "ak_Nonce clock - ac_NonceTTLSec cfg \<le> t0"
  shows "nonceHeld (snd (verifyTokenBody mac sha dec cfg clock r body db)) n t0"
proof (cases rule: verifyTokenBody_cases[of mac sha dec cfg clock r body db])
  case (checked tid nonce t ok db1)
  have "nonceHeld db1 n t0"
    using nl.consume_keeps[OF assms, of nonce] checked(2) by simp
  then show ?thesis
    using checked(3) by simp
qed (use assms in simp)

lemma clean_keeps_nonce: "nonceHeld db n t0 \<Longrightarrow> before \<le> t0 \<Longrightarrow> nonceHeld (CleanOldNonces before db) n t0"
  by (auto simp: nonceHeld_def CleanOldNonces_def list_ex_iff)

section \<open>Histories of requests and cleanups\<close>

text \<open>
  One tick of the nonce cleaner started by \<^verbatim>\<open>cmd/server/main.go\<close>.  The steps of a history are in the order of
  their transactions; \<open>stepTime\<close> is the reading that decides what a step deletes.
\<close>

definition nonceCleanerTick :: "AuthConfig \<Rightarrow> int \<Rightarrow> Db \<Rightarrow> Db" where
  "nonceCleanerTick cfg now db =
     (let ttl = (if ac_NonceTTLSec cfg \<le> 0 then 300 else ac_NonceTTLSec cfg)
      in CleanOldNonces (now - ttl * 2) db)"

datatype AuthStep = Verify AuthClock Request string | CleanerTick int

fun stepTime :: "AuthStep \<Rightarrow> int" where
  "stepTime (Verify clock r body) = ak_Nonce clock"
| "stepTime (CleanerTick now) = now"

fun authStep ::
  "(string \<Rightarrow> string \<Rightarrow> string) \<Rightarrow> (string \<Rightarrow> string) \<Rightarrow> (string \<Rightarrow> string \<Rightarrow> string option) \<Rightarrow> AuthConfig
     \<Rightarrow> AuthStep \<Rightarrow> Db \<Rightarrow> Db" where
  "authStep mac sha dec cfg (Verify clock r body) db = snd (verifyTokenBody mac sha dec cfg clock r body db)"
| "authStep mac sha dec cfg (CleanerTick now) db = nonceCleanerTick cfg now db"

lemma authStep_keeps_nonce:
  assumes "nonceHeld db n t0" "stepTime s - ac_NonceTTLSec cfg \<le> t0" "0 \<le> ac_NonceTTLSec cfg"
  shows "nonceHeld (authStep mac sha dec cfg s db) n t0"
proof (cases s)
  case (Verify clock r body)
  then show ?thesis
    using verify_keeps_nonce[of db n t0 clock cfg] assms by simp
next
  case (CleanerTick now)
  then show ?thesis
    using assms by (auto simp: nonceCleanerTick_def Let_def intro!: clean_keeps_nonce)
qed

lemma fold_authStep_keeps_nonce:
  assumes "nonceHeld db n t0" "\<forall>s\<in>set steps. stepTime s - ac_NonceTTLSec cfg \<le> t0" "0 \<le> ac_NonceTTLSec cfg"
  shows "nonceHeld (fold (authStep mac sha dec cfg) steps db) n t0"
  using assms by (induction steps arbitrary: db) (auto simp: authStep_keeps_nonce)

lemma accepted_holds_nonce:
  assumes "verifyTokenBody mac sha dec cfg clock r body db = (Inr t, db1)"
  obtains tid tsStr nonce bodyHash sig ts where
    "authHeaders r body = Some (tid, tsStr, nonce, bodyHash, sig)" "parseInt64 tsStr = Some ts"
    "timestampOk cfg (ak_Check clock) ts" "nonceHeld db1 nonce (ak_Nonce clock)"
proof -
  obtain tid nonce db0 where acc: "checkRequest mac sha dec cfg (ak_Check clock) r body db = Some (tid, nonce, t)"
      "ConsumeNonce (ak_Nonce clock) nonce (ac_NonceTTLSec cfg) db = (True, db0)" "db1 = UpdateTokenUsage (ak_Usage clock) tid db0"
    using assms by (rule verifyTokenBody_accepts)
  obtain tsStr bodyHash sig ts where
    "authHeaders r body = Some (tid, tsStr, nonce, bodyHash, sig)" "parseInt64 tsStr = Some ts"
    "timestampOk cfg (ak_Check clock) ts"
    using acc(1) by (rule checkRequest_Some)
  moreover have "nonceHeld db1 nonce (ak_Nonce clock)"
    using nl.consume_records[OF acc(2)] acc(3) by simp
  ultimately show ?thesis
    by (rule that)
qed

lemma held_nonce_rejects:
  assumes "authHeaders r body = Some (tid, tsStr, nonce, bodyHash, sig)"
    and "nonceHeld db nonce t0" "ak_Nonce clock - ac_NonceTTLSec cfg \<le> t0"
  shows "fst (verifyTokenBody mac sha dec cfg clock r body db) = Inl ErrAuthentication"
proof (cases rule: verifyTokenBody_cases[of mac sha dec cfg clock r body db])
  case (checked tid' nonce' t ok db1)
  have "nonce' = nonce"
    using checked(1) assms(1) by (auto elim!: checkRequest_Some)
  then have "\<not> ok"
    using nl.consume_refuses[OF assms(2,3)] checked(2) by simp
  then show ?thesis
    using checked(3) by simp
qed simp

lemma late_request_rejected:
  assumes "authHeaders r body = Some (tid, tsStr, nonce, bodyHash, sig)" "parseInt64 tsStr = Some ts"
    and "\<not> timestampOk cfg (ak_Check clock) ts"
  shows "fst (verifyTokenBody mac sha dec cfg clock r body db) = Inl ErrAuthentication"
proof (cases rule: verifyTokenBody_cases[of mac sha dec cfg clock r body db])
  case (checked tid' nonce' t ok db1)
  then show ?thesis
    using assms by (auto elim!: checkRequest_Some)
qed simp

end
