(* ===== verification/ClientAuth.thy ===== *)
theory ClientAuth
  imports Auth
begin

text \<open>
  The request a client sends (\<^verbatim>\<open>doRequestCtx\<close> of \<^verbatim>\<open>internal/client/client.go\<close>) and what the
  server's authentication does with it: it is accepted once, and then refused.
\<close>

section \<open>One attempt of a signed request\<close>

record ClientConfig =
  cc_TokenID :: string
  cc_TokenSecret :: string

text \<open>\<open>None\<close> is the absent body, \<open>Some b\<close> the marshalled one.\<close>

definition bodyHashOf :: "(string \<Rightarrow> string) \<Rightarrow> string option \<Rightarrow> string" where
  "bodyHashOf sha body = (case body of None \<Rightarrow> ''0'' | Some b \<Rightarrow> hexEncode (sha b))"

definition bodyBytes :: "string option \<Rightarrow> string" where
  "bodyBytes body = (case body of None \<Rightarrow> [] | Some b \<Rightarrow> b)"

definition requestHeader ::
  "(string \<Rightarrow> string \<Rightarrow> string) \<Rightarrow> (string \<Rightarrow> string) \<Rightarrow> ClientConfig \<Rightarrow> int \<Rightarrow> string \<Rightarrow> string \<Rightarrow> string
     \<Rightarrow> string option \<Rightarrow> string \<Rightarrow> string list" where
  "requestHeader mac sha cfg ts nonce method path body =
     ((\<lambda>_. [])
       (''X-CK-Token-Id'' := [cc_TokenID cfg],
        ''X-CK-Timestamp'' := [showInt ts],
        ''X-CK-Nonce'' := [nonce],
        ''X-CK-BodyHash'' := [bodyHashOf sha body],
        ''X-CK-Signature'' :=
          [Sign mac method path ts nonce (bodyHashOf sha body) (cc_TokenSecret cfg)],
        ''Content-Type'' := (if length (bodyBytes body) > 0 then [''application/json''] else [])))"

text \<open>
  How the server sees the URL: the fragment is dropped, the query cut off at the first question
  mark, and the path unescaped.
\<close>

definition urlParts :: "string \<Rightarrow> (string \<times> string) option" where
  "urlParts url =
     (let noFragment = takeWhile (\<lambda>c. c \<noteq> CHR ''#'') url;
          path = takeWhile (\<lambda>c. c \<noteq> CHR ''?'') noFragment;
          query = drop (length path + 1) noFragment
      in map_option (\<lambda>p. (p, query)) (PathUnescape path))"

definition sentRequest ::
  "(string \<Rightarrow> string \<Rightarrow> string) \<Rightarrow> (string \<Rightarrow> string) \<Rightarrow> ClientConfig \<Rightarrow> int \<Rightarrow> string \<Rightarrow> string \<Rightarrow> string
     \<Rightarrow> string option \<Rightarrow> Request option" where
  "sentRequest mac sha cfg ts nonce method path body =
     map_option (\<lambda>(p, query).
       \<lparr>rq_Method = method, rq_Path = p, rq_RawQuery = query,
        rq_Header = requestHeader mac sha cfg ts nonce method path body,
        rq_ContentLength = int (length (bodyBytes body)), rq_Body = BodyBytes (bodyBytes body)\<rparr>)
       (urlParts path)"

section \<open>The server accepts it\<close>

text \<open>The characters that would make the server see another URL than the signed one.\<close>

definition plainPath :: "string \<Rightarrow> bool" where
  "plainPath path = list_all (\<lambda>c. c \<notin> set ''#?%'') path"

lemma urlParts_plain:
  assumes "plainPath path"
  shows "urlParts path = Some (path, [])"
proof -
  have whole: "takeWhile (\<lambda>c. c \<noteq> CHR ''#'') path = path" "takeWhile (\<lambda>c. c \<noteq> CHR ''?'') path = path"
    and "CHR ''%'' \<notin> set path"
    using assms by (auto simp: plainPath_def list_all_iff takeWhile_eq_all_conv)
  then have "PathUnescape path = Some path"
    by (simp add: PathUnescape_plain)
  then show ?thesis
    unfolding urlParts_def Let_def whole by simp
qed

lemma validTimestampString_showInt:
  assumes "0 \<le> ts" "ts < 2 ^ 63"
  shows "validTimestampString (showInt ts)" "parseInt64 (showInt ts) = Some ts"
proof -
  have shown: "showInt ts = showNat (nat ts)"
    using assms by (simp add: showInt_def)
  have "nat ts < 10 ^ 20"
    using assms by simp
  then have "length (showNat (nat ts)) \<le> 20"
    by (intro length_showNat) simp_all
  then show "validTimestampString (showInt ts)"
    unfolding validTimestampString_def shown using showNat_digits by (auto simp: list_all_iff)
  show "parseInt64 (showInt ts) = Some ts"
    using assms unfolding parseInt64_def shown by (simp add: nat_less_iff)
qed

lemma validHex_hexEncode: "length bs = n \<Longrightarrow> validHex (hexEncode bs) (2 * n)"
  using hexEncode_chars by (auto simp: validHex_def list_all_iff)

lemma validHex_hash: "length bs = 32 \<Longrightarrow> validHex (hexEncode bs) 64"
  using validHex_hexEncode[of bs 32] by simp

lemma bodyHash_agrees:
  assumes "body \<noteq> Some []"
  shows "bodyHashOf sha body = expectedBodyHash sha (bodyBytes body)"
  using assms by (cases body) (auto simp: bodyHashOf_def expectedBodyHash_def bodyBytes_def)

text \<open>What the digests are relied on for: their results are 32 bytes long.\<close>

definition digestSizes :: "(string \<Rightarrow> string \<Rightarrow> string) \<Rightarrow> (string \<Rightarrow> string) \<Rightarrow> bool" where
  "digestSizes mac sha \<longleftrightarrow> (\<forall>p s. length (mac p s) = 32) \<and> (\<forall>x. length (sha x) = 32)"

lemma validBodyHash_expected:
  "digestSizes mac sha \<Longrightarrow> validBodyHash (expectedBodyHash sha b) (length b > 0)"
  by (simp add: validBodyHash_def expectedBodyHash_def digestSizes_def validHex_hash)

lemma toLower_expected [simp]: "toLowerASCII (expectedBodyHash sha b) = expectedBodyHash sha b"
  by (simp add: expectedBodyHash_def) (simp add: toLowerASCII_def lowerByte_def byteIn_def byteval_def)

lemma toLower_Sign [simp]: "toLowerASCII (Sign mac m p ts n h s) = Sign mac m p ts n h s"
  by (simp add: Sign_def hmacHex_def)

lemma validHex_Sign: "digestSizes mac sha \<Longrightarrow> validHex (Sign mac m p ts n h s) 64"
  by (simp add: Sign_def hmacHex_def digestSizes_def validHex_hash)

lemma header_forms_nonempty:
  "validTokenID s \<Longrightarrow> s \<noteq> []" "validTimestampString s \<Longrightarrow> s \<noteq> []" "validHex s 32 \<Longrightarrow> s \<noteq> []"
  "validHex s 64 \<Longrightarrow> s \<noteq> []"
  by (auto simp: validTokenID_def validTimestampString_def validHex_def)

lemma expectedBodyHash_nonempty: "digestSizes mac sha \<Longrightarrow> expectedBodyHash sha b \<noteq> []"
  by (auto simp: expectedBodyHash_def digestSizes_def dest!: arg_cong[of _ _ length] spec[of "\<lambda>x. length (sha x) = 32" b])

text \<open>
  An attempt with everything in order: the token's secret, the time window, and a nonce that is
  not on record, or whose record has outlived the nonce lifetime.
\<close>

definition goodAttempt :: "(string \<Rightarrow> string \<Rightarrow> string option) \<Rightarrow> AuthConfig \<Rightarrow> ClientConfig \<Rightarrow> AuthClock \<Rightarrow> int
     \<Rightarrow> string \<Rightarrow> Token \<Rightarrow> Db \<Rightarrow> bool" where
  "goodAttempt dec acfg cfg clock ts nonce t db \<longleftrightarrow>
     0 \<le> ts \<and> ts < 2 ^ 63 \<and> \<bar>ak_Check clock - ts\<bar> \<le> ac_TimestampWindowSec acfg \<and>
     validTokenID (cc_TokenID cfg) \<and> GetToken dec (cc_TokenID cfg) db = Inr (Some t) \<and>
     to_Enabled t \<and> to_Secret t = cc_TokenSecret cfg \<and>
     validHex nonce 32 \<and>
     (\<forall>r\<in>set (db_nonces db). nc_Nonce r = nonce \<longrightarrow> nc_CreatedAt r < ak_Nonce clock - ac_NonceTTLSec acfg)"

lemma sent_headers:
  assumes "digestSizes mac sha" "body \<noteq> Some []" "validTokenID (cc_TokenID cfg)" "validHex nonce 32"
    "0 \<le> ts" "ts < 2 ^ 63" "sentRequest mac sha cfg ts nonce method path body = Some r"
  shows "authHeaders r (bodyBytes body) =
     Some (cc_TokenID cfg, showInt ts, nonce, expectedBodyHash sha (bodyBytes body),
           Sign mac method path ts nonce (expectedBodyHash sha (bodyBytes body)) (cc_TokenSecret cfg))"
proof -
  have ne: "cc_TokenID cfg \<noteq> []" "showInt ts \<noteq> []" "nonce \<noteq> []"
    "expectedBodyHash sha (bodyBytes body) \<noteq> []" "Sign mac method path ts nonce h s \<noteq> []" for h s
    using assms(3) validTimestampString_showInt(1)[OF assms(5,6)] assms(4)
      expectedBodyHash_nonempty[OF assms(1)] validHex_Sign[OF assms(1)]
    by (blast dest: header_forms_nonempty)+
  have hdr: "rq_Header r = requestHeader mac sha cfg ts nonce method path body"
    using assms(7) by (auto simp: sentRequest_def)
  show ?thesis
    unfolding authHeaders_def singleHeader_def hdr requestHeader_def bodyHash_agrees[OF assms(2)]
    by (simp add: ne assms(3,4) validTimestampString_showInt(1)[OF assms(5,6)]
        validBodyHash_expected[OF assms(1), simplified] validHex_Sign[OF assms(1)])
qed

lemma checkRequest_sent:
  assumes "goodAttempt dec acfg cfg clock ts nonce t db" "digestSizes mac sha" "body \<noteq> Some []"
    "plainPath path" "sentRequest mac sha cfg ts nonce method path body = Some r"
  shows "checkRequest mac sha dec acfg (ak_Check clock) r (bodyBytes body) db = Some (cc_TokenID cfg, nonce, t)"
proof -
  have r: "rq_Method r = method" "signedPathOf r = path"
    using assms(4,5) by (auto simp: sentRequest_def urlParts_plain signedPathOf_def)
  have g: "0 \<le> ts" "ts < 2 ^ 63" "validTokenID (cc_TokenID cfg)" "validHex nonce 32"
    "timestampOk acfg (ak_Check clock) ts" "GetToken dec (cc_TokenID cfg) db = Inr (Some t)" "to_Enabled t"
    "to_Secret t = cc_TokenSecret cfg"
    using assms(1) by (simp_all add: goodAttempt_def timestampOk_iff)
  show ?thesis
    unfolding checkRequest_def sent_headers[OF assms(2,3) g(3,4,1,2) assms(5)]
    by (simp add: validTimestampString_showInt(2)[OF g(1,2)] g signatureOk_def r)
qed

lemma verifyToken_sent:
  assumes "sentRequest mac sha cfg ts nonce method path body = Some r"
    and "length (bodyBytes body) \<le> maxRequestBodySize"
    and "mime ''application/json'' = Some ''application/json''"
  shows "verifyToken mac sha dec mime acfg clock r db =
    verifyTokenBody mac sha dec acfg clock r (bodyBytes body) db"
proof -
  have r: "rq_Body r = BodyBytes (bodyBytes body)" "rq_ContentLength r = int (length (bodyBytes body))"
    "rq_Header r = requestHeader mac sha cfg ts nonce method path body"
    using assms(1) by (auto simp: sentRequest_def)
  have "readRequestBody r = Inr (bodyBytes body)"
    using assms(2) by (simp add: readRequestBody_def r)
  moreover have "isJSONContentType mime r" if "length (bodyBytes body) > 0"
    using assms(3) that
    by (simp add: isJSONContentType_def r requestHeader_def)
      (simp add: toLowerASCII_def lowerByte_def byteIn_def byteval_def)
  ultimately show ?thesis
    by (auto simp: verifyToken_def)
qed

lemma fresh_nonce_consumed:
  assumes "\<forall>r\<in>set (db_nonces db). nc_Nonce r = nonce \<longrightarrow> nc_CreatedAt r < now - ttl"
  shows "fst (ConsumeNonce now nonce ttl db)"
  using assms by (auto simp: ConsumeNonce_def Let_def list_ex_iff)

lemma verifyTokenBody_sent:
  assumes "goodAttempt dec acfg cfg clock ts nonce t db" "digestSizes mac sha" "body \<noteq> Some []"
    "plainPath path" "sentRequest mac sha cfg ts nonce method path body = Some r"
  shows "fst (verifyTokenBody mac sha dec acfg clock r (bodyBytes body) db) = Inr t"
proof -
  have "fst (ConsumeNonce (ak_Nonce clock) nonce (ac_NonceTTLSec acfg) db)"
    using assms(1) by (intro fresh_nonce_consumed) (simp add: goodAttempt_def)
  then show ?thesis
    unfolding verifyTokenBody_def checkRequest_sent[OF assms] by (auto split: prod.splits)
qed

text \<open>C6: The server accepts every request the client signs with the secret of an enabled token,
  within the timestamp window and under a fresh nonce, whatever its method, plain path and body
  of at most a megabyte, and hands out that token.\<close>

theorem signed_request_accepted:
  assumes "goodAttempt dec acfg cfg clock ts nonce t db" "digestSizes mac sha"
    and "sentRequest mac sha cfg ts nonce method path body = Some r" "plainPath path"
    and "body \<noteq> Some []" "length (bodyBytes body) \<le> maxRequestBodySize"
    and "mime ''application/json'' = Some ''application/json''"
  shows "fst (verifyToken mac sha dec mime acfg clock r db) = Inr t"
  using verifyToken_sent[OF assms(3,6)] verifyTokenBody_sent[OF assms(1,2,5,4,3)] assms(7) by simp

section \<open>A concrete request\<close>

definition demoMac :: "string \<Rightarrow> string \<Rightarrow> string" where
  "demoMac payload secret = replicate 32 (CHR ''A'')"

definition demoSha :: "string \<Rightarrow> string" where
  "demoSha x = replicate 32 (CHR ''B'')"

definition demoDec :: "string \<Rightarrow> string \<Rightarrow> string option" where
  "demoDec c aad = Some c"

definition demoNonce :: string where
  "demoNonce = replicate 32 (CHR ''0'')"

definition demoTokenDb :: Db where
  "demoTokenDb = emptyDb\<lparr>db_tokens :=
     [\<lparr>tk_ID = ''t1'', tk_Secret = None, tk_Ciphertext = Some ''s'', tk_Version = 2, tk_RotatedAt = None,
       tk_Note = [], tk_Enabled = True, tk_IsAdmin = False, tk_CreatedAt = 0, tk_LastUsedAt = None\<rparr>]\<rparr>"

definition demoToken :: Token where
  "demoToken = \<lparr>to_ID = ''t1'', to_Secret = ''s'', to_Note = [], to_Enabled = True, to_IsAdmin = False,
     to_CreatedAt = 0, to_LastUsedAt = None, to_exposeSecret = False\<rparr>"

definition demoClient :: ClientConfig where
  "demoClient = \<lparr>cc_TokenID = ''t1'', cc_TokenSecret = ''s''\<rparr>"

text \<open>A listing request signed by the demo client at the given time.\<close>

definition demoRequest :: "int \<Rightarrow> Request" where
  "demoRequest ts =
     \<lparr>rq_Method = ''GET'', rq_Path = ''/api/v1/certs'', rq_RawQuery = [],
      rq_Header = requestHeader demoMac demoSha demoClient ts demoNonce ''GET'' ''/api/v1/certs'' None,
      rq_ContentLength = 0, rq_Body = BodyBytes []\<rparr>"

lemma demo_sent:
  "sentRequest demoMac demoSha demoClient ts demoNonce ''GET'' ''/api/v1/certs'' None = Some (demoRequest ts)"
  by (simp add: sentRequest_def demoRequest_def urlParts_def Let_def bodyBytes_def)

lemma demo_sizes: "digestSizes demoMac demoSha"
  by (simp add: digestSizes_def demoMac_def demoSha_def)

lemma demo_path: "plainPath ''/api/v1/certs''"
  by (simp add: plainPath_def)

lemma demo_good:
  assumes "0 \<le> ts" "ts < 2 ^ 63" "\<bar>now - ts\<bar> \<le> ac_TimestampWindowSec acfg"
  shows "goodAttempt demoDec acfg demoClient (atOnce now) ts demoNonce demoToken demoTokenDb"
proof -
  have "validTokenID ''t1''" "validHex demoNonce 32"
    by (simp add: validTokenID_def byteIn_def byteval_def)
      (simp add: validHex_def demoNonce_def byteIn_def byteval_def list_all_iff)
  moreover have "GetToken demoDec ''t1'' demoTokenDb = Inr (Some demoToken)"
    by (simp add: GetToken_def getTokenWithSecret_def demoTokenDb_def demoToken_def tokenOfRow_def
        demoDec_def orEmpty_def)
  ultimately show ?thesis
    using assms by (simp add: goodAttempt_def demoClient_def demoToken_def demoTokenDb_def emptyDb_def)
qed

lemma demo_accepted:
  assumes "0 \<le> ts" "ts < 2 ^ 63" "\<bar>now - ts\<bar> \<le> ac_TimestampWindowSec acfg"
  shows "fst (verifyTokenBody demoMac demoSha demoDec acfg (atOnce now) (demoRequest ts) [] demoTokenDb) = Inr demoToken"
  using verifyTokenBody_sent[OF demo_good[OF assms] demo_sizes _ demo_path demo_sent] by (simp add: bodyBytes_def)

theorem signed_request_accepted_witness:
  "fst (verifyToken demoMac demoSha demoDec (\<lambda>v. Some v)
     \<lparr>ac_TimestampWindowSec = 300, ac_NonceTTLSec = 600\<rparr> (atOnce 1001) (demoRequest 1000) demoTokenDb) = Inr demoToken"
  by (rule signed_request_accepted[OF demo_good demo_sizes demo_sent demo_path])
    (simp_all add: bodyBytes_def)



section \<open>What a signature binds\<close>

lemma accepted_signature:
  assumes "fst (verifyTokenBody mac sha dec cfg clock r body db) = Inr t"
  obtains tid tsStr nonce bodyHash sig ts where
    "authHeaders r body = Some (tid, tsStr, nonce, bodyHash, sig)" "parseInt64 tsStr = Some ts"
    "toLowerASCII sig = Sign mac (rq_Method r) (signedPathOf r) ts nonce (expectedBodyHash sha body) (to_Secret t)"
    "validHex nonce 32"
proof -
  obtain tid nonce db1 where
    "checkRequest mac sha dec cfg (ak_Check clock) r body db = Some (tid, nonce, t)"
    using assms by (cases "verifyTokenBody mac sha dec cfg clock r body db")
      (auto elim!: verifyTokenBody_accepts)
  then obtain tsStr bodyHash sig ts where
    "authHeaders r body = Some (tid, tsStr, nonce, bodyHash, sig)" "parseInt64 tsStr = Some ts"
    "signatureOk mac sha r body ts nonce sig t"
    by (elim checkRequest_Some)
  moreover from this(1) have "validHex nonce 32"
    by (auto simp: authHeaders_def split: option.splits if_splits)
  ultimately show ?thesis
    by (intro that) (simp_all add: signatureOk_def)
qed

lemma expectedBodyHash_no_newline: "CHR 0x0A \<notin> set (expectedBodyHash sha b)"
  using hexEncode_chars[of "CHR 0x0A" "sha b"] by (auto simp: expectedBodyHash_def byteIn_def byteval_def)

text \<open>The text whose keyed hash a request must carry.\<close>

definition signedText :: "(string \<Rightarrow> string) \<Rightarrow> Request \<Rightarrow> string \<Rightarrow> string option" where
  "signedText sha r body =
     (case (singleHeader r ''X-CK-Timestamp'', singleHeader r ''X-CK-Nonce'') of
        (Some tsStr, Some nonce) \<Rightarrow>
          map_option (\<lambda>ts. signPayload (rq_Method r) (signedPathOf r) ts nonce (expectedBodyHash sha body)) (parseInt64 tsStr)
      | _ \<Rightarrow> None)"

text \<open>C8: Two accepted requests that carry the same signature under the same secret have signed texts with the same
  keyed hash, and these two texts are the same only if the requests agree in method, signed path, timestamp,
  nonce and body digest.  So a signature is good for one such combination, unless the keyed hash of the two
  different texts collides.\<close>

theorem signature_binds_request:
  assumes "fst (verifyTokenBody mac sha dec cfg clock r body db) = Inr t"
    and "fst (verifyTokenBody mac sha dec cfg' clock' r' body' db') = Inr t'"
    and "to_Secret t = to_Secret t'"
    and sig: "singleHeader r ''X-CK-Signature'' = singleHeader r' ''X-CK-Signature''"
    and "CHR 0x0A \<notin> set (rq_Method r)" "CHR 0x0A \<notin> set (rq_Method r')"
  shows "\<exists>p p'. signedText sha r body = Some p \<and> signedText sha r' body' = Some p' \<and>
     mac p (to_Secret t) = mac p' (to_Secret t) \<and>
     (p = p' \<longleftrightarrow>
        rq_Method r = rq_Method r' \<and> signedPathOf r = signedPathOf r'
        \<and> map_option parseInt64 (singleHeader r ''X-CK-Timestamp'')
            = map_option parseInt64 (singleHeader r' ''X-CK-Timestamp'')
        \<and> singleHeader r ''X-CK-Nonce'' = singleHeader r' ''X-CK-Nonce''
        \<and> expectedBodyHash sha body = expectedBodyHash sha body')"
proof -
  obtain tid tsStr nonce bodyHash sg ts where a:
    "authHeaders r body = Some (tid, tsStr, nonce, bodyHash, sg)" "parseInt64 tsStr = Some ts"
    "toLowerASCII sg = Sign mac (rq_Method r) (signedPathOf r) ts nonce (expectedBodyHash sha body) (to_Secret t)"
    "validHex nonce 32"
    using assms(1) by (rule accepted_signature)
  obtain tid' tsStr' nonce' bodyHash' sg' ts' where b:
    "authHeaders r' body' = Some (tid', tsStr', nonce', bodyHash', sg')" "parseInt64 tsStr' = Some ts'"
    "toLowerASCII sg' = Sign mac (rq_Method r') (signedPathOf r') ts' nonce' (expectedBodyHash sha body') (to_Secret t')"
    "validHex nonce' 32"
    using assms(2) by (rule accepted_signature)
  have hdr: "singleHeader r ''X-CK-Timestamp'' = Some tsStr" "singleHeader r ''X-CK-Nonce'' = Some nonce"
    "singleHeader r' ''X-CK-Timestamp'' = Some tsStr'" "singleHeader r' ''X-CK-Nonce'' = Some nonce'" "sg = sg'"
    using a(1) b(1) sig by (simp_all add: authHeaders_def split: option.splits if_splits)
  let ?p = "signPayload (rq_Method r) (signedPathOf r) ts nonce (expectedBodyHash sha body)"
  let ?p' = "signPayload (rq_Method r') (signedPathOf r') ts' nonce' (expectedBodyHash sha body')"
  have "signedText sha r body = Some ?p" "signedText sha r' body' = Some ?p'"
    using a(2) b(2) hdr by (simp_all add: signedText_def)
  moreover have "mac ?p (to_Secret t) = mac ?p' (to_Secret t)"
    using a(3) b(3) assms(3) unfolding hdr(5) Sign_def hmacHex_def by simp
  ultimately show ?thesis
    using signPayload_inject[OF assms(5,6) validHex_no_newline[OF a(4)] validHex_no_newline[OF b(4)]
        expectedBodyHash_no_newline expectedBodyHash_no_newline,
        of "signedPathOf r" ts sha body "signedPathOf r'" ts' sha body'] a(2) b(2) hdr
    by auto
qed

text \<open>The constant demo hash gives two different requests the same signature: their texts differ, and so do they.\<close>

theorem signature_binds_request_witness:
  "\<exists>p p'. signedText demoSha (demoRequest 5) [] = Some p \<and> signedText demoSha (demoRequest 6) [] = Some p' \<and>
     demoMac p (to_Secret demoToken) = demoMac p' (to_Secret demoToken) \<and>
     (p = p' \<longleftrightarrow>
        rq_Method (demoRequest 5) = rq_Method (demoRequest 6) \<and> signedPathOf (demoRequest 5) = signedPathOf (demoRequest 6)
        \<and> map_option parseInt64 (singleHeader (demoRequest 5) ''X-CK-Timestamp'')
            = map_option parseInt64 (singleHeader (demoRequest 6) ''X-CK-Timestamp'')
        \<and> singleHeader (demoRequest 5) ''X-CK-Nonce'' = singleHeader (demoRequest 6) ''X-CK-Nonce''
        \<and> expectedBodyHash demoSha [] = expectedBodyHash demoSha [])"
  by (rule signature_binds_request[OF
        demo_accepted[of 5 6 "\<lparr>ac_TimestampWindowSec = 300, ac_NonceTTLSec = 600\<rparr>"]
        demo_accepted[of 6 7 "\<lparr>ac_TimestampWindowSec = 300, ac_NonceTTLSec = 600\<rparr>"]])
    (simp_all add: demoRequest_def singleHeader_def requestHeader_def Sign_def hmacHex_def demoMac_def)

section \<open>Two limits\<close>

text \<open>
  With the default configuration the nonce lifetime equals the timestamp window, 300 seconds, so
  a request stamped in the future is accepted again once its nonce has expired.
\<close>

lemma demo_second_good:
  assumes "0 \<le> ts" "ts < 2 ^ 63" "\<bar>t1 - ts\<bar> \<le> ac_TimestampWindowSec acfg"
    "\<bar>t2 - ts\<bar> \<le> ac_TimestampWindowSec acfg" "t1 < t2 - ac_NonceTTLSec acfg"
  shows "goodAttempt demoDec acfg demoClient (atOnce t2) ts demoNonce (demoToken\<lparr>to_LastUsedAt := Some t1\<rparr>)
    (snd (verifyTokenBody demoMac demoSha demoDec acfg (atOnce t1) (demoRequest ts) [] demoTokenDb))"
proof -
  have first: "checkRequest demoMac demoSha demoDec acfg t1 (demoRequest ts) [] demoTokenDb
      = Some (''t1'', demoNonce, demoToken)"
    using checkRequest_sent[OF demo_good[OF assms(1-3)] demo_sizes _ demo_path demo_sent]
    by (simp add: bodyBytes_def demoClient_def)
  have db: "snd (verifyTokenBody demoMac demoSha demoDec acfg (atOnce t1) (demoRequest ts) [] demoTokenDb) =
      UpdateTokenUsage t1 ''t1'' (demoTokenDb\<lparr>db_nonces := [\<lparr>nc_Nonce = demoNonce, nc_CreatedAt = t1\<rparr>]\<rparr>)"
    unfolding verifyTokenBody_def AuthClock.select_convs first by (simp add: ConsumeNonce_def demoTokenDb_def emptyDb_def)
  have "validTokenID ''t1''" "validHex demoNonce 32"
    using demo_good[OF assms(1-3)] by (simp_all add: goodAttempt_def demoClient_def)
  then show ?thesis
    using assms unfolding db
    by (simp add: goodAttempt_def demoClient_def GetToken_def getTokenWithSecret_def demoTokenDb_def
        demoToken_def tokenOfRow_def demoDec_def orEmpty_def UpdateTokenUsage_def)
qed

text \<open>When the nonce lifetime is only the timestamp window, as in the default configuration, a
  request stamped 300 seconds ahead is accepted at 1000 and accepted again at 1301.\<close>

theorem default_ttl_replay:
  "let cfg = \<lparr>ac_TimestampWindowSec = 300, ac_NonceTTLSec = 300\<rparr>;
       first = verifyTokenBody demoMac demoSha demoDec cfg (atOnce 1000) (demoRequest 1300) [] demoTokenDb
   in fst first = Inr demoToken
      \<and> fst (verifyTokenBody demoMac demoSha demoDec cfg (atOnce 1301) (demoRequest 1300) [] (snd first))
          = Inr (demoToken\<lparr>to_LastUsedAt := Some 1000\<rparr>)"
  using demo_accepted[of 1300 1000 "\<lparr>ac_TimestampWindowSec = 300, ac_NonceTTLSec = 300\<rparr>"]
    verifyTokenBody_sent[OF demo_second_good[of 1300 1000 "\<lparr>ac_TimestampWindowSec = 300, ac_NonceTTLSec = 300\<rparr>" 1301]
        demo_sizes _ demo_path demo_sent]
  by (simp add: bodyBytes_def)

lemma signed_path_ambiguous:
  "signedPathOf (r\<lparr>rq_Path := p @ ''?'' @ q, rq_RawQuery := []\<rparr>)
     = signedPathOf (r\<lparr>rq_Path := p, rq_RawQuery := q\<rparr>) \<longleftrightarrow> q \<noteq> []"
  by (simp add: signedPathOf_def)

end
