(* ===== verification/Scheduler.thy ===== *)
theory Scheduler
  imports GoString Prelude
begin

text \<open>
  The reconciliation scheduler and the persistent worker of \<^verbatim>\<open>internal/scheduler\<close>: error classes
  (\<^verbatim>\<open>errors.go\<close>), one pass of the in-memory scheduler (\<^verbatim>\<open>scheduler.go\<close>), and the worker's
  configuration, candidate scan, lease renewal, job execution and claim loop (\<^verbatim>\<open>persistent.go\<close>).
  The store and the reconciler are arguments, as they are interfaces in the code.  Times and
  durations are nanoseconds.
\<close>

section \<open>Errors and their classes\<close>

text \<open>
  A Go error is its message and the nodes that \<^verbatim>\<open>errors.Is\<close> and \<^verbatim>\<open>errors.As\<close> visit, outermost
  first.  A node has for each interface the method's result, when it implements it.
\<close>

record ErrNode =
  en_Temporary :: "bool option"
  en_PermanentChallenge :: "bool option"
  en_Timeout :: "bool option"
  en_DNSTimeout :: "bool option"
  en_HTTPStatusCode :: "int option"
  en_StatusCode :: "int option"
  en_DeadlineExceeded :: bool
  en_Canceled :: bool

record GoError =
  ge_Message :: string
  ge_Chain :: "ErrNode list"

definition plainNode :: ErrNode where
  "plainNode = \<lparr>en_Temporary = None, en_PermanentChallenge = None, en_Timeout = None, en_DNSTimeout = None,
     en_HTTPStatusCode = None, en_StatusCode = None, en_DeadlineExceeded = False, en_Canceled = False\<rparr>"

text \<open>\<^verbatim>\<open>errors.New\<close>, and \<^verbatim>\<open>fmt.Errorf\<close> with \<^verbatim>\<open>%w\<close>.\<close>

definition errorsNew :: "string \<Rightarrow> GoError" where
  "errorsNew msg = \<lparr>ge_Message = msg, ge_Chain = [plainNode]\<rparr>"

definition wrapError :: "string \<Rightarrow> GoError \<Rightarrow> GoError" where
  "wrapError before e = \<lparr>ge_Message = before @ ge_Message e, ge_Chain = plainNode # ge_Chain e\<rparr>"

fun firstSome :: "('a \<Rightarrow> 'b option) \<Rightarrow> 'a list \<Rightarrow> 'b option" where
  "firstSome f [] = None"
| "firstSome f (x # xs) = (case f x of None \<Rightarrow> firstSome f xs | Some y \<Rightarrow> Some y)"

definition errorsAs :: "(ErrNode \<Rightarrow> 'b option) \<Rightarrow> GoError \<Rightarrow> 'b option" where
  "errorsAs f e = firstSome f (ge_Chain e)"

definition errorsIs :: "(ErrNode \<Rightarrow> bool) \<Rightarrow> GoError \<Rightarrow> bool" where
  "errorsIs p e = list_ex p (ge_Chain e)"

text \<open>
  \<^verbatim>\<open>context.DeadlineExceeded\<close> is itself a network error with both methods true;
  \<^verbatim>\<open>context.Canceled\<close> is a plain error.
\<close>

definition DeadlineExceeded :: GoError where
  "DeadlineExceeded = \<lparr>ge_Message = ''context deadline exceeded'',
     ge_Chain = [plainNode\<lparr>en_Temporary := Some True, en_Timeout := Some True, en_DeadlineExceeded := True\<rparr>]\<rparr>"

definition Canceled :: GoError where
  "Canceled = \<lparr>ge_Message = ''context canceled'', ge_Chain = [plainNode\<lparr>en_Canceled := True\<rparr>]\<rparr>"

datatype ErrorClass = ErrorTemporary | ErrorPermanentChallenge | ErrorPermanent

text \<open>The UTF-8 bytes of the two default messages.\<close>

definition temporaryMessage :: string where
  "temporaryMessage = map char_of ([0xE4, 0xB8, 0xB4, 0xE6, 0x97, 0xB6, 0xE9, 0x94, 0x99, 0xE8, 0xAF, 0xAF] :: nat list)"

definition challengeMessage :: string where
  "challengeMessage = map char_of ([0xE6, 0xB0, 0xB8, 0xE4, 0xB9, 0x85] :: nat list) @ '' challenge '' @
     map char_of ([0xE9, 0x94, 0x99, 0xE8, 0xAF, 0xAF] :: nat list)"

definition TemporaryError :: "GoError option \<Rightarrow> GoError" where
  "TemporaryError err =
     \<lparr>ge_Message = (case err of None \<Rightarrow> temporaryMessage | Some e \<Rightarrow> ge_Message e),
      ge_Chain = plainNode\<lparr>en_Temporary := Some True\<rparr> # (case err of None \<Rightarrow> [] | Some e \<Rightarrow> ge_Chain e)\<rparr>"

definition PermanentChallengeError :: "GoError option \<Rightarrow> GoError" where
  "PermanentChallengeError err =
     \<lparr>ge_Message = (case err of None \<Rightarrow> challengeMessage | Some e \<Rightarrow> ge_Message e),
      ge_Chain = plainNode\<lparr>en_PermanentChallenge := Some True\<rparr> # (case err of None \<Rightarrow> [] | Some e \<Rightarrow> ge_Chain e)\<rparr>"

text \<open>\<open>statusText\<close> stands for \<^verbatim>\<open>http.StatusText\<close>.\<close>

definition HTTPError :: "(int \<Rightarrow> string) \<Rightarrow> int \<Rightarrow> GoError option \<Rightarrow> GoError" where
  "HTTPError statusText code err =
     \<lparr>ge_Message = (case err of Some e \<Rightarrow> ge_Message e | None \<Rightarrow> statusText code),
      ge_Chain = plainNode\<lparr>en_HTTPStatusCode := Some code\<rparr> # (case err of None \<Rightarrow> [] | Some e \<Rightarrow> ge_Chain e)\<rparr>"

definition temporaryHTTPStatus :: "int \<Rightarrow> bool" where
  "temporaryHTTPStatus code = (code = 429 \<or> (code \<ge> 500 \<and> code \<le> 599))"

definition netErrorResult :: "ErrNode \<Rightarrow> bool option" where
  "netErrorResult n =
     (case (en_Timeout n, en_Temporary n) of (Some a, Some b) \<Rightarrow> Some (a \<or> b) | _ \<Rightarrow> None)"

definition ClassifyError :: "GoError option \<Rightarrow> ErrorClass" where
  "ClassifyError err =
     (case err of
        None \<Rightarrow> ErrorPermanent
      | Some e \<Rightarrow>
          if errorsAs en_PermanentChallenge e = Some True then ErrorPermanentChallenge
          else if errorsAs en_Temporary e = Some True then ErrorTemporary
          else if errorsIs en_DeadlineExceeded e then ErrorTemporary
          else if errorsAs en_DNSTimeout e = Some True then ErrorTemporary
          else if errorsAs netErrorResult e = Some True then ErrorTemporary
          else if (case errorsAs en_HTTPStatusCode e of None \<Rightarrow> False | Some c \<Rightarrow> temporaryHTTPStatus c)
          then ErrorTemporary
          else if (case errorsAs en_StatusCode e of None \<Rightarrow> False | Some c \<Rightarrow> temporaryHTTPStatus c)
          then ErrorTemporary
          else ErrorPermanent)"

section \<open>One pass of the scheduler\<close>

record Candidate =
  cd_Domain :: string
  cd_ChallengeMode :: string

record ReconcileResult =
  sr_Changed :: bool
  sr_Message :: string

record DomainResult =
  ds_Candidate :: Candidate
  ds_Result :: ReconcileResult
  ds_Skipped :: bool
  ds_Error :: "GoError option"

record Summary =
  su_Candidates :: nat
  su_Attempted :: nat
  su_Succeeded :: nat
  su_Failed :: nat
  su_Skipped :: nat
  su_Results :: "DomainResult list"

definition emptyResult :: ReconcileResult where
  "emptyResult = \<lparr>sr_Changed = False, sr_Message = []\<rparr>"

text \<open>The prefix of a failed domain's error, in UTF-8 bytes.\<close>

definition failurePrefix :: "string \<Rightarrow> string" where
  "failurePrefix domain = map char_of ([0xE5, 0x8D, 0x8F, 0xE8, 0xB0, 0x83, 0x20] :: nat list) @ domain @
     map char_of ([0x20, 0xE5, 0xA4, 0xB1, 0xE8, 0xB4, 0xA5, 0x3A, 0x20] :: nat list)"

text \<open>
  The loop of \<^verbatim>\<open>RunOnce\<close>: \<open>ctxErr\<close> is the context's state as each candidate is reached, and
  \<open>reconcile\<close> the worker.  The second component lists the failures that are joined.
\<close>

fun runCandidates ::
  "('s \<Rightarrow> GoError option) \<Rightarrow> (string \<Rightarrow> 's \<Rightarrow> (ReconcileResult \<times> GoError option) \<times> 's) \<Rightarrow> Candidate list
     \<Rightarrow> Summary \<Rightarrow> GoError list \<Rightarrow> 's \<Rightarrow> Summary \<times> GoError list \<times> 's" where
  "runCandidates ctxErr reconcile [] sm errs s = (sm, errs, s)"
| "runCandidates ctxErr reconcile (c # cs) sm errs s =
     (if cd_ChallengeMode c = ''dns_manual'' then
        runCandidates ctxErr reconcile cs
          (sm\<lparr>su_Skipped := su_Skipped sm + 1,
               su_Results := su_Results sm @
                 [\<lparr>ds_Candidate = c, ds_Result = emptyResult, ds_Skipped = True, ds_Error = None\<rparr>]\<rparr>) errs s
      else case ctxErr s of
        Some e \<Rightarrow> (sm, errs @ [e], s)
      | None \<Rightarrow>
          let ((result, err), s') = reconcile (cd_Domain c) s;
              sm1 = sm\<lparr>su_Attempted := su_Attempted sm + 1,
                         su_Results := su_Results sm @
                           [\<lparr>ds_Candidate = c, ds_Result = result, ds_Skipped = False, ds_Error = err\<rparr>]\<rparr>
          in case err of
               Some e \<Rightarrow> runCandidates ctxErr reconcile cs (sm1\<lparr>su_Failed := su_Failed sm1 + 1\<rparr>)
                           (errs @ [wrapError (failurePrefix (cd_Domain c)) e]) s'
             | None \<Rightarrow> runCandidates ctxErr reconcile cs (sm1\<lparr>su_Succeeded := su_Succeeded sm1 + 1\<rparr>) errs s')"

definition emptySummary :: Summary where
  "emptySummary = \<lparr>su_Candidates = 0, su_Attempted = 0, su_Succeeded = 0, su_Failed = 0, su_Skipped = 0,
     su_Results = []\<rparr>"

datatype RunError = ErrRunInProgress | ErrNoWorker | ListFailed GoError | Failures "GoError list"

text \<open>\<open>worker\<close> is \<^verbatim>\<open>nil\<close> or its listing and its reconciler; \<open>running\<close> is the flag other passes set.\<close>

definition RunOnce ::
  "bool \<Rightarrow> ('s \<Rightarrow> GoError option)
     \<Rightarrow> (('s \<Rightarrow> (GoError + Candidate list) \<times> 's)
          \<times> (string \<Rightarrow> 's \<Rightarrow> (ReconcileResult \<times> GoError option) \<times> 's)) option
     \<Rightarrow> 's \<Rightarrow> Summary \<times> RunError option \<times> 's" where
  "RunOnce running ctxErr worker s =
     (if running then (emptySummary, Some ErrRunInProgress, s)
      else case worker of
        None \<Rightarrow> (emptySummary, Some ErrNoWorker, s)
      | Some (listCandidates, reconcile) \<Rightarrow>
          (case listCandidates s of
             (Inl e, s') \<Rightarrow> (emptySummary, Some (ListFailed e), s')
           | (Inr candidates, s') \<Rightarrow>
               let (sm, errs, s'') = runCandidates ctxErr reconcile candidates
                     (emptySummary\<lparr>su_Candidates := length candidates\<rparr>) [] s'
               in (sm, (if errs = [] then None else Some (Failures errs)), s'')))"

text \<open>
  \<open>offset\<close> is the random offset, which the code draws from \<open>[-jitter, jitter]\<close>.
\<close>

definition nextInterval :: "int \<Rightarrow> int \<Rightarrow> int \<Rightarrow> int" where
  "nextInterval interval jitter offset =
     (if jitter = 0 then interval
      else (let i = interval + offset in if i \<le> 0 then 1 else i))"

end
