(* ===== verification/Worker.thy ===== *)
theory Worker
  imports Scheduler
begin

text \<open>
  The persistent worker of \<^verbatim>\<open>internal/scheduler/persistent.go\<close>: its configuration, the scan of
  candidates, lease renewal, execution of a claimed job and the loop over due jobs.  The store is
  a record of the operations of the \<^verbatim>\<open>PersistentStore\<close> interface; its contract is the locale
  \<open>persistent_store\<close>.
\<close>

section \<open>Jobs and the store interface\<close>

abbreviation JobQueued :: string where "JobQueued \<equiv> ''queued''"
abbreviation JobRunning :: string where "JobRunning \<equiv> ''running''"
abbreviation JobRetrying :: string where "JobRetrying \<equiv> ''retrying''"
abbreviation JobSucceeded :: string where "JobSucceeded \<equiv> ''succeeded''"
abbreviation JobFailed :: string where "JobFailed \<equiv> ''failed''"

record Actor =
  at_ID :: string
  at_Kind :: string

record JobSpec =
  sp_Candidate :: Candidate
  sp_Actor :: Actor
  sp_IdempotencyKey :: string
  sp_MaxAttempts :: int
  sp_CreatedAt :: int

record Job =
  jb_ID :: string
  jb_Candidate :: Candidate
  jb_Actor :: Actor
  jb_IdempotencyKey :: string
  jb_Status :: string
  jb_Attempts :: int
  jb_MaxAttempts :: int
  jb_LeaseOwner :: string
  jb_LeaseVersion :: "64 word"

record ClaimRequest =
  cq_Owner :: string
  cq_Now :: int
  cq_LeaseUntil :: int

record LeaseRenewal =
  ln_ID :: string
  ln_Owner :: string
  ln_Now :: int
  ln_LeaseVersion :: "64 word"
  ln_LeaseUntil :: int

record JobUpdate =
  ju_ID :: string
  ju_Owner :: string
  ju_Now :: int
  ju_LeaseVersion :: "64 word"
  ju_Status :: string
  ju_AvailableAt :: "int option"
  ju_LastError :: string
  ju_Result :: ReconcileResult

record SkipRecord =
  sk_Candidate :: Candidate
  sk_Actor :: Actor
  sk_CreatedAt :: int

record 's PersistentStore =
  ps_ListCandidates :: "'s \<Rightarrow> (GoError + Candidate list) \<times> 's"
  ps_CreateJob :: "JobSpec \<Rightarrow> 's \<Rightarrow> (GoError + Job \<times> bool) \<times> 's"
  ps_ClaimJob :: "ClaimRequest \<Rightarrow> 's \<Rightarrow> (GoError + Job option) \<times> 's"
  ps_RenewLease :: "LeaseRenewal \<Rightarrow> 's \<Rightarrow> (GoError + 64 word \<times> bool) \<times> 's"
  ps_UpdateJob :: "JobUpdate \<Rightarrow> 's \<Rightarrow> (GoError + bool) \<times> 's"
  ps_RecordSkippedCandidate :: "SkipRecord \<Rightarrow> 's \<Rightarrow> GoError option \<times> 's"

section \<open>Configuration\<close>

record PersistentConfig =
  pc_Interval :: int
  pc_Jitter :: int
  pc_PollInterval :: int
  pc_LeaseDuration :: int
  pc_RenewInterval :: int
  pc_BackoffInitial :: int
  pc_BackoffMax :: int
  pc_MaxAttempts :: int
  pc_Concurrency :: int
  pc_Owner :: string
  pc_Actor :: Actor

abbreviation defaultInterval :: int where "defaultInterval \<equiv> 43200000000000"
abbreviation defaultPollInterval :: int where "defaultPollInterval \<equiv> 5000000000"
abbreviation defaultLeaseDuration :: int where "defaultLeaseDuration \<equiv> 60000000000"
abbreviation defaultBackoffInitial :: int where "defaultBackoffInitial \<equiv> 30000000000"
abbreviation defaultBackoffMax :: int where "defaultBackoffMax \<equiv> 1800000000000"
abbreviation defaultWorkerAttempts :: int where "defaultWorkerAttempts \<equiv> 5"

text \<open>The host name, process ID and sequence number are arguments.\<close>

definition defaultLeaseOwner :: "string option \<Rightarrow> int \<Rightarrow> int \<Rightarrow> string" where
  "defaultLeaseOwner hostname pid seqNo =
     (case hostname of None \<Rightarrow> ''unknown-host'' | Some h \<Rightarrow> if h = [] then ''unknown-host'' else h)
       @ '':'' @ showInt pid @ '':'' @ showInt seqNo"

definition positiveOr :: "int \<Rightarrow> int \<Rightarrow> int" where
  "positiveOr x fallback = (if x \<le> 0 then fallback else x)"

text \<open>The guards of the constructor in order; a later one reads the values the earlier ones set.\<close>

definition NewPersistentWorker :: "string \<Rightarrow> PersistentConfig \<Rightarrow> PersistentConfig" where
  "NewPersistentWorker owner config =
     (let lease = positiveOr (pc_LeaseDuration config) defaultLeaseDuration;
          renew = (if pc_RenewInterval config \<le> 0 \<or> pc_RenewInterval config \<ge> lease
                   then positiveOr (lease div 3) 1 else pc_RenewInterval config);
          initial = positiveOr (pc_BackoffInitial config) defaultBackoffInitial;
          limit = positiveOr (pc_BackoffMax config) defaultBackoffMax
      in \<lparr>pc_Interval = positiveOr (pc_Interval config) defaultInterval,
          pc_Jitter = (if pc_Jitter config < 0 then 0 else pc_Jitter config),
          pc_PollInterval = positiveOr (pc_PollInterval config) defaultPollInterval,
          pc_LeaseDuration = lease, pc_RenewInterval = renew,
          pc_BackoffInitial = initial, pc_BackoffMax = (if limit < initial then initial else limit),
          pc_MaxAttempts = positiveOr (pc_MaxAttempts config) defaultWorkerAttempts,
          pc_Concurrency = positiveOr (pc_Concurrency config) 1,
          pc_Owner = (if pc_Owner config = [] then owner else pc_Owner config),
          pc_Actor = (if at_ID (pc_Actor config) = []
                      then \<lparr>at_ID = ''certificate-scheduler'', at_Kind = ''system''\<rparr> else pc_Actor config)\<rparr>)"

section \<open>Backoff\<close>

text \<open>A \<^verbatim>\<open>time.Duration\<close> is a 64-bit signed integer; \<open>int64\<close> is its wrap-around.\<close>

definition int64 :: "int \<Rightarrow> int" where
  "int64 x = sint (word_of_int x :: 64 word)"

fun backoffLoop :: "int \<Rightarrow> nat \<Rightarrow> int \<Rightarrow> int" where
  "backoffLoop limit 0 delay = (if delay > limit then limit else delay)"
| "backoffLoop limit (Suc n) delay =
     (if delay \<ge> limit div 2 then limit else backoffLoop limit n (int64 (delay * 2)))"

definition backoff :: "PersistentConfig \<Rightarrow> int \<Rightarrow> int" where
  "backoff cfg attempt =
     (if attempt \<le> 1 then pc_BackoffInitial cfg
      else backoffLoop (pc_BackoffMax cfg) (nat (attempt - 1)) (pc_BackoffInitial cfg))"

definition scanIdempotencyKey :: "PersistentConfig \<Rightarrow> int \<Rightarrow> string" where
  "scanIdempotencyKey cfg now =
     (let window = (if now < 0 then - ((- now) div pc_Interval cfg) else now div pc_Interval cfg)
      in ''scheduler:'' @ showInt (pc_Interval cfg) @ '':'' @ showInt window)"

section \<open>The record of one cycle\<close>

datatype WorkerError =
    ScanFailed GoError
  | CtxError GoError
  | SkipFailed string GoError
  | CreateFailed string GoError
  | ClaimFailed GoError
  | RenewFailed string GoError
  | WillRetry string GoError
  | HasStopped string GoError
  | ReleaseFailed string GoError
  | ReleaseLost string
  | UpdateFailed string GoError
  | UpdateLost string

record PersistentSummary =
  pm_Scanned :: nat
  pm_Created :: nat
  pm_Skipped :: nat
  pm_Claimed :: nat
  pm_Succeeded :: nat
  pm_Retried :: nat
  pm_Failed :: nat
  pm_Released :: nat
  pm_Errors :: "WorkerError list"

definition emptyRecorder :: PersistentSummary where
  "emptyRecorder = \<lparr>pm_Scanned = 0, pm_Created = 0, pm_Skipped = 0, pm_Claimed = 0, pm_Succeeded = 0,
     pm_Retried = 0, pm_Failed = 0, pm_Released = 0, pm_Errors = []\<rparr>"

definition addError :: "WorkerError \<Rightarrow> PersistentSummary \<Rightarrow> PersistentSummary" where
  "addError e r = r\<lparr>pm_Errors := pm_Errors r @ [e]\<rparr>"

definition addScanned :: "nat \<Rightarrow> PersistentSummary \<Rightarrow> PersistentSummary" where
  "addScanned n r = r\<lparr>pm_Scanned := pm_Scanned r + n\<rparr>"

definition addCreated :: "PersistentSummary \<Rightarrow> PersistentSummary" where
  "addCreated r = r\<lparr>pm_Created := pm_Created r + 1\<rparr>"

definition addSkipped :: "PersistentSummary \<Rightarrow> PersistentSummary" where
  "addSkipped r = r\<lparr>pm_Skipped := pm_Skipped r + 1\<rparr>"

definition addClaimed :: "PersistentSummary \<Rightarrow> PersistentSummary" where
  "addClaimed r = r\<lparr>pm_Claimed := pm_Claimed r + 1\<rparr>"

definition addSucceeded :: "PersistentSummary \<Rightarrow> PersistentSummary" where
  "addSucceeded r = r\<lparr>pm_Succeeded := pm_Succeeded r + 1\<rparr>"

definition addRetried :: "PersistentSummary \<Rightarrow> PersistentSummary" where
  "addRetried r = r\<lparr>pm_Retried := pm_Retried r + 1\<rparr>"

definition addFailed :: "PersistentSummary \<Rightarrow> PersistentSummary" where
  "addFailed r = r\<lparr>pm_Failed := pm_Failed r + 1\<rparr>"

definition addReleased :: "PersistentSummary \<Rightarrow> PersistentSummary" where
  "addReleased r = r\<lparr>pm_Released := pm_Released r + 1\<rparr>"

lemmas recorder_defs = addError_def addScanned_def addCreated_def addSkipped_def addClaimed_def
  addSucceeded_def addRetried_def addFailed_def addReleased_def

section \<open>Scanning the candidates\<close>

text \<open>
  \<open>ctxErr\<close> is the context's state as each candidate is reached; \<open>clock\<close> is read once for the
  scan and once per skipped candidate, here at the same instant.
\<close>

fun scanLoop ::
  "'s PersistentStore \<Rightarrow> PersistentConfig \<Rightarrow> ('s \<Rightarrow> GoError option) \<Rightarrow> int \<Rightarrow> Candidate list
     \<Rightarrow> PersistentSummary \<Rightarrow> 's \<Rightarrow> PersistentSummary \<times> 's" where
  "scanLoop st cfg ctxErr now [] r s = (r, s)"
| "scanLoop st cfg ctxErr now (c # cs) r s =
     (case ctxErr s of
        Some e \<Rightarrow> (addError (CtxError e) r, s)
      | None \<Rightarrow>
          if cd_ChallengeMode c \<noteq> ''dns_api'' then
            (case ps_RecordSkippedCandidate st \<lparr>sk_Candidate = c, sk_Actor = pc_Actor cfg, sk_CreatedAt = now\<rparr> s of
               (err, s') \<Rightarrow> scanLoop st cfg ctxErr now cs
                  (addSkipped (case err of None \<Rightarrow> r | Some e \<Rightarrow> addError (SkipFailed (cd_Domain c) e) r)) s')
          else
            (case ps_CreateJob st
               \<lparr>sp_Candidate = c, sp_Actor = pc_Actor cfg, sp_IdempotencyKey = scanIdempotencyKey cfg now,
                sp_MaxAttempts = pc_MaxAttempts cfg, sp_CreatedAt = now\<rparr> s of
               (Inl e, s') \<Rightarrow> scanLoop st cfg ctxErr now cs (addError (CreateFailed (cd_Domain c) e) r) s'
             | (Inr (job, created), s') \<Rightarrow>
                 scanLoop st cfg ctxErr now cs (if created then addCreated r else r) s'))"

definition scanCandidates ::
  "'s PersistentStore \<Rightarrow> PersistentConfig \<Rightarrow> ('s \<Rightarrow> GoError option) \<Rightarrow> int
     \<Rightarrow> PersistentSummary \<Rightarrow> 's \<Rightarrow> PersistentSummary \<times> 's" where
  "scanCandidates st cfg ctxErr now r s =
     (case ps_ListCandidates st s of
        (Inl e, s') \<Rightarrow> (addError (ScanFailed e) r, s')
      | (Inr candidates, s') \<Rightarrow>
          scanLoop st cfg ctxErr now candidates (addScanned (length candidates) r) s')"

section \<open>Renewing a lease\<close>

text \<open>
  While a job runs, its renewal goroutine sees ticks of the clock, the end of the job's context,
  and whatever else changes the store meanwhile: the reconciler itself and other workers.  The
  end of the list is the closed stop channel.
\<close>

datatype 's RenewEvent = Tick int | CtxDone GoError | Meanwhile "'s \<Rightarrow> 's"

fun otherEffects :: "'s RenewEvent list \<Rightarrow> 's \<Rightarrow> 's" where
  "otherEffects [] s = s"
| "otherEffects (Meanwhile f # evs) s = otherEffects evs (f s)"
| "otherEffects (ev # evs) s = otherEffects evs s"

definition leaseLost :: GoError where
  "leaseLost = errorsNew (''lease '' @ map char_of ([0xE5, 0xB7, 0xB2, 0xE4, 0xB8, 0xA2, 0xE5, 0xA4, 0xB1] :: nat list))"

fun renewLease ::
  "'s PersistentStore \<Rightarrow> PersistentConfig \<Rightarrow> string \<Rightarrow> 64 word \<Rightarrow> 's RenewEvent list \<Rightarrow> 's
     \<Rightarrow> (64 word \<times> GoError option) \<times> 's" where
  "renewLease st cfg jid version [] s = ((version, None), s)"
| "renewLease st cfg jid version (Meanwhile f # evs) s = renewLease st cfg jid version evs (f s)"
| "renewLease st cfg jid version (CtxDone e # evs) s = ((version, Some e), otherEffects evs s)"
| "renewLease st cfg jid version (Tick now # evs) s =
     (case ps_RenewLease st
        \<lparr>ln_ID = jid, ln_Owner = pc_Owner cfg, ln_Now = now, ln_LeaseVersion = version,
         ln_LeaseUntil = now + pc_LeaseDuration cfg\<rparr> s of
        (Inl e, s') \<Rightarrow> ((version, Some e), otherEffects evs s')
      | (Inr (newVersion, ok), s') \<Rightarrow>
          if \<not> ok then ((version, Some leaseLost), otherEffects evs s')
          else renewLease st cfg jid newVersion evs s')"

section \<open>Executing a claimed job\<close>

text \<open>
  What one execution of a job meets: the events of its renewal, the reconciler's answer, the
  parent context's state after it, and the clock reading of the final update.
\<close>

record 's JobRun =
  jr_Events :: "'s RenewEvent list"
  jr_Outcome :: "GoError + ReconcileResult"
  jr_CtxErr :: "GoError option"
  jr_Now :: int

definition releaseUpdate :: "PersistentConfig \<Rightarrow> int \<Rightarrow> Job \<Rightarrow> GoError \<Rightarrow> JobUpdate" where
  "releaseUpdate cfg now job cause =
     \<lparr>ju_ID = jb_ID job, ju_Owner = pc_Owner cfg, ju_Now = now, ju_LeaseVersion = jb_LeaseVersion job,
      ju_Status = JobQueued, ju_AvailableAt = Some now, ju_LastError = ge_Message cause,
      ju_Result = emptyResult\<rparr>"

definition releaseCanceledJob ::
  "'s PersistentStore \<Rightarrow> PersistentConfig \<Rightarrow> int \<Rightarrow> Job \<Rightarrow> GoError \<Rightarrow> PersistentSummary \<Rightarrow> 's
     \<Rightarrow> PersistentSummary \<times> 's" where
  "releaseCanceledJob st cfg now job cause r s =
     (case ps_UpdateJob st (releaseUpdate cfg now job cause) s of
        (Inl e, s') \<Rightarrow> (addError (ReleaseFailed (jb_ID job) e) r, s')
      | (Inr ok, s') \<Rightarrow>
          if \<not> ok then (addError (ReleaseLost (jb_ID job)) r, s') else (addReleased r, s'))"

definition updateClaimedJob ::
  "'s PersistentStore \<Rightarrow> JobUpdate \<Rightarrow> (PersistentSummary \<Rightarrow> PersistentSummary)
     \<Rightarrow> PersistentSummary \<Rightarrow> 's \<Rightarrow> PersistentSummary \<times> 's" where
  "updateClaimedJob st update applied r s =
     (case ps_UpdateJob st update s of
        (Inl e, s') \<Rightarrow> (addError (UpdateFailed (ju_ID update) e) r, s')
      | (Inr ok, s') \<Rightarrow>
          if \<not> ok then (addError (UpdateLost (ju_ID update)) r, s') else (applied r, s'))"

text \<open>The update that reports a finished run, what it counts as, and the error it adds.\<close>

definition successUpdate :: "PersistentConfig \<Rightarrow> int \<Rightarrow> Job \<Rightarrow> ReconcileResult \<Rightarrow> JobUpdate" where
  "successUpdate cfg now job result =
     \<lparr>ju_ID = jb_ID job, ju_Owner = pc_Owner cfg, ju_Now = now, ju_LeaseVersion = jb_LeaseVersion job,
      ju_Status = JobSucceeded, ju_AvailableAt = None, ju_LastError = [], ju_Result = result\<rparr>"

definition retryUpdate :: "PersistentConfig \<Rightarrow> int \<Rightarrow> Job \<Rightarrow> GoError \<Rightarrow> JobUpdate" where
  "retryUpdate cfg now job e =
     \<lparr>ju_ID = jb_ID job, ju_Owner = pc_Owner cfg, ju_Now = now, ju_LeaseVersion = jb_LeaseVersion job,
      ju_Status = JobRetrying, ju_AvailableAt = Some (now + backoff cfg (jb_Attempts job)),
      ju_LastError = ge_Message e, ju_Result = emptyResult\<rparr>"

definition failureUpdate :: "PersistentConfig \<Rightarrow> int \<Rightarrow> Job \<Rightarrow> GoError \<Rightarrow> JobUpdate" where
  "failureUpdate cfg now job e =
     \<lparr>ju_ID = jb_ID job, ju_Owner = pc_Owner cfg, ju_Now = now, ju_LeaseVersion = jb_LeaseVersion job,
      ju_Status = JobFailed, ju_AvailableAt = None, ju_LastError = ge_Message e, ju_Result = emptyResult\<rparr>"

definition retryAllowed :: "PersistentConfig \<Rightarrow> Job \<Rightarrow> GoError \<Rightarrow> bool" where
  "retryAllowed cfg job e =
     (let maxAttempts = (if jb_MaxAttempts job \<le> 0 then pc_MaxAttempts cfg else jb_MaxAttempts job);
          cls = ClassifyError (Some e)
      in jb_Attempts job < maxAttempts \<and> (cls = ErrorTemporary \<or> cls = ErrorPermanentChallenge))"

definition executeJob ::
  "'s PersistentStore \<Rightarrow> PersistentConfig \<Rightarrow> 's JobRun \<Rightarrow> Job \<Rightarrow> PersistentSummary \<Rightarrow> 's
     \<Rightarrow> PersistentSummary \<times> 's" where
  "executeJob st cfg run job0 r s =
     (let ((version, renewalErr), s1) = renewLease st cfg (jb_ID job0) (jb_LeaseVersion job0) (jr_Events run) s;
          job = job0\<lparr>jb_LeaseVersion := version\<rparr>; now = jr_Now run
      in case jr_CtxErr run of
           Some e \<Rightarrow> (let (r', s') = releaseCanceledJob st cfg now job e r s1 in (addError (CtxError e) r', s'))
         | None \<Rightarrow>
             (case renewalErr of
                Some e \<Rightarrow> (addError (RenewFailed (jb_ID job) e) r, s1)
              | None \<Rightarrow>
                  (case jr_Outcome run of
                     Inr result \<Rightarrow> updateClaimedJob st (successUpdate cfg now job result) addSucceeded r s1
                   | Inl e \<Rightarrow>
                       if retryAllowed cfg job e then
                         (let (r', s') = updateClaimedJob st (retryUpdate cfg now job e) addRetried r s1
                          in (addError (WillRetry (cd_Domain (jb_Candidate job)) e) r', s'))
                       else
                         (let (r', s') = updateClaimedJob st (failureUpdate cfg now job e) addFailed r s1
                          in (addError (HasStopped (cd_Domain (jb_Candidate job)) e) r', s')))))"

section \<open>The loop over due jobs\<close>

text \<open>
  One iteration of a claim loop: the context's state, the clock, and what the claimed job's
  execution meets.  \<open>None\<close> is a loop that has not returned within the given iterations.
  The loop is that of one of the \<open>Concurrency\<close> goroutines; the server runs one.
\<close>

record 's Iteration =
  it_CtxErr :: "GoError option"
  it_Now :: int
  it_Run :: "'s JobRun"

fun processDueJobs ::
  "'s PersistentStore \<Rightarrow> PersistentConfig \<Rightarrow> 's Iteration list \<Rightarrow> PersistentSummary \<Rightarrow> 's
     \<Rightarrow> (PersistentSummary \<times> 's) option" where
  "processDueJobs st cfg [] r s = None"
| "processDueJobs st cfg (it # its) r s =
     (if it_CtxErr it \<noteq> None then Some (r, s)
      else case ps_ClaimJob st
             \<lparr>cq_Owner = pc_Owner cfg, cq_Now = it_Now it, cq_LeaseUntil = it_Now it + pc_LeaseDuration cfg\<rparr> s of
          (Inl e, s') \<Rightarrow> Some (addError (ClaimFailed e) r, s')
        | (Inr None, s') \<Rightarrow> Some (r, s')
        | (Inr (Some job), s') \<Rightarrow>
            (let (r', s'') = executeJob st cfg (it_Run it) job (addClaimed r) s'
             in processDueJobs st cfg its r' s''))"

text \<open>
  One cycle.  \<open>busy\<close> is the flag of a cycle in progress, the two booleans say whether the store
  and the reconciler are set, and \<open>afterScan\<close> is the context's state once the scan is over.
\<close>

datatype CycleError = CycleInProgress | CycleNoStore | CycleNoReconciler | CycleErrors "WorkerError list"

definition runCycle ::
  "bool \<Rightarrow> 's PersistentStore option \<Rightarrow> bool \<Rightarrow> PersistentConfig \<Rightarrow> bool \<Rightarrow> ('s \<Rightarrow> GoError option) \<Rightarrow> int
     \<Rightarrow> 's Iteration list \<Rightarrow> 's \<Rightarrow> ((PersistentSummary \<times> CycleError option) \<times> 's) option" where
  "runCycle busy store hasReconciler cfg scan ctxErr now its s =
     (if busy then Some ((emptyRecorder, Some CycleInProgress), s)
      else case store of
        None \<Rightarrow> Some ((emptyRecorder, Some CycleNoStore), s)
      | Some st \<Rightarrow>
          if \<not> hasReconciler then Some ((emptyRecorder, Some CycleNoReconciler), s)
          else
            let (r1, s1) = (if scan then scanCandidates st cfg ctxErr now emptyRecorder s else (emptyRecorder, s));
                finish = (\<lambda>(r, s'). ((r, (if pm_Errors r = [] then None else Some (CycleErrors (pm_Errors r)))), s'))
            in if ctxErr s1 = None then map_option finish (processDueJobs st cfg its r1 s1)
               else Some (finish (r1, s1)))"


section \<open>Configuration and backoff\<close>

text \<open>Whatever configuration is given, the worker runs with positive intervals, a renewal
  interval no longer than the lease (and shorter when the lease has two nanoseconds or more), an
  initial backoff of at most the maximum, and positive attempt and concurrency limits.\<close>

theorem worker_config_sane:
  "let c = NewPersistentWorker owner config in
     0 < pc_Interval c \<and> 0 \<le> pc_Jitter c \<and> 0 < pc_PollInterval c \<and> 0 < pc_LeaseDuration c
     \<and> 0 < pc_RenewInterval c \<and> pc_RenewInterval c \<le> pc_LeaseDuration c
     \<and> (pc_RenewInterval c < pc_LeaseDuration c \<or> pc_LeaseDuration c = 1)
     \<and> 0 < pc_BackoffInitial c \<and> pc_BackoffInitial c \<le> pc_BackoffMax c
     \<and> 0 < pc_MaxAttempts c \<and> 0 < pc_Concurrency c \<and> at_ID (pc_Actor c) \<noteq> []
     \<and> (pc_Owner c = [] \<longleftrightarrow> pc_Owner config = [] \<and> owner = [])"
proof -
  have pos: "0 < positiveOr x f \<longleftrightarrow> 0 < x \<or> 0 < f" for x f
    by (auto simp: positiveOr_def)
  have third: "0 < l \<Longrightarrow> positiveOr (l div 3) 1 \<le> l \<and> (positiveOr (l div 3) 1 < l \<or> l = 1)" for l :: int
    by (auto simp: positiveOr_def)
  have "0 < positiveOr (pc_LeaseDuration config) defaultLeaseDuration"
    by (simp add: pos)
  then show ?thesis
    using third[of "positiveOr (pc_LeaseDuration config) defaultLeaseDuration"]
    by (simp add: NewPersistentWorker_def Let_def pos)
qed

lemma int64_id: "- (2 ^ 63) \<le> x \<Longrightarrow> x < 2 ^ 63 \<Longrightarrow> int64 x = x"
  by (simp add: int64_def sint_sbintrunc' signed_take_bit_int_eq_self)

lemma backoffLoop_exact:
  assumes "0 < d" "d \<le> limit" "limit < 2 ^ 63"
  shows "backoffLoop limit n d = (if n > 0 \<and> limit div 2 \<le> d * 2 ^ (n - 1) then limit else d * 2 ^ n)"
  using assms
proof (induction n arbitrary: d)
  case (Suc n)
  show ?case
  proof (cases "limit div 2 \<le> d")
    case True
    have "d * 1 \<le> d * 2 ^ n"
      using Suc.prems by (intro mult_left_mono) simp_all
    then show ?thesis
      using True by simp
  next
    case False
    then have "int64 (d * 2) = d * 2" "0 < d * 2" "d * 2 \<le> limit"
      using Suc.prems by (auto intro!: int64_id)
    then show ?thesis
      using False Suc.IH[of "d * 2"] Suc.prems(3) by (cases n) (auto simp: mult_ac)
  qed
qed simp


lemma backoff_exact:
  assumes "0 < pc_BackoffInitial cfg" "pc_BackoffInitial cfg \<le> pc_BackoffMax cfg" "pc_BackoffMax cfg < 2 ^ 63"
  shows "backoff cfg n =
    (if 1 < n \<and> pc_BackoffMax cfg div 2 \<le> pc_BackoffInitial cfg * 2 ^ nat (n - 2) then pc_BackoffMax cfg
     else pc_BackoffInitial cfg * 2 ^ nat (n - 1))"
proof (cases "1 < n")
  case True
  then have "nat (n - 1) - 1 = nat (n - 2)" "0 < nat (n - 1)"
    by linarith+
  then show ?thesis
    using True backoffLoop_exact[OF assms, of "nat (n - 1)"] by (simp add: backoff_def)
qed (simp add: backoff_def)

lemma backoff_step: "1 < k \<Longrightarrow> i * 2 ^ nat (k - 1) = 2 * (i * 2 ^ nat (k - 2) :: int)"
proof -
  assume "1 < k"
  then have "nat (k - 1) = Suc (nat (k - 2))"
    by linarith
  then show ?thesis
    by simp
qed

lemma backoff_grow: "0 < i \<Longrightarrow> j \<le> k \<Longrightarrow> i * 2 ^ j \<le> (i * 2 ^ k :: int)" for j k :: nat
  by (simp add: power_increasing)

lemma backoff_le_max:
  assumes "0 < pc_BackoffInitial cfg" "pc_BackoffInitial cfg \<le> pc_BackoffMax cfg" "pc_BackoffMax cfg < 2 ^ 63"
  shows "backoff cfg k \<le> pc_BackoffMax cfg"
proof (cases "1 < k \<and> \<not> pc_BackoffMax cfg div 2 \<le> pc_BackoffInitial cfg * 2 ^ nat (k - 2)")
  case True
  then have "2 * (pc_BackoffInitial cfg * 2 ^ nat (k - 2)) \<le> pc_BackoffMax cfg"
    by linarith
  moreover have "backoff cfg k = pc_BackoffInitial cfg * 2 ^ nat (k - 1)"
    using True by (simp only: backoff_exact[OF assms]) simp
  ultimately show ?thesis
    using backoff_step[of k "pc_BackoffInitial cfg"] True by linarith
qed (use assms in \<open>auto simp: backoff_exact[OF assms]\<close>)

lemma backoff_mono:
  assumes "0 < pc_BackoffInitial cfg" "pc_BackoffInitial cfg \<le> pc_BackoffMax cfg" "pc_BackoffMax cfg < 2 ^ 63" and "m \<le> n"
  shows "backoff cfg m \<le> backoff cfg n"
proof (cases "1 < n \<and> pc_BackoffMax cfg div 2 \<le> pc_BackoffInitial cfg * 2 ^ nat (n - 2)")
  case True
  then show ?thesis
    using backoff_le_max[OF assms(1-3), of m] by (simp add: backoff_exact[OF assms(1-3), of n])
next
  case False
  have "pc_BackoffInitial cfg * 2 ^ nat (m - 2) \<le> pc_BackoffInitial cfg * 2 ^ nat (n - 2)"
    using assms(1,4) by (intro backoff_grow) simp_all
  then show ?thesis
    using False backoff_grow[OF assms(1), of "nat (m - 1)" "nat (n - 1)"] assms(4)
    by (auto simp: backoff_exact[OF assms(1-3)])
qed

lemma backoff_min:
  assumes "0 < pc_BackoffInitial cfg" "pc_BackoffInitial cfg \<le> pc_BackoffMax cfg" "pc_BackoffMax cfg < 2 ^ 63" and "even (pc_BackoffMax cfg)"
  shows "backoff cfg n = min (pc_BackoffMax cfg) (pc_BackoffInitial cfg * 2 ^ nat (n - 1))"
proof (cases "1 < n")
  case True
  have "pc_BackoffMax cfg = 2 * (pc_BackoffMax cfg div 2)"
    using assms(4) by simp
  then have "pc_BackoffMax cfg div 2 \<le> pc_BackoffInitial cfg * 2 ^ nat (n - 2)
      \<longleftrightarrow> pc_BackoffMax cfg \<le> pc_BackoffInitial cfg * 2 ^ nat (n - 1)"
    using backoff_step[OF True, of "pc_BackoffInitial cfg"] by linarith
  then show ?thesis
    using True by (simp only: backoff_exact[OF assms(1-3)] min_def) simp
next
  case False
  then show ?thesis
    using assms(2) by (simp add: backoff_exact[OF assms(1-3)])
qed

text \<open>The delay before a retry lies between the initial backoff and the maximum, never shrinks
  with the number of attempts, and is the initial backoff doubled per further attempt up to the
  maximum (exactly when the maximum is even, as the default is); the 64-bit doubling never
  overflows.\<close>

theorem backoff_doubles:
  assumes "0 < pc_BackoffInitial cfg" "pc_BackoffInitial cfg \<le> pc_BackoffMax cfg" "pc_BackoffMax cfg < 2 ^ 63"
  shows "pc_BackoffInitial cfg \<le> backoff cfg n \<and> backoff cfg n \<le> pc_BackoffMax cfg
    \<and> (m \<le> n \<longrightarrow> backoff cfg m \<le> backoff cfg n)
    \<and> (even (pc_BackoffMax cfg) \<longrightarrow>
         backoff cfg n = min (pc_BackoffMax cfg) (pc_BackoffInitial cfg * 2 ^ nat (n - 1)))"
proof -
  have "pc_BackoffInitial cfg \<le> backoff cfg n"
    using assms backoff_grow[OF assms(1), of 0] by (simp add: backoff_exact[OF assms])
  then show ?thesis
    using backoff_le_max[OF assms] backoff_mono[OF assms] backoff_min[OF assms] by blast
qed

definition demoWorker :: PersistentConfig where
  "demoWorker = NewPersistentWorker ''host:1:1''
     \<lparr>pc_Interval = 0, pc_Jitter = 0, pc_PollInterval = 0, pc_LeaseDuration = 0, pc_RenewInterval = 0,
      pc_BackoffInitial = 0, pc_BackoffMax = 0, pc_MaxAttempts = 0, pc_Concurrency = 0, pc_Owner = [],
      pc_Actor = \<lparr>at_ID = ''certificate-worker'', at_Kind = ''system''\<rparr>\<rparr>"

lemma demoWorker_fields [simp]:
  "pc_Interval demoWorker = defaultInterval" "pc_LeaseDuration demoWorker = defaultLeaseDuration"
  "pc_BackoffInitial demoWorker = defaultBackoffInitial" "pc_BackoffMax demoWorker = defaultBackoffMax"
  "pc_MaxAttempts demoWorker = defaultWorkerAttempts" "pc_Owner demoWorker = ''host:1:1''"
  "pc_Actor demoWorker = \<lparr>at_ID = ''certificate-worker'', at_Kind = ''system''\<rparr>"
  by (simp_all add: demoWorker_def NewPersistentWorker_def positiveOr_def)

theorem backoff_doubles_witness:
  "pc_BackoffInitial demoWorker \<le> backoff demoWorker 3 \<and> backoff demoWorker 3 \<le> pc_BackoffMax demoWorker
    \<and> backoff demoWorker 2 \<le> backoff demoWorker 3
    \<and> backoff demoWorker 3 = min (pc_BackoffMax demoWorker) (pc_BackoffInitial demoWorker * 2 ^ nat (3 - 1))"
  using backoff_doubles[of demoWorker 3 2] by simp

section \<open>Scan windows\<close>

lemma joined_numbers_inject:
  assumes "p @ showInt a @ CHR '':'' # showInt b = p @ showInt c @ CHR '':'' # showInt d"
  shows "a = c \<and> b = d"
proof -
  have plain: "CHR '':'' \<notin> set (showInt x)" for x
    using showInt_chars[of "CHR '':''" x] by (auto simp: isDigit_def byteIn_def byteval_def)
  have "splitOn (CHR '':'') (showInt a @ CHR '':'' # showInt b) = splitOn (CHR '':'') (showInt c @ CHR '':'' # showInt d)"
    using assms by simp
  then show ?thesis
    by (simp add: splitOn_append_sep splitOn_no_sep plain)
qed

text \<open>Two scans use the same idempotency key exactly when they have the same interval and fall in
  the same interval window.\<close>

theorem scan_key_window:
  assumes "0 < pc_Interval c" "0 < pc_Interval d" "0 \<le> t" "0 \<le> u"
  shows "scanIdempotencyKey c t = scanIdempotencyKey d u \<longleftrightarrow>
    pc_Interval c = pc_Interval d \<and> t div pc_Interval c = u div pc_Interval d"
  using assms joined_numbers_inject[of "''scheduler:''" "pc_Interval c" "t div pc_Interval c" "pc_Interval d" "u div pc_Interval d"]
  by (auto simp: scanIdempotencyKey_def)

theorem scan_key_window_witness:
  "scanIdempotencyKey demoWorker 86400000000001 = scanIdempotencyKey demoWorker 86400000000002 \<longleftrightarrow>
    pc_Interval demoWorker = pc_Interval demoWorker
    \<and> 86400000000001 div pc_Interval demoWorker = 86400000000002 div pc_Interval demoWorker"
  by (rule scan_key_window) simp_all

section \<open>Every claimed job is accounted for\<close>

fun isUnsettled :: "WorkerError \<Rightarrow> bool" where
  "isUnsettled (RenewFailed jid e) = True"
| "isUnsettled (ReleaseFailed jid e) = True"
| "isUnsettled (ReleaseLost jid) = True"
| "isUnsettled (UpdateFailed jid e) = True"
| "isUnsettled (UpdateLost jid) = True"
| "isUnsettled _ = False"

definition balance :: "PersistentSummary \<Rightarrow> int" where
  "balance r = int (pm_Claimed r) - int (pm_Succeeded r + pm_Retried r + pm_Failed r + pm_Released r
     + length (filter isUnsettled (pm_Errors r)))"

definition quiet :: "PersistentSummary \<Rightarrow> bool" where
  "quiet r \<longleftrightarrow> (pm_Errors r = [] \<longrightarrow> pm_Retried r = 0 \<and> pm_Failed r = 0 \<and> pm_Released r = 0)"

definition sameScan :: "PersistentSummary \<Rightarrow> PersistentSummary \<Rightarrow> bool" where
  "sameScan r r' \<longleftrightarrow> pm_Scanned r' = pm_Scanned r \<and> pm_Created r' = pm_Created r \<and> pm_Skipped r' = pm_Skipped r"

definition accounted :: "PersistentSummary \<Rightarrow> bool" where
  "accounted r \<longleftrightarrow> balance r = 0 \<and> quiet r"

lemma balance_add [simp]:
  "balance (addError e r) = balance r - (if isUnsettled e then 1 else 0)"
  "balance (addScanned n r) = balance r" "balance (addCreated r) = balance r"
  "balance (addSkipped r) = balance r" "balance (addClaimed r) = balance r + 1"
  "balance (addSucceeded r) = balance r - 1" "balance (addRetried r) = balance r - 1"
  "balance (addFailed r) = balance r - 1" "balance (addReleased r) = balance r - 1"
  by (simp_all add: balance_def recorder_defs)

lemma quiet_add [simp]:
  "quiet (addError e r)" "quiet (addScanned n r) = quiet r" "quiet (addCreated r) = quiet r"
  "quiet (addSkipped r) = quiet r" "quiet (addClaimed r) = quiet r" "quiet (addSucceeded r) = quiet r"
  by (simp_all add: quiet_def recorder_defs)

lemma sameScan_add [simp]:
  "sameScan r (addError e r') = sameScan r r'" "sameScan r (addClaimed r') = sameScan r r'"
  "sameScan r (addSucceeded r') = sameScan r r'" "sameScan r (addRetried r') = sameScan r r'"
  "sameScan r (addFailed r') = sameScan r r'" "sameScan r (addReleased r') = sameScan r r'" "sameScan r r"
  by (simp_all add: sameScan_def recorder_defs)

lemma updateClaimedJob_fst:
  obtains (failed) e where "fst (updateClaimedJob st u applied r s) = addError (UpdateFailed (ju_ID u) e) r"
  | (lost) "fst (updateClaimedJob st u applied r s) = addError (UpdateLost (ju_ID u)) r"
  | (ok) "fst (updateClaimedJob st u applied r s) = applied r"
proof (cases "ps_UpdateJob st u s")
  case (Pair res s')
  show ?thesis
  proof (cases res)
    case (Inl e)
    then show ?thesis
      using Pair by (intro failed[of e]) (simp add: updateClaimedJob_def)
  next
    case (Inr b)
    then show ?thesis
      using Pair lost ok by (cases b) (simp_all add: updateClaimedJob_def)
  qed
qed

lemma releaseCanceledJob_fst:
  obtains (failed) e where "fst (releaseCanceledJob st cfg now job c r s) = addError (ReleaseFailed (jb_ID job) e) r"
  | (lost) "fst (releaseCanceledJob st cfg now job c r s) = addError (ReleaseLost (jb_ID job)) r"
  | (ok) "fst (releaseCanceledJob st cfg now job c r s) = addReleased r"
proof (cases "ps_UpdateJob st (releaseUpdate cfg now job c) s")
  case (Pair res s')
  show ?thesis
  proof (cases res)
    case (Inl e)
    then show ?thesis
      using Pair by (intro failed[of e]) (simp add: releaseCanceledJob_def)
  next
    case (Inr b)
    then show ?thesis
      using Pair lost ok by (cases b) (simp_all add: releaseCanceledJob_def)
  qed
qed

text \<open>The paths of an execution, by what ended it.\<close>

lemma executeJob_cases:
  obtains (canceled) e job s1 where "jr_CtxErr run = Some e"
      "fst (executeJob st cfg run job0 r s) =
         addError (CtxError e) (fst (releaseCanceledJob st cfg (jr_Now run) job e r s1))"
  | (renewal) e where "fst (executeJob st cfg run job0 r s) = addError (RenewFailed (jb_ID job0) e) r"
  | (success) u s1 where "fst (executeJob st cfg run job0 r s) = fst (updateClaimedJob st u addSucceeded r s1)"
  | (failure) u s1 d e applied where "applied \<in> {addRetried, addFailed}" "d \<in> {WillRetry, HasStopped}"
      "fst (executeJob st cfg run job0 r s) =
         addError (d (cd_Domain (jb_Candidate job0)) e) (fst (updateClaimedJob st u applied r s1))"
proof -
  obtain version err s1 where rn:
    "renewLease st cfg (jb_ID job0) (jb_LeaseVersion job0) (jr_Events run) s = ((version, err), s1)"
    by (metis prod.exhaust)
  note ex = executeJob_def rn Let_def
  show ?thesis
  proof (cases "jr_CtxErr run")
    case (Some e)
    then show ?thesis
      by (intro canceled[OF Some]) (simp add: ex case_prod_beta)
  next
    case None
    show ?thesis
    proof (cases err)
      case (Some e)
      then show ?thesis
        using None by (intro renewal) (simp add: ex)
    next
      case live: None
      show ?thesis
      proof (cases "jr_Outcome run")
        case (Inl e)
        show ?thesis
        proof (cases "retryAllowed cfg (job0\<lparr>jb_LeaseVersion := version\<rparr>) e")
          case True
          then show ?thesis
            using None live Inl by (intro failure[of addRetried WillRetry]) (auto simp: ex case_prod_beta)
        next
          case False
          then show ?thesis
            using None live Inl by (intro failure[of addFailed HasStopped]) (auto simp: ex case_prod_beta)
        qed
      next
        case (Inr result)
        then show ?thesis
          using None live by (intro success) (auto simp: ex)
      qed
    qed
  qed
qed

lemma executeJob_accounted:
  assumes "accounted r"
  shows "accounted (fst (executeJob st cfg run job (addClaimed r) s))
     \<and> sameScan r (fst (executeJob st cfg run job (addClaimed r) s))"
proof (cases rule: executeJob_cases[of run st cfg job "addClaimed r" s])
  case (canceled e job' s1)
  then show ?thesis
    using assms by (cases rule: releaseCanceledJob_fst[of st cfg "jr_Now run" job' e "addClaimed r" s1])
      (simp_all add: accounted_def)
next
  case (success u s1)
  then show ?thesis
    using assms by (cases rule: updateClaimedJob_fst[of st u addSucceeded "addClaimed r" s1])
      (simp_all add: accounted_def)
next
  case (failure u s1 d e applied)
  have "\<not> isUnsettled (d x e)" for x
    using failure(2) by auto
  then show ?thesis
    using assms failure by (cases rule: updateClaimedJob_fst[of st u applied "addClaimed r" s1])
      (auto simp: accounted_def)
qed (use assms in \<open>simp add: accounted_def\<close>)

lemma processDueJobs_accounted:
  "processDueJobs st cfg its r s = Some (r', s') \<Longrightarrow> accounted r \<Longrightarrow> accounted r' \<and> sameScan r r'"
proof (induction its arbitrary: r s)
  case (Cons it its)
  show ?case
  proof (cases "it_CtxErr it = None")
    case True
    obtain res s1 where claim: "ps_ClaimJob st \<lparr>cq_Owner = pc_Owner cfg, cq_Now = it_Now it,
        cq_LeaseUntil = it_Now it + pc_LeaseDuration cfg\<rparr> s = (res, s1)"
      by fastforce
    show ?thesis
    proof (cases res)
      case (Inl e)
      then show ?thesis
        using Cons.prems True claim by (auto simp: accounted_def)
    next
      case (Inr found)
      show ?thesis
      proof (cases found)
        case None
        then show ?thesis
          using Cons.prems True claim Inr by (simp add: sameScan_def)
      next
        case (Some job)
        obtain r2 s2 where ex: "executeJob st cfg (it_Run it) job (addClaimed r) s1 = (r2, s2)"
          by fastforce
        then have "processDueJobs st cfg its r2 s2 = Some (r', s')"
          using Cons.prems True claim Inr Some by simp
        then show ?thesis
          using Cons.IH[of r2 s2] executeJob_accounted[OF Cons.prems(2), of st cfg "it_Run it" job s1] ex
          by (auto simp: sameScan_def)
      qed
    qed
  qed (use Cons.prems in \<open>auto simp: sameScan_def\<close>)
qed simp

lemma scan_fields [simp]:
  "pm_Scanned (addError e r) = pm_Scanned r" "pm_Created (addError e r) = pm_Created r"
  "pm_Skipped (addError e r) = pm_Skipped r" "pm_Scanned (addSkipped r) = pm_Scanned r"
  "pm_Created (addSkipped r) = pm_Created r" "pm_Skipped (addSkipped r) = pm_Skipped r + 1"
  "pm_Scanned (addCreated r) = pm_Scanned r" "pm_Created (addCreated r) = pm_Created r + 1"
  "pm_Skipped (addCreated r) = pm_Skipped r" "pm_Scanned (addScanned n r) = pm_Scanned r + n"
  "pm_Created (addScanned n r) = pm_Created r" "pm_Skipped (addScanned n r) = pm_Skipped r"
  by (simp_all add: recorder_defs)

definition scanOk :: "nat \<Rightarrow> PersistentSummary \<Rightarrow> PersistentSummary \<Rightarrow> bool" where
  "scanOk n r r' \<longleftrightarrow> accounted r' \<and> pm_Scanned r' = pm_Scanned r
     \<and> pm_Created r' + pm_Skipped r' \<le> pm_Created r + pm_Skipped r + n"

lemma scanOk_Suc:
  assumes "scanOk n r1 r'" "pm_Scanned r1 = pm_Scanned r" "pm_Created r1 + pm_Skipped r1 \<le> pm_Created r + pm_Skipped r + 1"
  shows "scanOk (Suc n) r r'"
  using assms by (simp add: scanOk_def)

lemma scanLoop_ok: "accounted r \<Longrightarrow> scanOk (length cs) r (fst (scanLoop st cfg ctxErr now cs r s))"
proof (induction cs arbitrary: r s)
  case (Cons c cs)
  have next': "scanOk (length (c # cs)) r (fst (scanLoop st cfg ctxErr now cs r1 s1))"
    if "accounted r1" "pm_Scanned r1 = pm_Scanned r" "pm_Created r1 + pm_Skipped r1 \<le> pm_Created r + pm_Skipped r + 1"
    for r1 s1
    using scanOk_Suc[OF Cons.IH[OF that(1)] that(2,3)] by simp
  have here: "accounted (addError e r)" if "\<not> isUnsettled e" for e
    using that Cons.prems by (simp add: accounted_def)
  show ?case
  proof (cases "ctxErr s")
    case (Some e)
    then show ?thesis
      using here[of "CtxError e"] by (simp add: scanOk_def)
  next
    case None
    show ?thesis
    proof (cases "cd_ChallengeMode c = ''dns_api''")
      case True
      let ?spec = "\<lparr>sp_Candidate = c, sp_Actor = pc_Actor cfg, sp_IdempotencyKey = scanIdempotencyKey cfg now,
          sp_MaxAttempts = pc_MaxAttempts cfg, sp_CreatedAt = now\<rparr>"
      obtain res s1 where create: "ps_CreateJob st ?spec s = (res, s1)"
        by fastforce
      show ?thesis
      proof (cases res)
        case (Inl e)
        then show ?thesis
          using None True create next'[OF here[of "CreateFailed (cd_Domain c) e"]] by simp
      next
        case (Inr x)
        then show ?thesis
          using None True create next'[of r] next'[of "addCreated r"] Cons.prems
          by (cases x) (auto simp: accounted_def)
      qed
    next
      case False
      obtain err s1 where skip:
        "ps_RecordSkippedCandidate st \<lparr>sk_Candidate = c, sk_Actor = pc_Actor cfg, sk_CreatedAt = now\<rparr> s = (err, s1)"
        by fastforce
      then show ?thesis
        using None False next'[of "addSkipped r"] next'[of "addSkipped (addError (SkipFailed (cd_Domain c) e) r)" for e]
          Cons.prems
        by (cases err) (auto simp: accounted_def)
    qed
  qed
qed (simp add: scanOk_def)

lemma emptyRecorder_accounted:
  "accounted emptyRecorder" "pm_Created emptyRecorder = 0" "pm_Skipped emptyRecorder = 0" "pm_Scanned emptyRecorder = 0"
  by (simp_all add: accounted_def balance_def quiet_def emptyRecorder_def)

lemma scanPhase_accounted:
  assumes "(if scan then scanCandidates st cfg ctxErr now emptyRecorder s else (emptyRecorder, s)) = (r1, s1)"
  shows "accounted r1 \<and> pm_Created r1 + pm_Skipped r1 \<le> pm_Scanned r1"
proof (cases scan)
  case True
  obtain res s0 where lst: "ps_ListCandidates st s = (res, s0)"
    by fastforce
  show ?thesis
  proof (cases res)
    case (Inl e)
    then show ?thesis
      using assms True lst emptyRecorder_accounted by (auto simp: scanCandidates_def accounted_def)
  next
    case (Inr cs)
    have "accounted (addScanned (length cs) emptyRecorder)"
      using emptyRecorder_accounted(1) by (simp add: accounted_def)
    then show ?thesis
      using scanLoop_ok[of "addScanned (length cs) emptyRecorder" cs st cfg ctxErr now s0] assms True lst Inr
        emptyRecorder_accounted
      by (simp add: scanCandidates_def scanOk_def)
  qed
qed (use assms emptyRecorder_accounted in auto)

lemma runCycle_accounted:
  assumes "runCycle busy store hasReconciler cfg scan ctxErr now its s = Some ((r, err), s')"
  shows "accounted r \<and> pm_Created r + pm_Skipped r \<le> pm_Scanned r \<and> (err = None \<longrightarrow> pm_Errors r = [])"
proof (cases "busy \<or> store = None \<or> \<not> hasReconciler")
  case True
  then have "r = emptyRecorder" "err \<noteq> None"
    using assms by (cases busy; cases store; cases hasReconciler; auto simp: runCycle_def)+
  then show ?thesis
    using emptyRecorder_accounted by auto
next
  case False
  then obtain st where st: "store = Some st" "\<not> busy" hasReconciler
    by auto
  obtain r1 s1 where first:
    "(if scan then scanCandidates st cfg ctxErr now emptyRecorder s else (emptyRecorder, s)) = (r1, s1)"
    by fastforce
  note r1 = scanPhase_accounted[OF first]
  show ?thesis
  proof (cases "ctxErr s1 = None")
    case True
    obtain r2 s2 where loop: "processDueJobs st cfg its r1 s1 = Some (r2, s2)"
        "r = r2" "err = (if pm_Errors r2 = [] then None else Some (CycleErrors (pm_Errors r2)))"
      using assms st first True by (auto simp: runCycle_def)
    then show ?thesis
      using processDueJobs_accounted[OF loop(1)] r1 by (auto simp: sameScan_def)
  next
    case False
    then show ?thesis
      using assms st first r1 by (auto simp: runCycle_def split: if_splits)
  qed
qed

text \<open>In every completed cycle each claimed job is counted exactly once, as succeeded, retried, failed
  or released, or by an error saying that its renewal, release or update failed; a cycle that
  reports no error has only successes; and at most the scanned candidates were created or
  skipped.\<close>

theorem cycle_accounts_for_jobs:
  assumes "runCycle busy store hasReconciler cfg scan ctxErr now its s = Some ((r, err), s')"
  shows "pm_Claimed r = pm_Succeeded r + pm_Retried r + pm_Failed r + pm_Released r
           + length (filter isUnsettled (pm_Errors r))
     \<and> (err = None \<longrightarrow> pm_Succeeded r = pm_Claimed r)
     \<and> pm_Created r + pm_Skipped r \<le> pm_Scanned r"
  using runCycle_accounted[OF assms] by (auto simp: accounted_def balance_def quiet_def)

text \<open>A store with one due job, counted down by its state.\<close>

definition demoWorkerJob :: Job where
  "demoWorkerJob = \<lparr>jb_ID = ''j1'', jb_Candidate = \<lparr>cd_Domain = ''a.example'', cd_ChallengeMode = ''dns_api''\<rparr>,
     jb_Actor = \<lparr>at_ID = ''certificate-worker'', at_Kind = ''system''\<rparr>, jb_IdempotencyKey = ''k'',
     jb_Status = JobRunning, jb_Attempts = 1, jb_MaxAttempts = 3, jb_LeaseOwner = ''host:1:1'', jb_LeaseVersion = 0\<rparr>"

definition demoStore :: "nat PersistentStore" where
  "demoStore =
     \<lparr>ps_ListCandidates = (\<lambda>s. (Inr [], s)),
      ps_CreateJob = (\<lambda>spec s. (Inl Canceled, s)),
      ps_ClaimJob = (\<lambda>req s. if s = 0 then (Inr None, s) else (Inr (Some demoWorkerJob), s - 1)),
      ps_RenewLease = (\<lambda>ren s. (Inr (ln_LeaseVersion ren + 1, True), s)),
      ps_UpdateJob = (\<lambda>upd s. (Inr True, s)),
      ps_RecordSkippedCandidate = (\<lambda>sk s. (None, s))\<rparr>"

definition demoIteration :: "nat Iteration" where
  "demoIteration = \<lparr>it_CtxErr = None, it_Now = 5,
     it_Run = \<lparr>jr_Events = [Tick 6], jr_Outcome = Inr emptyResult, jr_CtxErr = None, jr_Now = 7\<rparr>\<rparr>"

lemma demo_cycle:
  "runCycle False (Some demoStore) True demoWorker True (\<lambda>_. None) 5 [demoIteration, demoIteration] 1
     = Some ((emptyRecorder\<lparr>pm_Claimed := 1, pm_Succeeded := 1\<rparr>, None), 0)"
  by (simp add: runCycle_def scanCandidates_def demoStore_def demoIteration_def executeJob_def
      updateClaimedJob_def emptyRecorder_def recorder_defs demoWorkerJob_def successUpdate_def)

theorem cycle_accounts_for_jobs_witness:
  "\<exists>r. r = emptyRecorder\<lparr>pm_Claimed := 1, pm_Succeeded := 1\<rparr> \<and>
     pm_Claimed r = pm_Succeeded r + pm_Retried r + pm_Failed r + pm_Released r
       + length (filter isUnsettled (pm_Errors r))
     \<and> pm_Succeeded r = pm_Claimed r \<and> pm_Created r + pm_Skipped r \<le> pm_Scanned r"
  using cycle_accounts_for_jobs[OF demo_cycle] by blast

section \<open>What the worker needs of its store\<close>

text \<open>
  The contract the worker relies on: a created job stays known under its domain and key, creating
  it again changes nothing persistent, and every claim uses up one of the attempts that creation
  provided.  \<open>view\<close> is the persistent content of the store's state.
\<close>

locale persistent_store =
  fixes st :: "'s PersistentStore"
    and view :: "'s \<Rightarrow> 'v"
    and inv :: "'v \<Rightarrow> bool"
    and known :: "'v \<Rightarrow> string \<Rightarrow> string \<Rightarrow> bool"
    and budget :: "'v \<Rightarrow> nat"
  assumes create_inv: "inv (view s) \<Longrightarrow> inv (view (snd (ps_CreateJob st spec s)))"
    and create_known: "inv (view s) \<Longrightarrow> ps_CreateJob st spec s = (Inr x, s') \<Longrightarrow>
          known (view s') (cd_Domain (sp_Candidate spec)) (sp_IdempotencyKey spec)"
    and create_keeps: "inv (view s) \<Longrightarrow> known (view s) d k \<Longrightarrow> known (view (snd (ps_CreateJob st spec s))) d k"
    and create_noop: "inv (view s) \<Longrightarrow> known (view s) (cd_Domain (sp_Candidate spec)) (sp_IdempotencyKey spec) \<Longrightarrow>
          view (snd (ps_CreateJob st spec s)) = view s"
    and skip_noop: "view (snd (ps_RecordSkippedCandidate st sk s)) = view s"
    and claim_inv: "inv (view s) \<Longrightarrow> inv (view (snd (ps_ClaimJob st req s)))"
    and claim_spends: "inv (view s) \<Longrightarrow> ps_ClaimJob st req s = (Inr (Some job), s') \<Longrightarrow>
          budget (view s') < budget (view s)"
    and renew_inv: "inv (view s) \<Longrightarrow> inv (view (snd (ps_RenewLease st ren s)))"
    and renew_budget: "inv (view s) \<Longrightarrow> budget (view (snd (ps_RenewLease st ren s))) \<le> budget (view s)"
    and update_inv: "inv (view s) \<Longrightarrow> inv (view (snd (ps_UpdateJob st u s)))"
    and update_budget: "inv (view s) \<Longrightarrow> budget (view (snd (ps_UpdateJob st u s))) \<le> budget (view s)"
begin

lemma scanLoop_known:
  assumes "inv (view s)"
  shows "inv (view (snd (scanLoop st cfg ctxErr now cs r s))) \<and>
    (\<forall>d k. known (view s) d k \<longrightarrow> known (view (snd (scanLoop st cfg ctxErr now cs r s))) d k)"
  using assms
proof (induction cs arbitrary: r s)
  case (Cons c cs)
  let ?sk = "\<lparr>sk_Candidate = c, sk_Actor = pc_Actor cfg, sk_CreatedAt = now\<rparr>"
  let ?spec = "\<lparr>sp_Candidate = c, sp_Actor = pc_Actor cfg, sp_IdempotencyKey = scanIdempotencyKey cfg now,
      sp_MaxAttempts = pc_MaxAttempts cfg, sp_CreatedAt = now\<rparr>"
  have skip: "view (snd (ps_RecordSkippedCandidate st ?sk s)) = view s"
    by (rule skip_noop)
  show ?case
    using Cons.prems skip create_inv[OF Cons.prems, of ?spec] create_keeps[OF Cons.prems, of _ _ ?spec]
      Cons.IH[of "snd (ps_RecordSkippedCandidate st ?sk s)"] Cons.IH[of "snd (ps_CreateJob st ?spec s)"]
    by (cases "ctxErr s"; cases "ps_RecordSkippedCandidate st ?sk s"; cases "ps_CreateJob st ?spec s")
      (auto split: sum.splits)
qed simp

text \<open>A scan whose candidates are all known already leaves the store's content alone.\<close>

lemma scanLoop_noop:
  assumes "inv (view s)" "\<forall>c\<in>set cs. cd_ChallengeMode c = ''dns_api'' \<longrightarrow>
      known (view s) (cd_Domain c) (scanIdempotencyKey cfg now)"
  shows "view (snd (scanLoop st cfg ctxErr now cs r s)) = view s"
  using assms
proof (induction cs arbitrary: r s)
  case (Cons c cs)
  let ?sk = "\<lparr>sk_Candidate = c, sk_Actor = pc_Actor cfg, sk_CreatedAt = now\<rparr>"
  let ?spec = "\<lparr>sp_Candidate = c, sp_Actor = pc_Actor cfg, sp_IdempotencyKey = scanIdempotencyKey cfg now,
      sp_MaxAttempts = pc_MaxAttempts cfg, sp_CreatedAt = now\<rparr>"
  have skip: "view (snd (ps_RecordSkippedCandidate st ?sk s)) = view s"
    by (rule skip_noop)
  have noop: "cd_ChallengeMode c = ''dns_api'' \<Longrightarrow> view (snd (ps_CreateJob st ?spec s)) = view s"
    using create_noop[OF Cons.prems(1), of ?spec] Cons.prems(2) by simp
  show ?case
    using Cons.prems skip noop
      Cons.IH[of "snd (ps_RecordSkippedCandidate st ?sk s)"] Cons.IH[of "snd (ps_CreateJob st ?spec s)"]
    by (cases "ctxErr s"; cases "ps_RecordSkippedCandidate st ?sk s"; cases "ps_CreateJob st ?spec s")
      (auto split: sum.splits)
qed simp

lemma scanLoop_errors: "pm_Errors r \<noteq> [] \<Longrightarrow> pm_Errors (fst (scanLoop st cfg ctxErr now cs r s)) \<noteq> []"
proof (induction cs arbitrary: r s)
  case (Cons c cs)
  have keep: "pm_Errors (addError e r) \<noteq> []" "pm_Errors (addCreated r) \<noteq> []" "pm_Errors (addSkipped r) \<noteq> []"
    "pm_Errors (addSkipped (addError e r)) \<noteq> []" for e
    using Cons.prems by (simp_all add: recorder_defs)
  obtain err s1 where skip: "ps_RecordSkippedCandidate st
      \<lparr>sk_Candidate = c, sk_Actor = pc_Actor cfg, sk_CreatedAt = now\<rparr> s = (err, s1)"
    by fastforce
  obtain res s2 where create: "ps_CreateJob st
      \<lparr>sp_Candidate = c, sp_Actor = pc_Actor cfg, sp_IdempotencyKey = scanIdempotencyKey cfg now,
       sp_MaxAttempts = pc_MaxAttempts cfg, sp_CreatedAt = now\<rparr> s = (res, s2)"
    by fastforce
  show ?case
  proof (cases "ctxErr s")
    case (Some e)
    then show ?thesis
      using keep by simp
  next
    case None
    show ?thesis
    proof (cases "cd_ChallengeMode c = ''dns_api''")
      case True
      then show ?thesis
        using None create Cons.IH keep Cons.prems by (cases res) auto
    next
      case False
      then show ?thesis
        using None skip Cons.IH keep by (cases err) auto
    qed
  qed
qed simp

text \<open>A scan without errors leaves every schedulable candidate known.\<close>

lemma scanLoop_makes_known:
  assumes "inv (view s)" "pm_Errors (fst (scanLoop st cfg ctxErr now cs r s)) = []"
    "c \<in> set cs" "cd_ChallengeMode c = ''dns_api''"
  shows "known (view (snd (scanLoop st cfg ctxErr now cs r s))) (cd_Domain c) (scanIdempotencyKey cfg now)"
  using assms(1-3)
proof (induction cs arbitrary: r s)
  case (Cons c0 cs)
  let ?sk = "\<lparr>sk_Candidate = c0, sk_Actor = pc_Actor cfg, sk_CreatedAt = now\<rparr>"
  let ?spec = "\<lparr>sp_Candidate = c0, sp_Actor = pc_Actor cfg, sp_IdempotencyKey = scanIdempotencyKey cfg now,
      sp_MaxAttempts = pc_MaxAttempts cfg, sp_CreatedAt = now\<rparr>"
  have "ctxErr s = None"
    using Cons.prems(2) by (cases "ctxErr s") (auto simp: recorder_defs)
  show ?case
  proof (cases "cd_ChallengeMode c0 = ''dns_api''")
    case True
    obtain res s1 where create: "ps_CreateJob st ?spec s = (res, s1)"
      by fastforce
    obtain job made where ok: "res = Inr (job, made)"
    proof (cases res)
      case (Inl e)
      then show ?thesis
        using Cons.prems(2) scanLoop_errors[of "addError (CreateFailed (cd_Domain c0) e) r" cfg ctxErr now cs s1]
          True create \<open>ctxErr s = None\<close> by (simp add: recorder_defs)
    qed (use that in auto)
    let ?r1 = "if made then addCreated r else r"
    have step: "scanLoop st cfg ctxErr now (c0 # cs) r s = scanLoop st cfg ctxErr now cs ?r1 s1"
      using True create ok \<open>ctxErr s = None\<close> by simp
    have s1: "inv (view s1)" "known (view s1) (cd_Domain c0) (scanIdempotencyKey cfg now)"
      using create_inv[OF Cons.prems(1), of ?spec] create_known[OF Cons.prems(1), of ?spec] create ok by auto
    show ?thesis
      using Cons.IH[OF s1(1), of ?r1] Cons.prems(2,3) scanLoop_known[OF s1(1), of cfg ctxErr now cs ?r1] s1(2)
      unfolding step by auto
  next
    case False
    obtain err s1 where skip: "ps_RecordSkippedCandidate st ?sk s = (err, s1)"
      by fastforce
    let ?r1 = "addSkipped (case err of None \<Rightarrow> r | Some e \<Rightarrow> addError (SkipFailed (cd_Domain c0) e) r)"
    have step: "scanLoop st cfg ctxErr now (c0 # cs) r s = scanLoop st cfg ctxErr now cs ?r1 s1"
      using False skip \<open>ctxErr s = None\<close> by simp
    have "inv (view s1)"
      using skip_noop[of ?sk s] skip Cons.prems(1) by simp
    then show ?thesis
      using Cons.IH[of s1 ?r1] Cons.prems(2,3) assms(4) False unfolding step by auto
  qed
qed simp

definition quietEvents :: "'s RenewEvent list \<Rightarrow> bool" where
  "quietEvents evs \<longleftrightarrow> (\<forall>f. Meanwhile f \<in> set evs \<longrightarrow>
     (\<forall>s. inv (view s) \<longrightarrow> inv (view (f s)) \<and> budget (view (f s)) \<le> budget (view s)))"

lemma otherEffects_budget:
  "quietEvents evs \<Longrightarrow> inv (view s) \<Longrightarrow>
     inv (view (otherEffects evs s)) \<and> budget (view (otherEffects evs s)) \<le> budget (view s)"
proof (induction evs s rule: otherEffects.induct)
  case (2 f evs s)
  have "inv (view (f s))" "budget (view (f s)) \<le> budget (view s)" "quietEvents evs"
    using 2(2,3) by (auto simp: quietEvents_def)
  then show ?case
    using 2(1) by (auto intro: order_trans)
qed (simp_all add: quietEvents_def)

lemma renewLease_budget:
  "quietEvents evs \<Longrightarrow> inv (view s) \<Longrightarrow>
     inv (view (snd (renewLease st cfg jid v evs s))) \<and>
     budget (view (snd (renewLease st cfg jid v evs s))) \<le> budget (view s)"
proof (induction evs arbitrary: v s)
  case (Cons ev evs)
  have q: "quietEvents evs"
    using Cons.prems(1) by (simp add: quietEvents_def)
  show ?case
  proof (cases ev)
    case (Tick now)
    let ?ren = "\<lparr>ln_ID = jid, ln_Owner = pc_Owner cfg, ln_Now = now, ln_LeaseVersion = v,
         ln_LeaseUntil = now + pc_LeaseDuration cfg\<rparr>"
    obtain res s1 where rn: "ps_RenewLease st ?ren s = (res, s1)"
      by fastforce
    have s1: "inv (view s1)" "budget (view s1) \<le> budget (view s)"
      using renew_inv[OF Cons.prems(2), of ?ren] renew_budget[OF Cons.prems(2), of ?ren] rn by simp_all
    show ?thesis
      using Tick rn s1 otherEffects_budget[OF q s1(1)] Cons.IH[OF q s1(1)]
      by (auto split: sum.splits intro: order_trans)
  next
    case (CtxDone e)
    then show ?thesis
      using otherEffects_budget[OF q Cons.prems(2)] by simp
  next
    case (Meanwhile f)
    then have "inv (view (f s))" "budget (view (f s)) \<le> budget (view s)"
      using Cons.prems by (auto simp: quietEvents_def)
    then show ?thesis
      using Meanwhile Cons.IH[OF q, of "f s"] by (auto intro: order_trans)
  qed
qed simp

lemma executeJob_budget:
  assumes "quietEvents (jr_Events run)" "inv (view s)"
  shows "inv (view (snd (executeJob st cfg run job r s))) \<and>
     budget (view (snd (executeJob st cfg run job r s))) \<le> budget (view s)"
proof -
  obtain version err s1 where rn:
    "renewLease st cfg (jb_ID job) (jb_LeaseVersion job) (jr_Events run) s = ((version, err), s1)"
    by (metis prod.exhaust)
  have s1: "inv (view s1)" "budget (view s1) \<le> budget (view s)"
    using renewLease_budget[OF assms, of cfg "jb_ID job" "jb_LeaseVersion job"] rn by simp_all
  have upd: "inv (view (snd (ps_UpdateJob st u s1))) \<and> budget (view (snd (ps_UpdateJob st u s1))) \<le> budget (view s)" for u
    using update_inv[OF s1(1), of u] update_budget[OF s1(1), of u] s1(2) by auto
  have snds: "snd (updateClaimedJob st u applied r s1) = snd (ps_UpdateJob st u s1)"
    "snd (releaseCanceledJob st cfg now j e r s1) = snd (ps_UpdateJob st (releaseUpdate cfg now j e) s1)"
    for u applied now j e
    by (simp_all add: updateClaimedJob_def releaseCanceledJob_def case_prod_beta split: sum.split)
  have "snd (executeJob st cfg run job r s) = s1 \<or>
      (\<exists>u. snd (executeJob st cfg run job r s) = snd (ps_UpdateJob st u s1))"
    by (cases "jr_CtxErr run"; cases err; cases "jr_Outcome run")
      (auto simp: executeJob_def rn Let_def case_prod_beta snds)
  then show ?thesis
    using upd s1 by auto
qed

lemma dueJobs_return:
  assumes "inv (view s)" "budget (view s) < length its" "\<forall>it\<in>set its. quietEvents (jr_Events (it_Run it))"
  shows "processDueJobs st cfg its r s \<noteq> None"
  using assms
proof (induction its arbitrary: r s)
  case (Cons it its)
  let ?req = "\<lparr>cq_Owner = pc_Owner cfg, cq_Now = it_Now it, cq_LeaseUntil = it_Now it + pc_LeaseDuration cfg\<rparr>"
  obtain res s1 where claim: "ps_ClaimJob st ?req s = (res, s1)"
    by fastforce
  have inv1: "inv (view s1)"
    using claim_inv[OF Cons.prems(1), of ?req] claim by simp
  show ?case
  proof (cases "it_CtxErr it = None \<and> (\<exists>job. res = Inr (Some job))")
    case True
    then obtain job where job: "res = Inr (Some job)"
      by blast
    have less: "budget (view s1) < budget (view s)"
      using claim_spends[OF Cons.prems(1)] claim job by simp
    obtain r2 s2 where ex: "executeJob st cfg (it_Run it) job (addClaimed r) s1 = (r2, s2)"
      by fastforce
    have "inv (view s2)" "budget (view s2) \<le> budget (view s1)"
      using executeJob_budget[OF _ inv1, of "it_Run it" cfg job "addClaimed r"] ex Cons.prems(3) by simp_all
    then show ?thesis
      using Cons.IH[of s2 r2] Cons.prems less True claim job ex by auto
  next
    case False
    then show ?thesis
      using claim by (auto split: sum.splits option.splits)
  qed
qed simp

end

end
