(* ===== verification/Adapter.thy ===== *)
theory Adapter
  imports Worker StoreGenerations
begin

text \<open>
  \<^verbatim>\<open>persistentStoreAdapter\<close> of \<^verbatim>\<open>cmd/server/main.go\<close>: the job table of the store behind the
  worker's \<^verbatim>\<open>PersistentStore\<close> interface.  The worker's contract, the locale
  \<open>persistent_store\<close>, is interpreted on it, and the parts of the documented contract that the
  adapter does not keep are stated as theorems.
\<close>

section \<open>The world the adapter runs in\<close>

text \<open>The database, the clock in nanoseconds, and the supply of random identifiers.\<close>

record World =
  wd_db :: Db
  wd_clock :: int
  wd_ids :: "nat \<Rightarrow> string option"
  wd_used :: nat

definition unixNow :: "World \<Rightarrow> int" where
  "unixNow w = wd_clock w div 1000000000"

text \<open>The errors of the store reach the worker as plain errors; \<open>msg\<close> gives their texts.\<close>

definition storeError :: "(StoreError \<Rightarrow> string) \<Rightarrow> StoreError \<Rightarrow> GoError" where
  "storeError msg e = errorsNew (msg e)"

section \<open>The adapter\<close>

definition ListRenewalCandidates :: "Db \<Rightarrow> Candidate list" where
  "ListRenewalCandidates db =
     map (\<lambda>c. \<lparr>cd_Domain = ct_Domain c, cd_ChallengeMode = ct_ChallengeMode c\<rparr>) (ListCerts db)"

definition adapterJob :: "CertificateJob \<Rightarrow> Candidate \<Rightarrow> Actor \<Rightarrow> Job" where
  "adapterJob job candidate actor =
     \<lparr>jb_ID = cj_ID job, jb_Candidate = candidate, jb_Actor = actor,
      jb_IdempotencyKey = cj_IdempotencyKey job, jb_Status = cj_Status job, jb_Attempts = cj_Attempts job,
      jb_MaxAttempts = cj_MaxAttempts job, jb_LeaseOwner = cj_LeaseOwner job, jb_LeaseVersion = 0\<rparr>"

definition specJob :: "JobSpec \<Rightarrow> CertificateJob" where
  "specJob spec =
     \<lparr>cj_ID = [], cj_Domain = cd_Domain (sp_Candidate spec), cj_Operation = ''reconcile'',
      cj_IdempotencyKey = sp_IdempotencyKey spec, cj_Status = [], cj_Attempts = 0, cj_MaxAttempts = 0,
      cj_NextAttemptAt = None, cj_LeaseOwner = [], cj_LeaseUntil = None, cj_LastErrorCode = None,
      cj_LastErrorAt = None,
      cj_RequestedBy = (if at_ID (sp_Actor spec) \<noteq> [] then Some (at_ID (sp_Actor spec)) else None),
      cj_ErrorMessage = None, cj_CreatedAt = sp_CreatedAt spec div 1000000000, cj_UpdatedAt = 0,
      cj_StartedAt = None, cj_FinishedAt = None\<rparr>"

definition adapterCreateJob ::
  "(StoreError \<Rightarrow> string) \<Rightarrow> JobSpec \<Rightarrow> World \<Rightarrow> (GoError + Job \<times> bool) \<times> World" where
  "adapterCreateJob msg spec w =
     (let (r, db') = CreateCertificateJob (unixNow w) (wd_ids w (wd_used w)) (Some (specJob spec)) (wd_db w);
          w' = w\<lparr>wd_db := db', wd_used := wd_used w + 1\<rparr>
      in case r of
           Inl e \<Rightarrow> (Inl (storeError msg e), w')
         | Inr job \<Rightarrow> (Inr (adapterJob job (sp_Candidate spec) (sp_Actor spec),
                            cj_CreatedAt job = sp_CreatedAt spec div 1000000000), w'))"

definition adapterClaimJob ::
  "(StoreError \<Rightarrow> string) \<Rightarrow> ClaimRequest \<Rightarrow> World \<Rightarrow> (GoError + Job option) \<times> World" where
  "adapterClaimJob msg req w =
     (let (r, db') = Claim (unixNow w) (cq_Owner req) (cq_LeaseUntil req - cq_Now req) (wd_db w);
          w' = w\<lparr>wd_db := db'\<rparr>
      in case r of
           Inl e \<Rightarrow> (Inl (storeError msg e), w')
         | Inr None \<Rightarrow> (Inr None, w')
         | Inr (Some job) \<Rightarrow>
             let mode = (case GetCert (cj_Domain job) db' of
                           None \<Rightarrow> ''dns_api''
                         | Some c \<Rightarrow> if ct_ChallengeMode c \<noteq> [] then ct_ChallengeMode c else ''dns_api'')
             in (Inr (Some (adapterJob job \<lparr>cd_Domain = cj_Domain job, cd_ChallengeMode = mode\<rparr>
                   \<lparr>at_ID = ''certificate-worker'', at_Kind = ''system''\<rparr>)), w'))"

definition adapterRenewLease ::
  "(StoreError \<Rightarrow> string) \<Rightarrow> LeaseRenewal \<Rightarrow> World \<Rightarrow> (GoError + 64 word \<times> bool) \<times> World" where
  "adapterRenewLease msg renewal w =
     (let (err, db') = RenewLease (unixNow w) (ln_ID renewal) (ln_Owner renewal)
                         (ln_LeaseUntil renewal - ln_Now renewal) (wd_db w);
          w' = w\<lparr>wd_db := db'\<rparr>
      in case err of
           Some e \<Rightarrow> (Inl (storeError msg e), w')
         | None \<Rightarrow> (Inr (ln_LeaseVersion renewal + 1, True), w'))"

definition adapterUpdateJob ::
  "(StoreError \<Rightarrow> string) \<Rightarrow> JobUpdate \<Rightarrow> World \<Rightarrow> (GoError + bool) \<times> World" where
  "adapterUpdateJob msg update w =
     (let (err, db') = UpdateCertificateJobStatus (unixNow w) (ju_ID update) (ju_Status update)
                         (ju_LastError update) (wd_db w);
          w' = w\<lparr>wd_db := db'\<rparr>
      in case err of Some e \<Rightarrow> (Inl (storeError msg e), w') | None \<Rightarrow> (Inr True, w'))"

definition adapterStore :: "(StoreError \<Rightarrow> string) \<Rightarrow> World PersistentStore" where
  "adapterStore msg =
     \<lparr>ps_ListCandidates = (\<lambda>w. (Inr (ListRenewalCandidates (wd_db w)), w)),
      ps_CreateJob = adapterCreateJob msg, ps_ClaimJob = adapterClaimJob msg,
      ps_RenewLease = adapterRenewLease msg, ps_UpdateJob = adapterUpdateJob msg,
      ps_RecordSkippedCandidate = (\<lambda>sk w. (None, w))\<rparr>"

section \<open>Projections of the adapter's operations\<close>

lemma adapter_db [row_simps]:
  "wd_db (snd (adapterCreateJob msg spec w)) =
     snd (CreateCertificateJob (unixNow w) (wd_ids w (wd_used w)) (Some (specJob spec)) (wd_db w))"
  "wd_db (snd (adapterClaimJob msg req w)) =
     snd (Claim (unixNow w) (cq_Owner req) (cq_LeaseUntil req - cq_Now req) (wd_db w))"
  "wd_db (snd (adapterRenewLease msg ren w)) =
     snd (RenewLease (unixNow w) (ln_ID ren) (ln_Owner ren) (ln_LeaseUntil ren - ln_Now ren) (wd_db w))"
  "wd_db (snd (adapterUpdateJob msg u w)) =
     snd (UpdateCertificateJobStatus (unixNow w) (ju_ID u) (ju_Status u) (ju_LastError u) (wd_db w))"
  by (simp_all add: adapterCreateJob_def adapterClaimJob_def adapterRenewLease_def adapterUpdateJob_def
      case_prod_beta Let_def split: sum.split option.split)

definition jobKnown :: "Db \<Rightarrow> string \<Rightarrow> string \<Rightarrow> bool" where
  "jobKnown db d k = list_ex (\<lambda>j. jobKey j = (d, ''reconcile'', k)) (db_jobs db)"

definition attemptsLeft :: "Db \<Rightarrow> nat" where
  "attemptsLeft db = sum_list (map (\<lambda>j. nat (cj_MaxAttempts j - cj_Attempts j)) (db_jobs db))"

lemma sum_list_updWhere_le:
  fixes g :: "'r \<Rightarrow> nat"
  shows "(\<And>r. g (f r) \<le> g r) \<Longrightarrow> sum_list (map g (updWhere p f rs)) \<le> sum_list (map g rs)"
  by (induction rs) (auto intro: add_mono)

lemma sum_list_updWhere_less:
  fixes g :: "'r \<Rightarrow> nat"
  assumes "\<And>r. g (f r) \<le> g r" "x \<in> set rs" "p x" "g (f x) < g x"
  shows "sum_list (map g (updWhere p f rs)) < sum_list (map g rs)"
  using assms(2)
proof (induction rs)
  case (Cons r rs)
  show ?case
  proof (cases "r = x")
    case True
    then show ?thesis
      using sum_list_updWhere_le[of g f p rs] assms by (auto intro: add_less_le_mono)
  next
    case False
    then show ?thesis
      using Cons assms(1)[of r] by (auto intro: add_le_less_mono)
  qed
qed simp

lemma attemptsLeft_status: "attemptsLeft (snd (UpdateCertificateJobStatus now jid st m db)) = attemptsLeft db"
  by (auto simp: attemptsLeft_def UpdateCertificateJobStatus_def statusRow_def Let_def updWhere_def
      intro!: arg_cong[of _ _ sum_list])

lemma attemptsLeft_renew: "attemptsLeft (snd (RenewLease now jid owner dur db)) = attemptsLeft db"
  by (auto simp: attemptsLeft_def RenewLease_def updateLeased_def updWhere_def intro!: arg_cong[of _ _ sum_list])

lemma attemptsLeft_claim:
  assumes "Claim now owner dur db = (Inr (Some j), db')"
  shows "attemptsLeft db' < attemptsLeft db"
  using assms
proof (cases rule: Claim_cases)
  case (claimed j0)
  let ?u = "now + durationSeconds dur"
  have j0: "j0 \<in> set (db_jobs db)" "claimable now j0"
    using nextClaim_Some[OF claimed(1)] by auto
  have "j0 \<in> set (db_jobs (cleaned now db))"
    using j0 by (intro cleaned_mem) (auto dest: claimable_not_exhausted)
  then have "attemptsLeft db' < attemptsLeft (cleaned now db)"
    unfolding attemptsLeft_def claimed(5) using j0(2)
    by (auto intro!: sum_list_updWhere_less[where x = j0] simp: startAttempt_def claimable_def)
  also have "attemptsLeft (cleaned now db) \<le> attemptsLeft db"
    unfolding attemptsLeft_def cleaned_def
    by (auto intro!: sum_list_updWhere_le simp: failExhausted_def)
  finally show ?thesis .
qed auto

lemma known_create_noop:
  assumes "jobKnown db (cj_Domain j) (cj_IdempotencyKey j)" "cj_Operation j = ''reconcile''"
  shows "snd (CreateCertificateJob now newID (Some j) db) = db"
proof -
  obtain r db' where run: "CreateCertificateJob now newID (Some j) db = (r, db')"
    by fastforce
  then show ?thesis
  proof (cases rule: Create_cases)
    case created
    have "list_ex (\<lambda>r. cj_ID r = cj_ID (normalJob now newID j) \<or> jobKey r = jobKey (normalJob now newID j)) (db_jobs db)"
      using assms by (auto simp: jobKnown_def list_ex_iff jobKey_def)
    then show ?thesis
      using created(3) by (simp add: insertJob_def)
  qed (use run in simp_all)
qed

lemma created_known:
  assumes "CreateCertificateJob now newID (Some j) db = (Inr job, db')" "cj_Operation j = ''reconcile''"
  shows "jobKnown db' (cj_Domain j) (cj_IdempotencyKey j)"
  using assms(1)
proof (cases rule: Create_cases)
  case (reused old)
  then show ?thesis
    using assms(2) by (auto simp: jobKnown_def list_ex_iff jobKey_def)
next
  case created
  then have "db' = db\<lparr>db_jobs := db_jobs db @ [normalJob now newID j]\<rparr>"
    by (auto simp: insertJob_def split: if_splits)
  then show ?thesis
    using assms(2) by (simp add: jobKnown_def) (simp add: jobKey_def)
qed simp

lemma create_keeps_known:
  assumes "jobKnown db d k"
  shows "jobKnown (snd (CreateCertificateJob now newID (Some j) db)) d k"
proof -
  obtain r db' where run: "CreateCertificateJob now newID (Some j) db = (r, db')"
    by fastforce
  then show ?thesis
    by (cases rule: Create_cases) (use assms run in \<open>auto simp: jobKnown_def list_ex_iff insertJob_def split: if_splits\<close>)
qed

interpretation aw: persistent_store "adapterStore msg" wd_db jobsInv jobKnown attemptsLeft for msg
proof (unfold_locales, goal_cases)
  case (2 s spec x s')
  then show ?case
    by (cases x) (auto simp: adapterStore_def adapterCreateJob_def specJob_def Let_def
        split: prod.splits sum.splits dest!: created_known)
next
  case (7 s req job s')
  then show ?case
    by (auto simp: adapterStore_def adapterClaimJob_def Let_def split: prod.splits sum.splits option.splits
        dest: attemptsLeft_claim)
qed (simp_all add: adapterStore_def row_simps Create_jobsInv create_keeps_known known_create_noop specJob_def
    Claim_jobsInv lease_ops_jobsInv status_jobsInv attemptsLeft_status attemptsLeft_renew)

section \<open>A concrete world\<close>

definition demoWorkerToken :: TokenRow where
  "demoWorkerToken = \<lparr>tk_ID = ''certificate-worker'', tk_Secret = None, tk_Ciphertext = Some ''s'', tk_Version = 2,
     tk_RotatedAt = None, tk_Note = [], tk_Enabled = True, tk_IsAdmin = False, tk_CreatedAt = 0,
     tk_LastUsedAt = None\<rparr>"

definition demoWorld :: "TokenRow list \<Rightarrow> CertificateJob list \<Rightarrow> World" where
  "demoWorld tokens jobs =
     \<lparr>wd_db = demoDb\<lparr>db_tokens := tokens, db_jobs := jobs\<rparr>, wd_clock = 100000000000,
      wd_ids = (\<lambda>n. Some ''j1''), wd_used = 0\<rparr>"

definition demoCandidate :: Candidate where
  "demoCandidate = \<lparr>cd_Domain = ''a.example'', cd_ChallengeMode = ''dns_api''\<rparr>"

definition demoSpec :: JobSpec where
  "demoSpec = \<lparr>sp_Candidate = demoCandidate, sp_Actor = pc_Actor demoWorker,
     sp_IdempotencyKey = scanIdempotencyKey demoWorker 100000000000, sp_MaxAttempts = 5,
     sp_CreatedAt = 100000000000\<rparr>"

lemma demo_candidates: "ListRenewalCandidates (wd_db (demoWorld ts js)) = [demoCandidate]"
  by (simp add: ListRenewalCandidates_def ListCerts_def demoWorld_def demo_defs demoCandidate_def)

lemma demo_key: "scanIdempotencyKey demoWorker 100000000000 = ''scheduler:43200000000000:0''"
  by (simp add: scanIdempotencyKey_def showInt_def showNat.simps) code_simp

lemma demo_createErr: "createErr now (Some i) (specJob demoSpec) = None"
  using demo_hostName
  by (simp add: createErr_def specJob_def demoSpec_def demoCandidate_def demo_key normalJob_def
      validJobStatus_def valid_simps visible_eval)

definition demoCreated :: CertificateJob where
  "demoCreated = normalJob 100 (Some ''j1'') (specJob demoSpec)"

lemma demo_scan:
  "scanCandidates (adapterStore msg) demoWorker (\<lambda>_. None) 100000000000 emptyRecorder
     (demoWorld [demoWorkerToken] []) =
   (emptyRecorder\<lparr>pm_Scanned := 1, pm_Created := 1\<rparr>,
    (demoWorld [demoWorkerToken] [demoCreated])\<lparr>wd_used := 1\<rparr>)"
proof -
  have spec: "\<lparr>sp_Candidate = demoCandidate, sp_Actor = pc_Actor demoWorker,
      sp_IdempotencyKey = scanIdempotencyKey demoWorker 100000000000, sp_MaxAttempts = pc_MaxAttempts demoWorker,
      sp_CreatedAt = 100000000000\<rparr> = demoSpec"
    by (simp add: demoSpec_def)
  have insert: "insertJob (normalJob 100 (Some ''j1'') (specJob demoSpec)) (demoDb\<lparr>db_tokens := [demoWorkerToken], db_jobs := []\<rparr>)
      = Inr (demoDb\<lparr>db_tokens := [demoWorkerToken], db_jobs := [demoCreated]\<rparr>)"
    by (simp add: insertJob_def certExists_def tokenExists_def demo_defs normalJob_def specJob_def demoSpec_def
        demoCandidate_def demoWorkerToken_def demoCreated_def)
  have "adapterCreateJob msg demoSpec (demoWorld [demoWorkerToken] []) =
      (Inr (adapterJob demoCreated demoCandidate (pc_Actor demoWorker), True),
       (demoWorld [demoWorkerToken] [demoCreated])\<lparr>wd_used := 1\<rparr>)"
    using insert by (simp add: adapterCreateJob_def CreateCertificateJob_def demo_createErr demoWorld_def unixNow_def
        demoCreated_def[symmetric])
      (simp add: demoCreated_def normalJob_def specJob_def demoSpec_def)
  moreover have "cd_ChallengeMode demoCandidate = ''dns_api''"
    by (simp add: demoCandidate_def)
  ultimately show ?thesis
    using demo_candidates[of "[demoWorkerToken]" "[]"]
    by (simp add: scanCandidates_def adapterStore_def spec del: demoWorker_fields)
      (simp add: recorder_defs emptyRecorder_def)
qed

lemma demo_world_inv: "jobsInv (wd_db (demoWorld ts []))" "jobsInv (wd_db (demoWorld ts [demoJob]))"
  using demo_inv by (simp_all add: jobsInv_def demoWorld_def demoDb_def)

section \<open>Scanning and draining the queue\<close>

lemma certs_create [simp]: "db_certs (snd (CreateCertificateJob now newID arg db)) = db_certs db"
  by (auto simp: CreateCertificateJob_def insertJob_def Let_def split: option.splits sum.splits if_splits)

lemma certs_scanLoop:
  "db_certs (wd_db (snd (scanLoop (adapterStore msg) cfg ctxErr now cs r w))) = db_certs (wd_db w)"
proof (induction cs arbitrary: r w)
  case (Cons c cs)
  have "db_certs (wd_db w') = db_certs (wd_db w)" if "adapterCreateJob msg spec w = (res, w')" for spec res w'
    using adapter_db(1)[of msg spec w] that by simp
  then show ?case
    using Cons by (auto simp: adapterStore_def split: option.splits prod.splits sum.splits)
qed simp

text \<open>Once a scan has finished without an error, every further scan in the same interval window
  leaves the database unchanged, whatever the context, as long as the database is the same.\<close>

theorem rescan_changes_nothing:
  assumes "jobsInv (wd_db w)"
    and first: "scanCandidates (adapterStore msg) cfg ctxErr t1 emptyRecorder w = (r1, w1)" "pm_Errors r1 = []"
    and "wd_db w2 = wd_db w1" "scanIdempotencyKey cfg t2 = scanIdempotencyKey cfg t1"
  shows "wd_db (snd (scanCandidates (adapterStore msg) cfg ctxErr' t2 r w2)) = wd_db w2"
proof -
  let ?cs = "ListRenewalCandidates (wd_db w)"
  have lst: "ps_ListCandidates (adapterStore msg) = (\<lambda>w. (Inr (ListRenewalCandidates (wd_db w)), w))"
    by (simp add: adapterStore_def)
  have run: "scanLoop (adapterStore msg) cfg ctxErr t1 ?cs (addScanned (length ?cs) emptyRecorder) w = (r1, w1)"
    using first(1) by (simp add: scanCandidates_def lst)
  have inv1: "jobsInv (wd_db w1)"
    using aw.scanLoop_known[OF assms(1), of msg cfg ctxErr t1 ?cs "addScanned (length ?cs) emptyRecorder"] run by simp
  have "\<forall>c\<in>set ?cs. cd_ChallengeMode c = ''dns_api'' \<longrightarrow>
      jobKnown (wd_db w1) (cd_Domain c) (scanIdempotencyKey cfg t1)"
    using aw.scanLoop_makes_known[OF assms(1), of msg cfg ctxErr t1 ?cs "addScanned (length ?cs) emptyRecorder"]
      run first(2) by simp
  moreover have "ListRenewalCandidates (wd_db w2) = ?cs"
    using certs_scanLoop[of msg cfg ctxErr t1 ?cs "addScanned (length ?cs) emptyRecorder" w] run assms(4)
    by (simp add: ListRenewalCandidates_def ListCerts_def)
  ultimately show ?thesis
    using aw.scanLoop_noop[of w2 ?cs cfg t2 msg ctxErr' "addScanned (length ?cs) r"] inv1 assms(4,5)
    by (simp add: scanCandidates_def lst)
qed

theorem rescan_changes_nothing_witness:
  "wd_db (snd (scanCandidates (adapterStore (\<lambda>_. [])) demoWorker (\<lambda>_. None) 200000000000 emptyRecorder
      ((demoWorld [demoWorkerToken] [demoCreated])\<lparr>wd_clock := 200000000000\<rparr>)))
   = wd_db ((demoWorld [demoWorkerToken] [demoCreated])\<lparr>wd_clock := 200000000000\<rparr>)"
  by (rule rescan_changes_nothing[OF demo_world_inv(1) demo_scan])
    (simp add: emptyRecorder_def, simp add: demoWorld_def, simp add: scanIdempotencyKey_def)

text \<open>C11: The worker's loop over due jobs returns: with a valid queue it takes at most one iteration
  more than the attempts the queued jobs have left, provided what else happens meanwhile keeps
  the queue valid and adds no attempts.\<close>

theorem due_jobs_finish:
  assumes "jobsInv (wd_db w)" "attemptsLeft (wd_db w) < length its"
    and "\<forall>it\<in>set its. \<forall>f. Meanwhile f \<in> set (jr_Events (it_Run it)) \<longrightarrow>
      (\<forall>v. jobsInv (wd_db v) \<longrightarrow> jobsInv (wd_db (f v)) \<and> attemptsLeft (wd_db (f v)) \<le> attemptsLeft (wd_db v))"
  shows "processDueJobs (adapterStore msg) cfg its r w \<noteq> None"
  using assms by (intro aw.dueJobs_return) (auto simp: aw.quietEvents_def)

theorem due_jobs_finish_witness:
  "processDueJobs (adapterStore (\<lambda>_. [])) demoWorker
     (replicate 4 \<lparr>it_CtxErr = None, it_Now = 100000000000,
        it_Run = \<lparr>jr_Events = [Tick 100000000000, Meanwhile (\<lambda>w. w)], jr_Outcome = Inr emptyResult,
                  jr_CtxErr = None, jr_Now = 100000000000\<rparr>\<rparr>)
     emptyRecorder (demoWorld [] [demoJob]) \<noteq> None"
  by (rule due_jobs_finish) (simp_all add: demo_world_inv, simp add: attemptsLeft_def demoWorld_def demoJob_def)

section \<open>Where the adapter departs from the contract\<close>

lemma create_foreign_key:
  assumes "\<not> jobKnown (wd_db w) (cd_Domain (sp_Candidate spec)) (sp_IdempotencyKey spec)"
    and "at_ID (sp_Actor spec) \<noteq> []" "\<not> tokenExists (wd_db w) (at_ID (sp_Actor spec))"
  shows "(\<exists>e. fst (adapterCreateJob msg spec w) = Inl e) \<and> wd_db (snd (adapterCreateJob msg spec w)) = wd_db w"
proof -
  obtain r db' where run:
    "CreateCertificateJob (unixNow w) (wd_ids w (wd_used w)) (Some (specJob spec)) (wd_db w) = (r, db')"
    by fastforce
  then have "(\<exists>e. r = Inl e) \<and> db' = wd_db w"
  proof (cases rule: Create_cases)
    case (reused old)
    then have "jobKnown (wd_db w) (cd_Domain (sp_Candidate spec)) (sp_IdempotencyKey spec)"
      by (auto simp: jobKnown_def list_ex_iff jobKey_def specJob_def)
    then show ?thesis
      using assms(1) by simp
  next
    case created
    then show ?thesis
      using assms(2,3) by (simp add: insertJob_def normalJob_def specJob_def split: if_splits)
  qed auto
  then show ?thesis
    using run by (auto simp: adapterCreateJob_def Let_def)
qed

text \<open>A scan creates no job, and leaves the database unchanged, unless a token exists whose ID is the
  worker's own name: the job's requester must reference a token.\<close>

theorem scan_needs_worker_token:
  assumes "\<not> tokenExists (wd_db w) (at_ID (pc_Actor cfg))" "at_ID (pc_Actor cfg) \<noteq> []"
    and fresh: "\<forall>c\<in>set (ListRenewalCandidates (wd_db w)).
      \<not> jobKnown (wd_db w) (cd_Domain c) (scanIdempotencyKey cfg now)"
  shows "pm_Created (fst (scanCandidates (adapterStore msg) cfg ctxErr now emptyRecorder w)) = 0
    \<and> wd_db (snd (scanCandidates (adapterStore msg) cfg ctxErr now emptyRecorder w)) = wd_db w"
proof -
  have loop: "pm_Created (fst (scanLoop (adapterStore msg) cfg ctxErr now cs r v)) = pm_Created r
      \<and> wd_db (snd (scanLoop (adapterStore msg) cfg ctxErr now cs r v)) = wd_db w"
    if "wd_db v = wd_db w" "set cs \<subseteq> set (ListRenewalCandidates (wd_db w))" for cs r v
    using that
  proof (induction cs arbitrary: r v)
    case (Cons c cs)
    let ?spec = "\<lparr>sp_Candidate = c, sp_Actor = pc_Actor cfg, sp_IdempotencyKey = scanIdempotencyKey cfg now,
        sp_MaxAttempts = pc_MaxAttempts cfg, sp_CreatedAt = now\<rparr>"
    obtain e v' where refused: "adapterCreateJob msg ?spec v = (Inl e, v')" "wd_db v' = wd_db w"
      using create_foreign_key[of v ?spec msg] Cons.prems fresh assms(1,2)
      by (cases "adapterCreateJob msg ?spec v") auto
    show ?case
      using Cons.IH[of v'] Cons.IH[of v] Cons.prems refused
      by (cases "ctxErr v"; cases "cd_ChallengeMode c = ''dns_api''") (simp_all add: adapterStore_def)
  qed simp
  have "pm_Created (addScanned n emptyRecorder) = 0" for n
    by (simp add: emptyRecorder_def)
  moreover have "scanCandidates (adapterStore msg) cfg ctxErr now emptyRecorder w =
      scanLoop (adapterStore msg) cfg ctxErr now (ListRenewalCandidates (wd_db w))
        (addScanned (length (ListRenewalCandidates (wd_db w))) emptyRecorder) w"
    by (simp add: scanCandidates_def adapterStore_def)
  ultimately show ?thesis
    using loop[of w "ListRenewalCandidates (wd_db w)"] by simp
qed

theorem scan_needs_worker_token_witness:
  "pm_Created (fst (scanCandidates (adapterStore (\<lambda>_. [])) demoWorker (\<lambda>_. None) 100000000000 emptyRecorder
       (demoWorld [] []))) = 0
    \<and> wd_db (snd (scanCandidates (adapterStore (\<lambda>_. [])) demoWorker (\<lambda>_. None) 100000000000 emptyRecorder
       (demoWorld [] []))) = wd_db (demoWorld [] [])"
  by (rule scan_needs_worker_token) (simp_all add: demoWorld_def tokenExists_def jobKnown_def)

text \<open>An update is accepted from any owner with any lease version: the row gets the new status, and a
  final status takes the lease away from the worker that holds it.\<close>

theorem update_ignores_lease:
  assumes "GetCertificateJob (ju_ID u) (wd_db w) = Some j" "validJobStatus (ju_Status u)"
  shows "fst (adapterUpdateJob msg u w) = Inr True
    \<and> GetCertificateJob (ju_ID u) (wd_db (snd (adapterUpdateJob msg u w)))
        = Some (statusRow (unixNow w) (ju_Status u) (ju_LastError u) j)
    \<and> (isTerminalJobStatus (ju_Status u) \<longrightarrow>
        leaseOf (wd_db (snd (adapterUpdateJob msg u w))) (ju_ID u) = None)"
proof -
  have mem: "j \<in> set (db_jobs (wd_db w))" "cj_ID j = ju_ID u"
    using Get_mem[OF assms(1)] by auto
  have "fst (UpdateCertificateJobStatus now (ju_ID u) (ju_Status u) m (wd_db w)) = None" for now m
    using assms(2) mem by (auto simp: UpdateCertificateJobStatus_def)
  then have "fst (adapterUpdateJob msg u w) = Inr True"
    by (simp add: adapterUpdateJob_def case_prod_beta Let_def)
  moreover have "GetCertificateJob (ju_ID u) (wd_db (snd (adapterUpdateJob msg u w)))
        = Some (statusRow (unixNow w) (ju_Status u) (ju_LastError u) j)"
    using Get_status[OF assms(1)] assms(2) by (simp add: adapter_db)
  ultimately show ?thesis
    by (auto simp: leaseOf_def statusRow_def Let_def)
qed

lemma validJobStatus_cases:
  "validJobStatus JobQueued" "validJobStatus JobSucceeded" "validJobStatus JobFailed" "\<not> validJobStatus JobRetrying"
  by (simp_all add: validJobStatus_def)

text \<open>A job run by worker \<open>w\<close>, ended by another worker.\<close>

theorem update_ignores_lease_witness:
  "\<exists>u w. ju_Owner u = ''stale'' \<and> leaseOf (wd_db w) ''j1'' = Some (''w'', 160)
    \<and> fst (adapterUpdateJob (\<lambda>_. []) u w) = Inr True
    \<and> GetCertificateJob (ju_ID u) (wd_db (snd (adapterUpdateJob (\<lambda>_. []) u w)))
        = Some (statusRow (unixNow w) (ju_Status u) (ju_LastError u) (startAttempt 100 ''w'' 160 demoJob))
    \<and> leaseOf (wd_db (snd (adapterUpdateJob (\<lambda>_. []) u w))) (ju_ID u) = None"
proof (intro exI conjI)
  let ?u = "\<lparr>ju_ID = ''j1'', ju_Owner = ''stale'', ju_Now = 0, ju_LeaseVersion = 0, ju_Status = JobFailed,
      ju_AvailableAt = None, ju_LastError = [], ju_Result = emptyResult\<rparr>"
  let ?w = "demoWorld [] [startAttempt 100 ''w'' 160 demoJob]"
  have get: "GetCertificateJob (ju_ID ?u) (wd_db ?w) = Some (startAttempt 100 ''w'' 160 demoJob)"
    by (simp add: GetCertificateJob_def demoWorld_def startAttempt_def demoJob_def)
  show "ju_Owner ?u = ''stale''"
    by simp
  show "leaseOf (wd_db ?w) ''j1'' = Some (''w'', 160)"
    using get by (simp add: leaseOf_def startAttempt_def)
  show "fst (adapterUpdateJob (\<lambda>_. []) ?u ?w) = Inr True"
    "GetCertificateJob (ju_ID ?u) (wd_db (snd (adapterUpdateJob (\<lambda>_. []) ?u ?w)))
        = Some (statusRow (unixNow ?w) (ju_Status ?u) (ju_LastError ?u) (startAttempt 100 ''w'' 160 demoJob))"
    "leaseOf (wd_db (snd (adapterUpdateJob (\<lambda>_. []) ?u ?w))) (ju_ID ?u) = None"
    using update_ignores_lease[OF get, of "\<lambda>_. []"] by (simp_all add: validJobStatus_cases isTerminalJobStatus_def)
qed

lemma retrying_update: "adapterUpdateJob msg (retryUpdate cfg now job e) w = (Inl (storeError msg (ErrInvalid ''status'')), w)"
  by (simp add: adapterUpdateJob_def retryUpdate_def UpdateCertificateJobStatus_def validJobStatus_cases)

text \<open>A retry is never stored: when a job fails with a retryable error and attempts left, the update
  to the status \<open>retrying\<close> is refused, the row stays as the run left it (running, under its
  lease), nothing is counted as retried, and the delay computed by the backoff is lost.\<close>

theorem retry_never_stored:
  assumes "renewLease (adapterStore msg) cfg (jb_ID job) (jb_LeaseVersion job) (jr_Events run) w = ((v, None), w1)"
    and "jr_CtxErr run = None" "jr_Outcome run = Inl e" "retryAllowed cfg job e"
  shows "executeJob (adapterStore msg) cfg run job r w =
     (addError (WillRetry (cd_Domain (jb_Candidate job)) e)
        (addError (UpdateFailed (jb_ID job) (storeError msg (ErrInvalid ''status''))) r), w1)"
proof -
  have "retryAllowed cfg (job\<lparr>jb_LeaseVersion := v\<rparr>) e"
    using assms(4) by (cases "jb_MaxAttempts job \<le> 0") (simp_all add: retryAllowed_def Let_def)
  moreover have "ps_UpdateJob (adapterStore msg) = adapterUpdateJob msg"
    by (simp add: adapterStore_def)
  ultimately show ?thesis
    using assms(1-3) by (simp add: executeJob_def updateClaimedJob_def retrying_update)
      (simp add: retryUpdate_def)
qed

theorem retry_never_stored_witness:
  "executeJob (adapterStore (\<lambda>_. [])) demoWorker
     \<lparr>jr_Events = [], jr_Outcome = Inl DeadlineExceeded, jr_CtxErr = None, jr_Now = 1\<rparr> demoWorkerJob emptyRecorder
     (demoWorld [] []) =
   (addError (WillRetry (cd_Domain (jb_Candidate demoWorkerJob)) DeadlineExceeded)
      (addError (UpdateFailed (jb_ID demoWorkerJob) (storeError (\<lambda>_. []) (ErrInvalid ''status''))) emptyRecorder),
    demoWorld [] [])"
  by (rule retry_never_stored)
    (simp_all add: retryAllowed_def demoWorkerJob_def ClassifyError_def DeadlineExceeded_def errorsAs_def plainNode_def)

text \<open>Claims of any workers at any times.\<close>

fun claimAll :: "(int \<times> string \<times> int) list \<Rightarrow> Db \<Rightarrow> Db" where
  "claimAll [] db = db"
| "claimAll ((now, owner, dur) # cs) db = claimAll cs (snd (Claim now owner dur db))"

lemma unclaimable_row_kept:
  assumes "jobsInv db" "GetCertificateJob i db = Some j" "\<forall>now. \<not> claimable now j \<and> \<not> exhausted now j"
  shows "GetCertificateJob i (claimAll cs db) = Some j"
  using assms(1,2)
proof (induction cs arbitrary: db)
  case (Cons c cs)
  obtain now owner dur where c: "c = (now, owner, dur)"
    by (cases c) auto
  have "\<not> claimsJob i now (OpClaim owner dur) db"
  proof
    assume claims: "claimsJob i now (OpClaim owner dur) db"
    then obtain j0 db' where run: "Claim now owner dur db = (Inr (Some j0), db')" "cj_ID j0 = i"
      by (auto simp: claimsJob_def split: sum.splits option.splits) (metis prod.collapse)
    then show False
    proof (cases rule: Claim_cases)
      case (claimed x)
      have "x \<in> set (db_jobs db)" "claimable now x"
        using nextClaim_Some[OF claimed(1)] by blast+
      moreover have "cj_ID x = i"
        using claimed(4) run(2) by (simp add: startAttempt_def)
      ultimately have "x = j"
        using Get_of_mem[OF Cons.prems(1)] Cons.prems(2) by fastforce
      then show ?thesis
        using \<open>claimable now x\<close> assms(3) by blast
    qed simp_all
  qed
  then have "GetCertificateJob i (snd (Claim now owner dur db)) = Some j"
    using Get_claim[OF Cons.prems] assms(3) by simp
  then show ?case
    using Cons.IH[OF Claim_jobsInv[OF Cons.prems(1)]] c by simp
qed simp

text \<open>A job released on shutdown during its last attempt is put back as queued with no attempt left,
  and no claim ever takes it or ends it again.\<close>

theorem released_last_attempt_stuck:
  assumes "jobsInv (wd_db w)" "GetCertificateJob (jb_ID job) (wd_db w) = Some j" "cj_Attempts j = cj_MaxAttempts j"
  shows "\<exists>j'. cj_Status j' = ''queued'' \<and> GetCertificateJob (jb_ID job)
      (claimAll cs (wd_db (snd (releaseCanceledJob (adapterStore msg) cfg now job cause r w)))) = Some j'"
proof -
  let ?u = "releaseUpdate cfg now job cause"
  let ?j = "statusRow (unixNow w) JobQueued (ge_Message cause) j"
  have snd: "snd (releaseCanceledJob (adapterStore msg) cfg now job cause r w) = snd (adapterUpdateJob msg ?u w)"
    by (simp add: releaseCanceledJob_def adapterStore_def case_prod_beta split: sum.split)
  have u: "ju_ID ?u = jb_ID job" "ju_Status ?u = JobQueued" "ju_LastError ?u = ge_Message cause"
    by (simp_all add: releaseUpdate_def)
  have inv: "jobsInv (wd_db (snd (adapterUpdateJob msg ?u w)))"
    using status_jobsInv[OF assms(1)] by (simp add: adapter_db)
  have get: "GetCertificateJob (jb_ID job) (wd_db (snd (adapterUpdateJob msg ?u w))) = Some ?j"
    using Get_status[OF assms(2)] by (simp add: adapter_db u validJobStatus_cases)
  have "\<forall>now. \<not> claimable now ?j \<and> \<not> exhausted now ?j"
    using assms(3) by (simp add: claimable_def exhausted_def statusRow_def Let_def)
  then have "GetCertificateJob (jb_ID job) (claimAll cs (wd_db (snd (adapterUpdateJob msg ?u w)))) = Some ?j"
    by (rule unclaimable_row_kept[OF inv get])
  moreover have "cj_Status ?j = ''queued''"
    by (simp add: statusRow_def Let_def)
  ultimately show ?thesis
    unfolding snd by blast
qed

lemma demo_last_inv: "jobsInv (wd_db (demoWorld [] [startAttempt 100 ''w'' 160 (demoJob\<lparr>cj_MaxAttempts := 1\<rparr>)]))"
  using demo_inv by (simp add: jobsInv_def demoWorld_def demoDb_def jobOk_def startAttempt_def validJobStatus_def demoJob_def)

theorem released_last_attempt_stuck_witness:
  "\<exists>j'. cj_Status j' = ''queued'' \<and> GetCertificateJob (jb_ID demoWorkerJob)
      (claimAll [(200, ''w'', 60000000000), (9999, ''v'', 60000000000)]
        (wd_db (snd (releaseCanceledJob (adapterStore (\<lambda>_. [])) demoWorker 1 demoWorkerJob Canceled emptyRecorder
          (demoWorld [] [startAttempt 100 ''w'' 160 (demoJob\<lparr>cj_MaxAttempts := 1\<rparr>)]))))) = Some j'"
  by (rule released_last_attempt_stuck[OF demo_last_inv,
        where j = "startAttempt 100 ''w'' 160 (demoJob\<lparr>cj_MaxAttempts := 1\<rparr>)"])
    (simp_all add: demoWorld_def demoWorkerJob_def startAttempt_def demoJob_def GetCertificateJob_def)

text \<open>One domain can have two live leases at once: two queued jobs of a domain under different keys are
  handed to two workers in the same second, although the interface promises a single lease per
  domain.\<close>

theorem domain_not_exclusive:
  "let db = demoDb\<lparr>db_jobs := [demoJob, demoJob\<lparr>cj_ID := ''j2'', cj_IdempotencyKey := ''k2''\<rparr>]\<rparr>;
       db' = claimAll [(100, ''w'', 60000000000), (100, ''v'', 60000000000)] db
   in jobsInv db \<and> leaseOf db' ''j1'' = Some (''w'', 160) \<and> leaseOf db' ''j2'' = Some (''v'', 160)
      \<and> map_option cj_Domain (GetCertificateJob ''j1'' db') = map_option cj_Domain (GetCertificateJob ''j2'' db')"
proof -
  have inv: "jobsInv (demoDb\<lparr>db_jobs := [demoJob, demoJob\<lparr>cj_ID := ''j2'', cj_IdempotencyKey := ''k2''\<rparr>]\<rparr>)"
    using demo_inv by (simp add: jobsInv_def demoDb_def jobOk_def jobKey_def demoJob_def)
  show ?thesis
    using inv by (simp add: Claim_def demo_defs durationSeconds_def nextClaim_def claimable_def exhausted_def
        firstRow_def visible_eval claimKey_def startAttempt_def leaseOf_def GetCertificateJob_def)
qed

end
