(* ===== verification/CertFiles.thy ===== *)
theory CertFiles
  imports Certproto "HOL-Library.List_Lexorder" "HOL-Library.Char_ord"
begin

text \<open>
  The checks of \<^verbatim>\<open>internal/certstore/certstore.go\<close> on names, manifests and certificate contents.
  PEM and X.509 parsing, chain verification, SHA-256 and the JSON codec are library calls; they
  are the record \<open>CertLib\<close>, an argument of every definition that uses one.
\<close>

datatype CertErr =
    CertNotFound | CertInvalidDomain | CertInvalidGeneration | CertInvalidFile | CertUnsafePath
  | CertInvalidCertificate | CertInvalidManifest | CertCurrentGeneration | CertInvalidGCOptions | CertIO

section \<open>Names\<close>

text \<open>
  \<^verbatim>\<open>strings.ToLower\<close> as far as the checks can see: ASCII letters, and the two runes outside
  ASCII whose lower case is an ASCII letter (U+212A and U+0130, in UTF-8).  Other bytes outside
  ASCII stay outside ASCII and are rejected by the label check.
\<close>

fun lowerRunes :: "string \<Rightarrow> string" where
  "lowerRunes [] = []"
| "lowerRunes (a # s) =
     (if prefix (map char_of [0xE2, 0x84, 0xAA :: nat]) (a # s) then CHR ''k'' # lowerRunes (drop 2 s)
      else if prefix (map char_of [0xC4, 0xB0 :: nat]) (a # s) then CHR ''i'' # lowerRunes (drop 1 s)
      else lowerByte a # lowerRunes s)"

definition storeDomainLabel :: "string \<Rightarrow> bool" where
  "storeDomainLabel label =
     (\<not> (length label = 0 \<or> length label > 63 \<or> hd label = CHR ''-'' \<or> last label = CHR ''-'') \<and>
      list_all (\<lambda>c. byteIn (CHR ''a'') (CHR ''z'') c \<or> byteIn (CHR ''0'') (CHR ''9'') c \<or> c = CHR ''-'') label)"

definition normalizeDomain :: "string \<Rightarrow> CertErr + string" where
  "normalizeDomain domain =
     (if domain = [] \<or> domain \<noteq> TrimSpace domain \<or> length domain > 253 then Inl CertInvalidDomain
      else let safeDomain = lowerRunes domain
           in if list_all storeDomainLabel (splitOn (CHR ''.'') safeDomain) then Inr safeDomain
              else Inl CertInvalidDomain)"

definition validateGeneration :: "GenerationID \<Rightarrow> CertErr option" where
  "validateGeneration generation = failIf (ValidateGenerationID generation \<noteq> None) CertInvalidGeneration"

definition validateStoreFile :: "string \<Rightarrow> CertErr option" where
  "validateStoreFile fileName = failIf (ValidateFileName fileName \<noteq> None) CertInvalidFile"

text \<open>\<open>token\<close> is the twenty bytes the system's generator returns, or its failure.\<close>

definition newGenerationID :: "string option \<Rightarrow> CertErr + GenerationID" where
  "newGenerationID token =
     (case token of
        None \<Rightarrow> Inl CertIO
      | Some t \<Rightarrow> guardR (validateGeneration (''g-'' @ hexEncode t)) (Inr (''g-'' @ hexEncode t)))"

definition validateSANInput :: "string \<Rightarrow> bool" where
  "validateSANInput name = (\<not> (name = [] \<or> name \<noteq> TrimSpace name
     \<or> containsAny name [CHR ''/'', CHR 0x5C, CHR 0x00]))"

section \<open>Certificates\<close>

record X509 =
  xc_Raw :: string
  xc_Serial :: string
  xc_DNSNames :: "string list"
  xc_IPAddresses :: "string list"
  xc_NotBefore :: int
  xc_NotAfter :: int
  xc_PublicKey :: "string option"

record PrivateKey =
  pk_Signer :: bool
  pk_Public :: "string option"

record GenerationManifest =
  gm_Generation :: GenerationID
  gm_Revision :: Revision
  gm_Domain :: string
  gm_SANs :: "string list"
  gm_Serial :: string
  gm_Fingerprint :: string
  gm_Files :: CertificateManifest

record CertLib =
  lib_pemDecode :: "string \<Rightarrow> (string \<times> string \<times> string) option"
  lib_parseCertificate :: "string \<Rightarrow> X509 option"
  lib_parsePKCS8 :: "string \<Rightarrow> PrivateKey option"
  lib_parsePKCS1 :: "string \<Rightarrow> PrivateKey option"
  lib_parseEC :: "string \<Rightarrow> PrivateKey option"
  lib_verifyChain :: "string \<Rightarrow> X509 \<Rightarrow> X509 list \<Rightarrow> X509 list \<Rightarrow> int \<Rightarrow> bool"
  lib_verifyHostname :: "X509 \<Rightarrow> string \<Rightarrow> bool"
  lib_sha256 :: "string \<Rightarrow> string"
  lib_encodeManifest :: "GenerationManifest \<Rightarrow> string option"
  lib_decodeFiles :: "string \<Rightarrow> CertificateManifest option"
  lib_decodeManifest :: "string \<Rightarrow> GenerationManifest option"
  lib_readElsewhere :: "string \<Rightarrow> CertErr + string"

text \<open>
  The PEM loop with fuel; \<open>decodePEMBlocks\<close> gives it one unit per byte, which is enough for a
  decoder that consumes input (\<open>decodePEM_enough\<close>).
\<close>

fun decodePEMLoop :: "CertLib \<Rightarrow> nat \<Rightarrow> string \<Rightarrow> (string \<times> string) list option" where
  "decodePEMLoop lib fuel [] = Some []"
| "decodePEMLoop lib 0 remaining = None"
| "decodePEMLoop lib (Suc fuel) remaining =
     (case lib_pemDecode lib remaining of
        None \<Rightarrow> None
      | Some (ty, bytes, rest) \<Rightarrow> map_option ((#) (ty, bytes)) (decodePEMLoop lib fuel (TrimSpace rest)))"

definition decodePEMBlocks :: "CertLib \<Rightarrow> string \<Rightarrow> (string \<times> string) list option" where
  "decodePEMBlocks lib data =
     (let remaining = TrimSpace data
      in if remaining = [] then None else decodePEMLoop lib (length remaining) remaining)"

fun parseCertBlocks :: "CertLib \<Rightarrow> (string \<times> string) list \<Rightarrow> X509 list option" where
  "parseCertBlocks lib [] = Some []"
| "parseCertBlocks lib ((ty, bytes) # blocks) =
     (if ty \<noteq> ''CERTIFICATE'' then None
      else case lib_parseCertificate lib bytes of
             None \<Rightarrow> None
           | Some c \<Rightarrow> map_option ((#) c) (parseCertBlocks lib blocks))"

definition parseCertificatePEM :: "CertLib \<Rightarrow> string \<Rightarrow> X509 list option" where
  "parseCertificatePEM lib data =
     (case decodePEMBlocks lib data of None \<Rightarrow> None | Some blocks \<Rightarrow> parseCertBlocks lib blocks)"

definition parsePrivateKeyPEM :: "CertLib \<Rightarrow> string \<Rightarrow> PrivateKey option" where
  "parsePrivateKeyPEM lib data =
     (case decodePEMBlocks lib data of
        Some [(ty, bytes)] \<Rightarrow>
          (case (if ty = ''PRIVATE KEY'' then lib_parsePKCS8 lib bytes
                 else if ty = ''RSA PRIVATE KEY'' then lib_parsePKCS1 lib bytes
                 else if ty = ''EC PRIVATE KEY'' then lib_parseEC lib bytes else None) of
             None \<Rightarrow> None
           | Some k \<Rightarrow> if pk_Signer k then Some k else None)
      | _ \<Rightarrow> None)"

definition firstCertificate :: "CertLib \<Rightarrow> string \<Rightarrow> X509 option" where
  "firstCertificate lib data =
     (case parseCertificatePEM lib data of Some [c] \<Rightarrow> Some c | _ \<Rightarrow> None)"

definition certificateSANs :: "X509 \<Rightarrow> string list" where
  "certificateSANs c = sorted_list_of_set (set (map lowerRunes (xc_DNSNames c)) \<union> set (xc_IPAddresses c))"

definition certificateFingerprint :: "CertLib \<Rightarrow> X509 \<Rightarrow> string" where
  "certificateFingerprint lib c = hexEncode (lib_sha256 lib (xc_Raw c))"

fun seenAll :: "string set \<Rightarrow> string list \<Rightarrow> string set option" where
  "seenAll seen [] = Some seen"
| "seenAll seen (v # vs) =
     (let low = lowerRunes v in if low \<in> seen then None else seenAll (insert low seen) vs)"

definition sameStringSet :: "string list \<Rightarrow> string list \<Rightarrow> bool" where
  "sameStringSet left right =
     (if length left \<noteq> length right then False
      else case seenAll {} left of
             None \<Rightarrow> False
           | Some seen \<Rightarrow> list_all (\<lambda>v. lowerRunes v \<in> seen) right)"

text \<open>The files read from a directory, by name; a missing file reads as no bytes.\<close>

type_synonym CertFileMap = "string \<Rightarrow> string option"

definition fileBytes :: "CertFileMap \<Rightarrow> string \<Rightarrow> string" where
  "fileBytes files name = (case files name of None \<Rightarrow> [] | Some b \<Rightarrow> b)"

text \<open>\<open>now = 0\<close> stands for the zero time, which skips the validity check.\<close>

definition inValidity :: "int \<Rightarrow> X509 \<Rightarrow> bool" where
  "inValidity now c = (\<not> (now < xc_NotBefore c \<or> \<not> now < xc_NotAfter c))"

definition validateCertificateFiles ::
  "CertLib \<Rightarrow> string \<Rightarrow> CertFileMap \<Rightarrow> string list \<Rightarrow> int \<Rightarrow> CertErr option" where
  "validateCertificateFiles lib domain files expectedSANs now =
     (case (parseCertificatePEM lib (fileBytes files ''cert.pem''),
            parseCertificatePEM lib (fileBytes files ''fullchain.pem''),
            parseCertificatePEM lib (fileBytes files ''ca.pem'')) of
        (Some [leaf], Some (first # rest), Some (ca # cas)) \<Rightarrow>
          firstErr
            [failIf (xc_Raw leaf \<noteq> xc_Raw first) CertInvalidCertificate,
             failIf (now \<noteq> 0 \<and> \<not> list_all (inValidity now) (leaf # (first # rest) @ (ca # cas)))
               CertInvalidCertificate,
             failIf (\<not> lib_verifyChain lib domain leaf rest (ca # cas) now) CertInvalidCertificate,
             failIf (\<not> list_all (\<lambda>name. validateSANInput name \<and> lib_verifyHostname lib leaf name)
               (domain # expectedSANs)) CertInvalidCertificate,
             (case parsePrivateKeyPEM lib (fileBytes files ''key.pem'') of
                None \<Rightarrow> Some CertInvalidCertificate
              | Some key \<Rightarrow>
                  failIf (xc_PublicKey leaf = None \<or> pk_Public key = None \<or> xc_PublicKey leaf \<noteq> pk_Public key)
                    CertInvalidCertificate)]
      | _ \<Rightarrow> Some CertInvalidCertificate)"

section \<open>Manifests\<close>

definition validateManifest :: "CertificateManifest \<Rightarrow> CertErr option" where
  "validateManifest manifest = firstErr
     [failIf (CertificateManifest_Validate manifest \<noteq> None) CertInvalidManifest,
      failIf (length manifest \<noteq> length fixedFileNames) CertInvalidManifest,
      failIf (\<not> list_all (\<lambda>name. name \<in> set (map fm_Name manifest)) fixedFileNames) CertInvalidManifest]"

definition fileManifest :: "CertLib \<Rightarrow> string \<Rightarrow> string \<Rightarrow> FileManifest" where
  "fileManifest lib name data =
     \<lparr>fm_Name = name, fm_Size = of_nat (length data), fm_SHA256 = hexEncode (lib_sha256 lib data)\<rparr>"

definition buildManifest :: "CertLib \<Rightarrow> CertFileMap \<Rightarrow> CertErr + CertificateManifest" where
  "buildManifest lib files =
     (if list_ex (\<lambda>name. files name = None) fixedFileNames then Inl CertInvalidManifest
      else let manifest = map (\<lambda>name. fileManifest lib name (fileBytes files name)) fixedFileNames
           in guardR (validateManifest manifest) (Inr manifest))"

definition buildGenerationManifest ::
  "CertLib \<Rightarrow> string \<Rightarrow> GenerationID \<Rightarrow> Revision \<Rightarrow> string list \<Rightarrow> CertFileMap \<Rightarrow> int
     \<Rightarrow> CertErr + GenerationManifest" where
  "buildGenerationManifest lib domain generation revision expectedSANs files now =
     guardR (validateGeneration generation)
       (bindR (normalizeDomain domain) (\<lambda>safeDomain.
          guardR (failIf (ValidateRevision revision \<noteq> None) CertInvalidManifest)
            (guardR (validateCertificateFiles lib safeDomain files expectedSANs now)
              (bindR (buildManifest lib files) (\<lambda>filesManifest.
                 case firstCertificate lib (fileBytes files ''cert.pem'') of
                   None \<Rightarrow> Inl CertInvalidManifest
                 | Some leaf \<Rightarrow> Inr
                     \<lparr>gm_Generation = generation, gm_Revision = revision, gm_Domain = safeDomain,
                      gm_SANs = certificateSANs leaf, gm_Serial = xc_Serial leaf,
                      gm_Fingerprint = certificateFingerprint lib leaf, gm_Files = filesManifest\<rparr>)))))"

text \<open>The flag says that the data is a bare list of files, the format of old releases.\<close>

definition decodeGenerationManifest :: "CertLib \<Rightarrow> string \<Rightarrow> (GenerationManifest \<times> bool) option" where
  "decodeGenerationManifest lib data =
     (let trimmed = TrimSpace data
      in if trimmed = [] then None
         else if hd trimmed = CHR ''['' then
           (case lib_decodeFiles lib trimmed of
              None \<Rightarrow> None
            | Some files \<Rightarrow>
                if validateManifest files \<noteq> None then None
                else Some (\<lparr>gm_Generation = [], gm_Revision = 0, gm_Domain = [], gm_SANs = [], gm_Serial = [],
                            gm_Fingerprint = [], gm_Files = files\<rparr>, True))
         else map_option (\<lambda>m. (m, False)) (lib_decodeManifest lib trimmed))"

definition validateGenerationManifest ::
  "CertLib \<Rightarrow> string \<Rightarrow> GenerationID \<Rightarrow> GenerationManifest \<Rightarrow> CertFileMap \<Rightarrow> CertErr option" where
  "validateGenerationManifest lib domain generation m files =
     (if generation \<noteq> [] \<and> gm_Generation m \<noteq> generation then Some CertInvalidManifest
      else if validateGeneration (gm_Generation m) \<noteq> None then Some CertInvalidManifest
      else if ValidateRevision (gm_Revision m) \<noteq> None then Some CertInvalidManifest
      else case normalizeDomain domain of
        Inl e \<Rightarrow> Some e
      | Inr safeDomain \<Rightarrow>
          if normalizeDomain (gm_Domain m) \<noteq> Inr safeDomain then Some CertInvalidManifest
          else if validateManifest (gm_Files m) \<noteq> None then Some CertInvalidManifest
          else case firstCertificate lib (fileBytes files ''cert.pem'') of
            None \<Rightarrow> Some CertInvalidManifest
          | Some leaf \<Rightarrow> firstErr
              [failIf (gm_Serial m \<noteq> xc_Serial leaf) CertInvalidManifest,
               failIf (gm_Fingerprint m \<noteq> certificateFingerprint lib leaf) CertInvalidManifest,
               failIf (\<not> sameStringSet (gm_SANs m) (certificateSANs leaf)) CertInvalidManifest])"

end
