(* ===== verification/CertStore.thy ===== *)
theory CertStore
  imports CertFiles
begin

text \<open>
  The generation store of \<^verbatim>\<open>internal/certstore/certstore.go\<close>: publishing a staged certificate
  as a new immutable generation, the \<^verbatim>\<open>current\<close> pointer, reading, migration of the old
  layout, garbage collection and abort.  A directory is what \<^verbatim>\<open>Lstat\<close> and \<^verbatim>\<open>ReadDir\<close>
  tell of it, and every system call that changes the disk can fail: \<open>io\<close> says whether the call at
  a given place does.
\<close>

section \<open>The disk\<close>

datatype FileNode = Regular string | Irregular

datatype EntryNode = EntryDir "(string \<times> FileNode) list" | EntryLink | EntryOther

text \<open>What \<^verbatim>\<open>assertDirectory\<close> sees: nothing, something that is no directory, or the directory.\<close>

datatype 'a DirNode = DirAbsent | DirUnsafe | DirAt 'a

datatype CurrentNode = CurrentLink string | CurrentFile string | CurrentOther

record DomainDir =
  dd_Releases :: "(string \<times> EntryNode) list DirNode"
  dd_Legacy :: "(string \<times> EntryNode) list DirNode"
  dd_Current :: "CurrentNode option"

definition assertDirectory :: "'a DirNode \<Rightarrow> CertErr + 'a" where
  "assertDirectory d = (case d of DirAbsent \<Rightarrow> Inl CertNotFound | DirUnsafe \<Rightarrow> Inl CertUnsafePath | DirAt x \<Rightarrow> Inr x)"

definition entryDirectory :: "EntryNode option \<Rightarrow> CertErr + (string \<times> FileNode) list" where
  "entryDirectory e =
     (case e of None \<Rightarrow> Inl CertNotFound | Some (EntryDir files) \<Rightarrow> Inr files
      | Some EntryLink \<Rightarrow> Inl CertUnsafePath | Some EntryOther \<Rightarrow> Inl CertUnsafePath)"

definition entriesOf :: "(string \<times> 'a) list DirNode \<Rightarrow> (string \<times> 'a) list" where
  "entriesOf d = (case d of DirAt es \<Rightarrow> es | _ \<Rightarrow> [])"

definition readRegularFile :: "(string \<times> FileNode) list \<Rightarrow> string \<Rightarrow> CertErr + string" where
  "readRegularFile files name =
     (case map_of files name of
        None \<Rightarrow> Inl CertNotFound | Some (Regular data) \<Rightarrow> Inr data | Some Irregular \<Rightarrow> Inl CertUnsafePath)"

definition manifestFileName :: string where
  "manifestFileName = ''manifest.json''"

definition ReleasesDirectory :: string where
  "ReleasesDirectory = ''releases''"

section \<open>Reading a generation\<close>

definition assertGenerationContents :: "(string \<times> FileNode) list \<Rightarrow> CertErr option" where
  "assertGenerationContents entries =
     (let expected = manifestFileName # fixedFileNames
      in if length entries \<noteq> length expected then Some CertInvalidManifest
         else firstErr (map (\<lambda>(name, node).
                if name \<notin> set expected then Some CertInvalidManifest
                else case node of Regular data \<Rightarrow> None | Irregular \<Rightarrow> Some CertUnsafePath) entries))"

text \<open>The file a manifest entry names, read relative to the generation's directory.\<close>

definition readItem :: "CertLib \<Rightarrow> (string \<times> FileNode) list \<Rightarrow> string \<Rightarrow> CertErr + string" where
  "readItem lib dir name =
     (if name = [] \<or> name = ''.'' \<or> name = ''..'' \<or> contains (CHR ''/'') name then lib_readElsewhere lib name
      else readRegularFile dir name)"

fun readItems ::
  "CertLib \<Rightarrow> (string \<times> FileNode) list \<Rightarrow> FileManifest list \<Rightarrow> CertFileMap \<Rightarrow> CertErr + CertFileMap" where
  "readItems lib dir [] files = Inr files"
| "readItems lib dir (item # rest) files =
     (case readItem lib dir (fm_Name item) of
        Inl e \<Rightarrow> Inl e
      | Inr data \<Rightarrow>
          if fm_Size item \<noteq> of_nat (length data) \<or> fm_SHA256 item \<noteq> hexEncode (lib_sha256 lib data)
          then Inl CertInvalidManifest
          else readItems lib dir rest (files(fm_Name item \<mapsto> data)))"

definition legacyManifest :: "CertLib \<Rightarrow> GenerationManifest \<Rightarrow> X509 \<Rightarrow> GenerationManifest" where
  "legacyManifest lib m leaf =
     m\<lparr>gm_Revision := 1, gm_SANs := certificateSANs leaf, gm_Serial := xc_Serial leaf,
       gm_Fingerprint := certificateFingerprint lib leaf\<rparr>"

definition loadGeneration ::
  "CertLib \<Rightarrow> string \<Rightarrow> GenerationID \<Rightarrow> (string \<times> FileNode) list
     \<Rightarrow> CertErr + GenerationManifest \<times> CertFileMap" where
  "loadGeneration lib domain generation dir =
     guardR (assertGenerationContents dir)
       (bindR (readRegularFile dir manifestFileName) (\<lambda>manifestData.
          case decodeGenerationManifest lib manifestData of
            None \<Rightarrow> Inl CertInvalidManifest
          | Some (decoded, legacy) \<Rightarrow>
              let m0 = (if legacy then decoded\<lparr>gm_Generation := generation, gm_Domain := domain\<rparr> else decoded)
              in bindR (readItems lib dir (gm_Files m0) Map.empty) (\<lambda>files.
                   if legacy then
                     (case firstCertificate lib (fileBytes files ''cert.pem'') of
                        None \<Rightarrow> Inl CertInvalidManifest
                      | Some leaf \<Rightarrow>
                          let m = legacyManifest lib m0 leaf
                          in guardR (validateGenerationManifest lib domain generation m files) (Inr (m, files)))
                   else guardR (validateGenerationManifest lib domain generation m0 files) (Inr (m0, files)))))"

section \<open>The current pointer\<close>

text \<open>
  \<^verbatim>\<open>readCurrentLink\<close>: the target must be \<^verbatim>\<open>releases/<generation>\<close> with a valid generation,
  which is a clean relative path then.
\<close>

definition readCurrentLink :: "string \<Rightarrow> CertErr + GenerationID" where
  "readCurrentLink target =
     (let prefixed = ReleasesDirectory @ ''/''
      in if \<not> prefix prefixed target then Inl CertUnsafePath
         else let generation = drop (length prefixed) target
              in if contains (CHR ''/'') generation \<or> generation = [] \<or> generation = ''.'' \<or> generation = ''..''
                 then Inl CertUnsafePath
                 else guardR (validateGeneration generation) (Inr generation))"

text \<open>Where a generation named by the old pointer file lives: among the releases, or the old directory.\<close>

datatype Place = InReleases | InLegacy

definition findGeneration ::
  "DomainDir \<Rightarrow> GenerationID \<Rightarrow> CertErr + Place \<times> (string \<times> FileNode) list" where
  "findGeneration dd generation =
     (case entryDirectory (map_of (entriesOf (dd_Releases dd)) generation) of
        Inr files \<Rightarrow> Inr (InReleases, files)
      | Inl e \<Rightarrow>
          if e \<noteq> CertNotFound then Inl e
          else (case entryDirectory (map_of (entriesOf (dd_Legacy dd)) generation) of
                  Inl _ \<Rightarrow> Inl e
                | Inr files \<Rightarrow> Inr (InLegacy, files)))"

definition currentState ::
  "CertLib \<Rightarrow> string \<Rightarrow> DomainDir \<Rightarrow> CertErr + GenerationID \<times> Place \<times> (string \<times> FileNode) list" where
  "currentState lib domain dd =
     (case dd_Current dd of
        None \<Rightarrow> Inl CertNotFound
      | Some (CurrentLink target) \<Rightarrow>
          bindR (readCurrentLink target) (\<lambda>generation.
            bindR (entryDirectory (map_of (entriesOf (dd_Releases dd)) generation)) (\<lambda>files.
              bindR (loadGeneration lib domain generation files) (\<lambda>_. Inr (generation, InReleases, files))))
      | Some CurrentOther \<Rightarrow> Inl CertUnsafePath
      | Some (CurrentFile data) \<Rightarrow>
          (let generation = TrimSpace data
           in guardR (validateGeneration generation)
                (bindR (findGeneration dd generation) (\<lambda>(place, files).
                   bindR (loadGeneration lib domain generation files) (\<lambda>_. Inr (generation, place, files))))))"

definition currentGeneration :: "CertLib \<Rightarrow> string \<Rightarrow> DomainDir \<Rightarrow> CertErr + GenerationID" where
  "currentGeneration lib domain dd = bindR (currentState lib domain dd) (\<lambda>(g, _, _). Inr g)"

section \<open>Writing the pointer\<close>

text \<open>
  The system calls that can fail. \<open>IoUnlinked\<close> says which files of a release a failing \<^verbatim>\<open>os.RemoveAll\<close>
  has deleted before it fails.
\<close>

datatype IOPoint =
    IoRandom | IoTempDir | IoTempMode | IoWriteFile string | IoWriteManifest | IoSyncTemp | IoPublish
  | IoSyncReleases | IoSymlink | IoRename | IoSyncDomain | IoRestore | IoSyncRestored
  | IoMoveLegacy | IoSyncMoved | IoSyncLegacy | IoMoveBack | IoEnsureDir | IoRemove string
  | IoUnlinked string string | IoReadDir

definition linkTo :: "GenerationID \<Rightarrow> CurrentNode" where
  "linkTo generation = CurrentLink (ReleasesDirectory @ ''/'' @ generation)"

text \<open>The pointer as it would be restored, or why it cannot be replaced.\<close>

definition captureCurrent :: "CurrentNode option \<Rightarrow> CertErr + CurrentNode option" where
  "captureCurrent cur =
     (case cur of
        None \<Rightarrow> Inr None
      | Some (CurrentLink target) \<Rightarrow> bindR (readCurrentLink target) (\<lambda>g. Inr (Some (linkTo g)))
      | Some CurrentOther \<Rightarrow> Inl CertUnsafePath
      | Some (CurrentFile data) \<Rightarrow>
          guardR (validateGeneration (TrimSpace data)) (Inr (Some (CurrentFile data))))"

text \<open>\<open>restoreCurrent\<close> puts the snapshot back; when it fails, the new pointer stays.\<close>

definition restoreCurrent :: "(IOPoint \<Rightarrow> bool) \<Rightarrow> CurrentNode option \<Rightarrow> DomainDir \<Rightarrow> CertErr option \<times> DomainDir" where
  "restoreCurrent io snapshot dd =
     (if io IoRestore then (Some CertIO, dd) else (None, dd\<lparr>dd_Current := snapshot\<rparr>))"

definition writeCurrent ::
  "(IOPoint \<Rightarrow> bool) \<Rightarrow> GenerationID \<Rightarrow> DomainDir \<Rightarrow> CertErr option \<times> DomainDir" where
  "writeCurrent io generation dd =
     (case validateGeneration generation of
        Some e \<Rightarrow> (Some e, dd)
      | None \<Rightarrow>
          (case entryDirectory (map_of (entriesOf (dd_Releases dd)) generation) of
             Inl e \<Rightarrow> (Some e, dd)
           | Inr _ \<Rightarrow>
               (case captureCurrent (dd_Current dd) of
                  Inl e \<Rightarrow> (Some e, dd)
                | Inr snapshot \<Rightarrow>
                    if io IoSymlink \<or> io IoRename then (Some CertIO, dd)
                    else let dd1 = dd\<lparr>dd_Current := Some (linkTo generation)\<rparr>
                         in if io IoSyncDomain then (Some CertIO, snd (restoreCurrent io snapshot dd1))
                            else (None, dd1))))"

section \<open>Migration of the old layout\<close>

text \<open>
  \<^verbatim>\<open>currentState\<close> with migration: an old pointer file becomes a link, and a generation still in
  the old directory is moved among the releases first.
\<close>

definition migrateCurrent ::
  "CertLib \<Rightarrow> (IOPoint \<Rightarrow> bool) \<Rightarrow> string \<Rightarrow> DomainDir
     \<Rightarrow> (CertErr + GenerationID \<times> (string \<times> FileNode) list) \<times> DomainDir" where
  "migrateCurrent lib io domain dd =
     (case currentState lib domain dd of
        Inl e \<Rightarrow> (Inl e, dd)
      | Inr (generation, place, files) \<Rightarrow>
          (case dd_Current dd of
             Some (CurrentFile data) \<Rightarrow>
               (case place of
                  InReleases \<Rightarrow>
                    (case writeCurrent io generation dd of
                       (Some e, dd') \<Rightarrow> (Inl e, dd')
                     | (None, dd') \<Rightarrow> (Inr (generation, files), dd'))
                | InLegacy \<Rightarrow>
                    (if dd_Releases dd = DirUnsafe then (Inl CertUnsafePath, dd)
                     else if io IoEnsureDir then (Inl CertIO, dd)
                     else if io IoMoveLegacy then (Inl CertIO, dd\<lparr>dd_Releases := DirAt (entriesOf (dd_Releases dd))\<rparr>)
                     else
                       let ddR = dd\<lparr>dd_Releases := DirAt (entriesOf (dd_Releases dd))\<rparr>;
                           moved = ddR\<lparr>dd_Releases := DirAt (entriesOf (dd_Releases dd) @ [(generation, EntryDir files)]),
                                       dd_Legacy := DirAt (filter (\<lambda>(n, _). n \<noteq> generation) (entriesOf (dd_Legacy dd)))\<rparr>;
                           back = (\<lambda>d. if io IoMoveBack then d
                                       else d\<lparr>dd_Releases := dd_Releases ddR, dd_Legacy := dd_Legacy ddR\<rparr>)
                       in if io IoSyncMoved \<or> io IoSyncLegacy then (Inl CertIO, back moved)
                          else (case writeCurrent io generation moved of
                                  (Some e, dd') \<Rightarrow> (Inl e, back dd')
                                | (None, dd') \<Rightarrow> (Inr (generation, files), dd'))))
           | _ \<Rightarrow> (Inr (generation, files), dd)))"

end
