(* ===== verification/CertPublish.thy ===== *)
theory CertPublish
  imports CertStore Contract "HOL-Library.Product_Lexorder"
begin

text \<open>
  The operations of the certificate store over its root directory: publishing, reading, garbage
  collection and abort.  The temporary directory of a publication is not represented: its name
  is skipped by every reader, and it is removed or left behind on failure.
\<close>

type_synonym CertRoot = "(string \<Rightarrow> DomainDir DirNode) DirNode"

definition emptyDomain :: DomainDir where
  "emptyDomain = \<lparr>dd_Releases = DirAt [], dd_Legacy = DirAbsent, dd_Current = None\<rparr>"

section \<open>Paths\<close>

text \<open>\<^verbatim>\<open>domainPaths\<close> without and with creation.\<close>

definition domainPaths :: "CertRoot \<Rightarrow> string \<Rightarrow> CertErr + string \<times> DomainDir" where
  "domainPaths root domain =
     bindR (normalizeDomain domain) (\<lambda>safeDomain.
       bindR (assertDirectory root) (\<lambda>domains.
         bindR (assertDirectory (domains safeDomain)) (\<lambda>dd.
           case assertDirectory (dd_Releases dd) of
             Inr _ \<Rightarrow> Inr (safeDomain, dd)
           | Inl e \<Rightarrow>
               if e \<noteq> CertNotFound then Inl e
               else bindR (assertDirectory (dd_Legacy dd)) (\<lambda>_. Inr (safeDomain, dd)))))"

definition ensureReleases :: "(IOPoint \<Rightarrow> bool) \<Rightarrow> DomainDir DirNode \<Rightarrow> CertErr + DomainDir" where
  "ensureReleases io d =
     (case d of
        DirUnsafe \<Rightarrow> Inl CertUnsafePath
      | DirAbsent \<Rightarrow> if io IoEnsureDir then Inl CertIO else Inr emptyDomain
      | DirAt dd \<Rightarrow>
          (case dd_Releases dd of
             DirUnsafe \<Rightarrow> Inl CertUnsafePath
           | DirAbsent \<Rightarrow> if io IoEnsureDir then Inl CertIO else Inr (dd\<lparr>dd_Releases := DirAt []\<rparr>)
           | DirAt _ \<Rightarrow> if io IoEnsureDir then Inl CertIO else Inr dd))"

definition setDomain :: "CertRoot \<Rightarrow> string \<Rightarrow> DomainDir \<Rightarrow> CertRoot" where
  "setDomain root safeDomain dd =
     (case root of DirAt domains \<Rightarrow> DirAt (domains(safeDomain := DirAt dd)) | other \<Rightarrow> other)"

section \<open>Publishing\<close>

fun stagedFiles :: "(string \<times> FileNode) list \<Rightarrow> (string \<times> FileNode) list \<Rightarrow> CertFileMap \<Rightarrow> CertErr + CertFileMap" where
  "stagedFiles dir [] files = Inr files"
| "stagedFiles dir ((name, node) # rest) files =
     guardR (validateStoreFile name)
       (bindR (readRegularFile dir name) (\<lambda>data. stagedFiles dir rest (files(name \<mapsto> data))))"

definition readStaging ::
  "CertLib \<Rightarrow> int \<Rightarrow> string \<Rightarrow> (string \<times> FileNode) list DirNode \<Rightarrow> string list \<Rightarrow> CertErr + CertFileMap" where
  "readStaging lib now domain staging sans =
     bindR (normalizeDomain domain) (\<lambda>_.
       bindR (assertDirectory staging) (\<lambda>entries.
         bindR (stagedFiles entries entries Map.empty) (\<lambda>files.
           if list_ex (\<lambda>name. files name = None) [''cert.pem'', ''key.pem'', ''fullchain.pem'', ''ca.pem'']
           then Inl CertInvalidManifest
           else let all = (if files ''time.log'' = None then files(''time.log'' \<mapsto> showInt now @ [CHR 0x0A]) else files)
                in guardR (validateCertificateFiles lib domain all sans now) (Inr all))))"

fun newGenerationPath :: "string option list \<Rightarrow> (string \<times> EntryNode) list \<Rightarrow> CertErr + GenerationID" where
  "newGenerationPath [] entries = Inl CertIO"
| "newGenerationPath (token # tokens) entries =
     bindR (newGenerationID token) (\<lambda>generation.
       if map_of entries generation = None then Inr generation else newGenerationPath tokens entries)"

fun maxRevision :: "CertLib \<Rightarrow> string \<Rightarrow> (string \<times> EntryNode) list \<Rightarrow> Revision \<Rightarrow> CertErr + Revision" where
  "maxRevision lib domain [] revision = Inr revision"
| "maxRevision lib domain ((name, node) # entries) revision =
     (if node = EntryLink then Inl CertUnsafePath
      else if prefix ''.tmp-'' name then maxRevision lib domain entries revision
      else if validateGeneration name \<noteq> None then maxRevision lib domain entries revision
      else bindR (entryDirectory (Some node)) (\<lambda>files.
             bindR (loadGeneration lib domain name files) (\<lambda>(m, _).
               maxRevision lib domain entries (if gm_Revision m > revision then gm_Revision m else revision))))"

definition parentRevision :: "CertLib \<Rightarrow> string \<Rightarrow> (string \<times> EntryNode) list DirNode \<Rightarrow> Revision \<Rightarrow> CertErr + Revision" where
  "parentRevision lib domain parent revision =
     (case parent of
        DirAbsent \<Rightarrow> Inr revision
      | DirUnsafe \<Rightarrow> Inl CertUnsafePath
      | DirAt entries \<Rightarrow> maxRevision lib domain entries revision)"

definition nextRevision :: "CertLib \<Rightarrow> string \<Rightarrow> DomainDir \<Rightarrow> CertErr + Revision" where
  "nextRevision lib domain dd =
     bindR (parentRevision lib domain (dd_Releases dd) 0) (\<lambda>r1.
       bindR (parentRevision lib domain (dd_Legacy dd) r1) (\<lambda>revision.
         if revision = - 1 then Inl CertInvalidManifest else Inr (revision + 1)))"

definition releaseFiles :: "CertFileMap \<Rightarrow> string \<Rightarrow> (string \<times> FileNode) list" where
  "releaseFiles files manifestData =
     map (\<lambda>name. (name, Regular (fileBytes files name))) fixedFileNames
       @ [(manifestFileName, Regular (manifestData @ [CHR 0x0A]))]"

definition addRelease :: "GenerationID \<Rightarrow> (string \<times> FileNode) list \<Rightarrow> DomainDir \<Rightarrow> DomainDir" where
  "addRelease generation files dd =
     dd\<lparr>dd_Releases := DirAt (entriesOf (dd_Releases dd) @ [(generation, EntryDir files)])\<rparr>"

text \<open>
  \<^verbatim>\<open>os.RemoveAll\<close> of a release: it is gone, or the removal fails and the directory stays with the
  files that were not deleted by then.
\<close>

fun partialNode :: "(IOPoint \<Rightarrow> bool) \<Rightarrow> GenerationID \<Rightarrow> EntryNode \<Rightarrow> EntryNode" where
  "partialNode io generation (EntryDir files) = EntryDir (filter (\<lambda>(n, _). \<not> io (IoUnlinked generation n)) files)"
| "partialNode io generation node = node"

definition removeRelease ::
  "(IOPoint \<Rightarrow> bool) \<Rightarrow> GenerationID \<Rightarrow> (string \<times> EntryNode) list \<Rightarrow> (string \<times> EntryNode) list" where
  "removeRelease io generation entries =
     (if io (IoRemove generation)
      then map (\<lambda>(n, node). (n, if n = generation then partialNode io generation node else node)) entries
      else filter (\<lambda>(n, _). n \<noteq> generation) entries)"

definition dropRelease :: "(IOPoint \<Rightarrow> bool) \<Rightarrow> GenerationID \<Rightarrow> DomainDir \<Rightarrow> DomainDir" where
  "dropRelease io generation dd =
     dd\<lparr>dd_Releases := DirAt (removeRelease io generation (entriesOf (dd_Releases dd)))\<rparr>"

lemma map_of_removeRelease:
  "map_of (removeRelease io g es) n =
     (if n \<noteq> g then map_of es n else if io (IoRemove g) then map_option (partialNode io g) (map_of es g) else None)"
  by (induction es) (auto simp: removeRelease_def)

lemma removeRelease_other: "n \<noteq> g \<Longrightarrow> map_of (removeRelease io g es) n = map_of es n"
  by (simp add: map_of_removeRelease)

lemma partialNode_twice [simp]: "partialNode io g (partialNode io g node) = partialNode io g node"
  by (cases node) (auto intro: filter_cong)

text \<open>Everything before the generation directory is renamed into place.\<close>

definition preparePublish ::
  "CertLib \<Rightarrow> (IOPoint \<Rightarrow> bool) \<Rightarrow> int \<Rightarrow> string option list \<Rightarrow> string \<Rightarrow> string \<Rightarrow> string list \<Rightarrow> CertFileMap
     \<Rightarrow> DomainDir \<Rightarrow> CertErr + GenerationID \<times> GenerationManifest \<times> (string \<times> FileNode) list" where
  "preparePublish lib io now tokens domain safeDomain sans files dd =
     guardR (case currentState lib safeDomain dd of
               Inl e \<Rightarrow> if e = CertNotFound then None else Some e | Inr _ \<Rightarrow> None)
       (bindR (newGenerationPath (take 8 tokens) (entriesOf (dd_Releases dd))) (\<lambda>generation.
          guardR (failIf (io IoTempDir \<or> io IoTempMode) CertIO)
            (bindR (nextRevision lib domain dd) (\<lambda>revision.
               bindR (buildGenerationManifest lib domain generation revision sans files now) (\<lambda>m.
                 if list_ex (\<lambda>name. io (IoWriteFile name)) fixedFileNames then Inl CertIO
                 else case lib_encodeManifest lib m of
                   None \<Rightarrow> Inl CertIO
                 | Some data \<Rightarrow>
                     if io IoWriteManifest \<or> io IoSyncTemp then Inl CertIO
                     else Inr (generation, m, releaseFiles files data))))))"

definition commitPublish ::
  "(IOPoint \<Rightarrow> bool) \<Rightarrow> GenerationID \<Rightarrow> (string \<times> FileNode) list \<Rightarrow> DomainDir \<Rightarrow> CertErr option \<times> DomainDir" where
  "commitPublish io generation files dd =
     (if io IoPublish then (Some CertIO, dd)
      else let dd1 = addRelease generation files dd
           in if io IoSyncReleases then (Some CertIO, dropRelease io generation dd1)
              else (case writeCurrent io generation dd1 of
                      (Some e, dd2) \<Rightarrow> (Some e, dropRelease io generation dd2)
                    | (None, dd2) \<Rightarrow> (None, dd2)))"

definition publish ::
  "CertLib \<Rightarrow> (IOPoint \<Rightarrow> bool) \<Rightarrow> int \<Rightarrow> string option list \<Rightarrow> string \<Rightarrow> (string \<times> FileNode) list DirNode
     \<Rightarrow> string list \<Rightarrow> CertRoot \<Rightarrow> (CertErr + GenerationID \<times> CertificateManifest) \<times> CertRoot" where
  "publish lib io now tokens domain staging sans root =
     (case readStaging lib now domain staging sans of
        Inl e \<Rightarrow> (Inl e, root)
      | Inr files \<Rightarrow>
          (case (normalizeDomain domain, root) of
             (Inl e, _) \<Rightarrow> (Inl e, root)
           | (Inr safeDomain, DirAbsent) \<Rightarrow> (Inl CertNotFound, root)
           | (Inr safeDomain, DirUnsafe) \<Rightarrow> (Inl CertUnsafePath, root)
           | (Inr safeDomain, DirAt domains) \<Rightarrow>
               (case ensureReleases io (domains safeDomain) of
                  Inl e \<Rightarrow> (Inl e, root)
                | Inr dd \<Rightarrow>
                    (case preparePublish lib io now tokens domain safeDomain sans files dd of
                       Inl e \<Rightarrow> (Inl e, setDomain root safeDomain dd)
                     | Inr (generation, m, out) \<Rightarrow>
                         (case commitPublish io generation out dd of
                            (Some e, dd') \<Rightarrow> (Inl e, setDomain root safeDomain dd')
                          | (None, dd') \<Rightarrow> (Inr (generation, gm_Files m), setDomain root safeDomain dd'))))))"

section \<open>Reading\<close>

definition GetCurrent :: "CertLib \<Rightarrow> string \<Rightarrow> CertRoot \<Rightarrow> CertErr + GenerationID" where
  "GetCurrent lib domain root =
     bindR (domainPaths root domain) (\<lambda>(safeDomain, dd). currentGeneration lib safeDomain dd)"

text \<open>An empty generation stands for the current one, which migrates an old layout on the way.\<close>

definition resolveGeneration ::
  "CertLib \<Rightarrow> (IOPoint \<Rightarrow> bool) \<Rightarrow> string \<Rightarrow> GenerationID \<Rightarrow> CertRoot
     \<Rightarrow> (CertErr + GenerationID \<times> (string \<times> FileNode) list) \<times> CertRoot" where
  "resolveGeneration lib io domain requested root =
     (if requested \<noteq> [] \<and> validateGeneration requested \<noteq> None then (Inl CertInvalidGeneration, root)
      else case domainPaths root domain of
        Inl e \<Rightarrow> (Inl e, root)
      | Inr (safeDomain, dd) \<Rightarrow>
          if requested = [] then
            (case migrateCurrent lib io safeDomain dd of
               (Inl e, dd') \<Rightarrow> (Inl e, setDomain root safeDomain dd')
             | (Inr (generation, _), dd') \<Rightarrow>
                 (bindR (findGeneration dd' generation) (\<lambda>(_, files). Inr (generation, files)),
                  setDomain root safeDomain dd'))
          else (bindR (findGeneration dd requested) (\<lambda>(_, files). Inr (requested, files)), root))"

definition LoadGenerationManifest ::
  "CertLib \<Rightarrow> (IOPoint \<Rightarrow> bool) \<Rightarrow> string \<Rightarrow> GenerationID \<Rightarrow> CertRoot
     \<Rightarrow> (CertErr + GenerationManifest) \<times> CertRoot" where
  "LoadGenerationManifest lib io domain requested root =
     (let (r, root') = resolveGeneration lib io domain requested root
      in (bindR r (\<lambda>(generation, dir). bindR (loadGeneration lib domain generation dir) (\<lambda>(m, _). Inr m)), root'))"

definition LoadManifest ::
  "CertLib \<Rightarrow> (IOPoint \<Rightarrow> bool) \<Rightarrow> string \<Rightarrow> GenerationID \<Rightarrow> CertRoot
     \<Rightarrow> (CertErr + CertificateManifest) \<times> CertRoot" where
  "LoadManifest lib io domain requested root =
     (let (r, root') = LoadGenerationManifest lib io domain requested root
      in (bindR r (\<lambda>m. Inr (gm_Files m)), root'))"

definition ReadCertFile ::
  "CertLib \<Rightarrow> (IOPoint \<Rightarrow> bool) \<Rightarrow> string \<Rightarrow> GenerationID \<Rightarrow> string \<Rightarrow> CertRoot \<Rightarrow> (CertErr + string) \<times> CertRoot" where
  "ReadCertFile lib io domain requested name root =
     (case validateStoreFile name of
        Some e \<Rightarrow> (Inl e, root)
      | None \<Rightarrow>
          (let (r, root') = resolveGeneration lib io domain requested root
           in (bindR r (\<lambda>(generation, dir).
                 bindR (loadGeneration lib domain generation dir) (\<lambda>(_, files). Inr (fileBytes files name))),
               root')))"

record GenerationVersion =
  gv_Generation :: GenerationID
  gv_Revision :: Revision
  gv_Domain :: string
  gv_SANs :: "string list"
  gv_Serial :: string
  gv_Fingerprint :: string

definition generationVersion :: "GenerationManifest \<Rightarrow> GenerationVersion" where
  "generationVersion m = \<lparr>gv_Generation = gm_Generation m, gv_Revision = gm_Revision m, gv_Domain = gm_Domain m,
     gv_SANs = gm_SANs m, gv_Serial = gm_Serial m, gv_Fingerprint = gm_Fingerprint m\<rparr>"

definition withCurrent ::
  "CertLib \<Rightarrow> (IOPoint \<Rightarrow> bool) \<Rightarrow> string \<Rightarrow> CertRoot
     \<Rightarrow> (GenerationID \<Rightarrow> (string \<times> FileNode) list \<Rightarrow> CertErr + 'a) \<Rightarrow> (CertErr + 'a) \<times> CertRoot" where
  "withCurrent lib io domain root use =
     (case domainPaths root domain of
        Inl e \<Rightarrow> (Inl e, root)
      | Inr (safeDomain, dd) \<Rightarrow>
          (case migrateCurrent lib io safeDomain dd of
             (Inl e, dd') \<Rightarrow> (Inl e, setDomain root safeDomain dd')
           | (Inr (generation, files), dd') \<Rightarrow> (use generation files, setDomain root safeDomain dd')))"

definition ReadCurrent ::
  "CertLib \<Rightarrow> (IOPoint \<Rightarrow> bool) \<Rightarrow> string \<Rightarrow> string \<Rightarrow> CertRoot \<Rightarrow> (CertErr + string) \<times> CertRoot" where
  "ReadCurrent lib io domain name root =
     (case validateStoreFile name of
        Some e \<Rightarrow> (Inl e, root)
      | None \<Rightarrow> withCurrent lib io domain root (\<lambda>_ files. readRegularFile files name))"

definition CurrentVersion ::
  "CertLib \<Rightarrow> (IOPoint \<Rightarrow> bool) \<Rightarrow> string \<Rightarrow> CertRoot \<Rightarrow> (CertErr + GenerationVersion) \<times> CertRoot" where
  "CurrentVersion lib io domain root =
     withCurrent lib io domain root
       (\<lambda>generation files. bindR (loadGeneration lib domain generation files) (\<lambda>(m, _). Inr (generationVersion m)))"

text \<open>The path ends in the pointer's name; \<open>base\<close> is the root directory's own path.\<close>

definition ResolveCurrentPath ::
  "CertLib \<Rightarrow> (IOPoint \<Rightarrow> bool) \<Rightarrow> string \<Rightarrow> string \<Rightarrow> CertRoot \<Rightarrow> (CertErr + string) \<times> CertRoot" where
  "ResolveCurrentPath lib io base domain root =
     (case domainPaths root domain of
        Inl e \<Rightarrow> (Inl e, root)
      | Inr (safeDomain, _) \<Rightarrow>
          withCurrent lib io domain root (\<lambda>_ _. Inr (base @ ''/'' @ safeDomain @ ''/current'')))"

section \<open>Garbage collection and abort\<close>

record GCOptions =
  gc_KeepRecent :: int
  gc_ReportReferences :: "GenerationID list"
  gc_DeploymentReferences :: "GenerationID list"
  gc_DeploymentReports :: "DeploymentReport list"
  gc_ProtectedGenerations :: "GenerationID list"
  gc_Protected :: "GenerationID list"

record GCResult =
  gr_Removed :: "GenerationID list"
  gr_Retained :: "GenerationID list"
  gr_Failed :: "GenerationID list"

text \<open>
  The explicit reference lists must all be valid; a report without a generation is skipped.
\<close>

definition gcProtected :: "GCOptions \<Rightarrow> CertErr + GenerationID list" where
  "gcProtected options =
     (let explicit = gc_ReportReferences options @ gc_DeploymentReferences options
                       @ gc_ProtectedGenerations options @ gc_Protected options;
          reports = filter (\<lambda>g. g \<noteq> []) (map dr_Generation (gc_DeploymentReports options))
      in if list_ex (\<lambda>g. validateGeneration g \<noteq> None) (explicit @ reports)
         then Inl CertInvalidGCOptions else Inr (explicit @ reports))"

fun gcScan ::
  "CertLib \<Rightarrow> string \<Rightarrow> (string \<times> EntryNode) list \<Rightarrow> (GenerationID \<times> Revision) list \<Rightarrow> GCResult
     \<Rightarrow> (GenerationID \<times> Revision) list \<times> GCResult" where
  "gcScan lib domain [] candidates result = (candidates, result)"
| "gcScan lib domain ((name, node) # entries) candidates result =
     (if node = EntryLink then
        gcScan lib domain entries candidates
          (if validateGeneration name = None then result\<lparr>gr_Failed := gr_Failed result @ [name]\<rparr> else result)
      else if prefix ''.tmp-'' name \<or> validateGeneration name \<noteq> None then gcScan lib domain entries candidates result
      else case node of
        EntryDir files \<Rightarrow>
          (case loadGeneration lib domain name files of
             Inl _ \<Rightarrow> gcScan lib domain entries candidates
                        (result\<lparr>gr_Failed := gr_Failed result @ [name], gr_Retained := gr_Retained result @ [name]\<rparr>)
           | Inr (m, _) \<Rightarrow> gcScan lib domain entries (candidates @ [(name, gm_Revision m)]) result)
      | _ \<Rightarrow> gcScan lib domain entries candidates (result\<lparr>gr_Failed := gr_Failed result @ [name]\<rparr>))"

text \<open>The newest first; equal revisions by descending name.\<close>

definition gcOrder :: "(GenerationID \<times> Revision) list \<Rightarrow> (GenerationID \<times> Revision) list" where
  "gcOrder candidates = rev (sort_key (\<lambda>(g, r). (r, g)) candidates)"

fun gcSweep ::
  "(IOPoint \<Rightarrow> bool) \<Rightarrow> GenerationID option \<Rightarrow> GenerationID list \<Rightarrow> int \<Rightarrow> (GenerationID \<times> Revision) list \<Rightarrow> int
     \<Rightarrow> GCResult \<Rightarrow> (string \<times> EntryNode) list \<Rightarrow> GCResult \<times> (string \<times> EntryNode) list" where
  "gcSweep io current prot keep [] index result entries = (result, entries)"
| "gcSweep io current prot keep ((g, _) # items) index result entries =
     (if Some g = current \<or> index < keep \<or> g \<in> set prot then
        gcSweep io current prot keep items (index + 1) (result\<lparr>gr_Retained := gr_Retained result @ [g]\<rparr>) entries
      else
        gcSweep io current prot keep items (index + 1)
          (if io (IoRemove g)
           then result\<lparr>gr_Failed := gr_Failed result @ [g], gr_Retained := gr_Retained result @ [g]\<rparr>
           else result\<lparr>gr_Removed := gr_Removed result @ [g]\<rparr>)
          (removeRelease io g entries))"

definition emptyGCResult :: GCResult where
  "emptyGCResult = \<lparr>gr_Removed = [], gr_Retained = [], gr_Failed = []\<rparr>"

definition sortedResult :: "GCResult \<Rightarrow> GCResult" where
  "sortedResult r = r\<lparr>gr_Removed := sort (gr_Removed r), gr_Retained := sort (gr_Retained r)\<rparr>"

text \<open>
  A failing sync of the directory is reported together with the result, which is then not sorted.
\<close>

definition gcRelease ::
  "CertLib \<Rightarrow> (IOPoint \<Rightarrow> bool) \<Rightarrow> string \<Rightarrow> string \<Rightarrow> GenerationID option \<Rightarrow> GenerationID list \<Rightarrow> int
     \<Rightarrow> DomainDir \<Rightarrow> CertRoot \<Rightarrow> (GCResult \<times> CertErr option) \<times> CertRoot" where
  "gcRelease lib io domain safeDomain current prot keep dd root =
     (case dd_Releases dd of
        DirAbsent \<Rightarrow> ((emptyGCResult, None), root)
      | DirUnsafe \<Rightarrow> ((emptyGCResult, Some CertIO), root)
      | DirAt entries \<Rightarrow>
          if io IoReadDir then ((emptyGCResult, Some CertIO), root)
          else let (candidates, r1) = gcScan lib domain entries [] emptyGCResult;
                   (r2, entries') = gcSweep io current prot keep (gcOrder candidates) 0 r1 entries;
                   root' = setDomain root safeDomain (dd\<lparr>dd_Releases := DirAt entries'\<rparr>)
               in if gr_Removed r2 \<noteq> [] \<and> io IoSyncReleases then ((r2, Some CertIO), root')
                  else ((sortedResult r2, None), root'))"

text \<open>A missing current pointer protects nothing; any other fault of it stops the collection.\<close>

definition GarbageCollect ::
  "CertLib \<Rightarrow> (IOPoint \<Rightarrow> bool) \<Rightarrow> string \<Rightarrow> GCOptions \<Rightarrow> CertRoot
     \<Rightarrow> (GCResult \<times> CertErr option) \<times> CertRoot" where
  "GarbageCollect lib io domain options root =
     (if gc_KeepRecent options < 0 then ((emptyGCResult, Some CertInvalidGCOptions), root)
      else case bindR (gcProtected options) (\<lambda>prot. bindR (domainPaths root domain) (\<lambda>(s, dd). Inr (prot, s, dd))) of
        Inl e \<Rightarrow> ((emptyGCResult, Some e), root)
      | Inr (prot, safeDomain, dd) \<Rightarrow>
          (case currentGeneration lib safeDomain dd of
             Inr g \<Rightarrow> gcRelease lib io domain safeDomain (Some g) prot (gc_KeepRecent options) dd root
           | Inl e \<Rightarrow>
               if e = CertNotFound
               then gcRelease lib io domain safeDomain None prot (gc_KeepRecent options) dd root
               else ((emptyGCResult, Some e), root)))"

definition abortRelease ::
  "(IOPoint \<Rightarrow> bool) \<Rightarrow> string \<Rightarrow> GenerationID \<Rightarrow> DomainDir \<Rightarrow> CertRoot \<Rightarrow> CertErr option \<times> CertRoot" where
  "abortRelease io safeDomain generation dd root =
     (case entryDirectory (map_of (entriesOf (dd_Releases dd)) generation) of
        Inl e \<Rightarrow> (Some e, root)
      | Inr files \<Rightarrow>
          (case assertGenerationContents files of
             Some e \<Rightarrow> (Some e, root)
           | None \<Rightarrow>
               (if io (IoRemove generation) \<or> io IoSyncReleases then Some CertIO else None,
                setDomain root safeDomain (dropRelease io generation dd))))"

definition Abort ::
  "CertLib \<Rightarrow> (IOPoint \<Rightarrow> bool) \<Rightarrow> string \<Rightarrow> GenerationID \<Rightarrow> CertRoot \<Rightarrow> CertErr option \<times> CertRoot" where
  "Abort lib io domain generation root =
     (case guardR (validateGeneration generation) (domainPaths root domain) of
        Inl e \<Rightarrow> (Some e, root)
      | Inr (safeDomain, dd) \<Rightarrow>
          (case currentGeneration lib safeDomain dd of
             Inr g \<Rightarrow> if g = generation then (Some CertCurrentGeneration, root)
                      else abortRelease io safeDomain generation dd root
           | Inl e \<Rightarrow> if e \<noteq> CertNotFound then (Some e, root) else abortRelease io safeDomain generation dd root))"

end
