(* ===== verification/CertSafety.thy ===== *)
theory CertSafety
  imports CertPublish
begin

text \<open>
  What the certificate store guarantees: integrity of what is read, atomicity of publishing under
  every combination of failing system calls but one, growing revisions, and the generations that
  collection, abort and migration keep.
\<close>

section \<open>Directories\<close>

lemma assertDirectory_Inr [simp]: "assertDirectory d = Inr x \<longleftrightarrow> d = DirAt x"
  by (cases d) (auto simp: assertDirectory_def)

lemma entryDirectory_Inr [simp]: "entryDirectory e = Inr files \<longleftrightarrow> e = Some (EntryDir files)"
  by (auto simp: entryDirectory_def split: option.splits EntryNode.splits)

lemma entriesOf_DirAt [simp]: "entriesOf (DirAt es) = es"
  by (simp add: entriesOf_def)

lemma readRegularFile_Inr [simp]: "readRegularFile files name = Inr data \<longleftrightarrow> map_of files name = Some (Regular data)"
  by (auto simp: readRegularFile_def split: option.splits FileNode.splits)

lemma map_of_filter_other: "n \<noteq> g \<Longrightarrow> map_of (filter (\<lambda>(k, _). k \<noteq> g) es) n = map_of es n"
  by (induction es) auto

lemma map_of_filter_same: "map_of (filter (\<lambda>(k, _). k \<noteq> g) es) g = None"
  by (induction es) auto

lemma filter_absent: "map_of es g = None \<Longrightarrow> filter (\<lambda>(k, _). k \<noteq> g) es = es"
  by (induction es) (auto split: if_splits)

section \<open>Loading a generation\<close>

definition itemMatches :: "CertLib \<Rightarrow> FileManifest \<Rightarrow> string \<Rightarrow> bool" where
  "itemMatches lib item data \<longleftrightarrow>
     fm_Size item = of_nat (length data) \<and> fm_SHA256 item = hexEncode (lib_sha256 lib data)"

lemma readItems_ok:
  assumes "readItems lib dir items fm0 = Inr fm"
  shows "(\<forall>n. n \<notin> fm_Name ` set items \<longrightarrow> fm n = fm0 n) \<and>
    (distinct (map fm_Name items) \<longrightarrow>
      (\<forall>item\<in>set items. \<exists>data. fm (fm_Name item) = Some data \<and> itemMatches lib item data
         \<and> readItem lib dir (fm_Name item) = Inr data))"
  using assms
proof (induction items arbitrary: fm0)
  case (Cons item items)
  obtain data where read: "readItem lib dir (fm_Name item) = Inr data" "itemMatches lib item data"
    "readItems lib dir items (fm0(fm_Name item \<mapsto> data)) = Inr fm"
    using Cons.prems by (auto simp: itemMatches_def split: sum.splits if_splits)
  show ?case
    using Cons.IH[OF read(3)] read(1,2) by auto
qed simp

text \<open>What a generation that loads looks like.\<close>

definition goodGeneration :: "CertLib \<Rightarrow> GenerationManifest \<Rightarrow> CertFileMap \<Rightarrow> bool" where
  "goodGeneration lib m files \<longleftrightarrow>
     gm_Revision m \<noteq> 0 \<and> validateGeneration (gm_Generation m) = None \<and> validateManifest (gm_Files m) = None \<and>
     (\<forall>item\<in>set (gm_Files m). \<exists>data. files (fm_Name item) = Some data \<and> itemMatches lib item data)"

lemma validateManifest_None:
  "validateManifest m = None \<longleftrightarrow>
     CertificateManifest_Validate m = None \<and> length m = 5 \<and> set fixedFileNames \<subseteq> fm_Name ` set m"
  by (auto simp: validateManifest_def list_all_iff fixedFileNames_def)

lemma validManifest_distinct: "CertificateManifest_Validate m = None \<Longrightarrow> distinct (map fm_Name m)"
  using manifestLoop_None[of "[]" m] by (simp add: CertificateManifest_Validate_def)

lemma validateGenerationManifest_None:
  assumes "validateGenerationManifest lib domain generation m files = None"
  shows "(generation = [] \<or> gm_Generation m = generation) \<and> validateGeneration (gm_Generation m) = None
    \<and> gm_Revision m \<noteq> 0 \<and> validateManifest (gm_Files m) = None
    \<and> normalizeDomain (gm_Domain m) = normalizeDomain domain"
  using assms by (auto simp: validateGenerationManifest_def valid_simps split: if_splits sum.splits)

lemma loadGeneration_ok:
  assumes "loadGeneration lib domain generation dir = Inr (m, files)"
  shows "goodGeneration lib m files \<and> (generation = [] \<or> gm_Generation m = generation)
    \<and> (\<forall>item\<in>set (gm_Files m). map_of dir (fm_Name item) = map_option Regular (files (fm_Name item)))"
proof -
  obtain raw where "map_of dir manifestFileName = Some (Regular raw)" and
    run: "(case decodeGenerationManifest lib raw of
            None \<Rightarrow> Inl CertInvalidManifest
          | Some (decoded, legacy) \<Rightarrow>
              let m0 = (if legacy then decoded\<lparr>gm_Generation := generation, gm_Domain := domain\<rparr> else decoded)
              in bindR (readItems lib dir (gm_Files m0) Map.empty) (\<lambda>files.
                   if legacy then
                     (case firstCertificate lib (fileBytes files ''cert.pem'') of
                        None \<Rightarrow> Inl CertInvalidManifest
                      | Some leaf \<Rightarrow>
                          let m = legacyManifest lib m0 leaf
                          in guardR (validateGenerationManifest lib domain generation m files) (Inr (m, files)))
                   else guardR (validateGenerationManifest lib domain generation m0 files) (Inr (m0, files)))) = Inr (m, files)"
    using assms by (auto simp: loadGeneration_def)
  obtain decoded legacy where dec: "decodeGenerationManifest lib raw = Some (decoded, legacy)"
    using run by (cases "decodeGenerationManifest lib raw") auto
  have d: "readItems lib dir (gm_Files decoded) Map.empty = Inr files" "gm_Files m = gm_Files decoded"
      "validateGenerationManifest lib domain generation m files = None"
    using run by (cases legacy; auto simp: dec Let_def legacyManifest_def split: option.splits)+
  note v = validateGenerationManifest_None[OF d(3)]
  have "distinct (map fm_Name (gm_Files decoded))"
    using v d(2) validManifest_distinct by (auto simp: validateManifest_None)
  then have items: "\<forall>item\<in>set (gm_Files m). \<exists>data. files (fm_Name item) = Some data
      \<and> itemMatches lib item data \<and> readItem lib dir (fm_Name item) = Inr data"
    using readItems_ok[OF d(1)] d(2) by simp
  have fixed: "fm_Name item \<in> set fixedFileNames" if "item \<in> set (gm_Files m)" for item
    using v that manifestLoop_None[of "[]" "gm_Files m"]
    by (auto simp: validateManifest_None CertificateManifest_Validate_def FileManifest_Validate_def valid_simps)
  have "readRegularFile dir (fm_Name item) = readItem lib dir (fm_Name item)" if "item \<in> set (gm_Files m)" for item
    using fixed[OF that] by (auto simp: readItem_def fixedFileNames_def contains_def)
  then have "\<forall>item\<in>set (gm_Files m). map_of dir (fm_Name item) = map_option Regular (files (fm_Name item))"
    using items by fastforce
  then show ?thesis
    using v items by (auto simp: goodGeneration_def)
qed

section \<open>Revisions\<close>

lemma maxRevision_ok:
  assumes "maxRevision lib domain es r0 = Inr r"
  shows "r0 \<le> r \<and> (\<forall>(name, node)\<in>set es. \<not> prefix ''.tmp-'' name \<longrightarrow> validateGeneration name = None \<longrightarrow>
     (\<exists>dir m files. node = EntryDir dir \<and> loadGeneration lib domain name dir = Inr (m, files) \<and> gm_Revision m \<le> r))"
  using assms
proof (induction lib domain es r0 rule: maxRevision.induct)
  case (2 lib domain name node es r0)
  show ?case
  proof (cases "node = EntryLink \<or> prefix ''.tmp-'' name \<or> validateGeneration name \<noteq> None")
    case True
    then show ?thesis
      using 2 by (auto split: if_splits)
  next
    case False
    then obtain dir m files where ld: "node = EntryDir dir" "loadGeneration lib domain name dir = Inr (m, files)"
      "maxRevision lib domain es (if gm_Revision m > r0 then gm_Revision m else r0) = Inr r"
      using 2(4) by auto
    have "(if gm_Revision m > r0 then gm_Revision m else r0) \<le> r \<and> (\<forall>(name, node)\<in>set es.
        \<not> prefix ''.tmp-'' name \<longrightarrow> validateGeneration name = None \<longrightarrow>
        (\<exists>dir m files. node = EntryDir dir \<and> loadGeneration lib domain name dir = Inr (m, files) \<and> gm_Revision m \<le> r))"
      using 2(3)[of m] False ld by auto
    then show ?thesis
      using ld(1,2) by (auto split: if_splits)
  qed
qed simp

lemma word_less_Suc: "(r :: 'a::len word) \<noteq> - 1 \<Longrightarrow> r < r + 1"
  using unatSuc[of r] by (auto simp: word_less_nat_alt add.commute eq_neg_iff_add_eq_0)

section \<open>Normal domain names\<close>

definition asciiText :: "string \<Rightarrow> bool" where
  "asciiText s = list_all (\<lambda>c. byteval c < 128) s"

lemma lowerRunes_ascii: "asciiText s \<Longrightarrow> lowerRunes s = toLowerASCII s"
  by (induction s) (auto simp: asciiText_def toLowerASCII_def byteval_def)

lemma length_lowerRunes: "length (lowerRunes s) \<le> length s"
  by (induction s rule: lowerRunes.induct) auto

lemma lowerByte_idem [simp]: "lowerByte (lowerByte c) = lowerByte c"
  by (auto simp: lowerByte_def byteIn_def byteval_def)

lemma lowerByte_ascii: "byteval c < 128 \<Longrightarrow> byteval (lowerByte c) < 128"
  by (auto simp: lowerByte_def byteIn_def byteval_def)

lemma lowerRunes_idem: "asciiText s \<Longrightarrow> lowerRunes (lowerRunes s) = lowerRunes s"
proof -
  assume "asciiText s"
  moreover have "asciiText (toLowerASCII s)"
    using \<open>asciiText s\<close> lowerByte_ascii by (auto simp: asciiText_def toLowerASCII_def list_all_iff)
  ultimately show ?thesis
    by (simp add: lowerRunes_ascii) (simp add: toLowerASCII_def)
qed

lemma storeDomainLabel_iff [simp]: "storeDomainLabel = domainLabel"
  by (rule ext) (auto simp: storeDomainLabel_def domainLabel_def domainByte_def list_all_iff not_less)

lemma labels_nonempty: "list_all domainLabel (splitOn (CHR ''.'') s) \<Longrightarrow> s \<noteq> []"
  by (auto simp: domainLabel_def)

lemma labels_text:
  assumes "list_all domainLabel (splitOn (CHR ''.'') s)"
  shows "asciiText s" "lowerRunes s = s" "TrimSpace s = s"
proof -
  have bytes: "isUnreserved c \<and> byteval c < 128" if "c \<in> set s" for c
    using labels_bytes[OF assms that] domainByte_facts by (auto simp: isUnreserved_def byteval_def)
  then show "asciiText s"
    by (simp add: asciiText_def list_all_iff)
  then show "lowerRunes s = s"
    using labels_lower[OF assms] by (simp add: lowerRunes_ascii)
  show "TrimSpace s = s"
    using bytes isUnreserved_visible by (intro TrimSpace_visible) blast
qed

lemma normalizeDomain_facts:
  assumes "normalizeDomain d = Inr s"
  shows "list_all domainLabel (splitOn (CHR ''.'') s)" "length s \<le> 253" "s = lowerRunes d"
  using assms length_lowerRunes[of d] by (auto simp: normalizeDomain_def Let_def split: if_splits)

text \<open>A normal domain is its own normal form and names one plain directory.\<close>

lemma normalizeDomain_normal:
  assumes "normalizeDomain d = Inr s"
  shows "normalizeDomain s = Inr s" "safeSegment s" "asciiText s"
proof -
  note f = normalizeDomain_facts[OF assms] and t = labels_text[OF normalizeDomain_facts(1)[OF assms]]
  show "normalizeDomain s = Inr s"
    using f t labels_nonempty[OF f(1)] by (simp add: normalizeDomain_def)
  have "s \<noteq> ''.''" "s \<noteq> ''..''"
    using f(1) by (auto simp: domainLabel_def)
  then show "safeSegment s"
    using labels_unreserved[OF f(1)] labels_nonempty[OF f(1)] by (simp add: safeSegment_def)
  show "asciiText s"
    by (rule t)
qed

section \<open>PEM\<close>

definition pemConsumes :: "CertLib \<Rightarrow> bool" where
  "pemConsumes lib \<longleftrightarrow> (\<forall>s ty b rest. lib_pemDecode lib s = Some (ty, b, rest) \<longrightarrow> length rest < length s)"

lemma decodePEMLoop_enough:
  assumes "pemConsumes lib" and "length s \<le> fuel"
  shows "decodePEMLoop lib fuel s = decodePEMLoop lib (length s) s"
  using assms(2)
proof (induction "length s" arbitrary: s fuel rule: less_induct)
  case less
  show ?case
  proof (cases s)
    case (Cons a r)
    then obtain n where fuel: "fuel = Suc n" "length r \<le> n"
      using less.prems by (cases fuel) auto
    have rec: "decodePEMLoop lib n (TrimSpace rest) = decodePEMLoop lib (length r) (TrimSpace rest)"
      if "lib_pemDecode lib s = Some (ty, b, rest)" for ty b rest
    proof -
      have "length rest \<le> length r"
        using assms(1) that Cons by (fastforce simp: pemConsumes_def)
      then have "length (TrimSpace rest) \<le> length r"
        using length_TrimSpace[of rest] by simp
      then show ?thesis
        using less.hyps[of "TrimSpace rest" n] less.hyps[of "TrimSpace rest" "length r"] fuel Cons by simp
    qed
    show ?thesis
      using rec by (auto simp: Cons fuel split: option.splits)
  qed simp
qed

section \<open>Publishing\<close>

lemma newGenerationPath_fresh:
  "newGenerationPath tokens es = Inr g \<Longrightarrow>
     map_of es g = None \<and> validateGeneration g = None \<and> prefix ''g-'' g"
  by (induction tokens es rule: newGenerationPath.induct)
    (auto simp: newGenerationID_def split: option.splits if_splits)

lemma fresh_not_temp: "prefix ''g-'' g \<Longrightarrow> \<not> prefix ''.tmp-'' g"
  by (auto simp: prefix_def)

lemma prefix_append_drop: "prefix p s \<Longrightarrow> p @ drop (length p) s = s"
  by (auto simp: prefix_def)

lemma captureCurrent_same: "captureCurrent c = Inr snapshot \<Longrightarrow> snapshot = c"
  using prefix_append_drop[of "ReleasesDirectory @ ''/''"]
  by (auto simp: captureCurrent_def readCurrentLink_def linkTo_def Let_def
      split: option.splits CurrentNode.splits if_splits)

text \<open>The one combination of faults that leaves the pointer changed after an error.\<close>

definition doubleFault :: "(IOPoint \<Rightarrow> bool) \<Rightarrow> bool" where
  "doubleFault io \<longleftrightarrow> io IoSyncDomain \<and> io IoRestore"

lemma writeCurrent_fail:
  assumes "writeCurrent io g dd = (Some e, dd')" and "\<not> doubleFault io"
  shows "dd' = dd"
  using assms captureCurrent_same[of "dd_Current dd"]
  by (auto simp: writeCurrent_def restoreCurrent_def doubleFault_def Let_def
      split: option.splits sum.splits if_splits)

lemma writeCurrent_ok:
  assumes "writeCurrent io g dd = (None, dd')"
  shows "dd' = dd\<lparr>dd_Current := Some (linkTo g)\<rparr>" "validateGeneration g = None"
    "\<exists>files. map_of (entriesOf (dd_Releases dd)) g = Some (EntryDir files)"
  using assms by (auto simp: writeCurrent_def restoreCurrent_def Let_def split: option.splits sum.splits if_splits)

text \<open>Same pointer, same old directory, and every release still there with the same content.\<close>

definition keepsStore :: "DomainDir \<Rightarrow> DomainDir \<Rightarrow> bool" where
  "keepsStore dd dd' \<longleftrightarrow>
     dd_Current dd' = dd_Current dd \<and> dd_Legacy dd' = dd_Legacy dd \<and>
     (\<forall>g node. map_of (entriesOf (dd_Releases dd)) g = Some node \<longrightarrow>
        map_of (entriesOf (dd_Releases dd')) g = Some node)"

lemma keepsStore_refl [simp]: "keepsStore dd dd"
  by (simp add: keepsStore_def)

lemma dropRelease_addRelease:
  assumes "map_of (entriesOf (dd_Releases dd)) g = None"
  shows "keepsStore dd (dropRelease io g (addRelease g files dd))"
  using assms
  by (auto simp: keepsStore_def dropRelease_def addRelease_def map_of_removeRelease map_of_append map_add_def)

lemma commitPublish_fail:
  assumes "commitPublish io g files dd = (Some e, dd')" and "\<not> doubleFault io"
    and "map_of (entriesOf (dd_Releases dd)) g = None"
  shows "keepsStore dd dd'"
proof (cases "io IoPublish \<or> io IoSyncReleases")
  case True
  then show ?thesis
    using assms dropRelease_addRelease[OF assms(3)] by (auto simp: commitPublish_def Let_def split: if_splits)
next
  case False
  obtain e2 dd2 where w: "writeCurrent io g (addRelease g files dd) = (Some e2, dd2)" "dd' = dropRelease io g dd2"
    using assms(1) False
    by (cases "writeCurrent io g (addRelease g files dd)") (auto simp: commitPublish_def Let_def split: option.splits)
  show ?thesis
    using writeCurrent_fail[OF w(1) assms(2)] w(2) dropRelease_addRelease[OF assms(3)] by simp
qed

definition domainAt :: "CertRoot \<Rightarrow> string \<Rightarrow> DomainDir" where
  "domainAt root s =
     (case root of DirAt domains \<Rightarrow> (case domains s of DirAt dd \<Rightarrow> dd | _ \<Rightarrow> emptyDomain) | _ \<Rightarrow> emptyDomain)"

lemma domainAt_setDomain [simp]:
  "domainAt (setDomain (DirAt domains) s dd) s' = (if s' = s then dd else domainAt (DirAt domains) s')"
  by (simp add: domainAt_def setDomain_def)

lemma ensureReleases_keeps:
  "ensureReleases io (domains s) = Inr dd \<Longrightarrow> keepsStore (domainAt (DirAt domains) s) dd"
  by (auto simp: ensureReleases_def domainAt_def keepsStore_def emptyDomain_def entriesOf_def
      split: DirNode.splits if_splits)

lemma keepsStore_trans: "keepsStore a b \<Longrightarrow> keepsStore b c \<Longrightarrow> keepsStore a c"
  by (simp add: keepsStore_def)

lemma preparePublish_ok:
  assumes "preparePublish lib io now tokens domain safeDomain sans files dd = Inr (g, m, out)"
  shows "newGenerationPath (take 8 tokens) (entriesOf (dd_Releases dd)) = Inr g"
    "nextRevision lib domain dd = Inr (gm_Revision m)"
    "buildGenerationManifest lib domain g (gm_Revision m) sans files now = Inr m"
    "\<exists>data. lib_encodeManifest lib m = Some data \<and> out = releaseFiles files data"
proof -
  obtain revision where a: "newGenerationPath (take 8 tokens) (entriesOf (dd_Releases dd)) = Inr g"
      "nextRevision lib domain dd = Inr revision"
      "buildGenerationManifest lib domain g revision sans files now = Inr m"
      "\<exists>data. lib_encodeManifest lib m = Some data \<and> out = releaseFiles files data"
    using assms by (auto simp: preparePublish_def split: if_splits option.splits)
  moreover have "gm_Revision m = revision"
    using a(3) by (auto simp: buildGenerationManifest_def split: option.splits)
  ultimately show "newGenerationPath (take 8 tokens) (entriesOf (dd_Releases dd)) = Inr g"
    "nextRevision lib domain dd = Inr (gm_Revision m)"
    "buildGenerationManifest lib domain g (gm_Revision m) sans files now = Inr m"
    "\<exists>data. lib_encodeManifest lib m = Some data \<and> out = releaseFiles files data"
    by simp_all
qed

text \<open>The ways a publication ends.\<close>

lemma publish_cases:
  assumes "publish lib io now tokens domain staging sans root = (r, root')"
  obtains (early) e where "r = Inl e" "root' = root"
  | (prepare) domains s dd e where "root = DirAt domains" "normalizeDomain domain = Inr s"
      "ensureReleases io (domains s) = Inr dd" "r = Inl e" "root' = setDomain root s dd"
  | (commit) domains s dd files g m out e dd' where "root = DirAt domains" "normalizeDomain domain = Inr s"
      "ensureReleases io (domains s) = Inr dd" "readStaging lib now domain staging sans = Inr files"
      "preparePublish lib io now tokens domain s sans files dd = Inr (g, m, out)"
      "commitPublish io g out dd = (Some e, dd')" "r = Inl e" "root' = setDomain root s dd'"
  | (success) domains s dd files g m out dd' where "root = DirAt domains" "normalizeDomain domain = Inr s"
      "ensureReleases io (domains s) = Inr dd" "readStaging lib now domain staging sans = Inr files"
      "preparePublish lib io now tokens domain s sans files dd = Inr (g, m, out)"
      "commitPublish io g out dd = (None, dd')" "r = Inr (g, gm_Files m)" "root' = setDomain root s dd'"
proof (cases "readStaging lib now domain staging sans")
  case (Inl e)
  then show ?thesis
    using assms early[of e] by (simp add: publish_def)
next
  case st: (Inr files)
  show ?thesis
  proof (cases "\<exists>s domains dd. normalizeDomain domain = Inr s \<and> root = DirAt domains
      \<and> ensureReleases io (domains s) = Inr dd")
    case False
    then show ?thesis
      using assms st early by (auto simp: publish_def split: sum.splits DirNode.splits)
  next
    case True
    then obtain s domains dd where n: "root = DirAt domains" "normalizeDomain domain = Inr s"
      "ensureReleases io (domains s) = Inr dd"
      by auto
    show ?thesis
    proof (cases "preparePublish lib io now tokens domain s sans files dd")
      case (Inl e)
      then show ?thesis
        using assms st n prepare[OF n, of e] by (simp add: publish_def)
    next
      case (Inr x)
      obtain g m out where x: "x = (g, m, out)"
        by (cases x)
      obtain err dd' where c: "commitPublish io g out dd = (err, dd')"
        by (cases "commitPublish io g out dd")
      show ?thesis
        using assms st n Inr x c commit[OF n st] success[OF n st] by (cases err) (simp_all add: publish_def)
    qed
  qed
qed

section \<open>A published generation reads back\<close>

definition manifestTexts :: "GenerationManifest \<Rightarrow> string list" where
  "manifestTexts m = gm_Generation m # gm_Domain m # gm_Serial m # gm_Fingerprint m # gm_SANs m
     @ map fm_Name (gm_Files m) @ map fm_SHA256 (gm_Files m)"

text \<open>
  \<^verbatim>\<open>encoding/json\<close>: a struct of ASCII texts is written as one object and read back as it was.
  \<^verbatim>\<open>crypto/x509\<close>: the DNS names of a parsed certificate are ASCII, an address is printed in
  lower case.
\<close>

definition jsonLaw :: "CertLib \<Rightarrow> bool" where
  "jsonLaw lib \<longleftrightarrow>
     (\<forall>m d. list_all asciiText (manifestTexts m) \<longrightarrow> lib_encodeManifest lib m = Some d \<longrightarrow>
        d \<noteq> [] \<and> hd d = CHR ''{'' \<and> last d = CHR ''}'' \<and> lib_decodeManifest lib d = Some m)"

definition x509Law :: "CertLib \<Rightarrow> bool" where
  "x509Law lib \<longleftrightarrow>
     (\<forall>b c. lib_parseCertificate lib b = Some c \<longrightarrow>
        list_all asciiText (xc_DNSNames c) \<and> asciiText (xc_Serial c) \<and>
        list_all (\<lambda>ip. asciiText ip \<and> lowerRunes ip = ip) (xc_IPAddresses c))"

lemma trimFront_newline: "trimFront (map rev spaceRunes) (CHR 0x0A # s) = trimFront (map rev spaceRunes) s"
proof -
  obtain ps where ps: "map rev spaceRunes = [CHR 0x09] # [CHR 0x0A] # ps"
    by (simp add: spaceRunes_def char_of_def bit_0)
  show ?thesis
    unfolding ps by (subst trimFront.simps) simp
qed

lemma TrimSpace_framed:
  assumes "s \<noteq> []" "visibleASCII (hd s)" "visibleASCII (last s)"
  shows "TrimSpace (s @ [CHR 0x0A]) = s"
proof -
  obtain c t where s: "s = c # t"
    using assms(1) by (cases s) auto
  obtain v d where v: "s = v @ [d]"
    using assms(1) by (cases s rule: rev_cases) auto
  then have r: "rev s = d # rev v" "visibleASCII d"
    using assms(3) by auto
  have "trimFront spaceRunes (s @ [CHR 0x0A]) = s @ [CHR 0x0A]"
    using trimFront_head[of spaceRunes c "t @ [CHR 0x0A]"] spaceRunes_heads(1) assms(2) s by auto
  moreover have "trimFront (map rev spaceRunes) (CHR 0x0A # rev s) = trimFront (map rev spaceRunes) (rev s)"
    by (rule trimFront_newline)
  moreover have "trimFront (map rev spaceRunes) (rev s) = rev s"
    unfolding r(1) using trimFront_head[of "map rev spaceRunes" d "rev v"] spaceRunes_heads(2) r(2) by blast
  ultimately show ?thesis
    by (simp add: TrimSpace_def)
qed

lemma seenAll_distinct:
  "distinct (map lowerRunes vs) \<Longrightarrow> seen \<inter> lowerRunes ` set vs = {} \<Longrightarrow>
     seenAll seen vs = Some (seen \<union> lowerRunes ` set vs)"
  by (induction vs arbitrary: seen) (auto simp: Let_def)

lemma sameStringSet_refl:
  assumes "distinct vs" and "\<forall>v\<in>set vs. lowerRunes v = v"
  shows "sameStringSet vs vs"
proof -
  have "map lowerRunes vs = vs"
    using assms(2) by (simp add: map_idI)
  then show ?thesis
    using assms seenAll_distinct[of vs "{}"] by (auto simp: sameStringSet_def list_all_iff)
qed

lemma firstCertificate_law:
  assumes "x509Law lib" and "firstCertificate lib data = Some leaf"
  shows "list_all asciiText (certificateSANs leaf)" "asciiText (xc_Serial leaf)"
    "sameStringSet (certificateSANs leaf) (certificateSANs leaf)"
proof -
  have parsed: "\<forall>c\<in>set cs. \<exists>b. lib_parseCertificate lib b = Some c"
    if "parseCertBlocks lib blocks = Some cs" for blocks cs
    using that by (induction blocks arbitrary: cs) (force split: if_splits option.splits)+
  obtain b where b: "lib_parseCertificate lib b = Some leaf"
    using assms(2) parsed
    by (fastforce simp: firstCertificate_def parseCertificatePEM_def split: option.splits list.splits)
  have law: "list_all asciiText (xc_DNSNames leaf)" "asciiText (xc_Serial leaf)"
    "list_all (\<lambda>ip. asciiText ip \<and> lowerRunes ip = ip) (xc_IPAddresses leaf)"
    using assms(1) b by (auto simp: x509Law_def)
  have low: "asciiText (lowerRunes n)" if "asciiText n" for n
    using that lowerByte_ascii by (auto simp: lowerRunes_ascii) (auto simp: asciiText_def toLowerASCII_def list_all_iff)
  have sans: "asciiText v \<and> lowerRunes v = v" if "v \<in> set (certificateSANs leaf)" for v
    using that law low lowerRunes_idem by (auto simp: certificateSANs_def list_all_iff)
  then show "list_all asciiText (certificateSANs leaf)"
    by (simp add: list_all_iff)
  show "asciiText (xc_Serial leaf)"
    by (rule law)
  show "sameStringSet (certificateSANs leaf) (certificateSANs leaf)"
  proof (rule sameStringSet_refl)
    show "distinct (certificateSANs leaf)"
      by (simp add: certificateSANs_def)
  qed (use sans in blast)
qed

lemma hexEncode_ascii [simp]: "asciiText (hexEncode bs)"
  using hexEncode_chars by (fastforce simp: asciiText_def list_all_iff byteIn_def byteval_def)

lemma safeSegment_ascii: "safeSegment g \<Longrightarrow> asciiText g"
  by (fastforce simp: safeSegment_def asciiText_def list_all_iff dest: isUnreserved_visible simp: visibleASCII_def)

definition releaseMap :: "CertFileMap \<Rightarrow> CertFileMap" where
  "releaseMap files = (\<lambda>n. if n \<in> set fixedFileNames then Some (fileBytes files n) else None)"

lemma buildGenerationManifest_ok:
  assumes "buildGenerationManifest lib domain g r sans files now = Inr m"
  shows "validateGeneration g = None" "normalizeDomain domain = Inr (gm_Domain m)" "r \<noteq> 0"
    "gm_Generation m = g" "gm_Revision m = r" "validateManifest (gm_Files m) = None"
    "gm_Files m = map (\<lambda>name. fileManifest lib name (fileBytes files name)) fixedFileNames"
    "\<exists>leaf. firstCertificate lib (fileBytes files ''cert.pem'') = Some leaf \<and> gm_SANs m = certificateSANs leaf
       \<and> gm_Serial m = xc_Serial leaf \<and> gm_Fingerprint m = certificateFingerprint lib leaf"
  using assms by (auto simp: buildGenerationManifest_def buildManifest_def valid_simps Let_def
      split: option.splits if_splits)

lemma manifest_ascii:
  assumes "x509Law lib" and b: "buildGenerationManifest lib domain g r sans files now = Inr m"
  shows "list_all asciiText (manifestTexts m)"
proof -
  note ok = buildGenerationManifest_ok[OF b]
  have "asciiText g"
    using ok(1) safeSegment_ascii by (simp add: validateGeneration_def valid_simps)
  moreover have "asciiText (gm_Domain m)"
    by (rule normalizeDomain_normal(3)[OF ok(2)])
  moreover have "asciiText n" if "n \<in> set fixedFileNames" for n
    using that by (auto simp: fixedFileNames_def asciiText_def byteval_def)
  moreover have "asciiText (gm_Serial m)" "list_all asciiText (gm_SANs m)" "asciiText (gm_Fingerprint m)"
    using ok(8) firstCertificate_law[OF assms(1)] by (auto simp: certificateFingerprint_def)
  ultimately show ?thesis
    unfolding manifestTexts_def ok(4) ok(7) by (auto simp: fileManifest_def list_all_iff)
qed

lemma readRegularFile_release:
  "n \<in> set fixedFileNames \<Longrightarrow> readRegularFile (releaseFiles files data) n = Inr (fileBytes files n)"
  "readRegularFile (releaseFiles files data) manifestFileName = Inr (data @ [CHR 0x0A])"
  by (auto simp: releaseFiles_def fixedFileNames_def manifestFileName_def)

lemma readItems_release:
  assumes "set names \<subseteq> set fixedFileNames"
  shows "readItems lib (releaseFiles files data) (map (\<lambda>n. fileManifest lib n (fileBytes files n)) names) fm
    = Inr (\<lambda>n. if n \<in> set names then Some (fileBytes files n) else fm n)"
  using assms
proof (induction names arbitrary: fm)
  case (Cons n names)
  have "readItem lib (releaseFiles files data) n = Inr (fileBytes files n)"
    using Cons.prems readRegularFile_release(1)[of n files data]
    by (auto simp: readItem_def fixedFileNames_def contains_def)
  then show ?case
    using Cons by (auto simp: fileManifest_def)
qed simp

lemma release_contents [simp]: "assertGenerationContents (releaseFiles files data) = None"
  by (simp add: assertGenerationContents_def releaseFiles_def fixedFileNames_def manifestFileName_def Let_def)

lemma loadGeneration_release:
  assumes laws: "jsonLaw lib" "x509Law lib"
    and b: "buildGenerationManifest lib domain g r sans files now = Inr m"
    and e: "lib_encodeManifest lib m = Some data"
    and d: "normalizeDomain d = normalizeDomain domain"
  shows "loadGeneration lib d g (releaseFiles files data) = Inr (m, releaseMap files)"
proof -
  note ok = buildGenerationManifest_ok[OF b]
  have j: "data \<noteq> []" "hd data = CHR ''{''" "last data = CHR ''}''" "lib_decodeManifest lib data = Some m"
    using laws(1) e manifest_ascii[OF laws(2) b] by (auto simp: jsonLaw_def)
  have trim: "TrimSpace (data @ [CHR 0x0A]) = data"
    using j by (intro TrimSpace_framed) (simp_all add: visible_eval)
  have dec: "decodeGenerationManifest lib (data @ [CHR 0x0A]) = Some (m, False)"
    using j by (simp add: decodeGenerationManifest_def trim)
  have "readItems lib (releaseFiles files data) (gm_Files m) Map.empty = Inr (releaseMap files)"
    using readItems_release[of fixedFileNames lib files data Map.empty] by (simp add: ok(7) releaseMap_def)
  moreover have "validateGenerationManifest lib d g m (releaseMap files) = None"
  proof -
    obtain leaf where leaf: "firstCertificate lib (fileBytes files ''cert.pem'') = Some leaf"
      "gm_SANs m = certificateSANs leaf" "gm_Serial m = xc_Serial leaf"
      "gm_Fingerprint m = certificateFingerprint lib leaf"
      using ok(8) by blast
    have "fileBytes (releaseMap files) ''cert.pem'' = fileBytes files ''cert.pem''"
      by (simp add: releaseMap_def fixedFileNames_def fileBytes_def)
    moreover have "normalizeDomain (gm_Domain m) = Inr (gm_Domain m)"
      by (rule normalizeDomain_normal(1)[OF ok(2)])
    ultimately show ?thesis
      using ok leaf d firstCertificate_law(3)[OF laws(2) leaf(1)]
      by (simp add: validateGenerationManifest_def valid_simps)
  qed
  ultimately show ?thesis
    using readRegularFile_release(2) dec by (simp add: loadGeneration_def)
qed

section \<open>The operations together\<close>

lemma domainPaths_setDomain:
  assumes "normalizeDomain domain = Inr s" and "dd_Releases dd = DirAt es"
  shows "domainPaths (setDomain (DirAt domains) s dd) domain = Inr (s, dd)"
  using assms by (simp add: domainPaths_def setDomain_def assertDirectory_def)

lemma domainPaths_ok:
  assumes "domainPaths root domain = Inr (s, dd)"
  shows "normalizeDomain domain = Inr s" "\<exists>domains. root = DirAt domains \<and> domains s = DirAt dd" "domainAt root s = dd"
proof -
  obtain t domains dd0 where t: "normalizeDomain domain = Inr t" "root = DirAt domains" "domains t = DirAt dd0"
    "(case assertDirectory (dd_Releases dd0) of Inr _ \<Rightarrow> Inr (t, dd0)
      | Inl e \<Rightarrow> if e \<noteq> CertNotFound then Inl e
                else bindR (assertDirectory (dd_Legacy dd0)) (\<lambda>_. Inr (t, dd0))) = Inr (s, dd)"
    using assms by (auto simp: domainPaths_def)
  then have d: "normalizeDomain domain = Inr s" "root = DirAt domains" "domains s = DirAt dd"
    by (auto split: sum.splits if_splits)
  then show "normalizeDomain domain = Inr s" "\<exists>domains. root = DirAt domains \<and> domains s = DirAt dd"
    "domainAt root s = dd"
    by (auto simp: domainAt_def)
qed

lemma readCurrentLink_linkTo:
  "validateGeneration g = None \<Longrightarrow> readCurrentLink (ReleasesDirectory @ ''/'' @ g) = Inr g"
  using safeSegment_no_slash[of g]
  by (auto simp: readCurrentLink_def validateGeneration_def valid_simps contains_def safeSegment_def)

definition published :: "GenerationID \<Rightarrow> (string \<times> FileNode) list \<Rightarrow> DomainDir \<Rightarrow> DomainDir" where
  "published g out dd = (addRelease g out dd)\<lparr>dd_Current := Some (linkTo g)\<rparr>"

lemma published_release:
  "map_of (entriesOf (dd_Releases dd)) g = None \<Longrightarrow>
     map_of (entriesOf (dd_Releases (published g out dd))) g = Some (EntryDir out)"
  by (simp add: published_def addRelease_def map_add_def)

lemma commitPublish_ok:
  assumes "commitPublish io g out dd = (None, dd')"
  shows "dd' = published g out dd" "validateGeneration g = None"
proof -
  have "writeCurrent io g (addRelease g out dd) = (None, dd')"
    using assms by (auto simp: commitPublish_def Let_def split: if_splits option.splits prod.splits)
  then show "dd' = published g out dd" "validateGeneration g = None"
    using writeCurrent_ok by (auto simp: published_def)
qed

lemma published_current:
  assumes "validateGeneration g = None" "map_of (entriesOf (dd_Releases dd)) g = None"
    and "loadGeneration lib s g out = Inr x"
  shows "currentState lib s (published g out dd) = Inr (g, InReleases, out)"
    "migrateCurrent lib io s (published g out dd) = (Inr (g, out), published g out dd)"
    "findGeneration (published g out dd) g = Inr (InReleases, out)"
proof -
  have cur: "dd_Current (published g out dd) = Some (CurrentLink (ReleasesDirectory @ ''/'' @ g))"
    by (simp add: published_def linkTo_def)
  show state: "currentState lib s (published g out dd) = Inr (g, InReleases, out)"
    using assms published_release[OF assms(2), of out]
    using readCurrentLink_linkTo[OF assms(1)] by (simp add: currentState_def cur entryDirectory_def)
  show "migrateCurrent lib io s (published g out dd) = (Inr (g, out), published g out dd)"
    by (simp add: migrateCurrent_def state cur)
  show "findGeneration (published g out dd) g = Inr (InReleases, out)"
    using published_release[OF assms(2), of out] by (simp add: findGeneration_def entryDirectory_def)
qed

text \<open>The domain after a successful publication.\<close>

lemma publish_ok:
  assumes laws: "jsonLaw lib" "x509Law lib"
    and p: "publish lib io now tokens domain staging sans root = (Inr (g, fm), root')"
  obtains domains s dd files m out where
    "root = DirAt domains" "normalizeDomain domain = Inr s" "ensureReleases io (domains s) = Inr dd"
    "readStaging lib now domain staging sans = Inr files" "nextRevision lib domain dd = Inr (gm_Revision m)"
    "fm = gm_Files m" "loadGeneration lib domain g out = Inr (m, releaseMap files)"
    "resolveGeneration lib io' domain [] root' = (Inr (g, out), root')"
    "GetCurrent lib domain root' = Inr g"
    "root' = setDomain root s (published g out dd)"
  using p
proof (cases rule: publish_cases)
  case (success domains s dd files g' m out dd')
  note prep = preparePublish_ok[OF success(5)] and c = commitPublish_ok[OF success(6)]
  have eq: "g' = g" "fm = gm_Files m"
    using success(7) by auto
  obtain data where data: "lib_encodeManifest lib m = Some data" "out = releaseFiles files data"
    using prep(4) by blast
  have fresh: "map_of (entriesOf (dd_Releases dd)) g = None"
    using newGenerationPath_fresh[OF prep(1)] eq by simp
  have load: "loadGeneration lib d g out = Inr (m, releaseMap files)"
    if "normalizeDomain d = normalizeDomain domain" for d
    using loadGeneration_release[OF laws prep(3) data(1) that] data(2) eq by simp
  have ids: "loadGeneration lib domain g out = Inr (m, releaseMap files)"
    "loadGeneration lib s g out = Inr (m, releaseMap files)"
    using load[of domain] load[of s] normalizeDomain_normal(1)[OF success(2)] success(2) by auto
  note pub = published_current[OF c(2)[unfolded eq] fresh ids(2)]
  have dirs: "dd_Releases (published g out dd) = DirAt (entriesOf (dd_Releases dd) @ [(g, EntryDir out)])"
    by (simp add: published_def addRelease_def)
  have root': "root' = setDomain (DirAt domains) s (published g out dd)"
    using success(1,8) c(1) eq by simp
  have paths: "domainPaths root' domain = Inr (s, published g out dd)"
    unfolding root' by (rule domainPaths_setDomain[OF success(2) dirs])
  have again: "setDomain root' s (published g out dd) = root'"
    by (simp add: root' setDomain_def)
  have "resolveGeneration lib io' domain [] root' = (Inr (g, out), root')"
    by (simp add: resolveGeneration_def paths pub again)
  moreover have "GetCurrent lib domain root' = Inr g"
    by (simp add: GetCurrent_def paths currentGeneration_def pub)
  ultimately show ?thesis
    using that[OF success(1-4) prep(2) eq(2) ids(1)] root' success(1) by simp
qed auto

text \<open>C13: What a successful publication promises. The new generation is the current one, its manifest is
  the one that was returned, and each of the five files reads back with the bytes that were staged.
\<close>

theorem publish_roundtrip:
  assumes "jsonLaw lib" and "x509Law lib"
    and "publish lib io now tokens domain staging sans root = (Inr (g, m), root')"
  shows "\<exists>files. readStaging lib now domain staging sans = Inr files \<and>
    GetCurrent lib domain root' = Inr g \<and>
    LoadManifest lib io' domain [] root' = (Inr m, root') \<and>
    (\<forall>name\<in>set fixedFileNames. ReadCertFile lib io' domain [] name root' = (Inr (fileBytes files name), root'))"
proof -
  obtain domains s dd files gm out where ok: "readStaging lib now domain staging sans = Inr files"
    "m = gm_Files gm" "loadGeneration lib domain g out = Inr (gm, releaseMap files)"
    "resolveGeneration lib io' domain [] root' = (Inr (g, out), root')" "GetCurrent lib domain root' = Inr g"
    using publish_ok[OF assms, of io'] by metis
  have "ReadCertFile lib io' domain [] name root' = (Inr (fileBytes files name), root')"
    if "name \<in> set fixedFileNames" for name
    using that ok(3,4)
    by (simp add: ReadCertFile_def validateStoreFile_def valid_simps releaseMap_def fileBytes_def)
  then show ?thesis
    using ok by (simp add: LoadManifest_def LoadGenerationManifest_def)
qed

text \<open>Revisions grow. The generation a publication makes current has a greater revision than every
  generation that could be read before, in the new layout or the old one.
\<close>

theorem publish_revision_grows:
  assumes "jsonLaw lib" and "x509Law lib"
    and "publish lib io now tokens domain staging sans root = (Inr (g, fm), root')"
    and "fst (LoadGenerationManifest lib io1 domain h root) = Inr old"
    and "h \<noteq> []" and "\<not> prefix ''.tmp-'' h"
    and "fst (LoadGenerationManifest lib io2 domain [] root') = Inr new"
  shows "gm_Revision old < gm_Revision new"
proof -
  obtain domains s dd files m out where ok: "root = DirAt domains" "normalizeDomain domain = Inr s"
    "ensureReleases io (domains s) = Inr dd" "nextRevision lib domain dd = Inr (gm_Revision m)"
    "loadGeneration lib domain g out = Inr (m, releaseMap files)"
    "resolveGeneration lib io2 domain [] root' = (Inr (g, out), root')"
    using publish_ok[OF assms(1-3), of io2] by metis
  have new: "new = m"
    using assms(7) ok(5,6) by (simp add: LoadGenerationManifest_def)
  obtain paths where paths: "domainPaths root domain = Inr paths"
    using assms(4,5)
    by (cases "domainPaths root domain") (auto simp: LoadGenerationManifest_def resolveGeneration_def split: if_splits)
  obtain dd0 where p: "domainPaths root domain = Inr (s, dd0)" "domains s = DirAt dd0"
    using paths domainPaths_ok[of root domain "fst paths" "snd paths"] ok(1,2) by (cases paths) auto
  obtain place dir fs where old: "validateGeneration h = None" "findGeneration dd0 h = Inr (place, dir)"
    "loadGeneration lib domain h dir = Inr (old, fs)"
    using assms(4,5) by (auto simp: LoadGenerationManifest_def resolveGeneration_def p split: if_splits)
  have same: "entriesOf (dd_Releases dd) = entriesOf (dd_Releases dd0)" "dd_Legacy dd = dd_Legacy dd0"
    using ok(3) p(2) by (auto simp: ensureReleases_def entriesOf_def split: DirNode.splits if_splits)
  obtain r1 r2 where revs: "parentRevision lib domain (dd_Releases dd) 0 = Inr r1"
    "parentRevision lib domain (dd_Legacy dd) r1 = Inr r2" "r2 \<noteq> - 1" "gm_Revision m = r2 + 1"
    using ok(4) by (auto simp: nextRevision_def split: if_splits)
  have parent: "r \<le> r' \<and> (\<forall>files. (h, EntryDir files) \<in> set (entriesOf p) \<longrightarrow> files = dir \<longrightarrow> gm_Revision old \<le> r')"
    if "parentRevision lib domain p r = Inr r'" for p r r'
    using that maxRevision_ok[of lib domain "entriesOf p" r r'] old(1,3) assms(6)
    by (cases p) (auto simp: parentRevision_def entriesOf_def)
  have "(h, EntryDir dir) \<in> set (entriesOf (dd_Releases dd)) \<or> (h, EntryDir dir) \<in> set (entriesOf (dd_Legacy dd))"
    using old(2) by (auto simp: findGeneration_def same dest!: map_of_SomeD split: sum.splits if_splits)
  then have "gm_Revision old \<le> r2"
    using parent[OF revs(1)] parent[OF revs(2)] by auto
  then show ?thesis
    using word_less_Suc[OF revs(3)] revs(4) new by simp
qed

lemma publish_fail_keeps:
  assumes "publish lib io now tokens domain staging sans root = (Inl e, root')"
    and "\<not> (io IoSyncDomain \<and> io IoRestore)"
  shows "keepsStore (domainAt root s) (domainAt root' s)"
  using assms(1)
proof (cases rule: publish_cases)
  case (prepare domains t dd e')
  then show ?thesis
    using ensureReleases_keeps by simp
next
  case (commit domains t dd files g m out e' dd')
  have "keepsStore dd dd'"
    using commitPublish_fail[OF commit(6)] newGenerationPath_fresh[OF preparePublish_ok(1)[OF commit(5)]] assms(2)
    by (simp add: doubleFault_def)
  then show ?thesis
    using commit(1,8) ensureReleases_keeps[of io domains t dd] commit(3) keepsStore_trans by fastforce
qed auto

text \<open>C12: A publication that reports an error changed nothing that readers see, whatever system calls
  failed, as long as the pointer could be put back when syncing its directory failed: in every domain
  the pointer, the old directory and each release are what they were.
\<close>

theorem publish_atomic:
  assumes "publish lib io now tokens domain staging sans root = (Inl e, root')"
    and "\<not> (io IoSyncDomain \<and> io IoRestore)"
  shows "keepsStore (domainAt root s) (domainAt root' s)"
  using assms by (rule publish_fail_keeps)

text \<open>C14: A file that is served has the size and the SHA-256 that the manifest of the same generation
  gives for it, and the manifest is that of the requested generation.
\<close>

theorem file_matches_manifest:
  assumes "ReadCertFile lib io domain h name root = (Inr data, root')"
  shows "\<exists>m item. LoadGenerationManifest lib io domain h root = (Inr m, root') \<and> (h = [] \<or> gm_Generation m = h) \<and>
    item \<in> set (gm_Files m) \<and> fm_Name item = name \<and> fm_Size item = of_nat (length data) \<and>
    fm_SHA256 item = hexEncode (lib_sha256 lib data)"
proof -
  have name: "name \<in> set fixedFileNames"
    using assms by (auto simp: ReadCertFile_def validateStoreFile_def valid_simps split: option.splits)
  then have "validateStoreFile name = None"
    by (simp add: validateStoreFile_def valid_simps)
  then obtain g dir m files where r: "resolveGeneration lib io domain h root = (Inr (g, dir), root')"
    "loadGeneration lib domain g dir = Inr (m, files)" "data = fileBytes files name"
    using assms by (cases "resolveGeneration lib io domain h root") (auto simp: ReadCertFile_def)
  note ok = loadGeneration_ok[OF r(2)]
  have "h = g" if "h \<noteq> []"
    using r(1) that by (auto simp: resolveGeneration_def split: if_splits sum.splits)
  then have gen: "h = [] \<or> gm_Generation m = h"
    using ok by auto
  have "validateManifest (gm_Files m) = None"
    using ok by (simp add: goodGeneration_def)
  then obtain item where item: "item \<in> set (gm_Files m)" "fm_Name item = name"
    using name by (auto simp: validateManifest_None)
  then have "files name = Some data" "itemMatches lib item data"
    using ok r(3) by (auto simp: goodGeneration_def fileBytes_def)
  then show ?thesis
    using r gen item by (auto simp: LoadGenerationManifest_def itemMatches_def)
qed

section \<open>A concrete store\<close>

text \<open>
  A library in which a byte string that starts with K is a key and any other a certificate for
  \<^verbatim>\<open>a.b\<close>; it knows how to write two manifests.
\<close>

definition demoLeaf :: X509 where [eval_defs]:
  "demoLeaf = \<lparr>xc_Raw = ''C'', xc_Serial = ''7'', xc_DNSNames = [''a.b''], xc_IPAddresses = [], xc_NotBefore = 0,
     xc_NotAfter = 10, xc_PublicKey = Some ''P''\<rparr>"

definition demoDigest :: string where
  "demoDigest = replicate 32 (CHR 0x00)"

definition demoFiles :: CertFileMap where
  "demoFiles = [''cert.pem'' \<mapsto> ''C'', ''key.pem'' \<mapsto> ''K'', ''fullchain.pem'' \<mapsto> ''C'', ''ca.pem'' \<mapsto> ''C'',
     ''time.log'' \<mapsto> ''1'']"

definition demoManifest :: "GenerationID \<Rightarrow> Revision \<Rightarrow> GenerationManifest" where
  "demoManifest g r = \<lparr>gm_Generation = g, gm_Revision = r, gm_Domain = ''a.b'', gm_SANs = [''a.b''], gm_Serial = ''7'',
     gm_Fingerprint = hexEncode demoDigest,
     gm_Files = map (\<lambda>n. \<lparr>fm_Name = n, fm_Size = 1, fm_SHA256 = hexEncode demoDigest\<rparr>) fixedFileNames\<rparr>"

definition demoLib :: CertLib where
  "demoLib =
     \<lparr>lib_pemDecode = (\<lambda>s. if s = [] then None else Some (if hd s = CHR ''K'' then ''PRIVATE KEY'' else ''CERTIFICATE'', s, [])),
      lib_parseCertificate = (\<lambda>b. if b = ''C'' then Some demoLeaf else None),
      lib_parsePKCS8 = (\<lambda>b. Some \<lparr>pk_Signer = True, pk_Public = Some ''P''\<rparr>),
      lib_parsePKCS1 = (\<lambda>b. None), lib_parseEC = (\<lambda>b. None),
      lib_verifyChain = (\<lambda>d leaf rest cas now. leaf \<in> set cas),
      lib_verifyHostname = (\<lambda>c n. n \<in> set (xc_DNSNames c)),
      lib_sha256 = (\<lambda>b. demoDigest),
      lib_encodeManifest = (\<lambda>m. if m = demoManifest ''g-1'' 1 then Some ''{1}''
                                else if m = demoManifest ''g-61'' 2 then Some ''{2}'' else None),
      lib_decodeFiles = (\<lambda>b. None),
      lib_decodeManifest = (\<lambda>b. if b = ''{1}'' then Some (demoManifest ''g-1'' 1)
                                else if b = ''{2}'' then Some (demoManifest ''g-61'' 2) else None),
      lib_readElsewhere = (\<lambda>b. Inl CertUnsafePath)\<rparr>"

text \<open>The domain has the current generation \<^verbatim>\<open>g-1\<close>; a second certificate is staged.\<close>

definition demoDomain :: DomainDir where
  "demoDomain = \<lparr>dd_Releases = DirAt [(''g-1'', EntryDir (releaseFiles demoFiles ''{1}''))], dd_Legacy = DirAbsent,
     dd_Current = Some (linkTo ''g-1'')\<rparr>"

definition demoCertRoot :: CertRoot where
  "demoCertRoot = DirAt (\<lambda>s. if s = ''a.b'' then DirAt demoDomain else DirAbsent)"

definition demoStaging :: "(string \<times> FileNode) list DirNode" where
  "demoStaging = DirAt [(''cert.pem'', Regular ''C''), (''key.pem'', Regular ''K''), (''fullchain.pem'', Regular ''C''),
     (''ca.pem'', Regular ''C''), (''time.log'', Regular ''1'')]"

definition noFault :: "IOPoint \<Rightarrow> bool" where
  "noFault p = False"

lemma noFault_simp [simp]: "\<not> noFault p"
  by (simp add: noFault_def)

lemma demoLib_fields [simp]:
  "lib_sha256 demoLib b = demoDigest" "lib_pemDecode demoLib = (\<lambda>s. if s = [] then None else Some (if hd s = CHR ''K'' then ''PRIVATE KEY'' else ''CERTIFICATE'', s, []))"
  "lib_parseCertificate demoLib ''C'' = Some demoLeaf"
  "lib_parsePKCS8 demoLib b = Some \<lparr>pk_Signer = True, pk_Public = Some ''P''\<rparr>"
  "lib_encodeManifest demoLib (demoManifest ''g-61'' 2) = Some ''{2}''"
  "lib_encodeManifest demoLib (demoManifest ''g-1'' 1) = Some ''{1}''"
  "lib_decodeManifest demoLib ''{1}'' = Some (demoManifest ''g-1'' 1)"
  "lib_verifyChain demoLib d leaf rest cas now \<longleftrightarrow> leaf \<in> set cas"
  "lib_verifyHostname demoLib c n \<longleftrightarrow> n \<in> set (xc_DNSNames c)"
  by (auto simp: demoLib_def demoManifest_def)

lemma demo_jsonLaw: "jsonLaw demoLib"
  by (auto simp: jsonLaw_def demoLib_def demoManifest_def)

lemma demo_x509Law: "x509Law demoLib"
  by (auto simp: x509Law_def demoLib_def demoLeaf_def asciiText_def byteval_def)

lemma demo_cert: "parseCertificatePEM demoLib ''C'' = Some [demoLeaf]"
  by (simp add: parseCertificatePEM_def decodePEMBlocks_def visible_eval)

lemma demo_pemKey: "parsePrivateKeyPEM demoLib ''K'' = Some \<lparr>pk_Signer = True, pk_Public = Some ''P''\<rparr>"
  by (simp add: parsePrivateKeyPEM_def decodePEMBlocks_def visible_eval)

lemma demo_lower [simp]: "lowerRunes ''a.b'' = ''a.b''"
  by (subst lowerRunes_ascii) (simp_all add: asciiText_def toLowerASCII_def lowerByte_def byteIn_def byteval_def)

lemma demo_domain [simp]: "normalizeDomain ''a.b'' = Inr ''a.b''"
  by (simp del: lowerRunes.simps add: normalizeDomain_def visible_eval lowerByte_def domainLabel_def domainByte_def byteIn_def)

lemma demo_names: "validateStoreFile n = None \<longleftrightarrow> n \<in> set fixedFileNames"
  by (simp add: validateStoreFile_def valid_simps)

lemma demo_valid: "validateCertificateFiles demoLib ''a.b'' demoFiles [] 1 = None"
proof -
  have "fileBytes demoFiles ''cert.pem'' = ''C''" "fileBytes demoFiles ''fullchain.pem'' = ''C''"
    "fileBytes demoFiles ''ca.pem'' = ''C''" "fileBytes demoFiles ''key.pem'' = ''K''"
    by (simp_all add: fileBytes_def demoFiles_def)
  then show ?thesis
    by (simp add: validateCertificateFiles_def demo_cert demo_pemKey demoLeaf_def inValidity_def validateSANInput_def
        visible_eval containsAny_def)
qed

lemma demo_staging: "readStaging demoLib 1 ''a.b'' demoStaging [] = Inr demoFiles"
proof -
  have "[''cert.pem'' \<mapsto> ''C'', ''key.pem'' \<mapsto> ''K'', ''fullchain.pem'' \<mapsto> ''C'', ''ca.pem'' \<mapsto> ''C'',
     ''time.log'' \<mapsto> ''1''] = demoFiles"
    by (simp add: demoFiles_def)
  then have "stagedFiles [(''cert.pem'', Regular ''C''), (''key.pem'', Regular ''K''), (''fullchain.pem'', Regular ''C''),
     (''ca.pem'', Regular ''C''), (''time.log'', Regular ''1'')] [(''cert.pem'', Regular ''C''), (''key.pem'', Regular ''K''),
     (''fullchain.pem'', Regular ''C''), (''ca.pem'', Regular ''C''), (''time.log'', Regular ''1'')] Map.empty = Inr demoFiles"
    using demo_names by (simp add: readRegularFile_def fixedFileNames_def)
  then show ?thesis
    using demo_valid by (simp add: readStaging_def demoStaging_def) (simp add: demoFiles_def)
qed

lemma demo_gen [simp]: "validateGeneration ''g-61'' = None" "validateGeneration ''g-1'' = None"
  by (simp_all add: validateGeneration_def valid_simps safeSegment_def isUnreserved_def byteIn_def byteval_def)

lemma demo_sans: "certificateSANs demoLeaf = [''a.b'']"
  by (simp del: lowerRunes.simps add: certificateSANs_def demoLeaf_def)

lemma demo_bytes: "n \<in> set fixedFileNames \<Longrightarrow> length (fileBytes demoFiles n) = 1"
  "fileBytes demoFiles ''cert.pem'' = ''C''"
  by (auto simp: fileBytes_def demoFiles_def fixedFileNames_def)

lemma demo_first: "firstCertificate demoLib ''C'' = Some demoLeaf"
  by (simp add: firstCertificate_def demo_cert)

lemma demo_build:
  assumes "validateGeneration g = None" "r \<noteq> 0"
  shows "buildGenerationManifest demoLib ''a.b'' g r [] demoFiles 1 = Inr (demoManifest g r)"
proof -
  have files: "map (\<lambda>n. fileManifest demoLib n (fileBytes demoFiles n)) fixedFileNames = gm_Files (demoManifest g r)"
    using demo_bytes by (simp add: fileManifest_def demoManifest_def)
  have "isLowerHex (hexEncode demoDigest)"
    using hexEncode_chars[of _ demoDigest] by (auto simp: isLowerHex_def list_all_iff byteIn_def byteval_def)
  moreover have "length (hexEncode demoDigest) = 64"
    by (simp add: demoDigest_def)
  ultimately have "FileManifest_Validate \<lparr>fm_Name = n, fm_Size = 1, fm_SHA256 = hexEncode demoDigest\<rparr> = None"
    if "n \<in> set fixedFileNames" for n
    using that by (simp add: FileManifest_Validate_def valid_simps)
  moreover have "distinct fixedFileNames" "length fixedFileNames = 5"
    by (simp_all add: fixedFileNames_def)
  ultimately have "validateManifest (gm_Files (demoManifest g r)) = None"
    by (simp del: manifestLoop.simps add: validateManifest_None CertificateManifest_Validate_def manifestLoop_None
        demoManifest_def comp_def image_image)
  moreover have "\<not> list_ex (\<lambda>n. demoFiles n = None) fixedFileNames"
    by (simp add: fixedFileNames_def demoFiles_def)
  ultimately have "buildManifest demoLib demoFiles = Inr (gm_Files (demoManifest g r))"
    by (simp add: buildManifest_def files)
  then show ?thesis
    using assms demo_valid
    by (simp add: buildGenerationManifest_def valid_simps demo_bytes demo_first demo_sans demoManifest_def
        certificateFingerprint_def) (simp add: demoLeaf_def)
qed

lemma demo_load:
  "loadGeneration demoLib ''a.b'' ''g-1'' (releaseFiles demoFiles ''{1}'') = Inr (demoManifest ''g-1'' 1, releaseMap demoFiles)"
  by (rule loadGeneration_release[OF demo_jsonLaw demo_x509Law demo_build]) simp_all

lemma demo_current: "currentState demoLib ''a.b'' demoDomain = Inr (''g-1'', InReleases, releaseFiles demoFiles ''{1}'')"
  using readCurrentLink_linkTo[of "''g-1''"]
  by (simp add: currentState_def demoDomain_def linkTo_def entryDirectory_def demo_load)

lemma demo_newPath: "newGenerationPath [Some ''a''] (entriesOf (dd_Releases demoDomain)) = Inr ''g-61''"
proof -
  have "hexEncode ''a'' = ''61''"
    by (simp add: hexEncode_def hexDigit_def byteval_def char_of_def bit_0)
  then show ?thesis
    by (simp add: newGenerationID_def demoDomain_def)
qed

lemma demo_revision: "nextRevision demoLib ''a.b'' demoDomain = Inr 2"
  by (simp add: nextRevision_def parentRevision_def demoDomain_def demo_load entryDirectory_def demoManifest_def)

lemma demo_prepare:
  assumes "\<And>p. p \<notin> {IoSyncReleases, IoSyncDomain, IoRestore} \<Longrightarrow> \<not> io p"
  shows "preparePublish demoLib io 1 [Some ''a''] ''a.b'' ''a.b'' [] demoFiles demoDomain
    = Inr (''g-61'', demoManifest ''g-61'' 2, releaseFiles demoFiles ''{2}'')"
  using assms demo_newPath
  by (simp del: newGenerationPath.simps add: preparePublish_def demo_current demo_revision demo_build list_ex_iff)

lemma demo_publish:
  assumes "\<And>p. p \<notin> {IoSyncReleases, IoSyncDomain, IoRestore} \<Longrightarrow> \<not> io p"
  shows "publish demoLib io 1 [Some ''a''] ''a.b'' demoStaging [] demoCertRoot =
    (case commitPublish io ''g-61'' (releaseFiles demoFiles ''{2}'') demoDomain of
       (Some e, dd') \<Rightarrow> (Inl e, setDomain demoCertRoot ''a.b'' dd')
     | (None, dd') \<Rightarrow> (Inr (''g-61'', gm_Files (demoManifest ''g-61'' 2)), setDomain demoCertRoot ''a.b'' dd'))"
proof -
  obtain domains where root: "demoCertRoot = DirAt domains" "domains ''a.b'' = DirAt demoDomain"
    by (simp add: demoCertRoot_def)
  have "ensureReleases io (DirAt demoDomain) = Inr demoDomain"
    using assms by (simp add: ensureReleases_def demoDomain_def)
  then show ?thesis
    using demo_prepare[OF assms] unfolding publish_def root(1) by (simp add: demo_staging root(2))
qed

definition demoRoot2 :: CertRoot where
  "demoRoot2 = setDomain demoCertRoot ''a.b'' (published ''g-61'' (releaseFiles demoFiles ''{2}'') demoDomain)"

lemma demo_capture: "captureCurrent (dd_Current demoDomain) = Inr (dd_Current demoDomain)"
  using readCurrentLink_linkTo[of "''g-1''"] by (simp add: captureCurrent_def demoDomain_def linkTo_def)

lemma demo_write:
  "writeCurrent io ''g-61'' (addRelease ''g-61'' fs demoDomain) =
     (if io IoSymlink \<or> io IoRename then (Some CertIO, addRelease ''g-61'' fs demoDomain)
      else if io IoSyncDomain then
        (Some CertIO, snd (restoreCurrent io (dd_Current demoDomain) (published ''g-61'' fs demoDomain)))
      else (None, published ''g-61'' fs demoDomain))"
proof -
  have "map_of (entriesOf (dd_Releases (addRelease ''g-61'' fs demoDomain))) ''g-61'' = Some (EntryDir fs)"
    "dd_Current (addRelease ''g-61'' fs demoDomain) = dd_Current demoDomain"
    by (simp_all add: addRelease_def demoDomain_def)
  then show ?thesis
    by (simp add: writeCurrent_def entryDirectory_def demo_capture published_def)
qed

lemma demo_published:
  "publish demoLib noFault 1 [Some ''a''] ''a.b'' demoStaging [] demoCertRoot
     = (Inr (''g-61'', gm_Files (demoManifest ''g-61'' 2)), demoRoot2)"
  using demo_publish[of noFault] by (simp add: commitPublish_def demo_write demoRoot2_def)

lemma demo_domainPaths: "domainPaths demoCertRoot ''a.b'' = Inr (''a.b'', demoDomain)"
  by (simp add: domainPaths_def demoCertRoot_def assertDirectory_def) (simp add: demoDomain_def)

lemma demo_loadOld:
  "LoadGenerationManifest demoLib noFault ''a.b'' ''g-1'' demoCertRoot = (Inr (demoManifest ''g-1'' 1), demoCertRoot)"
proof -
  have "findGeneration demoDomain ''g-1'' = Inr (InReleases, releaseFiles demoFiles ''{1}'')"
    by (simp add: findGeneration_def demoDomain_def entryDirectory_def)
  then show ?thesis
    by (simp add: LoadGenerationManifest_def resolveGeneration_def demo_domainPaths demo_load)
qed

lemma demo_loadOut:
  "loadGeneration demoLib ''a.b'' ''g-61'' (releaseFiles demoFiles ''{2}'')
     = Inr (demoManifest ''g-61'' 2, releaseMap demoFiles)"
  by (rule loadGeneration_release[OF demo_jsonLaw demo_x509Law demo_build]) simp_all

lemma demo_resolveNew:
  "resolveGeneration demoLib noFault ''a.b'' [] demoRoot2 = (Inr (''g-61'', releaseFiles demoFiles ''{2}''), demoRoot2)"
proof -
  let ?dd = "published ''g-61'' (releaseFiles demoFiles ''{2}'') demoDomain"
  have "domainPaths demoRoot2 ''a.b'' = Inr (''a.b'', ?dd)"
    unfolding demoRoot2_def demoCertRoot_def
    by (rule domainPaths_setDomain) (simp_all add: published_def addRelease_def)
  moreover have "map_of (entriesOf (dd_Releases demoDomain)) ''g-61'' = None"
    by (simp add: demoDomain_def)
  moreover have "setDomain demoRoot2 ''a.b'' ?dd = demoRoot2"
    by (simp add: demoRoot2_def demoCertRoot_def setDomain_def)
  ultimately show ?thesis
    using published_current(2,3)[OF demo_gen(1) _ demo_loadOut] by (simp add: resolveGeneration_def)
qed

lemma demo_loadNew:
  "fst (LoadGenerationManifest demoLib noFault ''a.b'' [] demoRoot2) = Inr (demoManifest ''g-61'' 2)"
  by (simp add: LoadGenerationManifest_def demo_resolveNew demo_loadOut)

lemma demo_readNew: "ReadCertFile demoLib noFault ''a.b'' [] ''key.pem'' demoRoot2 = (Inr ''K'', demoRoot2)"
proof -
  have "validateStoreFile ''key.pem'' = None"
    unfolding demo_names by (simp add: fixedFileNames_def)
  then show ?thesis
    by (simp add: ReadCertFile_def demo_resolveNew demo_loadOut)
      (simp add: fixedFileNames_def releaseMap_def fileBytes_def demoFiles_def)
qed

theorem publish_roundtrip_witness:
  "GetCurrent demoLib ''a.b'' demoRoot2 = Inr ''g-61'' \<and>
   ReadCertFile demoLib noFault ''a.b'' [] ''key.pem'' demoRoot2 = (Inr ''K'', demoRoot2)"
proof -
  have "''key.pem'' \<in> set fixedFileNames" "fileBytes demoFiles ''key.pem'' = ''K''"
    by (simp_all add: fixedFileNames_def fileBytes_def demoFiles_def)
  then show ?thesis
    using publish_roundtrip[OF demo_jsonLaw demo_x509Law demo_published, of noFault]
    by (auto simp: demo_staging)
qed

theorem publish_revision_grows_witness:
  "gm_Revision (demoManifest ''g-1'' 1) < gm_Revision (demoManifest ''g-61'' 2)"
  using publish_revision_grows[OF demo_jsonLaw demo_x509Law demo_published _ _ _ demo_loadNew, of noFault "''g-1''"]
  by (simp add: demo_loadOld)

definition syncFault :: "IOPoint \<Rightarrow> bool" where
  "syncFault p = (p = IoSyncDomain)"

definition restoreFault :: "IOPoint \<Rightarrow> bool" where
  "restoreFault p = (p \<in> {IoSyncDomain, IoRestore})"

lemma demo_faulty:
  "publish demoLib syncFault 1 [Some ''a''] ''a.b'' demoStaging [] demoCertRoot
     = (Inl CertIO, setDomain demoCertRoot ''a.b'' demoDomain)"
proof -
  have "dropRelease syncFault ''g-61'' (published ''g-61'' fs demoDomain\<lparr>dd_Current := dd_Current demoDomain\<rparr>) = demoDomain" for fs
    by (simp add: syncFault_def dropRelease_def removeRelease_def published_def addRelease_def demoDomain_def)
  then show ?thesis
    using demo_publish[of syncFault] by (simp add: syncFault_def commitPublish_def demo_write restoreCurrent_def)
qed

theorem publish_atomic_witness:
  "keepsStore (domainAt demoCertRoot ''a.b'') (domainAt (setDomain demoCertRoot ''a.b'' demoDomain) ''a.b'')"
  by (rule publish_atomic[OF demo_faulty]) (simp add: syncFault_def)

theorem file_matches_manifest_witness:
  "\<exists>m item. LoadGenerationManifest demoLib noFault ''a.b'' [] demoRoot2 = (Inr m, demoRoot2) \<and>
     item \<in> set (gm_Files m) \<and> fm_Name item = ''key.pem'' \<and> fm_Size item = 1"
proof -
  have "ReadCertFile demoLib noFault ''a.b'' [] ''key.pem'' demoRoot2 = (Inr ''K'', demoRoot2)"
    using demo_readNew by simp
  then show ?thesis
    using file_matches_manifest by fastforce
qed

text \<open>The excluded combination of faults. When the pointer cannot be put back either, the publication still
  removes the new generation, and the domain is left with a pointer to nothing.
\<close>

theorem publish_double_fault:
  "\<exists>root'. publish demoLib restoreFault 1 [Some ''a''] ''a.b'' demoStaging [] demoCertRoot = (Inl CertIO, root') \<and>
     GetCurrent demoLib ''a.b'' demoCertRoot = Inr ''g-1'' \<and> GetCurrent demoLib ''a.b'' root' = Inl CertNotFound"
proof -
  define dd where "dd = dropRelease restoreFault ''g-61'' (published ''g-61'' (releaseFiles demoFiles ''{2}'') demoDomain)"
  have p: "publish demoLib restoreFault 1 [Some ''a''] ''a.b'' demoStaging [] demoCertRoot
      = (Inl CertIO, setDomain demoCertRoot ''a.b'' dd)"
    using demo_publish[of restoreFault]
    by (simp add: restoreFault_def commitPublish_def demo_write restoreCurrent_def dd_def)
  have "dd_Current dd = Some (linkTo ''g-61'')" "dd_Releases dd = dd_Releases demoDomain"
    by (simp_all add: dd_def dropRelease_def removeRelease_def restoreFault_def published_def addRelease_def demoDomain_def)
  then have "currentState demoLib ''a.b'' dd = Inl CertNotFound" "domainPaths (setDomain demoCertRoot ''a.b'' dd) ''a.b'' = Inr (''a.b'', dd)"
    using readCurrentLink_linkTo[of "''g-61''"] domainPaths_setDomain[OF demo_domain, of dd]
    by (simp_all add: currentState_def linkTo_def entryDirectory_def demoDomain_def demoCertRoot_def)
  then show ?thesis
    using p demo_current by (simp add: GetCurrent_def currentGeneration_def demo_domainPaths)
qed

end
