(* ===== verification/CertCollect.thy ===== *)
theory CertCollect
  imports CertSafety "HOL-Library.Multiset"
begin

text \<open>
  What garbage collection, abort and the migration of the old layout keep: the current pointer and
  the generation it names, the protected generations and the newest ones.
\<close>

section \<open>Garbage collection\<close>

text \<open>The releases collection may consider, with their revisions.\<close>

definition loadableReleases :: "CertLib \<Rightarrow> string \<Rightarrow> (string \<times> EntryNode) list \<Rightarrow> (GenerationID \<times> Revision) list" where
  "loadableReleases lib domain es = concat (map (\<lambda>(name, node).
     if prefix ''.tmp-'' name \<or> validateGeneration name \<noteq> None then []
     else case node of
       EntryDir files \<Rightarrow> (case loadGeneration lib domain name files of Inl _ \<Rightarrow> [] | Inr (m, _) \<Rightarrow> [(name, gm_Revision m)])
     | _ \<Rightarrow> []) es)"

lemma loadableReleases_Cons:
  "loadableReleases lib domain (e # es) = loadableReleases lib domain [e] @ loadableReleases lib domain es"
  by (simp add: loadableReleases_def)

lemma gcScan_candidates:
  "\<exists>result'. gcScan lib domain es candidates result = (candidates @ loadableReleases lib domain es, result')
     \<and> gr_Removed result' = gr_Removed result
     \<and> (\<forall>g\<in>set (gr_Failed result'). g \<in> set (gr_Failed result) \<or> (\<exists>e\<in>set es. fst e = g \<and> loadableReleases lib domain [e] = []))"
proof (induction lib domain es candidates result rule: gcScan.induct)
  case (2 lib domain name node es candidates result)
  note split = loadableReleases_Cons[of lib domain "(name, node)" es]
  consider (link) "node = EntryLink" | (skip) "node \<noteq> EntryLink" "prefix ''.tmp-'' name \<or> validateGeneration name \<noteq> None"
    | (other) "node = EntryOther" "\<not> prefix ''.tmp-'' name" "validateGeneration name = None"
    | (dir) files where "node = EntryDir files" "\<not> prefix ''.tmp-'' name" "validateGeneration name = None"
    by (cases node) auto
  then show ?case
  proof cases
    case link
    moreover have "loadableReleases lib domain [(name, node)] = []"
      using link by (simp add: loadableReleases_def)
    ultimately show ?thesis
      using 2(1) split by (cases "validateGeneration name = None") fastforce+
  next
    case skip
    moreover have "loadableReleases lib domain [(name, node)] = []"
      using skip by (auto simp: loadableReleases_def)
    ultimately show ?thesis
      using 2(2) split by fastforce
  next
    case other
    moreover have "loadableReleases lib domain [(name, node)] = []"
      using other by (simp add: loadableReleases_def)
    ultimately show ?thesis
      using 2 split by fastforce
  next
    case dir
    show ?thesis
    proof (cases "loadGeneration lib domain name files")
      case (Inl e)
      moreover have "loadableReleases lib domain [(name, node)] = []"
        using dir Inl by (simp add: loadableReleases_def)
      ultimately show ?thesis
        using dir 2 split by fastforce
    next
      case (Inr x)
      moreover have "loadableReleases lib domain [(name, node)] = [(name, gm_Revision (fst x))]"
        using dir Inr by (simp add: loadableReleases_def split: prod.splits)
      ultimately show ?thesis
        using dir 2 split by (cases x) fastforce
    qed
  qed
qed (simp add: loadableReleases_def)

lemma loadableReleases_single:
  "loadableReleases lib domain [e] = [] \<or> (\<exists>q. loadableReleases lib domain [e] = [(fst e, q)])"
  by (cases e; cases "snd e")
    (auto simp: loadableReleases_def split: sum.splits)

lemma loadableReleases_names: "(g, q) \<in> set (loadableReleases lib domain es) \<Longrightarrow> g \<in> fst ` set es"
proof (induction es)
  case (Cons e es)
  then show ?case
    using loadableReleases_single[of lib domain e] loadableReleases_Cons[of lib domain e es] by auto
qed (simp add: loadableReleases_def)

lemma loadableReleases_distinct:
  "distinct (map fst es) \<Longrightarrow> distinct (map fst (loadableReleases lib domain es))"
proof (induction es)
  case (Cons e es)
  show ?case
    using loadableReleases_single[of lib domain e]
  proof
    assume "loadableReleases lib domain [e] = []"
    then show ?thesis
      using Cons by (subst loadableReleases_Cons) simp
  next
    assume "\<exists>q. loadableReleases lib domain [e] = [(fst e, q)]"
    then obtain q where "loadableReleases lib domain [e] = [(fst e, q)]" ..
    then show ?thesis
      using Cons loadableReleases_names[of "fst e" _ lib domain es] by (subst loadableReleases_Cons) fastforce
  qed
qed (simp add: loadableReleases_def)

lemma loadableReleases_origin:
  "(g, q) \<in> set (loadableReleases lib domain es) \<Longrightarrow> \<exists>e\<in>set es. fst e = g \<and> loadableReleases lib domain [e] \<noteq> []"
proof (induction es)
  case (Cons e es)
  then show ?case
    using loadableReleases_single[of lib domain e] loadableReleases_Cons[of lib domain e es] by auto
qed (simp add: loadableReleases_def)

text \<open>A release that collection may try to delete: not current, not protected, old enough.\<close>

definition sweepable ::
  "GenerationID option \<Rightarrow> GenerationID list \<Rightarrow> int \<Rightarrow> (GenerationID \<times> Revision) list \<Rightarrow> int \<Rightarrow> GenerationID \<Rightarrow> bool" where
  "sweepable cur prot keep items idx g \<longleftrightarrow> Some g \<noteq> cur \<and> g \<notin> set prot \<and>
     (\<exists>i<length items. fst (items ! i) = g \<and> keep \<le> idx + int i)"

lemma sweepable_Cons: "sweepable cur prot keep items (idx + 1) g \<Longrightarrow> sweepable cur prot keep (item # items) idx g"
  by (fastforce simp: sweepable_def intro: exI[of _ "Suc i" for i])

lemma sweepable_head:
  "\<not> (Some g = cur \<or> idx < keep \<or> g \<in> set prot) \<Longrightarrow> sweepable cur prot keep ((g, q) # items) idx g"
  by (auto simp: sweepable_def intro!: exI[of _ 0])

text \<open>What the sweep leaves of every entry.\<close>

definition swept ::
  "(IOPoint \<Rightarrow> bool) \<Rightarrow> GenerationID set \<Rightarrow> (string \<times> EntryNode) list \<Rightarrow> (string \<times> EntryNode) list \<Rightarrow> bool" where
  "swept io gs es es' \<longleftrightarrow> (\<forall>n. map_of es' n =
     (if n \<notin> gs then map_of es n else if io (IoRemove n) then map_option (partialNode io n) (map_of es n) else None))"

lemma swept_remove:
  assumes "swept io gs (removeRelease io g es) es'"
  shows "swept io (insert g gs) es es'"
proof -
  have "map_option (partialNode io n) (map_option (partialNode io n) x) = map_option (partialNode io n) x" for n x
    by (cases x) simp_all
  then show ?thesis
    using assms by (auto simp: swept_def map_of_removeRelease)
qed

lemma gcSweep_ok:
  assumes "gcSweep io cur prot keep items idx res es = (res', es')"
  shows "\<exists>rm fl. gr_Removed res' = gr_Removed res @ rm \<and> gr_Failed res' = gr_Failed res @ fl \<and>
    (\<forall>g\<in>set rm. \<not> io (IoRemove g)) \<and> (\<forall>g\<in>set fl. io (IoRemove g)) \<and>
    swept io (set rm \<union> set fl) es es' \<and> (\<forall>g\<in>set rm \<union> set fl. sweepable cur prot keep items idx g)"
  using assms
proof (induction io cur prot keep items idx res es rule: gcSweep.induct)
  case (2 io cur prot keep g q items idx res es)
  show ?case
  proof (cases "Some g = cur \<or> idx < keep \<or> g \<in> set prot")
    case True
    then show ?thesis
      using 2(1)[OF True] 2(3) sweepable_Cons[of cur prot keep items idx _ "(g, q)"] by fastforce
  next
    case False
    obtain res1 where res1: "res1 = (if io (IoRemove g)
        then res\<lparr>gr_Failed := gr_Failed res @ [g], gr_Retained := gr_Retained res @ [g]\<rparr>
        else res\<lparr>gr_Removed := gr_Removed res @ [g]\<rparr>)"
      by simp
    have run: "gcSweep io cur prot keep items (idx + 1) res1 (removeRelease io g es) = (res', es')"
      using 2(3) False by (simp add: res1)
    obtain rm fl where ih: "gr_Removed res' = gr_Removed res1 @ rm" "gr_Failed res' = gr_Failed res1 @ fl"
      "\<forall>h\<in>set rm. \<not> io (IoRemove h)" "\<forall>h\<in>set fl. io (IoRemove h)"
      "swept io (set rm \<union> set fl) (removeRelease io g es) es'"
      "\<forall>h\<in>set rm \<union> set fl. sweepable cur prot keep items (idx + 1) h"
      using 2(2)[OF False] run unfolding res1 by blast
    have sweep: "swept io (insert g (set rm \<union> set fl)) es es'"
      by (rule swept_remove[OF ih(5)])
    have able: "\<forall>h\<in>insert g (set rm \<union> set fl). sweepable cur prot keep ((g, q) # items) idx h"
      using ih(6) sweepable_Cons sweepable_head[OF False] by blast
    show ?thesis
    proof (cases "io (IoRemove g)")
      case True
      then show ?thesis
        using ih(1-4) sweep able by (intro exI[of _ rm] exI[of _ "g # fl"]) (simp add: res1)
    next
      case kept: False
      then show ?thesis
        using ih(1-4) sweep able by (intro exI[of _ "g # rm"] exI[of _ fl]) (simp add: res1)
    qed
  qed
qed (auto simp: swept_def)

section \<open>The newest are kept\<close>

definition newer :: "GenerationID \<times> Revision \<Rightarrow> GenerationID \<times> Revision \<Rightarrow> bool" where
  "newer a b \<longleftrightarrow> (snd b, fst b) < (snd a, fst a)"

lemma gcOrder_set [simp]: "set (gcOrder cs) = set cs" "length (gcOrder cs) = length cs"
  by (simp_all add: gcOrder_def)

lemma gcOrder_newer:
  assumes "distinct (map fst cs)" and "i < length cs"
  shows "i \<le> length (filter (\<lambda>c. newer c (gcOrder cs ! i)) cs)"
proof -
  let ?k = "\<lambda>(g, r). (r, g)" and ?xs = "gcOrder cs"
  have "mset ?xs = mset cs"
    by (simp add: gcOrder_def)
  then have dist: "distinct (map fst ?xs)"
    using assms(1) by (metis distinct_map mset_eq_setD mset_eq_imp_distinct_iff)
  have desc: "?k (?xs ! i) \<le> ?k (?xs ! j)" if "j < i" for j
  proof -
    have "sorted (map ?k (sort_key ?k cs))"
      by simp
    then have "sorted (rev (map ?k ?xs))"
      by (simp add: gcOrder_def rev_map)
    then have "?k (?xs ! i) \<le> ?k (?xs ! j)" if "j < i" "i < length ?xs"
      using that sorted_rev_nth_mono[of "map ?k ?xs" j i] by simp
    then show ?thesis
      using that assms(2) by simp
  qed
  have "newer (?xs ! j) (?xs ! i)" if "j < i" for j
  proof -
    have "fst (?xs ! j) \<noteq> fst (?xs ! i)"
      using dist that assms(2) nth_eq_iff_index_eq[of "map fst ?xs" j i] by auto
    then show ?thesis
      using desc[OF that] by (auto simp: newer_def split: prod.splits)
  qed
  moreover have "\<exists>j<i. c = ?xs ! j" if "c \<in> set (take i ?xs)" for c
    using that unfolding in_set_conv_nth by fastforce
  ultimately have "\<forall>c\<in>set (take i ?xs). newer c (?xs ! i)"
    by blast
  then have "filter (\<lambda>c. newer c (?xs ! i)) (take i ?xs) = take i ?xs"
    by (simp add: filter_id_conv)
  moreover have "length (filter P ?xs) = length (filter P (take i ?xs)) + length (filter P (drop i ?xs))" for P
    by (metis append_take_drop_id filter_append length_append)
  ultimately have "i \<le> length (filter (\<lambda>c. newer c (?xs ! i)) ?xs)"
    using assms(2) by simp
  moreover have "length (filter P ?xs) = length (filter P cs)" for P
    using \<open>mset ?xs = mset cs\<close> by (metis mset_filter size_mset)
  ultimately show ?thesis
    by simp
qed

lemma sortedResult_sets [simp]:
  "set (gr_Removed (sortedResult r)) = set (gr_Removed r)" "gr_Failed (sortedResult r) = gr_Failed r"
  by (simp_all add: sortedResult_def)

text \<open>The loadable releases that a result reports as deleted or as failed.\<close>

definition collected :: "CertLib \<Rightarrow> string \<Rightarrow> (string \<times> EntryNode) list \<Rightarrow> GCResult \<Rightarrow> GenerationID set" where
  "collected lib domain es res =
     set (gr_Removed res) \<union> set (gr_Failed res) \<inter> fst ` set (loadableReleases lib domain es)"

text \<open>Every entry after a collection: gone, damaged by a failed removal, or what it was.\<close>

definition afterCollection ::
  "CertLib \<Rightarrow> (IOPoint \<Rightarrow> bool) \<Rightarrow> string \<Rightarrow> (string \<times> EntryNode) list \<Rightarrow> GCResult \<Rightarrow> GenerationID \<Rightarrow> EntryNode option" where
  "afterCollection lib io domain es res g =
     (if g \<in> set (gr_Removed res) then None
      else if g \<in> collected lib domain es res then map_option (partialNode io g) (map_of es g)
      else map_of es g)"

definition oldEnough :: "CertLib \<Rightarrow> string \<Rightarrow> int \<Rightarrow> (string \<times> EntryNode) list \<Rightarrow> GenerationID \<Rightarrow> bool" where
  "oldEnough lib domain keep es g \<longleftrightarrow> (\<exists>q. (g, q) \<in> set (loadableReleases lib domain es) \<and>
     keep \<le> int (length (filter (\<lambda>c. newer c (g, q)) (loadableReleases lib domain es))))"

lemma sweepable_oldEnough:
  assumes "sweepable cur prot keep (gcOrder (loadableReleases lib domain es)) 0 g" and "distinct (map fst es)"
  shows "oldEnough lib domain keep es g"
proof -
  let ?cs = "loadableReleases lib domain es"
  obtain i where i: "i < length ?cs" "fst (gcOrder ?cs ! i) = g" "keep \<le> int i"
    using assms(1) by (auto simp: sweepable_def)
  then have "gcOrder ?cs ! i = (g, snd (gcOrder ?cs ! i))" "gcOrder ?cs ! i \<in> set ?cs"
    using nth_mem[of i "gcOrder ?cs"] by (auto simp del: nth_mem)
  moreover have "keep \<le> int (length (filter (\<lambda>c. newer c (gcOrder ?cs ! i)) ?cs))"
    using gcOrder_newer[OF loadableReleases_distinct[OF assms(2)] i(1)] i(3) by linarith
  ultimately show ?thesis
    unfolding oldEnough_def by metis
qed

lemma failed_not_loadable:
  assumes "distinct (map fst es)" and "e \<in> set es" and "loadableReleases lib domain [e] = []"
  shows "fst e \<notin> fst ` set (loadableReleases lib domain es)"
proof
  assume "fst e \<in> fst ` set (loadableReleases lib domain es)"
  then obtain e' where "e' \<in> set es" "fst e' = fst e" "loadableReleases lib domain [e'] \<noteq> []"
    using loadableReleases_origin by fastforce
  moreover have "e' = e"
    using assms(1,2) calculation(1,2) by (metis distinct_map inj_onD)
  ultimately show False
    using assms(3) by simp
qed

lemma gcRelease_ok:
  assumes "gcRelease lib io domain s cur prot keep dd root = ((res, err), root')"
    and dist: "distinct (map fst (entriesOf (dd_Releases dd)))" and "root = DirAt domains" and "domains s = DirAt dd"
  shows "(\<forall>t. t \<noteq> s \<longrightarrow> domainAt root' t = domainAt root t) \<and>
    dd_Current (domainAt root' s) = dd_Current dd \<and> dd_Legacy (domainAt root' s) = dd_Legacy dd \<and>
    (\<forall>g. map_of (entriesOf (dd_Releases (domainAt root' s))) g
       = afterCollection lib io domain (entriesOf (dd_Releases dd)) res g) \<and>
    (\<forall>g\<in>collected lib domain (entriesOf (dd_Releases dd)) res. Some g \<noteq> cur \<and> g \<notin> set prot \<and>
       oldEnough lib domain keep (entriesOf (dd_Releases dd)) g)"
proof (cases "(root', res) = (root, emptyGCResult)")
  case True
  then show ?thesis
    using assms(3,4) by (simp add: domainAt_def emptyGCResult_def afterCollection_def collected_def)
next
  case False
  then obtain es where es: "dd_Releases dd = DirAt es" "\<not> io IoReadDir"
    using assms(1) by (cases "dd_Releases dd") (auto simp: gcRelease_def split: if_splits)
  let ?cs = "loadableReleases lib domain es"
  obtain r1 where scan: "gcScan lib domain es [] emptyGCResult = (?cs, r1)" "gr_Removed r1 = []"
    "\<forall>g\<in>set (gr_Failed r1). \<exists>e\<in>set es. fst e = g \<and> loadableReleases lib domain [e] = []"
    using gcScan_candidates[of lib domain es "[]" emptyGCResult] by (auto simp: emptyGCResult_def)
  obtain r2 es' where sweep: "gcSweep io cur prot keep (gcOrder ?cs) 0 r1 es = (r2, es')"
    by (cases "gcSweep io cur prot keep (gcOrder ?cs) 0 r1 es")
  obtain rm fl where rm: "gr_Removed r2 = rm" "gr_Failed r2 = gr_Failed r1 @ fl"
    "\<forall>g\<in>set rm. \<not> io (IoRemove g)" "\<forall>g\<in>set fl. io (IoRemove g)" "swept io (set rm \<union> set fl) es es'"
    "\<forall>g\<in>set rm \<union> set fl. sweepable cur prot keep (gcOrder ?cs) 0 g"
    using gcSweep_ok[OF sweep] scan(2) by auto
  have out: "root' = setDomain root s (dd\<lparr>dd_Releases := DirAt es'\<rparr>)"
    "set (gr_Removed res) = set rm" "gr_Failed res = gr_Failed r1 @ fl"
    using assms(1) es rm(1,2) by (auto simp: gcRelease_def scan(1) sweep Let_def split: if_splits)
  have old: "oldEnough lib domain keep es g" if "g \<in> set rm \<union> set fl" for g
    using rm(6) that sweepable_oldEnough dist es(1) by fastforce
  have "set fl \<subseteq> fst ` set ?cs"
    using old by (force simp: oldEnough_def)
  moreover have "set (gr_Failed r1) \<inter> fst ` set ?cs = {}"
    using scan(3) failed_not_loadable[of es] dist es(1) by fastforce
  ultimately have coll: "collected lib domain es res = set rm \<union> set fl"
    by (auto simp: collected_def out(2,3))
  have "map_of es' g = afterCollection lib io domain es res g" for g
    using rm(3,4,5) by (auto simp: afterCollection_def coll out(2) swept_def)
  moreover have "Some g \<noteq> cur \<and> g \<notin> set prot \<and> oldEnough lib domain keep es g" if "g \<in> set rm \<union> set fl" for g
    using old rm(6) that by (auto simp: sweepable_def)
  ultimately show ?thesis
    using assms(3) es(1) by (simp add: out(1) coll)
qed

definition referencedGenerations :: "GCOptions \<Rightarrow> GenerationID set" where
  "referencedGenerations options =
     set (gc_ReportReferences options) \<union> set (gc_DeploymentReferences options) \<union> set (gc_ProtectedGenerations options)
       \<union> set (gc_Protected options) \<union> dr_Generation ` set (gc_DeploymentReports options)"

text \<open>C15: What garbage collection may delete, whatever its outcome and whichever system calls fail. Every
  release it reports as removed is gone. A readable release it reports as failed has kept its directory
  and the files the failed removal had not deleted. Only these two kinds are touched: none of them is
  the current release, is referenced or is named by a deployment report, and each has at least the
  configured number of newer releases. Every other release, the pointer and the other domains are what
  they were.
\<close>

theorem gc_keeps:
  assumes "GarbageCollect lib io domain options root = ((res, err), root')"
    and "domainPaths root domain = Inr (s, dd)" and "distinct (map fst (entriesOf (dd_Releases dd)))"
  shows "(\<forall>t. t \<noteq> s \<longrightarrow> domainAt root' t = domainAt root t) \<and>
    dd_Current (domainAt root' s) = dd_Current dd \<and> dd_Legacy (domainAt root' s) = dd_Legacy dd \<and>
    (\<forall>g. map_of (entriesOf (dd_Releases (domainAt root' s))) g
       = afterCollection lib io domain (entriesOf (dd_Releases dd)) res g) \<and>
    (\<forall>g\<in>collected lib domain (entriesOf (dd_Releases dd)) res.
       currentGeneration lib s dd \<noteq> Inr g \<and> g \<notin> referencedGenerations options \<and>
       oldEnough lib domain (gc_KeepRecent options) (entriesOf (dd_Releases dd)) g)"
proof (cases "(root', res) = (root, emptyGCResult)")
  case True
  then show ?thesis
    using domainPaths_ok(3)[OF assms(2)] by (simp add: emptyGCResult_def afterCollection_def collected_def)
next
  case False
  obtain domains where root: "root = DirAt domains" "domains s = DirAt dd"
    using domainPaths_ok(2)[OF assms(2)] by blast
  obtain prot where prot: "gcProtected options = Inr prot"
    using assms(1,2) False by (cases "gcProtected options") (auto simp: GarbageCollect_def split: if_splits)
  then have mem: "g \<notin> set prot \<Longrightarrow> g \<noteq> [] \<Longrightarrow> g \<notin> referencedGenerations options" for g
    by (auto simp: gcProtected_def referencedGenerations_def Let_def split: if_splits)
  have named: "g \<noteq> []" if "oldEnough lib domain keep es g" for g keep es
    using that by (auto simp: oldEnough_def loadableReleases_def validateGeneration_def valid_simps safeSegment_def
        split: if_splits EntryNode.splits sum.splits)
  obtain cur where cur: "gcRelease lib io domain s cur prot (gc_KeepRecent options) dd root = ((res, err), root')"
    "\<And>g. currentGeneration lib s dd = Inr g \<Longrightarrow> cur = Some g"
    using assms(1,2) prot False
    by (cases "currentGeneration lib s dd") (auto simp: GarbageCollect_def split: if_splits)
  show ?thesis
    using gcRelease_ok[OF cur(1) assms(3) root] cur(2) mem named by (intro conjI ballI; (elim conjE)?; blast?)
qed

section \<open>Where a generation is found\<close>

lemma entryNode_cases: "e = None \<or> e = Some EntryLink \<or> e = Some EntryOther \<or> (\<exists>files. e = Some (EntryDir files))"
  by (metis EntryNode.exhaust option.exhaust)

lemma findGeneration_InReleases:
  "findGeneration dd g = Inr (InReleases, files) \<longleftrightarrow> map_of (entriesOf (dd_Releases dd)) g = Some (EntryDir files)"
  using entryNode_cases[of "map_of (entriesOf (dd_Releases dd)) g"] entryNode_cases[of "map_of (entriesOf (dd_Legacy dd)) g"]
  by (elim disjE exE) (simp_all add: findGeneration_def entryDirectory_def)

lemma findGeneration_InLegacy:
  "findGeneration dd g = Inr (InLegacy, files) \<longleftrightarrow> map_of (entriesOf (dd_Releases dd)) g = None
     \<and> map_of (entriesOf (dd_Legacy dd)) g = Some (EntryDir files)"
  using entryNode_cases[of "map_of (entriesOf (dd_Releases dd)) g"] entryNode_cases[of "map_of (entriesOf (dd_Legacy dd)) g"]
  by (elim disjE exE) (simp_all add: findGeneration_def entryDirectory_def)

section \<open>Abort\<close>

text \<open>The state the pointer resolves to depends on the pointer's own target only.\<close>

lemma currentState_same:
  assumes "currentState lib s dd = Inr (g, place, files)" and "dd_Current dd' = dd_Current dd"
    and "dd_Legacy dd' = dd_Legacy dd"
    and "map_of (entriesOf (dd_Releases dd')) g = map_of (entriesOf (dd_Releases dd)) g"
  shows "currentState lib s dd' = Inr (g, place, files)"
proof -
  have "findGeneration dd' g = findGeneration dd g"
    by (simp only: findGeneration_def assms)
  moreover obtain node where "dd_Current dd = Some node"
    using assms(1) by (cases "dd_Current dd") (auto simp: currentState_def)
  ultimately show ?thesis
    using assms by (cases node) (auto simp: currentState_def Let_def)
qed

lemma abortRelease_cases:
  assumes "abortRelease io s g dd root = (err, root')"
  shows "root' = root \<and> err \<noteq> None
    \<or> root' = setDomain root s (dropRelease io g dd) \<and> (io (IoRemove g) \<longrightarrow> err \<noteq> None)"
  using assms by (auto simp: abortRelease_def split: sum.splits option.splits if_splits)

text \<open>Abort deletes the release it is given and touches nothing else. When it reports success the release is
  gone and was not the current one (a failing removal, which may have deleted some of its files, is an error); in every case the other releases, the old directory, the pointer
  and the other domains are what they were, and the current generation still resolves.
\<close>

theorem abort_keeps_current:
  assumes "Abort lib io domain g root = (err, root')" and "domainPaths root domain = Inr (s, dd)"
  shows "(\<forall>t. t \<noteq> s \<longrightarrow> domainAt root' t = domainAt root t) \<and>
    dd_Current (domainAt root' s) = dd_Current dd \<and> dd_Legacy (domainAt root' s) = dd_Legacy dd \<and>
    (\<forall>h. h \<noteq> g \<longrightarrow> map_of (entriesOf (dd_Releases (domainAt root' s))) h = map_of (entriesOf (dd_Releases dd)) h) \<and>
    (err = None \<longrightarrow> map_of (entriesOf (dd_Releases (domainAt root' s))) g = None \<and> currentGeneration lib s dd \<noteq> Inr g) \<and>
    (\<forall>c. currentGeneration lib s dd = Inr c \<longrightarrow> currentGeneration lib s (domainAt root' s) = Inr c)"
proof -
  obtain domains where root: "root = DirAt domains" "domainAt root s = dd"
    using domainPaths_ok(2,3)[OF assms(2)] by blast
  have "root' = root \<and> err \<noteq> None
    \<or> root' = setDomain root s (dropRelease io g dd) \<and> (io (IoRemove g) \<longrightarrow> err \<noteq> None) \<and> currentGeneration lib s dd \<noteq> Inr g"
    using assms abortRelease_cases[of io s g dd root err root']
    by (auto simp: Abort_def guardR_def split: option.splits sum.splits if_splits)
  then show ?thesis
  proof
    assume "root' = root \<and> err \<noteq> None"
    then show ?thesis
      using root by auto
  next
    assume drop: "root' = setDomain root s (dropRelease io g dd) \<and> (io (IoRemove g) \<longrightarrow> err \<noteq> None)
      \<and> currentGeneration lib s dd \<noteq> Inr g"
    define dd' where "dd' = dropRelease io g dd"
    have dd': "dd_Current dd' = dd_Current dd" "dd_Legacy dd' = dd_Legacy dd"
      "err = None \<Longrightarrow> map_of (entriesOf (dd_Releases dd')) g = None"
      "\<And>h. h \<noteq> g \<Longrightarrow> map_of (entriesOf (dd_Releases dd')) h = map_of (entriesOf (dd_Releases dd)) h"
      using drop by (auto simp: dd'_def dropRelease_def map_of_removeRelease)
    have "currentGeneration lib s dd' = Inr c" if c: "currentGeneration lib s dd = Inr c" for c
    proof -
      obtain place files where st: "currentState lib s dd = Inr (c, place, files)"
        using c by (auto simp: currentGeneration_def)
      have "c \<noteq> g"
        using c drop by auto
      then show ?thesis
        using currentState_same[OF st dd'(1,2)] dd'(4) by (simp add: currentGeneration_def)
    qed
    then show ?thesis
      using drop root dd' by (simp flip: dd'_def)
  qed
qed

section \<open>Migration\<close>

lemma currentState_facts:
  assumes "currentState lib s dd = Inr (g, place, files)"
  shows "validateGeneration g = None" "\<exists>x. loadGeneration lib s g files = Inr x"
    "findGeneration dd g = Inr (place, files)"
proof -
  obtain node where node: "dd_Current dd = Some node"
    using assms by (cases "dd_Current dd") (auto simp: currentState_def)
  have link: "validateGeneration g' = None" if "readCurrentLink t = Inr g'" for t g'
    using that by (auto simp: readCurrentLink_def Let_def split: if_splits)
  show "validateGeneration g = None" "\<exists>x. loadGeneration lib s g files = Inr x"
    using assms link by (cases node; force simp: currentState_def node Let_def)+
  show "findGeneration dd g = Inr (place, files)"
    using assms by (cases node) (auto simp: currentState_def node findGeneration_InReleases Let_def)
qed

lemma currentState_found:
  assumes "currentState lib s dd = Inr (g, place, files)" and "dd_Current dd' = dd_Current dd"
    and "dd_Current dd = Some (CurrentFile data)" and "findGeneration dd' g = Inr (p, files)"
  shows "currentState lib s dd' = Inr (g, p, files)"
  using assms by (auto simp: currentState_def Let_def)

lemma currentState_link:
  assumes "validateGeneration g = None" and "loadGeneration lib s g files = Inr x"
    and "map_of (entriesOf (dd_Releases dd)) g = Some (EntryDir files)"
  shows "currentState lib s (dd\<lparr>dd_Current := Some (linkTo g)\<rparr>) = Inr (g, InReleases, files)"
  using assms readCurrentLink_linkTo[OF assms(1)] by (simp add: currentState_def linkTo_def entryDirectory_def)

text \<open>The three directories a migration passes through.\<close>

definition withReleases :: "DomainDir \<Rightarrow> DomainDir" where
  "withReleases dd = dd\<lparr>dd_Releases := DirAt (entriesOf (dd_Releases dd))\<rparr>"

definition movedToReleases :: "GenerationID \<Rightarrow> (string \<times> FileNode) list \<Rightarrow> DomainDir \<Rightarrow> DomainDir" where
  "movedToReleases g files dd =
     dd\<lparr>dd_Releases := DirAt (entriesOf (dd_Releases dd) @ [(g, EntryDir files)]),
        dd_Legacy := DirAt (filter (\<lambda>(n, _). n \<noteq> g) (entriesOf (dd_Legacy dd)))\<rparr>"

lemma migrateCurrent_cases:
  assumes "migrateCurrent lib io s dd = (r, dd')" and st: "currentState lib s dd = Inr (g, place, files)"
    and "\<not> doubleFault io"
  shows "(r = Inr (g, files) \<and> dd' = dd \<and> place = InReleases) \<or>
    (r = Inr (g, files) \<and> place = InReleases \<and> dd' = dd\<lparr>dd_Current := Some (linkTo g)\<rparr>) \<or>
    (r = Inr (g, files) \<and> place = InLegacy \<and> dd' = (movedToReleases g files dd)\<lparr>dd_Current := Some (linkTo g)\<rparr>) \<or>
    (isl r \<and> (\<exists>data. dd_Current dd = Some (CurrentFile data)) \<and>
       (dd' = dd \<or> dd' = withReleases dd \<or> (place = InLegacy \<and> dd' = movedToReleases g files dd)))"
proof (cases "\<exists>data. dd_Current dd = Some (CurrentFile data)")
  case False
  obtain node where node: "dd_Current dd = Some node"
    using st by (cases "dd_Current dd") (auto simp: currentState_def)
  then have "place = InReleases"
    using False st by (cases node) (auto simp: currentState_def)
  moreover have "migrateCurrent lib io s dd = (Inr (g, files), dd)"
    using False node by (cases node) (simp_all add: migrateCurrent_def st)
  ultimately show ?thesis
    using assms(1) by simp
next
  case True
  then obtain data where ptr: "dd_Current dd = Some (CurrentFile data)" ..
  show ?thesis
  proof (cases place)
    case InReleases
    obtain e dd1 where w: "writeCurrent io g dd = (e, dd1)"
      by (cases "writeCurrent io g dd")
    then show ?thesis
      using assms(1) ptr InReleases writeCurrent_fail[OF _ assms(3)] writeCurrent_ok(1)[of io g dd]
      by (cases e) (auto simp: migrateCurrent_def st)
  next
    case InLegacy
    let ?moved = "movedToReleases g files dd"
    obtain e dd1 where w: "writeCurrent io g ?moved = (e, dd1)"
      by (cases "writeCurrent io g ?moved")
    have undo: "?moved\<lparr>dd_Releases := DirAt (entriesOf (dd_Releases dd)), dd_Legacy := dd_Legacy dd\<rparr> = withReleases dd"
      by (simp add: movedToReleases_def withReleases_def)
    have run: "migrateCurrent lib io s dd =
      (if dd_Releases dd = DirUnsafe then (Inl CertUnsafePath, dd)
       else if io IoEnsureDir then (Inl CertIO, dd)
       else if io IoMoveLegacy then (Inl CertIO, withReleases dd)
       else if io IoSyncMoved \<or> io IoSyncLegacy
         then (Inl CertIO, if io IoMoveBack then ?moved else withReleases dd)
       else (case (e, dd1) of
               (Some e, d) \<Rightarrow> (Inl e, if io IoMoveBack then d
                  else d\<lparr>dd_Releases := DirAt (entriesOf (dd_Releases dd)), dd_Legacy := dd_Legacy dd\<rparr>)
             | (None, d) \<Rightarrow> (Inr (g, files), d)))"
      using w InLegacy
      by (cases e) (simp_all add: migrateCurrent_def st ptr Let_def movedToReleases_def withReleases_def)
    show ?thesis
    proof (cases e)
      case None
      then show ?thesis
        using assms(1) ptr InLegacy w writeCurrent_ok(1)[of io g ?moved dd1]
        unfolding run by (auto split: if_splits)
    next
      case (Some e')
      then have "dd1 = ?moved"
        using writeCurrent_fail[OF _ assms(3)] w by blast
      then show ?thesis
        using assms(1) ptr InLegacy Some undo unfolding run by (auto split: if_splits)
    qed
  qed
qed

text \<open>Migration never loses the certificate in use. Whatever system call fails, except the double
  fault, the domain's current generation is afterwards the same one with the same files; on success
  it lies among the releases.
\<close>

theorem migration_keeps_current:
  assumes "migrateCurrent lib io s dd = (r, dd')" and "currentState lib s dd = Inr (g, place, files)"
    and "\<not> (io IoSyncDomain \<and> io IoRestore)"
  shows "\<exists>p. currentState lib s dd' = Inr (g, p, files) \<and> (r = Inr (g, files) \<and> p = InReleases \<or> isl r)"
proof -
  note f = currentState_facts[OF assms(2)]
  obtain x where x: "loadGeneration lib s g files = Inr x"
    using f(2) ..
  have moved: "map_of (entriesOf (dd_Releases (movedToReleases g files dd))) g = Some (EntryDir files)"
    if "place = InLegacy"
    using f(3) that by (simp add: findGeneration_InLegacy movedToReleases_def map_add_def)
  have link: "currentState lib s (d\<lparr>dd_Current := Some (linkTo g)\<rparr>) = Inr (g, InReleases, files)"
    if "map_of (entriesOf (dd_Releases d)) g = Some (EntryDir files)" for d
    by (rule currentState_link[OF f(1) x that])
  have with_releases: "currentState lib s (withReleases dd) = Inr (g, place, files)"
    using currentState_same[OF assms(2)] by (simp add: withReleases_def)
  have found: "currentState lib s (movedToReleases g files dd) = Inr (g, InReleases, files)"
    if "place = InLegacy" "dd_Current dd = Some (CurrentFile data)" for data
    using currentState_found[OF assms(2) _ that(2)] moved[OF that(1)]
    by (simp add: findGeneration_InReleases[symmetric]) (simp add: movedToReleases_def)
  show ?thesis
    using migrateCurrent_cases[OF assms(1,2)] assms(2,3) f(3) link moved with_releases found
    by (auto simp: doubleFault_def findGeneration_InReleases)
qed

section \<open>Concrete inputs\<close>

definition demoDomain2 :: DomainDir where
  "demoDomain2 = published ''g-61'' (releaseFiles demoFiles ''{2}'') demoDomain"

lemma demoDomain2_fields:
  "dd_Releases demoDomain2 = DirAt [(''g-1'', EntryDir (releaseFiles demoFiles ''{1}'')),
     (''g-61'', EntryDir (releaseFiles demoFiles ''{2}''))]"
  "dd_Legacy demoDomain2 = DirAbsent" "dd_Current demoDomain2 = Some (linkTo ''g-61'')"
  by (simp_all add: demoDomain2_def published_def addRelease_def demoDomain_def)

lemma demo_paths2: "domainPaths demoRoot2 ''a.b'' = Inr (''a.b'', demoDomain2)"
  unfolding demoRoot2_def demoCertRoot_def demoDomain2_def
  by (rule domainPaths_setDomain) (simp_all add: published_def addRelease_def)

lemma demo_current2: "currentGeneration demoLib ''a.b'' demoDomain2 = Inr ''g-61''"
proof -
  have "map_of (entriesOf (dd_Releases demoDomain)) ''g-61'' = None"
    by (simp add: demoDomain_def)
  then show ?thesis
    using published_current(1)[OF demo_gen(1) _ demo_loadOut] by (simp add: currentGeneration_def demoDomain2_def)
qed

definition keepOne :: GCOptions where
  "keepOne = \<lparr>gc_KeepRecent = 1, gc_ReportReferences = [], gc_DeploymentReferences = [],
     gc_DeploymentReports = [], gc_ProtectedGenerations = [], gc_Protected = []\<rparr>"

text \<open>A removal of \<open>g-1\<close> that fails after it has deleted the private key.\<close>

definition removeFault :: "IOPoint \<Rightarrow> bool" where
  "removeFault p = (p \<in> {IoRemove ''g-1'', IoUnlinked ''g-1'' ''key.pem''})"

lemma demo_collect:
  assumes "io IoReadDir = False"
  shows "\<exists>root'. GarbageCollect demoLib io ''a.b'' keepOne demoRoot2
    = ((if io (IoRemove ''g-1'')
        then \<lparr>gr_Removed = [], gr_Retained = [''g-1'', ''g-61''], gr_Failed = [''g-1'']\<rparr>
        else \<lparr>gr_Removed = [''g-1''], gr_Retained = [''g-61''], gr_Failed = []\<rparr>,
        if \<not> io (IoRemove ''g-1'') \<and> io IoSyncReleases then Some CertIO else None), root')"
proof -
  have "gcOrder [(''g-1'', 1), (''g-61'', 2)] = [(''g-61'', 2), (''g-1'', 1)]"
    by (simp add: gcOrder_def)
  then show ?thesis
    using assms
    by (simp add: GarbageCollect_def keepOne_def gcProtected_def demo_paths2 demo_current2 gcRelease_def
        demoDomain2_fields demo_load demo_loadOut demoManifest_def sortedResult_def emptyGCResult_def)
qed

theorem gc_keeps_witness:
  "\<exists>root'. GarbageCollect demoLib removeFault ''a.b'' keepOne demoRoot2
       = ((\<lparr>gr_Removed = [], gr_Retained = [''g-1'', ''g-61''], gr_Failed = [''g-1'']\<rparr>, None), root') \<and>
     dd_Current (domainAt root' ''a.b'') = Some (linkTo ''g-61'') \<and>
     map_of (entriesOf (dd_Releases (domainAt root' ''a.b''))) ''g-1''
       = Some (EntryDir (filter (\<lambda>(n, _). n \<noteq> ''key.pem'') (releaseFiles demoFiles ''{1}'')))"
proof -
  obtain root' where root': "GarbageCollect demoLib removeFault ''a.b'' keepOne demoRoot2
     = ((\<lparr>gr_Removed = [], gr_Retained = [''g-1'', ''g-61''], gr_Failed = [''g-1'']\<rparr>, None), root')"
    using demo_collect[of removeFault] by (auto simp: removeFault_def)
  have "loadableReleases demoLib ''a.b'' (entriesOf (dd_Releases demoDomain2)) = [(''g-1'', 1), (''g-61'', 2)]"
    by (simp add: loadableReleases_def demoDomain2_fields demo_load demo_loadOut demoManifest_def)
  then show ?thesis
    using root' gc_keeps[OF root' demo_paths2]
    by (auto simp: demoDomain2_fields afterCollection_def collected_def removeFault_def)
qed

theorem abort_keeps_current_witness:
  "\<exists>root'. Abort demoLib noFault ''a.b'' ''g-1'' demoRoot2 = (None, root') \<and>
     map_of (entriesOf (dd_Releases (domainAt root' ''a.b''))) ''g-1'' = None \<and>
     currentGeneration demoLib ''a.b'' (domainAt root' ''a.b'') = Inr ''g-61''"
proof -
  have "\<exists>root'. Abort demoLib noFault ''a.b'' ''g-1'' demoRoot2 = (None, root')"
    by (simp add: Abort_def demo_paths2 demo_current2 abortRelease_def demoDomain2_fields entryDirectory_def)
  then obtain root' where root': "Abort demoLib noFault ''a.b'' ''g-1'' demoRoot2 = (None, root')" ..
  then show ?thesis
    using abort_keeps_current[OF root' demo_paths2] demo_current2 by simp
qed

definition oldLayout :: DomainDir where
  "oldLayout = \<lparr>dd_Releases = DirAbsent, dd_Legacy = DirAt [(''g-1'', EntryDir (releaseFiles demoFiles ''{1}''))],
     dd_Current = Some (CurrentFile ''g-1'')\<rparr>"

lemma oldLayout_current: "currentState demoLib ''a.b'' oldLayout = Inr (''g-1'', InLegacy, releaseFiles demoFiles ''{1}'')"
proof -
  have "TrimSpace ''g-1'' = ''g-1''"
    by (simp add: visible_eval)
  moreover have "findGeneration oldLayout ''g-1'' = Inr (InLegacy, releaseFiles demoFiles ''{1}'')"
    by (simp add: findGeneration_InLegacy oldLayout_def entriesOf_def)
  ultimately show ?thesis
    by (simp add: currentState_def demo_load) (simp add: oldLayout_def demo_load)
qed

theorem migration_keeps_current_witness:
  "\<exists>p. currentState demoLib ''a.b'' (snd (migrateCurrent demoLib syncFault ''a.b'' oldLayout))
     = Inr (''g-1'', p, releaseFiles demoFiles ''{1}'')"
  using migration_keeps_current[OF prod.collapse[symmetric] oldLayout_current, of syncFault]
  by (auto simp: syncFault_def)

text \<open>The PEM loop ends. For a decoder that consumes input, which \<^verbatim>\<open>pem.Decode\<close> does, the loop
  needs no more rounds than there are bytes: any larger bound gives the same blocks.
\<close>

theorem pem_loop_ends:
  assumes "pemConsumes lib" and "TrimSpace data \<noteq> []" and "length data \<le> fuel"
  shows "decodePEMLoop lib fuel (TrimSpace data) = decodePEMBlocks lib data"
  using assms decodePEMLoop_enough[of lib "TrimSpace data" fuel] length_TrimSpace[of data]
  by (simp add: decodePEMBlocks_def Let_def)

theorem pem_loop_ends_witness:
  "decodePEMLoop demoLib 9 (TrimSpace ''C'') = decodePEMBlocks demoLib ''C''"
  by (rule pem_loop_ends) (auto simp: pemConsumes_def visible_eval)

end
