(* ===== verification/ServiceErrors.thy ===== *)
theory ServiceErrors
  imports Scheduler CertPublish StoreGenerations
begin

text \<open>
  The errors of the v2 service (\<^verbatim>\<open>internal/service/v2.go\<close>) and what callers are told of them.
  The text of an error that only people read is represented by a short name of its cause; the
  texts the service stores and the ones its decisions depend on are given in full.
\<close>

section \<open>Errors\<close>

text \<open>
  An error of the service is a Go error with what \<^verbatim>\<open>errors.As\<close> and \<^verbatim>\<open>errors.Is\<close> find in its
  chain: a validation, permission or protocol error, a message marked as safe, the text of an
  ACME operation error, or one of the certificate store's errors.
\<close>

record V2Error =
  ve_Go :: GoError
  ve_Validation :: "string option"
  ve_Permission :: "string option"
  ve_Protocol :: "ErrorResponse option"
  ve_Safe :: "string option"
  ve_Operation :: "string option"
  ve_Cert :: "CertErr option"

definition plainV2 :: "GoError \<Rightarrow> V2Error" where
  "plainV2 e = \<lparr>ve_Go = e, ve_Validation = None, ve_Permission = None, ve_Protocol = None, ve_Safe = None,
     ve_Operation = None, ve_Cert = None\<rparr>"

definition ValidationError :: "string \<Rightarrow> V2Error" where
  "ValidationError msg = (plainV2 (errorsNew msg))\<lparr>ve_Validation := Some msg\<rparr>"

definition PermissionError :: "string \<Rightarrow> V2Error" where
  "PermissionError msg = (plainV2 (errorsNew msg))\<lparr>ve_Permission := Some msg\<rparr>"

definition v2SafeError :: "string \<Rightarrow> V2Error" where
  "v2SafeError msg = (plainV2 (errorsNew msg))\<lparr>ve_Safe := Some msg\<rparr>"

definition protocolError :: "ErrorCode \<Rightarrow> string \<Rightarrow> V2Error" where
  "protocolError code msg =
     (let r = \<lparr>er_Code = code, er_Message = msg, er_Retryable = False, er_Details = []\<rparr>
      in (plainV2 (errorsNew (ErrorResponse_Error r)))\<lparr>ve_Protocol := Some r\<rparr>)"

section \<open>Public messages\<close>

definition MsgCanceled :: string where
  "MsgCanceled = map char_of ([0xE6, 0x93, 0x8D, 0xE4, 0xBD, 0x9C, 0xE5, 0xB7, 0xB2, 0xE5, 0x8F, 0x96, 0xE6, 0xB6,
     0x88] :: nat list)"

definition MsgTimeout :: string where
  "MsgTimeout = map char_of ([0xE6, 0x93, 0x8D, 0xE4, 0xBD, 0x9C, 0xE8, 0xB6, 0x85, 0xE6, 0x97, 0xB6] :: nat list)"

definition MsgInvalidCertificate :: string where
  "MsgInvalidCertificate = map char_of ([0xE8, 0xAF, 0x81, 0xE4, 0xB9, 0xA6, 0xE5, 0x86, 0x85, 0xE5, 0xAE, 0xB9, 0xE6, 0xA0,
     0xA1, 0xE9, 0xAA, 0x8C, 0xE5, 0xA4, 0xB1, 0xE8, 0xB4, 0xA5] :: nat list)"

definition MsgInvalidManifest :: string where
  "MsgInvalidManifest = map char_of ([0xE8, 0xAF, 0x81, 0xE4, 0xB9, 0xA6, 0xE4, 0xBA, 0xA7, 0xE7, 0x89, 0xA9, 0xE4, 0xB8,
     0x8D, 0xE5, 0xAE, 0x8C, 0xE6, 0x95, 0xB4] :: nat list)"

definition MsgUnsafePath :: string where
  "MsgUnsafePath = map char_of ([0xE8, 0xAF, 0x81, 0xE4, 0xB9, 0xA6, 0xE4, 0xBB, 0x93, 0xE5, 0x82, 0xA8, 0xE8, 0xB7,
     0xAF, 0xE5, 0xBE, 0x84, 0xE4, 0xB8, 0x8D, 0xE5, 0xAE, 0x89, 0xE5, 0x85, 0xA8] :: nat list)"

definition MsgNotFound :: string where
  "MsgNotFound = map char_of ([0xE8, 0xAF, 0x81, 0xE4, 0xB9, 0xA6, 0xE4, 0xBA, 0xA7, 0xE7, 0x89, 0xA9, 0xE4, 0xB8,
     0x8D, 0xE5, 0xAD, 0x98, 0xE5, 0x9C, 0xA8] :: nat list)"

definition MsgInternal :: string where
  "MsgInternal = map char_of ([0xE5, 0x86, 0x85, 0xE9, 0x83, 0xA8, 0xE5, 0xA4, 0x84, 0xE7, 0x90, 0x86, 0xE5, 0xA4,
     0xB1, 0xE8, 0xB4, 0xA5] :: nat list)"

definition v2PublicErrorMessage :: "V2Error \<Rightarrow> string" where
  "v2PublicErrorMessage e =
     (case ve_Validation e of Some msg \<Rightarrow> msg
      | None \<Rightarrow> (case ve_Safe e of Some msg \<Rightarrow> msg
      | None \<Rightarrow> (case ve_Operation e of Some msg \<Rightarrow> msg
      | None \<Rightarrow>
          if errorsIs en_Canceled (ve_Go e) then MsgCanceled
          else if errorsIs en_DeadlineExceeded (ve_Go e) then MsgTimeout
          else if ve_Cert e = Some CertInvalidCertificate then MsgInvalidCertificate
          else if ve_Cert e = Some CertInvalidManifest then MsgInvalidManifest
          else if ve_Cert e = Some CertUnsafePath then MsgUnsafePath
          else if ve_Cert e = Some CertNotFound then MsgNotFound
          else MsgInternal)))"

definition v2Retryable :: "V2Error \<Rightarrow> bool" where
  "v2Retryable e =
     (errorsIs en_DeadlineExceeded (ve_Go e) \<or> errorsIs en_Canceled (ve_Go e)
      \<or> ClassifyError (Some (ve_Go e)) = ErrorTemporary)"

section \<open>The HTTP answer to an error\<close>

datatype ErrorBody = ProtocolBody ErrorResponse | TextBody string

text \<open>\<^verbatim>\<open>writeV2Error\<close> of \<^verbatim>\<open>internal/api/v2.go\<close>: the status code and the body.\<close>

definition writeV2Error :: "V2Error \<Rightarrow> nat \<times> ErrorBody" where
  "writeV2Error e =
     (case ve_Protocol e of Some r \<Rightarrow> (HTTPStatusForErrorCode (er_Code r), ProtocolBody r)
      | None \<Rightarrow> (case ve_Validation e of Some msg \<Rightarrow> (400, TextBody msg)
      | None \<Rightarrow> (case ve_Permission e of
          Some msg \<Rightarrow> (403, ProtocolBody \<lparr>er_Code = ErrorCodeForbidden, er_Message = msg, er_Retryable = False, er_Details = []\<rparr>)
      | None \<Rightarrow> (500, TextBody MsgInternal))))"

section \<open>Checks on request texts\<close>

definition v2LabelErr :: "string \<Rightarrow> V2Error option" where
  "v2LabelErr label = firstErr
     [failIf (label = [] \<or> length label > 63 \<or> hd label = CHR ''-'' \<or> last label = CHR ''-'')
        (ValidationError ''domain''),
      failIf (list_ex (\<lambda>c. \<not> byteIn (CHR ''a'') (CHR ''z'') c \<and> \<not> byteIn (CHR ''0'') (CHR ''9'') c
                \<and> c \<noteq> CHR ''-'') label) (ValidationError ''domain'')]"

definition v2ValidateDomain :: "string \<Rightarrow> V2Error option" where
  "v2ValidateDomain domain = firstErr
     ([failIf (domain = []) (ValidationError ''domain''),
       failIf (domain \<noteq> toLowerASCII domain \<or> TrimSpace domain \<noteq> domain \<or> length domain > 253
               \<or> contains (CHR ''*'') domain \<or> isIPv4 domain \<or> \<not> contains (CHR ''.'') domain)
         (ValidationError ''domain'')]
      @ map v2LabelErr (splitOn (CHR ''.'') domain))"

definition v2HasControl :: "string \<Rightarrow> bool" where
  "v2HasControl value = list_ex (\<lambda>c. byteval c < 0x20 \<or> byteval c = 0x7f) value"

text \<open>
  The control characters are single bytes; bytes that are no UTF-8, which \<^verbatim>\<open>strings.Map\<close> would
  replace, do not reach this text, as it comes out of a JSON decoder.
\<close>

definition v2SanitizeDetail :: "string \<Rightarrow> nat \<Rightarrow> string" where
  "v2SanitizeDetail value limit = take limit (filter (\<lambda>c. \<not> (byteval c < 0x20 \<or> byteval c = 0x7f)) value)"

definition v2OrDefault :: "string \<Rightarrow> string \<Rightarrow> string" where
  "v2OrDefault value fallback = (if value = [] then fallback else value)"

definition v2MapDeploymentState :: "DeploymentState \<Rightarrow> V2Error + string" where
  "v2MapDeploymentState state =
     (if state = DeploymentStatePending then Inr ''pending''
      else if state = DeploymentStateDeploying then Inr ''running''
      else if state = DeploymentStateSucceeded \<or> state = DeploymentStateSkipped then Inr ''succeeded''
      else if state = DeploymentStateFailed then Inr ''failed''
      else Inl (ValidationError ''state''))"

definition v2NewJobID :: "string option \<Rightarrow> V2Error + string" where
  "v2NewJobID token = (case token of None \<Rightarrow> Inl (plainV2 (errorsNew ''random'')) | Some raw \<Rightarrow> Inr (hexEncode raw))"

definition splitCSV :: "string \<Rightarrow> string list" where
  "splitCSV s = (if s = [] then [] else filter (\<lambda>p. p \<noteq> []) (map TrimSpace (splitOn (CHR '','') s)))"

definition nullable :: "string \<Rightarrow> string option" where
  "nullable s = (if s \<noteq> [] then Some s else None)"

text \<open>\<^verbatim>\<open>strconv.ParseInt(s, 10, 64)\<close> with the error dropped.\<close>

definition parseTimeLog :: "string \<Rightarrow> int" where
  "parseTimeLog s =
     (let (neg, digits) = (case s of c # r \<Rightarrow> if c = CHR ''-'' then (True, r) else if c = CHR ''+'' then (False, r) else (False, s)
                           | [] \<Rightarrow> (False, []))
      in if digits = [] \<or> \<not> list_all isDigit digits then 0
         else let n = int (decValue digits)
              in if neg then (if n > 2 ^ 63 then - (2 ^ 63) else - n) else (if n \<ge> 2 ^ 63 then 2 ^ 63 - 1 else n))"

section \<open>What the checks give\<close>

lemma v2LabelErr_ok [valid_simps]: "v2LabelErr l = None \<longleftrightarrow> domainLabel l"
  by (auto simp: v2LabelErr_def domainLabel_def domainByte_def list_ex_iff list_all_iff not_less)

lemma v2ValidateDomain_ok [valid_simps]: "v2ValidateDomain d = None \<longleftrightarrow> hostName d"
proof
  assume "v2ValidateDomain d = None"
  then show "hostName d"
    unfolding v2ValidateDomain_def hostName_def splitOn_length_1
    by (simp add: list_all_iff ball_Un valid_simps contains_def not_less)
next
  assume h: "hostName d"
  then have labels: "list_all domainLabel (splitOn (CHR ''.'') d)"
    by (simp add: hostName_def)
  show "v2ValidateDomain d = None"
    using h labels labels_lower[OF labels] labels_plain[OF labels] safeSegment_def[of d] hostName_safeSegment[OF h]
    unfolding v2ValidateDomain_def hostName_def splitOn_length_1
    by (simp add: list_all_iff ball_Un valid_simps contains_def not_less)
qed

lemma MsgInternal_nonempty [simp]:
  "MsgInternal \<noteq> []" "MsgCanceled \<noteq> []" "MsgTimeout \<noteq> []" "MsgInvalidCertificate \<noteq> []"
  "MsgInvalidManifest \<noteq> []" "MsgUnsafePath \<noteq> []" "MsgNotFound \<noteq> []"
  by (simp_all add: MsgInternal_def MsgCanceled_def MsgTimeout_def MsgInvalidCertificate_def
      MsgInvalidManifest_def MsgUnsafePath_def MsgNotFound_def)

end
