(* ===== verification/ServiceV2.thy ===== *)
theory ServiceV2
  imports ServiceErrors StoreAccess
begin

text \<open>
  The v2 service methods callers reach (\<^verbatim>\<open>internal/service/v2.go\<close>): reconcile requests, status,
  manifests, files, deployment reports and job status, over the database and the certificate
  store.  The clock is in nanoseconds; one reading stands for those of one call.
\<close>

section \<open>The service's surroundings and state\<close>

text \<open>
  The libraries, the failing system calls, the texts and error chains of store errors, and the
  configuration the service reads.  \<open>se_openErr\<close> is the error of opening the certificate store.
\<close>

record V2Env =
  se_lib :: CertLib
  se_io :: "IOPoint \<Rightarrow> bool"
  se_storeError :: "StoreError \<Rightarrow> GoError"
  se_certError :: "CertErr \<Rightarrow> GoError"
  se_openErr :: "V2Error option"
  se_DefaultRenewDays :: int
  se_DefaultCA :: string
  se_DefaultKeylength :: string

record V2State =
  vs_Db :: Db
  vs_Root :: CertRoot

definition unixSec :: "int \<Rightarrow> int" where
  "unixSec now = now div 1000000000"

text \<open>\<^verbatim>\<open>time.Unix(s, 0)\<close> in nanoseconds since Go's zero time.\<close>

definition timeUnix :: "int \<Rightarrow> GoTime" where
  "timeUnix s = (s + 62135596800) * 1000000000"

definition storeV2Error :: "V2Env \<Rightarrow> StoreError \<Rightarrow> V2Error" where
  "storeV2Error env e = plainV2 (se_storeError env e)"

definition certV2Error :: "V2Env \<Rightarrow> CertErr \<Rightarrow> V2Error" where
  "certV2Error env e = (plainV2 (se_certError env e))\<lparr>ve_Cert := Some e\<rparr>"

text \<open>\<^verbatim>\<open>errors.New\<close> of the public message of an error.\<close>

definition publicError :: "V2Error \<Rightarrow> V2Error" where
  "publicError e = plainV2 (errorsNew (v2PublicErrorMessage e))"

definition onCert :: "V2Env \<Rightarrow> CertErr + 'a \<Rightarrow> V2Error + 'a" where
  "onCert env r = (case r of Inl e \<Rightarrow> Inl (certV2Error env e) | Inr v \<Rightarrow> Inr v)"

section \<open>Authorisation and audit\<close>

definition requireV2Permission :: "V2Env \<Rightarrow> string \<Rightarrow> string \<Rightarrow> string \<Rightarrow> Db \<Rightarrow> V2Error option" where
  "requireV2Permission env tokenID domain permission db =
     (case HasCertificatePermission db tokenID domain permission of
        Inl e \<Rightarrow> Some (storeV2Error env e)
      | Inr ok \<Rightarrow> failIf (\<not> ok) (PermissionError permission))"

definition auditV2 :: "int \<Rightarrow> string \<Rightarrow> string \<Rightarrow> string \<Rightarrow> string \<Rightarrow> string \<Rightarrow> Db \<Rightarrow> Db" where
  "auditV2 now tokenID domain action outcome detail db =
     snd (AddAuditEvent (unixSec now)
       (Some \<lparr>ae_ID = 0, ae_ActorTokenID = nullable tokenID, ae_Domain = nullable domain, ae_Action = action,
              ae_Outcome = outcome, ae_Detail = nullable detail, ae_CreatedAt = 0\<rparr>) db)"

section \<open>The current certificate\<close>

record V2CurrentState =
  vc_generation :: GenerationID
  vc_manifest :: CertificateManifest
  vc_manifestRevision :: Revision
  vc_notAfter :: int
  vc_timeLog :: int
  vc_exists :: bool

definition noCurrentState :: V2CurrentState where
  "noCurrentState = \<lparr>vc_generation = [], vc_manifest = [], vc_manifestRevision = 0, vc_notAfter = -62135596800,
     vc_timeLog = 0, vc_exists = False\<rparr>"

text \<open>\<^verbatim>\<open>parsePemChain\<close> of \<^verbatim>\<open>internal/acme/cert_parse.go\<close>, with fuel: one unit per byte is enough.\<close>

fun parsePemChain :: "CertLib \<Rightarrow> nat \<Rightarrow> string \<Rightarrow> X509 list" where
  "parsePemChain lib 0 data = []"
| "parsePemChain lib (Suc fuel) data =
     (if data = [] then []
      else case lib_pemDecode lib data of
        None \<Rightarrow> []
      | Some (ty, bytes, rest) \<Rightarrow>
          if ty \<noteq> ''CERTIFICATE'' then parsePemChain lib fuel rest
          else (case lib_parseCertificate lib bytes of
                  None \<Rightarrow> parsePemChain lib fuel rest
                | Some c \<Rightarrow> c # parsePemChain lib fuel rest))"

definition ParsePemExpiry :: "CertLib \<Rightarrow> string \<Rightarrow> V2Error + int" where
  "ParsePemExpiry lib data =
     (let first = (if data = [] then None
                   else case lib_pemDecode lib data of
                     Some (ty, bytes, _) \<Rightarrow> if ty = ''CERTIFICATE'' then lib_parseCertificate lib bytes else None
                   | None \<Rightarrow> None)
      in case first of
           Some c \<Rightarrow> Inr (xc_NotAfter c)
         | None \<Rightarrow>
             (case parsePemChain lib (length data) data of
                [] \<Rightarrow> Inl (plainV2 (errorsNew ''pem''))
              | c # _ \<Rightarrow> Inr (xc_NotAfter c)))"

text \<open>
  \<^verbatim>\<open>readV2CurrentState\<close>.  It names its generation in every read, so it migrates nothing and
  leaves the store as it is (\<open>resolve_named\<close>).
\<close>

definition readV2CurrentState :: "V2Env \<Rightarrow> string \<Rightarrow> CertRoot \<Rightarrow> V2Error + V2CurrentState" where
  "readV2CurrentState env domain root =
     (let lib = se_lib env; io = se_io env
      in case GetCurrent lib domain root of
           Inl e \<Rightarrow> if e = CertNotFound then Inr noCurrentState else Inl (certV2Error env e)
         | Inr generation \<Rightarrow>
             bindR (onCert env (fst (LoadManifest lib io domain generation root))) (\<lambda>manifest.
             bindR (onCert env (fst (ReadCertFile lib io domain generation ''fullchain.pem'' root))) (\<lambda>fullchain.
             bindR (ParsePemExpiry lib fullchain) (\<lambda>notAfter.
               Inr \<lparr>vc_generation = generation, vc_manifest = manifest,
                    vc_manifestRevision =
                      (case fst (LoadGenerationManifest lib io domain generation root) of
                         Inl _ \<Rightarrow> 0 | Inr full \<Rightarrow> gm_Revision full),
                    vc_notAfter = notAfter,
                    vc_timeLog =
                      (case fst (ReadCertFile lib io domain generation ''time.log'' root) of
                         Inl _ \<Rightarrow> 0 | Inr data \<Rightarrow> parseTimeLog (TrimSpace data)),
                    vc_exists = True\<rparr>))))"

definition readV2CurrentStateSafe :: "V2Env \<Rightarrow> string \<Rightarrow> CertRoot \<Rightarrow> V2CurrentState" where
  "readV2CurrentStateSafe env domain root =
     (case readV2CurrentState env domain root of Inl _ \<Rightarrow> noCurrentState | Inr state \<Rightarrow> state)"

section \<open>Status bodies\<close>

record CertificateStatus =
  st_Domain :: string
  st_Generation :: GenerationID
  st_Revision :: Revision
  st_State :: string
  st_NotAfter :: int
  st_TimeLog :: int
  st_Files :: CertificateManifest
  st_Exists :: bool

definition v2BuildCertificateStatus :: "string \<Rightarrow> V2CurrentState \<Rightarrow> int \<Rightarrow> CertificateStatus" where
  "v2BuildCertificateStatus domain state now =
     (if \<not> vc_exists state
      then \<lparr>st_Domain = domain, st_Generation = [], st_Revision = 0, st_State = ''missing'',
            st_NotAfter = -62135596800, st_TimeLog = 0, st_Files = [], st_Exists = False\<rparr>
      else \<lparr>st_Domain = domain, st_Generation = vc_generation state, st_Revision = vc_manifestRevision state,
            st_State = (if now < vc_notAfter state * 1000000000 then ''valid'' else ''expired''),
            st_NotAfter = vc_notAfter state, st_TimeLog = vc_timeLog state, st_Files = vc_manifest state,
            st_Exists = True\<rparr>)"

definition v2BuildJobStatus :: "CertificateJob \<Rightarrow> GenerationID \<Rightarrow> Revision \<Rightarrow> JobStatus" where
  "v2BuildJobStatus job generation revision =
     \<lparr>js_ID = cj_ID job, js_State = cj_Status job, js_Generation = generation, js_Revision = revision,
      js_Message = [], js_Retryable = False, js_ErrorCode = [], js_NextAttemptAt = None,
      js_Error = (if orEmpty (cj_ErrorMessage job) \<noteq> []
                  then Some \<lparr>er_Code = ErrorCodeJobFailed, er_Message = orEmpty (cj_ErrorMessage job),
                             er_Retryable = False, er_Details = []\<rparr>
                  else None),
      js_CreatedAt = timeUnix (cj_CreatedAt job), js_StartedAt = map_option timeUnix (cj_StartedAt job),
      js_FinishedAt = map_option timeUnix (cj_FinishedAt job)\<rparr>"

definition v2GenerationRevision :: "string \<Rightarrow> GenerationID \<Rightarrow> Db \<Rightarrow> Revision" where
  "v2GenerationRevision domain generation db =
     (if generation = [] then 0
      else case List.find (\<lambda>g. cg_CertificateRef g = Some generation) (ListCertificateGenerations domain db) of
        None \<Rightarrow> 0
      | Some g \<Rightarrow> word_of_int (cg_Revision g))"

definition v2JobGeneration :: "CertificateJob \<Rightarrow> Db \<Rightarrow> GenerationID \<times> Revision" where
  "v2JobGeneration job db =
     (case List.find (\<lambda>g. cg_JobID g = cj_ID job) (ListCertificateGenerations (cj_Domain job) db) of
        None \<Rightarrow> ([], 0)
      | Some g \<Rightarrow> (orEmpty (cg_CertificateRef g), word_of_int (cg_Revision g)))"

section \<open>Reconcile requests\<close>

record V2ReconcileRequest =
  vq_TokenID :: string
  vq_IsAdmin :: bool
  vq_Domain :: string
  vq_Operation :: string
  vq_Reason :: string
  vq_IdempotencyKey :: string
  vq_Force :: bool

record ReconcileResponse =
  rc_Success :: bool
  rc_Domain :: string
  rc_Generation :: GenerationID
  rc_Revision :: Revision
  rc_Changed :: bool
  rc_Job :: JobStatus
  rc_Status :: CertificateStatus
  rc_Deployment :: "DeploymentReport option"
  rc_Error :: "ErrorResponse option"
  rc_Message :: string

text \<open>The message of an accepted request.\<close>

definition MsgQueued :: string where
  "MsgQueued = map char_of ([0xE4, 0xBB, 0xBB, 0xE5, 0x8A, 0xA1, 0xE5, 0xB7, 0xB2, 0xE6, 0x8E, 0x92, 0xE9, 0x98, 0x9F, 0xEF,
     0xBC, 0x8C, 0xE7, 0xAD, 0x89, 0xE5, 0xBE, 0x85, 0x20, 0x77, 0x6F, 0x72, 0x6B, 0x65, 0x72, 0x20,
     0xE6, 0x89, 0xA7, 0xE8, 0xA1, 0x8C] :: nat list)"

definition reconcileOperation :: "V2ReconcileRequest \<Rightarrow> string" where
  "reconcileOperation req =
     (let operation = TrimSpace (vq_Operation req) in if operation = [] then ''reconcile'' else operation)"

definition presetErr :: "Cert option \<Rightarrow> V2Error option" where
  "presetErr preset =
     (case preset of
        None \<Rightarrow> Some (ValidationError ''preset'')
      | Some c \<Rightarrow> firstErr
          [failIf (ct_ChallengeMode c \<noteq> ''dns_api'') (ValidationError ''challenge_mode''),
           failIf (orEmpty (ct_DNSProvider c) = []) (ValidationError ''dns_provider'')])"

definition reconcileErr :: "V2Env \<Rightarrow> V2ReconcileRequest \<Rightarrow> Db \<Rightarrow> V2Error option" where
  "reconcileErr env req db = firstErr
     [v2ValidateDomain (vq_Domain req),
      failIf (length (reconcileOperation req) > 64 \<or> v2HasControl (reconcileOperation req)) (ValidationError ''operation''),
      failIf (length (vq_Reason req) > 256 \<or> v2HasControl (vq_Reason req)) (ValidationError ''reason''),
      failIf (TrimSpace (vq_IdempotencyKey req) = [] \<or> length (vq_IdempotencyKey req) > 128
              \<or> v2HasControl (vq_IdempotencyKey req)) (ValidationError ''idempotency_key''),
      presetErr (GetCert (vq_Domain req) db),
      requireV2Permission env (vq_TokenID req) (vq_Domain req) ''apply'' db,
      (if vq_Force req
       then firstErr [failIf (\<not> vq_IsAdmin req) (PermissionError ''force''),
                      requireV2Permission env (vq_TokenID req) (vq_Domain req) ''force'' db]
       else None)]"

definition reconcileJob :: "V2ReconcileRequest \<Rightarrow> string \<Rightarrow> CertificateJob" where
  "reconcileJob req jobID =
     \<lparr>cj_ID = jobID, cj_Domain = vq_Domain req,
      cj_Operation = reconcileOperation req @ (if vq_Force req then '':force'' else []),
      cj_IdempotencyKey = vq_IdempotencyKey req, cj_Status = [], cj_Attempts = 0, cj_MaxAttempts = 0,
      cj_NextAttemptAt = None, cj_LeaseOwner = [], cj_LeaseUntil = None, cj_LastErrorCode = None,
      cj_LastErrorAt = None, cj_RequestedBy = nullable (vq_TokenID req), cj_ErrorMessage = None,
      cj_CreatedAt = 0, cj_UpdatedAt = 0, cj_StartedAt = None, cj_FinishedAt = None\<rparr>"

text \<open>\<open>token\<close> is what the random generator returns for the new job's ID.\<close>

definition ReconcileV2 ::
  "V2Env \<Rightarrow> int \<Rightarrow> string option \<Rightarrow> V2ReconcileRequest \<Rightarrow> V2State \<Rightarrow> (V2Error + ReconcileResponse) \<times> V2State" where
  "ReconcileV2 env now token req s =
     (case guardR (reconcileErr env req (vs_Db s)) (v2NewJobID token) of
        Inl e \<Rightarrow> (Inl e, s)
      | Inr jobID \<Rightarrow>
          (let (r, db') = CreateCertificateJob (unixSec now) None (Some (reconcileJob req jobID)) (vs_Db s);
               s' = s\<lparr>vs_Db := db'\<rparr>
           in case r of
                Inl e \<Rightarrow> (Inl (storeV2Error env e), s')
              | Inr job \<Rightarrow>
                  let state = (if se_openErr env = None then readV2CurrentStateSafe env (vq_Domain req) (vs_Root s')
                               else noCurrentState);
                      revision = v2GenerationRevision (vq_Domain req) (vc_generation state) db'
                  in (Inr \<lparr>rc_Success = True, rc_Domain = vq_Domain req, rc_Generation = vc_generation state,
                           rc_Revision = revision, rc_Changed = False,
                           rc_Job = v2BuildJobStatus job (vc_generation state) revision,
                           rc_Status = v2BuildCertificateStatus (vq_Domain req) state now,
                           rc_Deployment = None, rc_Error = None, rc_Message = MsgQueued\<rparr>, s')))"

section \<open>Reading\<close>

definition StatusV2 :: "V2Env \<Rightarrow> int \<Rightarrow> string \<Rightarrow> string \<Rightarrow> V2State \<Rightarrow> V2Error + CertificateStatus" where
  "StatusV2 env now tokenID domain s =
     guardR (firstErr [v2ValidateDomain domain, requireV2Permission env tokenID domain ''status'' (vs_Db s),
                       se_openErr env])
       (case readV2CurrentState env domain (vs_Root s) of
          Inl e \<Rightarrow> Inl (publicError e)
        | Inr state \<Rightarrow> Inr (v2BuildCertificateStatus domain state now))"

definition generationErr :: "GenerationID \<Rightarrow> V2Error option" where
  "generationErr generation =
     failIf (generation \<noteq> [] \<and> ValidateGenerationID generation \<noteq> None) (ValidationError ''generation'')"

text \<open>The answer to a read of the certificate store.\<close>

definition storeAnswer :: "V2Env \<Rightarrow> CertErr + 'a \<Rightarrow> V2Error + 'a" where
  "storeAnswer env r =
     (case r of
        Inl e \<Rightarrow> if e = CertNotFound then Inl (protocolError ErrorCodeNotFound ''artifact'')
                 else Inl (publicError (certV2Error env e))
      | Inr v \<Rightarrow> Inr v)"

definition ManifestV2 ::
  "V2Env \<Rightarrow> string \<Rightarrow> string \<Rightarrow> GenerationID \<Rightarrow> V2State \<Rightarrow> (V2Error + CertificateManifest) \<times> V2State" where
  "ManifestV2 env tokenID domain generation s =
     (case firstErr [v2ValidateDomain domain, generationErr generation,
                     requireV2Permission env tokenID domain ''read_cert'' (vs_Db s), se_openErr env] of
        Some e \<Rightarrow> (Inl e, s)
      | None \<Rightarrow>
          (let (r, root') = LoadManifest (se_lib env) (se_io env) domain generation (vs_Root s)
           in (storeAnswer env r, s\<lparr>vs_Root := root'\<rparr>)))"

definition filePermission :: "string \<Rightarrow> string" where
  "filePermission fileName = (if fileName = ''key.pem'' then ''read_private_key'' else ''read_cert'')"

definition ReadGenerationFileV2 ::
  "V2Env \<Rightarrow> string \<Rightarrow> string \<Rightarrow> GenerationID \<Rightarrow> string \<Rightarrow> V2State \<Rightarrow> (V2Error + string) \<times> V2State" where
  "ReadGenerationFileV2 env tokenID domain generation fileName s =
     (case firstErr [v2ValidateDomain domain,
                     failIf (ValidateFileName fileName \<noteq> None) (ValidationError ''file''),
                     generationErr generation,
                     requireV2Permission env tokenID domain (filePermission fileName) (vs_Db s), se_openErr env] of
        Some e \<Rightarrow> (Inl e, s)
      | None \<Rightarrow>
          (let (r, root') = ReadCertFile (se_lib env) (se_io env) domain generation fileName (vs_Root s)
           in (storeAnswer env r, s\<lparr>vs_Root := root'\<rparr>)))"

definition GetJobV2 :: "V2Env \<Rightarrow> string \<Rightarrow> string \<Rightarrow> V2State \<Rightarrow> V2Error + JobStatus" where
  "GetJobV2 env tokenID jobID s =
     (if TrimSpace jobID = [] \<or> v2HasControl jobID then Inl (ValidationError ''job_id'')
      else case GetCertificateJob jobID (vs_Db s) of
        None \<Rightarrow> Inl (protocolError ErrorCodeNotFound ''job'')
      | Some job \<Rightarrow>
          guardR (requireV2Permission env tokenID (cj_Domain job) ''status'' (vs_Db s))
            (let (generation, revision) = v2JobGeneration job (vs_Db s)
             in Inr (v2BuildJobStatus job generation revision)))"

section \<open>Deployment reports\<close>

definition showBool :: "bool \<Rightarrow> string" where
  "showBool b = (if b then ''true'' else ''false'')"

definition reportDetail :: "DeploymentReport \<Rightarrow> string" where
  "reportDetail report =
     ''state='' @ dr_State report @ '' verified='' @ showBool (dr_Verified report)
       @ '' reloaded='' @ showBool (dr_Reloaded report)
       @ (if dr_Message report \<noteq> [] then '' '' @ v2SanitizeDetail (dr_Message report) 256 else [])"

definition reportedGeneration :: "DeploymentReport \<Rightarrow> CertificateGeneration \<Rightarrow> bool" where
  "reportedGeneration report g =
     (cg_CertificateRef g = Some (dr_Generation report) \<and> cg_Revision g = sint (dr_Revision report))"

definition reportRow :: "DeploymentReport \<Rightarrow> string \<Rightarrow> CertificateGeneration \<Rightarrow> DeploymentRow" where
  "reportRow report status g =
     \<lparr>dp_ID = 0, dp_GenerationID = cg_ID g, dp_Generation = dr_Generation report,
      dp_Revision = sint (dr_Revision report), dp_ManifestDigest = None, dp_Target = dr_Target report,
      dp_Status = status, dp_Detail = nullable (reportDetail report), dp_CreatedAt = 0, dp_UpdatedAt = 0,
      dp_CompletedAt = None\<rparr>"

text \<open>\<open>lastRowid\<close> is the connection's last inserted row, see \<open>CreateDeploymentReport\<close>.\<close>

definition ReportDeploymentV2 ::
  "V2Env \<Rightarrow> int \<Rightarrow> int \<Rightarrow> string \<Rightarrow> string \<Rightarrow> DeploymentReport \<Rightarrow> V2State \<Rightarrow> V2Error option \<times> V2State" where
  "ReportDeploymentV2 env now lastRowid tokenID domain report s =
     (case guardR (firstErr
              [v2ValidateDomain domain,
               failIf (TrimSpace (dr_Target report) = [] \<or> length (dr_Target report) > 128
                       \<or> v2HasControl (dr_Target report)) (ValidationError ''target'')])
            (bindR (v2MapDeploymentState (dr_State report)) (\<lambda>status.
               guardR (requireV2Permission env tokenID domain ''apply'' (vs_Db s))
                 (guardR (failIf (dr_Generation report = [] \<or> dr_Revision report = 0) (ValidationError ''generation''))
                   (case List.find (reportedGeneration report) (ListCertificateGenerations domain (vs_Db s)) of
                      None \<Rightarrow> Inl (ValidationError ''mismatch'')
                    | Some g \<Rightarrow> Inr (status, g))))) of
        Inl e \<Rightarrow> (Some e, s)
      | Inr (status, g) \<Rightarrow>
          (case CreateDeploymentReport (unixSec now) lastRowid (Some (reportRow report status g)) (vs_Db s) of
             (Inl e, db') \<Rightarrow> (Some (storeV2Error env e), s\<lparr>vs_Db := db'\<rparr>)
           | (Inr _, db') \<Rightarrow>
               (None, s\<lparr>vs_Db := auditV2 now tokenID domain ''deployment_report_v2'' ''succeeded''
                          (''target='' @ dr_Target report @ '' status='' @ status) db'\<rparr>)))"

end
