(* ===== verification/ServiceRun.thy ===== *)
theory ServiceRun
  imports ServiceV2
begin

text \<open>
  The execution of a claimed job (\<^verbatim>\<open>executeClaimedV2Job\<close> of \<^verbatim>\<open>internal/service/v2.go\<close>): renewal
  check, crash recovery, issuance by the injected issuer, publication and the bookkeeping of
  generations and jobs.  Store errors the code ignores are ignored here too.
\<close>

section \<open>Texts that are stored\<close>

definition MsgNoCurrent :: string where
  "MsgNoCurrent = map char_of ([0xE5, 0xB4, 0xA9, 0xE6, 0xBA, 0x83, 0xE6, 0x81, 0xA2, 0xE5, 0xA4, 0x8D, 0xEF, 0xBC,
     0x9A, 0x63, 0x65, 0x72, 0x74, 0x73, 0x74, 0x6F, 0x72, 0x65, 0x20, 0xE6, 0x97, 0xA0, 0x20, 0x63,
     0x75, 0x72, 0x72, 0x65, 0x6E, 0x74, 0x20, 0x67, 0x65, 0x6E, 0x65, 0x72, 0x61, 0x74, 0x69, 0x6F,
     0x6E] :: nat list)"

definition MsgNoManifest :: string where
  "MsgNoManifest = map char_of ([0xE5, 0xB4, 0xA9, 0xE6, 0xBA, 0x83, 0xE6, 0x81, 0xA2, 0xE5, 0xA4, 0x8D, 0xEF, 0xBC,
     0x9A, 0xE6, 0x97, 0xA0, 0xE6, 0xB3, 0x95, 0xE8, 0xAF, 0xBB, 0xE5, 0x8F, 0x96, 0x20, 0x6D, 0x61,
     0x6E, 0x69, 0x66, 0x65, 0x73, 0x74] :: nat list)"

definition MsgNoFullManifest :: string where
  "MsgNoFullManifest = map char_of ([0xE5, 0xB4, 0xA9, 0xE6, 0xBA, 0x83, 0xE6, 0x81, 0xA2, 0xE5, 0xA4, 0x8D, 0xEF, 0xBC,
     0x9A, 0xE6, 0x97, 0xA0, 0xE6, 0xB3, 0x95, 0xE8, 0xAF, 0xBB, 0xE5, 0x8F, 0x96, 0xE5, 0xAE, 0x8C,
     0xE6, 0x95, 0xB4, 0x20, 0x6D, 0x61, 0x6E, 0x69, 0x66, 0x65, 0x73, 0x74] :: nat list)"

definition MsgRecovered :: string where
  "MsgRecovered = map char_of ([0xE5, 0xB4, 0xA9, 0xE6, 0xBA, 0x83, 0xE6, 0x81, 0xA2, 0xE5, 0xA4, 0x8D, 0xEF, 0xBC,
     0x9A, 0xE5, 0xB7, 0xB2, 0xE8, 0xA1, 0xA5, 0xE5, 0x85, 0xA8, 0xE4, 0xB8, 0x8A, 0xE6, 0xAC, 0xA1,
     0xE5, 0x8F, 0x91, 0xE5, 0xB8, 0x83, 0xE7, 0x9A, 0x84, 0xE4, 0xBB, 0xA3, 0xE6, 0xAC, 0xA1, 0xE7,
     0x8A, 0xB6, 0xE6, 0x80, 0x81] :: nat list)"

definition MsgNotDue :: string where
  "MsgNotDue = map char_of ([0xE8, 0xAF, 0x81, 0xE4, 0xB9, 0xA6, 0xE6, 0x9C, 0xAA, 0xE5, 0x88, 0xB0, 0xE6, 0x9C,
     0x9F, 0xEF, 0xBC, 0x8C, 0xE8, 0xB7, 0xB3, 0xE8, 0xBF, 0x87, 0xE7, 0xAD, 0xBE, 0xE5, 0x8F, 0x91] ::
     nat list)"

definition MsgDone :: string where
  "MsgDone = map char_of ([0xE5, 0xBC, 0x82, 0xE6, 0xAD, 0xA5, 0xE4, 0xBB, 0xBB, 0xE5, 0x8A, 0xA1, 0xE5, 0xAE,
     0x8C, 0xE6, 0x88, 0x90] :: nat list)"

definition MsgDNSSecrets :: string where
  "MsgDNSSecrets = map char_of ([0xE8, 0xAF, 0xBB, 0xE5, 0x8F, 0x96, 0x20, 0x44, 0x4E, 0x53, 0x20, 0xE5, 0x87, 0xAD,
     0xE6, 0x8D, 0xAE, 0xE5, 0xA4, 0xB1, 0xE8, 0xB4, 0xA5] :: nat list)"

definition MsgRecoveryStatus :: string where
  "MsgRecoveryStatus = map char_of ([0xE5, 0xB4, 0xA9, 0xE6, 0xBA, 0x83, 0xE6, 0x81, 0xA2, 0xE5, 0xA4, 0x8D, 0xEF, 0xBC,
     0x9A, 0xE8, 0xA1, 0xA5, 0xE5, 0x85, 0xA8, 0xE4, 0xBB, 0xA3, 0xE6, 0xAC, 0xA1, 0xE7, 0x8A, 0xB6,
     0xE6, 0x80, 0x81, 0xE5, 0xA4, 0xB1, 0xE8, 0xB4, 0xA5, 0x3A, 0x20] :: nat list)"

definition MsgRecoveryArtifact :: string where
  "MsgRecoveryArtifact = map char_of ([0xE5, 0xB4, 0xA9, 0xE6, 0xBA, 0x83, 0xE6, 0x81, 0xA2, 0xE5, 0xA4, 0x8D, 0xEF, 0xBC,
     0x9A, 0xE8, 0xA1, 0xA5, 0xE5, 0x85, 0xA8, 0x20, 0x61, 0x72, 0x74, 0x69, 0x66, 0x61, 0x63, 0x74,
     0x20, 0xE5, 0xA4, 0xB1, 0xE8, 0xB4, 0xA5, 0x3A, 0x20] :: nat list)"

definition MsgRecoveryFailed :: string where
  "MsgRecoveryFailed = map char_of ([0xE5, 0xB4, 0xA9, 0xE6, 0xBA, 0x83, 0xE6, 0x81, 0xA2, 0xE5, 0xA4, 0x8D, 0xE5, 0xA4,
     0xB1, 0xE8, 0xB4, 0xA5, 0x3A, 0x20] :: nat list)"

definition MsgNoPreset :: string where
  "MsgNoPreset = map char_of ([0xE8, 0xAF, 0x81, 0xE4, 0xB9, 0xA6, 0xE9, 0x85, 0x8D, 0xE7, 0xBD, 0xAE, 0xE4, 0xB8,
     0x8D, 0xE5, 0xAD, 0x98, 0xE5, 0x9C, 0xA8] :: nat list)"

section \<open>Surroundings of a run\<close>

record V2IssueParams =
  vi_Domain :: string
  vi_SAN :: "string list"
  vi_CA :: string
  vi_Keylength :: string
  vi_DNSProvider :: string
  vi_DNSProfile :: string
  vi_DNSEnv :: "(string \<times> string) list"
  vi_Force :: bool

text \<open>
  What a run meets: the clock, the DNS secrets of a provider and profile, the temporary directory,
  the issuer with the staging directory it leaves, and the random bytes of generation names.  The
  path of the staging directory is not represented: the issuer's answer is what it leaves there.
\<close>

record V2Run =
  vr_now :: int
  vr_secrets :: "string \<Rightarrow> string \<Rightarrow> StoreError + (string \<times> string) list"
  vr_mkdir :: "GoError option"
  vr_issue :: "V2IssueParams \<Rightarrow> V2Error option \<times> (string \<times> FileNode) list DirNode"
  vr_tokens :: "string option list"

text \<open>\<^verbatim>\<open>ShouldRenew\<close>; \<^verbatim>\<open>time.Until\<close> saturates and the product of durations wraps.\<close>

definition durationInt64 :: "int \<Rightarrow> int" where
  "durationInt64 x = sint (word_of_int x :: 64 word)"

definition ShouldRenew :: "int \<Rightarrow> int \<Rightarrow> int \<Rightarrow> bool" where
  "ShouldRenew now notAfter renewDays =
     (if notAfter = -62135596800 then True
      else max (- (2 ^ 63)) (min (2 ^ 63 - 1) (notAfter * 1000000000 - now))
             < durationInt64 (renewDays * 24 * 3600000000000))"

definition manifestDigest :: "CertLib \<Rightarrow> GenerationManifest \<Rightarrow> string" where
  "manifestDigest lib m =
     hexEncode (lib_sha256 lib (case lib_encodeManifest lib m of None \<Rightarrow> [] | Some b \<Rightarrow> b))"

definition isForceJob :: "CertificateJob \<Rightarrow> bool" where
  "isForceJob job = suffix '':force'' (cj_Operation job)"

section \<open>Ending a job\<close>

definition setJobStatus :: "int \<Rightarrow> string \<Rightarrow> string \<Rightarrow> string \<Rightarrow> Db \<Rightarrow> Db" where
  "setJobStatus now jid status msg db = snd (UpdateCertificateJobStatus (unixSec now) jid status msg db)"

definition failGeneration :: "int \<Rightarrow> int \<Rightarrow> string \<Rightarrow> Db \<Rightarrow> Db" where
  "failGeneration now gid msg db =
     snd (UpdateCertificateGenerationStatus (unixSec now) gid ''failed'' [] [] msg None None db)"

definition finishV2GenerationFailure ::
  "int \<Rightarrow> CertificateJob \<Rightarrow> int option \<Rightarrow> string \<Rightarrow> V2Error \<Rightarrow> Db \<Rightarrow> V2Error \<times> Db" where
  "finishV2GenerationFailure now job generation owner cause db =
     (let public = v2PublicErrorMessage cause;
          db1 = (case generation of None \<Rightarrow> db | Some gid \<Rightarrow> failGeneration now gid public db);
          db2 = (if v2Retryable cause
                 then snd (Retry now (cj_ID job) owner ''retryable'' public 60000000000 db1)
                 else setJobStatus now (cj_ID job) ''failed'' public db1)
      in (publicError cause, auditV2 now [] (cj_Domain job) ''reconcile_v2'' ''failed'' public db2))"

text \<open>Two helpers that nothing calls: the synchronous end of a failed job, and its final status.\<close>

definition failV2Job ::
  "int \<Rightarrow> string \<Rightarrow> int \<Rightarrow> string \<Rightarrow> string \<Rightarrow> string \<Rightarrow> V2Error \<Rightarrow> Db \<Rightarrow> V2Error \<times> Db" where
  "failV2Job now jid gid tokenID domain detail cause db =
     (let public = v2PublicErrorMessage cause;
          db1 = (if gid > 0 then failGeneration now gid public db else db)
      in (publicError cause,
          auditV2 now tokenID domain ''reconcile_v2'' ''failed'' (detail @ '': '' @ public)
            (setJobStatus now jid ''failed'' public db1)))"

definition v2FinalJobStatus :: "CertificateJob \<Rightarrow> GenerationID \<Rightarrow> Revision \<Rightarrow> Db \<Rightarrow> JobStatus" where
  "v2FinalJobStatus job generation revision db =
     v2BuildJobStatus (case GetCertificateJob (cj_ID job) db of None \<Rightarrow> job | Some final \<Rightarrow> final) generation revision"

definition finishV2Failure :: "int \<Rightarrow> CertificateJob \<Rightarrow> string \<Rightarrow> V2Error \<Rightarrow> Db \<Rightarrow> V2Error \<times> Db" where
  "finishV2Failure now job owner cause db = finishV2GenerationFailure now job None owner cause db"

definition finishSuccess :: "int \<Rightarrow> CertificateJob \<Rightarrow> string \<Rightarrow> Db \<Rightarrow> Db" where
  "finishSuccess now job detail db =
     auditV2 now [] (cj_Domain job) ''reconcile_v2'' ''succeeded'' detail (setJobStatus now (cj_ID job) ''succeeded'' [] db)"

section \<open>Recording a published generation\<close>

definition expiryOf :: "V2Env \<Rightarrow> string \<Rightarrow> GenerationID \<Rightarrow> CertRoot \<Rightarrow> int option" where
  "expiryOf env domain generation root =
     (case fst (ReadCertFile (se_lib env) (se_io env) domain generation ''fullchain.pem'' root) of
        Inl _ \<Rightarrow> None
      | Inr fullchain \<Rightarrow> (case ParsePemExpiry (se_lib env) fullchain of Inl _ \<Rightarrow> None | Inr t \<Rightarrow> Some t))"

definition artifactOf :: "CertLib \<Rightarrow> GenerationManifest \<Rightarrow> GenerationArtifact" where
  "artifactOf lib m =
     \<lparr>ga_Revision = sint (gm_Revision m), ga_ManifestDigest = manifestDigest lib m, ga_Serial = gm_Serial m,
      ga_Fingerprint = gm_Fingerprint m, ga_Current = True\<rparr>"

text \<open>Status, then artifact; the first error and the database it leaves.\<close>

definition recordPublished ::
  "V2Env \<Rightarrow> int \<Rightarrow> string \<Rightarrow> int \<Rightarrow> GenerationID \<Rightarrow> GenerationManifest \<Rightarrow> CertRoot \<Rightarrow> Db
     \<Rightarrow> (bool \<times> StoreError) option \<times> Db" where
  "recordPublished env now domain gid published m root db =
     (case UpdateCertificateGenerationStatus (unixSec now) gid ''issued'' published published [] None
             (expiryOf env domain published root) db of
        (Some e, db1) \<Rightarrow> (Some (False, e), db1)
      | (None, db1) \<Rightarrow>
          (case UpdateCertificateGenerationArtifact (unixSec now) gid (artifactOf (se_lib env) m) db1 of
             (Some e, db2) \<Rightarrow> (Some (True, e), db2)
           | (None, db2) \<Rightarrow> (None, db2)))"

section \<open>Crash recovery\<close>

text \<open>
  The loop of \<^verbatim>\<open>recoverPublishingGeneration\<close> over the domain's generations: the rows still in
  publishing are failed, or the first of them is completed with what the store calls current.
\<close>

fun recoverLoop ::
  "V2Env \<Rightarrow> int \<Rightarrow> string \<Rightarrow> CertRoot \<Rightarrow> CertificateGeneration list \<Rightarrow> Db \<Rightarrow> (V2Error + bool) \<times> Db" where
  "recoverLoop env now domain root [] db = (Inr False, db)"
| "recoverLoop env now domain root (g # gs) db =
     (if cg_Status g \<noteq> ''publishing'' then recoverLoop env now domain root gs db
      else case GetCurrent (se_lib env) domain root of
        Inl _ \<Rightarrow> recoverLoop env now domain root gs (failGeneration now (cg_ID g) MsgNoCurrent db)
      | Inr current \<Rightarrow>
          if \<not> isOk (fst (LoadManifest (se_lib env) (se_io env) domain current root))
          then recoverLoop env now domain root gs (failGeneration now (cg_ID g) MsgNoManifest db)
          else (case fst (LoadGenerationManifest (se_lib env) (se_io env) domain current root) of
            Inl _ \<Rightarrow> recoverLoop env now domain root gs (failGeneration now (cg_ID g) MsgNoFullManifest db)
          | Inr full \<Rightarrow>
              (case recordPublished env now domain (cg_ID g) current full root db of
                 (None, db') \<Rightarrow> (Inr True, db')
               | (Some (artifact, e), db') \<Rightarrow>
                   (Inl (plainV2 (wrapError (if artifact then MsgRecoveryArtifact else MsgRecoveryStatus)
                      (se_storeError env e))), db'))))"

definition recoverPublishingGeneration ::
  "V2Env \<Rightarrow> int \<Rightarrow> CertificateJob \<Rightarrow> V2State \<Rightarrow> (V2Error + bool) \<times> Db" where
  "recoverPublishingGeneration env now job s =
     recoverLoop env now (cj_Domain job) (vs_Root s) (ListCertificateGenerations (cj_Domain job) (vs_Db s)) (vs_Db s)"

section \<open>The run\<close>

definition newGenerationRow :: "CertificateJob \<Rightarrow> CertificateGeneration" where
  "newGenerationRow job =
     \<lparr>cg_ID = 0, cg_JobID = cj_ID job, cg_Domain = cj_Domain job, cg_Generation = 0, cg_Revision = 0,
      cg_Status = [], cg_CertificateRef = None, cg_PrivateKeyRef = None, cg_ManifestDigest = None,
      cg_Serial = None, cg_Fingerprint = None, cg_Current = False, cg_NotBefore = None, cg_NotAfter = None,
      cg_ErrorMessage = None, cg_CreatedAt = 0, cg_UpdatedAt = 0\<rparr>"

definition profileOf :: "Cert \<Rightarrow> string" where
  "profileOf preset = (if orEmpty (ct_DNSProfile preset) \<noteq> [] then orEmpty (ct_DNSProfile preset) else ''default'')"

definition issueParams :: "V2Env \<Rightarrow> CertificateJob \<Rightarrow> Cert \<Rightarrow> (string \<times> string) list \<Rightarrow> V2IssueParams" where
  "issueParams env job preset dnsEnv =
     \<lparr>vi_Domain = cj_Domain job, vi_SAN = splitCSV (ct_SAN preset),
      vi_CA = v2OrDefault (ct_CA preset) (se_DefaultCA env),
      vi_Keylength = v2OrDefault (ct_Keylength preset) (se_DefaultKeylength env),
      vi_DNSProvider = orEmpty (ct_DNSProvider preset), vi_DNSProfile = profileOf preset,
      vi_DNSEnv = dnsEnv, vi_Force = isForceJob job\<rparr>"

text \<open>Everything between the new generation row and its publication in the store.\<close>

definition issueCertificate ::
  "V2Env \<Rightarrow> V2Run \<Rightarrow> CertificateJob \<Rightarrow> Cert \<Rightarrow> int \<Rightarrow> V2State
     \<Rightarrow> (V2Error + GenerationID \<times> GenerationManifest) \<times> V2State" where
  "issueCertificate env run job preset gid s =
     (case vr_secrets run (orEmpty (ct_DNSProvider preset)) (profileOf preset) of
        Inl _ \<Rightarrow> (Inl (v2SafeError MsgDNSSecrets), s)
      | Inr dnsEnv \<Rightarrow>
          (case vr_mkdir run of
             Some e \<Rightarrow> (Inl (plainV2 e), s)
           | None \<Rightarrow>
               (case vr_issue run (issueParams env job preset dnsEnv) of
                  (Some e, _) \<Rightarrow> (Inl e, s)
                | (None, staging) \<Rightarrow>
                    (case UpdateCertificateGenerationStatus (unixSec (vr_now run)) gid ''publishing'' [] [] [] None None
                            (vs_Db s) of
                       (Some e, db1) \<Rightarrow> (Inl (storeV2Error env e), s\<lparr>vs_Db := db1\<rparr>)
                     | (None, db1) \<Rightarrow>
                         (case publish (se_lib env) (se_io env) (unixSec (vr_now run)) (vr_tokens run) (cj_Domain job)
                                 staging (splitCSV (ct_SAN preset)) (vs_Root s) of
                            (Inl e, root1) \<Rightarrow> (Inl (certV2Error env e), \<lparr>vs_Db = db1, vs_Root = root1\<rparr>)
                          | (Inr (published, _), root1) \<Rightarrow>
                              (onCert env (bindR (fst (LoadGenerationManifest (se_lib env) (se_io env)
                                   (cj_Domain job) published root1)) (\<lambda>m. Inr (published, m))),
                               \<lparr>vs_Db = db1, vs_Root = root1\<rparr>))))))"

definition runIssuance ::
  "V2Env \<Rightarrow> V2Run \<Rightarrow> CertificateJob \<Rightarrow> string \<Rightarrow> Cert \<Rightarrow> V2State \<Rightarrow> V2Error option \<times> V2State" where
  "runIssuance env run job owner preset s =
     (let now = vr_now run
      in case CreateCertificateGeneration (unixSec now) (Some (newGenerationRow job)) (vs_Db s) of
           (Inl e, db1) \<Rightarrow>
             (let (err, db') = finishV2Failure now job owner (storeV2Error env e) db1
              in (Some err, s\<lparr>vs_Db := db'\<rparr>))
         | (Inr generation, db1) \<Rightarrow>
             (let gid = cg_ID generation;
                  failed = (\<lambda>cause s'. let (err, db') = finishV2GenerationFailure now job (Some gid) owner cause (vs_Db s')
                                       in (Some err, s'\<lparr>vs_Db := db'\<rparr>))
              in case issueCertificate env run job preset gid (s\<lparr>vs_Db := db1\<rparr>) of
                   (Inl cause, s2) \<Rightarrow> failed cause s2
                 | (Inr (published, m), s2) \<Rightarrow>
                     (case recordPublished env now (cj_Domain job) gid published m (vs_Root s2) (vs_Db s2) of
                        (Some (_, e), db3) \<Rightarrow> failed (storeV2Error env e) (s2\<lparr>vs_Db := db3\<rparr>)
                      | (None, db3) \<Rightarrow>
                          (case UpdateCertificateJobStatus (unixSec now) (cj_ID job) ''succeeded'' [] db3 of
                             (Some e, db4) \<Rightarrow> (Some (storeV2Error env e), s2\<lparr>vs_Db := db4\<rparr>)
                           | (None, db4) \<Rightarrow>
                               (None, s2\<lparr>vs_Db := auditV2 now [] (cj_Domain job) ''reconcile_v2'' ''succeeded''
                                            MsgDone db4\<rparr>)))))"

text \<open>The error it returns, or none, and the state.\<close>

definition executeClaimedV2Job ::
  "V2Env \<Rightarrow> V2Run \<Rightarrow> string \<Rightarrow> CertificateJob \<Rightarrow> V2State \<Rightarrow> V2Error option \<times> V2State" where
  "executeClaimedV2Job env run owner job s =
     (let now = vr_now run; db = vs_Db s;
          failed = (\<lambda>cause. let (err, db') = finishV2Failure now job owner cause db in (Some err, s\<lparr>vs_Db := db'\<rparr>))
      in case GetCert (cj_Domain job) db of
           None \<Rightarrow> failed (plainV2 (errorsNew MsgNoPreset))
         | Some preset \<Rightarrow>
             (case guardR (se_openErr env) (readV2CurrentState env (cj_Domain job) (vs_Root s)) of
                Inl e \<Rightarrow> failed e
              | Inr state \<Rightarrow>
                  let renewDays = (if ct_RenewDays preset \<le> 0 then se_DefaultRenewDays env else ct_RenewDays preset)
                  in if \<not> isForceJob job \<and> vc_exists state \<and> \<not> ShouldRenew now (vc_notAfter state) renewDays
                     then (None, s\<lparr>vs_Db := finishSuccess now job MsgNotDue db\<rparr>)
                     else (case recoverPublishingGeneration env now job s of
                       (Inl e, db1) \<Rightarrow>
                         (Some e, s\<lparr>vs_Db := setJobStatus now (cj_ID job) ''failed''
                            (MsgRecoveryFailed @ ge_Message (ve_Go e)) db1\<rparr>)
                     | (Inr True, db1) \<Rightarrow> (None, s\<lparr>vs_Db := finishSuccess now job MsgRecovered db1\<rparr>)
                     | (Inr False, db1) \<Rightarrow> runIssuance env run job owner preset (s\<lparr>vs_Db := db1\<rparr>))))"

text \<open>\<^verbatim>\<open>ReconcileJob\<close>, the worker's entry.\<close>

definition ReconcileJob ::
  "V2Env \<Rightarrow> V2Run \<Rightarrow> string \<Rightarrow> string \<Rightarrow> V2State \<Rightarrow> V2Error option \<times> V2State" where
  "ReconcileJob env run jid owner s =
     (case GetCertificateJob jid (vs_Db s) of
        None \<Rightarrow> (Some (plainV2 (errorsNew ''job'')), s)
      | Some job \<Rightarrow>
          if owner = [] then (Some (plainV2 (errorsNew ''lease owner'')), s)
          else executeClaimedV2Job env run owner job s)"

definition ExecuteCertificateJob ::
  "V2Env \<Rightarrow> V2Run \<Rightarrow> string \<Rightarrow> V2State \<Rightarrow> V2Error option \<times> V2State" where
  "ExecuteCertificateJob env run owner s =
     (case Claim (unixSec (vr_now run)) owner 60000000000 (vs_Db s) of
        (Inl e, db') \<Rightarrow> (Some (storeV2Error env e), s\<lparr>vs_Db := db'\<rparr>)
      | (Inr None, db') \<Rightarrow> (None, s\<lparr>vs_Db := db'\<rparr>)
      | (Inr (Some job), db') \<Rightarrow> executeClaimedV2Job env run owner job (s\<lparr>vs_Db := db'\<rparr>))"

end
