(* ===== verification/ServiceProofs.thy ===== *)
theory ServiceProofs
  imports ServiceRun CertCollect Adapter
begin

text \<open>
  Who may read or change what through the v2 service, and the gap in its check of forced requests.
  The sample service at the end is also used by \<open>ServiceOutcomes\<close>.
\<close>

section \<open>Authorisation\<close>

lemma requireV2Permission_None [simp]:
  "requireV2Permission env t d p db = None \<longleftrightarrow> HasCertificatePermission db t d p = Inr True"
  by (auto simp: requireV2Permission_def split: sum.splits)

lemma firstErr_cases:
  "(case firstErr errs of None \<Rightarrow> a | Some e \<Rightarrow> f e) = (if \<forall>x\<in>set errs. x = None then a else f (the (firstErr errs)))"
  using firstErr_None_iff[of errs] by (auto simp del: firstErr_None_iff split: option.splits)

lemma StatusV2_ok:
  "StatusV2 env now t d s = Inr x \<Longrightarrow> HasCertificatePermission (vs_Db s) t d ''status'' = Inr True"
  by (auto simp: StatusV2_def)

lemma ManifestV2_ok:
  "fst (ManifestV2 env t d g s) = Inr x \<Longrightarrow> HasCertificatePermission (vs_Db s) t d ''read_cert'' = Inr True"
  by (auto simp: ManifestV2_def firstErr_cases split: if_splits)

lemma ReadGenerationFileV2_ok:
  "fst (ReadGenerationFileV2 env t d g n s) = Inr x \<Longrightarrow>
     HasCertificatePermission (vs_Db s) t d (filePermission n) = Inr True"
  by (auto simp: ReadGenerationFileV2_def firstErr_cases split: if_splits)

lemma GetJobV2_ok:
  assumes "GetJobV2 env t jid s = Inr x"
  shows "\<exists>job. GetCertificateJob jid (vs_Db s) = Some job \<and>
    HasCertificatePermission (vs_Db s) t (cj_Domain job) ''status'' = Inr True \<and>
    x = v2BuildJobStatus job (fst (v2JobGeneration job (vs_Db s))) (snd (v2JobGeneration job (vs_Db s)))"
  using assms by (auto simp: GetJobV2_def case_prod_beta split: if_splits option.splits)

lemma ReconcileV2_ok:
  assumes "ReconcileV2 env now token req s = (Inr resp, s')"
  shows "reconcileErr env req (vs_Db s) = None"
    "\<exists>raw job. token = Some raw \<and> CreateCertificateJob (unixSec now) None (Some (reconcileJob req (hexEncode raw))) (vs_Db s)
       = (Inr job, vs_Db s') \<and> js_ID (rc_Job resp) = cj_ID job"
    "vs_Root s' = vs_Root s"
proof -
  show none: "reconcileErr env req (vs_Db s) = None"
    using assms by (cases "reconcileErr env req (vs_Db s)") (auto simp: ReconcileV2_def)
  obtain raw where raw: "token = Some raw"
    using assms none by (cases token) (auto simp: ReconcileV2_def v2NewJobID_def)
  obtain r db' where c: "CreateCertificateJob (unixSec now) None (Some (reconcileJob req (hexEncode raw))) (vs_Db s) = (r, db')"
    by fastforce
  obtain job where job: "r = Inr job"
    using assms none raw c by (cases r) (auto simp: ReconcileV2_def v2NewJobID_def)
  have "s' = s\<lparr>vs_Db := db'\<rparr>" "js_ID (rc_Job resp) = cj_ID job"
    using assms none raw c job by (auto simp: ReconcileV2_def v2NewJobID_def v2BuildJobStatus_def Let_def)
  then show "\<exists>raw job. token = Some raw \<and> CreateCertificateJob (unixSec now) None (Some (reconcileJob req (hexEncode raw))) (vs_Db s)
       = (Inr job, vs_Db s') \<and> js_ID (rc_Job resp) = cj_ID job" "vs_Root s' = vs_Root s"
    using raw c job by auto
qed

lemma reconcileErr_None:
  "reconcileErr env req db = None \<Longrightarrow>
     hostName (vq_Domain req) \<and> HasCertificatePermission db (vq_TokenID req) (vq_Domain req) ''apply'' = Inr True \<and>
     (vq_Force req \<longrightarrow> vq_IsAdmin req \<and> HasCertificatePermission db (vq_TokenID req) (vq_Domain req) ''force'' = Inr True) \<and>
     (\<exists>c. GetCert (vq_Domain req) db = Some c \<and> ct_ChallengeMode c = ''dns_api'' \<and> orEmpty (ct_DNSProvider c) \<noteq> [])"
  by (cases "GetCert (vq_Domain req) db") (auto simp: reconcileErr_def presetErr_def valid_simps)

lemma ReportDeploymentV2_ok:
  assumes "ReportDeploymentV2 env now rid t d report s = (None, s')"
  shows "HasCertificatePermission (vs_Db s) t d ''apply'' = Inr True"
    "\<exists>g. g \<in> set (db_generations (vs_Db s)) \<and> cg_Domain g = d \<and> reportedGeneration report g"
proof -
  have a: "\<exists>g. HasCertificatePermission (vs_Db s) t d ''apply'' = Inr True \<and>
      List.find (reportedGeneration report) (ListCertificateGenerations d (vs_Db s)) = Some g"
    using assms
    by (auto simp: ReportDeploymentV2_def split: sum.splits prod.splits option.splits)
  then show "HasCertificatePermission (vs_Db s) t d ''apply'' = Inr True"
    by blast
  show "\<exists>g. g \<in> set (db_generations (vs_Db s)) \<and> cg_Domain g = d \<and> reportedGeneration report g"
    using a by (auto simp: ListCertificateGenerations_def dest!: find_Some_mem)
qed

text \<open>Every job a reconcile request adds to the queue passed its checks.\<close>

lemma ReconcileV2_new_job:
  assumes "job \<in> set (db_jobs (vs_Db (snd (ReconcileV2 env now token req s))))" and "job \<notin> set (db_jobs (vs_Db s))"
  shows "reconcileErr env req (vs_Db s) = None"
    "cj_Operation job = reconcileOperation req @ (if vq_Force req then '':force'' else [])"
proof -
  show none: "reconcileErr env req (vs_Db s) = None"
    using assms by (cases "reconcileErr env req (vs_Db s)") (auto simp: ReconcileV2_def)
  obtain raw where raw: "token = Some raw"
    using assms none by (cases token) (auto simp: ReconcileV2_def v2NewJobID_def)
  obtain r db' where c: "CreateCertificateJob (unixSec now) None (Some (reconcileJob req (hexEncode raw))) (vs_Db s) = (r, db')"
    by fastforce
  have "vs_Db (snd (ReconcileV2 env now token req s)) = db'"
    using none raw c by (cases r) (auto simp: ReconcileV2_def v2NewJobID_def Let_def)
  then have "job \<in> set (db_jobs db')"
    using assms(1) by simp
  then show "cj_Operation job = reconcileOperation req @ (if vq_Force req then '':force'' else [])"
    using assms(2) by (cases rule: Create_cases[OF c]) (auto simp: insertJob_ok reconcileJob_def)
qed


section \<open>A sample service\<close>

definition demoEnv :: V2Env where
  "demoEnv = \<lparr>se_lib = demoLib, se_io = noFault, se_storeError = (\<lambda>e. errorsNew ''store''),
     se_certError = (\<lambda>e. errorsNew ''cert''), se_openErr = None, se_DefaultRenewDays = 30,
     se_DefaultCA = ''letsencrypt'', se_DefaultKeylength = ''ec-256''\<rparr>"

definition demoPreset :: Cert where
  "demoPreset = demoCert\<lparr>ct_Domain := ''a.b'', ct_SAN := [], ct_ChallengeMode := ''dns_api'',
     ct_DNSProvider := Some ''dns_cf'', ct_DNSProfile := None, ct_RenewDays := 0\<rparr>"

definition demoService :: "string list \<Rightarrow> V2State" where
  "demoService permissions =
     \<lparr>vs_Db = emptyDb\<lparr>db_certs := [demoPreset], db_tokens := [demoWorkerToken\<lparr>tk_ID := ''t''\<rparr>],
        db_grants := map (\<lambda>p. \<lparr>tg_TokenID = ''t'', tg_Domain = ''a.b'', tg_Permission = p, tg_CreatedAt = 0\<rparr>) permissions\<rparr>,
      vs_Root = demoRoot2\<rparr>"

lemma demo_hostAB: "hostName ''a.b''"
  by code_simp

lemma demo_permission:
  "p \<in> set validCertificatePermissions \<Longrightarrow>
     HasCertificatePermission (vs_Db (demoService ps)) ''t'' ''a.b'' p = Inr (p \<in> set ps)"
proof -
  have "validateCertificateDomain ''a.b'' = None"
    using demo_hostAB by (simp add: valid_simps)
  then show "p \<in> set validCertificatePermissions \<Longrightarrow> ?thesis"
    by (auto simp: HasCertificatePermission_def demoService_def list_ex_iff grantRow_def visible_eval)
qed


section \<open>Force requests\<close>

text \<open>The force permission can be bypassed.  A run forces issuance when the operation of its job ends in
  \<^verbatim>\<open>:force\<close>, but the operation is a text of the caller and only the \<^verbatim>\<open>force\<close> flag is checked: a caller
  without that flag, who is neither administrator nor holds the force permission, gets a forced job by
  naming the operation \<^verbatim>\<open>reconcile:force\<close>.\<close>

theorem force_bypass:
  assumes "jobsInv (vs_Db s)" and "ReconcileV2 env now token req s = (Inr resp, s')"
    and "vq_Operation req = ''reconcile:force''" and "\<not> vq_Force req"
    and "HasCertificatePermission (vs_Db s) (vq_TokenID req) (vq_Domain req) ''force'' \<noteq> Inr True"
  shows "\<exists>job. GetCertificateJob (js_ID (rc_Job resp)) (vs_Db s') = Some job \<and> isForceJob job"
proof -
  obtain raw job where c: "CreateCertificateJob (unixSec now) None (Some (reconcileJob req (hexEncode raw))) (vs_Db s)
      = (Inr job, vs_Db s')" and id: "js_ID (rc_Job resp) = cj_ID job"
    using ReconcileV2_ok(2)[OF assms(2)] by blast
  let ?j = "reconcileJob req (hexEncode raw)"
  have forced: "isForceJob ?j"
    using assms(3,4) by (simp add: isForceJob_def reconcileJob_def reconcileOperation_def visible_eval suffix_def)
  have inv: "jobsInv (vs_Db s')"
    using Create_jobsInv[OF assms(1), of "unixSec now" None ?j] c by simp
  have same: "isForceJob a = isForceJob b" if "jobKey a = jobKey b" for a b
    using that by (simp add: isForceJob_def jobKey_def)
  have "job \<in> set (db_jobs (vs_Db s')) \<and> isForceJob job"
    using c
  proof (cases rule: Create_cases)
    case (reused old)
    then show ?thesis using forced same[of old ?j] by simp
  next
    case created
    then show ?thesis using forced same[OF normalJob_key] by (simp add: insertJob_ok)
  qed simp
  then show ?thesis
    using Get_of_mem[OF inv, of job] id by simp
qed

definition forcingRequest :: V2ReconcileRequest where
  "forcingRequest = \<lparr>vq_TokenID = ''t'', vq_IsAdmin = False, vq_Domain = ''a.b'', vq_Operation = ''reconcile:force'',
     vq_Reason = [], vq_IdempotencyKey = ''k'', vq_Force = False\<rparr>"

theorem force_bypass_witness:
  "\<exists>resp s' job. ReconcileV2 demoEnv 1 (Some ''a'') forcingRequest (demoService [''apply'']) = (Inr resp, s') \<and>
     GetCertificateJob (js_ID (rc_Job resp)) (vs_Db s') = Some job \<and> isForceJob job"
proof -
  let ?db = "vs_Db (demoService [''apply''])" and ?j = "reconcileJob forcingRequest (hexEncode ''a'')"
  have grants: "HasCertificatePermission ?db ''t'' ''a.b'' ''apply'' = Inr True"
    "HasCertificatePermission ?db ''t'' ''a.b'' ''force'' = Inr False"
    by (subst demo_permission; simp add: validCertificatePermissions_def)+
  have preset: "presetErr (GetCert ''a.b'' ?db) = None"
    by (simp add: GetCert_def demoService_def demoPreset_def presetErr_def orEmpty_def)
  have op: "reconcileOperation forcingRequest = ''reconcile:force''"
    by (simp add: reconcileOperation_def forcingRequest_def visible_eval)
  have control: "\<not> v2HasControl ''reconcile:force''" "\<not> v2HasControl ''k''" "\<not> v2HasControl []"
    by code_simp+
  have ok: "reconcileErr demoEnv forcingRequest ?db = None"
    using grants preset control demo_hostAB
    by (simp add: reconcileErr_def op valid_simps) (simp add: forcingRequest_def visible_eval)
  have id: "hexEncode ''a'' = ''61''"
    by code_simp
  have "createErr (unixSec 1) None ?j = None"
    using demo_hostAB
    by (simp add: createErr_def normalJob_def reconcileJob_def op id validJobStatus_def valid_simps)
      (simp add: forcingRequest_def visible_eval valid_simps)
  moreover have "insertJob (normalJob (unixSec 1) None ?j) ?db
      = Inr (?db\<lparr>db_jobs := db_jobs ?db @ [normalJob (unixSec 1) None ?j]\<rparr>)"
    by (simp add: insertJob_ok demoService_def emptyDb_def certExists_def tokenExists_def demoPreset_def
        reconcileJob_def nullable_def forcingRequest_def)
  ultimately have "\<exists>db'. CreateCertificateJob (unixSec 1) None (Some ?j) ?db = (Inr (normalJob (unixSec 1) None ?j), db')"
    by (simp add: CreateCertificateJob_def Let_def)
  then obtain resp s' where run: "ReconcileV2 demoEnv 1 (Some ''a'') forcingRequest (demoService [''apply'']) = (Inr resp, s')"
    using ok by (auto simp: ReconcileV2_def v2NewJobID_def Let_def)
  have "jobsInv ?db"
    by (simp add: jobsInv_def demoService_def emptyDb_def)
  then show ?thesis
    using force_bypass[OF _ run] run grants by (simp add: forcingRequest_def)
qed

end
