(* ===== verification/ServiceOutcomes.thy ===== *)
theory ServiceOutcomes
  imports ServiceProofs
begin

text \<open>
  How a run of the v2 service ends: a successful run leaves the database and the certificate store
  in agreement, and no run takes a readable certificate away; and the places where recovery, retries
  and job status do not do what they mean to.
\<close>

section \<open>What a recorded publication leaves\<close>

lemma Get_clearCurrent [simp]:
  "List.find (\<lambda>g. cg_ID g = gid) (clearCurrent now d (Some gid) gs) = List.find (\<lambda>g. cg_ID g = gid) gs"
  unfolding clearCurrent_def
  by (subst find_updWhere_key) (auto simp: option.map_ident_strong dest!: find_Some_mem intro!: option.map_ident_strong)

lemma UpdateStatus_ok:
  assumes "UpdateCertificateGenerationStatus now gid st ref key msg nb na db = (None, db')"
  obtains g g' where "GetCertificateGeneration gid db = Some g" "GetCertificateGeneration gid db' = Some g'"
    "cg_Status g' = st" "cg_CertificateRef g' = nullString ref" "cg_Domain g' = cg_Domain g" "cg_ID g' = gid"
    "cg_Revision g' = cg_Revision g" "cg_JobID g' = cg_JobID g"
proof -
  have valid: "validGenerationStatus st"
    using assms by (auto simp: UpdateCertificateGenerationStatus_def split: if_splits)
  obtain g where g: "GetCertificateGeneration gid db = Some g"
    using assms valid by (cases "GetCertificateGeneration gid db") (auto simp: UpdateCertificateGenerationStatus_def)
  define rows where "rows = (if st = ''issued'' \<and> ref \<noteq> [] then clearCurrent now (cg_Domain g) (Some gid) (db_generations db)
    else db_generations db)"
  define f where "f = (\<lambda>r :: CertificateGeneration. r\<lparr>cg_Status := st, cg_CertificateRef := nullString ref, cg_PrivateKeyRef := nullString key,
    cg_ErrorMessage := nullString msg, cg_NotBefore := nb, cg_NotAfter := na,
    cg_Current := (st = ''issued'' \<and> ref \<noteq> []), cg_UpdatedAt := now\<rparr>)"
  have db': "db' = db\<lparr>db_generations := updWhere (\<lambda>r. cg_ID r = gid) f rows\<rparr>"
    using assms valid g by (simp add: UpdateCertificateGenerationStatus_def Let_def rows_def f_def)
  have "List.find (\<lambda>r. cg_ID r = gid) rows = Some g"
    using g by (simp add: rows_def GetCertificateGeneration_def)
  then have "GetCertificateGeneration gid db' = Some (f g)"
    using GetGeneration_mem[OF g] by (simp add: GetCertificateGeneration_def db' find_updWhere_key f_def)
  with g show ?thesis
    by (rule that) (use GetGeneration_mem[OF g] in \<open>simp_all add: f_def\<close>)
qed

lemma UpdateArtifact_ok:
  assumes "UpdateCertificateGenerationArtifact now gid a db = (None, db')"
  obtains g g' where "GetCertificateGeneration gid db = Some g" "GetCertificateGeneration gid db' = Some g'"
    "cg_CertificateRef g' = cg_CertificateRef g" "cg_Revision g' = ga_Revision a" "cg_Current g' = ga_Current a"
    "cg_ManifestDigest g' = Some (ga_ManifestDigest a)" "cg_Domain g' = cg_Domain g" "cg_ID g' = gid"
    "cg_JobID g' = cg_JobID g"
proof -
  obtain g where g: "GetCertificateGeneration gid db = Some g"
    and valid: "1 \<le> ga_Revision a" "validSHA256Digest (ga_ManifestDigest a)" "validSHA256Digest (ga_Fingerprint a)"
      "ga_Current a \<longrightarrow> cg_Status g = ''issued''"
    using assms by (cases rule: UpdateArtifact_cases) auto
  define rows where "rows = (if ga_Current a then clearCurrent now (cg_Domain g) (Some gid) (db_generations db)
    else db_generations db)"
  define f where "f = (\<lambda>r :: CertificateGeneration. r\<lparr>cg_Revision := ga_Revision a, cg_ManifestDigest := Some (ga_ManifestDigest a),
    cg_Serial := nullString (ga_Serial a), cg_Fingerprint := Some (ga_Fingerprint a), cg_Current := ga_Current a,
    cg_UpdatedAt := now\<rparr>)"
  have "UpdateCertificateGenerationArtifact now gid a db =
      (if list_ex (\<lambda>r. cg_ID r \<noteq> gid \<and> cg_Domain r = cg_Domain g \<and> cg_Revision r = ga_Revision a) rows
       then (Some ErrUnique, db) else (None, db\<lparr>db_generations := updWhere (\<lambda>r. cg_ID r = gid) f rows\<rparr>))"
    using g valid unfolding UpdateCertificateGenerationArtifact_def rows_def f_def Let_def by (cases "ga_Current a") simp_all
  then have db': "db' = db\<lparr>db_generations := updWhere (\<lambda>r. cg_ID r = gid) f rows\<rparr>"
    using assms by (simp split: if_splits)
  have "List.find (\<lambda>r. cg_ID r = gid) rows = Some g"
    using g by (simp add: rows_def GetCertificateGeneration_def)
  then have "GetCertificateGeneration gid db' = Some (f g)"
    using GetGeneration_mem[OF g] by (simp add: GetCertificateGeneration_def db' find_updWhere_key f_def)
  with g show ?thesis
    by (rule that) (use GetGeneration_mem[OF g] in \<open>simp_all add: f_def\<close>)
qed

lemma current_row_found:
  assumes "generationsInv db" "GetCertificateGeneration gid db = Some g" "cg_Current g"
  shows "GetCurrentCertificateGeneration (cg_Domain g) db = Some g"
proof -
  have mem: "g \<in> set (db_generations db)"
    using GetGeneration_mem[OF assms(2)] by blast
  then have "GetCurrentCertificateGeneration (cg_Domain g) db \<noteq> None"
    using assms(3) by (auto simp: GetCurrentCertificateGeneration_def find_None_conv)
  then obtain x where x: "GetCurrentCertificateGeneration (cg_Domain g) db = Some x" by blast
  then have "x = g"
    using GetCurrent_mem[OF x] mem assms(1,3) rowsInv_current_other[of "db_genSeq db" "db_generations db" x g]
    by (simp add: generationsInv_def)
  with x show ?thesis by simp
qed

lemma recordPublished_ok:
  assumes "generationsInv db" and "recordPublished env now domain gid h m root db = (None, db')"
  shows "\<exists>g row. GetCertificateGeneration gid db = Some g \<and>
    GetCurrentCertificateGeneration (cg_Domain g) db' = Some row \<and> cg_ID row = gid \<and>
    cg_CertificateRef row = nullString h \<and> cg_Revision row = sint (gm_Revision m) \<and>
    cg_ManifestDigest row = Some (manifestDigest (se_lib env) m)"
proof -
  obtain db1 where st: "UpdateCertificateGenerationStatus (unixSec now) gid ''issued'' h h [] None
      (expiryOf env domain h root) db = (None, db1)"
    and ar: "UpdateCertificateGenerationArtifact (unixSec now) gid (artifactOf (se_lib env) m) db1 = (None, db')"
    using assms(2) by (auto simp: recordPublished_def split: prod.splits option.splits)
  have inv: "generationsInv db'"
    using UpdateStatus_inv[OF assms(1)] UpdateArtifact_inv st ar by (metis snd_conv)
  obtain g g1 where g: "GetCertificateGeneration gid db = Some g" "GetCertificateGeneration gid db1 = Some g1"
      "cg_CertificateRef g1 = nullString h" "cg_Domain g1 = cg_Domain g"
    using st by (rule UpdateStatus_ok)
  obtain g1' row where row: "GetCertificateGeneration gid db1 = Some g1'" "GetCertificateGeneration gid db' = Some row"
      "cg_CertificateRef row = cg_CertificateRef g1'" "cg_Revision row = ga_Revision (artifactOf (se_lib env) m)"
      "cg_Current row = ga_Current (artifactOf (se_lib env) m)"
      "cg_ManifestDigest row = Some (ga_ManifestDigest (artifactOf (se_lib env) m))"
      "cg_Domain row = cg_Domain g1'" "cg_ID row = gid"
    using ar by (rule UpdateArtifact_ok)
  have "g1' = g1" using g row by simp
  then show ?thesis
    using current_row_found[OF inv row(2)] g row by (simp add: artifactOf_def)
qed

section \<open>A finished run leaves store and database in agreement\<close>

text \<open>The database's current generation of a domain is the one the certificate store calls current.\<close>

definition storeRecorded :: "V2Env \<Rightarrow> string \<Rightarrow> CertRoot \<Rightarrow> Db \<Rightarrow> bool" where
  "storeRecorded env domain root db =
     (case GetCurrent (se_lib env) domain root of
        Inl _ \<Rightarrow> False
      | Inr g \<Rightarrow>
          (case (fst (LoadGenerationManifest (se_lib env) (se_io env) domain g root), GetCurrentCertificateGeneration domain db) of
             (Inr m, Some row) \<Rightarrow> cg_CertificateRef row = Some g \<and> cg_Revision row = sint (gm_Revision m)
               \<and> cg_ManifestDigest row = Some (manifestDigest (se_lib env) m)
           | _ \<Rightarrow> False))"

lemma GetCurrent_state:
  "GetCurrent lib domain root = Inr g \<Longrightarrow>
     \<exists>s dd place files. domainPaths root domain = Inr (s, dd) \<and> currentState lib s dd = Inr (g, place, files)"
  by (auto simp: GetCurrent_def currentGeneration_def split: sum.splits)

lemma GetCurrent_nonempty: "GetCurrent lib domain root = Inr g \<Longrightarrow> g \<noteq> []"
proof -
  assume "GetCurrent lib domain root = Inr g"
  then obtain s dd place files where "currentState lib s dd = Inr (g, place, files)"
    using GetCurrent_state by blast
  then have "validateGeneration g = None"
    by (rule currentState_facts(1))
  then show "g \<noteq> []"
    by (auto simp: validateGeneration_def safeSegment_def valid_simps)
qed

lemma Get_genStatus:
  assumes "GetCertificateGeneration i db = Some g"
  shows "\<exists>g'. GetCertificateGeneration i (snd (UpdateCertificateGenerationStatus now gid st ref key msg nb na db)) = Some g'
    \<and> cg_Domain g' = cg_Domain g \<and> cg_Revision g' = cg_Revision g"
proof (cases "validGenerationStatus st \<and> GetCertificateGeneration gid db \<noteq> None")
  case True
  then show ?thesis
    using assms
    by (auto simp: UpdateCertificateGenerationStatus_def Let_def GetCertificateGeneration_def clearCurrent_def
        find_updWhere_key split: option.splits)
qed (use assms in \<open>auto simp: UpdateCertificateGenerationStatus_def\<close>)

lemma status_keeps_jobs [simp]:
  "db_jobs (snd (UpdateCertificateGenerationStatus now gid st ref key msg nb na db)) = db_jobs db"
  by (simp add: UpdateCertificateGenerationStatus_def Let_def split: option.splits)

lemma artifact_keeps_jobs [simp]: "db_jobs (snd (UpdateCertificateGenerationArtifact now gid a db)) = db_jobs db"
  by (simp add: UpdateCertificateGenerationArtifact_def Let_def split: option.splits)

lemma auditV2_tables [simp]:
  "db_generations (auditV2 now t d action outcome detail db) = db_generations db"
  "db_jobs (auditV2 now t d action outcome detail db) = db_jobs db"
  by (simp_all add: auditV2_def AddAuditEvent_def Let_def split: option.splits)

lemma jobStatus_keeps_generations [simp]:
  "db_generations (snd (UpdateCertificateJobStatus now jid st msg db)) = db_generations db"
  by (simp add: UpdateCertificateJobStatus_def)

lemma finishSuccess_tables [simp]: "db_generations (finishSuccess now job detail db) = db_generations db"
  by (simp add: finishSuccess_def setJobStatus_def)

lemma recordPublished_jobs: "recordPublished env now domain gid h m root db = (r, db') \<Longrightarrow> db_jobs db' = db_jobs db"
proof -
  obtain r1 db1 where st: "UpdateCertificateGenerationStatus (unixSec now) gid ''issued'' h h [] None
      (expiryOf env domain h root) db = (r1, db1)" by fastforce
  obtain r2 db2 where ar: "UpdateCertificateGenerationArtifact (unixSec now) gid (artifactOf (se_lib env) m) db1 = (r2, db2)"
    by fastforce
  have "db_jobs db1 = db_jobs db" "db_jobs db2 = db_jobs db1"
    using status_keeps_jobs artifact_keeps_jobs st ar by (metis snd_conv)+
  then show "recordPublished env now domain gid h m root db = (r, db') \<Longrightarrow> db_jobs db' = db_jobs db"
    by (cases r1; cases r2) (auto simp: recordPublished_def st ar)
qed

lemma current_generation_table:
  "db_generations db = db_generations db' \<Longrightarrow> GetCurrentCertificateGeneration d db = GetCurrentCertificateGeneration d db'"
  by (simp add: GetCurrentCertificateGeneration_def)

lemma storeRecorded_intro:
  assumes "GetCurrent (se_lib env) domain root = Inr g"
    and "fst (LoadGenerationManifest (se_lib env) (se_io env) domain g root) = Inr m"
    and "GetCurrentCertificateGeneration domain db = Some row" and "cg_CertificateRef row = nullString g"
    and "cg_Revision row = sint (gm_Revision m)" and "cg_ManifestDigest row = Some (manifestDigest (se_lib env) m)"
  shows "storeRecorded env domain root db"
  using assms GetCurrent_nonempty[OF assms(1)] by (simp add: storeRecorded_def nullString_def)

lemma storeRecorded_table:
  "db_generations db = db_generations db' \<Longrightarrow> storeRecorded env d root db = storeRecorded env d root db'"
  unfolding storeRecorded_def by (simp only: current_generation_table[of db db' d])

lemma job_table: "db_jobs db = db_jobs db' \<Longrightarrow> GetCertificateJob i db = GetCertificateJob i db'"
  by (simp add: GetCertificateJob_def)

lemma succeeded_job:
  "map_option cj_Status (GetCertificateJob i (snd (UpdateCertificateJobStatus now i ''succeeded'' [] db)))
     \<in> {None, Some ''succeeded''}"
proof (cases "GetCertificateJob i db")
  case None
  then show ?thesis
    by (simp add: UpdateCertificateJobStatus_def validJobStatus_def GetCertificateJob_def find_None_conv)
next
  case (Some j)
  then show ?thesis
    using Get_status[OF Some, of now i "''succeeded''" "[]"] by (simp add: validJobStatus_def statusRow_def Let_def)
qed

lemma finishSuccess_job:
  "map_option cj_Status (GetCertificateJob (cj_ID job) (finishSuccess now job detail db)) \<in> {None, Some ''succeeded''}"
  using succeeded_job[of "cj_ID job" "unixSec now" db]
    job_table[of "finishSuccess now job detail db" "setJobStatus now (cj_ID job) ''succeeded'' [] db"]
  by (simp add: finishSuccess_def setJobStatus_def)

lemma recoverLoop_adopts:
  assumes "recoverLoop env now domain root gs db = (Inr True, db')" and "generationsInv db"
    and "\<forall>g\<in>set gs. \<exists>r. GetCertificateGeneration (cg_ID g) db = Some r \<and> cg_Domain r = domain"
  shows "storeRecorded env domain root db'"
  using assms
proof (induction gs arbitrary: db)
  case (Cons g gs)
  have next_row: ?case if "recoverLoop env now domain root gs (failGeneration now (cg_ID g) msg db) = (Inr True, db')" for msg
  proof (rule Cons.IH[OF that])
    show "generationsInv (failGeneration now (cg_ID g) msg db)"
      using UpdateStatus_inv[OF Cons.prems(2)] by (simp add: failGeneration_def)
    show "\<forall>g'\<in>set gs. \<exists>r. GetCertificateGeneration (cg_ID g') (failGeneration now (cg_ID g) msg db) = Some r \<and> cg_Domain r = domain"
    proof
      fix g' assume "g' \<in> set gs"
      then obtain r where "GetCertificateGeneration (cg_ID g') db = Some r" "cg_Domain r = domain"
        using Cons.prems(3) by auto
      then show "\<exists>r. GetCertificateGeneration (cg_ID g') (failGeneration now (cg_ID g) msg db) = Some r \<and> cg_Domain r = domain"
        using Get_genStatus unfolding failGeneration_def by blast
    qed
  qed
  show ?case
  proof (cases "cg_Status g = ''publishing''")
    case False
    then show ?thesis using Cons by simp
  next
    case publishing: True
    show ?thesis
    proof (cases "GetCurrent (se_lib env) domain root")
      case (Inl e)
      then show ?thesis using Cons.prems(1) publishing next_row by simp
    next
      case current: (Inr current)
      show ?thesis
      proof (cases "isOk (fst (LoadManifest (se_lib env) (se_io env) domain current root))")
        case False
        then show ?thesis using Cons.prems(1) publishing current next_row by simp
      next
        case True
        show ?thesis
        proof (cases "fst (LoadGenerationManifest (se_lib env) (se_io env) domain current root)")
          case (Inl e)
          then show ?thesis using Cons.prems(1) publishing current True next_row by simp
        next
          case full: (Inr full)
          have "recordPublished env now domain (cg_ID g) current full root db = (None, db')"
            using Cons.prems(1) publishing current True full by (auto split: prod.splits option.splits)
          then obtain r row where "GetCertificateGeneration (cg_ID g) db = Some r"
              "GetCurrentCertificateGeneration (cg_Domain r) db' = Some row" "cg_CertificateRef row = nullString current"
              "cg_Revision row = sint (gm_Revision full)"
              "cg_ManifestDigest row = Some (manifestDigest (se_lib env) full)"
            using recordPublished_ok[OF Cons.prems(2)] by blast
          moreover have "\<exists>r. GetCertificateGeneration (cg_ID g) db = Some r \<and> cg_Domain r = domain"
            using Cons.prems(3) by simp
          ultimately show ?thesis
            using storeRecorded_intro[OF current full] by auto
        qed
      qed
    qed
  qed
qed simp

lemma issueCertificate_ok:
  assumes laws: "jsonLaw (se_lib env)" "x509Law (se_lib env)"
    and i: "issueCertificate env run job preset gid s = (Inr (h, m), s')"
  shows "UpdateCertificateGenerationStatus (unixSec (vr_now run)) gid ''publishing'' [] [] [] None None (vs_Db s)
      = (None, vs_Db s')"
    "GetCurrent (se_lib env) (cj_Domain job) (vs_Root s') = Inr h"
    "fst (LoadGenerationManifest (se_lib env) (se_io env) (cj_Domain job) h (vs_Root s')) = Inr m"
proof -
  obtain dnsEnv where secrets: "vr_secrets run (orEmpty (ct_DNSProvider preset)) (profileOf preset) = Inr dnsEnv"
    using i by (cases "vr_secrets run (orEmpty (ct_DNSProvider preset)) (profileOf preset)") (auto simp: issueCertificate_def)
  have mk: "vr_mkdir run = None"
    using i secrets by (cases "vr_mkdir run") (auto simp: issueCertificate_def)
  obtain r staging where issue: "vr_issue run (issueParams env job preset dnsEnv) = (r, staging)"
    by fastforce
  have r: "r = None"
    using i secrets mk issue by (cases r) (auto simp: issueCertificate_def)
  obtain r1 db1 where up: "UpdateCertificateGenerationStatus (unixSec (vr_now run)) gid ''publishing'' [] [] [] None None (vs_Db s)
      = (r1, db1)" by fastforce
  have r1: "r1 = None"
    using i secrets mk issue r up by (cases r1) (auto simp: issueCertificate_def)
  obtain p root1 where pub: "publish (se_lib env) (se_io env) (unixSec (vr_now run)) (vr_tokens run) (cj_Domain job)
      staging (splitCSV (ct_SAN preset)) (vs_Root s) = (p, root1)" by fastforce
  obtain h' fm where p: "p = Inr (h', fm)"
    using i secrets mk issue r up r1 pub by (cases p) (auto simp: issueCertificate_def)
  have fin: "s' = \<lparr>vs_Db = db1, vs_Root = root1\<rparr>"
    "onCert env (bindR (fst (LoadGenerationManifest (se_lib env) (se_io env) (cj_Domain job) h' root1)) (\<lambda>m. Inr (h', m)))
       = Inr (h, m)"
    using i secrets mk issue r up r1 pub p by (auto simp: issueCertificate_def)
  then have h: "h' = h" and load: "fst (LoadGenerationManifest (se_lib env) (se_io env) (cj_Domain job) h' root1) = Inr m"
    by (cases "fst (LoadGenerationManifest (se_lib env) (se_io env) (cj_Domain job) h' root1)"; auto simp: onCert_def)+
  show "UpdateCertificateGenerationStatus (unixSec (vr_now run)) gid ''publishing'' [] [] [] None None (vs_Db s)
      = (None, vs_Db s')"
    using up r1 fin(1) by simp
  show "fst (LoadGenerationManifest (se_lib env) (se_io env) (cj_Domain job) h (vs_Root s')) = Inr m"
    using load h fin(1) by simp
  have "GetCurrent (se_lib env) (cj_Domain job) root1 = Inr h'"
    using publish_ok[OF laws] pub p by blast
  then show "GetCurrent (se_lib env) (cj_Domain job) (vs_Root s') = Inr h"
    using h fin(1) by simp
qed

lemma runIssuance_ok:
  assumes laws: "jsonLaw (se_lib env)" "x509Law (se_lib env)"
    and inv: "generationsInv (vs_Db s)"
    and run: "runIssuance env run job owner preset s = (None, s')"
  shows "storeRecorded env (cj_Domain job) (vs_Root s') (vs_Db s')"
    and "map_option cj_Status (GetCertificateJob (cj_ID job) (vs_Db s')) \<in> {None, Some ''succeeded''}"
proof -
  obtain r db1 where create: "CreateCertificateGeneration (unixSec (vr_now run)) (Some (newGenerationRow job)) (vs_Db s) = (r, db1)"
    by fastforce
  have inv1: "generationsInv db1"
    using CreateGeneration_inv[OF inv] create by (metis snd_conv)
  obtain row0 where r: "r = Inr row0"
    using run create by (cases r) (auto simp: runIssuance_def Let_def split: prod.splits)
  have dom: "cg_Domain row0 = cj_Domain job \<and> GetCertificateGeneration (cg_ID row0) db1 = Some row0"
    using create[unfolded r]
  proof (cases rule: CreateGeneration_cases)
    case (created rows)
    then have "cg_Domain row0 = cj_Domain job"
      by (simp add: newGenerationRow_def)
    moreover have "distinct (map cg_ID (db_generations db1))" "row0 \<in> set (db_generations db1)"
      using inv1 created by (simp_all add: generationsInv_def rowsInv_def)
    then have "GetCertificateGeneration (cg_ID row0) db1 = Some row0"
      unfolding GetCertificateGeneration_def by (rule distinct_find)
    ultimately show ?thesis by simp
  qed simp
  obtain i s2 where issue: "issueCertificate env run job preset (cg_ID row0) (s\<lparr>vs_Db := db1\<rparr>) = (i, s2)"
    by fastforce
  obtain h m where i: "i = Inr (h, m)"
    using run create r issue by (cases i) (auto simp: runIssuance_def Let_def split: prod.splits)
  note issued = issueCertificate_ok[OF laws issue[unfolded i]]
  obtain rp db3 where rec: "recordPublished env (vr_now run) (cj_Domain job) (cg_ID row0) h m (vs_Root s2) (vs_Db s2) = (rp, db3)"
    by fastforce
  have rp: "rp = None"
    using run create r issue i rec by (cases rp) (auto simp: runIssuance_def Let_def split: prod.splits)
  obtain u db4 where up: "UpdateCertificateJobStatus (unixSec (vr_now run)) (cj_ID job) ''succeeded'' [] db3 = (u, db4)"
    by fastforce
  have s': "s' = s2\<lparr>vs_Db := auditV2 (vr_now run) [] (cj_Domain job) ''reconcile_v2'' ''succeeded'' MsgDone db4\<rparr>"
    using run create r issue i rec rp up by (cases u) (auto simp: runIssuance_def Let_def)
  have tables: "db_generations (vs_Db s') = db_generations db3" "db_jobs (vs_Db s') = db_jobs db4"
    using jobStatus_keeps_generations[of "unixSec (vr_now run)" "cj_ID job" "''succeeded''" "[]" db3] up s' by simp_all
  have published_db: "UpdateCertificateGenerationStatus (unixSec (vr_now run)) (cg_ID row0) ''publishing'' [] [] [] None None db1
      = (None, vs_Db s2)"
    using issued(1) by simp
  have inv2: "generationsInv (vs_Db s2)"
    using UpdateStatus_inv[OF inv1] published_db by (metis snd_conv)
  obtain g where "GetCertificateGeneration (cg_ID row0) (vs_Db s2) = Some g" "cg_Domain g = cj_Domain job"
    using Get_genStatus[OF conjunct2[OF dom]] published_db dom by (metis snd_conv)
  then obtain row where "GetCurrentCertificateGeneration (cj_Domain job) db3 = Some row" "cg_CertificateRef row = nullString h"
      "cg_Revision row = sint (gm_Revision m)" "cg_ManifestDigest row = Some (manifestDigest (se_lib env) m)"
    using recordPublished_ok[OF inv2 rec[unfolded rp]] by auto
  then have "storeRecorded env (cj_Domain job) (vs_Root s2) db3"
    using storeRecorded_intro[OF issued(2,3)] by simp
  then show "storeRecorded env (cj_Domain job) (vs_Root s') (vs_Db s')"
    using storeRecorded_table[OF tables(1)] s' by simp
  show "map_option cj_Status (GetCertificateJob (cj_ID job) (vs_Db s')) \<in> {None, Some ''succeeded''}"
    using succeeded_job[of "cj_ID job" "unixSec (vr_now run)" db3] up job_table[OF tables(2)] by simp
qed

lemma recoverLoop_inv: "generationsInv db \<Longrightarrow> generationsInv (snd (recoverLoop env now domain root gs db))"
proof (induction gs arbitrary: db)
  case (Cons g gs)
  have failed: "generationsInv (snd (recoverLoop env now domain root gs (failGeneration now (cg_ID g) msg db)))" for msg
    using Cons.IH UpdateStatus_inv[OF Cons.prems] by (simp add: failGeneration_def)
  have recorded: "generationsInv (snd (recordPublished env now domain (cg_ID g) h m root db))" for h m
  proof -
    have "generationsInv (snd (UpdateCertificateGenerationStatus (unixSec now) (cg_ID g) ''issued'' h h [] None
        (expiryOf env domain h root) db))"
      by (rule UpdateStatus_inv[OF Cons.prems])
    then show ?thesis
      using UpdateArtifact_inv by (auto simp: recordPublished_def split: prod.split option.split) (metis snd_conv)+
  qed
  show ?case
    using failed recorded Cons.IH[OF Cons.prems] by (auto split: sum.split prod.split option.split) (metis snd_conv)+
qed simp

text \<open>C17: Store and database agree.  When a run reports success, either it skipped the job because the certificate
  is readable and not yet due, and changed neither the store nor the generations, or the domain's current
  database generation is the store's current generation, with the revision and the digest of its manifest.
  In both cases the job, when it still exists, is recorded as succeeded.\<close>

theorem success_syncs_database:
  assumes "jsonLaw (se_lib env)" and "x509Law (se_lib env)" and "generationsInv (vs_Db s)"
    and "executeClaimedV2Job env run owner job s = (None, s')"
  shows "map_option cj_Status (GetCertificateJob (cj_ID job) (vs_Db s')) \<in> {None, Some ''succeeded''} \<and>
    ((vs_Root s' = vs_Root s \<and> db_generations (vs_Db s') = db_generations (vs_Db s) \<and> \<not> isForceJob job \<and>
      (\<exists>state preset. readV2CurrentState env (cj_Domain job) (vs_Root s) = Inr state \<and> vc_exists state \<and>
         GetCert (cj_Domain job) (vs_Db s) = Some preset \<and>
         \<not> ShouldRenew (vr_now run) (vc_notAfter state)
             (if ct_RenewDays preset \<le> 0 then se_DefaultRenewDays env else ct_RenewDays preset))) \<or>
     storeRecorded env (cj_Domain job) (vs_Root s') (vs_Db s'))"
    (is "?job \<and> (?skipped \<or> ?recorded)")
proof -
  note run = assms(4)
  obtain preset where preset: "GetCert (cj_Domain job) (vs_Db s) = Some preset"
    using run by (cases "GetCert (cj_Domain job) (vs_Db s)") (auto simp: executeClaimedV2Job_def Let_def split: prod.splits)
  let ?days = "if ct_RenewDays preset \<le> 0 then se_DefaultRenewDays env else ct_RenewDays preset"
  obtain state where state: "guardR (se_openErr env) (readV2CurrentState env (cj_Domain job) (vs_Root s)) = Inr state"
    using run preset by (cases "guardR (se_openErr env) (readV2CurrentState env (cj_Domain job) (vs_Root s))")
      (auto simp: executeClaimedV2Job_def Let_def split: prod.splits)
  show ?thesis
  proof (cases "\<not> isForceJob job \<and> vc_exists state \<and> \<not> ShouldRenew (vr_now run) (vc_notAfter state) ?days")
    case True
    then have "s' = s\<lparr>vs_Db := finishSuccess (vr_now run) job MsgNotDue (vs_Db s)\<rparr>"
      using run preset state by (simp add: executeClaimedV2Job_def Let_def)
    then show ?thesis
      using True preset state finishSuccess_job by auto
  next
    case due: False
    obtain rec db1 where rec: "recoverPublishingGeneration env (vr_now run) job s = (rec, db1)" by fastforce
    have step: "(None, s') = (case rec of
        Inl e \<Rightarrow> (Some e, s\<lparr>vs_Db := setJobStatus (vr_now run) (cj_ID job) ''failed'' (MsgRecoveryFailed @ ge_Message (ve_Go e)) db1\<rparr>)
      | Inr adopted \<Rightarrow> if adopted then (None, s\<lparr>vs_Db := finishSuccess (vr_now run) job MsgRecovered db1\<rparr>)
          else runIssuance env run job owner preset (s\<lparr>vs_Db := db1\<rparr>))"
      using run preset state due by (auto simp: executeClaimedV2Job_def Let_def rec split: sum.splits bool.splits)
    have rows: "\<exists>r. GetCertificateGeneration (cg_ID g) (vs_Db s) = Some r \<and> cg_Domain r = cj_Domain job"
      if "g \<in> set (ListCertificateGenerations (cj_Domain job) (vs_Db s))" for g
      using that assms(3) distinct_find[of cg_ID "db_generations (vs_Db s)" g]
      by (auto simp: ListCertificateGenerations_def generationsInv_def rowsInv_def GetCertificateGeneration_def)
    show ?thesis
    proof (cases rec)
      case (Inl e)
      then show ?thesis using step by simp
    next
      case (Inr adopted)
      show ?thesis
      proof (cases adopted)
        case True
        have s': "s' = s\<lparr>vs_Db := finishSuccess (vr_now run) job MsgRecovered db1\<rparr>"
          using step Inr True by simp
        have "recoverLoop env (vr_now run) (cj_Domain job) (vs_Root s)
            (ListCertificateGenerations (cj_Domain job) (vs_Db s)) (vs_Db s) = (Inr True, db1)"
          using rec Inr True by (simp add: recoverPublishingGeneration_def)
        then have "storeRecorded env (cj_Domain job) (vs_Root s) db1"
          using recoverLoop_adopts[OF _ assms(3)] rows by blast
        then have ?recorded
          using s' storeRecorded_table[OF finishSuccess_tables] by simp
        then show ?thesis using s' finishSuccess_job by simp
      next
        case False
        have run': "runIssuance env run job owner preset (s\<lparr>vs_Db := db1\<rparr>) = (None, s')"
          using step Inr False by simp
        have "generationsInv db1"
          using recoverLoop_inv[OF assms(3)] rec by (metis recoverPublishingGeneration_def snd_conv)
        then have inv: "generationsInv (vs_Db (s\<lparr>vs_Db := db1\<rparr>))" by simp
        show ?thesis
          using runIssuance_ok[OF assms(1,2) inv run'] by simp
      qed
    qed
  qed
qed

section \<open>A sample run\<close>

definition demoRun :: V2Run where
  "demoRun = \<lparr>vr_now = 1000000000, vr_secrets = (\<lambda>provider profile. Inr []), vr_mkdir = None,
     vr_issue = (\<lambda>params. (None, demoStaging)), vr_tokens = [Some ''a'']\<rparr>"

definition forcedJob :: CertificateJob where
  "forcedJob = demoJob\<lparr>cj_Domain := ''a.b'', cj_Operation := ''reconcile:force'', cj_Status := ''running'',
     cj_Attempts := 1, cj_LeaseOwner := ''w'', cj_LeaseUntil := Some 60\<rparr>"

definition demoQueued :: V2State where
  "demoQueued = \<lparr>vs_Db = (vs_Db (demoService []))\<lparr>db_jobs := [forcedJob]\<rparr>, vs_Root = demoCertRoot\<rparr>"

lemma demoRun_fields [simp]:
  "vr_now demoRun = 1000000000" "vr_secrets demoRun p q = Inr []" "vr_mkdir demoRun = None"
  "vr_issue demoRun params = (None, demoStaging)" "vr_tokens demoRun = [Some ''a'']"
  by (simp_all add: demoRun_def)

lemma demoEnv_fields [simp]:
  "se_lib demoEnv = demoLib" "se_io demoEnv = noFault" "se_openErr demoEnv = None" "se_DefaultRenewDays demoEnv = 30"
  by (simp_all add: demoEnv_def)

lemma demoQueued_tables [simp]:
  "db_generations (vs_Db demoQueued) = []" "db_genSeq (vs_Db demoQueued) = 0" "db_jobs (vs_Db demoQueued) = [forcedJob]"
  "vs_Root demoQueued = demoCertRoot" "cj_Domain forcedJob = ''a.b''" "cj_ID forcedJob = ''j1''"
  "certExists (vs_Db demoQueued) ''a.b''" "GetCert ''a.b'' (vs_Db demoQueued) = Some demoPreset"
  by (simp_all add: demoQueued_def demoService_def emptyDb_def forcedJob_def demoJob_def certExists_def GetCert_def demoPreset_def)

lemma demo_force: "isForceJob forcedJob"
  by (simp add: isForceJob_def forcedJob_def suffix_def)

lemma demo_currentOld: "GetCurrent demoLib ''a.b'' demoCertRoot = Inr ''g-1''"
  by (simp add: GetCurrent_def demo_domainPaths currentGeneration_def demo_current)

lemma demo_readOld:
  "fst (ReadCertFile demoLib noFault ''a.b'' ''g-1'' ''fullchain.pem'' demoCertRoot) = Inr ''C''"
  "\<exists>t. fst (ReadCertFile demoLib noFault ''a.b'' ''g-1'' ''time.log'' demoCertRoot) = Inr t"
proof -
  have names: "validateStoreFile ''fullchain.pem'' = None" "validateStoreFile ''time.log'' = None"
    unfolding demo_names by (simp_all add: fixedFileNames_def)
  have res: "fst (resolveGeneration demoLib noFault ''a.b'' ''g-1'' demoCertRoot)
      = Inr (''g-1'', releaseFiles demoFiles ''{1}'')"
    by (simp add: resolveGeneration_def demo_domainPaths)
      (simp add: findGeneration_def demoDomain_def entryDirectory_def)
  show "fst (ReadCertFile demoLib noFault ''a.b'' ''g-1'' ''fullchain.pem'' demoCertRoot) = Inr ''C''"
    using res by (simp add: ReadCertFile_def names case_prod_beta demo_load)
      (simp add: fixedFileNames_def releaseMap_def fileBytes_def demoFiles_def)
  show "\<exists>t. fst (ReadCertFile demoLib noFault ''a.b'' ''g-1'' ''time.log'' demoCertRoot) = Inr t"
    using res by (simp add: ReadCertFile_def names case_prod_beta demo_load)
qed

lemma demo_expiry: "ParsePemExpiry demoLib ''C'' = Inr 10"
  by (simp add: ParsePemExpiry_def) (simp add: demoLeaf_def)

lemma demo_state: "\<exists>state. readV2CurrentState demoEnv ''a.b'' demoCertRoot = Inr state"
  using demo_readOld(2)
  by (simp add: readV2CurrentState_def demo_currentOld LoadManifest_def demo_loadOld onCert_def demo_readOld(1) demo_expiry)

lemma demo_digest: "validSHA256Digest (hexEncode demoDigest)"
  by code_simp

definition demoRow :: CertificateGeneration where
  "demoRow = normalGeneration 1 (vs_Db demoQueued) (newGenerationRow forcedJob)"

lemma demoRow_fields [simp]:
  "cg_ID demoRow = 1" "cg_Domain demoRow = ''a.b''" "cg_Status demoRow = ''pending''" "cg_Revision demoRow = 1"
  by (simp_all add: demoRow_def normalGeneration_def newGenerationRow_def nextGeneration_def Let_def)

lemma demo_create:
  "CreateCertificateGeneration 1 (Some (newGenerationRow forcedJob)) (vs_Db demoQueued)
     = (Inr demoRow, (vs_Db demoQueued)\<lparr>db_generations := [demoRow], db_genSeq := 1\<rparr>)"
proof -
  have "cg_JobID (newGenerationRow forcedJob) = ''j1''" "cg_Domain (newGenerationRow forcedJob) = ''a.b''"
    "\<not> cg_Current (newGenerationRow forcedJob)"
    by (simp_all add: newGenerationRow_def)
  moreover have "createGenerationErr 1 (vs_Db demoQueued) (newGenerationRow forcedJob) = None"
    using calculation demo_hostAB
    by (simp add: createGenerationErr_def demoRow_def[symmetric] Let_def valid_simps validGenerationStatus_def GetCertificateJob_def)
  ultimately show ?thesis
    by (simp add: CreateCertificateGeneration_def demoRow_def[symmetric] Let_def)
qed

lemma demo_record:
  assumes "db_generations db = [r]" "cg_ID r = 1" "cg_Domain r = ''a.b''"
  shows "\<exists>db'. recordPublished demoEnv 1000000000 ''a.b'' 1 ''g-61'' (demoManifest ''g-61'' 2) root db = (None, db')
    \<and> db_jobs db' = db_jobs db"
proof -
  have digests: "validSHA256Digest (ga_ManifestDigest (artifactOf demoLib (demoManifest ''g-61'' 2)))"
    "validSHA256Digest (ga_Fingerprint (artifactOf demoLib (demoManifest ''g-61'' 2)))"
    "ga_Revision (artifactOf demoLib (demoManifest ''g-61'' 2)) = 2"
    using demo_digest by (simp_all add: artifactOf_def manifestDigest_def) (simp_all add: demoManifest_def)
  obtain r1 db1 where st: "UpdateCertificateGenerationStatus 1 1 ''issued'' ''g-61'' ''g-61'' [] None
      (expiryOf demoEnv ''a.b'' ''g-61'' root) db = (r1, db1)" by fastforce
  have db1: "r1 = None \<and> (\<exists>r'. db_generations db1 = [r'] \<and> cg_ID r' = 1 \<and> cg_Domain r' = ''a.b'' \<and> cg_Status r' = ''issued'')"
    using st assms by (auto simp: UpdateCertificateGenerationStatus_def validGenerationStatus_def GetCertificateGeneration_def
        clearCurrent_def)
  then obtain r' where r': "db_generations db1 = [r']" "cg_ID r' = 1" "cg_Domain r' = ''a.b''" "cg_Status r' = ''issued''"
    by blast
  have "\<exists>db'. UpdateCertificateGenerationArtifact 1 1 (artifactOf demoLib (demoManifest ''g-61'' 2)) db1 = (None, db')"
    using r' digests by (simp add: UpdateCertificateGenerationArtifact_def GetCertificateGeneration_def clearCurrent_def Let_def)
  then obtain db' where "recordPublished demoEnv 1000000000 ''a.b'' 1 ''g-61'' (demoManifest ''g-61'' 2) root db = (None, db')"
    using st db1 by (auto simp: recordPublished_def unixSec_def)
  then show ?thesis
    using recordPublished_jobs by blast
qed

lemma demo_issue:
  assumes "db_generations (vs_Db s) = [demoRow]" "vs_Root s = demoCertRoot"
  shows "\<exists>db' r. issueCertificate demoEnv demoRun forcedJob demoPreset 1 s
      = (Inr (''g-61'', demoManifest ''g-61'' 2), \<lparr>vs_Db = db', vs_Root = demoRoot2\<rparr>)
      \<and> db_generations db' = [r] \<and> cg_ID r = 1 \<and> cg_Domain r = ''a.b'' \<and> db_jobs db' = db_jobs (vs_Db s)"
proof -
  obtain u db1 where st: "UpdateCertificateGenerationStatus 1 1 ''publishing'' [] [] [] None None (vs_Db s) = (u, db1)"
    by fastforce
  have db1: "u = None \<and> (\<exists>r. db_generations db1 = [r] \<and> cg_ID r = 1 \<and> cg_Domain r = ''a.b'')"
    using st assms by (auto simp: UpdateCertificateGenerationStatus_def validGenerationStatus_def GetCertificateGeneration_def)
  have jobs: "db_jobs db1 = db_jobs (vs_Db s)"
    using status_keeps_jobs[of 1 1 "''publishing''" "[]" "[]" "[]" None None "vs_Db s"] st by simp
  have san: "splitCSV (ct_SAN demoPreset) = []"
    by (simp add: splitCSV_def demoPreset_def)
  have paths: "domainPaths demoRoot2 ''a.b'' = Inr (''a.b'', demoDomain2)"
    by (rule demo_paths2)
  have "findGeneration demoDomain2 ''g-61'' = Inr (InReleases, releaseFiles demoFiles ''{2}'')"
    by (simp add: findGeneration_InReleases demoDomain2_fields)
  then have "fst (LoadGenerationManifest demoLib noFault ''a.b'' ''g-61'' demoRoot2) = Inr (demoManifest ''g-61'' 2)"
    by (simp add: LoadGenerationManifest_def resolveGeneration_def paths demo_loadOut)
  then show ?thesis
    using st db1 jobs assms(2)
    by (auto simp: issueCertificate_def unixSec_def san demo_published onCert_def)
qed

lemma demo_run: "\<exists>s'. executeClaimedV2Job demoEnv demoRun ''w'' forcedJob demoQueued = (None, s') \<and> vs_Root s' = demoRoot2
  \<and> map_option cj_Status (GetCertificateJob ''j1'' (vs_Db s')) = Some ''succeeded''"
proof -
  let ?s = "demoQueued\<lparr>vs_Db := (vs_Db demoQueued)\<lparr>db_generations := [demoRow], db_genSeq := 1\<rparr>\<rparr>"
  obtain db2 r where issue: "issueCertificate demoEnv demoRun forcedJob demoPreset 1 ?s
      = (Inr (''g-61'', demoManifest ''g-61'' 2), \<lparr>vs_Db = db2, vs_Root = demoRoot2\<rparr>)"
    and r: "db_generations db2 = [r]" "cg_ID r = 1" "cg_Domain r = ''a.b''" "db_jobs db2 = [forcedJob]"
    using demo_issue[of ?s] by auto
  obtain db3 where rec: "recordPublished demoEnv 1000000000 ''a.b'' 1 ''g-61'' (demoManifest ''g-61'' 2) demoRoot2 db2 = (None, db3)"
    and db3: "db_jobs db3 = [forcedJob]"
    using demo_record[OF r(1-3)] r(4) by metis
  obtain db4 where up: "UpdateCertificateJobStatus 1 ''j1'' ''succeeded'' [] db3 = (None, db4)"
    and db4: "map_option cj_Status (GetCertificateJob ''j1'' db4) = Some ''succeeded''"
    using db3 by (auto simp: UpdateCertificateJobStatus_def validJobStatus_def GetCertificateJob_def statusRow_def Let_def)
  have run: "runIssuance demoEnv demoRun forcedJob ''w'' demoPreset demoQueued
      = (None, \<lparr>vs_Db = auditV2 1000000000 [] ''a.b'' ''reconcile_v2'' ''succeeded'' MsgDone db4, vs_Root = demoRoot2\<rparr>)"
    using issue rec up by (simp add: runIssuance_def unixSec_def demo_create Let_def)
  obtain state where state: "readV2CurrentState demoEnv ''a.b'' demoCertRoot = Inr state"
    using demo_state by blast
  have "recoverPublishingGeneration demoEnv 1000000000 forcedJob demoQueued = (Inr False, vs_Db demoQueued)"
    by (simp add: recoverPublishingGeneration_def ListCertificateGenerations_def)
  then have "executeClaimedV2Job demoEnv demoRun ''w'' forcedJob demoQueued
      = (None, \<lparr>vs_Db = auditV2 1000000000 [] ''a.b'' ''reconcile_v2'' ''succeeded'' MsgDone db4, vs_Root = demoRoot2\<rparr>)"
    using run state by (simp add: executeClaimedV2Job_def Let_def demo_force)
  then show ?thesis
    using db4 job_table[OF auditV2_tables(2)] by simp
qed

theorem success_syncs_database_witness:
  "\<exists>s'. executeClaimedV2Job demoEnv demoRun ''w'' forcedJob demoQueued = (None, s') \<and>
     storeRecorded demoEnv ''a.b'' (vs_Root s') (vs_Db s')"
proof -
  obtain s' where run: "executeClaimedV2Job demoEnv demoRun ''w'' forcedJob demoQueued = (None, s')"
    using demo_run by blast
  moreover have "generationsInv (vs_Db demoQueued)"
    by (simp add: generationsInv_def rowsInv_def)
  ultimately show ?thesis
    using success_syncs_database[of demoEnv demoQueued demoRun "''w''" forcedJob s'] demo_jsonLaw demo_x509Law
    by (simp add: demo_force)
qed

section \<open>No run takes a certificate away\<close>

lemma publish_keeps_current:
  assumes laws: "jsonLaw lib" "x509Law lib" and nofault: "\<not> (io IoSyncDomain \<and> io IoRestore)"
    and p: "publish lib io now tokens domain staging sans root = (r, root')"
    and c: "currentState lib d (domainAt root d) = Inr (g, InReleases, files)"
  shows "map_of (entriesOf (dd_Releases (domainAt root' d))) g = Some (EntryDir files) \<and>
    (\<exists>g' files'. currentState lib d (domainAt root' d) = Inr (g', InReleases, files') \<and>
       (g' = g \<and> files' = files \<or> normalizeDomain domain = Inr d \<and> isOk r))"
proof -
  have old: "map_of (entriesOf (dd_Releases (domainAt root d))) g = Some (EntryDir files)"
    using currentState_facts(3)[OF c] by (simp add: findGeneration_InReleases)
  show ?thesis
  proof (cases r)
    case (Inl e)
    then have k: "keepsStore (domainAt root d) (domainAt root' d)"
      using publish_fail_keeps[OF _ nofault] p by blast
    then have rel: "map_of (entriesOf (dd_Releases (domainAt root' d))) g = Some (EntryDir files)"
      using old by (simp add: keepsStore_def)
    have "currentState lib d (domainAt root' d) = Inr (g, InReleases, files)"
      using k rel old by (intro currentState_same[OF c]) (simp_all add: keepsStore_def)
    then show ?thesis using rel by blast
  next
    case (Inr ok)
    obtain h fm where ok: "ok = (h, fm)" by fastforce
    show ?thesis
      using p[unfolded Inr ok]
    proof (cases rule: publish_cases)
      case (success domains s dd staged h' m out dd')
      show ?thesis
      proof (cases "s = d")
        case False
        then have "domainAt root' d = domainAt root d"
          using success by simp
        then show ?thesis using c old by auto
      next
        case True
        note done' = commitPublish_ok[OF success(6)]
        have fresh: "map_of (entriesOf (dd_Releases dd)) h' = None"
          using newGenerationPath_fresh[OF preparePublish_ok(1)[OF success(5)]] by simp
        have at: "domainAt root' d = published h' out dd"
          using success(1,8) done'(1) True by simp
        have "keepsStore (domainAt root d) dd"
          using ensureReleases_keeps[of io domains s dd] success(1,3) True by simp
        then have "map_of (entriesOf (dd_Releases dd)) g = Some (EntryDir files)"
          using old by (simp add: keepsStore_def)
        moreover from this have "g \<noteq> h'"
          using fresh by auto
        ultimately have rel: "map_of (entriesOf (dd_Releases (domainAt root' d))) g = Some (EntryDir files)"
          by (simp add: at published_def addRelease_def map_of_append map_add_def)
        have "GetCurrent lib domain root' = Inr h"
          using publish_ok[OF laws] p Inr ok by blast
        then obtain s2 dd2 place2 files2 where st: "domainPaths root' domain = Inr (s2, dd2)"
            "currentState lib s2 dd2 = Inr (h, place2, files2)"
          using GetCurrent_state by blast
        have "s2 = d" "dd2 = domainAt root' d"
          using domainPaths_ok[OF st(1)] success(2) True by auto
        moreover have "place2 = InReleases"
          using currentState_facts(3)[OF st(2)] published_release[OF fresh, of out] success(7) at \<open>dd2 = domainAt root' d\<close>
          by (cases place2) (auto simp: findGeneration_InLegacy)
        ultimately show ?thesis
          using st(2) rel success(2) True Inr by auto
      qed
    qed simp_all
  qed
qed

lemma issueCertificate_root:
  assumes "issueCertificate env run job preset gid s = (r, s')"
  shows "vs_Root s' = vs_Root s \<or>
    (\<exists>tokens staging sans q. publish (se_lib env) (se_io env) (unixSec (vr_now run)) tokens (cj_Domain job) staging sans (vs_Root s)
      = (q, vs_Root s'))"
  using assms
  by (auto simp: issueCertificate_def split: sum.splits option.splits prod.splits)

lemma runIssuance_root:
  assumes "runIssuance env run job owner preset s = (err, s')"
  shows "\<exists>gid db r s2. vs_Root s' = vs_Root s \<or>
    issueCertificate env run job preset gid (s\<lparr>vs_Db := db\<rparr>) = (r, s2) \<and> vs_Root s' = vs_Root s2"
proof -
  obtain c db1 where create: "CreateCertificateGeneration (unixSec (vr_now run)) (Some (newGenerationRow job)) (vs_Db s) = (c, db1)"
    by fastforce
  show ?thesis
  proof (cases c)
    case (Inl e)
    then show ?thesis
      using assms create by (auto simp: runIssuance_def Let_def split: prod.splits)
  next
    case (Inr row)
    obtain r s2 where issue: "issueCertificate env run job preset (cg_ID row) (s\<lparr>vs_Db := db1\<rparr>) = (r, s2)" by fastforce
    have "vs_Root s' = vs_Root s2"
    proof (cases r)
      case (Inl e)
      then show ?thesis
        using assms create Inr issue by (auto simp: runIssuance_def Let_def split: prod.splits)
    next
      case p: (Inr p)
      obtain h m where "p = (h, m)" by fastforce
      then show ?thesis
        using assms create Inr issue p
        by (auto simp: runIssuance_def Let_def split: prod.splits option.splits)
    qed
    then show ?thesis
      using issue by blast
  qed
qed

lemma executeClaimed_root:
  assumes "executeClaimedV2Job env run owner job s = (err, s')"
  shows "vs_Root s' = vs_Root s \<or>
    (\<exists>preset db. runIssuance env run job owner preset (s\<lparr>vs_Db := db\<rparr>) = (err, s'))"
proof (cases "GetCert (cj_Domain job) (vs_Db s)")
  case None
  then show ?thesis using assms by (auto simp: executeClaimedV2Job_def Let_def split: prod.splits)
next
  case preset: (Some preset)
  show ?thesis
  proof (cases "guardR (se_openErr env) (readV2CurrentState env (cj_Domain job) (vs_Root s))")
    case (Inl e)
    then show ?thesis using assms preset by (auto simp: executeClaimedV2Job_def Let_def split: prod.splits)
  next
    case (Inr state)
    obtain rec db1 where rec: "recoverPublishingGeneration env (vr_now run) job s = (rec, db1)" by fastforce
    show ?thesis
      using assms preset Inr rec
      by (cases rec) (auto simp: executeClaimedV2Job_def Let_def split: if_splits bool.splits)
  qed
qed

text \<open>No run takes a certificate away.  However a run ends, with success or with any error, and whatever system
  calls fail, except the two that leave a dangling pointer together: a domain that had a readable current
  generation still has one.  It is the same one with the same files, unless the run published a new one for
  the domain of its job, and even then the old generation is still there.\<close>

theorem run_keeps_certificate:
  assumes "jsonLaw (se_lib env)" and "x509Law (se_lib env)"
    and "\<not> (se_io env IoSyncDomain \<and> se_io env IoRestore)"
    and "executeClaimedV2Job env run owner job s = (err, s')"
    and "currentState (se_lib env) d (domainAt (vs_Root s) d) = Inr (g, InReleases, files)"
  shows "map_of (entriesOf (dd_Releases (domainAt (vs_Root s') d))) g = Some (EntryDir files) \<and>
    (\<exists>g' files'. currentState (se_lib env) d (domainAt (vs_Root s') d) = Inr (g', InReleases, files') \<and>
       (g' = g \<and> files' = files \<or> normalizeDomain (cj_Domain job) = Inr d))"
proof -
  have same: ?thesis if "vs_Root s' = vs_Root s"
    using that assms(5) currentState_facts(3)[OF assms(5)] by (simp add: findGeneration_InReleases)
  have pub: ?thesis if "publish (se_lib env) (se_io env) now tokens (cj_Domain job) staging sans (vs_Root s) = (q, vs_Root s')"
    for now tokens staging sans q
    using publish_keeps_current[OF assms(1,2,3) that assms(5)] by auto
  show ?thesis
    using executeClaimed_root[OF assms(4)]
  proof
    assume "\<exists>preset db. runIssuance env run job owner preset (s\<lparr>vs_Db := db\<rparr>) = (err, s')"
    then obtain gid db r s2 preset where i: "vs_Root s' = vs_Root s \<or>
        issueCertificate env run job preset gid (s\<lparr>vs_Db := db\<rparr>) = (r, s2) \<and> vs_Root s' = vs_Root s2"
      using runIssuance_root by fastforce
    then show ?thesis
      using same pub issueCertificate_root[of env run job preset gid "s\<lparr>vs_Db := db\<rparr>" r s2] by auto
  qed (rule same)
qed

theorem run_keeps_certificate_witness:
  "\<exists>g' files'. currentState demoLib ''a.b'' (domainAt demoRoot2 ''a.b'') = Inr (g', InReleases, files') \<and>
     map_of (entriesOf (dd_Releases (domainAt demoRoot2 ''a.b''))) ''g-1'' = Some (EntryDir (releaseFiles demoFiles ''{1}''))"
proof -
  obtain s' where run: "executeClaimedV2Job demoEnv demoRun ''w'' forcedJob demoQueued = (None, s')" "vs_Root s' = demoRoot2"
    using demo_run by blast
  have at: "domainAt (vs_Root demoQueued) ''a.b'' = demoDomain"
    by (simp add: domainAt_def demoCertRoot_def)
  show ?thesis
    using run_keeps_certificate[OF _ _ _ run(1), of "''a.b''" "''g-1''" "releaseFiles demoFiles ''{1}''"]
      demo_jsonLaw demo_x509Law demo_current run(2) at by auto
qed

section \<open>Crash recovery\<close>

lemma clearCurrent_keeps:
  "r \<in> set gs \<Longrightarrow> \<exists>r'\<in>set (clearCurrent now d ex gs). cg_ID r' = cg_ID r \<and> cg_Domain r' = cg_Domain r \<and>
     cg_Revision r' = cg_Revision r"
  by (induction gs) (auto simp: clearCurrent_def)

lemma artifact_needs_free_revision:
  assumes "UpdateCertificateGenerationArtifact now gid a db = (r, db')"
    and "GetCertificateGeneration gid db = Some g" and "GetCertificateGeneration oid db = Some old"
    and "oid \<noteq> gid" and "cg_Domain old = cg_Domain g" and "cg_Revision old = ga_Revision a"
  shows "\<exists>e. r = Some e \<and> db' = db"
proof -
  define clash where "clash = (\<lambda>r :: CertificateGeneration. cg_ID r \<noteq> gid \<and> cg_Domain r = cg_Domain g \<and> cg_Revision r = ga_Revision a)"
  have old: "old \<in> set (db_generations db)" "cg_ID old = oid"
    using GetGeneration_mem[OF assms(3)] by simp_all
  obtain r' where r': "r' \<in> set (clearCurrent now (cg_Domain g) (Some gid) (db_generations db))" "cg_ID r' = oid"
      "cg_Domain r' = cg_Domain old" "cg_Revision r' = cg_Revision old"
    using clearCurrent_keeps[OF old(1)] old(2) by metis
  have "clash old" "clash r'"
    using assms(4-6) old r' by (simp_all add: clash_def)
  then have "list_ex clash
      (if ga_Current a then clearCurrent now (cg_Domain g) (Some gid) (db_generations db) else db_generations db)"
    using old(1) r'(1) unfolding list_ex_iff by (cases "ga_Current a") auto
  then have "UpdateCertificateGenerationArtifact now gid a db =
      (if ga_Revision a < 1 \<or> \<not> validSHA256Digest (ga_ManifestDigest a) \<or> \<not> validSHA256Digest (ga_Fingerprint a)
       then (Some (ErrInvalid ''artifact''), db)
       else if ga_Current a \<and> cg_Status g \<noteq> ''issued'' then (Some (ErrInvalid ''current''), db) else (Some ErrUnique, db))"
    unfolding UpdateCertificateGenerationArtifact_def Let_def assms(2) option.case clash_def by (simp only: if_True)
  then show ?thesis
    using assms(1) by (simp split: if_splits)
qed

lemma issued_is_current:
  assumes "UpdateCertificateGenerationStatus now gid ''issued'' ref key msg nb na db = (None, db')" and "ref \<noteq> []"
    and "GetCertificateGeneration gid db' = Some g"
  shows "cg_Current g"
proof -
  obtain g0 where g0: "GetCertificateGeneration gid db = Some g0"
    using assms(1) by (rule UpdateStatus_ok)
  show ?thesis
    using assms g0 GetGeneration_mem[OF g0]
    by (auto simp: UpdateCertificateGenerationStatus_def validGenerationStatus_def GetCertificateGeneration_def
        Let_def find_updWhere_key)
qed

text \<open>C18: Recovery adopts a certificate the crashed run did not publish.  A run that stopped before it published
  leaves a row in publishing, while the store still has the older generation as current.  The next run marks
  that row as issued and current with the older generation, and then fails, because the older generation's
  revision already belongs to its own row: the job fails, and the database's current row has a revision that
  is not the one of the certificate it names.\<close>

theorem recovery_adopts_unpublished:
  assumes "generationsInv db" and "GetCurrent (se_lib env) d root = Inr h"
    and "fst (LoadManifest (se_lib env) (se_io env) d h root) = Inr fm"
    and "fst (LoadGenerationManifest (se_lib env) (se_io env) d h root) = Inr m"
    and "GetCertificateGeneration (cg_ID old) db = Some old" and "GetCertificateGeneration (cg_ID g) db = Some g"
    and "cg_Domain old = d" and "cg_Domain g = d" and "cg_ID old \<noteq> cg_ID g"
    and "cg_Revision old = sint (gm_Revision m)" and "cg_Status g = ''publishing''"
  shows "\<exists>e db' row. recoverLoop env now d root (g # gs) db = (Inl e, db') \<and>
    GetCurrentCertificateGeneration d db' = Some row \<and> cg_ID row = cg_ID g \<and> cg_CertificateRef row = Some h \<and>
    cg_Revision row = cg_Revision g \<and> cg_Revision g \<noteq> sint (gm_Revision m)"
proof -
  obtain u db1 where st: "UpdateCertificateGenerationStatus (unixSec now) (cg_ID g) ''issued'' h h [] None
      (expiryOf env d h root) db = (u, db1)" by fastforce
  have u: "u = None"
    using st assms(6) by (auto simp: UpdateCertificateGenerationStatus_def validGenerationStatus_def Let_def)
  obtain g0 g1 where g1: "GetCertificateGeneration (cg_ID g) db = Some g0" "GetCertificateGeneration (cg_ID g) db1 = Some g1"
      "cg_Status g1 = ''issued''" "cg_CertificateRef g1 = nullString h" "cg_Domain g1 = cg_Domain g0"
      "cg_ID g1 = cg_ID g" "cg_Revision g1 = cg_Revision g0"
    using st u by (auto elim: UpdateStatus_ok)
  have g0: "g0 = g" using g1(1) assms(6) by simp
  obtain old1 where old1: "GetCertificateGeneration (cg_ID old) db1 = Some old1" "cg_Domain old1 = d"
      "cg_Revision old1 = sint (gm_Revision m)"
    using Get_genStatus[OF assms(5), of "unixSec now" "cg_ID g" "''issued''" h h "[]" None "expiryOf env d h root"]
      st assms(7,10) by auto
  obtain r db2 where ar: "UpdateCertificateGenerationArtifact (unixSec now) (cg_ID g) (artifactOf (se_lib env) m) db1 = (r, db2)"
    by fastforce
  obtain e where e: "r = Some e" "db2 = db1"
    using artifact_needs_free_revision[OF ar g1(2) old1(1) assms(9)] old1 g1(5) g0 assms(8)
    by (auto simp: artifactOf_def)
  have loop: "\<exists>err. recoverLoop env now d root (g # gs) db = (Inl err, db1)"
    using assms(2,3,4,11) st u ar e by (simp add: recordPublished_def)
  have inv: "generationsInv db1"
    using UpdateStatus_inv[OF assms(1)] st by (metis snd_conv)
  have "cg_Current g1"
    using issued_is_current[OF st[unfolded u] GetCurrent_nonempty[OF assms(2)] g1(2)] .
  then have cur: "GetCurrentCertificateGeneration d db1 = Some g1"
    using current_row_found[OF inv g1(2)] g1(5) g0 assms(8) by simp
  have "cg_Revision g \<noteq> cg_Revision old"
    using rowsInv_revision_other[OF assms(1)[unfolded generationsInv_def] conjunct1[OF GetGeneration_mem[OF assms(6)]]
        conjunct1[OF GetGeneration_mem[OF assms(5)]]] assms(7-9)
    by (simp add: revisionKey_def)
  then have "cg_ID g1 = cg_ID g" "cg_CertificateRef g1 = Some h" "cg_Revision g1 = cg_Revision g"
      "cg_Revision g \<noteq> sint (gm_Revision m)"
    using g1(4,6,7) g0 assms(10) GetCurrent_nonempty[OF assms(2)] by (simp_all add: nullString_def)
  with loop cur show ?thesis by blast
qed

definition crashedRows :: "CertificateGeneration list" where
  "crashedRows =
     [demoRow\<lparr>cg_Generation := 1, cg_Status := ''issued'', cg_CertificateRef := Some ''g-1'', cg_Current := True\<rparr>,
      demoRow\<lparr>cg_ID := 2, cg_Generation := 2, cg_Revision := 2, cg_Status := ''publishing'', cg_Current := False\<rparr>]"

theorem recovery_adopts_unpublished_witness:
  "\<exists>e db' row. recoverLoop demoEnv 1000000000 ''a.b'' demoCertRoot [crashedRows ! 1]
      ((vs_Db demoQueued)\<lparr>db_generations := crashedRows, db_genSeq := 2\<rparr>) = (Inl e, db') \<and>
    GetCurrentCertificateGeneration ''a.b'' db' = Some row \<and> cg_CertificateRef row = Some ''g-1'' \<and> cg_Revision row = 2"
proof -
  let ?db = "(vs_Db demoQueued)\<lparr>db_generations := crashedRows, db_genSeq := 2\<rparr>"
  have inv: "generationsInv ?db"
    by (simp add: generationsInv_def rowsInv_def crashedRows_def numberKey_def revisionKey_def generationOk_def
        validGenerationStatus_def)
  have rows: "GetCertificateGeneration (cg_ID (crashedRows ! 0)) ?db = Some (crashedRows ! 0)"
    "GetCertificateGeneration (cg_ID (crashedRows ! 1)) ?db = Some (crashedRows ! 1)"
    by (simp_all add: GetCertificateGeneration_def crashedRows_def)
  have store: "GetCurrent (se_lib demoEnv) ''a.b'' demoCertRoot = Inr ''g-1''"
    "fst (LoadManifest (se_lib demoEnv) (se_io demoEnv) ''a.b'' ''g-1'' demoCertRoot) = Inr (gm_Files (demoManifest ''g-1'' 1))"
    "fst (LoadGenerationManifest (se_lib demoEnv) (se_io demoEnv) ''a.b'' ''g-1'' demoCertRoot) = Inr (demoManifest ''g-1'' 1)"
    by (simp_all add: demo_currentOld LoadManifest_def demo_loadOld)
  have fields: "cg_ID (crashedRows ! 0) = 1" "cg_ID (crashedRows ! 1) = 2" "cg_Domain (crashedRows ! 0) = ''a.b''"
    "cg_Domain (crashedRows ! 1) = ''a.b''" "cg_Revision (crashedRows ! 0) = 1" "cg_Revision (crashedRows ! 1) = 2"
    "cg_Status (crashedRows ! 1) = ''publishing''"
    by (simp_all add: crashedRows_def)
  have "gm_Revision (demoManifest ''g-1'' 1) = 1"
    by (simp add: demoManifest_def)
  then show ?thesis
    using recovery_adopts_unpublished[OF inv store rows, of 1000000000 "[]"]
    by (simp add: fields[simplified] del: recoverLoop.simps) blast
qed

section \<open>Retryable failures\<close>

lemma errorsNew_permanent: "ClassifyError (Some (errorsNew msg)) = ErrorPermanent"
  by (simp add: ClassifyError_def errorsNew_def errorsAs_def errorsIs_def plainNode_def netErrorResult_def)

lemma publicError_final: "\<not> retryAllowed cfg job (ve_Go (publicError e))"
  by (simp add: retryAllowed_def publicError_def plainV2_def errorsNew_permanent Let_def)

text \<open>The execution of a job in which the service meanwhile records a failed run.\<close>

definition failedRun :: "int \<Rightarrow> int \<Rightarrow> CertificateJob \<Rightarrow> int option \<Rightarrow> V2Error \<Rightarrow> string \<Rightarrow> World \<Rightarrow> World JobRun" where
  "failedRun now t job generation cause owner w =
     (let out = finishV2GenerationFailure now job generation owner cause (wd_db w)
      in \<lparr>jr_Events = [Meanwhile (\<lambda>w. w\<lparr>wd_db := snd out\<rparr>)], jr_Outcome = Inl (ve_Go (fst out)), jr_CtxErr = None,
          jr_Now = t\<rparr>)"

lemma failure_requeues:
  assumes "GetCertificateJob (cj_ID job) db = Some j" and "holdsLease (now div 1000000000) (cj_ID job) owner j"
    and "TrimSpace (cj_ID job) \<noteq> []" "TrimSpace owner \<noteq> []" and "v2Retryable cause"
  shows "GetCertificateJob (cj_ID job) (snd (finishV2GenerationFailure now job generation owner cause db))
    = Some (retryRow (now div 1000000000) ''retryable'' (v2PublicErrorMessage cause)
        ((now + 60000000000) div 1000000000) j)"
proof -
  let ?db1 = "case generation of None \<Rightarrow> db | Some gid \<Rightarrow> failGeneration now gid (v2PublicErrorMessage cause) db"
  have "db_jobs ?db1 = db_jobs db"
    by (simp add: failGeneration_def split: option.split)
  then have get: "GetCertificateJob (cj_ID job) ?db1 = Some j"
    using assms(1) job_table by metis
  have "now div 1000000000 \<le> (now + 60000000000) div 1000000000"
    by (rule zdiv_mono1) simp_all
  then have "GetCertificateJob (cj_ID job) (snd (Retry now (cj_ID job) owner ''retryable'' (v2PublicErrorMessage cause) 60000000000 ?db1))
      = Some (retryRow (now div 1000000000) ''retryable'' (v2PublicErrorMessage cause) ((now + 60000000000) div 1000000000) j)"
    using Get_retry[OF get] assms(2-4) by (simp add: Retry_def)
  then show ?thesis
    using assms(5) job_table[OF auditV2_tables(2)] by (simp add: finishV2GenerationFailure_def Let_def)
qed

text \<open>A retryable failure is final.  The service puts a job that failed with a retryable cause back in the
  queue for a minute later, but the error it returns carries only the public text, which the worker takes for
  a permanent error: it marks the queued job as failed.\<close>

theorem retryable_failure_final:
  assumes "GetCertificateJob (cj_ID job) (wd_db w) = Some j"
    and "holdsLease (now div 1000000000) (cj_ID job) owner j" and "cj_Attempts j < cj_MaxAttempts j"
    and "TrimSpace (cj_ID job) \<noteq> []" "TrimSpace owner \<noteq> []" and "v2Retryable cause" and "jb_ID queued = cj_ID job"
  shows "\<exists>q f. GetCertificateJob (cj_ID job) (snd (finishV2GenerationFailure now job generation owner cause (wd_db w))) = Some q \<and>
      cj_Status q = ''queued'' \<and> cj_NextAttemptAt q = Some ((now + 60000000000) div 1000000000) \<and>
    GetCertificateJob (cj_ID job) (wd_db (snd (executeJob (adapterStore msg) cfg
        (failedRun now t job generation cause owner w) queued r w))) = Some f \<and>
      cj_Status f = ''failed'' \<and> cj_NextAttemptAt f = None"
proof -
  define out where "out = finishV2GenerationFailure now job generation owner cause (wd_db w)"
  define q where "q = retryRow (now div 1000000000) ''retryable'' (v2PublicErrorMessage cause) ((now + 60000000000) div 1000000000) j"
  have q: "GetCertificateJob (cj_ID job) (snd out) = Some q"
    using failure_requeues[OF assms(1,2,4,5,6)] by (simp add: out_def q_def)
  have row: "cj_Status q = ''queued''" "cj_NextAttemptAt q = Some ((now + 60000000000) div 1000000000)"
    using assms(3) by (simp_all add: q_def retryRow_def Let_def)
  have err: "fst out = publicError cause"
    by (simp add: out_def finishV2GenerationFailure_def Let_def)
  let ?w = "w\<lparr>wd_db := snd out\<rparr>"
  let ?u = "failureUpdate cfg t (queued\<lparr>jb_LeaseVersion := jb_LeaseVersion queued\<rparr>) (ve_Go (publicError cause))"
  have "wd_db (snd (executeJob (adapterStore msg) cfg (failedRun now t job generation cause owner w) queued r w))
      = wd_db (snd (adapterUpdateJob msg ?u ?w))"
    using publicError_final
    by (simp add: executeJob_def failedRun_def out_def[symmetric] err updateClaimedJob_def adapterStore_def Let_def
        case_prod_beta split: sum.split)
  also have "\<dots> = snd (UpdateCertificateJobStatus (unixNow ?w) (cj_ID job) JobFailed (ju_LastError ?u) (snd out))"
    by (simp add: adapter_db failureUpdate_def assms(7) unixNow_def)
  finally show ?thesis
    using q row Get_status[OF q] by (simp add: out_def validJobStatus_def statusRow_def isTerminalJobStatus_def Let_def)
qed

theorem retryable_failure_final_witness:
  "\<exists>f. GetCertificateJob ''j1'' (wd_db (snd (executeJob (adapterStore (\<lambda>_. [])) demoWorker
      (failedRun 100000000000 1 (startAttempt 100 ''w'' 160 demoJob) None (plainV2 DeadlineExceeded) ''w''
        (demoWorld [] [startAttempt 100 ''w'' 160 demoJob])) demoWorkerJob emptyRecorder
        (demoWorld [] [startAttempt 100 ''w'' 160 demoJob])))) = Some f \<and> cj_Status f = ''failed''"
proof -
  let ?j = "startAttempt 100 ''w'' 160 demoJob" and ?w = "demoWorld [] [startAttempt 100 ''w'' 160 demoJob]"
  have job: "GetCertificateJob (cj_ID ?j) (wd_db ?w) = Some ?j" "holdsLease (100000000000 div 1000000000) (cj_ID ?j) ''w'' ?j"
      "cj_Attempts ?j < cj_MaxAttempts ?j" "TrimSpace (cj_ID ?j) \<noteq> []" "TrimSpace ''w'' \<noteq> []"
    by (simp_all add: GetCertificateJob_def demoWorld_def holdsLease_def visible_eval)
      (simp_all add: startAttempt_def demoJob_def visible_eval)
  have cause: "v2Retryable (plainV2 DeadlineExceeded)"
    by (simp add: v2Retryable_def plainV2_def DeadlineExceeded_def errorsIs_def)
  have id: "jb_ID demoWorkerJob = cj_ID ?j" "cj_ID ?j = ''j1''"
    by (simp_all add: demoWorkerJob_def demoJob_def)
  show ?thesis
    using retryable_failure_final[OF job cause id(1), of None "\<lambda>_. []" demoWorker 1 emptyRecorder] unfolding id(2) by blast
qed

section \<open>Status of a job whose generation has no certificate\<close>

text \<open>The status of a running or failed job cannot be encoded.  From the moment a run has created its generation
  row until it has published, and for good when it fails, the row has a revision but no certificate; the job
  status takes both from that row, and its own encoder rejects a revision without a generation, so the
  caller gets an empty answer.\<close>

theorem job_status_invalid:
  assumes "GetJobV2 env t jid s = Inr status" and "GetCertificateJob jid (vs_Db s) = Some job"
    and "List.find (\<lambda>g. cg_JobID g = jid) (ListCertificateGenerations (cj_Domain job) (vs_Db s)) = Some g"
    and "cg_CertificateRef g = None" and "0 < cg_Revision g" and "cg_Revision g < 2 ^ 63"
  shows "js_Generation status = [] \<and> js_Revision status \<noteq> 0 \<and> \<not> isOk (JobStatus_MarshalJSON status)"
proof -
  have id: "cj_ID job = jid"
    using Get_mem[OF assms(2)] by simp
  have status: "status = v2BuildJobStatus job [] (word_of_int (cg_Revision g))"
    using GetJobV2_ok[OF assms(1)] assms(2-4) id by (auto simp: v2JobGeneration_def orEmpty_def)
  have rev: "(word_of_int (cg_Revision g) :: Revision) \<noteq> 0"
  proof
    assume "(word_of_int (cg_Revision g) :: Revision) = 0"
    then have "uint (word_of_int (cg_Revision g) :: Revision) = 0" by simp
    then show False
      using assms(5,6) by (simp add: uint_word_of_int)
  qed
  have "js_Generation status = []" "js_Revision status \<noteq> 0"
    using status rev by (simp_all add: v2BuildJobStatus_def)
  moreover from this have "JobStatus_Validate (canonicalJobStatus status) \<noteq> None"
    by (simp add: JobStatus_Validate_def)
  ultimately show ?thesis
    by (cases "JobStatus_Validate (canonicalJobStatus status)") (auto simp: JobStatus_MarshalJSON_def Let_def)
qed

definition pendingState :: V2State where
  "pendingState =
     (let s = demoService [''status'']
      in s\<lparr>vs_Db := (vs_Db s)\<lparr>db_jobs := [forcedJob], db_generations := [demoRow], db_genSeq := 1\<rparr>\<rparr>)"

theorem job_status_invalid_witness:
  "\<exists>status. GetJobV2 demoEnv ''t'' ''j1'' pendingState = Inr status \<and> \<not> isOk (JobStatus_MarshalJSON status)"
proof -
  have job: "GetCertificateJob ''j1'' (vs_Db pendingState) = Some forcedJob"
    by (simp add: GetCertificateJob_def pendingState_def Let_def)
  have "HasCertificatePermission (vs_Db pendingState) ''t'' ''a.b'' ''status'' =
      HasCertificatePermission (vs_Db (demoService [''status''])) ''t'' ''a.b'' ''status''"
    by (simp add: HasCertificatePermission_def pendingState_def Let_def split: option.split)
  then have granted: "HasCertificatePermission (vs_Db pendingState) ''t'' ''a.b'' ''status'' = Inr True"
    by (simp add: demo_permission validCertificatePermissions_def)
  have "\<not> v2HasControl ''j1''"
    by code_simp
  then obtain status where status: "GetJobV2 demoEnv ''t'' ''j1'' pendingState = Inr status"
    using job granted by (simp add: GetJobV2_def visible_eval case_prod_beta)
  have "cg_JobID demoRow = ''j1''"
    by (simp add: demoRow_def newGenerationRow_def)
  then have row: "List.find (\<lambda>g. cg_JobID g = ''j1'') (ListCertificateGenerations (cj_Domain forcedJob) (vs_Db pendingState)) = Some demoRow"
    by (simp add: ListCertificateGenerations_def pendingState_def Let_def)
  have "cg_CertificateRef demoRow = None"
    by (simp add: demoRow_def normalGeneration_def newGenerationRow_def Let_def)
  then show ?thesis
    using job_status_invalid[OF status job row] status by auto
qed

end
