(* ===== verification/ClientDeploy.thy ===== *)
theory ClientDeploy
  imports CertStore Contract
begin

text \<open>
  \<^verbatim>\<open>internal/client/deploy.go\<close>: a generation is fetched into a staging directory, checked, moved
  to \<^verbatim>\<open>releases/<generation>\<close> and made active by replacing the \<^verbatim>\<open>current\<close> link; the verify command
  decides whether it stays.  The output directory is what \<^verbatim>\<open>Lstat\<close> and \<^verbatim>\<open>ReadDir\<close> tell of it;
  \<open>io\<close> says which system call fails.  The text of an error (\<^verbatim>\<open>err.Error()\<close>) is the parameter
  \<open>de_ErrorText\<close>: nothing in the program branches on it.  A temporary link \<^verbatim>\<open>.current-<generation>\<close>
  left by a failed rename is not part of the state: every writer removes it first.
\<close>

section \<open>The output directory\<close>

record OutDir =
  od_Releases :: "(string \<times> EntryNode) list DirNode"
  od_Current :: "CurrentNode option"

definition emptyOutDir :: OutDir where
  "emptyOutDir = \<lparr>od_Releases = DirAbsent, od_Current = None\<rparr>"

text \<open>The system calls of the replacement of \<^verbatim>\<open>current\<close>, which happens once to switch and once to roll back.\<close>

datatype LinkPoint = LinkLstat | LinkSymlink | LinkRename | LinkRemove | LinkSync

datatype DeployPoint =
    DpMakeOut | DpOutMode | DpLock | DpMakeReleases | DpReleasesMode | DpReadCurrent | DpReadRelease
  | DpTempDir | DpTempMode | DpCreateFile string | DpWriteFile string | DpReadBack string
  | DpReadStaged string | DpRemoveStaging
  | DpLstatRelease | DpPublish | DpReleaseMode | DpSyncReleases
  | DpSwitch LinkPoint | DpRestore LinkPoint

datatype CertProblem =
    LeafUnreadable | LeafNotSingle | ChainUnreadable | ChainHeadDiffers | CAUnreadable | OutsideValidity
  | KeyUnreadable | KeyNotEncodable | KeyMismatch | EmptySAN | UncoveredSAN string

datatype DeployErr =
    DeployBadGeneration | DeployNoDomain | DeployNoOutDir | DeployIOFailed DeployPoint
  | DeployNotDirectory | DeployCurrentUnsafe | DeployCurrentInvalid | DeployUnsafeRelease
  | DeployNoFetch | DeployBadManifest | DeployFetchFailed string string
  | DeploySizeMismatch string | DeployHashMismatch string | DeployBadCertificate CertProblem
  | DeployReleaseExists
  | DeployVerifyFailed string | DeployRollbackFailed string DeployErr | DeployReloadFailed string

text \<open>
  A command gets the output directory and returns its error's text; it is assumed to leave the
  directory alone (the client runs it there to check or reload a service).
\<close>

type_synonym DeploymentCommand = "OutDir \<Rightarrow> string option"

record 'w GenerationDeployOpts =
  gdo_Domain :: string
  gdo_SAN :: "string list"
  gdo_OutDir :: string
  gdo_Generation :: GenerationID
  gdo_Manifest :: CertificateManifest
  gdo_Fetch :: "(string \<Rightarrow> 'w \<Rightarrow> (string + string) \<times> 'w) option"
  gdo_Verify :: "DeploymentCommand option"
  gdo_Reload :: "DeploymentCommand option"

text \<open>
  A download acts on the client's surroundings \<^typ>\<open>'w\<close> (the network and the server), which are threaded
  through the deployment.
\<close>

text \<open>\<open>de_Staging\<close> is the random end of the staging directory's name, which no entry has.\<close>

record DeployEnv =
  de_Lib :: CertLib
  de_Io :: "DeployPoint \<Rightarrow> bool"
  de_ErrorText :: "DeployErr \<Rightarrow> string"
  de_Staging :: string
  de_Now :: int

section \<open>Reports\<close>

definition MsgAlreadyCurrent :: string where
  "MsgAlreadyCurrent = ''generation '' @ map char_of ([0xE5, 0xB7, 0xB2, 0xE6, 0x98, 0xAF, 0xE5, 0xBD, 0x93, 0xE5, 0x89, 0x8D, 0xE7,
     0x89, 0x88, 0xE6, 0x9C, 0xAC] :: nat list)"

definition MsgDeployed :: string where
  "MsgDeployed = map char_of ([0xE9, 0x83, 0xA8, 0xE7, 0xBD, 0xB2, 0xE5, 0xAE, 0x8C, 0xE6, 0x88, 0x90] :: nat
     list)"

definition deploymentFailure :: "DeployEnv \<Rightarrow> DeploymentReport \<Rightarrow> DeployErr \<Rightarrow> bool \<Rightarrow> DeploymentReport" where
  "deploymentFailure env report err retryable =
     report\<lparr>dr_State := DeploymentStateFailed, dr_Success := False,
            dr_Error := Some \<lparr>er_Code = ErrorCodeDeploymentFailed, er_Message = de_ErrorText env err,
                              er_Retryable = retryable, er_Details = []\<rparr>\<rparr>"

definition deployingReport :: "GenerationID \<Rightarrow> DeploymentReport" where
  "deployingReport generation =
     \<lparr>dr_Domain = [], dr_Target = [], dr_State = DeploymentStateDeploying, dr_Success = False,
      dr_Generation = generation, dr_Revision = 0, dr_Verified = False, dr_Reloaded = False,
      dr_Message = [], dr_Error = None, dr_StartedAt = None, dr_FinishedAt = None\<rparr>"

text \<open>The report with the returned error.\<close>

type_synonym DeployResult = "DeploymentReport \<times> DeployErr option"

definition deployFail :: "DeployEnv \<Rightarrow> DeploymentReport \<Rightarrow> DeployErr \<Rightarrow> DeployResult" where
  "deployFail env report err = (deploymentFailure env report err False, Some err)"

section \<open>Checks\<close>

definition validateDeploymentManifest :: "CertificateManifest \<Rightarrow> DeployErr option" where
  "validateDeploymentManifest manifest = firstErr
     [failIf (CertificateManifest_Validate manifest \<noteq> None) DeployBadManifest,
      failIf (length manifest \<noteq> length fixedFileNames) DeployBadManifest,
      failIf (\<not> list_all (\<lambda>name. name \<in> set (map fm_Name manifest)) fixedFileNames) DeployBadManifest]"

text \<open>
  \<^verbatim>\<open>ensureSecureDirectory\<close>: an absent directory is made; the node is the one afterwards, whether or
  not the change of its mode fails.
\<close>

definition ensureSecureDirectory :: "bool \<Rightarrow> DeployPoint \<Rightarrow> bool \<Rightarrow> DeployPoint \<Rightarrow> 'a \<Rightarrow> 'a DirNode
    \<Rightarrow> DeployErr option \<times> 'a DirNode" where
  "ensureSecureDirectory makeFails making modeFails changing fresh node =
     (case node of
        DirUnsafe \<Rightarrow> (Some DeployNotDirectory, node)
      | DirAbsent \<Rightarrow>
          if makeFails then (Some (DeployIOFailed making), node)
          else if modeFails then (Some (DeployIOFailed changing), DirAt fresh) else (None, DirAt fresh)
      | DirAt d \<Rightarrow> if modeFails then (Some (DeployIOFailed changing), node) else (None, node))"

text \<open>The manifest entry of a file: \<^verbatim>\<open>manifestByName\<close> keeps the last one of a name.\<close>

definition manifestItem :: "CertificateManifest \<Rightarrow> string \<Rightarrow> FileManifest" where
  "manifestItem manifest name =
     (case List.find (\<lambda>item. fm_Name item = name) (rev manifest) of
        Some item \<Rightarrow> item | None \<Rightarrow> \<lparr>fm_Name = [], fm_Size = 0, fm_SHA256 = []\<rparr>)"

text \<open>A file that could not be written in full is not tracked: its staging directory is given up.\<close>

definition writeAndValidateStagedFile ::
  "DeployEnv \<Rightarrow> string \<Rightarrow> FileManifest \<Rightarrow> string \<Rightarrow> (string \<times> FileNode) list
     \<Rightarrow> DeployErr option \<times> (string \<times> FileNode) list" where
  "writeAndValidateStagedFile env fileName item data staging =
     (let sha = (\<lambda>b. hexEncode (lib_sha256 (de_Lib env) b))
      in if of_nat (length data) \<noteq> fm_Size item then (Some (DeploySizeMismatch fileName), staging)
         else if sha data \<noteq> fm_SHA256 item then (Some (DeployHashMismatch fileName), staging)
         else if map_of staging fileName \<noteq> None \<or> de_Io env (DpCreateFile fileName)
         then (Some (DeployIOFailed (DpCreateFile fileName)), staging)
         else if de_Io env (DpWriteFile fileName)
         then (Some (DeployIOFailed (DpWriteFile fileName)), staging)
         else let written = staging @ [(fileName, Regular data)]
              in if de_Io env (DpReadBack fileName) then (Some (DeployIOFailed (DpReadBack fileName)), written)
                 else case readRegularFile written fileName of
                   Inl _ \<Rightarrow> (Some (DeployIOFailed (DpReadBack fileName)), written)
                 | Inr stored \<Rightarrow>
                     if of_nat (length stored) \<noteq> fm_Size item then (Some (DeploySizeMismatch fileName), written)
                     else if sha stored \<noteq> fm_SHA256 item then (Some (DeployHashMismatch fileName), written)
                     else (None, written))"

definition readStaged :: "DeployEnv \<Rightarrow> (string \<times> FileNode) list \<Rightarrow> string \<Rightarrow> string option" where
  "readStaged env dir name =
     (if de_Io env (DpReadStaged name) then None
      else case readRegularFile dir name of Inl _ \<Rightarrow> None | Inr data \<Rightarrow> Some data)"

definition parseCertificatePEMFile :: "DeployEnv \<Rightarrow> (string \<times> FileNode) list \<Rightarrow> string \<Rightarrow> X509 list option" where
  "parseCertificatePEMFile env dir name =
     (case readStaged env dir name of None \<Rightarrow> None | Some data \<Rightarrow> parseCertificatePEM (de_Lib env) data)"

fun coversNames :: "CertLib \<Rightarrow> X509 \<Rightarrow> string list \<Rightarrow> CertProblem option" where
  "coversNames lib leaf [] = None"
| "coversNames lib leaf (name # names) =
     (if name = [] then Some EmptySAN
      else if \<not> lib_verifyHostname lib leaf name then Some (UncoveredSAN name)
      else coversNames lib leaf names)"

text \<open>\<^verbatim>\<open>fullchain[0]\<close> exists: the PEM reader returns at least one block.\<close>

definition validateStagedCertificate ::
  "DeployEnv \<Rightarrow> (string \<times> FileNode) list \<Rightarrow> string \<Rightarrow> string list \<Rightarrow> int \<Rightarrow> CertProblem option" where
  "validateStagedCertificate env dir domain san now =
     (let lib = de_Lib env
      in case parseCertificatePEMFile env dir ''cert.pem'' of
        None \<Rightarrow> Some LeafUnreadable
      | Some certificates \<Rightarrow>
          if length certificates \<noteq> 1 then Some LeafNotSingle
          else let leaf = hd certificates
          in case parseCertificatePEMFile env dir ''fullchain.pem'' of
            None \<Rightarrow> Some ChainUnreadable
          | Some fullchain \<Rightarrow>
              if xc_Raw leaf \<noteq> xc_Raw (hd fullchain) then Some ChainHeadDiffers
              else case parseCertificatePEMFile env dir ''ca.pem'' of
                None \<Rightarrow> Some CAUnreadable
              | Some caCertificates \<Rightarrow>
                  if \<not> list_all (inValidity now) (certificates @ fullchain @ caCertificates) then Some OutsideValidity
                  else case readStaged env dir ''key.pem'' of
                    None \<Rightarrow> Some KeyUnreadable
                  | Some privateKeyData \<Rightarrow>
                      (case CertFiles.parsePrivateKeyPEM lib privateKeyData of
                         None \<Rightarrow> Some KeyUnreadable
                       | Some privateKey \<Rightarrow>
                           if xc_PublicKey leaf = None \<or> pk_Public privateKey = None then Some KeyNotEncodable
                           else if xc_PublicKey leaf \<noteq> pk_Public privateKey then Some KeyMismatch
                           else coversNames lib leaf (domain # san)))"

section \<open>Releases and the current link\<close>

definition assertSafeRelease :: "DeployEnv \<Rightarrow> OutDir \<Rightarrow> GenerationID \<Rightarrow> DeployErr option" where
  "assertSafeRelease env dir generation =
     (if de_Io env DpReadRelease then Some (DeployIOFailed DpReadRelease)
      else case map_of (entriesOf (od_Releases dir)) generation of
        None \<Rightarrow> Some (DeployIOFailed DpReadRelease)
      | Some EntryLink \<Rightarrow> Some DeployUnsafeRelease
      | Some EntryOther \<Rightarrow> Some DeployUnsafeRelease
      | Some (EntryDir entries) \<Rightarrow> firstErr
          [failIf (length entries \<noteq> length fixedFileNames) DeployUnsafeRelease,
           failIf (\<not> list_all (\<lambda>(name, node). name \<in> set fixedFileNames \<and> isOk (readRegularFile entries name)) entries)
             DeployUnsafeRelease,
           failIf (\<not> list_all (\<lambda>name. name \<in> set (map fst entries)) fixedFileNames) DeployUnsafeRelease])"

text \<open>
  The target of the link: relative, clean and directly below \<^verbatim>\<open>releases\<close>, which leaves
  \<^verbatim>\<open>releases/<name>\<close> with a name that has no separator and is no dot entry.
\<close>

definition deploymentLinkTarget :: "string \<Rightarrow> DeployErr + GenerationID" where
  "deploymentLinkTarget target =
     (let name = drop (length (''releases/'')) target
      in if \<not> prefix (''releases/'') target \<or> name = [] \<or> name = ''.'' \<or> name = ''..'' \<or> contains (CHR ''/'') name
         then Inl DeployCurrentInvalid
         else guardR (failIf (ValidateGenerationID name \<noteq> None) DeployCurrentInvalid) (Inr name))"

text \<open>\<open>None\<close> is the missing link (\<^verbatim>\<open>hasPrevious = false\<close>).\<close>

definition readDeploymentCurrent :: "(DeployPoint \<Rightarrow> bool) \<Rightarrow> OutDir \<Rightarrow> DeployErr + GenerationID option" where
  "readDeploymentCurrent io dir =
     (if io DpReadCurrent then Inl (DeployIOFailed DpReadCurrent)
      else case od_Current dir of
        None \<Rightarrow> Inr None
      | Some (CurrentLink target) \<Rightarrow> bindR (deploymentLinkTarget target) (\<lambda>generation. Inr (Some generation))
      | Some CurrentOther \<Rightarrow> Inl DeployCurrentUnsafe
      | Some (CurrentFile data) \<Rightarrow>
          let generation = TrimSpace data
          in guardR (failIf (ValidateGenerationID generation \<noteq> None) DeployCurrentInvalid) (Inr (Some generation)))"

definition deployLink :: "GenerationID \<Rightarrow> CurrentNode" where
  "deployLink generation = CurrentLink (''releases/'' @ generation)"

text \<open>
  \<open>phase\<close> tells the switch from the roll back; a failing directory sync comes after the rename, so
  the new link is already there.
\<close>

definition writeDeploymentCurrent ::
  "DeployEnv \<Rightarrow> (LinkPoint \<Rightarrow> DeployPoint) \<Rightarrow> GenerationID \<Rightarrow> OutDir \<Rightarrow> DeployErr option \<times> OutDir" where
  "writeDeploymentCurrent env phase generation dir =
     (let fails = (\<lambda>p. de_Io env (phase p)); failed = (\<lambda>p. Some (DeployIOFailed (phase p)))
      in if ValidateGenerationID generation \<noteq> None then (Some DeployBadGeneration, dir)
         else if fails LinkLstat then (failed LinkLstat, dir)
         else if od_Current dir = Some CurrentOther then (Some DeployCurrentUnsafe, dir)
         else if fails LinkSymlink then (failed LinkSymlink, dir)
         else if fails LinkRename then (failed LinkRename, dir)
         else let switched = dir\<lparr>od_Current := Some (deployLink generation)\<rparr>
              in if fails LinkSync then (failed LinkSync, switched) else (None, switched))"

definition restoreDeploymentCurrent ::
  "DeployEnv \<Rightarrow> GenerationID option \<Rightarrow> OutDir \<Rightarrow> DeployErr option \<times> OutDir" where
  "restoreDeploymentCurrent env previous dir =
     (case previous of
        Some generation \<Rightarrow> writeDeploymentCurrent env DpRestore generation dir
      | None \<Rightarrow>
          let fails = (\<lambda>p. de_Io env (DpRestore p)); failed = (\<lambda>p. Some (DeployIOFailed (DpRestore p)))
          in if fails LinkLstat then (failed LinkLstat, dir)
             else case od_Current dir of
               None \<Rightarrow> (None, dir)
             | Some cur \<Rightarrow>
                 if cur = CurrentOther then (Some DeployCurrentUnsafe, dir)
                 else if fails LinkRemove then (failed LinkRemove, dir)
                 else let removed = dir\<lparr>od_Current := None\<rparr>
                      in if fails LinkSync then (failed LinkSync, removed) else (None, removed))"

section \<open>A deployment\<close>

text \<open>The loop over the fixed files: fetch, write, check.\<close>

fun stageFiles :: "DeployEnv \<Rightarrow> (string \<Rightarrow> 'w \<Rightarrow> (string + string) \<times> 'w) \<Rightarrow> CertificateManifest \<Rightarrow> string list
    \<Rightarrow> (string \<times> FileNode) list \<Rightarrow> 'w \<Rightarrow> (DeployErr option \<times> (string \<times> FileNode) list) \<times> 'w" where
  "stageFiles env fetch manifest [] staging w = ((None, staging), w)"
| "stageFiles env fetch manifest (fileName # rest) staging w =
     (case fetch fileName w of
        (Inl msg, w') \<Rightarrow> ((Some (DeployFetchFailed fileName msg), staging), w')
      | (Inr data, w') \<Rightarrow>
          (case writeAndValidateStagedFile env fileName (manifestItem manifest fileName) data staging of
             (Some e, staging') \<Rightarrow> ((Some e, staging'), w')
           | (None, staging') \<Rightarrow> stageFiles env fetch manifest rest staging' w'))"

definition addOutRelease :: "string \<Rightarrow> (string \<times> FileNode) list \<Rightarrow> OutDir \<Rightarrow> OutDir" where
  "addOutRelease name files dir = dir\<lparr>od_Releases := DirAt (entriesOf (od_Releases dir) @ [(name, EntryDir files)])\<rparr>"

text \<open>The deferred \<^verbatim>\<open>RemoveAll\<close> of the staging directory: when it fails, what was staged stays under its name.\<close>

definition dropStaging :: "DeployEnv \<Rightarrow> GenerationID \<Rightarrow> (string \<times> FileNode) list \<Rightarrow> OutDir \<Rightarrow> OutDir" where
  "dropStaging env generation staging dir =
     (if de_Io env DpRemoveStaging
      then addOutRelease (''.staging-'' @ generation @ ''-'' @ de_Staging env) staging dir else dir)"

text \<open>From the published release on: switch, verify with roll back, reload.\<close>

definition activateRelease ::
  "DeployEnv \<Rightarrow> 'w GenerationDeployOpts \<Rightarrow> DeploymentReport \<Rightarrow> GenerationID option \<Rightarrow> OutDir \<Rightarrow> DeployResult \<times> OutDir" where
  "activateRelease env opts report previous dir =
     (case writeDeploymentCurrent env DpSwitch (gdo_Generation opts) dir of
        (Some e, switched) \<Rightarrow> (deployFail env report e, switched)
      | (None, switched) \<Rightarrow>
          (case (case gdo_Verify opts of None \<Rightarrow> None | Some verify \<Rightarrow> verify switched) of
             Some msg \<Rightarrow>
               (let failed = deploymentFailure env report (DeployVerifyFailed msg) False
                in case restoreDeploymentCurrent env previous switched of
                     (Some e, restored) \<Rightarrow> ((failed, Some (DeployRollbackFailed msg e)), restored)
                   | (None, restored) \<Rightarrow> ((failed, Some (DeployVerifyFailed msg)), restored))
           | None \<Rightarrow>
               let verified = report\<lparr>dr_Verified := True\<rparr>
               in (case (case gdo_Reload opts of None \<Rightarrow> None | Some reload \<Rightarrow> reload switched) of
                     Some msg \<Rightarrow>
                       ((deploymentFailure env verified (DeployReloadFailed msg) True, Some (DeployReloadFailed msg)), switched)
                   | None \<Rightarrow>
                       ((verified\<lparr>dr_Reloaded := True, dr_State := DeploymentStateSucceeded, dr_Success := True,
                                  dr_Message := MsgDeployed\<rparr>, None), switched))))"

text \<open>From the filled staging directory on: check the certificate, publish, activate.\<close>

definition publishStaged ::
  "DeployEnv \<Rightarrow> 'w GenerationDeployOpts \<Rightarrow> DeploymentReport \<Rightarrow> GenerationID option \<Rightarrow> (string \<times> FileNode) list
     \<Rightarrow> OutDir \<Rightarrow> DeployResult \<times> OutDir" where
  "publishStaged env opts report previous staging dir =
     (let generation = gdo_Generation opts; giveUp = dropStaging env generation staging dir
      in case validateStagedCertificate env staging (gdo_Domain opts) (gdo_SAN opts) (de_Now env) of
        Some problem \<Rightarrow> (deployFail env report (DeployBadCertificate problem), giveUp)
      | None \<Rightarrow>
          if de_Io env DpLstatRelease then (deployFail env report (DeployIOFailed DpLstatRelease), giveUp)
          else if map_of (entriesOf (od_Releases dir)) generation \<noteq> None
          then (deployFail env report DeployReleaseExists, giveUp)
          else if de_Io env DpPublish then (deployFail env report (DeployIOFailed DpPublish), giveUp)
          else let released = addOutRelease generation staging dir
               in if de_Io env DpReleaseMode then (deployFail env report (DeployIOFailed DpReleaseMode), released)
                  else if de_Io env DpSyncReleases then (deployFail env report (DeployIOFailed DpSyncReleases), released)
                  else activateRelease env opts report previous released)"

text \<open>The deployment of a generation that is not the current one: check the manifest, stage the files, publish.\<close>

definition deployStaged ::
  "DeployEnv \<Rightarrow> 'w GenerationDeployOpts \<Rightarrow> DeploymentReport \<Rightarrow> GenerationID option \<Rightarrow> OutDir \<Rightarrow> 'w
     \<Rightarrow> (DeployResult \<times> OutDir) \<times> 'w" where
  "deployStaged env opts report previous dir w =
     (case gdo_Fetch opts of
        None \<Rightarrow> ((deployFail env report DeployNoFetch, dir), w)
      | Some fetch \<Rightarrow>
          (case validateDeploymentManifest (gdo_Manifest opts) of
             Some e \<Rightarrow> ((deployFail env report e, dir), w)
           | None \<Rightarrow>
               if de_Io env DpTempDir then ((deployFail env report (DeployIOFailed DpTempDir), dir), w)
               else if de_Io env DpTempMode
               then ((deployFail env report (DeployIOFailed DpTempMode), dropStaging env (gdo_Generation opts) [] dir), w)
               else (case stageFiles env fetch (gdo_Manifest opts) fixedFileNames [] w of
                       ((Some e, staging), w') \<Rightarrow>
                         ((deployFail env report e, dropStaging env (gdo_Generation opts) staging dir), w')
                     | ((None, staging), w') \<Rightarrow> (publishStaged env opts report previous staging dir, w'))))"

text \<open>The part under the lock, the directories being in place.\<close>

definition deployLocked ::
  "DeployEnv \<Rightarrow> 'w GenerationDeployOpts \<Rightarrow> DeploymentReport \<Rightarrow> OutDir \<Rightarrow> 'w \<Rightarrow> (DeployResult \<times> OutDir) \<times> 'w" where
  "deployLocked env opts report dir w =
     (case readDeploymentCurrent (de_Io env) dir of
        Inl e \<Rightarrow> ((deployFail env report e, dir), w)
      | Inr previous \<Rightarrow>
          (case (case previous of None \<Rightarrow> None | Some g \<Rightarrow> assertSafeRelease env dir g) of
             Some e \<Rightarrow> ((deployFail env report e, dir), w)
           | None \<Rightarrow>
               if previous = Some (gdo_Generation opts) then
                 (((report\<lparr>dr_State := DeploymentStateSkipped, dr_Success := True, dr_Verified := True,
                           dr_Reloaded := True, dr_Message := MsgAlreadyCurrent\<rparr>, None), dir), w)
               else deployStaged env opts report previous dir w))"

definition DeployGeneration ::
  "DeployEnv \<Rightarrow> 'w GenerationDeployOpts \<Rightarrow> OutDir DirNode \<Rightarrow> 'w \<Rightarrow> (DeployResult \<times> OutDir DirNode) \<times> 'w" where
  "DeployGeneration env opts out w =
     (let report = deployingReport (gdo_Generation opts)
      in if ValidateGenerationID (gdo_Generation opts) \<noteq> None
         then ((deployFail env report DeployBadGeneration, out), w)
         else if gdo_Domain opts = [] then ((deployFail env report DeployNoDomain, out), w)
         else if gdo_OutDir opts = [] then ((deployFail env report DeployNoOutDir, out), w)
         else case ensureSecureDirectory (de_Io env DpMakeOut) DpMakeOut (de_Io env DpOutMode) DpOutMode emptyOutDir out of
           (Some e, out1) \<Rightarrow> ((deployFail env report e, out1), w)
         | (None, out1) \<Rightarrow>
             if de_Io env DpLock then ((deployFail env report (DeployIOFailed DpLock), out1), w)
             else (case out1 of
               DirAt dir \<Rightarrow>
                 (case ensureSecureDirectory (de_Io env DpMakeReleases) DpMakeReleases (de_Io env DpReleasesMode)
                         DpReleasesMode [] (od_Releases dir) of
                    (Some e, releases) \<Rightarrow> ((deployFail env report e, DirAt (dir\<lparr>od_Releases := releases\<rparr>)), w)
                  | (None, releases) \<Rightarrow>
                      (let ((result, dir'), w') = deployLocked env opts report (dir\<lparr>od_Releases := releases\<rparr>) w
                       in ((result, DirAt dir'), w')))
             | _ \<Rightarrow> ((deployFail env report DeployNotDirectory, out1), w)))"

end
