(* ===== verification/ApiV2.thy ===== *)
theory ApiV2
  imports ServiceV2 Auth UrlPath
begin

text \<open>
  The v2 HTTP interface (\<^verbatim>\<open>internal/api/v2.go\<close> and the middleware of \<^verbatim>\<open>internal/api/server.go\<close>):
  routing, authentication, decoding of the request body, the call of the service and the answer.

  The JSON text of a body is represented by the value that was encoded: a body written from a Go
  struct is read back by the decoder of the same type, and an encoder that fails leaves the body
  empty, because \<^verbatim>\<open>writeJSON\<close> sends the status line first.  The one body the server builds by hand
  from a map, the capabilities, is a JSON value, and its strict decoder is modelled field by field.
  Texts that only people read are short names.
\<close>

section \<open>JSON of the capabilities\<close>

datatype JsonValue =
    JsonNull | JsonBool bool | JsonText string | JsonObject "(string \<times> JsonValue) list"
  | JsonNumber int | JsonArray "JsonValue list" | JsonTime int

text \<open>A number is a whole number.  A time is its RFC 3339 text, represented by its Unix seconds.\<close>

text \<open>
  Decoding into a struct field: \<^verbatim>\<open>null\<close> leaves it alone, another type is an error.  Keys match
  without regard to case.
\<close>

definition intoText :: "(string \<Rightarrow> 'a) \<Rightarrow> 'a \<Rightarrow> JsonValue \<Rightarrow> 'a option" where
  "intoText f old v = (case v of JsonText s \<Rightarrow> Some (f s) | JsonNull \<Rightarrow> Some old | _ \<Rightarrow> None)"

definition intoBool :: "(bool \<Rightarrow> 'a) \<Rightarrow> 'a \<Rightarrow> JsonValue \<Rightarrow> 'a option" where
  "intoBool f old v = (case v of JsonBool b \<Rightarrow> Some (f b) | JsonNull \<Rightarrow> Some old | _ \<Rightarrow> None)"

definition urlField :: "string \<Rightarrow> JsonValue \<Rightarrow> CapabilitiesURLs \<Rightarrow> CapabilitiesURLs option" where
  "urlField key v u =
     (let k = toLowerASCII key
      in if k = ''capabilities'' then intoText (\<lambda>s. u\<lparr>cu_Capabilities := s\<rparr>) u v
         else if k = ''jobs'' then intoText (\<lambda>s. u\<lparr>cu_Jobs := s\<rparr>) u v
         else if k = ''reconcile'' then intoText (\<lambda>s. u\<lparr>cu_Reconcile := s\<rparr>) u v
         else if k = ''status'' then intoText (\<lambda>s. u\<lparr>cu_Status := s\<rparr>) u v
         else if k = ''manifest'' then intoText (\<lambda>s. u\<lparr>cu_Manifest := s\<rparr>) u v
         else if k = ''files'' then intoText (\<lambda>s. u\<lparr>cu_Files := s\<rparr>) u v
         else if k = ''deployments'' then intoText (\<lambda>s. u\<lparr>cu_Deployments := s\<rparr>) u v
         else None)"

fun urlFields :: "(string \<times> JsonValue) list \<Rightarrow> CapabilitiesURLs \<Rightarrow> CapabilitiesURLs option" where
  "urlFields [] u = Some u"
| "urlFields ((k, v) # rest) u = (case urlField k v u of None \<Rightarrow> None | Some u' \<Rightarrow> urlFields rest u')"

definition capabilityField :: "string \<Rightarrow> JsonValue \<Rightarrow> Capabilities \<Rightarrow> Capabilities option" where
  "capabilityField key v c =
     (let k = toLowerASCII key
      in if k = ''api_version'' then intoText (\<lambda>s. c\<lparr>cap_APIVersion := s\<rparr>) c v
         else if k = ''async_jobs'' then intoBool (\<lambda>b. c\<lparr>cap_AsyncJobs := b\<rparr>) c v
         else if k = ''job_polling'' then intoBool (\<lambda>b. c\<lparr>cap_JobPolling := b\<rparr>) c v
         else if k = ''terminal_job_reuse'' then intoBool (\<lambda>b. c\<lparr>cap_TerminalJobReuse := b\<rparr>) c v
         else if k = ''force_requires_new_idempotency_key''
         then intoBool (\<lambda>b. c\<lparr>cap_ForceRequiresNewIdempotencyKey := b\<rparr>) c v
         else if k = ''urls''
         then (case v of
                 JsonObject members \<Rightarrow> map_option (\<lambda>u. c\<lparr>cap_URLs := u\<rparr>) (urlFields members (cap_URLs c))
               | JsonNull \<Rightarrow> Some c | _ \<Rightarrow> None)
         else None)"

fun capabilityFields :: "(string \<times> JsonValue) list \<Rightarrow> Capabilities \<Rightarrow> Capabilities option" where
  "capabilityFields [] c = Some c"
| "capabilityFields ((k, v) # rest) c =
     (case capabilityField k v c of None \<Rightarrow> None | Some c' \<Rightarrow> capabilityFields rest c')"

definition noURLs :: CapabilitiesURLs where
  "noURLs = \<lparr>cu_Capabilities = [], cu_Jobs = [], cu_Reconcile = [], cu_Status = [], cu_Manifest = [],
             cu_Files = [], cu_Deployments = []\<rparr>"

definition noCapabilities :: Capabilities where
  "noCapabilities = \<lparr>cap_APIVersion = [], cap_AsyncJobs = False, cap_JobPolling = False,
     cap_TerminalJobReuse = False, cap_ForceRequiresNewIdempotencyKey = False, cap_URLs = noURLs\<rparr>"

text \<open>The decoder with \<^verbatim>\<open>DisallowUnknownFields\<close>.\<close>

definition decodeCapabilities :: "JsonValue \<Rightarrow> Capabilities option" where
  "decodeCapabilities v =
     (case v of JsonObject members \<Rightarrow> capabilityFields members noCapabilities | JsonNull \<Rightarrow> Some noCapabilities | _ \<Rightarrow> None)"

definition encodeURLs :: "CapabilitiesURLs \<Rightarrow> JsonValue" where
  "encodeURLs u = JsonObject
     [(''capabilities'', JsonText (cu_Capabilities u)), (''jobs'', JsonText (cu_Jobs u)),
      (''reconcile'', JsonText (cu_Reconcile u)), (''status'', JsonText (cu_Status u)),
      (''manifest'', JsonText (cu_Manifest u)), (''files'', JsonText (cu_Files u)),
      (''deployments'', JsonText (cu_Deployments u))]"

definition Capabilities_MarshalJSON :: "Capabilities \<Rightarrow> ErrorCode + JsonValue" where
  "Capabilities_MarshalJSON c = guardR (Capabilities_Validate c) (Inr (JsonObject
     [(''api_version'', JsonText (cap_APIVersion c)), (''async_jobs'', JsonBool (cap_AsyncJobs c)),
      (''job_polling'', JsonBool (cap_JobPolling c)), (''terminal_job_reuse'', JsonBool (cap_TerminalJobReuse c)),
      (''force_requires_new_idempotency_key'', JsonBool (cap_ForceRequiresNewIdempotencyKey c)),
      (''urls'', encodeURLs (cap_URLs c))]))"

section \<open>Answers\<close>

text \<open>The synchronous answer \<open>ReconcileBody\<close> belongs to the protocol; this server never sends it.\<close>

datatype WireBody =
    NoBody | RawBytes string | JsonBody JsonValue | AcceptedBody JobAcceptedResponse | JobBody JobStatus
  | StatusBody CertificateStatus | ManifestBody CertificateManifest | ProtocolErrorBody ErrorResponse
  | ReconcileBody ReconcileResponse

record HttpResponse =
  hr_Status :: nat
  hr_Location :: string
  hr_RetryAfter :: string
  hr_Body :: WireBody

text \<open>\<open>None\<close> is an encoder that failed: the status is sent and the body stays empty.\<close>

definition writeJSON :: "nat \<Rightarrow> WireBody option \<Rightarrow> HttpResponse" where
  "writeJSON code body =
     \<lparr>hr_Status = code, hr_Location = [], hr_RetryAfter = [],
      hr_Body = (case body of None \<Rightarrow> NoBody | Some b \<Rightarrow> b)\<rparr>"

definition errorBody :: "string \<Rightarrow> WireBody" where
  "errorBody msg = JsonBody (JsonObject [(''error'', JsonText msg)])"

definition writeV2Answer :: "V2Error \<Rightarrow> HttpResponse" where
  "writeV2Answer e =
     (let (code, body) = writeV2Error e
      in writeJSON code (Some (case body of ProtocolBody r \<Rightarrow> ProtocolErrorBody r | TextBody msg \<Rightarrow> errorBody msg)))"

text \<open>What the encoder makes of each body.\<close>

definition encodeJob :: "JobStatus \<Rightarrow> WireBody option" where
  "encodeJob j = (case JobStatus_MarshalJSON j of Inl _ \<Rightarrow> None | Inr c \<Rightarrow> Some (JobBody c))"

definition encodeAccepted :: "JobAcceptedResponse \<Rightarrow> WireBody option" where
  "encodeAccepted r =
     (case JobStatus_MarshalJSON (ja_Job r) of Inl _ \<Rightarrow> None | Inr c \<Rightarrow> Some (AcceptedBody (r\<lparr>ja_Job := c\<rparr>)))"

definition encodeManifest :: "CertificateManifest \<Rightarrow> WireBody option" where
  "encodeManifest m = (if CertificateManifest_Validate m = None then Some (ManifestBody m) else None)"

definition encodeStatus :: "CertificateStatus \<Rightarrow> WireBody option" where
  "encodeStatus st =
     (if (st_Generation st \<noteq> [] \<and> ValidateGenerationID (st_Generation st) \<noteq> None)
         \<or> CertificateManifest_Validate (st_Files st) \<noteq> None
      then None else Some (StatusBody st))"

section \<open>Requests\<close>

text \<open>
  A request body, as the decoders see it: what the JSON decoder reads as a reconcile request or as
  a deployment report, and what follows it.
\<close>

record WireRequest =
  wr_Http :: Request
  wr_Reconcile :: "ReconcileRequest option \<times> trailing"
  wr_Report :: "DeploymentReport option \<times> trailing"

text \<open>What one request takes from outside: the time, the random bytes, the connection's last row.\<close>

record Surroundings =
  sr_Now :: int
  sr_Random :: "string option"
  sr_LastRow :: int

record V2Server =
  sv_Env :: V2Env
  sv_Auth :: AuthConfig
  sv_Mac :: "string \<Rightarrow> string \<Rightarrow> string"
  sv_Sha :: "string \<Rightarrow> string"
  sv_Secret :: "string \<Rightarrow> string \<Rightarrow> string option"
  sv_Mime :: "string \<Rightarrow> string option"
  sv_LegacyAPIEnabled :: bool
  sv_TLSMode :: string

definition emptyReconcile :: ReconcileRequest where
  "emptyReconcile = \<lparr>rr_IdempotencyKey = [], rr_Force = False, rr_Operation = [], rr_Reason = []\<rparr>"

definition emptyReport :: DeploymentReport where
  "emptyReport = \<lparr>dr_Domain = [], dr_Target = [], dr_State = [], dr_Success = False, dr_Generation = [],
     dr_Revision = 0, dr_Verified = False, dr_Reloaded = False, dr_Message = [], dr_Error = None,
     dr_StartedAt = None, dr_FinishedAt = None\<rparr>"

section \<open>Handlers\<close>

definition capabilitiesBody :: "bool \<Rightarrow> string \<Rightarrow> JsonValue" where
  "capabilitiesBody legacy tlsMode =
     (let caps = DefaultCapabilities
      in JsonObject
        [(''api_version'', JsonText (cap_APIVersion caps)), (''async_jobs'', JsonBool (cap_AsyncJobs caps)),
         (''dns_api'', JsonBool True), (''job_polling'', JsonBool (cap_JobPolling caps)),
         (''legacy_enabled'', JsonBool legacy), (''tls_mode'', JsonText tlsMode),
         (''urls'', encodeURLs (cap_URLs caps))])"

definition capabilitiesHandler :: "V2Server \<Rightarrow> HttpResponse" where
  "capabilitiesHandler sv =
     writeJSON 200 (Some (JsonBody (capabilitiesBody (sv_LegacyAPIEnabled sv) (sv_TLSMode sv))))"

definition badRequest :: HttpResponse where
  "badRequest = writeJSON 400 (Some (ProtocolErrorBody
     \<lparr>er_Code = ErrorCodeInvalidRequest, er_Message = ''body'', er_Retryable = False, er_Details = []\<rparr>))"

text \<open>The first value is decoded strictly; whatever follows it is an error too.\<close>

definition v2Reconcile ::
  "V2Server \<Rightarrow> Surroundings \<Rightarrow> Token \<Rightarrow> ReconcileRequest option \<times> trailing \<Rightarrow> string \<Rightarrow> V2State \<Rightarrow> HttpResponse \<times> V2State" where
  "v2Reconcile sv sr t body domain s =
     (case ReconcileRequest_UnmarshalJSON emptyReconcile (fst body, TrailEOF) of
        (Some _, _) \<Rightarrow> (badRequest, s)
      | (None, req) \<Rightarrow>
          if snd body \<noteq> TrailEOF then (badRequest, s)
          else (case ReconcileV2 (sv_Env sv) (sr_Now sr) (sr_Random sr)
                  \<lparr>vq_TokenID = to_ID t, vq_IsAdmin = to_IsAdmin t, vq_Domain = domain,
                   vq_Operation = rr_Operation req, vq_Reason = rr_Reason req,
                   vq_IdempotencyKey = rr_IdempotencyKey req, vq_Force = rr_Force req\<rparr> s of
               (Inl e, s') \<Rightarrow> (writeV2Answer e, s')
             | (Inr resp, s') \<Rightarrow>
                 let path = (case JobURLPath (js_ID (rc_Job resp)) of Inl _ \<Rightarrow> [] | Inr p \<Rightarrow> p);
                     accepted = \<lparr>ja_Job = rc_Job resp, ja_Location = path, ja_Reused = False\<rparr>
                 in ((writeJSON 202 (encodeAccepted accepted))\<lparr>hr_Location := path, hr_RetryAfter := ''5''\<rparr>, s')))"

definition v2Status :: "V2Server \<Rightarrow> Surroundings \<Rightarrow> Token \<Rightarrow> string \<Rightarrow> V2State \<Rightarrow> HttpResponse" where
  "v2Status sv sr t domain s =
     (case StatusV2 (sv_Env sv) (sr_Now sr) (to_ID t) domain s of
        Inl e \<Rightarrow> writeV2Answer e
      | Inr status \<Rightarrow> writeJSON 200 (encodeStatus status))"

definition v2Manifest :: "V2Server \<Rightarrow> Token \<Rightarrow> string \<Rightarrow> string \<Rightarrow> V2State \<Rightarrow> HttpResponse \<times> V2State" where
  "v2Manifest sv t domain generation s =
     (case ManifestV2 (sv_Env sv) (to_ID t) domain generation s of
        (Inl e, s') \<Rightarrow> (writeV2Answer e, s')
      | (Inr manifest, s') \<Rightarrow> (writeJSON 200 (encodeManifest manifest), s'))"

definition v2CertFile :: "V2Server \<Rightarrow> Token \<Rightarrow> string \<Rightarrow> string \<Rightarrow> string \<Rightarrow> V2State \<Rightarrow> HttpResponse \<times> V2State" where
  "v2CertFile sv t domain generation name s =
     (if ValidateFileName name \<noteq> None then (writeJSON 400 (Some (errorBody ''file'')), s)
      else case ReadGenerationFileV2 (sv_Env sv) (to_ID t) domain generation name s of
        (Inl e, s') \<Rightarrow> (writeV2Answer e, s')
      | (Inr data, s') \<Rightarrow> (writeJSON 200 (Some (RawBytes data)), s'))"

text \<open>
  The check of the report returns its error as a value, which \<^verbatim>\<open>errors.As\<close> with a pointer target does
  not find: it is neither a protocol nor a validation nor a permission error for \<^verbatim>\<open>writeV2Error\<close>.
\<close>

definition v2Deployments ::
  "V2Server \<Rightarrow> Surroundings \<Rightarrow> Token \<Rightarrow> bool \<Rightarrow> DeploymentReport option \<times> trailing \<Rightarrow> string \<Rightarrow> V2State
     \<Rightarrow> HttpResponse \<times> V2State" where
  "v2Deployments sv sr t emptyBody body domain s =
     (case (if emptyBody then (None, emptyReport) else DeploymentReport_UnmarshalJSON emptyReport body) of
        (Some _, _) \<Rightarrow> (writeJSON 400 (Some (errorBody ''body'')), s)
      | (None, report) \<Rightarrow>
          (case ValidateForDomain report domain of
             Some code \<Rightarrow> (writeV2Answer (plainV2 (errorsNew code)), s)
           | None \<Rightarrow>
               (case ReportDeploymentV2 (sv_Env sv) (sr_Now sr) (sr_LastRow sr) (to_ID t) domain report s of
                  (Some e, s') \<Rightarrow> (writeV2Answer e, s')
                | (None, s') \<Rightarrow> (writeJSON 200 (Some (JsonBody (JsonObject [(''ok'', JsonBool True)]))), s'))))"

definition v2Job :: "V2Server \<Rightarrow> Token \<Rightarrow> string \<Rightarrow> V2State \<Rightarrow> HttpResponse" where
  "v2Job sv t jobID s =
     (case GetJobV2 (sv_Env sv) (to_ID t) jobID s of
        Inl e \<Rightarrow> writeV2Answer e
      | Inr status \<Rightarrow> writeJSON 200 (encodeJob status))"

definition notFound :: HttpResponse where
  "notFound = writeJSON 404 (Some (errorBody ''not found''))"

definition v2CertsHandler ::
  "V2Server \<Rightarrow> Surroundings \<Rightarrow> Token \<Rightarrow> WireRequest \<Rightarrow> V2State \<Rightarrow> HttpResponse \<times> V2State" where
  "v2CertsHandler sv sr t r s =
     (case parseV2CertPath (routeParts (rq_Path (wr_Http r)) v2CertsPrefix) of
        None \<Rightarrow> (notFound, s)
      | Some op \<Rightarrow>
          if op_name op = ''reconcile'' then v2Reconcile sv sr t (wr_Reconcile r) (op_domain op) s
          else if op_name op = ''status'' then (v2Status sv sr t (op_domain op) s, s)
          else if op_name op = ''deployments''
          then v2Deployments sv sr t (readRequestBody (wr_Http r) = Inr []) (wr_Report r) (op_domain op) s
          else if op_name op = ''manifest'' then v2Manifest sv t (op_domain op) (op_generation op) s
          else v2CertFile sv t (op_domain op) (op_generation op) (op_fileName op) s)"

definition v2JobsHandler :: "V2Server \<Rightarrow> Token \<Rightarrow> WireRequest \<Rightarrow> V2State \<Rightarrow> HttpResponse" where
  "v2JobsHandler sv t r s =
     (let parts = routeParts (rq_Path (wr_Http r)) v2JobsPrefix
      in if length parts \<noteq> 1 \<or> parts ! 0 = [] then notFound else v2Job sv t (parts ! 0) s)"

section \<open>The server\<close>

text \<open>
  \<^verbatim>\<open>authed\<close> over the service's state: the token check changes the database only.  Here and in the v1
  interface one reading of the clock stands for all readings of a request.
\<close>

definition authedV2 ::
  "V2Server \<Rightarrow> int \<Rightarrow> Request \<Rightarrow> (Token \<Rightarrow> V2State \<Rightarrow> HttpResponse \<times> V2State) \<Rightarrow> V2State \<Rightarrow> HttpResponse \<times> V2State" where
  "authedV2 sv now r h s =
     (case verifyToken (sv_Mac sv) (sv_Sha sv) (sv_Secret sv) (sv_Mime sv) (sv_Auth sv) (atOnce now) r (vs_Db s) of
        (Inl e, db) \<Rightarrow> (writeJSON (writeRequestError e) (Some (errorBody ''auth'')), s\<lparr>vs_Db := db\<rparr>)
      | (Inr t, db) \<Rightarrow> h t (s\<lparr>vs_Db := db\<rparr>))"

text \<open>
  \<^verbatim>\<open>http.ServeMux\<close> redirects a path that is not clean; a clean one goes to the longest registered
  pattern.
\<close>

definition cleanPath :: "string \<Rightarrow> bool" where
  "cleanPath path =
     (case splitOn (CHR ''/'') path of
        [] \<Rightarrow> False
      | first # segments \<Rightarrow> first = [] \<and> segments \<noteq> [] \<and> list_all (\<lambda>w. w \<noteq> []) (butlast segments)
          \<and> list_all (\<lambda>w. w \<noteq> ''.'' \<and> w \<noteq> ''..'') segments)"

definition under :: "string \<Rightarrow> string \<Rightarrow> bool" where
  "under path pre \<longleftrightarrow> path = pre \<or> hasPrefix path (pre @ ''/'')"

definition answerRouted :: "(HttpResponse \<times> V2State) routed \<Rightarrow> V2State \<Rightarrow> HttpResponse \<times> V2State" where
  "answerRouted r s =
     (case r of
        NotFound404 \<Rightarrow> (notFound, s)
      | MethodNotAllowed405 _ \<Rightarrow> (writeJSON 405 (Some (errorBody ''method not allowed'')), s)
      | Handled x \<Rightarrow> x)"

definition serveV2 :: "V2Server \<Rightarrow> Surroundings \<Rightarrow> WireRequest \<Rightarrow> V2State \<Rightarrow> HttpResponse \<times> V2State" where
  "serveV2 sv sr r s =
     (let http = wr_Http r; path = rq_Path http; method = rq_Method http; now = unixSec (sr_Now sr)
      in if \<not> cleanPath path then (writeJSON 301 None, s)
         else if under path v2CertsPrefix
         then answerRouted (routeMethodHandler v2CertMethods method path
                (authedV2 sv now http (\<lambda>t. v2CertsHandler sv sr t r) s)) s
         else if under path v2JobsPrefix
         then answerRouted (routeMethodHandler v2JobMethods method path
                (authedV2 sv now http (\<lambda>t st. (v2JobsHandler sv t r st, st)) s)) s
         else if path = V2APIPath @ ''/capabilities''
         then answerRouted (methodHandler [''GET''] method (capabilitiesHandler sv, s)) s
         else (notFound, s))"

end
