(* ===== verification/ClientApply.thy ===== *)
theory ClientApply
  imports ClientDeploy ApiV2 "HOL-Library.Signed_Division"
begin

text \<open>
  The client's v2 flow: signed requests with retries (\<^verbatim>\<open>internal/client/client.go\<close>), the reconcile
  request, polling of the job, download, deployment and report (\<^verbatim>\<open>internal/client/v2.go\<close>), and the
  state file (\<^verbatim>\<open>internal/client/state.go\<close>).  The network with the server behind it, and the passing of
  time, are the client's surroundings \<^typ>\<open>'w\<close>: one function performs an attempt of a request, another
  waits.  Signing an attempt is \<^verbatim>\<open>ClientAuth\<close>.  Logging is left out.
\<close>

section \<open>Errors and surroundings\<close>

datatype ClientErr =
    ClNoDomain | ClNoOutDir | ClNoKey | ClBadServer | ClTransport string | ClCancelled string | ClPath ErrorCode
  | ClStatus nat | ClUndecodable | ClInvalidAnswer ErrorCode | ClReconcileFailed string | ClJobEnded JobState string
  | ClPollTimeout | ClNoGeneration | ClNoManifest | ClStateUnreadable | ClStateUnsaved | ClDeployFailed DeployErr
  | ClBadFile ErrorCode | ClNoSuchFile | ClSizeMismatch | ClHashMismatch | ClOutputSymlink | ClOutputFailed

text \<open>
  A request body: none, the reconcile map (the fields of a \<^verbatim>\<open>ReconcileRequest\<close>), a report, an empty
  map, the JSON objects of the v1 requests.  A report that its encoder rejects is sent as an empty body.
\<close>

datatype ClientBody = NoRequestBody | ReconcileMap ReconcileRequest | ReportPayload DeploymentReport | EmptyMap
  | JsonPayload JsonValue

text \<open>
  One attempt: the request could not be made, was not answered, was answered with a body that could
  not be read, or was answered.
\<close>

datatype Exchange = NotSent string | SendFailed string | BodyUnread string | Answered HttpResponse

text \<open>\<open>tp_Text\<close> is the JSON text of a body.\<close>

record 'w Transport =
  tp_Do :: "string \<Rightarrow> string \<Rightarrow> ClientBody \<Rightarrow> 'w \<Rightarrow> Exchange \<times> 'w"
  tp_Sleep :: "int \<Rightarrow> 'w \<Rightarrow> string option \<times> 'w"
  tp_Text :: "WireBody \<Rightarrow> string"

text \<open>\<open>cs_URL\<close> is what \<^verbatim>\<open>url.Parse\<close> makes of the server address: scheme and host.\<close>

record ClientSettings =
  cs_URL :: "(string \<times> string) option"
  cs_Development :: bool
  cs_InsecureHTTP :: bool
  cs_RetryMin :: "64 word"
  cs_RetryMax :: "64 word"

definition ValidateServer :: "ClientSettings \<Rightarrow> ClientErr option" where
  "ValidateServer c =
     (case cs_URL c of
        None \<Rightarrow> Some ClBadServer
      | Some (scheme, host) \<Rightarrow>
          if host = [] then Some ClBadServer
          else failIf (scheme \<noteq> ''https'' \<and> \<not> (scheme = ''http'' \<and> (cs_Development c \<or> cs_InsecureHTTP c))) ClBadServer)"

section \<open>Requests with retries\<close>

text \<open>Durations are 64-bit nanoseconds; the arithmetic wraps.\<close>

definition second :: "64 word" where "second = 1000000000"

definition backoffDelay :: "64 word \<Rightarrow> 64 word \<Rightarrow> nat \<Rightarrow> 64 word" where
  "backoffDelay mn mx attempt =
     (let shifted = push_bit attempt mn;
          delay = (if sint shifted > sint mx then mx else shifted)
      in delay + word_of_int (sint (of_nat ((attempt * 37) mod 100) * delay) sdiv 1000))"

text \<open>\<^verbatim>\<open>strconv.Atoi\<close>.\<close>

definition atoi :: "string \<Rightarrow> int option" where
  "atoi s =
     (let (neg, digits) = (case s of c # r \<Rightarrow> if c = CHR ''-'' then (True, r) else if c = CHR ''+'' then (False, r) else (False, s)
                           | [] \<Rightarrow> (False, []));
          n = (if neg then - int (decValue digits) else int (decValue digits))
      in if digits = [] \<or> \<not> list_all isDigit digits \<or> n < - (2 ^ 63) \<or> n \<ge> 2 ^ 63 then None else Some n)"

definition secondsOf :: "int \<Rightarrow> 64 word" where
  "secondsOf n = word_of_int n * second"

abbreviation maxRespBodySize :: nat where "maxRespBodySize \<equiv> 10485760"

definition bodyBytesOf :: "'w Transport \<Rightarrow> WireBody \<Rightarrow> string" where
  "bodyBytesOf tp b = (case b of RawBytes d \<Rightarrow> d | NoBody \<Rightarrow> [] | _ \<Rightarrow> tp_Text tp b)"

definition bodyTooLarge :: "'w Transport \<Rightarrow> WireBody \<Rightarrow> bool" where
  "bodyTooLarge tp b \<longleftrightarrow> length (bodyBytesOf tp b) > maxRespBodySize"

definition retryDelay :: "64 word \<Rightarrow> 64 word \<Rightarrow> nat \<Rightarrow> string \<Rightarrow> 64 word" where
  "retryDelay mn mx attempt retryAfter =
     (case atoi retryAfter of
        Some v \<Rightarrow> if v \<ge> 0 then secondsOf v else backoffDelay mn mx attempt
      | None \<Rightarrow> backoffDelay mn mx attempt)"

text \<open>\<open>left\<close> is the number of further attempts: \<^verbatim>\<open>attempt\<close> is \<open>5 - left\<close>.\<close>

fun doRequestLoop ::
  "'w Transport \<Rightarrow> 64 word \<Rightarrow> 64 word \<Rightarrow> string \<Rightarrow> string \<Rightarrow> ClientBody \<Rightarrow> nat \<Rightarrow> 'w \<Rightarrow> (ClientErr + HttpResponse) \<times> 'w" where
  "doRequestLoop tp mn mx method path body left w =
     (case tp_Do tp method path body w of
        (NotSent msg, w1) \<Rightarrow> (Inl (ClTransport msg), w1)
      | (SendFailed msg, w1) \<Rightarrow>
          (case left of
             0 \<Rightarrow> (Inl (ClTransport msg), w1)
           | Suc n \<Rightarrow>
               (case tp_Sleep tp (sint (backoffDelay mn mx (5 - left))) w1 of
                  (Some e, w2) \<Rightarrow> (Inl (ClCancelled e), w2)
                | (None, w2) \<Rightarrow> doRequestLoop tp mn mx method path body n w2))
      | (BodyUnread msg, w1) \<Rightarrow>
          (case left of
             0 \<Rightarrow> (Inl (ClTransport msg), w1)
           | Suc n \<Rightarrow> doRequestLoop tp mn mx method path body n w1)
      | (Answered r, w1) \<Rightarrow>
          (if bodyTooLarge tp (hr_Body r)
           then (case left of
                   0 \<Rightarrow> (Inl (ClTransport ''too large''), w1)
                 | Suc n \<Rightarrow> doRequestLoop tp mn mx method path body n w1)
           else if hr_Status r = 429 \<or> hr_Status r \<ge> 500
           then (case left of
                   0 \<Rightarrow> (Inr r, w1)
                 | Suc n \<Rightarrow>
                     (case tp_Sleep tp (sint (retryDelay mn mx (5 - left) (hr_RetryAfter r))) w1 of
                        (Some e, w2) \<Rightarrow> (Inl (ClCancelled e), w2)
                      | (None, w2) \<Rightarrow> doRequestLoop tp mn mx method path body n w2))
           else (Inr r, w1)))"

declare doRequestLoop.simps [simp del]

definition retryBounds :: "ClientSettings \<Rightarrow> 64 word \<times> 64 word" where
  "retryBounds c =
     (if sint (cs_RetryMin c) \<le> 0 then 100000000 else cs_RetryMin c,
      if sint (cs_RetryMax c) \<le> 0 then 5000000000 else cs_RetryMax c)"

definition doRequestCtx ::
  "'w Transport \<Rightarrow> ClientSettings \<Rightarrow> string \<Rightarrow> string \<Rightarrow> ClientBody \<Rightarrow> 'w \<Rightarrow> (ClientErr + HttpResponse) \<times> 'w" where
  "doRequestCtx tp c method path body w =
     (case ValidateServer c of
        Some e \<Rightarrow> (Inl e, w)
      | None \<Rightarrow> (let (mn, mx) = retryBounds c in doRequestLoop tp mn mx method path body 5 w))"

section \<open>Reading answers\<close>

text \<open>A body of another kind fails to decode, or decodes to a value its check rejects.\<close>

definition decodeJob :: "JobStatus \<Rightarrow> WireBody \<Rightarrow> JobStatus option" where
  "decodeJob job b =
     (case b of
        JobBody j \<Rightarrow> (case JobStatus_UnmarshalJSON job (Some j, TrailEOF) of (None, j') \<Rightarrow> Some j' | _ \<Rightarrow> None)
      | _ \<Rightarrow> None)"

definition decodeAccepted :: "WireBody \<Rightarrow> JobAcceptedResponse option" where
  "decodeAccepted b =
     (case b of
        AcceptedBody a \<Rightarrow> map_option (\<lambda>j. a\<lparr>ja_Job := j\<rparr>) (decodeJob (ja_Job a) (JobBody (ja_Job a)))
      | _ \<Rightarrow> None)"

definition decodeManifest :: "WireBody \<Rightarrow> CertificateManifest option" where
  "decodeManifest b =
     (case b of ManifestBody m \<Rightarrow> if CertificateManifest_Validate m = None then Some m else None | _ \<Rightarrow> None)"

definition decodeStatus :: "WireBody \<Rightarrow> CertificateStatus option" where
  "decodeStatus b =
     (case b of
        StatusBody st \<Rightarrow>
          if (st_Generation st = [] \<or> ValidateGenerationID (st_Generation st) = None)
             \<and> CertificateManifest_Validate (st_Files st) = None then Some st else None
      | _ \<Rightarrow> None)"

definition decodeReconcile :: "WireBody \<Rightarrow> ReconcileResponse option" where
  "decodeReconcile b =
     (case b of
        ReconcileBody rr \<Rightarrow>
          if ValidateGenerationID (rc_Generation rr) = None \<and> decodeStatus (StatusBody (rc_Status rr)) \<noteq> None
             \<and> (case rc_Deployment rr of None \<Rightarrow> True | Some d \<Rightarrow> DeploymentReport_Validate d = None)
          then map_option (\<lambda>j. rr\<lparr>rc_Job := j\<rparr>) (decodeJob (rc_Job rr) (JobBody (rc_Job rr))) else None
      | _ \<Rightarrow> None)"

definition decodeCaps :: "WireBody \<Rightarrow> Capabilities option" where
  "decodeCaps b =
     (case b of
        JsonBody v \<Rightarrow>
          (case Capabilities_UnmarshalJSON noCapabilities (decodeCapabilities v, TrailEOF) of
             (None, c) \<Rightarrow> Some c | _ \<Rightarrow> None)
      | _ \<Rightarrow> None)"

text \<open>A request whose answer must have the status 200 and a body the decoder accepts.\<close>

definition getDecoded ::
  "'w Transport \<Rightarrow> ClientSettings \<Rightarrow> (WireBody \<Rightarrow> 'a option) \<Rightarrow> string \<Rightarrow> 'w \<Rightarrow> (ClientErr + 'a) \<times> 'w" where
  "getDecoded tp c decode path w =
     (case doRequestCtx tp c ''GET'' path NoRequestBody w of
        (Inl e, w1) \<Rightarrow> (Inl e, w1)
      | (Inr resp, w1) \<Rightarrow>
          (if hr_Status resp \<noteq> 200 then Inl (ClStatus (hr_Status resp))
           else case decode (hr_Body resp) of None \<Rightarrow> Inl ClUndecodable | Some v \<Rightarrow> Inr v, w1))"

definition ensureCapabilities :: "'w Transport \<Rightarrow> ClientSettings \<Rightarrow> 'w \<Rightarrow> ClientErr option \<times> 'w" where
  "ensureCapabilities tp c w =
     (case getDecoded tp c decodeCaps (V2APIPath @ ''/capabilities'') w of
        (Inl e, w1) \<Rightarrow> (Some e, w1) | (Inr _, w1) \<Rightarrow> (None, w1))"

definition certificateStatusV2 ::
  "'w Transport \<Rightarrow> ClientSettings \<Rightarrow> string \<Rightarrow> 'w \<Rightarrow> (ClientErr + CertificateStatus) \<times> 'w" where
  "certificateStatusV2 tp c domain w =
     (case CertificateStatusURLPath domain of
        Inl e \<Rightarrow> (Inl (ClPath e), w)
      | Inr path \<Rightarrow> getDecoded tp c decodeStatus path w)"

definition manifestV2 ::
  "'w Transport \<Rightarrow> ClientSettings \<Rightarrow> string \<Rightarrow> GenerationID \<Rightarrow> 'w \<Rightarrow> (ClientErr + CertificateManifest) \<times> 'w" where
  "manifestV2 tp c domain generation w =
     (case ManifestURLPath domain generation of
        Inl e \<Rightarrow> (Inl (ClPath e), w)
      | Inr path \<Rightarrow>
          (case getDecoded tp c decodeManifest path w of
             (Inl e, w1) \<Rightarrow> (Inl e, w1)
           | (Inr m, w1) \<Rightarrow> (if m = [] then Inl ClNoManifest else Inr m, w1)))"

definition fetchFile ::
  "'w Transport \<Rightarrow> ClientSettings \<Rightarrow> string \<Rightarrow> GenerationID \<Rightarrow> string \<Rightarrow> 'w \<Rightarrow> (ClientErr + string) \<times> 'w" where
  "fetchFile tp c domain generation fileName w =
     (case CertificateFileURLPath domain generation fileName of
        Inl e \<Rightarrow> (Inl (ClPath e), w)
      | Inr path \<Rightarrow>
          (case doRequestCtx tp c ''GET'' path NoRequestBody w of
             (Inl e, w1) \<Rightarrow> (Inl e, w1)
           | (Inr resp, w1) \<Rightarrow>
               (if hr_Status resp \<noteq> 200 then Inl (ClStatus (hr_Status resp)) else Inr (bodyBytesOf tp (hr_Body resp)), w1)))"

text \<open>\<open>text\<close> gives an error's text, which the deployer only passes on.\<close>

definition v2FileFetcher ::
  "'w Transport \<Rightarrow> ClientSettings \<Rightarrow> (ClientErr \<Rightarrow> string) \<Rightarrow> string \<Rightarrow> GenerationID \<Rightarrow> string \<Rightarrow> 'w \<Rightarrow> (string + string) \<times> 'w" where
  "v2FileFetcher tp c errText domain generation fileName w =
     (case fetchFile tp c domain generation fileName w of
        (Inl e, w1) \<Rightarrow> (Inl (errText e), w1) | (Inr data, w1) \<Rightarrow> (Inr data, w1))"

definition reportDeploymentV2 ::
  "'w Transport \<Rightarrow> ClientSettings \<Rightarrow> string \<Rightarrow> DeploymentReport \<Rightarrow> 'w \<Rightarrow> ClientErr option \<times> 'w" where
  "reportDeploymentV2 tp c domain report w =
     (case DeploymentsURLPath domain of
        Inl e \<Rightarrow> (Some (ClPath e), w)
      | Inr path \<Rightarrow>
          (case doRequestCtx tp c ''POST'' path (ReportPayload report) w of
             (Inl e, w1) \<Rightarrow> (Some e, w1)
           | (Inr resp, w1) \<Rightarrow> (failIf (hr_Status resp \<notin> {200, 202, 201}) (ClStatus (hr_Status resp)), w1)))"

definition Heartbeat :: "'w Transport \<Rightarrow> ClientSettings \<Rightarrow> 'w \<Rightarrow> ClientErr option \<times> 'w" where
  "Heartbeat tp c w =
     (case doRequestCtx tp c ''POST'' ''/api/v1/client/heartbeat'' EmptyMap w of
        (Inl e, w1) \<Rightarrow> (Some e, w1)
      | (Inr resp, w1) \<Rightarrow> (failIf (hr_Status resp \<noteq> 200) (ClStatus (hr_Status resp)), w1))"

section \<open>Polling\<close>

abbreviation maxPollAttempts :: nat where "maxPollAttempts \<equiv> 600"

definition nextPollDelay :: "string \<Rightarrow> 64 word \<Rightarrow> 64 word" where
  "nextPollDelay retryAfter delay =
     (let d0 = (case atoi retryAfter of Some v \<Rightarrow> if v > 0 then secondsOf v else delay * 2 | None \<Rightarrow> delay * 2);
          d1 = (if sint d0 < sint second then second else d0)
      in if sint d1 > sint (30 * second) then 30 * second else d1)"

definition emptyStatus :: CertificateStatus where
  "emptyStatus = \<lparr>st_Domain = [], st_Generation = [], st_Revision = 0, st_State = [], st_NotAfter = -62135596800,
     st_TimeLog = 0, st_Files = [], st_Exists = False\<rparr>"

definition finishedJob :: "JobStatus \<Rightarrow> ReconcileResponse" where
  "finishedJob job =
     \<lparr>rc_Success = True, rc_Domain = [], rc_Generation = js_Generation job, rc_Revision = js_Revision job,
      rc_Changed = False, rc_Job = job, rc_Status = emptyStatus, rc_Deployment = None, rc_Error = None, rc_Message = []\<rparr>"

text \<open>\<open>left\<close> is the number of polls that may follow: \<^verbatim>\<open>attempt\<close> is \<open>600 - left\<close>.\<close>

fun pollLoop ::
  "'w Transport \<Rightarrow> ClientSettings \<Rightarrow> string \<Rightarrow> JobStatus \<Rightarrow> 64 word \<Rightarrow> nat \<Rightarrow> 'w \<Rightarrow> (ClientErr + ReconcileResponse) \<times> 'w" where
  "pollLoop tp c location job delay left w =
     (if JobState_IsTerminal (js_State job)
      then (if js_State job \<noteq> JobStateSucceeded then Inl (ClJobEnded (js_State job) (js_Message job))
            else Inr (finishedJob job), w)
      else (case left of
          0 \<Rightarrow> (Inl ClPollTimeout, w)
        | Suc n \<Rightarrow>
            (case tp_Sleep tp (sint delay) w of
               (Some e, w1) \<Rightarrow> (Inl (ClCancelled e), w1)
             | (None, w1) \<Rightarrow>
                 (case doRequestCtx tp c ''GET'' location NoRequestBody w1 of
                    (Inl e, w2) \<Rightarrow> (Inl e, w2)
                  | (Inr resp, w2) \<Rightarrow>
                      (if hr_Status resp \<noteq> 200 then (Inl (ClStatus (hr_Status resp)), w2)
                       else case decodeJob job (hr_Body resp) of
                         None \<Rightarrow> (Inl ClUndecodable, w2)
                       | Some job' \<Rightarrow>
                           pollLoop tp c location job' (nextPollDelay (hr_RetryAfter resp) delay) n w2)))))"

declare pollLoop.simps [simp del]

definition pollJobV2 ::
  "'w Transport \<Rightarrow> ClientSettings \<Rightarrow> string \<Rightarrow> JobStatus \<Rightarrow> 'w \<Rightarrow> (ClientErr + ReconcileResponse) \<times> 'w" where
  "pollJobV2 tp c location initial w = pollLoop tp c location initial second maxPollAttempts w"

definition clientRequest :: "bool \<Rightarrow> string \<Rightarrow> ReconcileRequest" where
  "clientRequest force idempotencyKey =
     \<lparr>rr_IdempotencyKey = idempotencyKey, rr_Force = force, rr_Operation = ''client'',
      rr_Reason = ''certkeeper-client apply''\<rparr>"

definition reconcileV2 ::
  "'w Transport \<Rightarrow> ClientSettings \<Rightarrow> string \<Rightarrow> bool \<Rightarrow> string \<Rightarrow> 'w \<Rightarrow> (ClientErr + ReconcileResponse) \<times> 'w" where
  "reconcileV2 tp c domain force idempotencyKey w =
     (case ReconcileURLPath domain of
        Inl e \<Rightarrow> (Inl (ClPath e), w)
      | Inr path \<Rightarrow>
          (case doRequestCtx tp c ''POST'' path (ReconcileMap (clientRequest force idempotencyKey)) w of
             (Inl e, w1) \<Rightarrow> (Inl e, w1)
           | (Inr resp, w1) \<Rightarrow>
               (if hr_Status resp = 202
                then (case decodeAccepted (hr_Body resp) of
                        None \<Rightarrow> (Inl ClUndecodable, w1)
                      | Some accepted \<Rightarrow>
                          (case JobAcceptedResponse_Validate accepted of
                             Some e \<Rightarrow> (Inl (ClInvalidAnswer e), w1)
                           | None \<Rightarrow> pollJobV2 tp c (ja_Location accepted) (ja_Job accepted) w1))
                else if hr_Status resp \<noteq> 200 then (Inl (ClStatus (hr_Status resp)), w1)
                else (case decodeReconcile (hr_Body resp) of
                        None \<Rightarrow> Inl ClUndecodable
                      | Some rr \<Rightarrow>
                          if \<not> rc_Success rr
                          then Inl (ClReconcileFailed (case rc_Error rr of Some e \<Rightarrow> ErrorResponse_Error e | None \<Rightarrow> rc_Message rr))
                          else Inr rr, w1))))"

section \<open>The state file\<close>

record ClientState =
  cst_IdempotencyKey :: string
  cst_JobID :: string
  cst_Domain :: string
  cst_Generation :: GenerationID
  cst_Revision :: Revision
  cst_Report :: "DeploymentReport option"
  cst_ReportSent :: bool

text \<open>\<open>StateBroken\<close> is a file that cannot be read or decoded.\<close>

datatype StateFile = NoStateFile | StateBroken | StateSaved ClientState

record ClientDisk =
  cd_Out :: "OutDir DirNode"
  cd_State :: StateFile

definition loadClientState :: "ClientDisk \<Rightarrow> ClientErr + ClientState option" where
  "loadClientState disk =
     (case cd_State disk of
        NoStateFile \<Rightarrow> Inr None | StateBroken \<Rightarrow> Inl ClStateUnreadable | StateSaved st \<Rightarrow> Inr (Some st))"

text \<open>The encoder rejects an invalid generation and an invalid report.\<close>

definition stateEncodes :: "ClientState \<Rightarrow> bool" where
  "stateEncodes st =
     ((cst_Generation st = [] \<or> ValidateGenerationID (cst_Generation st) = None) \<and>
      (case cst_Report st of None \<Rightarrow> True | Some r \<Rightarrow> DeploymentReport_Validate r = None))"

datatype StatePoint = StateMkdir | StateWrite

text \<open>The file is written aside and renamed, so a failure leaves the old one; its directory is made first.\<close>

definition saveClientState :: "(StatePoint \<Rightarrow> bool) \<Rightarrow> ClientState \<Rightarrow> ClientDisk \<Rightarrow> ClientErr option \<times> ClientDisk" where
  "saveClientState io st disk =
     (if io StateMkdir then (Some ClStateUnsaved, disk)
      else let made = disk\<lparr>cd_Out := (case cd_Out disk of DirAbsent \<Rightarrow> DirAt emptyOutDir | out \<Rightarrow> out)\<rparr>
           in if \<not> stateEncodes st \<or> io StateWrite then (Some ClStateUnsaved, made)
              else (None, made\<lparr>cd_State := StateSaved st\<rparr>))"

section \<open>Applying\<close>

record ApplyV2Opts =
  ao_Domain :: string
  ao_IdempotencyKey :: string
  ao_OutDir :: string
  ao_VerifyCmd :: string
  ao_ReloadCmd :: string
  ao_Force :: bool

text \<open>The four places a run saves its state.\<close>

datatype SaveStep = SaveStart | SaveResent | SaveReport | SaveSent

record 'w ClientEnv =
  ce_Transport :: "'w Transport"
  ce_Settings :: ClientSettings
  ce_Deploy :: DeployEnv
  ce_ErrText :: "ClientErr \<Rightarrow> string"
  ce_Random :: "string option"
  ce_Io :: "SaveStep \<Rightarrow> StatePoint \<Rightarrow> bool"
  ce_Shell :: "string \<Rightarrow> DeploymentCommand"
  ce_Host :: "string option"
  ce_Clock :: "'w \<Rightarrow> GoTime"

definition shellDeploymentCommand :: "(string \<Rightarrow> DeploymentCommand) \<Rightarrow> string \<Rightarrow> DeploymentCommand option" where
  "shellDeploymentCommand shell cmd = (if TrimSpace cmd = [] then None else Some (shell cmd))"

definition deploymentTarget :: "string option \<Rightarrow> string" where
  "deploymentTarget host =
     (case host of
        None \<Rightarrow> ''certkeeper-client''
      | Some h \<Rightarrow> if TrimSpace h = [] then ''certkeeper-client'' else if length h > 128 then take 128 h else h)"

definition deployOpts ::
  "'w ClientEnv \<Rightarrow> ApplyV2Opts \<Rightarrow> GenerationID \<Rightarrow> CertificateManifest \<Rightarrow> 'w GenerationDeployOpts" where
  "deployOpts env opts generation manifest =
     \<lparr>gdo_Domain = ao_Domain opts, gdo_SAN = [], gdo_OutDir = ao_OutDir opts, gdo_Generation = generation,
      gdo_Manifest = manifest,
      gdo_Fetch = Some (v2FileFetcher (ce_Transport env) (ce_Settings env) (ce_ErrText env) (ao_Domain opts) generation),
      gdo_Verify = shellDeploymentCommand (ce_Shell env) (ao_VerifyCmd opts),
      gdo_Reload = shellDeploymentCommand (ce_Shell env) (ao_ReloadCmd opts)\<rparr>"

definition finishReport ::
  "'w ClientEnv \<Rightarrow> ApplyV2Opts \<Rightarrow> GenerationID \<Rightarrow> Revision \<Rightarrow> GoTime \<Rightarrow> GoTime \<Rightarrow> DeploymentReport \<Rightarrow> DeploymentReport" where
  "finishReport env opts generation revision startedAt finishedAt report =
     report\<lparr>dr_Target := deploymentTarget (ce_Host env), dr_Revision := revision, dr_StartedAt := Some startedAt,
            dr_FinishedAt := Some finishedAt, dr_Domain := ao_Domain opts, dr_Generation := generation\<rparr>"

text \<open>The manifest in the answer, or the one fetched for the generation.\<close>

definition manifestFor ::
  "'w ClientEnv \<Rightarrow> ApplyV2Opts \<Rightarrow> ReconcileResponse \<Rightarrow> GenerationID \<Rightarrow> 'w \<Rightarrow> (ClientErr + CertificateManifest) \<times> 'w" where
  "manifestFor env opts reconcile generation w =
     (if st_Files (rc_Status reconcile) = []
      then manifestV2 (ce_Transport env) (ce_Settings env) (ao_Domain opts) generation w
      else (Inr (st_Files (rc_Status reconcile)), w))"

text \<open>From the reconciled generation on: deploy, save the report, send it, save that it was sent.\<close>

definition deployAndReport ::
  "'w ClientEnv \<Rightarrow> ApplyV2Opts \<Rightarrow> ClientState \<Rightarrow> GenerationID \<Rightarrow> Revision \<Rightarrow> CertificateManifest \<Rightarrow> ClientDisk \<Rightarrow> 'w
     \<Rightarrow> (ClientErr option \<times> ClientDisk) \<times> 'w" where
  "deployAndReport env opts state generation revision manifest disk w =
     (let (((report0, deployErr), out), w1) = DeployGeneration (ce_Deploy env) (deployOpts env opts generation manifest) (cd_Out disk) w;
          report = finishReport env opts generation revision (ce_Clock env w) (ce_Clock env w1) report0;
          state1 = state\<lparr>cst_Generation := generation, cst_Revision := revision, cst_Report := Some report\<rparr>;
          disk1 = snd (saveClientState (ce_Io env SaveReport) state1 (disk\<lparr>cd_Out := out\<rparr>));
          (reportErr, w2) = reportDeploymentV2 (ce_Transport env) (ce_Settings env) (ao_Domain opts) report w1;
          disk2 = (if reportErr = None
                   then snd (saveClientState (ce_Io env SaveSent) (state1\<lparr>cst_ReportSent := True\<rparr>) disk1) else disk1)
      in ((map_option ClDeployFailed deployErr, disk2), w2))"

text \<open>The report of an earlier run that was not delivered is sent first; its failure is ignored.\<close>

definition resendReport ::
  "'w ClientEnv \<Rightarrow> ApplyV2Opts \<Rightarrow> ClientState \<Rightarrow> ClientDisk \<Rightarrow> 'w \<Rightarrow> (ClientErr option \<times> ClientState \<times> ClientDisk) \<times> 'w" where
  "resendReport env opts state disk w =
     (case cst_Report state of
        None \<Rightarrow> ((None, state, disk), w)
      | Some report \<Rightarrow>
          if cst_ReportSent state \<or> dr_Domain report \<noteq> ao_Domain opts then ((None, state, disk), w)
          else (case reportDeploymentV2 (ce_Transport env) (ce_Settings env) (ao_Domain opts) report w of
                  (Some _, w1) \<Rightarrow> ((None, state, disk), w1)
                | (None, w1) \<Rightarrow>
                    (let sent = state\<lparr>cst_ReportSent := True\<rparr>;
                         (err, disk') = saveClientState (ce_Io env SaveResent) sent disk
                     in ((err, sent, disk'), w1))))"

definition chooseKey :: "'w ClientEnv \<Rightarrow> ApplyV2Opts \<Rightarrow> ClientErr + string" where
  "chooseKey env opts =
     (let key = TrimSpace (ao_IdempotencyKey opts)
      in if key \<noteq> [] then Inr key
         else case ce_Random env of None \<Rightarrow> Inl ClNoKey | Some bytes \<Rightarrow> Inr (hexEncode bytes))"

text \<open>The state a run starts from: the key of the domain's earlier run replaces the chosen one.\<close>

definition startState :: "ApplyV2Opts \<Rightarrow> string \<Rightarrow> ClientState option \<Rightarrow> ClientState" where
  "startState opts key saved =
     (let mine = (case saved of Some st \<Rightarrow> cst_Domain st = ao_Domain opts | None \<Rightarrow> False)
      in \<lparr>cst_IdempotencyKey =
            (case saved of Some st \<Rightarrow> if mine \<and> cst_IdempotencyKey st \<noteq> [] then cst_IdempotencyKey st else key | None \<Rightarrow> key),
          cst_JobID = [], cst_Domain = ao_Domain opts, cst_Generation = [], cst_Revision = 0,
          cst_Report = (case saved of Some st \<Rightarrow> if mine \<and> \<not> cst_ReportSent st then cst_Report st else None | None \<Rightarrow> None),
          cst_ReportSent = False\<rparr>)"

text \<open>From the saved start state on.\<close>

definition applyReconciled ::
  "'w ClientEnv \<Rightarrow> ApplyV2Opts \<Rightarrow> ClientState \<Rightarrow> ClientDisk \<Rightarrow> 'w \<Rightarrow> (ClientErr option \<times> ClientDisk) \<times> 'w" where
  "applyReconciled env opts state disk w =
     (case reconcileV2 (ce_Transport env) (ce_Settings env) (ao_Domain opts) (ao_Force opts) (cst_IdempotencyKey state) w of
        (Inl e, w1) \<Rightarrow> ((Some e, disk), w1)
      | (Inr reconcile, w1) \<Rightarrow>
          (let generation = (if rc_Generation reconcile = [] then js_Generation (rc_Job reconcile) else rc_Generation reconcile)
           in if generation = [] then ((Some ClNoGeneration, disk), w1)
              else (case manifestFor env opts reconcile generation w1 of
                      (Inl e, w2) \<Rightarrow> ((Some e, disk), w2)
                    | (Inr manifest, w2) \<Rightarrow>
                        deployAndReport env opts state generation (rc_Revision reconcile) manifest disk w2)))"

definition ApplyV2 :: "'w ClientEnv \<Rightarrow> ApplyV2Opts \<Rightarrow> ClientDisk \<Rightarrow> 'w \<Rightarrow> (ClientErr option \<times> ClientDisk) \<times> 'w" where
  "ApplyV2 env opts disk w =
     (if ao_Domain opts = [] then ((Some ClNoDomain, disk), w)
      else if ao_OutDir opts = [] then ((Some ClNoOutDir, disk), w)
      else case chooseKey env opts of
        Inl e \<Rightarrow> ((Some e, disk), w)
      | Inr key \<Rightarrow>
          (case ensureCapabilities (ce_Transport env) (ce_Settings env) w of
             (Some e, w1) \<Rightarrow> ((Some e, disk), w1)
           | (None, w1) \<Rightarrow>
               (case loadClientState disk of
                  Inl e \<Rightarrow> ((Some e, disk), w1)
                | Inr saved \<Rightarrow>
                    (case saveClientState (ce_Io env SaveStart) (startState opts key saved) disk of
                       (Some e, disk1) \<Rightarrow> ((Some e, disk1), w1)
                     | (None, disk1) \<Rightarrow>
                         (case resendReport env opts (startState opts key saved) disk1 w1 of
                            ((Some e, _, disk2), w2) \<Rightarrow> ((Some e, disk2), w2)
                          | ((None, state, disk2), w2) \<Rightarrow> applyReconciled env opts state disk2 w2)))))"

section \<open>Status and single files\<close>

definition clientStatusV2 :: "'w Transport \<Rightarrow> ClientSettings \<Rightarrow> string \<Rightarrow> 'w \<Rightarrow> (ClientErr + CertificateStatus) \<times> 'w" where
  "clientStatusV2 tp c domain w =
     (case ensureCapabilities tp c w of
        (Some e, w1) \<Rightarrow> (Inl e, w1) | (None, w1) \<Rightarrow> certificateStatusV2 tp c domain w1)"

text \<open>The generation to download: the given one, or the server's current one.\<close>

definition downloadGeneration ::
  "'w Transport \<Rightarrow> ClientSettings \<Rightarrow> string \<Rightarrow> GenerationID \<Rightarrow> 'w \<Rightarrow> (ClientErr + GenerationID) \<times> 'w" where
  "downloadGeneration tp c domain generation w =
     (if generation \<noteq> [] then (Inr generation, w)
      else case certificateStatusV2 tp c domain w of
        (Inl e, w1) \<Rightarrow> (Inl e, w1)
      | (Inr status, w1) \<Rightarrow> (if st_Generation status = [] then Inl ClNoGeneration else Inr (st_Generation status), w1))"

text \<open>
  \<open>outLink\<close> says that the output path is a symbolic link; \<open>outFails\<close> that writing or renaming fails.
  The result is the content the output file gets.
\<close>

definition DownloadV2 ::
  "'w Transport \<Rightarrow> ClientSettings \<Rightarrow> (string \<Rightarrow> string) \<Rightarrow> string \<Rightarrow> GenerationID \<Rightarrow> string \<Rightarrow> bool \<Rightarrow> bool \<Rightarrow> 'w
     \<Rightarrow> (ClientErr + string) \<times> 'w" where
  "DownloadV2 tp c sha domain generation fileName outLink outFails w =
     (case ensureCapabilities tp c w of
        (Some e, w1) \<Rightarrow> (Inl e, w1)
      | (None, w1) \<Rightarrow>
          (case ValidateFileName fileName of
             Some e \<Rightarrow> (Inl (ClBadFile e), w1)
           | None \<Rightarrow>
               (case downloadGeneration tp c domain generation w1 of
                  (Inl e, w2) \<Rightarrow> (Inl e, w2)
                | (Inr g, w2) \<Rightarrow>
                    (case manifestV2 tp c domain g w2 of
                       (Inl e, w3) \<Rightarrow> (Inl e, w3)
                     | (Inr manifest, w3) \<Rightarrow>
                         (case List.find (\<lambda>item. fm_Name item = fileName) manifest of
                            None \<Rightarrow> (Inl ClNoSuchFile, w3)
                          | Some expected \<Rightarrow>
                              (case fetchFile tp c domain g fileName w3 of
                                 (Inl e, w4) \<Rightarrow> (Inl e, w4)
                               | (Inr data, w4) \<Rightarrow>
                                   (if of_nat (length data) \<noteq> fm_Size expected then Inl ClSizeMismatch
                                    else if hexEncode (sha data) \<noteq> fm_SHA256 expected then Inl ClHashMismatch
                                    else if outLink then Inl ClOutputSymlink
                                    else if outFails then Inl ClOutputFailed
                                    else Inr data, w4)))))))"

end
