(* ===== verification/DeployProofs.thy ===== *)
theory DeployProofs
  imports ClientDeploy CertSafety
begin

text \<open>
  What a deployment of \<^verbatim>\<open>internal/client/deploy.go\<close> leaves behind: the release and the link after
  every outcome, the invariant that the active release is complete, and what a later run makes of
  an unfinished one.
\<close>

section \<open>The link\<close>

lemma deploymentLinkTarget_deployLink:
  "ValidateGenerationID g = None \<Longrightarrow> deploymentLinkTarget (''releases/'' @ g) = Inr g"
  using safeSegment_no_slash[of g]
  by (auto simp: deploymentLinkTarget_def Let_def valid_simps contains_def safeSegment_def)

lemma deploymentLinkTarget_valid: "deploymentLinkTarget t = Inr g \<Longrightarrow> ValidateGenerationID g = None"
  by (auto simp: deploymentLinkTarget_def Let_def split: if_splits)

text \<open>The generation the link names, when it can be read.\<close>

definition activeGeneration :: "OutDir \<Rightarrow> GenerationID option" where
  "activeGeneration dir = (case readDeploymentCurrent (\<lambda>_. False) dir of Inl _ \<Rightarrow> None | Inr g \<Rightarrow> g)"

lemma activeGeneration_link:
  "ValidateGenerationID g = None \<Longrightarrow> od_Current dir = Some (deployLink g) \<Longrightarrow> activeGeneration dir = Some g"
  by (simp add: activeGeneration_def readDeploymentCurrent_def deployLink_def deploymentLinkTarget_deployLink[simplified])

lemma activeGeneration_cong: "od_Current dir = od_Current dir' \<Longrightarrow> activeGeneration dir = activeGeneration dir'"
  by (simp add: activeGeneration_def readDeploymentCurrent_def)

lemma readDeploymentCurrent_valid:
  assumes "readDeploymentCurrent io dir = Inr (Some g)"
  shows "ValidateGenerationID g = None" "activeGeneration dir = Some g"
proof -
  show "ValidateGenerationID g = None"
    using assms deploymentLinkTarget_valid
    by (auto simp: readDeploymentCurrent_def Let_def split: if_splits option.splits CurrentNode.splits)
  have "readDeploymentCurrent (\<lambda>_. False) dir = Inr (Some g)"
    using assms by (simp add: readDeploymentCurrent_def split: if_splits)
  then show "activeGeneration dir = Some g"
    by (simp add: activeGeneration_def)
qed

lemma readDeploymentCurrent_None:
  "readDeploymentCurrent io dir = Inr None \<longleftrightarrow> \<not> io DpReadCurrent \<and> od_Current dir = None"
  by (auto simp: readDeploymentCurrent_def Let_def split: option.splits CurrentNode.splits)

section \<open>Releases are never replaced\<close>

definition releaseOf :: "OutDir \<Rightarrow> string \<Rightarrow> EntryNode option" where
  "releaseOf dir name = map_of (entriesOf (od_Releases dir)) name"

definition keepsReleases :: "OutDir \<Rightarrow> OutDir \<Rightarrow> bool" where
  "keepsReleases dir dir' \<longleftrightarrow> (\<forall>name e. releaseOf dir name = Some e \<longrightarrow> releaseOf dir' name = Some e)"

lemma keepsReleases_refl [simp]: "keepsReleases dir dir"
  by (simp add: keepsReleases_def)

lemma keepsReleases_trans: "keepsReleases a b \<Longrightarrow> keepsReleases b c \<Longrightarrow> keepsReleases a c"
  by (simp add: keepsReleases_def)

lemma keepsReleases_same: "od_Releases dir' = od_Releases dir \<Longrightarrow> keepsReleases dir dir'"
  by (simp add: keepsReleases_def releaseOf_def)

lemma releaseOf_add:
  "releaseOf (addOutRelease n files dir) name =
     (case releaseOf dir name of Some e \<Rightarrow> Some e | None \<Rightarrow> if name = n then Some (EntryDir files) else None)"
  by (simp add: releaseOf_def addOutRelease_def entriesOf_def map_add_def split: DirNode.splits option.splits)

lemma keepsReleases_add [simp]: "keepsReleases dir (addOutRelease n files dir)"
  by (simp add: keepsReleases_def releaseOf_add)

lemma od_Current_add [simp]: "od_Current (addOutRelease n files dir) = od_Current dir"
  by (simp add: addOutRelease_def)

lemma dropStaging_keeps [simp]: "keepsReleases dir (dropStaging env g staging dir)"
  and od_Current_dropStaging [simp]: "od_Current (dropStaging env g staging dir) = od_Current dir"
  by (simp_all add: dropStaging_def)

lemma activeGeneration_dropStaging [simp]: "activeGeneration (dropStaging env g staging dir) = activeGeneration dir"
  by (rule activeGeneration_cong) simp

section \<open>Staging\<close>

definition stagedDir :: "(string \<Rightarrow> string) \<Rightarrow> string list \<Rightarrow> (string \<times> FileNode) list" where
  "stagedDir data names = map (\<lambda>n. (n, Regular (data n))) names"

lemma stagedDir_lookup: "n \<in> set names \<Longrightarrow> map_of (stagedDir data names) n = Some (Regular (data n))"
  by (induction names) (auto simp: stagedDir_def)

lemma writeAndValidateStagedFile_ok:
  assumes "writeAndValidateStagedFile env name item data staging = (None, staging')"
  shows "staging' = staging @ [(name, Regular data)]" "itemMatches (de_Lib env) item data"
  using assms by (auto simp: writeAndValidateStagedFile_def itemMatches_def Let_def split: if_splits sum.splits)

text \<open>\<open>ok\<close> is a fact about the surroundings that every download keeps.\<close>

definition keepsFact :: "(string \<Rightarrow> 'w \<Rightarrow> 'x \<times> 'w) \<Rightarrow> ('w \<Rightarrow> bool) \<Rightarrow> bool" where
  "keepsFact fetch ok \<longleftrightarrow> (\<forall>name w x w'. ok w \<longrightarrow> fetch name w = (x, w') \<longrightarrow> ok w')"

lemma keepsFact_True [simp]: "keepsFact fetch (\<lambda>_. True)"
  by (simp add: keepsFact_def)

lemma stageFiles_ok:
  assumes "stageFiles env fetch manifest names staging w = ((None, staging'), w')" "distinct names" "ok w"
    and kept: "keepsFact fetch ok"
  shows "\<exists>data. staging' = staging @ stagedDir data names \<and>
     (\<forall>n\<in>set names. (\<exists>w. ok w \<and> fst (fetch n w) = Inr (data n)) \<and>
        itemMatches (de_Lib env) (manifestItem manifest n) (data n))"
  using assms(1-3)
proof (induction names arbitrary: staging w)
  case Nil
  then show ?case by (simp add: stagedDir_def)
next
  case (Cons n names)
  obtain d s w1 where fetched: "fetch n w = (Inr d, w1)"
    and wrote: "writeAndValidateStagedFile env n (manifestItem manifest n) d staging = (None, s)"
    and rest: "stageFiles env fetch manifest names s w1 = ((None, staging'), w')"
    using Cons.prems(1) by (auto split: sum.splits prod.splits option.splits)
  obtain data where data: "staging' = s @ stagedDir data names"
    "\<forall>m\<in>set names. (\<exists>w. ok w \<and> fst (fetch m w) = Inr (data m)) \<and>
       itemMatches (de_Lib env) (manifestItem manifest m) (data m)"
    using Cons.IH[OF rest] Cons.prems(2,3) kept fetched by (fastforce simp: keepsFact_def)
  have got: "\<exists>w. ok w \<and> fst (fetch n w) = Inr d"
    using fetched Cons.prems(3) by (intro exI[of _ w]) simp
  have "stagedDir (\<lambda>a. if a = n then d else data a) (n # names) = (n, Regular d) # stagedDir data names"
    using Cons.prems(2) by (auto simp: stagedDir_def)
  then show ?case
    using writeAndValidateStagedFile_ok[OF wrote] data got Cons.prems(2)
    by (intro exI[of _ "\<lambda>a. if a = n then d else data a"]) auto
qed

lemma distinct_fixedFileNames [simp]: "distinct fixedFileNames"
  by (simp add: fixedFileNames_def)

section \<open>Outcomes\<close>

definition restoredLink :: "GenerationID option \<Rightarrow> CurrentNode option" where
  "restoredLink previous = map_option deployLink previous"

text \<open>Where the link stands after a run, by the error it returned.\<close>

definition linkAfter :: "GenerationID \<Rightarrow> GenerationID option \<Rightarrow> CurrentNode option \<Rightarrow> DeployErr option
    \<Rightarrow> CurrentNode option set" where
  "linkAfter g previous cur err =
     (case err of
        None \<Rightarrow> {Some (deployLink g)}
      | Some (DeployReloadFailed _) \<Rightarrow> {Some (deployLink g)}
      | Some (DeployIOFailed p) \<Rightarrow> if p = DpSwitch LinkSync then {Some (deployLink g)} else {cur}
      | Some (DeployVerifyFailed _) \<Rightarrow> {restoredLink previous}
      | Some (DeployRollbackFailed _ _) \<Rightarrow> {Some (deployLink g), restoredLink previous}
      | Some _ \<Rightarrow> {cur})"

lemma writeDeploymentCurrent_outcome:
  assumes "writeDeploymentCurrent env phase g dir = (err, dir')"
  shows "od_Releases dir' = od_Releases dir"
    and "err = None \<Longrightarrow> od_Current dir' = Some (deployLink g) \<and> ValidateGenerationID g = None"
    and "err = Some (DeployIOFailed (phase LinkSync)) \<Longrightarrow> phase LinkSync \<notin> {phase LinkLstat, phase LinkSymlink, phase LinkRename}
           \<Longrightarrow> od_Current dir' = Some (deployLink g)"
    and "err \<noteq> None \<Longrightarrow> err \<noteq> Some (DeployIOFailed (phase LinkSync)) \<Longrightarrow> dir' = dir"
    and "od_Current dir' \<in> {od_Current dir, Some (deployLink g)}"
    and "err = Some e \<Longrightarrow> e \<in> {DeployBadGeneration, DeployCurrentUnsafe} \<union> range (DeployIOFailed \<circ> phase)"
  using assms by (auto simp: writeDeploymentCurrent_def Let_def split: if_splits)

lemma restoreDeploymentCurrent_outcome:
  assumes "restoreDeploymentCurrent env previous dir = (err, dir')"
  shows "od_Releases dir' = od_Releases dir"
    and "err = None \<Longrightarrow> od_Current dir' = restoredLink previous"
    and "od_Current dir' \<in> {od_Current dir, restoredLink previous}"
proof -
  have "od_Releases dir' = od_Releases dir \<and> (err = None \<longrightarrow> od_Current dir' = restoredLink previous)
      \<and> od_Current dir' \<in> {od_Current dir, restoredLink previous}"
  proof (cases previous)
    case None
    then show ?thesis
      using assms by (auto simp: restoreDeploymentCurrent_def restoredLink_def Let_def split: if_splits option.splits)
  next
    case (Some g)
    then have "writeDeploymentCurrent env DpRestore g dir = (err, dir')"
      using assms by (simp add: restoreDeploymentCurrent_def)
    from writeDeploymentCurrent_outcome(1,2,5)[OF this] show ?thesis
      using Some by (simp add: restoredLink_def)
  qed
  then show "od_Releases dir' = od_Releases dir" "err = None \<Longrightarrow> od_Current dir' = restoredLink previous"
    "od_Current dir' \<in> {od_Current dir, restoredLink previous}"
    by simp_all
qed

lemma activateRelease_outcome:
  assumes "activateRelease env opts report previous dir = ((r, err), dir')"
  shows "od_Releases dir' = od_Releases dir"
    and "od_Current dir' \<in> linkAfter (gdo_Generation opts) previous (od_Current dir) err"
proof -
  let ?g = "gdo_Generation opts"
  obtain werr switched where w: "writeDeploymentCurrent env DpSwitch ?g dir = (werr, switched)"
    by fastforce
  note wo = writeDeploymentCurrent_outcome[OF w]
  have "od_Releases dir' = od_Releases dir \<and> od_Current dir' \<in> linkAfter ?g previous (od_Current dir) err"
  proof (cases werr)
    case (Some e)
    then have res: "err = Some e" "dir' = switched"
      using assms w by (auto simp: activateRelease_def deployFail_def)
    have "e \<in> {DeployBadGeneration, DeployCurrentUnsafe} \<union> range (DeployIOFailed \<circ> DpSwitch)"
      using wo(6)[of e] Some by simp
    then show ?thesis
      using res wo(1,3,4) Some by (auto simp: linkAfter_def)
  next
    case None
    then have link: "od_Current switched = Some (deployLink ?g)" and rels: "od_Releases switched = od_Releases dir"
      using wo by auto
    obtain rerr restored where rb: "restoreDeploymentCurrent env previous switched = (rerr, restored)"
      by fastforce
    show ?thesis
      using assms w None link rels rb restoreDeploymentCurrent_outcome[OF rb]
      by (auto simp: activateRelease_def linkAfter_def Let_def split: option.splits)
  qed
  then show "od_Releases dir' = od_Releases dir"
    and "od_Current dir' \<in> linkAfter ?g previous (od_Current dir) err"
    by simp_all
qed

lemma Some_failIf [simp]: "Some e' = failIf b e \<longleftrightarrow> b \<and> e' = e"
  by (auto simp: failIf_def)

text \<open>The errors of the steps before the link is replaced.\<close>

definition earlyError :: "DeployErr \<Rightarrow> bool" where
  "earlyError e =
     (case e of
        DeployReloadFailed _ \<Rightarrow> False | DeployVerifyFailed _ \<Rightarrow> False | DeployRollbackFailed _ _ \<Rightarrow> False
      | DeployIOFailed p \<Rightarrow> p \<noteq> DpSwitch LinkSync | _ \<Rightarrow> True)"

lemma linkAfter_early: "earlyError e \<Longrightarrow> linkAfter g previous cur (Some e) = {cur}"
  by (auto simp: earlyError_def linkAfter_def split: DeployErr.splits if_splits)

lemma ensureSecureDirectory_node:
  assumes "ensureSecureDirectory a p b q fresh node = (err, node')"
  shows "node' = node \<or> node = DirAbsent \<and> node' = DirAt fresh"
    and "err = None \<Longrightarrow> \<exists>d. node' = DirAt d"
    and "err = Some e \<Longrightarrow> e \<in> {DeployNotDirectory, DeployIOFailed p, DeployIOFailed q}"
  using assms by (auto simp: ensureSecureDirectory_def split: DirNode.splits if_splits)

lemma readDeploymentCurrent_error:
  "readDeploymentCurrent io dir = Inl e \<Longrightarrow> earlyError e"
  by (auto simp: readDeploymentCurrent_def deploymentLinkTarget_def earlyError_def Let_def guardR_def failIf_def
      split: if_splits option.splits CurrentNode.splits)

lemma assertSafeRelease_error: "assertSafeRelease env dir g = Some e \<Longrightarrow> earlyError e"
  by (auto simp: assertSafeRelease_def earlyError_def dest!: firstErr_Some_mem
      split: if_splits option.splits EntryNode.splits)

lemma validateDeploymentManifest_error: "validateDeploymentManifest m = Some e \<Longrightarrow> earlyError e"
  by (auto simp: validateDeploymentManifest_def earlyError_def dest!: firstErr_Some_mem)

lemma writeAndValidateStagedFile_error:
  "writeAndValidateStagedFile env n item data s = (Some e, s') \<Longrightarrow> earlyError e"
  by (auto simp: writeAndValidateStagedFile_def earlyError_def Let_def split: if_splits sum.splits)

lemma stageFiles_error: "stageFiles env fetch m names s w = ((Some e, s'), w') \<Longrightarrow> earlyError e"
proof (induction names arbitrary: s w)
  case (Cons n names)
  obtain got w1 where fetched: "fetch n w = (got, w1)"
    by fastforce
  show ?case
  proof (cases got)
    case (Inl msg)
    then show ?thesis using Cons.prems fetched by (auto simp: earlyError_def)
  next
    case (Inr d)
    obtain err s1 where "writeAndValidateStagedFile env n (manifestItem m n) d s = (err, s1)"
      by fastforce
    then show ?thesis
      using Cons Inr fetched writeAndValidateStagedFile_error by (cases err) auto
  qed
qed simp

text \<open>What the part from the filled staging directory on does.\<close>

lemma publishStaged_cases:
  assumes "publishStaged env opts report previous staging dir = ((r, err), dir')"
  obtains (given_up) e where "err = Some e" "earlyError e" "od_Current dir' = od_Current dir" "keepsReleases dir dir'"
        "r = deploymentFailure env report e False"
    | (activated) "releaseOf dir (gdo_Generation opts) = None"
        "validateStagedCertificate env staging (gdo_Domain opts) (gdo_SAN opts) (de_Now env) = None"
        "activateRelease env opts report previous (addOutRelease (gdo_Generation opts) staging dir) = ((r, err), dir')"
proof -
  let ?published = "releaseOf dir (gdo_Generation opts) = None \<and>
      validateStagedCertificate env staging (gdo_Domain opts) (gdo_SAN opts) (de_Now env) = None \<and>
      activateRelease env opts report previous (addOutRelease (gdo_Generation opts) staging dir) = ((r, err), dir')"
  have "?published \<or> (\<exists>e. err = Some e \<and> earlyError e \<and> od_Current dir' = od_Current dir \<and> keepsReleases dir dir'
      \<and> r = deploymentFailure env report e False)"
  proof (cases "validateStagedCertificate env staging (gdo_Domain opts) (gdo_SAN opts) (de_Now env)")
    case (Some problem)
    then show ?thesis
      using assms by (auto simp: publishStaged_def deployFail_def earlyError_def)
  next
    case None
    then show ?thesis
      using assms unfolding publishStaged_def Let_def deployFail_def releaseOf_def
      by (simp split: if_splits) (auto simp: earlyError_def)
  qed
  then show thesis
    using given_up activated by blast
qed

lemma deployStaged_cases:
  assumes "deployStaged env opts report previous dir w = (((r, err), dir'), w')"
  obtains (given_up) e where "err = Some e" "earlyError e" "od_Current dir' = od_Current dir" "keepsReleases dir dir'"
        "r = deploymentFailure env report e False"
    | (activated) fetch staging where
        "gdo_Fetch opts = Some fetch" "validateDeploymentManifest (gdo_Manifest opts) = None"
        "stageFiles env fetch (gdo_Manifest opts) fixedFileNames [] w = ((None, staging), w')"
        "releaseOf dir (gdo_Generation opts) = None"
        "validateStagedCertificate env staging (gdo_Domain opts) (gdo_SAN opts) (de_Now env) = None"
        "activateRelease env opts report previous (addOutRelease (gdo_Generation opts) staging dir) = ((r, err), dir')"
proof (cases "gdo_Fetch opts")
  case None
  then show thesis
    using assms given_up[of DeployNoFetch] by (auto simp: deployStaged_def deployFail_def earlyError_def)
next
  case (Some fetch)
  note fetched = this
  obtain serr staging w1 where staged: "stageFiles env fetch (gdo_Manifest opts) fixedFileNames [] w = ((serr, staging), w1)"
    by (metis surj_pair)
  show thesis
  proof (cases "validateDeploymentManifest (gdo_Manifest opts)")
    case (Some e)
    then show thesis
      using assms given_up[of e] validateDeploymentManifest_error[OF Some] fetched
      by (auto simp: deployStaged_def deployFail_def)
  next
    case None
    note manifest = this
    show thesis
    proof (cases "de_Io env DpTempDir \<or> de_Io env DpTempMode")
      case True
      then have "\<exists>p. p \<noteq> DpSwitch LinkSync \<and> err = Some (DeployIOFailed p) \<and> od_Current dir' = od_Current dir \<and> keepsReleases dir dir'
          \<and> r = deploymentFailure env report (DeployIOFailed p) False"
        using assms fetched manifest by (auto simp: deployStaged_def deployFail_def split: if_splits)
      then show thesis
        using given_up by (auto simp: earlyError_def)
    next
      case False
      note made = this
      show thesis
      proof (cases serr)
        case (Some e)
        then show thesis
          using assms fetched manifest made staged given_up[of e] stageFiles_error[of env fetch _ _ _ _ e]
          by (auto simp: deployStaged_def deployFail_def)
      next
        case None
        then have "publishStaged env opts report previous staging dir = ((r, err), dir')" and "w1 = w'"
          using assms fetched manifest made staged by (simp_all add: deployStaged_def)
        then show thesis
          using publishStaged_cases given_up activated[OF fetched manifest] staged None by metis
      qed
    qed
  qed
qed

lemma deployLocked_cases:
  assumes "deployLocked env opts report dir w = (((r, err), dir'), w')"
  obtains (given_up) e where "err = Some e" "earlyError e" "od_Current dir' = od_Current dir" "keepsReleases dir dir'"
        "r = deploymentFailure env report e False"
    | (skipped) "err = None" "dir' = dir" "activeGeneration dir = Some (gdo_Generation opts)"
        "r = report\<lparr>dr_State := DeploymentStateSkipped, dr_Success := True, dr_Verified := True,
                    dr_Reloaded := True, dr_Message := MsgAlreadyCurrent\<rparr>"
    | (deployed) previous where "readDeploymentCurrent (de_Io env) dir = Inr previous"
        "previous \<noteq> Some (gdo_Generation opts)" "\<And>g. previous = Some g \<Longrightarrow> assertSafeRelease env dir g = None"
        "deployStaged env opts report previous dir w = (((r, err), dir'), w')"
proof (cases "readDeploymentCurrent (de_Io env) dir")
  case (Inl e)
  then show thesis
    using assms given_up[of e] readDeploymentCurrent_error[OF Inl] by (auto simp: deployLocked_def deployFail_def)
next
  case (Inr previous)
  note current = this
  define safe where "safe = (case previous of None \<Rightarrow> None | Some g \<Rightarrow> assertSafeRelease env dir g)"
  show thesis
  proof (cases safe)
    case (Some e)
    have "earlyError e"
      using Some assertSafeRelease_error by (auto simp: safe_def split: option.splits)
    then show thesis
      using assms given_up[of e] Some current unfolding deployLocked_def deployFail_def safe_def by auto
  next
    case None
    then show thesis
      using assms skipped deployed[OF current] current readDeploymentCurrent_valid[of "de_Io env" dir]
      unfolding deployLocked_def safe_def by (auto split: if_splits option.splits)
  qed
qed

text \<open>An absent output directory counts as an empty one.\<close>

definition dirOf :: "OutDir DirNode \<Rightarrow> OutDir" where
  "dirOf out = (case out of DirAt dir \<Rightarrow> dir | _ \<Rightarrow> emptyOutDir)"

lemma dirOf_simps [simp]: "dirOf (DirAt dir) = dir" "dirOf DirAbsent = emptyOutDir" "dirOf DirUnsafe = emptyOutDir"
  by (simp_all add: dirOf_def)

lemma DeployGeneration_cases:
  assumes "DeployGeneration env opts out w = (((r, err), out'), w')"
  obtains (given_up) e where "err = Some e" "earlyError e"
        "od_Current (dirOf out') = od_Current (dirOf out)" "keepsReleases (dirOf out) (dirOf out')"
        "r = deploymentFailure env (deployingReport (gdo_Generation opts)) e False"
    | (locked) dir dir' where "out' = DirAt dir'" "ValidateGenerationID (gdo_Generation opts) = None"
        "od_Current dir = od_Current (dirOf out)" "releaseOf dir = releaseOf (dirOf out)"
        "deployLocked env opts (deployingReport (gdo_Generation opts)) dir w = (((r, err), dir'), w')"
proof -
  obtain e1 out1 where ensured: "ensureSecureDirectory (de_Io env DpMakeOut) DpMakeOut (de_Io env DpOutMode)
      DpOutMode emptyOutDir out = (e1, out1)"
    by fastforce
  note node = ensureSecureDirectory_node[OF ensured]
  have same: "od_Current (dirOf out1) = od_Current (dirOf out)" "releaseOf (dirOf out1) = releaseOf (dirOf out)"
    using node(1) by auto
  have kept: "keepsReleases (dirOf out) (dirOf out1)"
    using same by (simp add: keepsReleases_def)
  show thesis
  proof (cases "ValidateGenerationID (gdo_Generation opts) \<noteq> None \<or> gdo_Domain opts = [] \<or> gdo_OutDir opts = []")
    case True
    then have "\<exists>e. err = Some e \<and> earlyError e \<and> out' = out \<and> r = deploymentFailure env (deployingReport (gdo_Generation opts)) e False"
      using assms by (auto simp: DeployGeneration_def deployFail_def earlyError_def Let_def split: if_splits)
    then show thesis
      using given_up by auto
  next
    case False
    note valid = this
    show thesis
    proof (cases "e1 = None \<and> \<not> de_Io env DpLock")
      case False
      then have "\<exists>e. err = Some e \<and> earlyError e \<and> out' = out1 \<and> r = deploymentFailure env (deployingReport (gdo_Generation opts)) e False"
        using assms valid ensured node(3)
        by (auto simp: DeployGeneration_def deployFail_def earlyError_def Let_def split: if_splits option.splits)
      then show thesis
        using given_up same kept by auto
    next
      case True
      then obtain d where at: "out1 = DirAt d"
        using node(2) by auto
      obtain e2 releases where made: "ensureSecureDirectory (de_Io env DpMakeReleases) DpMakeReleases
          (de_Io env DpReleasesMode) DpReleasesMode [] (od_Releases d) = (e2, releases)"
        by fastforce
      note rnode = ensureSecureDirectory_node[OF made]
      let ?d = "d\<lparr>od_Releases := releases\<rparr>"
      have rels: "releaseOf ?d = releaseOf d"
        using rnode(1) by (auto simp: releaseOf_def entriesOf_def fun_eq_iff)
      show thesis
      proof (cases e2)
        case (Some e)
        have "earlyError e"
          using Some rnode(3)[of e] by (auto simp: earlyError_def)
        moreover have "err = Some e" "out' = DirAt ?d" "r = deploymentFailure env (deployingReport (gdo_Generation opts)) e False"
          using assms valid ensured True at made Some by (auto simp: DeployGeneration_def deployFail_def Let_def)
        moreover have "keepsReleases (dirOf out) ?d"
          using same rels at by (simp add: keepsReleases_def)
        ultimately show thesis
          using given_up[of e] same at by simp
      next
        case None
        then obtain dir' where "deployLocked env opts (deployingReport (gdo_Generation opts)) ?d w = (((r, err), dir'), w')"
          "out' = DirAt dir'"
          using assms valid ensured True at made by (auto simp: DeployGeneration_def Let_def split: prod.splits)
        then show thesis
          using locked[of dir' ?d] valid same rels at by auto
      qed
    qed
  qed
qed

section \<open>What a run guarantees\<close>

lemma readDeploymentCurrent_active:
  "readDeploymentCurrent io dir = Inr previous \<Longrightarrow> activeGeneration dir = previous"
  using readDeploymentCurrent_valid[of io dir] readDeploymentCurrent_None[of io dir]
  by (cases previous) (auto simp: activeGeneration_def readDeploymentCurrent_def)

lemma activeGeneration_restored:
  assumes "od_Current dir = restoredLink previous" "\<And>g. previous = Some g \<Longrightarrow> ValidateGenerationID g = None"
  shows "activeGeneration dir = previous"
  using assms activeGeneration_link[of _ dir]
  by (cases previous) (auto simp: restoredLink_def activeGeneration_def readDeploymentCurrent_def)

text \<open>A run past the staging keeps every release and adds the new one.\<close>

lemma deployStaged_releases:
  assumes "deployStaged env opts report previous dir w = (((r, err), dir'), w')"
  shows "keepsReleases dir dir'"
  using assms
proof (cases rule: deployStaged_cases)
  case (activated fetch staging)
  then show ?thesis
    using activateRelease_outcome(1)[OF activated(6)] keepsReleases_add keepsReleases_same keepsReleases_trans by metis
qed

lemma DeployGeneration_releases:
  assumes "DeployGeneration env opts out w = (((r, err), out'), w')"
  shows "keepsReleases (dirOf out) (dirOf out')"
  using assms
proof (cases rule: DeployGeneration_cases)
  case (locked dir dir')
  have "keepsReleases dir dir'"
    using locked(5)
  proof (cases rule: deployLocked_cases)
    case (deployed previous)
    show ?thesis using deployStaged_releases[OF deployed(4)] .
  qed auto
  then show ?thesis
    using locked(1,4) by (simp add: keepsReleases_def)
qed

text \<open>The report of a failed run.\<close>

definition failedReport :: "DeploymentReport \<Rightarrow> bool" where
  "failedReport r \<longleftrightarrow> dr_State r = DeploymentStateFailed \<and> \<not> dr_Success r \<and>
     (\<exists>msg retry. dr_Error r = Some \<lparr>er_Code = ErrorCodeDeploymentFailed, er_Message = msg, er_Retryable = retry,
        er_Details = []\<rparr>)"

lemma failedReport_failure [simp]: "failedReport (deploymentFailure env report e retry)"
  by (simp add: failedReport_def deploymentFailure_def)

lemma activateRelease_failed:
  "activateRelease env opts report previous dir = ((r, Some e), dir') \<Longrightarrow> failedReport r"
  by (auto simp: activateRelease_def deployFail_def Let_def split: option.splits prod.splits)

lemma DeployGeneration_failed:
  assumes "DeployGeneration env opts out w = (((r, Some e), out'), w')"
  shows "failedReport r"
  using assms
proof (cases rule: DeployGeneration_cases)
  case (locked dir dir')
  show ?thesis
    using locked(5)
  proof (cases rule: deployLocked_cases)
    case (deployed previous)
    show ?thesis
      using deployed(4)
    proof (cases rule: deployStaged_cases)
      case (activated fetch staging)
      then show ?thesis using activateRelease_failed by blast
    qed simp
  qed simp_all
qed simp

lemma linkAfter_error:
  assumes "\<And>msg. e \<noteq> DeployReloadFailed msg" "\<And>msg e'. e \<noteq> DeployRollbackFailed msg e'"
    and "e \<noteq> DeployIOFailed (DpSwitch LinkSync)"
  shows "linkAfter g previous cur (Some e) \<subseteq> {cur, restoredLink previous}"
  using assms by (auto simp: linkAfter_def split: DeployErr.splits)

text \<open>C19: A deployment that fails before its verify command passed leaves the client where it was: the
  active generation is the one before, also when the link had already been switched and was
  rolled back, and every release that existed is still there, byte for byte.  The exceptions are
  the failed roll back, and a failing sync of the directory right after the switch.\<close>

theorem failed_deployment_restores:
  assumes "DeployGeneration env opts out w = (((r, Some e), out'), w')"
    and "\<And>msg. e \<noteq> DeployReloadFailed msg" "\<And>msg e'. e \<noteq> DeployRollbackFailed msg e'"
    and "e \<noteq> DeployIOFailed (DpSwitch LinkSync)"
  shows "activeGeneration (dirOf out') = activeGeneration (dirOf out) \<and> dr_State r = DeploymentStateFailed \<and>
     (\<forall>name entry. releaseOf (dirOf out) name = Some entry \<longrightarrow> releaseOf (dirOf out') name = Some entry)"
proof -
  have "activeGeneration (dirOf out') = activeGeneration (dirOf out)"
    using assms(1)
  proof (cases rule: DeployGeneration_cases)
    case (locked dir dir')
    have "activeGeneration dir' = activeGeneration dir"
      using locked(5)
    proof (cases rule: deployLocked_cases)
      case (deployed previous)
      show ?thesis
        using deployed(4)
      proof (cases rule: deployStaged_cases)
        case (activated fetch staging)
        have "od_Current dir' \<in> {od_Current dir, restoredLink previous}"
          using activateRelease_outcome(2)[OF activated(6)] linkAfter_error[OF assms(2-4)] by auto
        then show ?thesis
          using activeGeneration_cong[of dir' dir] activeGeneration_restored[of dir' previous]
            readDeploymentCurrent_active[OF deployed(1)] readDeploymentCurrent_valid[of "de_Io env" dir] deployed(1)
          by auto
      qed (rule activeGeneration_cong)
    qed (auto intro: activeGeneration_cong)
    then show ?thesis
      using activeGeneration_cong[OF locked(3)] locked(1) by simp
  qed (rule activeGeneration_cong)
  then show ?thesis
    using DeployGeneration_failed[OF assms(1)] DeployGeneration_releases[OF assms(1)]
    by (simp add: failedReport_def keepsReleases_def)
qed

lemma activateRelease_ok:
  assumes "activateRelease env opts report previous dir = ((r, None), dir')"
  shows "dr_State r = DeploymentStateSucceeded" "od_Current dir' = Some (deployLink (gdo_Generation opts))"
    "od_Releases dir' = od_Releases dir"
    "\<forall>verify. gdo_Verify opts = Some verify \<longrightarrow> verify dir' = None"
    "\<forall>reload. gdo_Reload opts = Some reload \<longrightarrow> reload dir' = None"
  using assms activateRelease_outcome[OF assms]
  by (auto simp: activateRelease_def deployFail_def linkAfter_def Let_def split: option.splits prod.splits)

lemma DeployGeneration_ok:
  assumes "DeployGeneration env opts out w = (((r, None), out'), w')" "ok w"
    and kept: "\<And>fetch. gdo_Fetch opts = Some fetch \<Longrightarrow> keepsFact fetch ok"
  shows "\<exists>dir'. out' = DirAt dir' \<and> activeGeneration dir' = Some (gdo_Generation opts) \<and>
     (if activeGeneration (dirOf out) = Some (gdo_Generation opts) then dr_State r = DeploymentStateSkipped
      else dr_State r = DeploymentStateSucceeded \<and>
        (\<exists>fetch data. gdo_Fetch opts = Some fetch \<and>
           releaseOf dir' (gdo_Generation opts) = Some (EntryDir (stagedDir data fixedFileNames)) \<and>
           (\<forall>name\<in>set fixedFileNames. (\<exists>w. ok w \<and> fst (fetch name w) = Inr (data name)) \<and>
              itemMatches (de_Lib env) (manifestItem (gdo_Manifest opts) name) (data name)) \<and>
           validateStagedCertificate env (stagedDir data fixedFileNames) (gdo_Domain opts) (gdo_SAN opts) (de_Now env) = None) \<and>
        (\<forall>verify. gdo_Verify opts = Some verify \<longrightarrow> verify dir' = None) \<and>
        (\<forall>reload. gdo_Reload opts = Some reload \<longrightarrow> reload dir' = None))"
  using assms(1)
proof (cases rule: DeployGeneration_cases)
  case (locked dir dir')
  have active: "activeGeneration (dirOf out) = activeGeneration dir"
    using activeGeneration_cong[OF locked(3)] by simp
  show ?thesis
    using locked(5)
  proof (cases rule: deployLocked_cases)
    case skipped
    then show ?thesis
      using locked(1) active by simp
  next
    case (deployed previous)
    show ?thesis
      using deployed(4)
    proof (cases rule: deployStaged_cases)
      case (activated fetch staging)
      obtain data where data: "staging = stagedDir data fixedFileNames"
        "\<forall>n\<in>set fixedFileNames. (\<exists>w. ok w \<and> fst (fetch n w) = Inr (data n)) \<and>
           itemMatches (de_Lib env) (manifestItem (gdo_Manifest opts) n) (data n)"
        using stageFiles_ok[OF activated(3) distinct_fixedFileNames assms(2) kept[OF activated(1)]] by auto
      note ok = activateRelease_ok[OF activated(6)]
      have "releaseOf dir' (gdo_Generation opts) = Some (EntryDir staging)"
        using ok(3) releaseOf_add[of "gdo_Generation opts" staging dir] activated(4) by (simp add: releaseOf_def)
      moreover have "activeGeneration dir' = Some (gdo_Generation opts)"
        using activeGeneration_link[OF locked(2) ok(2)] .
      moreover have "activeGeneration dir \<noteq> Some (gdo_Generation opts)"
        using readDeploymentCurrent_active[OF deployed(1)] deployed(2) by simp
      ultimately show ?thesis
        using locked(1) active ok(1,4,5) activated(1,5) data by auto
    qed simp
  qed simp
qed simp

text \<open>C20: After a deployment without error the link names the requested generation.  When the generation was
  not active before, its release holds exactly the five fixed files with the contents that were
  fetched, each of the size and digest of the manifest, the certificate files passed the check for
  the domain, and the verify and reload commands succeeded on that directory.\<close>

theorem deployed_release:
  assumes "DeployGeneration env opts out w = (((r, None), out'), w')"
  shows "\<exists>dir'. out' = DirAt dir' \<and> activeGeneration dir' = Some (gdo_Generation opts) \<and>
     (if activeGeneration (dirOf out) = Some (gdo_Generation opts) then dr_State r = DeploymentStateSkipped
      else dr_State r = DeploymentStateSucceeded \<and>
        (\<exists>fetch data. gdo_Fetch opts = Some fetch \<and>
           releaseOf dir' (gdo_Generation opts) = Some (EntryDir (stagedDir data fixedFileNames)) \<and>
           (\<forall>name\<in>set fixedFileNames. (\<exists>w. fst (fetch name w) = Inr (data name)) \<and>
              itemMatches (de_Lib env) (manifestItem (gdo_Manifest opts) name) (data name)) \<and>
           validateStagedCertificate env (stagedDir data fixedFileNames) (gdo_Domain opts) (gdo_SAN opts) (de_Now env) = None) \<and>
        (\<forall>verify. gdo_Verify opts = Some verify \<longrightarrow> verify dir' = None) \<and>
        (\<forall>reload. gdo_Reload opts = Some reload \<longrightarrow> reload dir' = None))"
  using DeployGeneration_ok[where ok = "\<lambda>_. True", OF assms] by (simp only: keepsFact_True simp_thms)

section \<open>The active release is always a checked one\<close>

definition checkedRelease :: "CertLib \<Rightarrow> OutDir \<Rightarrow> GenerationID \<Rightarrow> bool" where
  "checkedRelease lib dir g \<longleftrightarrow>
     (\<exists>env data domain san now. de_Lib env = lib \<and>
        releaseOf dir g = Some (EntryDir (stagedDir data fixedFileNames)) \<and>
        validateStagedCertificate env (stagedDir data fixedFileNames) domain san now = None)"

definition deployInv :: "CertLib \<Rightarrow> OutDir \<Rightarrow> bool" where
  "deployInv lib dir \<longleftrightarrow> (\<forall>g. activeGeneration dir = Some g \<longrightarrow> checkedRelease lib dir g)"

lemma checkedRelease_keeps: "checkedRelease lib dir g \<Longrightarrow> keepsReleases dir dir' \<Longrightarrow> checkedRelease lib dir' g"
  unfolding checkedRelease_def keepsReleases_def by blast

lemma deployInv_keeps:
  "deployInv lib dir \<Longrightarrow> keepsReleases dir dir' \<Longrightarrow> activeGeneration dir' = activeGeneration dir \<Longrightarrow> deployInv lib dir'"
  using checkedRelease_keeps unfolding deployInv_def by auto

lemma linkAfter_bound: "linkAfter g previous cur err \<subseteq> {cur, restoredLink previous, Some (deployLink g)}"
  by (auto simp: linkAfter_def split: option.splits DeployErr.splits)

lemma activated_deployInv:
  assumes run: "activateRelease env opts report previous (addOutRelease g staging dir) = ((r, err), dir')"
    and g: "g = gdo_Generation opts" "ValidateGenerationID g = None" "releaseOf dir g = None"
    and current: "readDeploymentCurrent (de_Io env) dir = Inr previous"
    and inv: "deployInv (de_Lib env) dir"
    and staged: "staging = stagedDir data fixedFileNames"
      "validateStagedCertificate env staging (gdo_Domain opts) (gdo_SAN opts) (de_Now env) = None"
  shows "deployInv (de_Lib env) dir'"
proof -
  note outcome = activateRelease_outcome[OF run]
  have kept: "keepsReleases dir dir'"
    using outcome(1) keepsReleases_add keepsReleases_same keepsReleases_trans by metis
  have "releaseOf dir' g = Some (EntryDir staging)"
    using outcome(1) releaseOf_add[of g staging dir] g(3) by (simp add: releaseOf_def)
  then have new: "checkedRelease (de_Lib env) dir' g"
    using staged unfolding checkedRelease_def by blast
  have active: "activeGeneration dir = previous"
    using readDeploymentCurrent_active[OF current] .
  have "od_Current dir' \<in> {od_Current dir, restoredLink previous, Some (deployLink g)}"
    using subsetD[OF linkAfter_bound outcome(2)] g(1) by simp
  then consider "od_Current dir' = od_Current dir" | "od_Current dir' = restoredLink previous"
    | "od_Current dir' = Some (deployLink g)"
    by blast
  then have "activeGeneration dir' = activeGeneration dir \<or> activeGeneration dir' = Some g"
  proof cases
    case 1
    then show ?thesis by (intro disjI1 activeGeneration_cong)
  next
    case 2
    then show ?thesis
      using activeGeneration_restored[OF 2] readDeploymentCurrent_valid(1)[of "de_Io env" dir] current active by simp
  next
    case 3
    then show ?thesis using activeGeneration_link[OF g(2)] by simp
  qed
  then show ?thesis
    using deployInv_keeps[OF inv kept] new unfolding deployInv_def by auto
qed

lemma DeployGeneration_deployInv:
  assumes "DeployGeneration env opts out w = (((r, err), out'), w')" "deployInv (de_Lib env) (dirOf out)"
  shows "deployInv (de_Lib env) (dirOf out')"
  using assms(1)
proof (cases rule: DeployGeneration_cases)
  case (given_up e)
  then show ?thesis
    by (intro deployInv_keeps[OF assms(2)] activeGeneration_cong)
next
  case (locked dir dir')
  have inv: "deployInv (de_Lib env) dir"
    using assms(2) locked(4) activeGeneration_cong[OF locked(3)] unfolding deployInv_def checkedRelease_def by simp
  have "deployInv (de_Lib env) dir'"
    using locked(5)
  proof (cases rule: deployLocked_cases)
    case (given_up e)
    then show ?thesis by (intro deployInv_keeps[OF inv] activeGeneration_cong)
  next
    case (deployed previous)
    show ?thesis
      using deployed(4)
    proof (cases rule: deployStaged_cases)
      case (given_up e)
      then show ?thesis by (intro deployInv_keeps[OF inv] activeGeneration_cong)
    next
      case (activated fetch staging)
      obtain data where "staging = stagedDir data fixedFileNames"
        using stageFiles_ok[where ok = "\<lambda>_. True", OF activated(3)] by auto
      then show ?thesis
        using activated_deployInv[OF activated(6) refl locked(2) activated(4) deployed(1) inv] activated(5) by blast
    qed
  qed (use inv in simp)
  then show ?thesis
    using locked(1) by simp
qed

text \<open>
  The directories the client can produce, with its surroundings: it starts without a link, every run
  may fail anywhere, and the surroundings change at will between runs.
\<close>

inductive deployReach :: "CertLib \<Rightarrow> OutDir \<Rightarrow> 'w \<Rightarrow> bool" for lib where
  start: "od_Current dir = None \<Longrightarrow> deployReach lib dir w"
| elsewhere: "deployReach lib dir w \<Longrightarrow> deployReach lib dir w'"
| run: "deployReach lib dir w \<Longrightarrow> de_Lib env = lib
    \<Longrightarrow> DeployGeneration env opts (DirAt dir) w = ((result, DirAt dir'), w') \<Longrightarrow> deployReach lib dir' w'"

lemma deployReach_inv: "deployReach lib dir w \<Longrightarrow> deployInv lib dir"
proof (induction rule: deployReach.induct)
  case (start dir w)
  then show ?case by (simp add: deployInv_def activeGeneration_def readDeploymentCurrent_def)
next
  case (run dir w env opts result dir' w')
  then show ?case
    using DeployGeneration_deployInv[of env opts "DirAt dir" w "fst result" "snd result" "DirAt dir'" w'] by simp
qed

text \<open>In every directory the client can reach, through any sequence of deployments with any failing system
  calls, commands and downloads, the generation the link names has a release with exactly the five
  fixed files, and these files had passed the certificate check before the link was set.\<close>

theorem active_release_checked:
  assumes "deployReach lib dir w" "activeGeneration dir = Some g"
  shows "\<exists>env data domain san now. de_Lib env = lib \<and>
     releaseOf dir g = Some (EntryDir (stagedDir data fixedFileNames)) \<and>
     validateStagedCertificate env (stagedDir data fixedFileNames) domain san now = None"
  using deployReach_inv[OF assms(1)] assms(2) unfolding deployInv_def checkedRelease_def by blast

section \<open>What the next run makes of it\<close>

lemma existing_release_blocks:
  assumes "DeployGeneration env opts out w = (((r, err), out'), w')"
    and "releaseOf (dirOf out) (gdo_Generation opts) \<noteq> None"
    and "activeGeneration (dirOf out) \<noteq> Some (gdo_Generation opts)"
  shows "err \<noteq> None"
  using assms(1)
proof (cases rule: DeployGeneration_cases)
  case (locked dir dir')
  show ?thesis
    using locked(5)
  proof (cases rule: deployLocked_cases)
    case skipped
    then show ?thesis using assms(3) activeGeneration_cong[OF locked(3)] by simp
  next
    case (deployed previous)
    show ?thesis
      using deployed(4)
    proof (cases rule: deployStaged_cases)
      case (activated fetch staging)
      then show ?thesis using assms(2) locked(4) by simp
    qed simp
  qed simp
qed simp

text \<open>A generation whose verify command failed once can never be deployed again on that client: the roll
  back leaves its release behind, and every later run for it, with whatever options and whatever
  the state of the commands, ends with an error.\<close>

theorem verify_failure_final:
  assumes "DeployGeneration env opts out w = (((r, Some (DeployVerifyFailed msg)), out'), w')"
    and "DeployGeneration env2 opts2 out' w2 = (((r2, err2), out2), w3)" "gdo_Generation opts2 = gdo_Generation opts"
  shows "err2 \<noteq> None"
  using assms(1)
proof (cases rule: DeployGeneration_cases)
  case (locked dir dir')
  show ?thesis
    using locked(5)
  proof (cases rule: deployLocked_cases)
    case (deployed previous)
    show ?thesis
      using deployed(4)
    proof (cases rule: deployStaged_cases)
      case (activated fetch staging)
      note outcome = activateRelease_outcome[OF activated(6)]
      have "releaseOf dir' (gdo_Generation opts) = Some (EntryDir staging)"
        using outcome(1) releaseOf_add[of "gdo_Generation opts" staging dir] activated(4) by (simp add: releaseOf_def)
      moreover have "activeGeneration dir' = previous"
        using outcome(2) activeGeneration_restored[of dir' previous] readDeploymentCurrent_valid(1)[of "de_Io env" dir]
          deployed(1) by (simp add: linkAfter_def)
      ultimately show ?thesis
        using existing_release_blocks[OF assms(2)] assms(3) locked(1) deployed(2) by simp
    qed (simp add: earlyError_def)
  qed (simp_all add: earlyError_def)
qed (simp add: earlyError_def)

lemma assertSafeRelease_staged:
  assumes "releaseOf dir g = Some (EntryDir (stagedDir data fixedFileNames))" "\<not> de_Io env DpReadRelease"
  shows "assertSafeRelease env dir g = None"
proof -
  let ?es = "stagedDir data fixedFileNames"
  have "length ?es = length fixedFileNames" "map fst ?es = fixedFileNames"
    by (simp_all add: stagedDir_def comp_def)
  moreover have "list_all (\<lambda>(n, node). n \<in> set fixedFileNames \<and> isOk (readRegularFile ?es n)) ?es"
    using stagedDir_lookup[of _ fixedFileNames data]
    by (auto simp: list_all_iff readRegularFile_def) (auto simp: stagedDir_def)
  ultimately show ?thesis
    using assms by (simp add: assertSafeRelease_def releaseOf_def list_all_iff del: set_map)
qed

lemma active_deployment_skipped:
  assumes "releaseOf dir g = Some (EntryDir (stagedDir data fixedFileNames))" "od_Current dir = Some (deployLink g)"
    and "od_Releases dir = DirAt es" "gdo_Generation opts = g" "ValidateGenerationID g = None"
    and "gdo_Domain opts \<noteq> []" "gdo_OutDir opts \<noteq> []" "de_Io env = (\<lambda>_. False)"
  shows "DeployGeneration env opts (DirAt dir) w =
    ((((deployingReport g)\<lparr>dr_State := DeploymentStateSkipped, dr_Success := True, dr_Verified := True,
        dr_Reloaded := True, dr_Message := MsgAlreadyCurrent\<rparr>, None), DirAt dir), w)"
proof -
  have "readDeploymentCurrent (de_Io env) dir = Inr (Some g)"
    using assms(2,5,8) by (simp add: readDeploymentCurrent_def deployLink_def deploymentLinkTarget_deployLink[simplified])
  moreover have "assertSafeRelease env dir g = None"
    using assertSafeRelease_staged[OF assms(1)] assms(8) by simp
  ultimately have "deployLocked env opts (deployingReport g) dir w =
     ((((deployingReport g)\<lparr>dr_State := DeploymentStateSkipped, dr_Success := True, dr_Verified := True,
        dr_Reloaded := True, dr_Message := MsgAlreadyCurrent\<rparr>, None), dir), w)"
    using assms(4) by (simp add: deployLocked_def)
  moreover have same: "dir\<lparr>od_Releases := DirAt es\<rparr> = dir"
    using assms(3) by (cases dir) simp
  moreover have "DeployGeneration env opts (DirAt dir) w =
      (let ((result, dir'), w') = deployLocked env opts (deployingReport g) (dir\<lparr>od_Releases := DirAt es\<rparr>) w
       in ((result, DirAt dir'), w'))"
    using assms(3-8) by (simp add: DeployGeneration_def ensureSecureDirectory_def)
  ultimately show ?thesis
    unfolding same by simp
qed

text \<open>A run that switched the link and then failed, in the reload command or in the sync of the directory,
  is never finished: the next run finds the generation current and reports it as skipped, verified
  and reloaded, without running the verify or the reload command.\<close>

theorem unfinished_deployment_skipped:
  assumes "DeployGeneration env opts out w = (((r, Some e), out'), w')"
    and "(\<exists>msg. e = DeployReloadFailed msg) \<or> e = DeployIOFailed (DpSwitch LinkSync)"
    and "gdo_Generation opts2 = gdo_Generation opts" "gdo_Domain opts2 \<noteq> []" "gdo_OutDir opts2 \<noteq> []"
    and "de_Io env2 = (\<lambda>_. False)"
  shows "DeployGeneration env2 opts2 out' w2 =
    ((((deployingReport (gdo_Generation opts))\<lparr>dr_State := DeploymentStateSkipped, dr_Success := True,
        dr_Verified := True, dr_Reloaded := True, dr_Message := MsgAlreadyCurrent\<rparr>, None), out'), w2)"
proof -
  have late: "\<not> earlyError e"
    using assms(2) by (auto simp: earlyError_def)
  show ?thesis
    using assms(1)
  proof (cases rule: DeployGeneration_cases)
    case (locked dir dir')
    show ?thesis
      using locked(5)
    proof (cases rule: deployLocked_cases)
      case (deployed previous)
      show ?thesis
        using deployed(4)
      proof (cases rule: deployStaged_cases)
        case (activated fetch staging)
        note outcome = activateRelease_outcome[OF activated(6)]
        obtain data where data: "staging = stagedDir data fixedFileNames"
          using stageFiles_ok[where ok = "\<lambda>_. True", OF activated(3)] by auto
        have "releaseOf dir' (gdo_Generation opts) = Some (EntryDir staging)"
          using outcome(1) releaseOf_add[of "gdo_Generation opts" staging dir] activated(4) by (simp add: releaseOf_def)
        moreover have "od_Current dir' = Some (deployLink (gdo_Generation opts))"
          using outcome(2) assms(2) by (auto simp: linkAfter_def)
        ultimately show ?thesis
          using active_deployment_skipped[of dir' _ data _ opts2 env2] locked(1,2) assms(3-6) data outcome(1)
          by (simp add: addOutRelease_def)
      qed (use late in simp)
    qed (use late in simp_all)
  qed (use late in simp)
qed

section \<open>Concrete runs\<close>

definition demoDeployEnv :: "(DeployPoint \<Rightarrow> bool) \<Rightarrow> DeployEnv" where
  "demoDeployEnv io = \<lparr>de_Lib = demoLib, de_Io = io, de_ErrorText = (\<lambda>_. ''failed''), de_Staging = ''0'', de_Now = 1\<rparr>"

definition demoDeployOpts :: "string option \<Rightarrow> string option \<Rightarrow> unit GenerationDeployOpts" where
  "demoDeployOpts verify reload =
     \<lparr>gdo_Domain = ''a.b'', gdo_SAN = [], gdo_OutDir = ''/out'', gdo_Generation = ''g-2'',
      gdo_Manifest = gm_Files (demoManifest ''g-2'' 2), gdo_Fetch = Some (\<lambda>n w. (Inr (fileBytes demoFiles n), w)),
      gdo_Verify = Some (\<lambda>_. verify), gdo_Reload = Some (\<lambda>_. reload)\<rparr>"

definition demoOut :: OutDir where
  "demoOut = \<lparr>od_Releases = DirAt [(''g-1'', EntryDir (stagedDir (fileBytes demoFiles) fixedFileNames))],
              od_Current = Some (deployLink ''g-1'')\<rparr>"

definition demoOut2 :: OutDir where
  "demoOut2 = addOutRelease ''g-2'' (stagedDir (fileBytes demoFiles) fixedFileNames) demoOut"

text \<open>The client accepts the manifests the certificate store accepts.\<close>

lemma validateDeploymentManifest_store: "validateDeploymentManifest m = None \<longleftrightarrow> validateManifest m = None"
  by (simp add: validateDeploymentManifest_def validateManifest_def)

lemma demo_files_manifest: "validateManifest (gm_Files (demoManifest g r)) = None"
proof -
  have "gm_Files (demoManifest g r) = gm_Files (demoManifest ''g-1'' 1)"
    by (simp add: demoManifest_def)
  then show ?thesis
    using demo_build[of "''g-1''" 1] by (auto simp: buildGenerationManifest_def buildManifest_def Let_def dest!: arg_cong[where f = gm_Files]
        split: if_splits option.splits)
qed

definition switchFault :: "bool \<Rightarrow> DeployPoint \<Rightarrow> bool" where
  "switchFault fails p \<longleftrightarrow> fails \<and> p = DpSwitch LinkSync"

lemma demo_stage:
  "stageFiles (demoDeployEnv (switchFault fails)) (\<lambda>n w. (Inr (fileBytes demoFiles n), w)) (gm_Files (demoManifest g r)) fixedFileNames [] w
     = ((None, stagedDir (fileBytes demoFiles) fixedFileNames), w)"
proof -
  have "manifestItem (gm_Files (demoManifest g r)) n = \<lparr>fm_Name = n, fm_Size = 1, fm_SHA256 = hexEncode demoDigest\<rparr>"
    if "n \<in> set fixedFileNames" for n
    using that by (auto simp: manifestItem_def demoManifest_def fixedFileNames_def)
  moreover have "writeAndValidateStagedFile (demoDeployEnv (switchFault fails)) n
      \<lparr>fm_Name = n, fm_Size = 1, fm_SHA256 = hexEncode demoDigest\<rparr> (fileBytes demoFiles n) s
      = (None, s @ [(n, Regular (fileBytes demoFiles n))])"
    if "n \<in> set fixedFileNames" "map_of s n = None" for n s
    using that demo_bytes(1)[OF that(1)]
    by (simp add: writeAndValidateStagedFile_def demoDeployEnv_def switchFault_def readRegularFile_def map_add_def)
  ultimately show ?thesis
    by (simp add: fixedFileNames_def stagedDir_def)
qed

lemma demo_staged_cert:
  "validateStagedCertificate (demoDeployEnv (switchFault fails)) (stagedDir (fileBytes demoFiles) fixedFileNames) ''a.b'' [] 1 = None"
proof -
  have files: "fileBytes demoFiles ''cert.pem'' = ''C''" "fileBytes demoFiles ''fullchain.pem'' = ''C''"
    "fileBytes demoFiles ''ca.pem'' = ''C''" "fileBytes demoFiles ''key.pem'' = ''K''"
    by (simp_all add: fileBytes_def demoFiles_def)
  have "readStaged (demoDeployEnv (switchFault fails)) (stagedDir (fileBytes demoFiles) fixedFileNames) n = Some (fileBytes demoFiles n)"
    if "n \<in> set fixedFileNames" for n
    using stagedDir_lookup[OF that, of "fileBytes demoFiles"]
    by (simp add: readStaged_def demoDeployEnv_def switchFault_def readRegularFile_def)
  then have read: "readStaged (demoDeployEnv (switchFault fails)) (stagedDir (fileBytes demoFiles) fixedFileNames) ''cert.pem'' = Some ''C''"
    "readStaged (demoDeployEnv (switchFault fails)) (stagedDir (fileBytes demoFiles) fixedFileNames) ''fullchain.pem'' = Some ''C''"
    "readStaged (demoDeployEnv (switchFault fails)) (stagedDir (fileBytes demoFiles) fixedFileNames) ''ca.pem'' = Some ''C''"
    "readStaged (demoDeployEnv (switchFault fails)) (stagedDir (fileBytes demoFiles) fixedFileNames) ''key.pem'' = Some ''K''"
    using files by (simp_all add: fixedFileNames_def)
  have "de_Lib (demoDeployEnv (switchFault fails)) = demoLib"
    by (simp add: demoDeployEnv_def)
  then show ?thesis
    by (simp add: validateStagedCertificate_def parseCertificatePEMFile_def read demo_cert demo_pemKey)
      (simp add: demoLeaf_def inValidity_def)
qed

lemma demo_valid_gens: "ValidateGenerationID ''g-2'' = None" "ValidateGenerationID ''g-1'' = None"
  by (simp_all add: valid_simps safeSegment_def isUnreserved_def byteIn_def byteval_def)

lemma demo_deploy_from:
  assumes "readDeploymentCurrent (de_Io (demoDeployEnv (switchFault fails))) dir = Inr previous"
    and "previous \<in> {None, Some ''g-1''}" "od_Releases dir = od_Releases demoOut"
  shows "DeployGeneration (demoDeployEnv (switchFault fails)) (demoDeployOpts verify reload) (DirAt dir) () =
    (let (result, dir') = activateRelease (demoDeployEnv (switchFault fails)) (demoDeployOpts verify reload)
        (deployingReport ''g-2'') previous (addOutRelease ''g-2'' (stagedDir (fileBytes demoFiles) fixedFileNames) dir)
     in ((result, DirAt dir'), ()))"
proof -
  let ?env = "demoDeployEnv (switchFault fails)" and ?opts = "demoDeployOpts verify reload"
  let ?es = "stagedDir (fileBytes demoFiles) fixedFileNames" and ?report = "deployingReport ''g-2''"
  have env: "de_Io ?env p \<longleftrightarrow> fails \<and> p = DpSwitch LinkSync" "de_Now ?env = 1" for p
    by (simp_all add: demoDeployEnv_def switchFault_def)
  have opts: "gdo_Generation ?opts = ''g-2''" "gdo_Domain ?opts = ''a.b''" "gdo_SAN ?opts = []" "gdo_OutDir ?opts = ''/out''"
    "gdo_Fetch ?opts = Some (\<lambda>n w. (Inr (fileBytes demoFiles n), w))" "gdo_Manifest ?opts = gm_Files (demoManifest ''g-2'' 2)"
    by (simp_all add: demoDeployOpts_def)
  have releases: "od_Releases dir = DirAt [(''g-1'', EntryDir ?es)]"
    using assms(3) by (simp add: demoOut_def)
  have safe: "assertSafeRelease ?env dir ''g-1'' = None"
    by (rule assertSafeRelease_staged) (simp_all add: env releaseOf_def releases entriesOf_def)
  have fresh: "map_of (entriesOf (od_Releases dir)) ''g-2'' = None"
    by (simp add: releases entriesOf_def)
  have published: "publishStaged ?env ?opts ?report previous ?es dir =
      activateRelease ?env ?opts ?report previous (addOutRelease ''g-2'' ?es dir)"
    using demo_staged_cert[of fails] fresh by (simp add: publishStaged_def env opts Let_def)
  have "deployStaged ?env ?opts ?report previous dir () =
      (activateRelease ?env ?opts ?report previous (addOutRelease ''g-2'' ?es dir), ())"
    using demo_stage[of fails "''g-2''" 2 "()"] published
      validateDeploymentManifest_store[of "gm_Files (demoManifest ''g-2'' 2)"] demo_files_manifest[of "''g-2''" 2]
    by (simp add: deployStaged_def env opts)
  then have locked: "deployLocked ?env ?opts ?report dir () =
      (activateRelease ?env ?opts ?report previous (addOutRelease ''g-2'' ?es dir), ())"
    using assms(1,2) safe by (auto simp: deployLocked_def opts)
  have same: "dir\<lparr>od_Releases := DirAt [(''g-1'', EntryDir ?es)]\<rparr> = dir"
    using releases by (cases dir) simp
  have "DeployGeneration ?env ?opts (DirAt dir) () =
      (let ((result, dir'), w') = deployLocked ?env ?opts ?report (dir\<lparr>od_Releases := DirAt [(''g-1'', EntryDir ?es)]\<rparr>) ()
       in ((result, DirAt dir'), w'))"
    using demo_valid_gens releases by (simp add: DeployGeneration_def env opts ensureSecureDirectory_def)
  then show ?thesis
    unfolding same locked by (simp add: Let_def split: prod.split)
qed

lemma demo_deploy:
  "DeployGeneration (demoDeployEnv (switchFault fails)) (demoDeployOpts verify reload) (DirAt demoOut) () =
    (let (result, dir) = activateRelease (demoDeployEnv (switchFault fails)) (demoDeployOpts verify reload)
                           (deployingReport ''g-2'') (Some ''g-1'') demoOut2 in ((result, DirAt dir), ()))"
proof -
  have "readDeploymentCurrent (de_Io (demoDeployEnv (switchFault fails))) demoOut = Inr (Some ''g-1'')"
    using demo_valid_gens(2) deploymentLinkTarget_deployLink[of "''g-1''"]
    by (simp add: readDeploymentCurrent_def demoOut_def deployLink_def demoDeployEnv_def switchFault_def)
  from demo_deploy_from[OF this] show ?thesis
    by (simp add: demoOut2_def)
qed

lemma demo_current_out: "od_Current demoOut = Some (deployLink ''g-1'')" "od_Current demoOut2 = Some (deployLink ''g-1'')"
  by (simp_all add: demoOut2_def demoOut_def)

lemma demo_active: "activeGeneration demoOut = Some ''g-1''"
  by (rule activeGeneration_link[OF demo_valid_gens(2) demo_current_out(1)])

lemma demo_write_current:
  "writeDeploymentCurrent (demoDeployEnv (switchFault fails)) DpSwitch ''g-2'' demoOut2 =
     (if fails then Some (DeployIOFailed (DpSwitch LinkSync)) else None, demoOut2\<lparr>od_Current := Some (deployLink ''g-2'')\<rparr>)"
  "writeDeploymentCurrent (demoDeployEnv (switchFault fails)) DpRestore ''g-1'' dir =
     (if od_Current dir = Some CurrentOther then (Some DeployCurrentUnsafe, dir)
      else (None, dir\<lparr>od_Current := Some (deployLink ''g-1'')\<rparr>))"
  using demo_valid_gens demo_current_out
  by (simp_all add: writeDeploymentCurrent_def demoDeployEnv_def switchFault_def deployLink_def)

definition demoSwitched :: OutDir where
  "demoSwitched = demoOut2\<lparr>od_Current := Some (deployLink ''g-2'')\<rparr>"

lemma demo_deploy_runs:
  "DeployGeneration (demoDeployEnv (switchFault False)) (demoDeployOpts (Some ''down'') reload) (DirAt demoOut) () =
     (((deploymentFailure (demoDeployEnv (switchFault False)) (deployingReport ''g-2'') (DeployVerifyFailed ''down'') False,
       Some (DeployVerifyFailed ''down'')), DirAt demoOut2), ())"
  "DeployGeneration (demoDeployEnv (switchFault False)) (demoDeployOpts None (Some ''down'')) (DirAt demoOut) () =
     (((deploymentFailure (demoDeployEnv (switchFault False)) ((deployingReport ''g-2'')\<lparr>dr_Verified := True\<rparr>)
         (DeployReloadFailed ''down'') True, Some (DeployReloadFailed ''down'')), DirAt demoSwitched), ())"
  "DeployGeneration (demoDeployEnv (switchFault False)) (demoDeployOpts None None) (DirAt demoOut) () =
     ((((deployingReport ''g-2'')\<lparr>dr_Verified := True, dr_Reloaded := True, dr_State := DeploymentStateSucceeded,
         dr_Success := True, dr_Message := MsgDeployed\<rparr>, None), DirAt demoSwitched), ())"
proof -
  have restored: "demoSwitched\<lparr>od_Current := Some (deployLink ''g-1'')\<rparr> = demoOut2"
    using demo_current_out(2) by (cases demoOut2) (simp add: demoSwitched_def)
  have "od_Current demoSwitched \<noteq> Some CurrentOther"
    by (simp add: demoSwitched_def deployLink_def)
  then have restore: "writeDeploymentCurrent (demoDeployEnv (switchFault False)) DpRestore ''g-1'' demoSwitched = (None, demoOut2)"
    using demo_write_current(2)[of False demoSwitched] restored by simp
  have opts: "gdo_Generation (demoDeployOpts v r) = ''g-2''" "gdo_Verify (demoDeployOpts v r) = Some (\<lambda>_. v)"
    "gdo_Reload (demoDeployOpts v r) = Some (\<lambda>_. r)" for v r
    by (simp_all add: demoDeployOpts_def)
  note steps = activateRelease_def opts demo_write_current(1)[folded demoSwitched_def] restoreDeploymentCurrent_def restore
  show "DeployGeneration (demoDeployEnv (switchFault False)) (demoDeployOpts (Some ''down'') reload) (DirAt demoOut) () =
     (((deploymentFailure (demoDeployEnv (switchFault False)) (deployingReport ''g-2'') (DeployVerifyFailed ''down'') False,
       Some (DeployVerifyFailed ''down'')), DirAt demoOut2), ())"
    unfolding demo_deploy by (simp add: steps Let_def)
  show "DeployGeneration (demoDeployEnv (switchFault False)) (demoDeployOpts None (Some ''down'')) (DirAt demoOut) () =
     (((deploymentFailure (demoDeployEnv (switchFault False)) ((deployingReport ''g-2'')\<lparr>dr_Verified := True\<rparr>)
         (DeployReloadFailed ''down'') True, Some (DeployReloadFailed ''down'')), DirAt demoSwitched), ())"
    unfolding demo_deploy by (simp add: steps Let_def)
  show "DeployGeneration (demoDeployEnv (switchFault False)) (demoDeployOpts None None) (DirAt demoOut) () =
     ((((deployingReport ''g-2'')\<lparr>dr_Verified := True, dr_Reloaded := True, dr_State := DeploymentStateSucceeded,
         dr_Success := True, dr_Message := MsgDeployed\<rparr>, None), DirAt demoSwitched), ())"
    unfolding demo_deploy by (simp add: steps Let_def)
qed

theorem failed_deployment_restores_witness:
  "activeGeneration demoOut2 = Some ''g-1'' \<and> releaseOf demoOut2 ''g-1'' = releaseOf demoOut ''g-1''"
proof -
  have release: "releaseOf demoOut ''g-1'' = Some (EntryDir (stagedDir (fileBytes demoFiles) fixedFileNames))"
    by (simp add: releaseOf_def demoOut_def entriesOf_def)
  show ?thesis
    using failed_deployment_restores[OF demo_deploy_runs(1)] demo_active release by simp
qed

theorem deployed_release_witness:
  "activeGeneration demoSwitched = Some ''g-2'' \<and>
   (\<exists>data. releaseOf demoSwitched ''g-2'' = Some (EntryDir (stagedDir data fixedFileNames)))"
  using deployed_release[OF demo_deploy_runs(3)] demo_active by (auto simp: demoDeployOpts_def)

theorem active_release_checked_witness:
  "\<exists>dir. deployReach demoLib dir () \<and> (\<exists>data. releaseOf dir ''g-2'' = Some (EntryDir (stagedDir data fixedFileNames)))"
proof -
  let ?env = "demoDeployEnv (switchFault False)" and ?dir = "demoOut\<lparr>od_Current := None\<rparr>"
  have "readDeploymentCurrent (de_Io ?env) ?dir = Inr None"
    by (simp add: readDeploymentCurrent_None demoDeployEnv_def switchFault_def)
  note run = demo_deploy_from[OF this, of None None]
  obtain result dir where step: "DeployGeneration ?env (demoDeployOpts None None) (DirAt ?dir) () = ((result, DirAt dir), ())"
    and act: "activateRelease ?env (demoDeployOpts None None) (deployingReport ''g-2'') None
        (addOutRelease ''g-2'' (stagedDir (fileBytes demoFiles) fixedFileNames) ?dir) = (result, dir)"
    using run by (auto simp: Let_def split: prod.splits)
  have reach: "deployReach demoLib dir ()"
    by (rule deployReach.run[OF deployReach.start _ step]) (simp_all add: demoDeployEnv_def)
  have "od_Current dir = Some (deployLink ''g-2'')"
    using act demo_valid_gens
    by (auto simp: activateRelease_def writeDeploymentCurrent_def demoDeployEnv_def switchFault_def demoDeployOpts_def Let_def)
  then have "activeGeneration dir = Some ''g-2''"
    by (rule activeGeneration_link[OF demo_valid_gens(1)])
  then show ?thesis
    using active_release_checked[OF reach] reach by blast
qed

theorem verify_failure_final_witness:
  "snd (fst (fst (DeployGeneration (demoDeployEnv (switchFault False)) (demoDeployOpts None None) (DirAt demoOut2) ()))) \<noteq> None"
proof -
  obtain r2 err2 out2 where run: "DeployGeneration (demoDeployEnv (switchFault False)) (demoDeployOpts None None)
      (DirAt demoOut2) () = (((r2, err2), out2), ())"
    by (metis surj_pair old.unit.exhaust)
  then show ?thesis
    using verify_failure_final[OF demo_deploy_runs(1) run] by (simp add: demoDeployOpts_def)
qed

theorem unfinished_deployment_skipped_witness:
  "snd (fst (fst (DeployGeneration (demoDeployEnv (\<lambda>_. False)) (demoDeployOpts (Some ''x'') (Some ''y'')) (DirAt demoSwitched) ()))) = None"
proof -
  have "DeployGeneration (demoDeployEnv (\<lambda>_. False)) (demoDeployOpts (Some ''x'') (Some ''y'')) (DirAt demoSwitched) ()
      = ((((deployingReport (gdo_Generation (demoDeployOpts None (Some ''down''))))\<lparr>dr_State := DeploymentStateSkipped,
           dr_Success := True, dr_Verified := True, dr_Reloaded := True, dr_Message := MsgAlreadyCurrent\<rparr>, None),
         DirAt demoSwitched), ())"
    by (rule unfinished_deployment_skipped[OF demo_deploy_runs(2)]) (simp_all add: demoDeployOpts_def demoDeployEnv_def)
  then show ?thesis by simp
qed

end
