(* ===== verification/ClientProofs.thy ===== *)
theory ClientProofs
  imports ClientApply DeployProofs
begin

text \<open>
  The client flow: how many requests a run can make, what a download and an application guarantee,
  and what becomes of the idempotency key and of the reports.
\<close>

section \<open>Requests are bounded\<close>

text \<open>The only surroundings a deployment touches are those of its downloads.\<close>

lemma DeployGeneration_world:
  assumes "DeployGeneration env opts out w = (x, w')"
  obtains "w' = w" | fetch where "gdo_Fetch opts = Some fetch"
    "w' = snd (stageFiles env fetch (gdo_Manifest opts) fixedFileNames [] w)"
proof -
  have staged: "w' = w \<or> (\<exists>fetch. gdo_Fetch opts = Some fetch \<and>
      w' = snd (stageFiles env fetch (gdo_Manifest opts) fixedFileNames [] w))"
    if "deployStaged env opts report previous dir w = (y, w')" for report previous dir y
    using that by (auto simp: deployStaged_def split: option.splits if_splits prod.splits)
  have locked: "w' = w \<or> (\<exists>fetch. gdo_Fetch opts = Some fetch \<and>
      w' = snd (stageFiles env fetch (gdo_Manifest opts) fixedFileNames [] w))"
    if "deployLocked env opts report dir w = (y, w')" for report dir y
    using that staged by (auto simp: deployLocked_def split: sum.splits option.splits if_splits)
  have "w' = w \<or> (\<exists>fetch. gdo_Fetch opts = Some fetch \<and>
      w' = snd (stageFiles env fetch (gdo_Manifest opts) fixedFileNames [] w))"
  proof (rule ccontr)
    assume n: "\<not> ?thesis"
    then have "w' \<noteq> w"
      by simp
    then obtain report dir y where "deployLocked env opts report dir w = (y, w')"
      using assms by (auto simp: DeployGeneration_def Let_def split: if_splits option.splits prod.splits DirNode.splits)
    then show False
      using locked n by blast
  qed
  then show thesis
    using that by blast
qed

text \<open>
  The interface between the client and its surroundings, as far as counting goes: an attempt counts
  once and waiting does not count.
\<close>

locale metered =
  fixes tp :: "'w Transport" and meter :: "'w \<Rightarrow> nat"
  assumes do_counts: "tp_Do tp method path body w = (x, w') \<Longrightarrow> meter w' \<le> Suc (meter w)"
    and sleep_free: "tp_Sleep tp d w = (y, w') \<Longrightarrow> meter w' \<le> meter w"
begin

lemma loop_count: "doRequestLoop tp mn mx method path body left w = (r, w') \<Longrightarrow> meter w' \<le> meter w + left + 1"
proof (induction left arbitrary: w)
  case 0
  obtain x w1 where d: "tp_Do tp method path body w = (x, w1)"
    by fastforce
  have "w' = w1"
    using 0 d by (subst (asm) doRequestLoop.simps) (auto split: Exchange.splits if_splits)
  then show ?case
    using do_counts[OF d] by simp
next
  case (Suc n)
  obtain x w1 where d: "tp_Do tp method path body w = (x, w1)"
    by fastforce
  note counted = do_counts[OF d]
  have rest: "meter w' \<le> meter w1 + n + 1"
    if "doRequestLoop tp mn mx method path body n w1 = (r, w')"
    using Suc.IH[OF that] .
  have slept: "meter w' \<le> meter w1 + n + 1"
    if s: "tp_Sleep tp dl w1 = (e, w2)"
      and k: "(case e of Some e \<Rightarrow> (Inl (ClCancelled e), w2)
               | None \<Rightarrow> doRequestLoop tp mn mx method path body n w2) = (r, w')" for dl e w2
    using sleep_free[OF s] k Suc.IH[of w2] by (cases e) auto
  have "w' = w1 \<or> meter w' \<le> meter w1 + n + 1"
    using Suc.prems d rest slept
    by (subst (asm) doRequestLoop.simps) (auto split: Exchange.splits if_splits prod.splits)
  then show ?case
    using counted by auto
qed

lemma request_count: "doRequestCtx tp c method path body w = (r, w') \<Longrightarrow> meter w' \<le> meter w + 6"
  using loop_count by (fastforce simp: doRequestCtx_def split: option.splits prod.splits)

lemma decoded_count: "getDecoded tp c decode path w = (r, w') \<Longrightarrow> meter w' \<le> meter w + 6"
  using request_count by (fastforce simp: getDecoded_def split: sum.splits prod.splits)

lemma capabilities_count: "ensureCapabilities tp c w = (r, w') \<Longrightarrow> meter w' \<le> meter w + 6"
  using decoded_count by (fastforce simp: ensureCapabilities_def split: sum.splits prod.splits)

lemma manifest_count: "manifestV2 tp c domain g w = (r, w') \<Longrightarrow> meter w' \<le> meter w + 6"
  using decoded_count by (fastforce simp: manifestV2_def split: sum.splits prod.splits)

lemma file_count: "v2FileFetcher tp c text domain g name w = (r, w') \<Longrightarrow> meter w' \<le> meter w + 6"
  using request_count by (fastforce simp: v2FileFetcher_def fetchFile_def split: sum.splits prod.splits)

lemma report_count: "reportDeploymentV2 tp c domain report w = (r, w') \<Longrightarrow> meter w' \<le> meter w + 6"
  using request_count by (fastforce simp: reportDeploymentV2_def split: sum.splits prod.splits)

lemma poll_count: "pollLoop tp c location job delay left w = (r, w') \<Longrightarrow> meter w' \<le> meter w + 6 * left"
proof (induction left arbitrary: job delay w)
  case 0
  then show ?case
    by (subst (asm) pollLoop.simps) (auto split: if_splits)
next
  case (Suc n)
  show ?case
  proof (cases "JobState_IsTerminal (js_State job)")
    case True
    then show ?thesis
      using Suc.prems by (subst (asm) pollLoop.simps) auto
  next
    case False
    obtain e w1 where slept: "tp_Sleep tp (sint delay) w = (e, w1)"
      by fastforce
    obtain x w2 where asked: "doRequestCtx tp c ''GET'' location NoRequestBody w1 = (x, w2)"
      by fastforce
    have "w' = w1 \<or> w' = w2 \<or> (\<exists>job' delay'. pollLoop tp c location job' delay' n w2 = (r, w'))"
      using Suc.prems False slept asked
      by (subst (asm) pollLoop.simps) (auto split: option.splits sum.splits if_splits)
    then show ?thesis
      using sleep_free[OF slept] request_count[OF asked] Suc.IH by fastforce
  qed
qed

lemma reconcile_count: "reconcileV2 tp c domain force key w = (r, w') \<Longrightarrow> meter w' \<le> meter w + 3606"
proof -
  assume run: "reconcileV2 tp c domain force key w = (r, w')"
  obtain path where "w' = w \<or> ReconcileURLPath domain = Inr path"
    using run by (auto simp: reconcileV2_def split: sum.splits)
  moreover obtain x w1 where asked: "doRequestCtx tp c ''POST'' path (ReconcileMap (clientRequest force key)) w = (x, w1)"
    by fastforce
  ultimately have "w' = w \<or> w' = w1 \<or> (\<exists>loc job. pollJobV2 tp c loc job w1 = (r, w'))"
    using run by (auto simp: reconcileV2_def split: sum.splits option.splits if_splits)
  then show ?thesis
    using request_count[OF asked] poll_count by (fastforce simp: pollJobV2_def)
qed

lemma stage_count:
  assumes "\<And>name w x w'. fetch name w = (x, w') \<Longrightarrow> meter w' \<le> meter w + 6"
  shows "stageFiles env fetch m names s w = (x, w') \<Longrightarrow> meter w' \<le> meter w + 6 * length names"
proof (induction names arbitrary: s w)
  case (Cons n names)
  obtain got w1 where fetched: "fetch n w = (got, w1)"
    by fastforce
  have "w' = w1 \<or> (\<exists>s'. stageFiles env fetch m names s' w1 = (x, w'))"
    using Cons.prems fetched by (auto split: sum.splits option.splits prod.splits)
  then show ?case
    using assms[OF fetched] Cons.IH by fastforce
qed simp

lemma deploy_count:
  assumes run: "DeployGeneration env opts out w = (x, w')"
    and fetch: "\<And>fetch name w x w'. gdo_Fetch opts = Some fetch \<Longrightarrow> fetch name w = (x, w') \<Longrightarrow> meter w' \<le> meter w + 6"
  shows "meter w' \<le> meter w + 30"
  using run
proof (cases rule: DeployGeneration_world)
  case (2 f)
  have "meter w' \<le> meter w + 6 * length fixedFileNames"
    using stage_count[OF fetch[OF 2(1)], where m = "gdo_Manifest opts" and names = fixedFileNames and s = "[]" and w = w
        and x = "fst (stageFiles env f (gdo_Manifest opts) fixedFileNames [] w)" and w' = w'] 2(2) by simp
  then show ?thesis
    by (simp add: fixedFileNames_def)
qed simp

lemma deployReport_count:
  assumes "ce_Transport env = tp" "deployAndReport env opts state g revision m disk w = (x, w')"
  shows "meter w' \<le> meter w + 36"
proof -
  obtain y w1 where deployed: "DeployGeneration (ce_Deploy env) (deployOpts env opts g m) (cd_Out disk) w = (y, w1)"
    by fastforce
  have "meter w1 \<le> meter w + 30"
  proof (rule deploy_count[OF deployed])
    fix fetch name u v u'
    assume "gdo_Fetch (deployOpts env opts g m) = Some fetch" "fetch name u = (v, u')"
    then show "meter u' \<le> meter u + 6"
      using file_count assms(1) by (auto simp: deployOpts_def)
  qed
  moreover obtain e report where "reportDeploymentV2 tp (ce_Settings env) (ao_Domain opts) report w1 = (e, w')"
    using assms deployed by (auto simp: deployAndReport_def Let_def split: prod.splits)
  ultimately show ?thesis
    using report_count by fastforce
qed

lemma reconciled_count:
  assumes "ce_Transport env = tp" "applyReconciled env opts state disk w = (x, w')"
  shows "meter w' \<le> meter w + 3648"
proof -
  obtain r w1 where rec: "reconcileV2 tp (ce_Settings env) (ao_Domain opts) (ao_Force opts) (cst_IdempotencyKey state) w = (r, w1)"
    by fastforce
  note counted = reconcile_count[OF rec]
  show ?thesis
  proof (cases "w' = w1")
    case True
    then show ?thesis using counted by simp
  next
    case False
    then obtain reconcile g where g: "r = Inr reconcile"
      and run: "(case manifestFor env opts reconcile g w1 of
                   (Inl e, w2) \<Rightarrow> ((Some e, disk), w2)
                 | (Inr manifest, w2) \<Rightarrow> deployAndReport env opts state g (rc_Revision reconcile) manifest disk w2) = (x, w')"
      using assms rec by (auto simp: applyReconciled_def Let_def split: sum.splits if_splits)
    obtain mr w2 where man: "manifestFor env opts reconcile g w1 = (mr, w2)"
      by fastforce
    have "meter w2 \<le> meter w1 + 6"
      using man manifest_count assms(1) by (auto simp: manifestFor_def split: if_splits)
    moreover have "meter w' \<le> meter w2 + 36"
      using run man deployReport_count[OF assms(1)] by (cases mr) auto
    ultimately show ?thesis
      using counted by simp
  qed
qed

lemma resend_count:
  assumes "ce_Transport env = tp" "resendReport env opts state disk w = (x, w')"
  shows "meter w' \<le> meter w + 6"
proof -
  have "w' = w \<or> (\<exists>report e. reportDeploymentV2 tp (ce_Settings env) (ao_Domain opts) report w = (e, w'))"
    using assms by (auto simp: resendReport_def Let_def split: option.splits if_splits prod.splits)
  then show ?thesis
    using report_count by fastforce
qed

lemma apply_count:
  assumes "ce_Transport env = tp" "ApplyV2 env opts disk w = (x, w')"
  shows "meter w' \<le> meter w + 3660"
proof -
  obtain e w1 where caps: "ensureCapabilities tp (ce_Settings env) w = (e, w1)"
    by fastforce
  note capped = capabilities_count[OF caps]
  show ?thesis
  proof (cases "w' = w \<or> w' = w1")
    case False
    then obtain state disk1 where run: "(case resendReport env opts state disk1 w1 of
          ((Some e, _, disk2), w2) \<Rightarrow> ((Some e, disk2), w2)
        | ((None, state, disk2), w2) \<Rightarrow> applyReconciled env opts state disk2 w2) = (x, w')"
      using assms caps by (auto simp: ApplyV2_def split: if_splits sum.splits option.splits prod.splits)
    obtain f st d w2 where resent: "resendReport env opts state disk1 w1 = ((f, st, d), w2)"
      by (metis surj_pair)
    have "meter w' \<le> meter w2 + 3648"
      using run resent reconciled_count[OF assms(1)] by (cases f) auto
    then show ?thesis
      using capped resend_count[OF assms(1) resent] by simp
  qed (use capped in auto)
qed

end

end
