(* ===== verification/SystemV2.thy ===== *)
theory SystemV2
  imports ClientProofs ClientAuth
begin

text \<open>
  Client and server together: the client's transport is the server of \<^verbatim>\<open>ApiV2\<close> behind a network that
  may lose requests.  An attempt signs the request, the server routes, authenticates and serves it.
\<close>

section \<open>The server as the client's surroundings\<close>

text \<open>The server's state, the clock, and the number of attempts made so far.\<close>

record Network =
  wd_State :: V2State
  wd_Now :: int
  wd_Count :: nat

text \<open>
  What the world does not change: the server, the client's token, the JSON text of the bodies, and
  per attempt the nonce, the server's random bytes, its connection's last row and whether the
  request is lost.
\<close>

record Link =
  lk_Server :: V2Server
  lk_Client :: ClientConfig
  lk_Encode :: "ClientBody \<Rightarrow> string"
  lk_Text :: "WireBody \<Rightarrow> string"
  lk_Nonce :: "nat \<Rightarrow> string"
  lk_Random :: "nat \<Rightarrow> string option"
  lk_LastRow :: "nat \<Rightarrow> int"
  lk_Lost :: "nat \<Rightarrow> bool"

text \<open>\<^verbatim>\<open>bodyBytes, _ = json.Marshal(body)\<close>: an encoder's error leaves no bytes, and a body all the same.\<close>

definition marshalledBody :: "(ClientBody \<Rightarrow> string) \<Rightarrow> ClientBody \<Rightarrow> string option" where
  "marshalledBody encode body =
     (case body of
        NoRequestBody \<Rightarrow> None
      | ReportPayload r \<Rightarrow> if DeploymentReport_Validate r = None then Some (encode body) else Some []
      | _ \<Rightarrow> Some (encode body))"

definition wireRequest :: "Request \<Rightarrow> ClientBody \<Rightarrow> WireRequest" where
  "wireRequest r body =
     \<lparr>wr_Http = r,
      wr_Reconcile = (case body of ReconcileMap q \<Rightarrow> (Some q, TrailEOF) | _ \<Rightarrow> (None, TrailEOF)),
      wr_Report = (case body of ReportPayload d \<Rightarrow> (Some d, TrailEOF) | _ \<Rightarrow> (None, TrailEOF))\<rparr>"

definition serverDo :: "Link \<Rightarrow> string \<Rightarrow> string \<Rightarrow> ClientBody \<Rightarrow> Network \<Rightarrow> Exchange \<times> Network" where
  "serverDo link method path body w =
     (let i = wd_Count w; sv = lk_Server link; counted = w\<lparr>wd_Count := Suc i\<rparr>
      in if lk_Lost link i then (SendFailed ''lost'', counted)
         else case sentRequest (sv_Mac sv) (sv_Sha sv) (lk_Client link) (unixSec (wd_Now w)) (lk_Nonce link i)
                     method path (marshalledBody (lk_Encode link) body) of
                None \<Rightarrow> (NotSent ''url'', counted)
              | Some r \<Rightarrow>
                  (let (resp, s) = serveV2 sv \<lparr>sr_Now = wd_Now w, sr_Random = lk_Random link i, sr_LastRow = lk_LastRow link i\<rparr>
                                     (wireRequest r body) (wd_State w)
                   in (Answered resp, counted\<lparr>wd_State := s\<rparr>)))"

definition serverTransport :: "Link \<Rightarrow> Network Transport" where
  "serverTransport link =
     \<lparr>tp_Do = serverDo link, tp_Sleep = (\<lambda>d w. (None, w\<lparr>wd_Now := wd_Now w + max 0 d\<rparr>)), tp_Text = lk_Text link\<rparr>"

lemma serverDo_counts: "serverDo link method path body w = (x, w') \<Longrightarrow> wd_Count w' = Suc (wd_Count w)"
  by (auto simp: serverDo_def Let_def split: if_splits option.splits prod.splits)

interpretation counted: metered "serverTransport link" wd_Count
  by unfold_locales (auto simp: serverTransport_def dest: serverDo_counts)

text \<open>A run of the client's apply is bounded: whatever the server answers and however long the job takes,
  it makes at most 3660 requests and returns.\<close>

theorem apply_requests_bounded:
  assumes "ce_Transport env = serverTransport link" "ApplyV2 env opts disk w = (result, w')"
  shows "wd_Count w' \<le> wd_Count w + 3660"
  using counted.apply_count[OF assms] .

section \<open>Capabilities\<close>

lemma capabilities_undecodable: "decodeCaps (JsonBody (capabilitiesBody legacy tlsMode)) = None"
  by (simp add: decodeCaps_def capabilitiesBody_def decodeCapabilities_def capabilityField_def intoText_def intoBool_def
      Capabilities_UnmarshalJSON_def decodeInto_def toLowerASCII_def lowerByte_def byteIn_def byteval_def Let_def)

lemma capabilities_path: "plainPath (V2APIPath @ ''/capabilities'')" "cleanPath (V2APIPath @ ''/capabilities'')"
  "\<not> under (V2APIPath @ ''/capabilities'') v2CertsPrefix" "\<not> under (V2APIPath @ ''/capabilities'') v2JobsPrefix"
  by (simp_all add: plainPath_def V2APIPath_def cleanPath_def under_def hasPrefix_def v2CertsPrefix_def v2JobsPrefix_def
      splitOn.simps)

lemma capabilities_request:
  assumes "serverDo link ''GET'' (V2APIPath @ ''/capabilities'') NoRequestBody w = (Answered resp, w')"
  shows "resp = capabilitiesHandler (lk_Server link)"
proof -
  obtain r where sent: "sentRequest (sv_Mac (lk_Server link)) (sv_Sha (lk_Server link)) (lk_Client link)
      (unixSec (wd_Now w)) (lk_Nonce link (wd_Count w)) ''GET'' (V2APIPath @ ''/capabilities'') None = Some r"
    and served: "resp = fst (serveV2 (lk_Server link) \<lparr>sr_Now = wd_Now w, sr_Random = lk_Random link (wd_Count w),
        sr_LastRow = lk_LastRow link (wd_Count w)\<rparr> (wireRequest r NoRequestBody) (wd_State w))"
    using assms by (auto simp: serverDo_def marshalledBody_def Let_def split: if_splits option.splits prod.splits)
  have "rq_Path r = V2APIPath @ ''/capabilities''" "rq_Method r = ''GET''"
    using sent urlParts_plain[OF capabilities_path(1)] by (auto simp: sentRequest_def)
  then show ?thesis
    using served capabilities_path(2-4) by (simp add: serveV2_def wireRequest_def Let_def methodHandler_def answerRouted_def)
qed

lemma loop_answers:
  assumes "\<And>w resp w'. tp_Do tp method path body w = (Answered resp, w') \<Longrightarrow> P resp"
  shows "doRequestLoop tp mn mx method path body left w = (Inr resp, w') \<Longrightarrow> P resp"
proof (induction left arbitrary: w)
  case 0
  then show ?case
    using assms by (subst (asm) doRequestLoop.simps) (auto split: Exchange.splits if_splits prod.splits)
next
  case (Suc n)
  obtain x w1 where d: "tp_Do tp method path body w = (x, w1)"
    by fastforce
  have "P resp \<or> (\<exists>w2. doRequestLoop tp mn mx method path body n w2 = (Inr resp, w'))"
    using Suc.prems d assms
    by (subst (asm) doRequestLoop.simps) (auto split: Exchange.splits if_splits prod.splits option.splits)
  then show ?case
    using Suc.IH by blast
qed

lemma request_answers:
  assumes "\<And>w resp w'. tp_Do tp method path body w = (Answered resp, w') \<Longrightarrow> P resp"
    and "doRequestCtx tp c method path body w = (Inr resp, w')"
  shows "P resp"
  using assms(2) loop_answers[OF assms(1)] by (auto simp: doRequestCtx_def split: option.splits prod.splits)

lemma capabilities_refused: "\<exists>e w'. ensureCapabilities (serverTransport link) c w = (Some e, w')"
proof -
  obtain r w' where asked: "doRequestCtx (serverTransport link) c ''GET'' (V2APIPath @ ''/capabilities'') NoRequestBody w = (r, w')"
    by fastforce
  have "hr_Body resp = JsonBody (capabilitiesBody (sv_LegacyAPIEnabled (lk_Server link)) (sv_TLSMode (lk_Server link)))"
    if "r = Inr resp" for resp
    using request_answers[where P = "\<lambda>resp. resp = capabilitiesHandler (lk_Server link)", OF _ asked[unfolded that]]
      capabilities_request by (simp add: serverTransport_def capabilitiesHandler_def writeJSON_def)
  then show ?thesis
    using asked capabilities_undecodable by (cases r) (auto simp: ensureCapabilities_def getDecoded_def)
qed

text \<open>C23: Against this server the client's v2 commands never get past the first request.  The capabilities the
  server announces carry fields the client's strict decoder does not know and lack two it demands,
  so whatever the configuration, the token and the network, an apply ends with an error and leaves
  the disk as it was, and status and download end with an error too.\<close>

theorem v2_client_never_starts:
  assumes "ce_Transport env = serverTransport link"
  shows "(\<exists>e w'. ApplyV2 env opts disk w = ((Some e, disk), w')) \<and>
     (\<exists>e w'. clientStatusV2 (serverTransport link) (ce_Settings env) domain w = (Inl e, w')) \<and>
     (\<exists>e w'. DownloadV2 (serverTransport link) (ce_Settings env) sha domain g name outLink outFails w = (Inl e, w'))"
proof -
  obtain e w1 where caps: "ensureCapabilities (serverTransport link) (ce_Settings env) w = (Some e, w1)"
    using capabilities_refused by blast
  have "\<exists>e w'. ApplyV2 env opts disk w = ((Some e, disk), w')"
    using caps assms by (cases "chooseKey env opts") (auto simp: ApplyV2_def)
  then show ?thesis
    using caps by (simp add: clientStatusV2_def DownloadV2_def)
qed

text \<open>The protocol's own encoding of the capabilities is what the client expects: a decoded value is accepted
  only when it is the fixed declaration, and the encoded declaration decodes to itself.\<close>

theorem capabilities_roundtrip:
  "(Capabilities_Validate c = None \<longleftrightarrow> c = DefaultCapabilities) \<and>
   (\<exists>v. Capabilities_MarshalJSON DefaultCapabilities = Inr v \<and> decodeCaps (JsonBody v) = Some DefaultCapabilities)"
proof
  show "Capabilities_Validate c = None \<longleftrightarrow> c = DefaultCapabilities"
    by (cases c) (auto simp: Capabilities_Validate_def CapabilitiesURLs_Validate_def DefaultCapabilities_def)
next
  have valid: "Capabilities_Validate DefaultCapabilities = None"
    by (simp add: Capabilities_Validate_def CapabilitiesURLs_Validate_def DefaultCapabilities_def)
  have urls: "urlFields (case encodeURLs u of JsonObject ms \<Rightarrow> ms | _ \<Rightarrow> []) noURLs = Some u" for u
    by (cases u) (simp add: encodeURLs_def urlField_def intoText_def noURLs_def toLowerASCII_def lowerByte_def byteIn_def
        byteval_def Let_def)
  have "decodeCapabilities (JsonObject
     [(''api_version'', JsonText (cap_APIVersion d)), (''async_jobs'', JsonBool (cap_AsyncJobs d)),
      (''job_polling'', JsonBool (cap_JobPolling d)), (''terminal_job_reuse'', JsonBool (cap_TerminalJobReuse d)),
      (''force_requires_new_idempotency_key'', JsonBool (cap_ForceRequiresNewIdempotencyKey d)),
      (''urls'', encodeURLs (cap_URLs d))]) = Some d" for d
    using urls[of "cap_URLs d"]
    by (cases d) (simp add: decodeCapabilities_def capabilityField_def intoText_def intoBool_def noCapabilities_def
        encodeURLs_def toLowerASCII_def lowerByte_def byteIn_def byteval_def Let_def)
  then show "\<exists>v. Capabilities_MarshalJSON DefaultCapabilities = Inr v \<and> decodeCaps (JsonBody v) = Some DefaultCapabilities"
    using valid by (simp add: Capabilities_MarshalJSON_def decodeCaps_def Capabilities_UnmarshalJSON_def decodeInto_def)
qed

end
