(* ===== verification/SystemStore.thy ===== *)
theory SystemStore
  imports SystemV2
begin

text \<open>
  What the v2 server does to the certificate store, and what a client deploys from it: the requests
  leave the store alone, and the files a client activates are those of the store.
\<close>

section \<open>Requests keep the certificate store\<close>

lemma resolve_named: "requested \<noteq> [] \<Longrightarrow> snd (resolveGeneration lib io domain requested root) = root"
  by (simp add: resolveGeneration_def split: sum.splits)

lemma read_named:
  assumes "requested \<noteq> []"
  shows "snd (LoadManifest lib io domain requested root) = root" "snd (ReadCertFile lib io domain requested name root) = root"
  using resolve_named[OF assms, of lib io domain root]
  by (auto simp: LoadManifest_def LoadGenerationManifest_def ReadCertFile_def split: prod.splits option.splits)

lemma reconcile_root: "vs_Root (snd (v2Reconcile sv sr t body domain s)) = vs_Root s"
  by (auto simp: v2Reconcile_def ReconcileV2_def Let_def split: option.splits prod.splits sum.splits)

lemma deployments_root: "vs_Root (snd (v2Deployments sv sr t e body domain s)) = vs_Root s"
  by (auto simp: v2Deployments_def ReportDeploymentV2_def Let_def split: option.splits prod.splits sum.splits)

lemma manifest_root: "generation \<noteq> [] \<Longrightarrow> vs_Root (snd (v2Manifest sv t domain generation s)) = vs_Root s"
  using read_named(1)[of generation "se_lib (sv_Env sv)" "se_io (sv_Env sv)" domain "vs_Root s"]
  by (auto simp: v2Manifest_def ManifestV2_def split: option.splits prod.splits sum.splits)

lemma file_root: "generation \<noteq> [] \<Longrightarrow> vs_Root (snd (v2CertFile sv t domain generation name s)) = vs_Root s"
  using read_named(2)[of generation "se_lib (sv_Env sv)" "se_io (sv_Env sv)" domain name "vs_Root s"]
  by (auto simp: v2CertFile_def ReadGenerationFileV2_def split: option.splits prod.splits sum.splits if_splits)

lemma parse_named:
  "parseV2CertPath parts = Some op \<Longrightarrow>
     op_name op \<in> {''reconcile'', ''status'', ''deployments''} \<or> op_generation op \<noteq> []"
  by (auto simp: parseV2CertPath_def Let_def split: if_splits)

lemma certs_root: "vs_Root (snd (v2CertsHandler sv sr t r s)) = vs_Root s"
proof (cases "parseV2CertPath (routeParts (rq_Path (wr_Http r)) v2CertsPrefix)")
  case None
  then show ?thesis by (simp add: v2CertsHandler_def)
next
  case (Some op)
  then show ?thesis
    using parse_named[OF Some]
    by (auto simp: v2CertsHandler_def reconcile_root deployments_root manifest_root file_root)
qed

lemma authed_root:
  assumes "\<And>t st. vs_Root (snd (h t st)) = vs_Root st"
  shows "vs_Root (snd (authedV2 sv now r h s)) = vs_Root s"
  using assms by (auto simp: authedV2_def split: prod.splits sum.splits)

lemma answerRouted_root:
  "(\<And>x. r = Handled x \<Longrightarrow> vs_Root (snd x) = vs_Root s) \<Longrightarrow> vs_Root (snd (answerRouted r s)) = vs_Root s"
  by (cases r) (simp_all add: answerRouted_def)

lemma methodHandler_Handled: "methodHandler methods method h = Handled x \<Longrightarrow> x = h"
  "routeMethodHandler f method path h = Handled x \<Longrightarrow> x = h"
  by (auto simp: methodHandler_def routeMethodHandler_def Let_def split: if_splits)

lemma serve_root: "vs_Root (snd (serveV2 sv sr r s)) = vs_Root s"
proof -
  have certs: "vs_Root (snd (authedV2 sv now http (\<lambda>t. v2CertsHandler sv sr t r) s)) = vs_Root s" for now http
    by (rule authed_root) (rule certs_root)
  have jobs: "vs_Root (snd (authedV2 sv now http (\<lambda>t st. (v2JobsHandler sv t r st, st)) s)) = vs_Root s" for now http
    by (rule authed_root) simp
  show ?thesis
    unfolding serveV2_def Let_def
    by (auto intro!: answerRouted_root dest!: methodHandler_Handled simp: certs jobs)
qed

text \<open>No v2 request changes a certificate file: whatever is asked, by whomever and with whatever body, every
  domain directory of the store is afterwards what it was, so only the worker publishes and removes.
  Even the migration of an old directory layout is not triggered by a request.\<close>

theorem requests_keep_store:
  "vs_Root (snd (serveV2 sv sr r s)) = vs_Root s"
  by (rule serve_root)

lemma serverDo_root: "serverDo link method path body w = (x, w') \<Longrightarrow> vs_Root (wd_State w') = vs_Root (wd_State w)"
  using serve_root by (auto simp: serverDo_def Let_def split: if_splits option.splits prod.splits dest!: arg_cong[of _ _ snd])

section \<open>A network that keeps a fact\<close>

text \<open>A fact about the surroundings that no attempt and no pause changes holds after every client operation.\<close>

locale steady =
  fixes tp :: "'w Transport" and fact :: "'w \<Rightarrow> bool"
  assumes do_keeps: "fact w \<Longrightarrow> tp_Do tp method path body w = (x, w') \<Longrightarrow> fact w'"
    and sleep_keeps: "fact w \<Longrightarrow> tp_Sleep tp d w = (y, w') \<Longrightarrow> fact w'"
begin

lemma loop_keeps: "fact w \<Longrightarrow> doRequestLoop tp mn mx method path body left w = (r, w') \<Longrightarrow> fact w'"
proof (induction left arbitrary: w)
  case 0
  obtain x w1 where d: "tp_Do tp method path body w = (x, w1)"
    by fastforce
  have "w' = w1"
    using 0(2) d by (subst (asm) doRequestLoop.simps) (auto split: Exchange.splits if_splits)
  then show ?case
    using do_keeps[OF 0(1) d] by simp
next
  case (Suc n)
  obtain x w1 where d: "tp_Do tp method path body w = (x, w1)"
    by fastforce
  have kept: "fact w1"
    using do_keeps[OF Suc.prems(1) d] .
  have slept: "fact w'"
    if s: "tp_Sleep tp dl w1 = (e, w2)"
      and k: "(case e of Some e \<Rightarrow> (Inl (ClCancelled e), w2)
               | None \<Rightarrow> doRequestLoop tp mn mx method path body n w2) = (r, w')" for dl e w2
    using sleep_keeps[OF kept s] k Suc.IH[of w2] by (cases e) auto
  have "w' = w1 \<or> fact w'"
    using Suc.prems(2) d Suc.IH[OF kept] slept
    by (subst (asm) doRequestLoop.simps) (auto split: Exchange.splits if_splits prod.splits)
  then show ?case
    using kept by auto
qed

lemma request_keeps: "fact w \<Longrightarrow> doRequestCtx tp c method path body w = (r, w') \<Longrightarrow> fact w'"
  using loop_keeps by (auto simp: doRequestCtx_def split: option.splits prod.splits)

lemma fetch_keeps: "fact w \<Longrightarrow> v2FileFetcher tp c text domain g name w = (r, w') \<Longrightarrow> fact w'"
  using request_keeps by (auto simp: v2FileFetcher_def fetchFile_def split: sum.splits prod.splits)

lemma report_keeps: "fact w \<Longrightarrow> reportDeploymentV2 tp c domain report w = (r, w') \<Longrightarrow> fact w'"
  using request_keeps by (auto simp: reportDeploymentV2_def split: sum.splits prod.splits)

text \<open>What every answer to a request satisfies, when the fact holds as it is asked.\<close>

lemma loop_answered:
  assumes "\<And>w resp w'. fact w \<Longrightarrow> tp_Do tp method path body w = (Answered resp, w') \<Longrightarrow> P resp"
  shows "fact w \<Longrightarrow> doRequestLoop tp mn mx method path body left w = (Inr resp, w') \<Longrightarrow> P resp"
proof (induction left arbitrary: w)
  case 0
  then show ?case
    using assms by (subst (asm) doRequestLoop.simps) (auto split: Exchange.splits if_splits prod.splits)
next
  case (Suc n)
  obtain x w1 where d: "tp_Do tp method path body w = (x, w1)"
    by fastforce
  have kept: "fact w1"
    using do_keeps[OF Suc.prems(1) d] .
  have slept: "P resp"
    if s: "tp_Sleep tp dl w1 = (e, w2)"
      and k: "(case e of Some e \<Rightarrow> (Inl (ClCancelled e), w2)
               | None \<Rightarrow> doRequestLoop tp mn mx method path body n w2) = (Inr resp, w')" for dl e w2
    using sleep_keeps[OF kept s] k Suc.IH[of w2] by (cases e) auto
  show ?case
  proof (cases x)
    case (Answered a)
    have "a = resp \<or> P resp"
      using Suc.prems(2) d Answered Suc.IH[OF kept] slept
      by (subst (asm) doRequestLoop.simps) (simp split: if_splits prod.splits)
    then show ?thesis
      using assms[OF Suc.prems(1)] d Answered by blast
  qed (use Suc.prems(2) d Suc.IH[OF kept] slept in
      \<open>subst (asm) doRequestLoop.simps, simp split: if_splits prod.splits\<close>)+
qed

lemma request_answered:
  assumes "\<And>w resp w'. fact w \<Longrightarrow> tp_Do tp method path body w = (Answered resp, w') \<Longrightarrow> P resp"
    and "fact w" "doRequestCtx tp c method path body w = (Inr resp, w')"
  shows "P resp"
  using assms(2,3) loop_answered[OF assms(1)] by (auto simp: doRequestCtx_def split: option.splits prod.splits)

end

interpretation kept: steady "serverTransport link" "\<lambda>w. vs_Root (wd_State w) = root" for link root
  by unfold_locales (auto simp: serverTransport_def dest: serverDo_root)

section \<open>A file the server hands out\<close>

lemma unreserved_plain: "isUnreserved c \<Longrightarrow> c \<notin> set ''#?%''"
  by (auto simp: isUnreserved_def byteIn_def byteval_def)

lemma safe_plain: "safeSegment w \<Longrightarrow> plainPath w"
  using unreserved_plain by (auto simp: safeSegment_def plainPath_def list_all_iff)

lemma plainPath_join: "\<forall>w\<in>set ws. plainPath w \<Longrightarrow> plainPath (joinWith ''/'' ws)"
  by (induction "''/''" ws rule: joinWith.induct) (simp_all add: plainPath_def)

lemma cert_path_plain:
  assumes "BuildURLPath (''api'' # ''v2'' # ''certs'' # ws) = Inr url" "ws \<noteq> []" "\<forall>w\<in>set ws. safeSegment w"
  shows "plainPath url"
proof -
  have "url = CHR ''/'' # joinWith ''/'' (''api'' # ''v2'' # ''certs'' # ws)"
    using assms BuildURLPath_safe[of "''api'' # ''v2'' # ''certs'' # ws"] by (simp add: fixed_segments_safe)
  moreover have "plainPath (joinWith ''/'' (''api'' # ''v2'' # ''certs'' # ws))"
    using assms(3) safe_plain by (intro plainPath_join) (auto simp: plainPath_def)
  ultimately show ?thesis
    by (simp add: plainPath_def)
qed

lemma cert_path_clean:
  assumes "BuildURLPath (''api'' # ''v2'' # ''certs'' # ws) = Inr url" "ws \<noteq> []" "\<forall>w\<in>set ws. safeSegment w"
  shows "cleanPath url"
proof -
  let ?ws = "''api'' # ''v2'' # ''certs'' # ws"
  have all: "\<forall>w\<in>set ?ws. safeSegment w"
    using assms(3) fixed_segments_safe by simp
  have url: "url = CHR ''/'' # joinWith ''/'' ?ws"
    using assms BuildURLPath_safe[OF _ all] by simp
  have "splitOn (CHR ''/'') (joinWith ''/'' ?ws) = ?ws"
    using safe_parts[OF all] by (intro splitOn_joinWith) auto
  then have split: "splitOn (CHR ''/'') url = [] # ?ws"
    using splitOn_append_sep[of "CHR ''/''" "[]" "joinWith ''/'' ?ws"] by (simp add: url)
  show ?thesis
    using all unfolding cleanPath_def split list_all_iff
    by (auto simp: safeSegment_def dest: in_set_butlastD)
qed

lemma file_path:
  assumes "CertificateFileURLPath d g name = Inr path"
  shows "plainPath path" "routeParts path v2CertsPrefix = [d, ''generations'', g, ''files'', name]" "g \<noteq> []"
    "ValidateFileName name = None" "cleanPath path" "ValidateGenerationID g = None" "ValidateDomain d = None"
proof -
  have valid: "ValidateDomain d = None" "ValidateGenerationID g = None" "ValidateFileName name = None"
    and built: "BuildURLPath (''api'' # ''v2'' # ''certs'' # [d, ''generations'', g, ''files'', name]) = Inr path"
    using assms by (auto simp: CertificateFileURLPath_def guardR_def v2PathSegments_eval split: option.splits)
  have safe: "safeSegment d" "safeSegment g" "safeSegment name"
    using valid domain_seg.check_safe generation_seg.check_safe file_seg.check_safe by blast+
  then have all: "\<forall>w\<in>set [d, ''generations'', g, ''files'', name]. safeSegment w"
    using fixed_segments_safe by simp
  show "plainPath path" "routeParts path v2CertsPrefix = [d, ''generations'', g, ''files'', name]"
    using cert_path_plain[OF built _ all] cert_path_parts(1)[OF built _ all] by simp_all
  show "g \<noteq> []" "ValidateFileName name = None" "cleanPath path" "ValidateGenerationID g = None" "ValidateDomain d = None"
    using safe(2) valid cert_path_clean[OF built _ all] by (simp_all add: safeSegment_def)
qed

lemma error_statuses: "HTTPStatusForErrorCode e \<noteq> 200" "fst (writeV2Error v) \<noteq> 200" "writeRequestError a \<noteq> 200"
  by (auto simp: HTTPStatusForErrorCode_def writeV2Error_def writeRequestError_def split: option.splits AuthError.splits)

lemma errorAnswer_status: "hr_Status (writeV2Answer v) \<noteq> 200"
  using error_statuses(2)[of v] by (cases "writeV2Error v") (simp add: writeV2Answer_def writeJSON_def)

lemma file_served:
  assumes "v2CertFile sv t d g name s = (resp, s')" "hr_Status resp = 200"
  shows "\<exists>data. hr_Body resp = RawBytes data \<and>
     fst (ReadCertFile (se_lib (sv_Env sv)) (se_io (sv_Env sv)) d g name (vs_Root s)) = Inr data"
  using assms errorAnswer_status
  by (auto simp: v2CertFile_def ReadGenerationFileV2_def storeAnswer_def writeJSON_def Let_def
      split: if_splits option.splits sum.splits prod.splits)

lemma file_routed:
  assumes "routeParts (rq_Path (wr_Http r)) v2CertsPrefix = [d, ''generations'', g, ''files'', name]" "d \<noteq> []" "g \<noteq> []"
  shows "v2CertsHandler sv sr t r s = v2CertFile sv t d g name s"
  using assms by (simp add: v2CertsHandler_def parseV2CertPath_def)

lemma file_request:
  assumes "CertificateFileURLPath d g name = Inr path" "serverDo link ''GET'' path NoRequestBody w = (Answered resp, w')"
    and "hr_Status resp = 200"
  shows "\<exists>data. hr_Body resp = RawBytes data \<and>
     fst (ReadCertFile (se_lib (sv_Env (lk_Server link))) (se_io (sv_Env (lk_Server link))) d g name (vs_Root (wd_State w))) = Inr data"
proof -
  define sv where "sv = lk_Server link"
  define sr where "sr = \<lparr>sr_Now = wd_Now w, sr_Random = lk_Random link (wd_Count w), sr_LastRow = lk_LastRow link (wd_Count w)\<rparr>"
  obtain r where sent: "sentRequest (sv_Mac sv) (sv_Sha sv) (lk_Client link) (unixSec (wd_Now w)) (lk_Nonce link (wd_Count w))
      ''GET'' path None = Some r"
    and served: "resp = fst (serveV2 sv sr (wireRequest r NoRequestBody) (wd_State w))"
    using assms(2) by (auto simp: serverDo_def marshalledBody_def sv_def sr_def Let_def split: if_splits option.splits prod.splits)
  note path = file_path[OF assms(1)]
  have r: "rq_Path r = path"
    using sent urlParts_plain[OF path(1)] by (auto simp: sentRequest_def)
  have under: "under path v2CertsPrefix"
    using path(2) by (auto simp: routeParts_def under_def split: if_splits)
  have d: "d \<noteq> []"
    using path(2) assms(1) domain_seg.check_safe[of d] by (auto simp: CertificateFileURLPath_def guardR_def safeSegment_def split: option.splits)
  have "\<exists>t db. fst (v2CertsHandler sv sr t (wireRequest r NoRequestBody) ((wd_State w)\<lparr>vs_Db := db\<rparr>)) = resp"
    using served assms(3) under r error_statuses(3)
    by (auto simp: serveV2_def wireRequest_def answerRouted_def routeMethodHandler_def methodHandler_def authedV2_def
        writeJSON_def notFound_def Let_def split: if_splits prod.splits sum.splits)
  then obtain t db s' where "v2CertFile sv t d g name ((wd_State w)\<lparr>vs_Db := db\<rparr>) = (resp, s')"
    using file_routed[of "wireRequest r NoRequestBody" d g name] path(2,3) r d by (auto simp: wireRequest_def prod_eq_iff)
  from file_served[OF this assms(3)] show ?thesis
    by (simp add: sv_def)
qed

lemma fetched_from_store:
  assumes "fetchFile (serverTransport link) c d g name w = (Inr data, w')"
  shows "fst (ReadCertFile (se_lib (sv_Env (lk_Server link))) (se_io (sv_Env (lk_Server link))) d g name (vs_Root (wd_State w))) = Inr data"
proof -
  define root where "root = vs_Root (wd_State w)"
  obtain path resp where path: "CertificateFileURLPath d g name = Inr path"
    and asked: "doRequestCtx (serverTransport link) c ''GET'' path NoRequestBody w = (Inr resp, w')"
    and ok: "hr_Status resp = 200" "data = bodyBytesOf (serverTransport link) (hr_Body resp)"
    using assms by (auto simp: fetchFile_def split: sum.splits prod.splits if_splits)
  have "hr_Status resp = 200 \<longrightarrow> (\<exists>data. hr_Body resp = RawBytes data \<and>
     fst (ReadCertFile (se_lib (sv_Env (lk_Server link))) (se_io (sv_Env (lk_Server link))) d g name root) = Inr data)"
  proof (rule kept.request_answered[OF _ _ asked])
    show "vs_Root (wd_State w) = root"
      by (simp add: root_def)
  next
    fix v resp v'
    assume "vs_Root (wd_State v) = root" "tp_Do (serverTransport link) ''GET'' path NoRequestBody v = (Answered resp, v')"
    then show "hr_Status resp = 200 \<longrightarrow> (\<exists>data. hr_Body resp = RawBytes data \<and>
        fst (ReadCertFile (se_lib (sv_Env (lk_Server link))) (se_io (sv_Env (lk_Server link))) d g name root) = Inr data)"
      using file_request[OF path, of link v resp v'] by (simp add: serverTransport_def)
  qed
  then show ?thesis
    using ok by (auto simp: bodyBytesOf_def root_def)
qed

section \<open>What a client deploys\<close>

lemma saveClientState_out:
  assumes "saveClientState io st disk = (e, disk')" "cd_Out disk = DirAt dir"
  shows "cd_Out disk' = DirAt dir"
  using assms by (auto simp: saveClientState_def Let_def split: if_splits)

lemma stageFiles_keeps:
  assumes "keepsFact fetch ok"
  shows "ok w \<Longrightarrow> ok (snd (stageFiles env fetch manifest names staging w))"
proof (induction names arbitrary: staging w)
  case (Cons n names)
  obtain x w1 where "fetch n w = (x, w1)"
    by fastforce
  then show ?case
    using assms Cons.prems Cons.IH[of w1] by (auto simp: keepsFact_def split: sum.splits prod.splits option.splits)
qed simp

lemma DeployGeneration_keeps:
  assumes "DeployGeneration env opts out w = (x, w')" "ok w"
    and "\<And>fetch. gdo_Fetch opts = Some fetch \<Longrightarrow> keepsFact fetch ok"
  shows "ok w'"
  using assms(1)
proof (cases rule: DeployGeneration_world)
  case (2 fetch)
  then show ?thesis
    using stageFiles_keeps[OF assms(3)[OF 2(1)] assms(2)] by simp
qed (use assms(2) in simp)

text \<open>C21: The files a client activates are those of the server's store.  When the part of an apply that deploys a
  generation ends without error and the generation was not active before, the link names it, its
  release holds the five fixed files with the bytes the certificate store has for that domain and
  generation, and the store is what it was.\<close>

theorem deployed_equals_store:
  assumes "ce_Transport env = serverTransport link" "deployAndReport env opts st g revision manifest disk w = ((None, disk'), w')"
    and "activeGeneration (dirOf (cd_Out disk)) \<noteq> Some g"
  shows "\<exists>dir data. cd_Out disk' = DirAt dir \<and> activeGeneration dir = Some g \<and>
     releaseOf dir g = Some (EntryDir (stagedDir data fixedFileNames)) \<and>
     (\<forall>name\<in>set fixedFileNames.
        fst (ReadCertFile (se_lib (sv_Env (lk_Server link))) (se_io (sv_Env (lk_Server link))) (ao_Domain opts) g name
               (vs_Root (wd_State w))) = Inr (data name)) \<and>
     vs_Root (wd_State w') = vs_Root (wd_State w)"
proof -
  define root where "root = vs_Root (wd_State w)"
  define ok where "ok = (\<lambda>v :: Network. vs_Root (wd_State v) = root)"
  define fetch where "fetch = v2FileFetcher (serverTransport link) (ce_Settings env) (ce_ErrText env) (ao_Domain opts) g"
  obtain r err out w1 where run: "DeployGeneration (ce_Deploy env) (deployOpts env opts g manifest) (cd_Out disk) w
      = (((r, err), out), w1)"
    by (metis surj_pair)
  define report where "report = finishReport env opts g revision (ce_Clock env w) (ce_Clock env w1) r"
  define st1 where "st1 = st\<lparr>cst_Generation := g, cst_Revision := revision, cst_Report := Some report\<rparr>"
  obtain e2 w2 where reported: "reportDeploymentV2 (serverTransport link) (ce_Settings env) (ao_Domain opts) report w1 = (e2, w2)"
    by fastforce
  obtain e1 disk1 where saved: "saveClientState (ce_Io env SaveReport) st1 (disk\<lparr>cd_Out := out\<rparr>) = (e1, disk1)"
    by fastforce
  have ends: "err = None" "w' = w2"
    "disk' = (if e2 = None then snd (saveClientState (ce_Io env SaveSent) (st1\<lparr>cst_ReportSent := True\<rparr>) disk1) else disk1)"
    using assms(2) run reported saved unfolding report_def st1_def
    by (auto simp: deployAndReport_def Let_def assms(1))
  have start: "ok w"
    by (simp add: ok_def root_def)
  have "keepsFact fetch ok"
    using kept.fetch_keeps[of _ root link] by (auto simp: keepsFact_def ok_def fetch_def)
  moreover
  have fetches: "gdo_Fetch (deployOpts env opts g manifest) = Some fetch" "gdo_Generation (deployOpts env opts g manifest) = g"
    using assms(1) by (simp_all add: deployOpts_def fetch_def)
  ultimately have steady: "keepsFact f ok" if "gdo_Fetch (deployOpts env opts g manifest) = Some f" for f
    using that by simp
  obtain dir data where dir: "out = DirAt dir" "activeGeneration dir = Some g"
    "releaseOf dir g = Some (EntryDir (stagedDir data fixedFileNames))"
    and data: "\<forall>name\<in>set fixedFileNames. \<exists>v. ok v \<and> fst (fetch name v) = Inr (data name)"
    using DeployGeneration_ok[OF run[unfolded ends(1)] start steady] assms(3) fetches by auto
  have "fst (ReadCertFile (se_lib (sv_Env (lk_Server link))) (se_io (sv_Env (lk_Server link))) (ao_Domain opts) g name root) = Inr (data name)"
    if fixed: "name \<in> set fixedFileNames" for name
  proof -
    obtain v where v: "vs_Root (wd_State v) = root" "fst (fetch name v) = Inr (data name)"
      using data fixed by (auto simp: ok_def)
    then have "fst (fetchFile (serverTransport link) (ce_Settings env) (ao_Domain opts) g name v) = Inr (data name)"
      by (auto simp: fetch_def v2FileFetcher_def split: sum.splits prod.splits)
    then show ?thesis
      using fetched_from_store[of link "ce_Settings env" "ao_Domain opts" g name v] v(1) by (metis prod.collapse)
  qed
  moreover have "cd_Out disk1 = DirAt dir"
    using saveClientState_out[OF saved] dir(1) by simp
  then have "cd_Out disk' = DirAt dir"
    using ends(3) saveClientState_out[OF prod.collapse[symmetric]] by simp
  moreover have "ok w1"
    using DeployGeneration_keeps[OF run start steady] .
  then have "vs_Root (wd_State w') = root"
    using kept.report_keeps[of w1 root, OF _ reported] ends(2) by (simp add: ok_def)
  ultimately show ?thesis
    using dir(2,3) by (auto simp: root_def)
qed

end
