(* ===== verification/SystemReady.thy ===== *)
theory SystemReady
  imports SystemStore ServiceProofs
begin

text \<open>
  What a client can rely on: with an enabled token, the grants and fresh nonces, every file of a
  generation is delivered, however many requests went before.
\<close>

section \<open>A client in good standing\<close>

text \<open>
  The server is set up, the network loses nothing, the first \<open>n\<close> nonces are pairwise different and
  the recorded ones are those of earlier attempts; the client's token is enabled, its secret is the
  client's, and it holds both read permissions for the domain.
\<close>

definition knownToken :: "Link \<Rightarrow> Db \<Rightarrow> bool" where
  "knownToken link db \<longleftrightarrow>
     (\<exists>t. GetToken (sv_Secret (lk_Server link)) (cc_TokenID (lk_Client link)) db = Inr (Some t) \<and> to_Enabled t \<and>
        to_Secret t = cc_TokenSecret (lk_Client link) \<and> to_ID t = cc_TokenID (lk_Client link))"

definition mayRead :: "Link \<Rightarrow> string \<Rightarrow> Db \<Rightarrow> bool" where
  "mayRead link domain db \<longleftrightarrow>
     (\<forall>p\<in>{''read_cert'', ''read_private_key''}. HasCertificatePermission db (cc_TokenID (lk_Client link)) domain p = Inr True)"

definition goodLink :: "Link \<Rightarrow> nat \<Rightarrow> bool" where
  "goodLink link n \<longleftrightarrow>
     digestSizes (sv_Mac (lk_Server link)) (sv_Sha (lk_Server link)) \<and>
     sv_Mime (lk_Server link) ''application/json'' = Some ''application/json'' \<and>
     se_openErr (sv_Env (lk_Server link)) = None \<and> 0 \<le> ac_TimestampWindowSec (sv_Auth (lk_Server link)) \<and>
     validTokenID (cc_TokenID (lk_Client link)) \<and>
     (\<forall>i<n. \<not> lk_Lost link i \<and> validHex (lk_Nonce link i) 32 \<and> (\<forall>j<i. lk_Nonce link j \<noteq> lk_Nonce link i))"

definition ready :: "Link \<Rightarrow> string \<Rightarrow> Network \<Rightarrow> bool" where
  "ready link domain w \<longleftrightarrow>
     0 \<le> unixSec (wd_Now w) \<and> unixSec (wd_Now w) < 2 ^ 63 \<and>
     knownToken link (vs_Db (wd_State w)) \<and> mayRead link domain (vs_Db (wd_State w)) \<and>
     (\<forall>r\<in>set (db_nonces (vs_Db (wd_State w))). \<exists>i<wd_Count w. nc_Nonce r = lk_Nonce link i)"

lemma ready_attempt:
  assumes "goodLink link n" "ready link domain w" "wd_Count w < n"
  obtains t where "to_ID t = cc_TokenID (lk_Client link)"
    "goodAttempt (sv_Secret (lk_Server link)) (sv_Auth (lk_Server link)) (lk_Client link) (atOnce (unixSec (wd_Now w)))
       (unixSec (wd_Now w)) (lk_Nonce link (wd_Count w)) t (vs_Db (wd_State w))"
proof -
  have "nc_Nonce r \<noteq> lk_Nonce link (wd_Count w)" if r: "r \<in> set (db_nonces (vs_Db (wd_State w)))" for r
  proof -
    obtain i where "i < wd_Count w" "nc_Nonce r = lk_Nonce link i"
      using assms(2) r unfolding ready_def by blast
    then show ?thesis
      using assms(1,3) by (auto simp: goodLink_def)
  qed
  then show thesis
    using assms that by (auto simp: ready_def knownToken_def goodLink_def goodAttempt_def)
qed

lemma consumed_nonces:
  "ConsumeNonce now nonce ttl db = (ok, db') \<Longrightarrow>
     (\<forall>r\<in>set (db_nonces db'). r \<in> set (db_nonces db) \<or> nc_Nonce r = nonce) \<and> db_tokens db' = db_tokens db \<and> db_grants db' = db_grants db"
  by (auto simp: ConsumeNonce_def Let_def split: if_splits)

lemma grants_permission: "db_grants db' = db_grants db \<Longrightarrow> HasCertificatePermission db' = HasCertificatePermission db"
  by (intro ext) (simp add: HasCertificatePermission_def split: option.split)

lemma find_updWhere:
  "List.find (\<lambda>r. tk_ID r = x) (updWhere (\<lambda>r. tk_ID r = tid) (\<lambda>r. r\<lparr>tk_LastUsedAt := u\<rparr>) rs) =
     map_option (\<lambda>r. if tk_ID r = tid then r\<lparr>tk_LastUsedAt := u\<rparr> else r) (List.find (\<lambda>r. tk_ID r = x) rs)"
  by (induction rs) (auto simp: updWhere_def)

lemma usage_keeps_token:
  assumes "GetToken dec x db = Inr (Some t)" "db_tokens db' = db_tokens (UpdateTokenUsage now tid db)"
  shows "\<exists>u. GetToken dec x db' = Inr (Some (t\<lparr>to_LastUsedAt := u\<rparr>))"
proof -
  obtain r where r: "List.find (\<lambda>r. tk_ID r = x) (db_tokens db) = Some r"
    using assms(1) by (auto simp: GetToken_def getTokenWithSecret_def split: option.splits)
  let ?r = "if tk_ID r = tid then r\<lparr>tk_LastUsedAt := Some now\<rparr> else r"
  have "List.find (\<lambda>r. tk_ID r = x) (db_tokens db') = Some ?r"
    using find_updWhere[of x tid "Some now" "db_tokens db"] r assms(2) by (simp add: UpdateTokenUsage_def)
  then show ?thesis
    using assms(1) r
    by (intro exI[of _ "tk_LastUsedAt ?r"])
      (auto simp: GetToken_def getTokenWithSecret_def tokenOfRow_def split: option.splits if_splits)
qed


text \<open>An authenticated request leaves the client in good standing for the next one.\<close>

lemma ready_verified:
  assumes good: "goodLink link n" and ready: "ready link domain w" and few: "wd_Count w < n"
    and sent: "sentRequest (sv_Mac (lk_Server link)) (sv_Sha (lk_Server link)) (lk_Client link) (unixSec (wd_Now w))
       (lk_Nonce link (wd_Count w)) method path None = Some r" "plainPath path"
  shows "\<exists>t db. verifyToken (sv_Mac (lk_Server link)) (sv_Sha (lk_Server link)) (sv_Secret (lk_Server link))
       (sv_Mime (lk_Server link)) (sv_Auth (lk_Server link)) (atOnce (unixSec (wd_Now w))) r (vs_Db (wd_State w)) = (Inr t, db) \<and>
     to_ID t = cc_TokenID (lk_Client link) \<and>
     ready link domain (w\<lparr>wd_Count := Suc (wd_Count w), wd_State := (wd_State w)\<lparr>vs_Db := db\<rparr>\<rparr>)"
proof -
  let ?db = "vs_Db (wd_State w)" and ?now = "unixSec (wd_Now w)" and ?sv = "lk_Server link"
  obtain t where t: "to_ID t = cc_TokenID (lk_Client link)"
    "goodAttempt (sv_Secret ?sv) (sv_Auth ?sv) (lk_Client link) (atOnce ?now) ?now (lk_Nonce link (wd_Count w)) t ?db"
    using ready_attempt[OF good ready few] .
  have sizes: "digestSizes (sv_Mac ?sv) (sv_Sha ?sv)" and mime: "sv_Mime ?sv ''application/json'' = Some ''application/json''"
    using good by (simp_all add: goodLink_def)
  note checked = checkRequest_sent[OF t(2) sizes _ sent(2,1)]
  obtain ok db1 where c: "ConsumeNonce ?now (lk_Nonce link (wd_Count w)) (ac_NonceTTLSec (sv_Auth ?sv)) ?db = (ok, db1)"
    by fastforce
  have ok: "ok"
    using fresh_nonce_consumed[of ?db "lk_Nonce link (wd_Count w)" ?now "ac_NonceTTLSec (sv_Auth ?sv)"] t(2) c
    by (simp add: goodAttempt_def)
  define db where "db = UpdateTokenUsage ?now (cc_TokenID (lk_Client link)) db1"
  have verified: "verifyToken (sv_Mac ?sv) (sv_Sha ?sv) (sv_Secret ?sv) (sv_Mime ?sv) (sv_Auth ?sv) (atOnce ?now) r ?db = (Inr t, db)"
    using verifyToken_sent[where mime = "sv_Mime ?sv", OF sent(1) _ mime] checked c ok by (simp add: bodyBytes_def verifyTokenBody_def db_def)
  note kept = consumed_nonces[OF c]
  have "\<exists>i<Suc (wd_Count w). nc_Nonce r = lk_Nonce link i" if "r \<in> set (db_nonces db)" for r
    using kept that ready by (auto simp: db_def UpdateTokenUsage_def ready_def less_Suc_eq)
  moreover have "knownToken link db"
  proof -
    obtain t where t: "GetToken (sv_Secret ?sv) (cc_TokenID (lk_Client link)) ?db = Inr (Some t)" "to_Enabled t"
      "to_Secret t = cc_TokenSecret (lk_Client link)" "to_ID t = cc_TokenID (lk_Client link)"
      using ready by (auto simp: ready_def knownToken_def)
    obtain u where "GetToken (sv_Secret ?sv) (cc_TokenID (lk_Client link)) db = Inr (Some (t\<lparr>to_LastUsedAt := u\<rparr>))"
      using usage_keeps_token[OF t(1), of db ?now "cc_TokenID (lk_Client link)"] kept
      by (auto simp: db_def UpdateTokenUsage_def)
    then show ?thesis
      using t(2-4) by (auto simp: knownToken_def)
  qed
  moreover have "mayRead link domain db"
    using ready grants_permission[of db ?db] kept by (simp add: ready_def mayRead_def db_def UpdateTokenUsage_def)
  ultimately have "ready link domain (w\<lparr>wd_Count := Suc (wd_Count w), wd_State := (wd_State w)\<lparr>vs_Db := db\<rparr>\<rparr>)"
    using ready by (simp add: ready_def)
  then show ?thesis
    using verified t(1) by blast
qed

section \<open>Every file is delivered\<close>

lemma serve_file:
  assumes "verifyToken (sv_Mac sv) (sv_Sha sv) (sv_Secret sv) (sv_Mime sv) (sv_Auth sv) (atOnce (unixSec (sr_Now sr))) (wr_Http r) (vs_Db s) = (Inr t, db)"
    and "rq_Method (wr_Http r) = ''GET''" "CertificateFileURLPath d g name = Inr (rq_Path (wr_Http r))"
  shows "serveV2 sv sr r s = v2CertFile sv t d g name (s\<lparr>vs_Db := db\<rparr>)"
proof -
  note path = file_path[OF assms(3)]
  have d: "d \<noteq> []"
    using path(7) domain_seg.check_safe[of d] by (auto simp: safeSegment_def)
  have under: "under (rq_Path (wr_Http r)) v2CertsPrefix"
    using path(2) by (auto simp: routeParts_def under_def split: if_splits)
  show ?thesis
    using assms(1,2) under path(5) file_routed[OF path(2) d path(3)] d path(3)
    by (simp add: serveV2_def routeMethodHandler_def methodHandler_def v2CertMethods_def path(2) parseV2CertPath_def
        answerRouted_def authedV2_def)
qed

lemma file_delivered:
  assumes good: "goodLink link n" and ready: "ready link d w" and few: "wd_Count w < n"
    and path: "CertificateFileURLPath d g name = Inr path"
    and stored: "ReadCertFile (se_lib (sv_Env (lk_Server link))) (se_io (sv_Env (lk_Server link))) d g name (vs_Root (wd_State w)) = (Inr data, root')"
  shows "\<exists>w'. serverDo link ''GET'' path NoRequestBody w =
       (Answered \<lparr>hr_Status = 200, hr_Location = [], hr_RetryAfter = [], hr_Body = RawBytes data\<rparr>, w') \<and>
     ready link d w' \<and> wd_Count w' = Suc (wd_Count w) \<and> vs_Root (wd_State w') = vs_Root (wd_State w)"
proof -
  let ?sv = "lk_Server link"
  note p = file_path[OF path]
  obtain r where r: "sentRequest (sv_Mac ?sv) (sv_Sha ?sv) (lk_Client link) (unixSec (wd_Now w)) (lk_Nonce link (wd_Count w))
      ''GET'' path None = Some r" "rq_Path r = path" "rq_Method r = ''GET''"
    using urlParts_plain[OF p(1)] by (auto simp: sentRequest_def)
  obtain t db where t: "verifyToken (sv_Mac ?sv) (sv_Sha ?sv) (sv_Secret ?sv) (sv_Mime ?sv) (sv_Auth ?sv) (atOnce (unixSec (wd_Now w))) r
       (vs_Db (wd_State w)) = (Inr t, db)" "to_ID t = cc_TokenID (lk_Client link)"
    "ready link d (w\<lparr>wd_Count := Suc (wd_Count w), wd_State := (wd_State w)\<lparr>vs_Db := db\<rparr>\<rparr>)"
    using ready_verified[OF good ready few r(1) p(1)] by blast
  have granted: "requireV2Permission (sv_Env ?sv) (to_ID t) d (filePermission name) db = None"
    using t(2,3) by (simp add: ready_def mayRead_def requireV2Permission_def filePermission_def)
  have root: "snd (ReadCertFile (se_lib (sv_Env ?sv)) (se_io (sv_Env ?sv)) d g name (vs_Root (wd_State w))) = vs_Root (wd_State w)"
    using read_named(2)[OF p(3)] .
  have up: "se_openErr (sv_Env ?sv) = None" "\<not> lk_Lost link (wd_Count w)"
    using good few by (simp_all add: goodLink_def)
  have "v2CertFile ?sv t d g name ((wd_State w)\<lparr>vs_Db := db\<rparr>) =
      (\<lparr>hr_Status = 200, hr_Location = [], hr_RetryAfter = [], hr_Body = RawBytes data\<rparr>, (wd_State w)\<lparr>vs_Db := db\<rparr>)"
    using p(4,6,7) granted root up(1) stored
    by (cases "wd_State w")
      (simp add: v2CertFile_def ReadGenerationFileV2_def firstErr_cases valid_simps generationErr_def storeAnswer_def writeJSON_def)
  then show ?thesis
    using t(3) serve_file[of ?sv _ "wireRequest r NoRequestBody" "wd_State w" t db d g name] t(1) r path up(2)
    by (simp add: serverDo_def marshalledBody_def wireRequest_def Let_def)
qed

section \<open>A first deployment\<close>

text \<open>A chain of downloads: each keeps the surroundings fit for those that remain.\<close>

lemma stageFiles_delivers:
  assumes fetch: "\<And>k name w. name \<in> set names \<Longrightarrow> ok (Suc k) w \<Longrightarrow> \<exists>w'. fetch name w = (Inr (data name), w') \<and> ok k w'"
    and "\<And>name. name \<in> set names \<Longrightarrow> itemMatches (de_Lib env) (manifestItem manifest name) (data name)"
    and io: "\<And>p. \<not> de_Io env p" and "distinct names" "set names \<inter> fst ` set staging = {}"
    and "ok (length names + k) w"
  shows "\<exists>w'. stageFiles env fetch manifest names staging w = ((None, staging @ stagedDir data names), w') \<and> ok k w'"
  using assms(1,2,4,5,6)
proof (induction names arbitrary: staging w)
  case Nil
  then show ?case by (simp add: stagedDir_def)
next
  case (Cons n names)
  obtain w1 where w1: "fetch n w = (Inr (data n), w1)" "ok (length names + k) w1"
    using Cons.prems(1)[of n "length names + k" w] Cons.prems(5) by auto
  have "map_of staging n = None"
    using Cons.prems(4) by (simp add: map_of_eq_None_iff)
  then have "writeAndValidateStagedFile env n (manifestItem manifest n) (data n) staging = (None, staging @ [(n, Regular (data n))])"
    using Cons.prems(2)[of n] io
    by (simp add: writeAndValidateStagedFile_def itemMatches_def readRegularFile_def map_add_def Let_def)
  moreover have "\<exists>w'. stageFiles env fetch manifest names (staging @ [(n, Regular (data n))]) w1 =
      ((None, (staging @ [(n, Regular (data n))]) @ stagedDir data names), w') \<and> ok k w'"
    using Cons.prems w1(2) by (intro Cons.IH) auto
  ultimately show ?case
    using w1(1) by (simp add: stagedDir_def)
qed

lemma first_deployment:
  assumes "ValidateGenerationID (gdo_Generation opts) = None" "gdo_Domain opts \<noteq> []" "gdo_OutDir opts \<noteq> []"
    and io: "\<And>p. \<not> de_Io env p" and fetch: "gdo_Fetch opts = Some fetch"
    and "validateDeploymentManifest (gdo_Manifest opts) = None"
    and staged: "stageFiles env fetch (gdo_Manifest opts) fixedFileNames [] w = ((None, files), w')"
    and "validateStagedCertificate env files (gdo_Domain opts) (gdo_SAN opts) (de_Now env) = None"
    and "gdo_Verify opts = None" "gdo_Reload opts = None"
  shows "\<exists>r dir. DeployGeneration env opts DirAbsent w = (((r, None), DirAt dir), w')"
proof -
  let ?dir = "emptyOutDir\<lparr>od_Releases := DirAt []\<rparr>"
  have "deployStaged env opts (deployingReport (gdo_Generation opts)) None ?dir w =
      (activateRelease env opts (deployingReport (gdo_Generation opts)) None (addOutRelease (gdo_Generation opts) files ?dir), w')"
    using assms by (simp add: deployStaged_def publishStaged_def emptyOutDir_def Let_def entriesOf_def)
  moreover have "\<exists>r dir. activateRelease env opts (deployingReport (gdo_Generation opts)) None
      (addOutRelease (gdo_Generation opts) files ?dir) = ((r, None), dir)"
    using assms by (simp add: activateRelease_def writeDeploymentCurrent_def emptyOutDir_def addOutRelease_def)
  ultimately have "\<exists>r dir. deployLocked env opts (deployingReport (gdo_Generation opts)) ?dir w = (((r, None), dir), w')"
    using io by (auto simp: deployLocked_def readDeploymentCurrent_def emptyOutDir_def)
  then show ?thesis
    using assms(1-4) by (auto simp: DeployGeneration_def ensureSecureDirectory_def emptyOutDir_def Let_def)
qed

section \<open>A granted client deploys\<close>

lemma single_answer:
  assumes "ValidateServer c = None" "tp_Do tp method path body w = (Answered resp, w')"
    and "\<not> bodyTooLarge tp (hr_Body resp)" "hr_Status resp = 200"
  shows "doRequestCtx tp c method path body w = (Inr resp, w')"
  using assms by (simp add: doRequestCtx_def doRequestLoop.simps[of tp _ _ _ _ _ 5] split: prod.split)

text \<open>The state of the client with \<open>k\<close> attempts to go.\<close>

definition standing :: "Link \<Rightarrow> string \<Rightarrow> CertRoot \<Rightarrow> nat \<Rightarrow> nat \<Rightarrow> Network \<Rightarrow> bool" where
  "standing link domain root n k w \<longleftrightarrow> ready link domain w \<and> wd_Count w + k \<le> n \<and> vs_Root (wd_State w) = root"

lemma fetch_delivers:
  assumes "goodLink link n" "standing link d root n (Suc k) w" "ValidateServer c = None"
    and valid: "ValidateDomain d = None" "ValidateGenerationID g = None" "name \<in> set fixedFileNames"
    and stored: "fst (ReadCertFile (se_lib (sv_Env (lk_Server link))) (se_io (sv_Env (lk_Server link))) d g name root) = Inr data"
    and small: "length data \<le> maxRespBodySize"
  shows "\<exists>w'. v2FileFetcher (serverTransport link) c text d g name w = (Inr data, w') \<and> standing link d root n k w'"
proof -
  have "ValidateFileName name = None"
    using valid(3) by (simp add: valid_simps)
  then obtain path where path: "CertificateFileURLPath d g name = Inr path"
    using valid(1,2) build_cert_path[of "[d, ''generations'', g, ''files'', name]"] fixed_segments_safe
      domain_seg.check_safe generation_seg.check_safe file_seg.check_safe
    by (auto simp: CertificateFileURLPath_def v2PathSegments_eval)
  obtain root' where "ReadCertFile (se_lib (sv_Env (lk_Server link))) (se_io (sv_Env (lk_Server link))) d g name root = (Inr data, root')"
    using stored by (metis prod.collapse)
  then obtain w' where w': "serverDo link ''GET'' path NoRequestBody w =
       (Answered \<lparr>hr_Status = 200, hr_Location = [], hr_RetryAfter = [], hr_Body = RawBytes data\<rparr>, w')"
    "ready link d w'" "wd_Count w' = Suc (wd_Count w)" "vs_Root (wd_State w') = root"
    using file_delivered[OF assms(1) _ _ path, of w] assms(2) by (auto simp: standing_def)
  have "doRequestCtx (serverTransport link) c ''GET'' path NoRequestBody w =
      (Inr \<lparr>hr_Status = 200, hr_Location = [], hr_RetryAfter = [], hr_Body = RawBytes data\<rparr>, w')"
    using w'(1) small by (intro single_answer[OF assms(3)]) (simp_all add: serverTransport_def bodyTooLarge_def bodyBytesOf_def)
  then show ?thesis
    using w' assms(2) path by (simp add: v2FileFetcher_def fetchFile_def bodyBytesOf_def standing_def)
qed

lemma deployment_delivers:
  assumes "goodLink link n" "ready link (ao_Domain opts) w" "wd_Count w + 5 \<le> n"
    and tp: "ce_Transport env = serverTransport link" "ValidateServer (ce_Settings env) = None"
    and valid: "ValidateDomain (ao_Domain opts) = None" "ValidateGenerationID g = None" "ao_OutDir opts \<noteq> []"
    and stored: "\<And>name. name \<in> set fixedFileNames \<Longrightarrow>
       fst (ReadCertFile (se_lib (sv_Env (lk_Server link))) (se_io (sv_Env (lk_Server link))) (ao_Domain opts) g name
              (vs_Root (wd_State w))) = Inr (data name) \<and>
       length (data name) \<le> maxRespBodySize \<and> itemMatches (de_Lib (ce_Deploy env)) (manifestItem manifest name) (data name)"
    and checked: "validateDeploymentManifest manifest = None"
      "validateStagedCertificate (ce_Deploy env) (stagedDir data fixedFileNames) (ao_Domain opts) [] (de_Now (ce_Deploy env)) = None"
    and quiet: "TrimSpace (ao_VerifyCmd opts) = []" "TrimSpace (ao_ReloadCmd opts) = []" "\<And>p. \<not> de_Io (ce_Deploy env) p"
  shows "\<exists>r dir w'. DeployGeneration (ce_Deploy env) (deployOpts env opts g manifest) DirAbsent w = (((r, None), DirAt dir), w')"
proof -
  let ?root = "vs_Root (wd_State w)" and ?opts = "deployOpts env opts g manifest"
  define fetch where "fetch = v2FileFetcher (serverTransport link) (ce_Settings env) (ce_ErrText env) (ao_Domain opts) g"
  have d: "ao_Domain opts \<noteq> []"
    using valid(1) domain_seg.not_dots by blast
  have opts: "gdo_Generation ?opts = g" "gdo_Domain ?opts = ao_Domain opts" "gdo_OutDir ?opts = ao_OutDir opts"
    "gdo_Fetch ?opts = Some fetch" "gdo_Manifest ?opts = manifest" "gdo_SAN ?opts = []" "gdo_Verify ?opts = None" "gdo_Reload ?opts = None"
    using tp(1) quiet by (simp_all add: deployOpts_def fetch_def shellDeploymentCommand_def)
  have "\<exists>w'. fetch name v = (Inr (data name), w') \<and> standing link (ao_Domain opts) ?root n k w'"
    if "name \<in> set fixedFileNames" "standing link (ao_Domain opts) ?root n (Suc k) v" for k name v
    using fetch_delivers[OF assms(1) that(2) tp(2) valid(1,2) that(1)] stored[OF that(1)] unfolding fetch_def by blast
  moreover have "standing link (ao_Domain opts) ?root n (length fixedFileNames + 0) w"
    using assms(2,3) by (simp add: standing_def fixedFileNames_def)
  ultimately obtain w' where "stageFiles (ce_Deploy env) fetch manifest fixedFileNames [] w = ((None, stagedDir data fixedFileNames), w')"
    using stageFiles_delivers[where ok = "standing link (ao_Domain opts) ?root n" and names = fixedFileNames and k = 0
        and fetch = fetch and data = data and env = "ce_Deploy env" and manifest = manifest and staging = "[]" and w = w] stored quiet(3)
    by auto
  then show ?thesis
    using first_deployment[of ?opts "ce_Deploy env" fetch w "stagedDir data fixedFileNames" w'] valid d checked quiet(3)
    by (auto simp: opts)
qed


section \<open>A concrete client and server\<close>

definition demoServer :: V2Server where
  "demoServer = \<lparr>sv_Env = demoEnv, sv_Auth = \<lparr>ac_TimestampWindowSec = 300, ac_NonceTTLSec = 600\<rparr>,
     sv_Mac = demoMac, sv_Sha = demoSha, sv_Secret = demoDec, sv_Mime = (\<lambda>v. Some v),
     sv_LegacyAPIEnabled = False, sv_TLSMode = ''off''\<rparr>"

definition demoNonces :: "nat \<Rightarrow> string" where
  "demoNonces i = replicate i (CHR ''1'') @ replicate (32 - i) (CHR ''0'')"

definition demoLink :: Link where
  "demoLink = \<lparr>lk_Server = demoServer, lk_Client = demoClient, lk_Encode = (\<lambda>_. ''{}''), lk_Text = (\<lambda>_. ''{}''),
     lk_Nonce = demoNonces, lk_Random = (\<lambda>_. None), lk_LastRow = (\<lambda>_. 0), lk_Lost = (\<lambda>_. False)\<rparr>"

definition demoNetwork :: Network where
  "demoNetwork = \<lparr>wd_State = \<lparr>vs_Db = demoTokenDb\<lparr>db_grants :=
       map (\<lambda>p. \<lparr>tg_TokenID = ''t1'', tg_Domain = ''a.b'', tg_Permission = p, tg_CreatedAt = 0\<rparr>)
         [''read_cert'', ''read_private_key'']\<rparr>, vs_Root = demoCertRoot\<rparr>,
     wd_Now = 1000000000000, wd_Count = 0\<rparr>"

definition demoSettings :: ClientSettings where
  "demoSettings = \<lparr>cs_URL = Some (''https'', ''h''), cs_Development = False, cs_InsecureHTTP = False,
     cs_RetryMin = 0, cs_RetryMax = 0\<rparr>"

definition demoClientEnv :: "Network ClientEnv" where
  "demoClientEnv = \<lparr>ce_Transport = serverTransport demoLink, ce_Settings = demoSettings,
     ce_Deploy = demoDeployEnv (switchFault False), ce_ErrText = (\<lambda>_. ''error''), ce_Random = Some ''k'',
     ce_Io = (\<lambda>_ _. False), ce_Shell = (\<lambda>_ _. None), ce_Host = Some ''host'', ce_Clock = (\<lambda>w. wd_Now w)\<rparr>"

definition demoApply :: ApplyV2Opts where
  "demoApply = \<lparr>ao_Domain = ''a.b'', ao_IdempotencyKey = ''k'', ao_OutDir = ''/out'', ao_VerifyCmd = [], ao_ReloadCmd = [],
     ao_Force = False\<rparr>"

lemma demoNonces_differ: "j < i \<Longrightarrow> i \<le> 32 \<Longrightarrow> demoNonces j \<noteq> demoNonces i"
  by (auto simp: demoNonces_def nth_append dest!: arg_cong[where f = "\<lambda>s. s ! j"])

lemma demo_link: "goodLink demoLink 32"
proof -
  have "validTokenID ''t1''"
    by (simp add: validTokenID_def byteIn_def byteval_def)
  moreover have "validHex (demoNonces i) 32" if "i < 32" for i
    using that by (simp add: validHex_def demoNonces_def byteIn_def byteval_def list_all_iff)
  ultimately show ?thesis
    using demo_sizes demoNonces_differ
    by (simp add: goodLink_def demoLink_def demoServer_def demoEnv_def demoClient_def)
qed

lemma demo_ready: "ready demoLink ''a.b'' demoNetwork"
proof -
  have "GetToken demoDec ''t1'' (vs_Db (wd_State demoNetwork)) = Inr (Some demoToken)"
    by (simp add: GetToken_def getTokenWithSecret_def demoNetwork_def demoTokenDb_def demoToken_def tokenOfRow_def
        demoDec_def orEmpty_def)
  then have "knownToken demoLink (vs_Db (wd_State demoNetwork))"
    by (simp add: knownToken_def demoLink_def demoServer_def demoClient_def demoToken_def)
  moreover have "validateCertificateDomain ''a.b'' = None"
    using demo_hostAB by (simp add: valid_simps)
  then have "mayRead demoLink ''a.b'' (vs_Db (wd_State demoNetwork))"
    by (simp add: mayRead_def HasCertificatePermission_def valid_simps demoNetwork_def demoLink_def demoClient_def
        validCertificatePermissions_def grantRow_def visible_eval split: option.split)
  ultimately show ?thesis
    by (simp add: ready_def unixSec_def) (simp add: demoNetwork_def demoTokenDb_def emptyDb_def)
qed

lemma demo_stored:
  assumes "name \<in> set fixedFileNames"
  shows "fst (ReadCertFile demoLib noFault ''a.b'' ''g-1'' name demoCertRoot) = Inr (fileBytes demoFiles name)"
proof -
  have "validateStoreFile name = None"
    using assms by (simp add: validateStoreFile_def valid_simps)
  moreover have "fst (resolveGeneration demoLib noFault ''a.b'' ''g-1'' demoCertRoot) = Inr (''g-1'', releaseFiles demoFiles ''{1}'')"
    using demo_valid_gens
    by (simp add: resolveGeneration_def demo_domainPaths findGeneration_def demoDomain_def entryDirectory_def validateGeneration_def)
  moreover have "fileBytes (releaseMap demoFiles) name = fileBytes demoFiles name"
    using assms by (simp add: releaseMap_def fileBytes_def)
  ultimately show ?thesis
    by (cases "resolveGeneration demoLib noFault ''a.b'' ''g-1'' demoCertRoot") (simp add: ReadCertFile_def demo_load)
qed

lemma demo_item:
  assumes "name \<in> set fixedFileNames"
  shows "length (fileBytes demoFiles name) = 1"
    "itemMatches demoLib (manifestItem (gm_Files (demoManifest g r)) name) (fileBytes demoFiles name)"
proof -
  show "length (fileBytes demoFiles name) = 1"
    using assms by (auto simp: fixedFileNames_def fileBytes_def demoFiles_def)
  then show "itemMatches demoLib (manifestItem (gm_Files (demoManifest g r)) name) (fileBytes demoFiles name)"
    using assms by (auto simp: itemMatches_def manifestItem_def demoManifest_def fixedFileNames_def)
qed

lemma demo_fields:
  "ao_Domain demoApply = ''a.b''" "ao_OutDir demoApply = ''/out''" "TrimSpace (ao_VerifyCmd demoApply) = []"
  "TrimSpace (ao_ReloadCmd demoApply) = []" "ce_Transport demoClientEnv = serverTransport demoLink"
  "ValidateServer (ce_Settings demoClientEnv) = None" "ce_Deploy demoClientEnv = demoDeployEnv (switchFault False)"
  "de_Lib (demoDeployEnv io) = demoLib" "de_Now (demoDeployEnv io) = 1" "\<not> de_Io (demoDeployEnv (switchFault False)) p"
  "se_lib (sv_Env (lk_Server demoLink)) = demoLib" "se_io (sv_Env (lk_Server demoLink)) = noFault"
  "vs_Root (wd_State demoNetwork) = demoCertRoot" "wd_Count demoNetwork = 0"
  by (simp_all add: demoApply_def demoClientEnv_def ValidateServer_def demoSettings_def demoDeployEnv_def switchFault_def
      demoLink_def demoServer_def demoEnv_def demoNetwork_def TrimSpace_def)


lemma demo_deployed:
  "\<exists>disk' w'. deployAndReport demoClientEnv demoApply (startState demoApply ''k'' None) ''g-1'' 1 (gm_Files (demoManifest ''g-1'' 1))
      \<lparr>cd_Out = DirAbsent, cd_State = NoStateFile\<rparr> demoNetwork = ((None, disk'), w')"
proof -
  have "\<exists>r dir w'. DeployGeneration (ce_Deploy demoClientEnv) (deployOpts demoClientEnv demoApply ''g-1'' (gm_Files (demoManifest ''g-1'' 1)))
      DirAbsent demoNetwork = (((r, None), DirAt dir), w')"
    by (rule deployment_delivers[where data = "fileBytes demoFiles" and n = 32 and link = demoLink])
      (use demo_link demo_ready demo_hostAB demo_valid_gens(2) demo_stored demo_item demo_staged_cert[of False]
        demo_files_manifest[of "''g-1''" 1] in
        \<open>simp_all add: demo_fields valid_simps validateDeploymentManifest_store\<close>)
  then show ?thesis
    by (auto simp: deployAndReport_def Let_def split: prod.splits)
qed

theorem deployed_equals_store_witness:
  "\<exists>disk' w' dir. deployAndReport demoClientEnv demoApply (startState demoApply ''k'' None) ''g-1'' 1 (gm_Files (demoManifest ''g-1'' 1))
      \<lparr>cd_Out = DirAbsent, cd_State = NoStateFile\<rparr> demoNetwork = ((None, disk'), w') \<and>
     cd_Out disk' = DirAt dir \<and> activeGeneration dir = Some ''g-1''"
proof -
  have fresh: "activeGeneration (dirOf (cd_Out \<lparr>cd_Out = DirAbsent, cd_State = NoStateFile\<rparr>)) \<noteq> Some ''g-1''"
    by (simp add: activeGeneration_def dirOf_def emptyOutDir_def readDeploymentCurrent_def)
  show ?thesis
    using demo_deployed deployed_equals_store[OF demo_fields(5) _ fresh] by blast
qed

theorem apply_requests_bounded_witness:
  "\<exists>result w'. ApplyV2 demoClientEnv demoApply \<lparr>cd_Out = DirAbsent, cd_State = NoStateFile\<rparr> demoNetwork = (result, w') \<and>
     wd_Count w' \<le> 3660"
proof -
  obtain result w' where run: "ApplyV2 demoClientEnv demoApply \<lparr>cd_Out = DirAbsent, cd_State = NoStateFile\<rparr> demoNetwork = (result, w')"
    by fastforce
  then show ?thesis
    using apply_requests_bounded[OF demo_fields(5) run] by (auto simp: demo_fields(14))
qed

theorem v2_client_never_starts_witness:
  "\<exists>e w'. ApplyV2 demoClientEnv demoApply \<lparr>cd_Out = DirAbsent, cd_State = NoStateFile\<rparr> demoNetwork =
     ((Some e, \<lparr>cd_Out = DirAbsent, cd_State = NoStateFile\<rparr>), w')"
  using v2_client_never_starts[OF demo_fields(5)] by blast

end
