(* ===== verification/Secrets.thy ===== *)
theory Secrets
  imports StoreAccess "HOL-Library.AList"
begin

text \<open>
  Encryption of stored secrets and the DNS profiles (\<^verbatim>\<open>internal/store/crypto.go\<close>, \<^verbatim>\<open>key.go\<close>,
  \<^verbatim>\<open>dns_profiles.go\<close>, \<^verbatim>\<open>secrets.go\<close>): the key file, AES-GCM with base64, the tables of profiles
  and their secrets, the records of the old layout, and the migration to the active key.

  AES-GCM, SHA-256 and the random generator are parameters.  Opening the database reads the key,
  migrates the ciphertexts and checks that all of them can be read; SQL migrations, file modes and
  the database connection are left out.
\<close>

section \<open>Base64\<close>

definition b64Char :: "nat \<Rightarrow> char" where
  "b64Char n =
     (if n < 26 then char_of (65 + n) else if n < 52 then char_of (71 + n) else if n < 62 then char_of (n - 4)
      else if n = 62 then CHR ''+'' else CHR ''/'')"

definition b64Value :: "char \<Rightarrow> nat option" where
  "b64Value c =
     (if byteIn (CHR ''A'') (CHR ''Z'') c then Some (byteval c - 65)
      else if byteIn (CHR ''a'') (CHR ''z'') c then Some (byteval c - 71)
      else if byteIn (CHR ''0'') (CHR ''9'') c then Some (byteval c + 4)
      else if c = CHR ''+'' then Some 62 else if c = CHR ''/'' then Some 63 else None)"

fun base64Encode :: "string \<Rightarrow> string" where
  "base64Encode [] = []"
| "base64Encode [x] = [b64Char (byteval x div 4), b64Char (byteval x mod 4 * 16), CHR ''='', CHR ''='']"
| "base64Encode [x, y] =
     [b64Char (byteval x div 4), b64Char (byteval x mod 4 * 16 + byteval y div 16), b64Char (byteval y mod 16 * 4), CHR ''='']"
| "base64Encode (x # y # z # rest) =
     [b64Char (byteval x div 4), b64Char (byteval x mod 4 * 16 + byteval y div 16),
      b64Char (byteval y mod 16 * 4 + byteval z div 64), b64Char (byteval z mod 64)] @ base64Encode rest"

definition b64Byte1 :: "nat \<Rightarrow> nat \<Rightarrow> char" where "b64Byte1 a b = char_of (a * 4 + b div 16)"

definition b64Byte2 :: "nat \<Rightarrow> nat \<Rightarrow> char" where "b64Byte2 b c = char_of (b mod 16 * 16 + c div 4)"

definition b64Byte3 :: "nat \<Rightarrow> nat \<Rightarrow> char" where "b64Byte3 c d = char_of (c mod 4 * 64 + d)"

text \<open>Groups of four; padding only in the last one, whose spare bits are ignored.\<close>

fun base64Groups :: "string \<Rightarrow> string option" where
  "base64Groups [] = Some []"
| "base64Groups (a # b # c # d # rest) =
     (if d = CHR ''='' then
        (if rest \<noteq> [] then None
         else case (b64Value a, b64Value b) of
           (Some va, Some vb) \<Rightarrow>
             if c = CHR ''='' then Some [b64Byte1 va vb]
             else (case b64Value c of None \<Rightarrow> None | Some vc \<Rightarrow> Some [b64Byte1 va vb, b64Byte2 vb vc])
         | _ \<Rightarrow> None)
      else case (b64Value a, b64Value b, b64Value c, b64Value d) of
        (Some va, Some vb, Some vc, Some vd) \<Rightarrow>
          map_option (\<lambda>bytes. [b64Byte1 va vb, b64Byte2 vb vc, b64Byte3 vc vd] @ bytes) (base64Groups rest)
      | _ \<Rightarrow> None)"
| "base64Groups _ = None"

text \<open>Line breaks are skipped.\<close>

definition base64Decode :: "string \<Rightarrow> string option" where
  "base64Decode s = base64Groups (filter (\<lambda>c. c \<noteq> CHR 0x0A \<and> c \<noteq> CHR 0x0D) s)"

section \<open>AES-GCM\<close>

text \<open>\<open>ae_Seal\<close> and \<open>ae_Open\<close> take key, nonce, text and additional data.\<close>

record Aead =
  ae_Seal :: "string \<Rightarrow> string \<Rightarrow> string \<Rightarrow> string \<Rightarrow> string"
  ae_Open :: "string \<Rightarrow> string \<Rightarrow> string \<Rightarrow> string \<Rightarrow> string option"

abbreviation kekSize :: nat where "kekSize \<equiv> 32"

abbreviation gcmNonceSize :: nat where "gcmNonceSize \<equiv> 12"

text \<open>\<open>random\<close> is what the generator gives for the nonce, if anything.\<close>

definition encryptAESGCM :: "Aead \<Rightarrow> string option \<Rightarrow> string \<Rightarrow> string \<Rightarrow> string \<Rightarrow> string option" where
  "encryptAESGCM ae random plain key aad =
     (if length key \<noteq> kekSize then None
      else case random of
        None \<Rightarrow> None
      | Some nonce \<Rightarrow> Some (base64Encode (nonce @ ae_Seal ae key nonce plain aad)))"

definition decryptAESGCM :: "Aead \<Rightarrow> string \<Rightarrow> string \<Rightarrow> string \<Rightarrow> string option" where
  "decryptAESGCM ae ciphertext key aad =
     (if length key \<noteq> kekSize then None
      else case base64Decode ciphertext of
        None \<Rightarrow> None
      | Some raw \<Rightarrow>
          if length raw < gcmNonceSize then None
          else ae_Open ae key (take gcmNonceSize raw) (drop gcmNonceSize raw) aad)"

definition dnsSecretAAD :: "string \<Rightarrow> string \<Rightarrow> string \<Rightarrow> string" where
  "dnsSecretAAD provider profile envKey =
     ''certkeeper/dns-profiles/v2/provider='' @ provider @ ''/profile='' @ profile @ ''/env_key='' @ envKey"

definition deriveKey :: "(string \<Rightarrow> string) \<Rightarrow> string \<Rightarrow> string" where
  "deriveKey sha s = sha s"

text \<open>The format of the old records: a derived key and no additional data.\<close>

definition decryptSecret :: "Aead \<Rightarrow> (string \<Rightarrow> string) \<Rightarrow> string \<Rightarrow> string \<Rightarrow> string option" where
  "decryptSecret ae sha cipherB64 keyStr =
     (case base64Decode cipherB64 of
        None \<Rightarrow> None
      | Some raw \<Rightarrow>
          if length raw < gcmNonceSize then None
          else ae_Open ae (deriveKey sha keyStr) (take gcmNonceSize raw) (drop gcmNonceSize raw) [])"

definition encryptSecret :: "Aead \<Rightarrow> (string \<Rightarrow> string) \<Rightarrow> string option \<Rightarrow> string \<Rightarrow> string \<Rightarrow> string option" where
  "encryptSecret ae sha random plain keyStr =
     (case random of
        None \<Rightarrow> None
      | Some nonce \<Rightarrow> Some (base64Encode (nonce @ ae_Seal ae (deriveKey sha keyStr) nonce plain [])))"

section \<open>The key file\<close>

datatype KekFile = KekAbsent | KekUnreadable | KekBytes string

datatype KekPoint = KekChmod | KekCreate | KekWrite | KekSync | KekStat

datatype KeyErr = KeyBadLength | KeyNoRandom | KeyIO KekPoint | KeyUnreadable

text \<open>
  What a start meets: which system calls fail, how much of the key a failing write leaves behind,
  the random bytes, and what another process creates between the failed read and the exclusive
  creation.
\<close>

record KeyIO =
  ki_Fails :: "KekPoint \<Rightarrow> bool"
  ki_Written :: nat
  ki_Random :: "string option"
  ki_Race :: "string option"

definition checkKEK :: "KeyIO \<Rightarrow> string \<Rightarrow> KeyErr + string" where
  "checkKEK io key =
     (if length key \<noteq> kekSize then Inl KeyBadLength
      else if ki_Fails io KekChmod then Inl (KeyIO KekChmod) else Inr key)"

definition createKEK :: "KeyIO \<Rightarrow> (KeyErr + string) \<times> KekFile" where
  "createKEK io =
     (case ki_Random io of
        None \<Rightarrow> (Inl KeyNoRandom, KekAbsent)
      | Some key \<Rightarrow>
          (case ki_Race io of
             Some other \<Rightarrow> (checkKEK io other, KekBytes other)
           | None \<Rightarrow>
               if ki_Fails io KekCreate then (Inl (KeyIO KekCreate), KekAbsent)
               else if ki_Fails io KekWrite then (Inl (KeyIO KekWrite), KekBytes (take (ki_Written io) key))
               else if ki_Fails io KekSync then (Inl (KeyIO KekSync), KekBytes key)
               else (Inr key, KekBytes key)))"

definition loadOrCreateKEK :: "KeyIO \<Rightarrow> KekFile \<Rightarrow> (KeyErr + string) \<times> KekFile" where
  "loadOrCreateKEK io file =
     (case file of
        KekBytes key \<Rightarrow> (checkKEK io key, file)
      | KekUnreadable \<Rightarrow> (Inl KeyUnreadable, file)
      | KekAbsent \<Rightarrow> createKEK io)"

text \<open>The empty key is \<^verbatim>\<open>nil\<close>.\<close>

definition readExistingKEK :: "KeyIO \<Rightarrow> KekFile \<Rightarrow> KeyErr + string" where
  "readExistingKEK io file =
     (case file of KekAbsent \<Rightarrow> Inr [] | KekUnreadable \<Rightarrow> Inl KeyUnreadable | KekBytes key \<Rightarrow> checkKEK io key)"

record KeyRing =
  kr_Active :: string
  kr_Source :: string
  kr_Version :: int
  kr_Legacy :: string

abbreviation encryptionKeyVersion :: int where "encryptionKeyVersion \<equiv> 2"

text \<open>\<open>injected\<close> is \<^verbatim>\<open>CK_ENCRYPTION_KEY\<close>; a blank value counts as none.\<close>

definition loadEncryptionKey ::
  "(string \<Rightarrow> string) \<Rightarrow> KeyIO \<Rightarrow> string \<Rightarrow> KekFile \<Rightarrow> (KeyErr + KeyRing) \<times> KekFile" where
  "loadEncryptionKey sha io injected file =
     (if TrimSpace injected \<noteq> [] then
        (let active = deriveKey sha injected
         in (bindR (readExistingKEK io file) (\<lambda>legacy.
               Inr \<lparr>kr_Active = active, kr_Source = ''injected'', kr_Version = encryptionKeyVersion,
                    kr_Legacy = (if legacy = active then [] else legacy)\<rparr>), file))
      else if ki_Fails io KekStat then (Inl (KeyIO KekStat), file)
      else (let (r, file') = loadOrCreateKEK io file;
                source = (if file = KekAbsent then ''generated_file'' else ''legacy_file'')
            in (bindR r (\<lambda>active. Inr \<lparr>kr_Active = active, kr_Source = source, kr_Version = encryptionKeyVersion,
                                       kr_Legacy = []\<rparr>), file')))"

definition decryptStoredSecret :: "Aead \<Rightarrow> KeyRing \<Rightarrow> string \<Rightarrow> string \<Rightarrow> string option" where
  "decryptStoredSecret ae ring ciphertext aad =
     (case decryptAESGCM ae ciphertext (kr_Active ring) aad of
        Some plain \<Rightarrow> Some plain
      | None \<Rightarrow> if kr_Legacy ring \<noteq> [] then decryptAESGCM ae ciphertext (kr_Legacy ring) aad else None)"

section \<open>Tables\<close>

record SecretRow =
  ds_ID :: int
  ds_ProfileID :: string
  ds_EnvKey :: string
  ds_Ciphertext :: string
  ds_CreatedAt :: int
  ds_UpdatedAt :: int

text \<open>\<^verbatim>\<open>dns_secrets\<close>, the table of the first schema.\<close>

record LegacySecret =
  lg_ID :: int
  lg_Provider :: string
  lg_EnvKey :: string
  lg_EnvValue :: string
  lg_CreatedAt :: int

record SecretDb =
  sd_Db :: Db
  sd_Secrets :: "SecretRow list"
  sd_Seq :: int
  sd_Legacy :: "LegacySecret list"

definition dnsProfileID :: "string \<Rightarrow> string \<Rightarrow> string" where
  "dnsProfileID provider profile = provider @ CHR 0x00 # profile"

definition validateEnvKey :: "string \<Rightarrow> StoreError option" where
  "validateEnvKey key =
     failIf (key = [] \<or> length key > 255 \<or> TrimSpace key \<noteq> key
       \<or> containsAny key [CHR 0x00, CHR ''='', CHR 0x0A, CHR 0x0D]) (ErrInvalid ''env key'')"

definition profileRow :: "string \<Rightarrow> string \<Rightarrow> DNSProfile \<Rightarrow> bool" where
  "profileRow provider profile q \<longleftrightarrow> dnp_Provider q = provider \<and> dnp_Profile q = profile"

text \<open>The insert with \<^verbatim>\<open>ON CONFLICT(provider, profile) DO UPDATE\<close>; the identifier is a key of its own.\<close>

definition putProfile :: "DNSProfile \<Rightarrow> Db \<Rightarrow> (StoreError + DNSProfile) \<times> Db" where
  "putProfile p db =
     (let mine = profileRow (dnp_Provider p) (dnp_Profile p)
      in if list_ex mine (db_dnsProfiles db)
         then (Inr p, db\<lparr>db_dnsProfiles := updWhere mine
                 (\<lambda>q. q\<lparr>dnp_Account := dnp_Account p, dnp_UpdatedAt := dnp_UpdatedAt p\<rparr>) (db_dnsProfiles db)\<rparr>)
         else if list_ex (\<lambda>q. dnp_ID q = dnp_ID p) (db_dnsProfiles db) then (Inl ErrUnique, db)
         else (Inr p, db\<lparr>db_dnsProfiles := db_dnsProfiles db @ [p]\<rparr>))"

definition UpsertDNSProfile :: "int \<Rightarrow> DNSProfile option \<Rightarrow> Db \<Rightarrow> (StoreError + DNSProfile) \<times> Db" where
  "UpsertDNSProfile now profile db =
     (case profile of
        None \<Rightarrow> (Inl (ErrInvalid ''dns profile''), db)
      | Some p \<Rightarrow>
          (case firstErr [validateDNSProfile (dnp_Provider p) (dnp_Profile p),
                          failIf (contains (CHR 0x00) (dnp_Account p)) (ErrInvalid ''dns account'')] of
             Some e \<Rightarrow> (Inl e, db)
           | None \<Rightarrow>
               putProfile
                 (p\<lparr>dnp_ID := dnsProfileID (dnp_Provider p) (dnp_Profile p),
                    dnp_CreatedAt := (if dnp_CreatedAt p = 0 then now else dnp_CreatedAt p), dnp_UpdatedAt := now\<rparr>) db))"

definition GetDNSProfile :: "string \<Rightarrow> string \<Rightarrow> Db \<Rightarrow> DNSProfile option" where
  "GetDNSProfile provider profile db = List.find (profileRow provider profile) (db_dnsProfiles db)"

definition ListDNSProfiles :: "string \<Rightarrow> Db \<Rightarrow> DNSProfile list" where
  "ListDNSProfiles provider db =
     sort_key (\<lambda>q. (dnp_Provider q, dnp_Profile q))
       (filter (\<lambda>q. provider = [] \<or> dnp_Provider q = provider) (db_dnsProfiles db))"

text \<open>The secrets of the profile go with it (\<^verbatim>\<open>ON DELETE CASCADE\<close>).\<close>

definition DeleteDNSProfile :: "string \<Rightarrow> string \<Rightarrow> SecretDb \<Rightarrow> StoreError option \<times> SecretDb" where
  "DeleteDNSProfile provider profile sd =
     (let db = sd_Db sd
      in if list_ex (\<lambda>c. ct_DNSProvider c = Some provider \<and> ct_DNSProfile c = Some profile) (db_certs db)
         then (Some (ErrInvalid ''profile in use''), sd)
         else let gone = map dnp_ID (filter (profileRow provider profile) (db_dnsProfiles db))
              in (None, sd\<lparr>sd_Db := db\<lparr>db_dnsProfiles := filter (\<lambda>q. \<not> profileRow provider profile q) (db_dnsProfiles db)\<rparr>,
                           sd_Secrets := filter (\<lambda>r. ds_ProfileID r \<notin> set gone) (sd_Secrets sd)\<rparr>))"

section \<open>Secrets of a profile\<close>

definition secretKey :: "string \<Rightarrow> string \<Rightarrow> SecretRow \<Rightarrow> bool" where
  "secretKey profileID envKey r \<longleftrightarrow> ds_ProfileID r = profileID \<and> ds_EnvKey r = envKey"

definition putSecret :: "int \<Rightarrow> string \<Rightarrow> string \<Rightarrow> string \<Rightarrow> SecretDb \<Rightarrow> StoreError option \<times> SecretDb" where
  "putSecret now profileID envKey ciphertext sd =
     (if \<not> list_ex (\<lambda>q. dnp_ID q = profileID) (db_dnsProfiles (sd_Db sd)) then (Some ErrForeignKey, sd)
      else if list_ex (secretKey profileID envKey) (sd_Secrets sd)
      then (None, sd\<lparr>sd_Secrets := updWhere (secretKey profileID envKey)
                       (\<lambda>r. r\<lparr>ds_Ciphertext := ciphertext, ds_UpdatedAt := now\<rparr>) (sd_Secrets sd)\<rparr>)
      else (None, sd\<lparr>sd_Seq := sd_Seq sd + 1,
                     sd_Secrets := sd_Secrets sd @
                       [\<lparr>ds_ID = sd_Seq sd + 1, ds_ProfileID = profileID, ds_EnvKey = envKey,
                         ds_Ciphertext = ciphertext, ds_CreatedAt = now, ds_UpdatedAt = now\<rparr>]\<rparr>))"

text \<open>The profile is written first, so its account is replaced even when the encryption fails.\<close>

definition UpsertDNSProfileSecret ::
  "Aead \<Rightarrow> KeyRing \<Rightarrow> int \<Rightarrow> string option \<Rightarrow> string \<Rightarrow> string \<Rightarrow> string \<Rightarrow> string \<Rightarrow> string \<Rightarrow> SecretDb
     \<Rightarrow> StoreError option \<times> SecretDb" where
  "UpsertDNSProfileSecret ae ring now random provider profile account envKey value sd =
     (case firstErr [validateDNSProfile provider profile, validateEnvKey envKey,
                     failIf (value = []) (ErrInvalid ''dns secret'')] of
        Some e \<Rightarrow> (Some e, sd)
      | None \<Rightarrow>
          (case UpsertDNSProfile now (Some \<lparr>dnp_ID = [], dnp_Provider = provider, dnp_Profile = profile,
                  dnp_Account = account, dnp_CreatedAt = 0, dnp_UpdatedAt = 0\<rparr>) (sd_Db sd) of
             (Inl e, db) \<Rightarrow> (Some e, sd\<lparr>sd_Db := db\<rparr>)
           | (Inr item, db) \<Rightarrow>
               (case encryptAESGCM ae random value (kr_Active ring) (dnsSecretAAD provider profile envKey) of
                  None \<Rightarrow> (Some ErrCrypto, sd\<lparr>sd_Db := db\<rparr>)
                | Some ciphertext \<Rightarrow> putSecret now (dnp_ID item) envKey ciphertext (sd\<lparr>sd_Db := db\<rparr>))))"

definition UpsertSecret ::
  "Aead \<Rightarrow> KeyRing \<Rightarrow> int \<Rightarrow> string option \<Rightarrow> string \<Rightarrow> string \<Rightarrow> string \<Rightarrow> SecretDb \<Rightarrow> StoreError option \<times> SecretDb" where
  "UpsertSecret ae ring now random provider envKey envValue sd =
     UpsertDNSProfileSecret ae ring now random provider ''default'' [] envKey envValue sd"

text \<open>\<^verbatim>\<open>dns_profile_secrets JOIN dns_profiles\<close>.\<close>

definition joined :: "SecretDb \<Rightarrow> (SecretRow \<times> DNSProfile) list" where
  "joined sd = concat (map (\<lambda>r. map (\<lambda>q. (r, q)) (filter (\<lambda>q. dnp_ID q = ds_ProfileID r) (db_dnsProfiles (sd_Db sd))))
     (sd_Secrets sd))"

definition secretsOf :: "string \<Rightarrow> string \<Rightarrow> SecretDb \<Rightarrow> SecretRow list" where
  "secretsOf provider profile sd = map fst (filter (\<lambda>(r, q). profileRow provider profile q) (joined sd))"

record DNSProfileSecret =
  dps_ID :: int
  dps_ProfileID :: string
  dps_EnvKey :: string
  dps_CreatedAt :: int
  dps_UpdatedAt :: int

definition ListDNSProfileSecrets :: "string \<Rightarrow> string \<Rightarrow> SecretDb \<Rightarrow> DNSProfileSecret list" where
  "ListDNSProfileSecrets provider profile sd =
     map (\<lambda>r. \<lparr>dps_ID = ds_ID r, dps_ProfileID = ds_ProfileID r, dps_EnvKey = ds_EnvKey r,
               dps_CreatedAt = ds_CreatedAt r, dps_UpdatedAt = ds_UpdatedAt r\<rparr>)
       (sort_key ds_EnvKey (secretsOf provider profile sd))"

text \<open>A Go map is an association list that \<^const>\<open>AList.update\<close> writes.\<close>

fun decryptRows ::
  "Aead \<Rightarrow> KeyRing \<Rightarrow> string \<Rightarrow> string \<Rightarrow> SecretRow list \<Rightarrow> (string \<times> string) list \<Rightarrow> StoreError + (string \<times> string) list" where
  "decryptRows ae ring provider profile [] values = Inr values"
| "decryptRows ae ring provider profile (r # rows) values =
     (case decryptStoredSecret ae ring (ds_Ciphertext r) (dnsSecretAAD provider profile (ds_EnvKey r)) of
        None \<Rightarrow> Inl ErrCrypto
      | Some value \<Rightarrow> decryptRows ae ring provider profile rows (AList.update (ds_EnvKey r) value values))"

definition ListDNSProfileSecretsWithValues ::
  "Aead \<Rightarrow> KeyRing \<Rightarrow> string \<Rightarrow> string \<Rightarrow> SecretDb \<Rightarrow> StoreError + (string \<times> string) list" where
  "ListDNSProfileSecretsWithValues ae ring provider profile sd =
     decryptRows ae ring provider profile (secretsOf provider profile sd) []"

definition DeleteDNSProfileSecret :: "string \<Rightarrow> string \<Rightarrow> string \<Rightarrow> SecretDb \<Rightarrow> SecretDb" where
  "DeleteDNSProfileSecret provider profile envKey sd =
     (let ids = map ds_ID (filter (\<lambda>r. ds_EnvKey r = envKey) (secretsOf provider profile sd))
      in sd\<lparr>sd_Secrets := filter (\<lambda>r. ds_ID r \<notin> set ids) (sd_Secrets sd)\<rparr>)"

section \<open>The records of the first schema\<close>

record DNSSecret =
  dsec_ID :: int
  dsec_Provider :: string
  dsec_Profile :: string
  dsec_Account :: string
  dsec_EnvKey :: string
  dsec_EnvValue :: string
  dsec_CreatedAt :: int

text \<open>The JSON view leaves the value out.\<close>

record DNSSecretJSON =
  dsj_ID :: int
  dsj_Provider :: string
  dsj_Profile :: string
  dsj_Account :: string
  dsj_EnvKey :: string
  dsj_CreatedAt :: int

definition DNSSecret_MarshalJSON :: "DNSSecret \<Rightarrow> DNSSecretJSON" where
  "DNSSecret_MarshalJSON s =
     \<lparr>dsj_ID = dsec_ID s, dsj_Provider = dsec_Provider s, dsj_Profile = dsec_Profile s, dsj_Account = dsec_Account s,
      dsj_EnvKey = dsec_EnvKey s, dsj_CreatedAt = dsec_CreatedAt s\<rparr>"

definition listV2DNSSecrets :: "SecretDb \<Rightarrow> DNSSecret list" where
  "listV2DNSSecrets sd =
     map (\<lambda>(r, q). \<lparr>dsec_ID = - ds_ID r, dsec_Provider = dnp_Provider q, dsec_Profile = dnp_Profile q,
                    dsec_Account = dnp_Account q, dsec_EnvKey = ds_EnvKey r, dsec_EnvValue = [],
                    dsec_CreatedAt = ds_CreatedAt r\<rparr>)
       (sort_key (\<lambda>(r, q). (dnp_Provider q, dnp_Profile q, ds_EnvKey r)) (joined sd))"

definition shadowKey :: "string \<Rightarrow> string \<Rightarrow> string" where
  "shadowKey provider envKey = provider @ CHR 0x00 # envKey"

definition ListSecrets :: "SecretDb \<Rightarrow> DNSSecret list" where
  "ListSecrets sd =
     (let v2 = listV2DNSSecrets sd;
          shadowed = map (\<lambda>s. shadowKey (dsec_Provider s) (dsec_EnvKey s)) (filter (\<lambda>s. dsec_Profile s = ''default'') v2);
          old = filter (\<lambda>g. shadowKey (lg_Provider g) (lg_EnvKey g) \<notin> set shadowed)
                  (sort_key (\<lambda>g. (lg_Provider g, lg_EnvKey g)) (sd_Legacy sd))
      in v2 @ map (\<lambda>g. \<lparr>dsec_ID = lg_ID g, dsec_Provider = lg_Provider g, dsec_Profile = [], dsec_Account = [],
                        dsec_EnvKey = lg_EnvKey g, dsec_EnvValue = [], dsec_CreatedAt = lg_CreatedAt g\<rparr>) old)"

text \<open>Every old record of the provider is decrypted, also one that a profile secret shadows.\<close>

fun addLegacy ::
  "Aead \<Rightarrow> (string \<Rightarrow> string) \<Rightarrow> string \<Rightarrow> LegacySecret list \<Rightarrow> (string \<times> string) list \<Rightarrow> StoreError + (string \<times> string) list" where
  "addLegacy ae sha keyStr [] out = Inr out"
| "addLegacy ae sha keyStr (g # rows) out =
     (case decryptSecret ae sha (lg_EnvValue g) keyStr of
        None \<Rightarrow> Inl ErrCrypto
      | Some plain \<Rightarrow>
          addLegacy ae sha keyStr rows (if map_of out (lg_EnvKey g) = None then AList.update (lg_EnvKey g) plain out else out))"

definition ListSecretsByProvider ::
  "Aead \<Rightarrow> (string \<Rightarrow> string) \<Rightarrow> KeyRing \<Rightarrow> string \<Rightarrow> string \<Rightarrow> SecretDb \<Rightarrow> StoreError + (string \<times> string) list" where
  "ListSecretsByProvider ae sha ring provider keyStr sd =
     bindR (ListDNSProfileSecretsWithValues ae ring provider ''default'' sd)
       (addLegacy ae sha keyStr (filter (\<lambda>g. lg_Provider g = provider) (sd_Legacy sd)))"

fun addTimes :: "LegacySecret list \<Rightarrow> (string \<times> int) list \<Rightarrow> (string \<times> int) list" where
  "addTimes [] at = at"
| "addTimes (g # rows) at =
     addTimes rows (if map_of at (lg_EnvKey g) = None then AList.update (lg_EnvKey g) (lg_CreatedAt g) at else at)"

text \<open>The time of a profile secret is that of its last change, although the field is called creation time.\<close>

definition defaultSecretTimes :: "string \<Rightarrow> SecretDb \<Rightarrow> (string \<times> int) list" where
  "defaultSecretTimes provider sd =
     addTimes (filter (\<lambda>g. lg_Provider g = provider) (sd_Legacy sd))
       (fold (\<lambda>r. AList.update (ds_EnvKey r) (ds_UpdatedAt r)) (secretsOf provider ''default'' sd) [])"

record SecretParameter =
  sp_EnvKey :: string
  sp_EnvValue :: string
  sp_CreatedAt :: int

text \<open>The JSON view of a parameter.\<close>

definition SecretParameter_MarshalJSON :: "SecretParameter \<Rightarrow> SecretParameter" where
  "SecretParameter_MarshalJSON p = p\<lparr>sp_EnvValue := (if sp_EnvValue p \<noteq> [] then ''***'' else [])\<rparr>"

definition ListSecretParameters ::
  "Aead \<Rightarrow> (string \<Rightarrow> string) \<Rightarrow> KeyRing \<Rightarrow> string \<Rightarrow> string \<Rightarrow> SecretDb \<Rightarrow> StoreError + SecretParameter list" where
  "ListSecretParameters ae sha ring provider keyStr sd =
     bindR (ListSecretsByProvider ae sha ring provider keyStr sd) (\<lambda>values.
       let createdAt = defaultSecretTimes provider sd
       in Inr (map (\<lambda>key. \<lparr>sp_EnvKey = key, sp_EnvValue = (case map_of values key of None \<Rightarrow> [] | Some v \<Rightarrow> v),
                           sp_CreatedAt = (case map_of createdAt key of None \<Rightarrow> 0 | Some t \<Rightarrow> t)\<rparr>)
                 (sort (remdups (map fst values)))))"

definition ConfiguredProviders :: "SecretDb \<Rightarrow> string list" where
  "ConfiguredProviders sd =
     sort (remdups (map lg_Provider (sd_Legacy sd) @ map dnp_Provider (db_dnsProfiles (sd_Db sd))))"

definition DeleteSecret :: "int \<Rightarrow> SecretDb \<Rightarrow> SecretDb" where
  "DeleteSecret secretID sd =
     (if secretID < 0 then
        (case List.find (\<lambda>(r, q). ds_ID r = - secretID) (joined sd) of
           None \<Rightarrow> sd
         | Some (r, q) \<Rightarrow>
             sd\<lparr>sd_Secrets := filter (\<lambda>x. ds_ID x \<noteq> - secretID) (sd_Secrets sd),
                sd_Legacy := (if dnp_Profile q = ''default''
                              then filter (\<lambda>g. \<not> (lg_Provider g = dnp_Provider q \<and> lg_EnvKey g = ds_EnvKey r)) (sd_Legacy sd)
                              else sd_Legacy sd)\<rparr>)
      else sd\<lparr>sd_Legacy := filter (\<lambda>g. lg_ID g \<noteq> secretID) (sd_Legacy sd)\<rparr>)"

definition DeleteSecretByKV :: "string \<Rightarrow> string \<Rightarrow> SecretDb \<Rightarrow> SecretDb" where
  "DeleteSecretByKV provider envKey sd =
     (let sd' = DeleteDNSProfileSecret provider ''default'' envKey sd
      in sd'\<lparr>sd_Legacy := filter (\<lambda>g. \<not> (lg_Provider g = provider \<and> lg_EnvKey g = envKey)) (sd_Legacy sd')\<rparr>)"

section \<open>Readiness\<close>

record KeyStatus =
  kst_Source :: string
  kst_Version :: int
  kst_Ready :: bool
  kst_EncryptedRecords :: nat
  kst_UnreadableRecords :: nat

text \<open>Ciphertext and additional data of every encrypted record.\<close>

definition encryptedRecords :: "SecretDb \<Rightarrow> (string \<times> string) list" where
  "encryptedRecords sd =
     concat (map (\<lambda>r. case tk_Ciphertext r of None \<Rightarrow> [] | Some c \<Rightarrow> [(c, tokenSecretAAD (tk_ID r))]) (db_tokens (sd_Db sd)))
     @ map (\<lambda>(r, q). (ds_Ciphertext r, dnsSecretAAD (dnp_Provider q) (dnp_Profile q) (ds_EnvKey r))) (joined sd)"

definition KeyStatusOf :: "Aead \<Rightarrow> KeyRing \<Rightarrow> SecretDb \<Rightarrow> KeyStatus" where
  "KeyStatusOf ae ring sd =
     (let unreadable = length (filter (\<lambda>(c, aad). decryptAESGCM ae c (kr_Active ring) aad = None) (encryptedRecords sd))
      in \<lparr>kst_Source = kr_Source ring, kst_Version = kr_Version ring, kst_Ready = (unreadable = 0),
          kst_EncryptedRecords = length (encryptedRecords sd), kst_UnreadableRecords = unreadable\<rparr>)"

definition EncryptionReady :: "Aead \<Rightarrow> KeyRing \<Rightarrow> SecretDb \<Rightarrow> bool" where
  "EncryptionReady ae ring sd = kst_Ready (KeyStatusOf ae ring sd)"

section \<open>Migration to the active key\<close>

text \<open>The text a ciphertext that only the old key opens holds.\<close>

definition staleText :: "Aead \<Rightarrow> KeyRing \<Rightarrow> string \<Rightarrow> string \<Rightarrow> string option" where
  "staleText ae ring ciphertext aad =
     (if decryptAESGCM ae ciphertext (kr_Active ring) aad \<noteq> None \<or> kr_Legacy ring = [] then None
      else decryptAESGCM ae ciphertext (kr_Legacy ring) aad)"

text \<open>What the loop does to the row of one token; \<open>None\<close> is an encryption that failed.\<close>

definition migrateToken :: "Aead \<Rightarrow> KeyRing \<Rightarrow> string option \<Rightarrow> int \<Rightarrow> TokenRow \<Rightarrow> TokenRow option" where
  "migrateToken ae ring random now r =
     (let aad = tokenSecretAAD (tk_ID r)
      in if orEmpty (tk_Ciphertext r) \<noteq> [] then
           (case staleText ae ring (orEmpty (tk_Ciphertext r)) aad of
              None \<Rightarrow> Some r
            | Some plain \<Rightarrow>
                map_option (\<lambda>c. r\<lparr>tk_Ciphertext := Some c, tk_Secret := None\<rparr>)
                  (encryptAESGCM ae random plain (kr_Active ring) aad))
         else if orEmpty (tk_Secret r) \<noteq> [] then
           map_option (\<lambda>c. r\<lparr>tk_Ciphertext := Some c, tk_Secret := None, tk_Version := tokenSecretVersion,
                             tk_RotatedAt := Some now\<rparr>)
             (encryptAESGCM ae random (orEmpty (tk_Secret r)) (kr_Active ring) aad)
         else Some r)"

text \<open>The rows read before the loop are updated one by one; \<open>random i\<close> is for the \<open>i\<close>-th record.\<close>

fun migrateTokens ::
  "Aead \<Rightarrow> KeyRing \<Rightarrow> (nat \<Rightarrow> string option) \<Rightarrow> int \<Rightarrow> nat \<Rightarrow> TokenRow list \<Rightarrow> TokenRow list
     \<Rightarrow> StoreError option \<times> TokenRow list" where
  "migrateTokens ae ring random now i [] table = (None, table)"
| "migrateTokens ae ring random now i (r # rows) table =
     (case migrateToken ae ring (random i) now r of
        None \<Rightarrow> (Some ErrCrypto, table)
      | Some r' \<Rightarrow> migrateTokens ae ring random now (Suc i) rows (updWhere (\<lambda>x. tk_ID x = tk_ID r) (\<lambda>_. r') table))"

fun migrateDNSSecrets ::
  "Aead \<Rightarrow> KeyRing \<Rightarrow> (nat \<Rightarrow> string option) \<Rightarrow> int \<Rightarrow> nat \<Rightarrow> (SecretRow \<times> DNSProfile) list \<Rightarrow> SecretRow list
     \<Rightarrow> StoreError option \<times> SecretRow list" where
  "migrateDNSSecrets ae ring random now i [] table = (None, table)"
| "migrateDNSSecrets ae ring random now i ((r, q) # rows) table =
     (let aad = dnsSecretAAD (dnp_Provider q) (dnp_Profile q) (ds_EnvKey r)
      in case staleText ae ring (ds_Ciphertext r) aad of
           None \<Rightarrow> migrateDNSSecrets ae ring random now (Suc i) rows table
         | Some plain \<Rightarrow>
             (case encryptAESGCM ae (random i) plain (kr_Active ring) aad of
                None \<Rightarrow> (Some ErrCrypto, table)
              | Some c \<Rightarrow>
                  migrateDNSSecrets ae ring random now (Suc i) rows
                    (updWhere (\<lambda>x. ds_ID x = ds_ID r) (\<lambda>x. x\<lparr>ds_Ciphertext := c, ds_UpdatedAt := now\<rparr>) table)))"

definition migrateLegacyCiphertexts ::
  "Aead \<Rightarrow> KeyRing \<Rightarrow> (nat \<Rightarrow> string option) \<Rightarrow> int \<Rightarrow> SecretDb \<Rightarrow> StoreError option \<times> SecretDb" where
  "migrateLegacyCiphertexts ae ring random now sd =
     (let tokens = db_tokens (sd_Db sd);
          (err, tokens') = migrateTokens ae ring random now 0 (sort_key tk_ID tokens) tokens;
          sd1 = sd\<lparr>sd_Db := (sd_Db sd)\<lparr>db_tokens := tokens'\<rparr>\<rparr>
      in if err \<noteq> None then (err, sd1)
         else let (err2, secrets) = migrateDNSSecrets ae ring random now (length tokens)
                                      (sort_key (\<lambda>(r, q). ds_ID r) (joined sd1)) (sd_Secrets sd1)
              in (err2, sd1\<lparr>sd_Secrets := secrets\<rparr>))"

section \<open>Opening the database\<close>

datatype OpenErr = OpenKey KeyErr | OpenMigrate StoreError | OpenUnreadable

text \<open>\<^verbatim>\<open>Open\<close> from the key on: the ring it works with, or the error; both leave the migrated rows behind.\<close>

definition openStore ::
  "Aead \<Rightarrow> (string \<Rightarrow> string) \<Rightarrow> KeyIO \<Rightarrow> string \<Rightarrow> (nat \<Rightarrow> string option) \<Rightarrow> int \<Rightarrow> KekFile \<Rightarrow> SecretDb
     \<Rightarrow> (OpenErr + KeyRing) \<times> KekFile \<times> SecretDb" where
  "openStore ae sha io injected random now file sd =
     (case loadEncryptionKey sha io injected file of
        (Inl e, file') \<Rightarrow> (Inl (OpenKey e), file', sd)
      | (Inr ring, file') \<Rightarrow>
          (case migrateLegacyCiphertexts ae ring random now sd of
             (Some e, sd') \<Rightarrow> (Inl (OpenMigrate e), file', sd')
           | (None, sd') \<Rightarrow> (if EncryptionReady ae ring sd' then Inr ring else Inl OpenUnreadable, file', sd')))"

end
