(* ===== verification/SecretProofs.thy ===== *)
theory SecretProofs
  imports Secrets
begin

text \<open>
  Properties of the stored secrets: round trips, what binds a ciphertext to its row, the tables, and
  the migration from an old key.
\<close>

section \<open>Base64\<close>

lemma byteval_char_of [simp]: "byteval (char_of n) = n mod 256"
  by (simp add: byteval_def)

lemma byteval_b64:
  "n < 64 \<Longrightarrow> byteval (b64Char n) =
     (if n < 26 then 65 + n else if n < 52 then 71 + n else if n < 62 then n - 4 else if n = 62 then 43 else 47)"
  by (simp add: b64Char_def) (simp add: byteval_def)

lemma byteval_neq: "byteval c \<noteq> byteval d \<Longrightarrow> c \<noteq> d"
  by auto

lemma byte_marks:
  "byteval (CHR ''='') = 61" "byteval (CHR 0x0A) = 10" "byteval (CHR 0x0D) = 13" "byteval (CHR ''+'') = 43"
  "byteval (CHR ''/'') = 47" "byteval (CHR ''A'') = 65" "byteval (CHR ''Z'') = 90" "byteval (CHR ''a'') = 97"
  "byteval (CHR ''z'') = 122" "byteval (CHR ''0'') = 48" "byteval (CHR ''9'') = 57"
  by (simp_all add: byteval_def)

lemma b64_Char:
  assumes "n < 64"
  shows "b64Value (b64Char n) = Some n" "b64Char n \<noteq> CHR ''=''" "b64Char n \<noteq> CHR 0x0A" "b64Char n \<noteq> CHR 0x0D"
proof -
  have "b64Char n = CHR ''+'' \<longleftrightarrow> n = 62" "b64Char n = CHR ''/'' \<longleftrightarrow> n = 63"
    using byteval_b64[OF assms] assms by (auto simp: byte_marks simp flip: byteval_inject split: if_splits)
  then show "b64Value (b64Char n) = Some n"
    using assms by (auto simp: b64Value_def byteIn_def byteval_b64 byte_marks)
  show "b64Char n \<noteq> CHR ''=''" "b64Char n \<noteq> CHR 0x0A" "b64Char n \<noteq> CHR 0x0D"
    using assms by (auto simp: byteval_b64 byte_marks intro!: byteval_neq split: if_splits)
qed

lemma b64_quarters:
  "byteval x div 4 < 64" "byteval x mod 4 * 16 + byteval y div 16 < 64" "byteval x mod 4 * 16 < 64"
  "byteval y mod 16 * 4 + byteval z div 64 < 64" "byteval y mod 16 * 4 < 64" "byteval z mod 64 < 64"
proof -
  have "byteval x div 4 < 64" "byteval y div 16 < 16" "byteval z div 64 < 4"
    by (simp_all add: less_mult_imp_div_less)
  moreover have "byteval x mod 4 < 4" "byteval y mod 16 < 16"
    by simp_all
  ultimately show "byteval x div 4 < 64" "byteval x mod 4 * 16 + byteval y div 16 < 64" "byteval x mod 4 * 16 < 64"
    "byteval y mod 16 * 4 + byteval z div 64 < 64" "byteval y mod 16 * 4 < 64" "byteval z mod 64 < 64"
    by simp_all
qed

lemma char_of_byteval_same [simp]: "char_of (byteval c) = c"
  by (simp add: byteval_def)

lemma b64_bytes:
  "b64Byte1 (byteval x div 4) (byteval x mod 4 * 16 + byteval y div 16) = x"
  "b64Byte1 (byteval x div 4) (byteval x mod 4 * 16) = x"
  "b64Byte2 (byteval x mod 4 * 16 + byteval y div 16) (byteval y mod 16 * 4 + byteval z div 64) = y"
  "b64Byte2 (byteval x mod 4 * 16 + byteval y div 16) (byteval y mod 16 * 4) = y"
  "b64Byte3 (byteval y mod 16 * 4 + byteval z div 64) (byteval z mod 64) = z"
proof -
  have small: "byteval y div 16 < 16" "byteval z div 64 < 4"
    by (simp_all add: less_mult_imp_div_less)
  have parts: "(byteval x mod 4 * 16 + byteval y div 16) div 16 = byteval x mod 4"
    "(byteval x mod 4 * 16 + byteval y div 16) mod 16 = byteval y div 16"
    "(byteval y mod 16 * 4 + byteval z div 64) div 4 = byteval y mod 16"
    "(byteval y mod 16 * 4 + byteval z div 64) mod 4 = byteval z div 64"
    using small by simp_all
  show "b64Byte1 (byteval x div 4) (byteval x mod 4 * 16 + byteval y div 16) = x"
    "b64Byte1 (byteval x div 4) (byteval x mod 4 * 16) = x"
    "b64Byte2 (byteval x mod 4 * 16 + byteval y div 16) (byteval y mod 16 * 4 + byteval z div 64) = y"
    "b64Byte2 (byteval x mod 4 * 16 + byteval y div 16) (byteval y mod 16 * 4) = y"
    "b64Byte3 (byteval y mod 16 * 4 + byteval z div 64) (byteval z mod 64) = z"
    using small by (simp_all add: b64Byte1_def b64Byte2_def b64Byte3_def parts del: mod_mult_self1 mod_mult_self2)
qed

lemma base64_groups: "base64Groups (base64Encode s) = Some s"
  by (induction s rule: base64Encode.induct) (simp_all add: b64_Char b64_quarters b64_bytes)

lemma base64_lines: "filter (\<lambda>c. c \<noteq> CHR 0x0A \<and> c \<noteq> CHR 0x0D) (base64Encode s) = base64Encode s"
  by (induction s rule: base64Encode.induct) (simp_all add: b64_Char b64_quarters)

lemma base64_roundtrip: "base64Decode (base64Encode s) = Some s"
  by (simp add: base64Decode_def base64_groups base64_lines)

section \<open>Encryption\<close>

text \<open>What AES-GCM is relied on for: opening under the same key, nonce and additional data gives the text back.\<close>

definition gcmLaw :: "Aead \<Rightarrow> bool" where
  "gcmLaw ae \<longleftrightarrow>
     (\<forall>k n p a. length k = kekSize \<longrightarrow> length n = gcmNonceSize \<longrightarrow> ae_Open ae k n (ae_Seal ae k n p a) a = Some p)"

definition nonceOk :: "string option \<Rightarrow> bool" where
  "nonceOk random \<longleftrightarrow> (case random of None \<Rightarrow> True | Some n \<Rightarrow> length n = gcmNonceSize)"

lemma decrypt_encrypt:
  assumes "gcmLaw ae" "nonceOk random" "encryptAESGCM ae random plain key aad = Some c"
  shows "decryptAESGCM ae c key aad = Some plain"
  using assms by (auto simp: encryptAESGCM_def decryptAESGCM_def base64_roundtrip gcmLaw_def nonceOk_def split: if_splits option.splits)

lemma stored_encrypt:
  assumes "gcmLaw ae" "nonceOk random" "encryptAESGCM ae random plain (kr_Active ring) aad = Some c"
  shows "decryptStoredSecret ae ring c aad = Some plain"
  using decrypt_encrypt[OF assms] by (simp add: decryptStoredSecret_def)


section \<open>The tables\<close>

text \<open>The schema's keys, and identifiers that are those the code computes.\<close>

definition profilesOk :: "DNSProfile list \<Rightarrow> bool" where
  "profilesOk qs \<longleftrightarrow>
     (\<forall>q\<in>set qs. validateDNSProfile (dnp_Provider q) (dnp_Profile q) = None \<and>
        dnp_ID q = dnsProfileID (dnp_Provider q) (dnp_Profile q)) \<and> distinct (map dnp_ID qs)"

definition secretRowsOk :: "string set \<Rightarrow> int \<Rightarrow> SecretRow list \<Rightarrow> bool" where
  "secretRowsOk ids s rows \<longleftrightarrow>
     (\<forall>r\<in>set rows. validateEnvKey (ds_EnvKey r) = None \<and> 1 \<le> ds_ID r \<and> ds_ID r \<le> s \<and> ds_ProfileID r \<in> ids) \<and>
     distinct (map ds_ID rows) \<and> distinct (map (\<lambda>r. (ds_ProfileID r, ds_EnvKey r)) rows) \<and> 0 \<le> s"

definition secretsInv :: "SecretDb \<Rightarrow> bool" where
  "secretsInv sd \<longleftrightarrow> profilesOk (db_dnsProfiles (sd_Db sd)) \<and>
     secretRowsOk (set (map dnp_ID (db_dnsProfiles (sd_Db sd)))) (sd_Seq sd) (sd_Secrets sd)"

lemma no_nul: "validateDNSProfile provider profile = None \<Longrightarrow> CHR 0x00 \<notin> set provider"
  by (auto simp: validateDNSProfile_def failIf_def contains_def split: if_splits)

lemma append_nul_inject:
  "CHR 0x00 \<notin> set a \<Longrightarrow> CHR 0x00 \<notin> set b \<Longrightarrow> a @ CHR 0x00 # c = b @ CHR 0x00 # d \<Longrightarrow> a = b \<and> c = d"
proof (induction a arbitrary: b)
  case Nil
  then show ?case by (cases b) auto
next
  case (Cons x a)
  then show ?case by (cases b) auto
qed

lemma dnsProfileID_inject:
  assumes "validateDNSProfile p f = None" "validateDNSProfile p' f' = None"
  shows "dnsProfileID p f = dnsProfileID p' f' \<longleftrightarrow> p = p' \<and> f = f'"
  using append_nul_inject[OF no_nul[OF assms(1)] no_nul[OF assms(2)]] by (auto simp: dnsProfileID_def)

lemma profile_by_id:
  assumes "secretsInv sd" "q \<in> set (db_dnsProfiles (sd_Db sd))" "validateDNSProfile p f = None"
  shows "dnp_ID q = dnsProfileID p f \<longleftrightarrow> profileRow p f q"
  using assms dnsProfileID_inject[OF _ assms(3)] by (auto simp: secretsInv_def profilesOk_def profileRow_def)

lemma profilesOk_update:
  assumes "profilesOk qs" "\<And>q. dnp_ID (f q) = dnp_ID q \<and> dnp_Provider (f q) = dnp_Provider q \<and> dnp_Profile (f q) = dnp_Profile q"
  shows "profilesOk (updWhere P f qs)" "map dnp_ID (updWhere P f qs) = map dnp_ID qs"
  using assms by (auto simp: profilesOk_def updWhere_def comp_def if_distrib cong: if_cong)

lemma secretRowsOk_mono: "secretRowsOk ids s rows \<Longrightarrow> ids \<subseteq> ids' \<Longrightarrow> secretRowsOk ids' s rows"
  by (auto simp: secretRowsOk_def)

lemma putProfile_ok:
  assumes "secretsInv sd" "validateDNSProfile (dnp_Provider p) (dnp_Profile p) = None"
    "dnp_ID p = dnsProfileID (dnp_Provider p) (dnp_Profile p)" "putProfile p (sd_Db sd) = (x, db)"
  shows "x = Inr p" "secretsInv (sd\<lparr>sd_Db := db\<rparr>)"
    "map dnp_ID (db_dnsProfiles db) = map dnp_ID (db_dnsProfiles (sd_Db sd)) \<or>
     map dnp_ID (db_dnsProfiles db) = map dnp_ID (db_dnsProfiles (sd_Db sd)) @ [dnp_ID p] \<and>
       dnp_ID p \<notin> dnp_ID ` set (db_dnsProfiles (sd_Db sd))"
    "dnp_ID p \<in> dnp_ID ` set (db_dnsProfiles db)"
proof -
  let ?qs = "db_dnsProfiles (sd_Db sd)" and ?mine = "profileRow (dnp_Provider p) (dnp_Profile p)"
  have by_id: "dnp_ID q = dnp_ID p \<longleftrightarrow> ?mine q" if "q \<in> set ?qs" for q
    using profile_by_id[OF assms(1) that assms(2)] assms(3) by simp
  let ?up = "updWhere ?mine (\<lambda>q. q\<lparr>dnp_Account := dnp_Account p, dnp_UpdatedAt := dnp_UpdatedAt p\<rparr>) ?qs"
  have up: "profilesOk ?up" "map dnp_ID ?up = map dnp_ID ?qs"
    using assms(1) profilesOk_update[of ?qs] by (simp_all add: secretsInv_def)
  have cases: "list_ex ?mine ?qs \<and> x = Inr p \<and> db = (sd_Db sd)\<lparr>db_dnsProfiles := ?up\<rparr> \<or>
      \<not> list_ex ?mine ?qs \<and> x = Inr p \<and> db = (sd_Db sd)\<lparr>db_dnsProfiles := ?qs @ [p]\<rparr>"
    using assms(4) by_id by (auto simp: putProfile_def Let_def list_ex_iff split: if_splits)
  show "x = Inr p"
    using cases by auto
  have grown: "profilesOk (?qs @ [p])" if "\<not> list_ex ?mine ?qs"
  proof -
    have "dnp_ID p \<noteq> dnp_ID q" if "q \<in> set ?qs" for q
      using by_id[OF that] \<open>\<not> list_ex ?mine ?qs\<close> that by (auto simp: list_ex_iff)
    then have "dnp_ID p \<notin> set (map dnp_ID ?qs)"
      by auto
    then show ?thesis
      using assms(1-3) by (simp add: secretsInv_def profilesOk_def ball_Un)
  qed
  show "secretsInv (sd\<lparr>sd_Db := db\<rparr>)"
    using cases
  proof
    assume "list_ex ?mine ?qs \<and> x = Inr p \<and> db = (sd_Db sd)\<lparr>db_dnsProfiles := ?up\<rparr>"
    then show ?thesis
      using assms(1) up by (simp add: secretsInv_def flip: set_map)
  next
    assume "\<not> list_ex ?mine ?qs \<and> x = Inr p \<and> db = (sd_Db sd)\<lparr>db_dnsProfiles := ?qs @ [p]\<rparr>"
    then show ?thesis
      using assms(1) grown secretRowsOk_mono[of "set (map dnp_ID ?qs)" _ _ "set (map dnp_ID (?qs @ [p]))"]
      by (auto simp: secretsInv_def)
  qed
  show "map dnp_ID (db_dnsProfiles db) = map dnp_ID ?qs \<or> map dnp_ID (db_dnsProfiles db) = map dnp_ID ?qs @ [dnp_ID p] \<and>
       dnp_ID p \<notin> dnp_ID ` set ?qs"
    using cases up(2) by_id by (auto simp: list_ex_iff) blast
  show "dnp_ID p \<in> dnp_ID ` set (db_dnsProfiles db)"
    using cases
  proof
    assume c: "list_ex ?mine ?qs \<and> x = Inr p \<and> db = (sd_Db sd)\<lparr>db_dnsProfiles := ?up\<rparr>"
    then obtain q where "q \<in> set ?qs" "?mine q"
      by (auto simp: list_ex_iff)
    then have "dnp_ID p \<in> set (map dnp_ID ?up)"
      unfolding up(2) using by_id[of q] by (auto intro!: image_eqI[of _ _ q])
    then show ?thesis
      using c by simp
  qed simp
qed


text \<open>Writing a secret keeps the tables in order and makes it the only row of its key.\<close>

lemma putSecret_ok:
  assumes "secretsInv sd" "validateEnvKey envKey = None" "putSecret now pid envKey c sd = (err, sd')"
  shows "secretsInv sd'" "sd_Db sd' = sd_Db sd"
    "pid \<in> dnp_ID ` set (db_dnsProfiles (sd_Db sd)) \<Longrightarrow> err = None"
    "err = None \<Longrightarrow> \<exists>r\<in>set (sd_Secrets sd'). secretKey pid envKey r \<and> ds_Ciphertext r = c"
    "\<not> secretKey pid envKey r \<Longrightarrow> r \<in> set (sd_Secrets sd') \<longleftrightarrow> r \<in> set (sd_Secrets sd)"
proof -
  let ?rows = "sd_Secrets sd" and ?ids = "set (map dnp_ID (db_dnsProfiles (sd_Db sd)))"
  let ?up = "updWhere (secretKey pid envKey) (\<lambda>r. r\<lparr>ds_Ciphertext := c, ds_UpdatedAt := now\<rparr>) ?rows"
  let ?new = "\<lparr>ds_ID = sd_Seq sd + 1, ds_ProfileID = pid, ds_EnvKey = envKey, ds_Ciphertext = c,
                ds_CreatedAt = now, ds_UpdatedAt = now\<rparr>"
  have rows: "secretRowsOk ?ids (sd_Seq sd) ?rows"
    using assms(1) by (simp add: secretsInv_def)
  have up: "map ds_ID ?up = map ds_ID ?rows" "map (\<lambda>r. (ds_ProfileID r, ds_EnvKey r)) ?up = map (\<lambda>r. (ds_ProfileID r, ds_EnvKey r)) ?rows"
    by (auto simp: updWhere_def)
  have "\<forall>x\<in>set ?up. \<exists>r\<in>set ?rows. ds_ID x = ds_ID r \<and> ds_EnvKey x = ds_EnvKey r \<and> ds_ProfileID x = ds_ProfileID r"
    by (auto simp: updWhere_def)
  then have "secretRowsOk ?ids (sd_Seq sd) ?up"
    using rows unfolding secretRowsOk_def up by metis
  moreover have "secretRowsOk ?ids (sd_Seq sd + 1) (?rows @ [?new])"
    if "pid \<in> ?ids" "\<not> list_ex (secretKey pid envKey) ?rows"
  proof -
    have "\<forall>r\<in>set ?rows. ds_ID r \<noteq> sd_Seq sd + 1"
      using rows by (auto simp: secretRowsOk_def)
    then show ?thesis
      using rows that assms(2) by (auto simp: secretRowsOk_def secretKey_def list_ex_iff)
  qed
  ultimately show "secretsInv sd'"
    using assms by (auto simp: putSecret_def secretsInv_def list_ex_iff split: if_splits)
  show "sd_Db sd' = sd_Db sd"
    using assms(3) by (auto simp: putSecret_def split: if_splits)
  show "pid \<in> dnp_ID ` set (db_dnsProfiles (sd_Db sd)) \<Longrightarrow> err = None"
    using assms(3) by (auto simp: putSecret_def list_ex_iff split: if_splits)
  have new: "secretKey a k \<lparr>ds_ID = i, ds_ProfileID = a, ds_EnvKey = k, ds_Ciphertext = c, ds_CreatedAt = t, ds_UpdatedAt = u\<rparr>"
    for a k i t u
    by (simp add: secretKey_def)
  have hit: "\<exists>r\<in>set ?up. secretKey pid envKey r \<and> ds_Ciphertext r = c" if x: "x \<in> set ?rows" "secretKey pid envKey x" for x
    using x by (intro bexI[of _ "x\<lparr>ds_Ciphertext := c, ds_UpdatedAt := now\<rparr>"]) (auto simp: updWhere_def secretKey_def)
  show "err = None \<Longrightarrow> \<exists>r\<in>set (sd_Secrets sd'). secretKey pid envKey r \<and> ds_Ciphertext r = c"
    using assms(3) hit by (auto simp: putSecret_def list_ex_iff new split: if_splits)
  show "\<not> secretKey pid envKey r \<Longrightarrow> r \<in> set (sd_Secrets sd') \<longleftrightarrow> r \<in> set (sd_Secrets sd)"
    using assms(3) by (auto simp: putSecret_def updWhere_def secretKey_def split: if_splits intro!: rev_image_eqI)
qed

text \<open>The secrets of a profile are the rows with its identifier.\<close>

lemma secretsOf_mem:
  assumes "secretsInv sd" "validateDNSProfile p f = None"
  shows "r \<in> set (secretsOf p f sd) \<longleftrightarrow> r \<in> set (sd_Secrets sd) \<and> ds_ProfileID r = dnsProfileID p f"
proof
  assume "r \<in> set (secretsOf p f sd)"
  then obtain q where q: "q \<in> set (db_dnsProfiles (sd_Db sd))" "dnp_ID q = ds_ProfileID r" "profileRow p f q"
    "r \<in> set (sd_Secrets sd)"
    by (auto simp: secretsOf_def joined_def)
  then show "r \<in> set (sd_Secrets sd) \<and> ds_ProfileID r = dnsProfileID p f"
    using profile_by_id[OF assms(1) q(1) assms(2)] by simp
next
  assume r: "r \<in> set (sd_Secrets sd) \<and> ds_ProfileID r = dnsProfileID p f"
  then obtain q where q: "q \<in> set (db_dnsProfiles (sd_Db sd))" "dnp_ID q = ds_ProfileID r"
    using assms(1) by (auto simp: secretsInv_def secretRowsOk_def)
  then have "profileRow p f q"
    using profile_by_id[OF assms(1) q(1) assms(2)] r by simp
  then show "r \<in> set (secretsOf p f sd)"
    using r q by (force simp: secretsOf_def joined_def)
qed

lemma decryptRows_ok:
  "decryptRows ae ring p f rows vs = Inr m \<longleftrightarrow>
     (\<forall>r\<in>set rows. decryptStoredSecret ae ring (ds_Ciphertext r) (dnsSecretAAD p f (ds_EnvKey r)) \<noteq> None) \<and>
     m = fold (\<lambda>r. AList.update (ds_EnvKey r) (the (decryptStoredSecret ae ring (ds_Ciphertext r) (dnsSecretAAD p f (ds_EnvKey r))))) rows vs"
  by (induction rows arbitrary: vs) (auto split: option.splits)

lemma map_of_fold_update:
  "map_of (fold (\<lambda>r. AList.update (key r) (val r)) rows vs) k =
     (case List.find (\<lambda>r. key r = k) (rev rows) of Some r \<Rightarrow> Some (val r) | None \<Rightarrow> map_of vs k)"
  by (induction rows rule: rev_induct) (auto simp: update_conv)

text \<open>With distinct keys the map holds the value of each row.\<close>

lemma find_rev_key:
  assumes "r \<in> set rows" "\<And>r'. r' \<in> set rows \<Longrightarrow> key r' = key r \<Longrightarrow> r' = r"
  shows "List.find (\<lambda>x. key x = key r) (rev rows) = Some r"
proof (cases "List.find (\<lambda>x. key x = key r) (rev rows)")
  case None
  then show ?thesis using assms(1) by (auto simp: find_None_iff)
next
  case (Some x)
  then obtain i where "i < length (rev rows)" "key x = key r" "x = rev rows ! i"
    unfolding find_Some_iff by blast
  then have "x \<in> set rows"
    using nth_mem[of i "rev rows"] by simp
  then show ?thesis using Some assms(2) \<open>key x = key r\<close> by simp
qed

text \<open>What reading a profile gives: the text of each of its rows, under its name.\<close>

lemma one_row_per_key:
  assumes "secretsInv sd" "r \<in> set (sd_Secrets sd)" "r' \<in> set (sd_Secrets sd)"
    "ds_ProfileID r = ds_ProfileID r'" "ds_EnvKey r = ds_EnvKey r'"
  shows "r = r'"
proof -
  have "inj_on (\<lambda>r. (ds_ProfileID r, ds_EnvKey r)) (set (sd_Secrets sd))"
    using assms(1) by (simp add: secretsInv_def secretRowsOk_def distinct_map)
  then show ?thesis
    using assms(2-) by (auto dest: inj_onD)
qed

lemma values_listed:
  assumes "secretsInv sd" "validateDNSProfile p f = None"
    and readable: "\<And>r. r \<in> set (sd_Secrets sd) \<Longrightarrow> ds_ProfileID r = dnsProfileID p f
      \<Longrightarrow> decryptStoredSecret ae ring (ds_Ciphertext r) (dnsSecretAAD p f (ds_EnvKey r)) \<noteq> None"
  obtains m where "ListDNSProfileSecretsWithValues ae ring p f sd = Inr m"
  using decryptRows_ok[of ae ring p f "secretsOf p f sd" "[]"] secretsOf_mem[OF assms(1,2)] readable
  by (auto simp: ListDNSProfileSecretsWithValues_def)

lemma values_readable:
  assumes "secretsInv sd" "validateDNSProfile p f = None" "ListDNSProfileSecretsWithValues ae ring p f sd = Inr m"
    "r \<in> set (sd_Secrets sd)" "ds_ProfileID r = dnsProfileID p f"
  shows "decryptStoredSecret ae ring (ds_Ciphertext r) (dnsSecretAAD p f (ds_EnvKey r)) = map_of m (ds_EnvKey r)"
    "map_of m (ds_EnvKey r) \<noteq> None"
proof -
  let ?text = "\<lambda>r. decryptStoredSecret ae ring (ds_Ciphertext r) (dnsSecretAAD p f (ds_EnvKey r))"
  have r: "r \<in> set (secretsOf p f sd)"
    using secretsOf_mem[OF assms(1,2)] assms(4,5) by simp
  have list: "?text r \<noteq> None" "m = fold (\<lambda>r. AList.update (ds_EnvKey r) (the (?text r))) (secretsOf p f sd) []"
    using assms(3) r unfolding ListDNSProfileSecretsWithValues_def decryptRows_ok by auto
  have "List.find (\<lambda>x. ds_EnvKey x = ds_EnvKey r) (rev (secretsOf p f sd)) = Some r"
    using one_row_per_key[OF assms(1) _ assms(4)] assms(5) by (intro find_rev_key[OF r]) (simp add: secretsOf_mem[OF assms(1,2)])
  then show "?text r = map_of m (ds_EnvKey r)" "map_of m (ds_EnvKey r) \<noteq> None"
    using list(1) unfolding list(2) by (auto simp: map_of_fold_update)
qed

lemma values_keys:
  assumes "secretsInv sd" "validateDNSProfile p f = None" "ListDNSProfileSecretsWithValues ae ring p f sd = Inr m"
    "map_of m k = Some v"
  obtains r where "r \<in> set (sd_Secrets sd)" "ds_ProfileID r = dnsProfileID p f" "ds_EnvKey r = k"
proof -
  let ?text = "\<lambda>r. decryptStoredSecret ae ring (ds_Ciphertext r) (dnsSecretAAD p f (ds_EnvKey r))"
  have list: "m = fold (\<lambda>r. AList.update (ds_EnvKey r) (the (?text r))) (secretsOf p f sd) []"
    using assms(3) unfolding ListDNSProfileSecretsWithValues_def decryptRows_ok by auto
  obtain r where "List.find (\<lambda>x. ds_EnvKey x = k) (rev (secretsOf p f sd)) = Some r"
    using assms(4) unfolding list map_of_fold_update by (auto split: option.splits)
  then have "r \<in> set (rev (secretsOf p f sd))" "ds_EnvKey r = k"
    unfolding find_Some_iff by (metis nth_mem)+
  then show ?thesis
    using that secretsOf_mem[OF assms(1,2)] by auto
qed

lemma values_iff:
  assumes "secretsInv sd" "validateDNSProfile p f = None" "ListDNSProfileSecretsWithValues ae ring p f sd = Inr m"
  shows "map_of m j = Some w \<longleftrightarrow> (\<exists>r\<in>set (sd_Secrets sd). ds_ProfileID r = dnsProfileID p f \<and> ds_EnvKey r = j \<and>
    decryptStoredSecret ae ring (ds_Ciphertext r) (dnsSecretAAD p f j) = Some w)"
  using values_keys[OF assms] values_readable(1)[OF assms] by metis

section \<open>Writing and reading a secret\<close>

text \<open>A valid secret is stored: one row of its key, the other rows as they were.\<close>

lemma upsert_profile_secret:
  assumes "secretsInv sd" "validateDNSProfile p f = None" "\<not> contains (CHR 0x00) account" "validateEnvKey k = None" "v \<noteq> []"
    "encryptAESGCM ae random v (kr_Active ring) (dnsSecretAAD p f k) = Some c"
  obtains sd' new where "UpsertDNSProfileSecret ae ring now random p f account k v sd = (None, sd')" "secretsInv sd'"
    "new \<in> set (sd_Secrets sd')" "secretKey (dnsProfileID p f) k new" "ds_Ciphertext new = c"
    "\<forall>r. \<not> secretKey (dnsProfileID p f) k r \<longrightarrow> (r \<in> set (sd_Secrets sd') \<longleftrightarrow> r \<in> set (sd_Secrets sd))"
proof -
  let ?p = "\<lparr>dnp_ID = dnsProfileID p f, dnp_Provider = p, dnp_Profile = f, dnp_Account = account,
             dnp_CreatedAt = now, dnp_UpdatedAt = now\<rparr>"
  obtain x db where db: "putProfile ?p (sd_Db sd) = (x, db)"
    by fastforce
  have ok: "x = Inr ?p" "secretsInv (sd\<lparr>sd_Db := db\<rparr>)" "dnsProfileID p f \<in> dnp_ID ` set (db_dnsProfiles db)"
    using putProfile_ok(1,2,4)[OF assms(1) _ _ db] assms(2) by simp_all
  obtain e sd' where put: "putSecret now (dnsProfileID p f) k c (sd\<lparr>sd_Db := db\<rparr>) = (e, sd')"
    by fastforce
  note facts = putSecret_ok[OF ok(2) assms(4) put]
  have e: "e = None"
    using facts(3) ok(3) by simp
  have "UpsertDNSProfileSecret ae ring now random p f account k v sd = (None, sd')"
    using assms(2-6) db ok(1) put e by (simp add: UpsertDNSProfileSecret_def UpsertDNSProfile_def failIf_def firstErr_def)
  then show ?thesis
    using that facts(1) facts(4)[OF e] facts(5) by simp metis
qed

text \<open>C24: a profile secret that is stored is read back under its name, and every other secret of the
  profile reads as before; the tables stay well formed.  Where the profile could be read before, the
  call succeeds.\<close>

theorem profile_secret_roundtrip:
  assumes law: "gcmLaw ae" and key: "length (kr_Active ring) = kekSize" and nonce: "length nonce = gcmNonceSize"
    and inv: "secretsInv sd" and valid: "validateDNSProfile p f = None" "\<not> contains (CHR 0x00) account"
      "validateEnvKey k = None" "v \<noteq> []"
    and before: "ListDNSProfileSecretsWithValues ae ring p f sd = Inr m"
  shows "\<exists>sd' m'. UpsertDNSProfileSecret ae ring now (Some nonce) p f account k v sd = (None, sd') \<and> secretsInv sd' \<and>
    ListDNSProfileSecretsWithValues ae ring p f sd' = Inr m' \<and> map_of m' = (map_of m)(k \<mapsto> v)"
proof -
  let ?c = "base64Encode (nonce @ ae_Seal ae (kr_Active ring) nonce v (dnsSecretAAD p f k))" and ?id = "dnsProfileID p f"
  let ?text = "\<lambda>r. decryptStoredSecret ae ring (ds_Ciphertext r) (dnsSecretAAD p f (ds_EnvKey r))"
  have enc: "encryptAESGCM ae (Some nonce) v (kr_Active ring) (dnsSecretAAD p f k) = Some ?c"
    using key by (simp add: encryptAESGCM_def)
  obtain sd' new where up: "UpsertDNSProfileSecret ae ring now (Some nonce) p f account k v sd = (None, sd')"
    and inv': "secretsInv sd'" and new: "new \<in> set (sd_Secrets sd')" "secretKey ?id k new" "ds_Ciphertext new = ?c"
    and same: "\<forall>r. \<not> secretKey ?id k r \<longrightarrow> (r \<in> set (sd_Secrets sd') \<longleftrightarrow> r \<in> set (sd_Secrets sd))"
    by (rule upsert_profile_secret[OF inv valid enc, where now = now])
  have new_text: "?text new = Some v"
    using stored_encrypt[OF law _ enc] new(2,3) nonce by (simp add: nonceOk_def secretKey_def)
  have row: "?text r = ((map_of m)(k \<mapsto> v)) (ds_EnvKey r) \<and> ?text r \<noteq> None"
    if r: "r \<in> set (sd_Secrets sd')" "ds_ProfileID r = ?id" for r
  proof (cases "ds_EnvKey r = k")
    case True
    then show ?thesis
      using one_row_per_key[OF inv' r(1) new(1)] new(2) r(2) new_text by (simp add: secretKey_def)
  next
    case False
    then show ?thesis
      using values_readable[OF inv valid(1) before _ r(2)] same r by (simp add: secretKey_def)
  qed
  obtain m' where m': "ListDNSProfileSecretsWithValues ae ring p f sd' = Inr m'"
    using values_listed[OF inv' valid(1)] row by metis
  have "map_of m' j = Some w \<longleftrightarrow> ((map_of m)(k \<mapsto> v)) j = Some w" for j w
  proof (cases "j = k")
    case True
    then show ?thesis
      using values_readable(1)[OF inv' valid(1) m' new(1)] new(2) new_text by (simp add: secretKey_def)
  next
    case False
    then show ?thesis
      using same unfolding values_iff[OF inv' valid(1) m'] fun_upd_other[OF False] values_iff[OF inv valid(1) before]
      by (metis secretKey_def)
  qed
  then have "map_of m' = (map_of m)(k \<mapsto> v)"
    by (intro ext) (metis option.exhaust)
  then show ?thesis
    using up m' inv' by blast
qed

section \<open>Migration to the active key\<close>

text \<open>The text of a token row and of a secret row, read with both keys and with the active one alone.\<close>

definition tokenText :: "Aead \<Rightarrow> KeyRing \<Rightarrow> TokenRow \<Rightarrow> string option" where
  "tokenText ae ring r =
     (if orEmpty (tk_Ciphertext r) \<noteq> [] then decryptStoredSecret ae ring (orEmpty (tk_Ciphertext r)) (tokenSecretAAD (tk_ID r))
      else if orEmpty (tk_Secret r) \<noteq> [] then tk_Secret r else None)"

definition activeTokenText :: "Aead \<Rightarrow> KeyRing \<Rightarrow> TokenRow \<Rightarrow> string option" where
  "activeTokenText ae ring r = decryptAESGCM ae (orEmpty (tk_Ciphertext r)) (kr_Active ring) (tokenSecretAAD (tk_ID r))"

definition secretText :: "Aead \<Rightarrow> KeyRing \<Rightarrow> DNSProfile \<Rightarrow> SecretRow \<Rightarrow> string option" where
  "secretText ae ring q r =
     decryptStoredSecret ae ring (ds_Ciphertext r) (dnsSecretAAD (dnp_Provider q) (dnp_Profile q) (ds_EnvKey r))"

definition activeSecretText :: "Aead \<Rightarrow> KeyRing \<Rightarrow> DNSProfile \<Rightarrow> SecretRow \<Rightarrow> string option" where
  "activeSecretText ae ring q r =
     decryptAESGCM ae (ds_Ciphertext r) (kr_Active ring) (dnsSecretAAD (dnp_Provider q) (dnp_Profile q) (ds_EnvKey r))"

lemma encrypt_nonempty: "nonceOk random \<Longrightarrow> encryptAESGCM ae random plain key aad = Some c \<Longrightarrow> c \<noteq> []"
proof -
  assume "nonceOk random" "encryptAESGCM ae random plain key aad = Some c"
  then have "base64Decode c \<noteq> Some []"
    by (auto simp: encryptAESGCM_def nonceOk_def base64_roundtrip split: if_splits option.splits)
  then show "c \<noteq> []"
    by (auto simp: base64Decode_def)
qed

lemma staleText_None:
  "staleText ae ring c aad = None \<Longrightarrow> decryptStoredSecret ae ring c aad = decryptAESGCM ae c (kr_Active ring) aad"
  by (auto simp: staleText_def decryptStoredSecret_def split: if_splits option.splits)

lemma staleText_Some: "staleText ae ring c aad = Some t \<Longrightarrow> decryptStoredSecret ae ring c aad = Some t"
  by (auto simp: staleText_def decryptStoredSecret_def split: if_splits option.splits)

text \<open>One row: its text is kept, and afterwards the active key alone gives it.\<close>

lemma migrateToken_text:
  assumes "gcmLaw ae" "nonceOk random" "migrateToken ae ring random now r = Some r'"
  shows "tk_ID r' = tk_ID r" "tokenText ae ring r = Some t \<Longrightarrow> tokenText ae ring r' = Some t \<and> activeTokenText ae ring r' = Some t"
proof -
  let ?aad = "tokenSecretAAD (tk_ID r)"
  show "tk_ID r' = tk_ID r"
    using assms(3) by (auto simp: migrateToken_def Let_def split: if_splits option.splits)
  assume t: "tokenText ae ring r = Some t"
  have fresh: "tokenText ae ring r' = Some t \<and> activeTokenText ae ring r' = Some t"
    if c: "encryptAESGCM ae random t (kr_Active ring) ?aad = Some c" "tk_ID r' = tk_ID r" "tk_Ciphertext r' = Some c" for c
    using stored_encrypt[OF assms(1,2) c(1)] decrypt_encrypt[OF assms(1,2) c(1)] encrypt_nonempty[OF assms(2) c(1)] c(2,3)
    by (simp add: tokenText_def activeTokenText_def orEmpty_def)
  consider (kept) "orEmpty (tk_Ciphertext r) \<noteq> []" "staleText ae ring (orEmpty (tk_Ciphertext r)) ?aad = None" "r' = r"
    | (stale) plain c where "orEmpty (tk_Ciphertext r) \<noteq> []" "staleText ae ring (orEmpty (tk_Ciphertext r)) ?aad = Some plain"
        "encryptAESGCM ae random plain (kr_Active ring) ?aad = Some c" "tk_ID r' = tk_ID r" "tk_Ciphertext r' = Some c"
    | (plain) c where "orEmpty (tk_Ciphertext r) = []" "orEmpty (tk_Secret r) \<noteq> []"
        "encryptAESGCM ae random (orEmpty (tk_Secret r)) (kr_Active ring) ?aad = Some c" "tk_ID r' = tk_ID r" "tk_Ciphertext r' = Some c"
    | (empty) "orEmpty (tk_Ciphertext r) = []" "orEmpty (tk_Secret r) = []"
    using assms(3) by (auto simp: migrateToken_def Let_def split: if_splits option.splits)
  then show "tokenText ae ring r' = Some t \<and> activeTokenText ae ring r' = Some t"
  proof cases
    case kept
    then show ?thesis using t staleText_None[OF kept(2)] by (simp add: tokenText_def activeTokenText_def)
  next
    case stale
    then show ?thesis using t staleText_Some[OF stale(2)] fresh by (simp add: tokenText_def)
  next
    case plain
    have "orEmpty (tk_Secret r) = t"
      using t plain(1,2) by (simp add: tokenText_def orEmpty_def)
    then show ?thesis
      using plain fresh by simp
  next
    case empty
    then show ?thesis using t by (simp add: tokenText_def)
  qed
qed

text \<open>Both loops replace rows of a table one by one, found by a key, and stop at the first failure.\<close>

fun replaceRows :: "(nat \<Rightarrow> 'p \<Rightarrow> ('r \<Rightarrow> 'r) option) \<Rightarrow> ('p \<Rightarrow> 'k) \<Rightarrow> ('r \<Rightarrow> 'k) \<Rightarrow> nat \<Rightarrow> 'p list \<Rightarrow> 'r list \<Rightarrow> bool \<times> 'r list" where
  "replaceRows upd kp kt i [] table = (True, table)"
| "replaceRows upd kp kt i (p # rows) table =
     (case upd i p of
        None \<Rightarrow> (False, table)
      | Some f \<Rightarrow> replaceRows upd kp kt (Suc i) rows (updWhere (\<lambda>x. kt x = kp p) f table))"

definition replaced :: "('p \<Rightarrow> 'k) \<Rightarrow> ('r \<Rightarrow> 'k) \<Rightarrow> ('r \<Rightarrow> 'r \<Rightarrow> bool) \<Rightarrow> 'p list \<Rightarrow> bool \<Rightarrow> 'r \<Rightarrow> 'r \<Rightarrow> bool" where
  "replaced kp kt good rows ok x x' \<longleftrightarrow> kt x' = kt x \<and> (x' = x \<or> good x x') \<and>
     (if kt x \<in> kp ` set rows then ok \<longrightarrow> good x x' else x' = x)"

lemma replaceRows_rel:
  assumes "replaceRows upd kp kt i rows table = (ok, table')" "distinct (map kp rows)"
    "\<And>i p f x. p \<in> set rows \<Longrightarrow> x \<in> set table \<Longrightarrow> kt x = kp p \<Longrightarrow> upd i p = Some f \<Longrightarrow> kt (f x) = kt x \<and> good x (f x)"
  shows "list_all2 (replaced kp kt good rows ok) table table'"
  using assms
proof (induction rows arbitrary: i table)
  case Nil
  then show ?case by (simp add: list_all2_same replaced_def)
next
  case (Cons p rows)
  show ?case
  proof (cases "upd i p")
    case None
    then show ?thesis using Cons.prems(1) by (auto simp: list_all2_same replaced_def)
  next
    case (Some f)
    let ?g = "\<lambda>x. if kt x = kp p then f x else x"
    have fx: "kt (f x) = kt x \<and> good x (f x)" if "x \<in> set table" "kt x = kp p" for x
      using Cons.prems(3)[of p x i f] Some that by simp
    have "list_all2 (replaced kp kt good rows ok) (map ?g table) table'"
    proof (rule Cons.IH)
      show "replaceRows upd kp kt (Suc i) rows (map ?g table) = (ok, table')"
        using Cons.prems(1) Some by (simp add: updWhere_def)
      show "distinct (map kp rows)" using Cons.prems(2) by simp
      fix j q h x assume a: "q \<in> set rows" "x \<in> set (map ?g table)" "kt x = kp q" "upd j q = Some h"
      have "kp q \<noteq> kp p" using Cons.prems(2) a(1) by (simp add: image_iff) metis
      then have "x \<in> set table" using a(2,3) fx by (auto split: if_splits)
      then show "kt (h x) = kt x \<and> good x (h x)" using Cons.prems(3)[of q x j h] a by simp
    qed
    moreover have "replaced kp kt good (p # rows) ok x x'" if "x \<in> set table" "replaced kp kt good rows ok (?g x) x'" for x x'
      using that fx[of x] Cons.prems(2) by (auto simp: replaced_def split: if_splits)
    ultimately show ?thesis
      unfolding list.rel_map by (rule list.rel_mono_strong)
  qed
qed

definition tokenMoved :: "Aead \<Rightarrow> KeyRing \<Rightarrow> TokenRow \<Rightarrow> TokenRow \<Rightarrow> bool" where
  "tokenMoved ae ring r r' \<longleftrightarrow> (\<forall>t. tokenText ae ring r = Some t \<longrightarrow> tokenText ae ring r' = Some t \<and> activeTokenText ae ring r' = Some t)"

lemma migrateTokens_replace:
  "migrateTokens ae ring random now i rows table =
     (case replaceRows (\<lambda>i r. map_option (\<lambda>r' _. r') (migrateToken ae ring (random i) now r)) tk_ID tk_ID i rows table of
        (ok, table') \<Rightarrow> (if ok then None else Some ErrCrypto, table'))"
  by (induction rows arbitrary: i table) (auto split: option.splits)

lemma migrateTokens_moved:
  assumes "gcmLaw ae" "\<And>i. nonceOk (random i)" "distinct (map tk_ID table)"
    and "migrateTokens ae ring random now i (sort_key tk_ID table) table = (err, table')"
  shows "list_all2 (replaced tk_ID tk_ID (tokenMoved ae ring) (sort_key tk_ID table) (err = None)) table table'"
proof (rule replaceRows_rel)
  let ?upd = "\<lambda>i r. map_option (\<lambda>r' (_ :: TokenRow). r') (migrateToken ae ring (random i) now r)"
  show "replaceRows ?upd tk_ID tk_ID i (sort_key tk_ID table) table = (err = None, table')"
    using assms(4) by (auto simp: migrateTokens_replace split: prod.splits if_splits)
  show "distinct (map tk_ID (sort_key tk_ID table))"
    using assms(3) by (simp add: distinct_map)
  fix i r f x assume "r \<in> set (sort_key tk_ID table)" "x \<in> set table" "tk_ID x = tk_ID r" "?upd i r = Some f"
  then show "tk_ID (f x) = tk_ID x \<and> tokenMoved ae ring x (f x)"
    using assms(3) migrateToken_text[OF assms(1,2)] by (auto simp: distinct_map tokenMoved_def dest!: inj_onD)
qed

text \<open>The rows of the second loop: each secret with its profile, in the order of their numbers.\<close>

definition secretMoved :: "Aead \<Rightarrow> KeyRing \<Rightarrow> DNSProfile list \<Rightarrow> SecretRow \<Rightarrow> SecretRow \<Rightarrow> bool" where
  "secretMoved ae ring qs r r' \<longleftrightarrow> ds_ProfileID r' = ds_ProfileID r \<and> ds_EnvKey r' = ds_EnvKey r \<and>
     (\<forall>q\<in>set qs. dnp_ID q = ds_ProfileID r \<longrightarrow> (\<forall>t. secretText ae ring q r = Some t \<longrightarrow>
        secretText ae ring q r' = Some t \<and> activeSecretText ae ring q r' = Some t))"

definition migrateSecret ::
  "Aead \<Rightarrow> KeyRing \<Rightarrow> string option \<Rightarrow> int \<Rightarrow> SecretRow \<times> DNSProfile \<Rightarrow> (SecretRow \<Rightarrow> SecretRow) option" where
  "migrateSecret ae ring random now p =
     (let aad = dnsSecretAAD (dnp_Provider (snd p)) (dnp_Profile (snd p)) (ds_EnvKey (fst p))
      in case staleText ae ring (ds_Ciphertext (fst p)) aad of
           None \<Rightarrow> Some id
         | Some plain \<Rightarrow> map_option (\<lambda>c x. x\<lparr>ds_Ciphertext := c, ds_UpdatedAt := now\<rparr>)
             (encryptAESGCM ae random plain (kr_Active ring) aad))"

lemma migrateDNSSecrets_replace:
  "migrateDNSSecrets ae ring random now i rows table =
     (case replaceRows (\<lambda>i. migrateSecret ae ring (random i) now) (\<lambda>p. ds_ID (fst p)) ds_ID i rows table of
        (ok, table') \<Rightarrow> (if ok then None else Some ErrCrypto, table'))"
proof (induction rows arbitrary: i table)
  case (Cons p rows)
  have same: "updWhere P id table = table" for P :: "SecretRow \<Rightarrow> bool" and table
    by (induction table) auto
  show ?case
    by (cases p) (simp add: Cons migrateSecret_def Let_def same split: option.splits)
qed simp

lemma joined_mem:
  assumes "secretsInv sd"
  shows "p \<in> set (joined sd) \<longleftrightarrow>
    fst p \<in> set (sd_Secrets sd) \<and> snd p \<in> set (db_dnsProfiles (sd_Db sd)) \<and> dnp_ID (snd p) = ds_ProfileID (fst p)"
  by (cases p) (auto simp: joined_def)

lemma filter_one: "distinct (map f xs) \<Longrightarrow> x \<in> set xs \<Longrightarrow> filter (\<lambda>y. f y = f x) xs = [x]"
  by (induction xs) (auto simp: image_iff filter_empty_conv)

lemma joined_rows:
  assumes "secretsInv sd"
  shows "map fst (joined sd) = sd_Secrets sd"
proof -
  let ?qs = "db_dnsProfiles (sd_Db sd)"
  have "map fst (map (\<lambda>q. (r, q)) (filter (\<lambda>q. dnp_ID q = ds_ProfileID r) ?qs)) = [r]" if r: "r \<in> set (sd_Secrets sd)" for r
  proof -
    obtain q where q: "q \<in> set ?qs" "ds_ProfileID r = dnp_ID q"
      using assms r by (auto simp: secretsInv_def secretRowsOk_def)
    then have "filter (\<lambda>y. dnp_ID y = ds_ProfileID r) ?qs = [q]"
      using assms unfolding q(2) secretsInv_def profilesOk_def by (intro filter_one) simp_all
    then show ?thesis by simp
  qed
  then have "concat (map (map fst) (map (\<lambda>r. map (\<lambda>q. (r, q)) (filter (\<lambda>q. dnp_ID q = ds_ProfileID r) ?qs)) (sd_Secrets sd)))
      = concat (map (\<lambda>r. [r]) (sd_Secrets sd))"
    by (intro arg_cong[where f = concat]) simp
  then show ?thesis
    by (simp add: joined_def map_concat)
qed

lemma joined_distinct:
  assumes "secretsInv sd"
  shows "distinct (map (\<lambda>p. ds_ID (fst p)) (joined sd))"
proof -
  have "map (\<lambda>p. ds_ID (fst p)) (joined sd) = map ds_ID (sd_Secrets sd)"
    using joined_rows[OF assms] by (metis (no_types, lifting) comp_apply map_eq_conv map_map)
  then show ?thesis
    using assms by (simp add: secretsInv_def secretRowsOk_def)
qed

lemma migrateDNSSecrets_moved:
  assumes "gcmLaw ae" "\<And>i. nonceOk (random i)" "secretsInv sd"
    and "migrateDNSSecrets ae ring random now i (sort_key (\<lambda>(r, q). ds_ID r) (joined sd)) (sd_Secrets sd) = (err, table')"
  shows "list_all2 (replaced (\<lambda>p. ds_ID (fst p)) ds_ID (secretMoved ae ring (db_dnsProfiles (sd_Db sd)))
    (sort_key (\<lambda>(r, q). ds_ID r) (joined sd)) (err = None)) (sd_Secrets sd) table'"
proof (rule replaceRows_rel)
  let ?upd = "\<lambda>i. migrateSecret ae ring (random i) now" and ?rows = "sort_key (\<lambda>(r, q). ds_ID r) (joined sd)"
  show "replaceRows ?upd (\<lambda>p. ds_ID (fst p)) ds_ID i ?rows (sd_Secrets sd) = (err = None, table')"
    using assms(4) by (auto simp: migrateDNSSecrets_replace split: prod.splits if_splits)
  have "distinct (map (\<lambda>p. ds_ID (fst p)) (joined sd))"
    by (rule joined_distinct[OF assms(3)])
  then show "distinct (map (\<lambda>p. ds_ID (fst p)) ?rows)"
    by (simp add: distinct_map)
  fix i p f x assume a: "p \<in> set ?rows" "x \<in> set (sd_Secrets sd)" "ds_ID x = ds_ID (fst p)" "?upd i p = Some f"
  have p: "fst p \<in> set (sd_Secrets sd)" "snd p \<in> set (db_dnsProfiles (sd_Db sd))" "dnp_ID (snd p) = ds_ProfileID (fst p)"
    using a(1) joined_mem[OF assms(3)] by simp_all
  have x: "x = fst p"
    using a(2,3) p(1) assms(3) by (auto simp: secretsInv_def secretRowsOk_def distinct_map dest!: inj_onD)
  have q: "q = snd p" if "q \<in> set (db_dnsProfiles (sd_Db sd))" "dnp_ID q = ds_ProfileID (fst p)" for q
    using that p(2,3) assms(3) inj_onD[of dnp_ID _ q "snd p"] unfolding secretsInv_def profilesOk_def distinct_map by metis
  let ?aad = "dnsSecretAAD (dnp_Provider (snd p)) (dnp_Profile (snd p)) (ds_EnvKey (fst p))"
  consider (kept) "staleText ae ring (ds_Ciphertext x) ?aad = None" "f x = x"
    | (stale) plain c where "staleText ae ring (ds_Ciphertext x) ?aad = Some plain"
        "encryptAESGCM ae (random i) plain (kr_Active ring) ?aad = Some c" "f x = x\<lparr>ds_Ciphertext := c, ds_UpdatedAt := now\<rparr>"
    using a(4) x by (auto simp: migrateSecret_def Let_def split: option.splits)
  then show "ds_ID (f x) = ds_ID x \<and> secretMoved ae ring (db_dnsProfiles (sd_Db sd)) x (f x)"
  proof cases
    case kept
    then show ?thesis
      using staleText_None[OF kept(1)] q x by (auto simp: secretMoved_def secretText_def activeSecretText_def)
  next
    case stale
    then show ?thesis
      using staleText_Some[OF stale(1)] stored_encrypt[OF assms(1,2) stale(2)] decrypt_encrypt[OF assms(1,2) stale(2)] q x
      by (auto simp: secretMoved_def secretText_def activeSecretText_def)
  qed
qed

text \<open>What a start leaves of the tables: the same rows, each text readable as before and, when it came
  through (\<open>ok\<close>), with the active key alone.\<close>

definition textsKept :: "Aead \<Rightarrow> KeyRing \<Rightarrow> bool \<Rightarrow> SecretDb \<Rightarrow> SecretDb \<Rightarrow> bool" where
  "textsKept ae ring ok sd sd' \<longleftrightarrow>
     list_all2 (\<lambda>r r'. tk_ID r' = tk_ID r \<and> (\<forall>t. tokenText ae ring r = Some t \<longrightarrow>
        tokenText ae ring r' = Some t \<and> (ok \<longrightarrow> activeTokenText ae ring r' = Some t)))
       (db_tokens (sd_Db sd)) (db_tokens (sd_Db sd')) \<and>
     list_all2 (\<lambda>r r'. ds_ID r' = ds_ID r \<and> ds_ProfileID r' = ds_ProfileID r \<and> ds_EnvKey r' = ds_EnvKey r \<and>
        (\<forall>q\<in>set (db_dnsProfiles (sd_Db sd)). dnp_ID q = ds_ProfileID r \<longrightarrow> (\<forall>t. secretText ae ring q r = Some t \<longrightarrow>
           secretText ae ring q r' = Some t \<and> (ok \<longrightarrow> activeSecretText ae ring q r' = Some t))))
       (sd_Secrets sd) (sd_Secrets sd') \<and>
     db_dnsProfiles (sd_Db sd') = db_dnsProfiles (sd_Db sd) \<and> sd_Legacy sd' = sd_Legacy sd"

lemma secretsInv_cong:
  assumes "secretsInv sd" "db_dnsProfiles (sd_Db sd') = db_dnsProfiles (sd_Db sd)" "sd_Seq sd' = sd_Seq sd"
    "list_all2 (\<lambda>r r'. ds_ID r' = ds_ID r \<and> ds_ProfileID r' = ds_ProfileID r \<and> ds_EnvKey r' = ds_EnvKey r) (sd_Secrets sd) (sd_Secrets sd')"
  shows "secretsInv sd'"
proof -
  let ?k = "\<lambda>r. (ds_ID r, ds_ProfileID r, ds_EnvKey r)"
  have keys: "map ?k (sd_Secrets sd') = map ?k (sd_Secrets sd)"
    using assms(4) by (induction rule: list_all2_induct) auto
  have maps: "map ds_ID rows = map fst (map ?k rows)" "map (\<lambda>r. (ds_ProfileID r, ds_EnvKey r)) rows = map snd (map ?k rows)"
    "(\<forall>r\<in>set rows. validateEnvKey (ds_EnvKey r) = None \<and> 1 \<le> ds_ID r \<and> ds_ID r \<le> s \<and> ds_ProfileID r \<in> ids) \<longleftrightarrow>
     (\<forall>(i, p, k)\<in>set (map ?k rows). validateEnvKey k = None \<and> 1 \<le> i \<and> i \<le> s \<and> p \<in> ids)" for rows s ids
    by (auto simp: comp_def)
  show ?thesis
    using assms(1-3) unfolding secretsInv_def secretRowsOk_def maps keys by simp
qed

lemma migration_texts:
  assumes "gcmLaw ae" "\<And>i. nonceOk (random i)" "distinct (map tk_ID (db_tokens (sd_Db sd)))" "secretsInv sd"
    and "migrateLegacyCiphertexts ae ring random now sd = (err, sd')"
  shows "textsKept ae ring (err = None) sd sd'" "secretsInv sd'"
proof -
  let ?tokens = "db_tokens (sd_Db sd)" and ?qs = "db_dnsProfiles (sd_Db sd)"
  obtain e tokens' where t: "migrateTokens ae ring random now 0 (sort_key tk_ID ?tokens) ?tokens = (e, tokens')"
    by fastforce
  let ?sd1 = "sd\<lparr>sd_Db := (sd_Db sd)\<lparr>db_tokens := tokens'\<rparr>\<rparr>"
  have same: "joined ?sd1 = joined sd"
    by (simp add: joined_def)
  obtain e2 secrets where s: "migrateDNSSecrets ae ring random now (length ?tokens)
      (sort_key (\<lambda>(r, q). ds_ID r) (joined sd)) (sd_Secrets sd) = (e2, secrets)"
    by fastforce
  have run: "(e \<noteq> None \<and> err = e \<and> sd' = ?sd1) \<or> (e = None \<and> err = e2 \<and> sd' = ?sd1\<lparr>sd_Secrets := secrets\<rparr>)"
    using assms(5) t s unfolding migrateLegacyCiphertexts_def Let_def by (auto simp: same split: if_splits)
  have tokens: "list_all2 (\<lambda>r r'. tk_ID r' = tk_ID r \<and> (\<forall>t. tokenText ae ring r = Some t \<longrightarrow>
        tokenText ae ring r' = Some t \<and> (e = None \<longrightarrow> activeTokenText ae ring r' = Some t))) ?tokens tokens'"
    using migrateTokens_moved[OF assms(1-3) t]
    by (rule list.rel_mono_strong) (auto simp: replaced_def tokenMoved_def split: if_splits)
  have in_rows: "ds_ID r \<in> (\<lambda>p. ds_ID (fst p)) ` set (joined sd)" if "r \<in> set (sd_Secrets sd)" for r
    using that unfolding joined_rows[OF assms(4), symmetric] by auto
  have secrets: "list_all2 (\<lambda>r r'. ds_ID r' = ds_ID r \<and> ds_ProfileID r' = ds_ProfileID r \<and> ds_EnvKey r' = ds_EnvKey r \<and>
        (\<forall>q\<in>set ?qs. dnp_ID q = ds_ProfileID r \<longrightarrow> (\<forall>t. secretText ae ring q r = Some t \<longrightarrow>
           secretText ae ring q r' = Some t \<and> (e2 = None \<longrightarrow> activeSecretText ae ring q r' = Some t)))) (sd_Secrets sd) secrets"
    using migrateDNSSecrets_moved[OF assms(1,2,4) s]
    by (rule list.rel_mono_strong) (use in_rows in \<open>auto simp: replaced_def secretMoved_def split: if_splits\<close>)
  show kept: "textsKept ae ring (err = None) sd sd'"
    using run
  proof
    assume r: "e \<noteq> None \<and> err = e \<and> sd' = ?sd1"
    then show ?thesis
      using tokens by (auto simp: textsKept_def list_all2_same elim!: list_all2_mono)
  next
    assume r: "e = None \<and> err = e2 \<and> sd' = ?sd1\<lparr>sd_Secrets := secrets\<rparr>"
    then show ?thesis
      using list_all2_mono[OF tokens] secrets by (simp add: textsKept_def)
  qed
  show "secretsInv sd'"
    using kept run by (intro secretsInv_cong[OF assms(4)]) (auto simp: textsKept_def elim!: list_all2_mono)
qed

text \<open>C25: the migration from an old key never loses a secret.  Whatever text a token or a profile
  secret had before, read with the active or the old key, it has afterwards, also when the migration
  fails part way; when it succeeds, the active key alone reads it.  The tables stay well formed.\<close>

theorem migration_keeps_secrets:
  assumes "gcmLaw ae" "\<And>i. nonceOk (random i)" "distinct (map tk_ID (db_tokens (sd_Db sd)))" "secretsInv sd"
  shows "case migrateLegacyCiphertexts ae ring random now sd of
    (err, sd') \<Rightarrow> textsKept ae ring (err = None) sd sd' \<and> secretsInv sd'"
  using migration_texts[OF assms] by (auto split: prod.splits)

lemma opened_store_facts:
  assumes "gcmLaw ae" "\<And>i. nonceOk (random i)" "distinct (map tk_ID (db_tokens (sd_Db sd)))" "secretsInv sd"
    and "openStore ae sha io injected random now file sd = (Inr ring, file', sd')"
  shows "textsKept ae ring True sd sd'"
    "\<forall>(c, aad) \<in> set (encryptedRecords sd'). decryptAESGCM ae c (kr_Active ring) aad \<noteq> None"
    "kst_Ready (KeyStatusOf ae ring sd')" "kst_UnreadableRecords (KeyStatusOf ae ring sd') = 0"
proof -
  obtain migrated: "migrateLegacyCiphertexts ae ring random now sd = (None, sd')" and ready: "EncryptionReady ae ring sd'"
    using assms(5) by (auto simp: openStore_def split: sum.splits prod.splits option.splits if_splits)
  show "textsKept ae ring True sd sd'"
    using migration_texts(1)[OF assms(1-4) migrated] by simp
  show all: "\<forall>(c, aad) \<in> set (encryptedRecords sd'). decryptAESGCM ae c (kr_Active ring) aad \<noteq> None"
    using ready by (auto simp: EncryptionReady_def KeyStatusOf_def Let_def filter_empty_conv)
  show "kst_Ready (KeyStatusOf ae ring sd')" "kst_UnreadableRecords (KeyStatusOf ae ring sd') = 0"
    using ready by (simp_all add: EncryptionReady_def KeyStatusOf_def Let_def)
qed

text \<open>a database that opens can be read: every encrypted record gives its text under the active key
  alone, and whatever was readable under the ring of this start still has its text.  The status that the
  server reports afterwards says the same.\<close>

theorem opened_store_readable:
  assumes "gcmLaw ae" "\<And>i. nonceOk (random i)" "distinct (map tk_ID (db_tokens (sd_Db sd)))" "secretsInv sd"
    and "openStore ae sha io injected random now file sd = (Inr ring, file', sd')"
  shows "textsKept ae ring True sd sd' \<and>
    (\<forall>(c, aad) \<in> set (encryptedRecords sd'). decryptAESGCM ae c (kr_Active ring) aad \<noteq> None) \<and>
    kst_Ready (KeyStatusOf ae ring sd') \<and> kst_UnreadableRecords (KeyStatusOf ae ring sd') = 0"
  using opened_store_facts[OF assms] by (intro conjI)

section \<open>The operations keep the tables in order\<close>

lemma secretRowsOk_filter: "secretRowsOk ids s rows \<Longrightarrow> secretRowsOk ids s (filter P rows)"
  by (auto simp: secretRowsOk_def distinct_map_filter)

lemma secretsInv_filter:
  "secretsInv sd \<Longrightarrow> secretsInv (sd\<lparr>sd_Secrets := filter P (sd_Secrets sd), sd_Legacy := l\<rparr>)"
  "secretsInv sd \<Longrightarrow> secretsInv (sd\<lparr>sd_Secrets := filter P (sd_Secrets sd)\<rparr>)"
  "secretsInv sd \<Longrightarrow> secretsInv (sd\<lparr>sd_Legacy := l\<rparr>)"
  by (simp_all add: secretsInv_def secretRowsOk_filter)

text \<open>A profile goes with its secrets, so no secret is left without its profile.\<close>

lemma DeleteDNSProfile_inv:
  assumes "secretsInv sd"
  shows "secretsInv (snd (DeleteDNSProfile p f sd))"
proof -
  let ?qs = "db_dnsProfiles (sd_Db sd)" and ?rows = "sd_Secrets sd"
  let ?gone = "dnp_ID ` set (filter (profileRow p f) ?qs)" and ?left = "filter (\<lambda>q. \<not> profileRow p f q) ?qs"
  have "profilesOk ?left"
    using assms by (auto simp: secretsInv_def profilesOk_def distinct_map_filter)
  moreover have "secretRowsOk (set (map dnp_ID ?left)) (sd_Seq sd) (filter (\<lambda>r. ds_ProfileID r \<notin> ?gone) ?rows)"
  proof -
    have "secretRowsOk (set (map dnp_ID ?qs)) (sd_Seq sd) (filter (\<lambda>r. ds_ProfileID r \<notin> ?gone) ?rows)"
      using assms by (simp add: secretsInv_def secretRowsOk_filter)
    moreover have "set (map dnp_ID ?qs) \<subseteq> set (map dnp_ID ?left) \<union> ?gone"
      by auto
    ultimately show ?thesis
      unfolding secretRowsOk_def by (auto 4 3)
  qed
  ultimately show ?thesis
    using assms by (simp add: DeleteDNSProfile_def Let_def secretsInv_def)
qed

lemma UpsertDNSProfile_inv:
  assumes "secretsInv sd"
  shows "secretsInv (sd\<lparr>sd_Db := snd (UpsertDNSProfile now profile (sd_Db sd))\<rparr>)"
proof (cases "\<exists>q. profile = Some q \<and> validateDNSProfile (dnp_Provider q) (dnp_Profile q) = None \<and> \<not> contains (CHR 0x00) (dnp_Account q)")
  case False
  then have "snd (UpsertDNSProfile now profile (sd_Db sd)) = sd_Db sd"
    by (auto simp: UpsertDNSProfile_def firstErr_def failIf_def split: option.splits)
  then show ?thesis
    using assms by simp
next
  case True
  then obtain q where q: "profile = Some q" "validateDNSProfile (dnp_Provider q) (dnp_Profile q) = None"
    "\<not> contains (CHR 0x00) (dnp_Account q)"
    by blast
  let ?p = "q\<lparr>dnp_ID := dnsProfileID (dnp_Provider q) (dnp_Profile q),
    dnp_CreatedAt := (if dnp_CreatedAt q = 0 then now else dnp_CreatedAt q), dnp_UpdatedAt := now\<rparr>"
  have "UpsertDNSProfile now profile (sd_Db sd) = putProfile ?p (sd_Db sd)"
    using q by (simp add: UpsertDNSProfile_def firstErr_def failIf_def)
  then show ?thesis
    using putProfile_ok(2)[OF assms, of ?p "fst (putProfile ?p (sd_Db sd))" "snd (putProfile ?p (sd_Db sd))"] q(2) by simp
qed

lemma UpsertDNSProfileSecret_inv:
  assumes "secretsInv sd"
  shows "secretsInv (snd (UpsertDNSProfileSecret ae ring now random p f account k v sd))"
proof -
  let ?profile = "Some \<lparr>dnp_ID = [], dnp_Provider = p, dnp_Profile = f, dnp_Account = account, dnp_CreatedAt = 0, dnp_UpdatedAt = 0\<rparr>"
  obtain x db where up: "UpsertDNSProfile now ?profile (sd_Db sd) = (x, db)"
    by fastforce
  have inv: "secretsInv (sd\<lparr>sd_Db := db\<rparr>)"
    using UpsertDNSProfile_inv[OF assms, of now ?profile] up by simp
  have put: "secretsInv (snd (putSecret now pid k c (sd\<lparr>sd_Db := db\<rparr>)))" if "validateEnvKey k = None" for pid c
    using putSecret_ok(1)[OF inv that prod.collapse[symmetric]] .
  show ?thesis
    using assms inv put up by (auto simp: UpsertDNSProfileSecret_def firstErr_def split: option.splits sum.splits)
qed

text \<open>C27: every operation on profiles and secrets keeps the tables in order: profile names valid and
  one row each, identifiers those the code computes, each secret with a valid name, one per profile and
  name, and its profile there; the migration of a start keeps them too.\<close>

theorem secrets_invariant:
  assumes "secretsInv sd"
  shows "secretsInv (sd\<lparr>sd_Db := snd (UpsertDNSProfile now profile (sd_Db sd))\<rparr>) \<and>
    secretsInv (snd (DeleteDNSProfile p f sd)) \<and>
    secretsInv (snd (UpsertDNSProfileSecret ae ring now random p f account k v sd)) \<and>
    secretsInv (snd (UpsertSecret ae ring now random p k v sd)) \<and>
    secretsInv (DeleteDNSProfileSecret p f k sd) \<and> secretsInv (DeleteSecret n sd) \<and> secretsInv (DeleteSecretByKV p k sd)"
proof (intro conjI)
  show "secretsInv (snd (UpsertSecret ae ring now random p k v sd))"
    by (simp add: UpsertSecret_def UpsertDNSProfileSecret_inv assms)
  show "secretsInv (DeleteDNSProfileSecret p f k sd)" "secretsInv (DeleteSecret n sd)" "secretsInv (DeleteSecretByKV p k sd)"
    using assms by (auto simp: DeleteDNSProfileSecret_def DeleteSecret_def DeleteSecretByKV_def secretsInv_filter Let_def split: option.splits)
qed (simp_all add: UpsertDNSProfile_inv DeleteDNSProfile_inv UpsertDNSProfileSecret_inv assms)

section \<open>The key file\<close>

text \<open>a first start whose write of the key file breaks off leaves a short file, and from then on
  every start is refused, with an injected key as well, until somebody removes the file.\<close>

theorem broken_key_file_refused:
  assumes "TrimSpace injected = []" "\<not> ki_Fails io KekStat" "\<not> ki_Fails io KekCreate" "ki_Fails io KekWrite"
    "ki_Random io = Some key" "ki_Race io = None" "ki_Written io < kekSize"
  shows "\<exists>file. loadEncryptionKey sha io injected KekAbsent = (Inl (KeyIO KekWrite), file) \<and>
    (\<forall>io' injected' sha' ae random now sd. \<exists>e. openStore ae sha' io' injected' random now file sd = (Inl (OpenKey e), file, sd))"
proof (intro exI conjI allI)
  let ?file = "KekBytes (take (ki_Written io) key)"
  show "loadEncryptionKey sha io injected KekAbsent = (Inl (KeyIO KekWrite), ?file)"
    using assms by (simp add: loadEncryptionKey_def loadOrCreateKEK_def createKEK_def bindR_def)
  fix io' :: KeyIO and injected' and sha' :: "string \<Rightarrow> string" and ae random now sd
  let ?e = "if TrimSpace injected' \<noteq> [] \<or> \<not> ki_Fails io' KekStat then KeyBadLength else KeyIO KekStat"
  have "length (take (ki_Written io) key) \<noteq> kekSize"
    using assms(7) by simp
  then have "loadEncryptionKey sha' io' injected' ?file = (Inl ?e, ?file)"
    by (simp add: loadEncryptionKey_def loadOrCreateKEK_def readExistingKEK_def checkKEK_def bindR_def Let_def del: length_take)
  then show "openStore ae sha' io' injected' random now ?file sd = (Inl (OpenKey ?e), ?file, sd)"
    by (simp add: openStore_def)
qed

text \<open>the keys a start works with are AES-256 keys: the active one has 32 bytes, the old one is
  absent or has 32 bytes and differs, and the version is the current one.\<close>

theorem key_ring_sizes:
  assumes "\<And>s. length (sha s) = kekSize" "\<And>k. ki_Random io = Some k \<Longrightarrow> length k = kekSize"
    and "loadEncryptionKey sha io injected file = (Inr ring, file')"
  shows "length (kr_Active ring) = kekSize \<and> kr_Version ring = encryptionKeyVersion \<and>
    (kr_Legacy ring = [] \<or> length (kr_Legacy ring) = kekSize \<and> kr_Legacy ring \<noteq> kr_Active ring) \<and>
    kr_Source ring \<in> {''injected'', ''legacy_file'', ''generated_file''}"
proof -
  have check: "checkKEK io k = Inr k' \<Longrightarrow> length k' = kekSize" for k k'
    by (auto simp: checkKEK_def split: if_splits)
  have existing: "readExistingKEK io file = Inr k \<Longrightarrow> k = [] \<or> length k = kekSize" for k
    using check by (auto simp: readExistingKEK_def split: KekFile.splits)
  have created: "loadOrCreateKEK io file = (Inr k, f') \<Longrightarrow> length k = kekSize" for k f'
    using check assms(2) by (auto simp: loadOrCreateKEK_def createKEK_def split: KekFile.splits option.splits if_splits)
  consider (env) legacy where "readExistingKEK io file = Inr legacy"
      "ring = \<lparr>kr_Active = sha injected, kr_Source = ''injected'', kr_Version = encryptionKeyVersion,
               kr_Legacy = (if legacy = sha injected then [] else legacy)\<rparr>"
    | (disk) active source where "loadOrCreateKEK io file = (Inr active, file')" "source \<in> {''legacy_file'', ''generated_file''}"
      "ring = \<lparr>kr_Active = active, kr_Source = source, kr_Version = encryptionKeyVersion, kr_Legacy = []\<rparr>"
  proof (cases "TrimSpace injected \<noteq> []")
    case True
    then show ?thesis
      using assms(3) env by (cases "readExistingKEK io file") (simp_all add: loadEncryptionKey_def bindR_def deriveKey_def Let_def)
  next
    case False
    obtain r f' where r: "loadOrCreateKEK io file = (r, f')"
      by fastforce
    have "bindR r (\<lambda>active. Inr \<lparr>kr_Active = active, kr_Source = (if file = KekAbsent then ''generated_file'' else ''legacy_file''),
        kr_Version = encryptionKeyVersion, kr_Legacy = []\<rparr>) = Inr ring" "file' = f'"
      using assms(3) False by (simp_all add: loadEncryptionKey_def r split: if_splits)
    then show ?thesis
      using disk[of _ "if file = KekAbsent then ''generated_file'' else ''legacy_file''"] r by (cases r) (simp_all add: bindR_def)
  qed
  then show ?thesis
  proof cases
    case env
    then show ?thesis using assms(1) existing[OF env(1)] by simp
  next
    case disk
    then show ?thesis using created[OF disk(1)] by simp
  qed
qed

section \<open>Examples\<close>

text \<open>A cipher that prepends the key, so that the wrong key is noticed; two keys; a database with a
  plain token, a token and a secret under the old key.\<close>

definition demoAead :: Aead where
  "demoAead = \<lparr>ae_Seal = (\<lambda>k n p a. k @ p), ae_Open = (\<lambda>k n c a. if take 32 c = k then Some (drop 32 c) else None)\<rparr>"

definition oldKey :: string where "oldKey = replicate 32 (CHR ''o'')"

definition demoRing :: KeyRing where
  "demoRing = \<lparr>kr_Active = replicate 32 (CHR ''n''), kr_Source = ''injected'', kr_Version = 2, kr_Legacy = oldKey\<rparr>"

definition gcmDemoNonce :: string where "gcmDemoNonce = replicate 12 (CHR ''0'')"

definition demoSecrets :: SecretDb where
  "demoSecrets =
     \<lparr>sd_Db = emptyDb
        \<lparr>db_tokens := [\<lparr>tk_ID = ''t1'', tk_Secret = Some ''plain'', tk_Ciphertext = None, tk_Version = 1, tk_RotatedAt = None,
            tk_Note = [], tk_Enabled = True, tk_IsAdmin = False, tk_CreatedAt = 1, tk_LastUsedAt = None\<rparr>],
         db_dnsProfiles := [\<lparr>dnp_ID = dnsProfileID ''cf'' ''default'', dnp_Provider = ''cf'', dnp_Profile = ''default'',
            dnp_Account = [], dnp_CreatedAt = 1, dnp_UpdatedAt = 1\<rparr>]\<rparr>,
      sd_Secrets = [\<lparr>ds_ID = 1, ds_ProfileID = dnsProfileID ''cf'' ''default'', ds_EnvKey = ''KEY'',
            ds_Ciphertext = base64Encode (gcmDemoNonce @ oldKey @ ''v''), ds_CreatedAt = 1, ds_UpdatedAt = 1\<rparr>],
      sd_Seq = 1, sd_Legacy = []\<rparr>"

lemma demoAead_law: "gcmLaw demoAead"
  by (simp add: gcmLaw_def demoAead_def)

lemma secret_demo_names:
  "validateDNSProfile ''cf'' ''default'' = None" "validateEnvKey ''KEY'' = None" "validateEnvKey ''K2'' = None"
  "TrimSpace ''injected'' = ''injected''"
  by (simp_all add: validateDNSProfile_def validateEnvKey_def failIf_def visible_eval contains_def containsAny_def)

lemma demoSecrets_ok: "secretsInv demoSecrets" "distinct (map tk_ID (db_tokens (sd_Db demoSecrets)))"
  using secret_demo_names
  by (simp_all add: demoSecrets_def secretsInv_def profilesOk_def secretRowsOk_def)

lemma demo_cipher:
  "length key = 32 \<Longrightarrow> decryptAESGCM demoAead (base64Encode (gcmDemoNonce @ oldKey @ v)) key aad = (if key = oldKey then Some v else None)"
  "length key = 32 \<Longrightarrow> encryptAESGCM demoAead (Some gcmDemoNonce) v key aad = Some (base64Encode (gcmDemoNonce @ key @ v))"
  "length (kr_Active demoRing) = 32" "length (kr_Legacy demoRing) = 32" "length oldKey = 32" "length gcmDemoNonce = 12"
  by (simp_all add: demoAead_def gcmDemoNonce_def oldKey_def decryptAESGCM_def encryptAESGCM_def base64_roundtrip demoRing_def)

lemma demo_keys: "kr_Legacy demoRing = oldKey" "kr_Active demoRing \<noteq> oldKey"
  by (simp_all add: demoRing_def oldKey_def)

lemma demoSecrets_read:
  "ListDNSProfileSecretsWithValues demoAead demoRing ''cf'' ''default'' demoSecrets = Inr [(''KEY'', ''v'')]"
proof -
  have "oldKey \<noteq> []"
    by (simp add: oldKey_def)
  then have read: "decryptStoredSecret demoAead demoRing (base64Encode (gcmDemoNonce @ oldKey @ v)) aad = Some v" for v aad
    by (simp add: decryptStoredSecret_def demo_cipher demo_keys)
  show ?thesis
    by (simp add: ListDNSProfileSecretsWithValues_def secretsOf_def joined_def demoSecrets_def profileRow_def read)
qed

theorem profile_secret_roundtrip_witness:
  "\<exists>sd' m'. UpsertDNSProfileSecret demoAead demoRing 9 (Some gcmDemoNonce) ''cf'' ''default'' ''me'' ''K2'' ''w'' demoSecrets = (None, sd') \<and>
    secretsInv sd' \<and> ListDNSProfileSecretsWithValues demoAead demoRing ''cf'' ''default'' sd' = Inr m' \<and>
    map_of m' = (map_of [(''KEY'', ''v'')])(''K2'' \<mapsto> ''w'')"
  by (rule profile_secret_roundtrip[OF demoAead_law _ _ demoSecrets_ok(1) _ _ _ _ demoSecrets_read])
    (simp_all add: demo_cipher secret_demo_names contains_def)

theorem migration_keeps_secrets_witness:
  "case migrateLegacyCiphertexts demoAead demoRing (\<lambda>_. Some gcmDemoNonce) 9 demoSecrets of
    (err, sd') \<Rightarrow> textsKept demoAead demoRing (err = None) demoSecrets sd' \<and> secretsInv sd'"
  by (rule migration_keeps_secrets[OF demoAead_law _ demoSecrets_ok(2,1)]) (simp add: nonceOk_def gcmDemoNonce_def)

definition demoIO :: KeyIO where
  "demoIO = \<lparr>ki_Fails = (\<lambda>_. False), ki_Written = 0, ki_Random = None, ki_Race = None\<rparr>"

theorem opened_store_readable_witness:
  "case openStore demoAead (\<lambda>_. kr_Active demoRing) demoIO ''injected'' (\<lambda>_. Some gcmDemoNonce) 9 (KekBytes oldKey) demoSecrets of
     (Inr ring, file', sd') \<Rightarrow> textsKept demoAead ring True demoSecrets sd' \<and> kst_UnreadableRecords (KeyStatusOf demoAead ring sd') = 0
   | (Inl e, _) \<Rightarrow> False"
proof -
  let ?ring = "demoRing" and ?random = "\<lambda>_. Some gcmDemoNonce"
  have load: "loadEncryptionKey (\<lambda>_. kr_Active demoRing) demoIO ''injected'' (KekBytes oldKey) = (Inr ?ring, KekBytes oldKey)"
    using demo_keys by (simp add: loadEncryptionKey_def readExistingKEK_def checkKEK_def secret_demo_names bindR_def Let_def demo_cipher(5) deriveKey_def)
      (simp add: demoIO_def demoRing_def)
  have active: "decryptAESGCM demoAead (base64Encode (gcmDemoNonce @ kr_Active demoRing @ v)) (kr_Active demoRing) aad = Some v" for v aad
    using decrypt_encrypt[OF demoAead_law _ demo_cipher(2)[OF demo_cipher(3)]] by (simp add: nonceOk_def demo_cipher(6))
  have stale: "staleText demoAead ?ring (base64Encode (gcmDemoNonce @ oldKey @ v)) aad = Some v" for v aad
    using demo_keys by (simp add: staleText_def demo_cipher) (auto simp: oldKey_def)
  obtain sd' where migrated: "migrateLegacyCiphertexts demoAead ?ring ?random 9 demoSecrets = (None, sd')"
    and ready: "EncryptionReady demoAead ?ring sd'"
    by (simp add: migrateLegacyCiphertexts_def demoSecrets_def joined_def migrateToken_def stale demo_cipher(2,3) orEmpty_def
        EncryptionReady_def KeyStatusOf_def encryptedRecords_def active Let_def)
  have run: "openStore demoAead (\<lambda>_. kr_Active demoRing) demoIO ''injected'' ?random 9 (KekBytes oldKey) demoSecrets
      = (Inr ?ring, KekBytes oldKey, sd')"
    by (simp add: openStore_def load migrated ready)
  show ?thesis
    using opened_store_readable[OF demoAead_law _ demoSecrets_ok(2,1) run] by (simp add: run nonceOk_def demo_cipher(6))
qed

theorem broken_key_file_refused_witness:
  "\<exists>file. loadEncryptionKey id (demoIO\<lparr>ki_Fails := (\<lambda>p. p = KekWrite), ki_Random := Some oldKey\<rparr>) [] KekAbsent = (Inl (KeyIO KekWrite), file) \<and>
    (\<forall>io' injected' sha' ae random now sd. \<exists>e. openStore ae sha' io' injected' random now file sd = (Inl (OpenKey e), file, sd))"
  by (rule broken_key_file_refused[of _ _ oldKey]) (simp_all add: demoIO_def TrimSpace_def)

theorem secrets_invariant_witness:
  "secretsInv (snd (DeleteDNSProfile ''cf'' ''default'' demoSecrets)) \<and>
    secretsInv (snd (UpsertSecret demoAead demoRing 9 (Some gcmDemoNonce) ''cf'' ''KEY'' ''w'' demoSecrets))"
  using secrets_invariant[OF demoSecrets_ok(1)] by (intro conjI) simp_all

theorem key_ring_sizes_witness:
  "\<exists>ring. loadEncryptionKey (\<lambda>_. kr_Active demoRing) demoIO [] (KekBytes oldKey) = (Inr ring, KekBytes oldKey) \<and>
    length (kr_Active ring) = kekSize"
proof -
  have load: "loadEncryptionKey (\<lambda>_. kr_Active demoRing) demoIO [] (KekBytes oldKey)
      = (Inr \<lparr>kr_Active = oldKey, kr_Source = ''legacy_file'', kr_Version = 2, kr_Legacy = []\<rparr>, KekBytes oldKey)"
    by (simp add: loadEncryptionKey_def loadOrCreateKEK_def checkKEK_def bindR_def demo_cipher(5) demoIO_def)
  show ?thesis
    using key_ring_sizes[OF _ _ load] load by (simp add: demo_cipher(3) demoIO_def)
qed

end
