(* ===== verification/AcmeText.thy ===== *)
theory AcmeText
  imports GoString "HOL-Library.AList" "HOL-Library.List_Lexorder"
begin

text \<open>
  The text handling of the ACME runner (\<^verbatim>\<open>internal/acme\<close>): redaction of command output and arguments,
  the bounded output buffer, the search for leaked credentials in chunks of a file, paths, and the
  list of DNS providers.
\<close>

section \<open>Maps and replacement\<close>

text \<open>A map from names to values; a range over it visits it in the order of the list, about which the
  lemmas assume nothing.\<close>

type_synonym Env = "(string \<times> string) list"

definition mergeEnv :: "Env \<Rightarrow> Env \<Rightarrow> Env" where
  "mergeEnv legacy current = AList.updates (map fst current) (map snd current) (AList.updates (map fst legacy) (map snd legacy) [])"

text \<open>\<^verbatim>\<open>strings.ReplaceAll\<close> for a text to replace that is not empty; the callers never pass an empty one.\<close>

function replaceAll :: "string \<Rightarrow> string \<Rightarrow> string \<Rightarrow> string" where
  "replaceAll old new [] = []"
| "replaceAll old new (c # s) =
     (if prefix old (c # s) then new @ replaceAll old new (drop (length old - 1) s) else c # replaceAll old new s)"
  by pat_completeness auto
termination
  by (relation "measure (\<lambda>(old, new, s). length s)") auto

abbreviation stars :: string where "stars \<equiv> ''***''"

section \<open>Redaction\<close>

definition dnsCanaries :: "Env \<Rightarrow> string list" where
  "dnsCanaries env = fold (\<lambda>v values. if v = [] \<or> v \<in> set values then values else values @ [v]) (map snd env) []"

text \<open>All occurrences of a value, then a part of it at the end that a cut has left.\<close>

definition redactValue :: "string \<Rightarrow> string \<Rightarrow> string" where
  "redactValue output v =
     (if v = [] then output
      else let out = replaceAll v stars output
           in case List.find (\<lambda>n. suffix (take n v) out) (rev [1..<length v]) of
                None \<Rightarrow> out
              | Some n \<Rightarrow> take (length out - n) out @ stars)"

definition redactAndLimit :: "string \<Rightarrow> Env \<Rightarrow> nat \<Rightarrow> string \<times> bool" where
  "redactAndLimit output env limit =
     (let out = foldl redactValue output (map snd env)
      in if length out \<le> limit then (out, False) else (take limit out, True))"

definition eabOption :: "string \<Rightarrow> bool" where
  "eabOption a \<longleftrightarrow> a = ''--eab-kid'' \<or> a = ''--eab-hmac-key''"

text \<open>\<open>hide\<close> says that the previous argument was an option whose value is secret.\<close>

fun redactArgsFrom :: "string list \<Rightarrow> bool \<Rightarrow> string list \<Rightarrow> string list" where
  "redactArgsFrom secrets hide [] = []"
| "redactArgsFrom secrets hide (a # args) =
     (let arg = (if hide then stars else a)
      in foldl (\<lambda>x secret. if secret \<noteq> [] then replaceAll secret stars x else x) arg secrets
           # redactArgsFrom secrets (eabOption arg) args)"

definition redactArgs :: "string list \<Rightarrow> Env \<Rightarrow> string list" where
  "redactArgs args env = redactArgsFrom (dnsCanaries env) False args"

fun eabRedactions :: "nat \<Rightarrow> string list \<Rightarrow> Env \<Rightarrow> Env" where
  "eabRedactions i (a # b # args) env =
     eabRedactions (Suc i) (b # args) (if eabOption a then AList.update (''EAB_'' @ showNat i) b env else env)"
| "eabRedactions i _ env = env"

definition commandRedactions :: "string list \<Rightarrow> Env \<Rightarrow> Env" where
  "commandRedactions args dnsEnv = eabRedactions 0 args (mergeEnv dnsEnv [])"

text \<open>The message of an error; its cause stays.\<close>

definition safeMessage :: "string \<Rightarrow> Env \<Rightarrow> string" where
  "safeMessage message env = foldl (\<lambda>m v. if v \<noteq> [] then replaceAll v stars m else m) message (map snd env)"

definition MaskSecretValue :: "string \<Rightarrow> string" where
  "MaskSecretValue s =
     (if s = [] then [] else if length s < 5 then stars else take 2 s @ ''****'' @ drop (length s - 2) s)"

section \<open>The output buffer\<close>

record LimitedBuffer =
  lb_Buffer :: string
  lb_Limit :: int
  lb_Truncated :: bool

definition lbWrite :: "LimitedBuffer \<Rightarrow> string \<Rightarrow> LimitedBuffer" where
  "lbWrite b data =
     (if lb_Limit b \<le> 0 then b
      else let room = lb_Limit b - int (length (lb_Buffer b));
               remaining = (if 0 < room \<and> int (length data) < room then int (length data) else room);
               b1 = (if 0 < room then b\<lparr>lb_Buffer := lb_Buffer b @ take (nat remaining) data\<rparr> else b)
           in if int (length data) > remaining then b1\<lparr>lb_Truncated := True\<rparr> else b1)"

section \<open>Leaked credentials\<close>

definition maxCanaryLength :: "string list \<Rightarrow> nat" where
  "maxCanaryLength canaries = fold (\<lambda>c m. if length c > m then length c else m) canaries 0"

text \<open>How a file ends: at its end, or with a read error that is ignored or not.\<close>

datatype ReadEnd = ReadEOF | ReadIgnorable | ReadBroken

datatype ScanErr = CredentialResidue | ScanFailed | ScanCanceled | ScanTimedOut

fun scanFileCanaries :: "string list \<Rightarrow> string \<Rightarrow> string list \<Rightarrow> ReadEnd \<Rightarrow> ScanErr option" where
  "scanFileCanaries canaries carry [] fin = (if fin = ReadBroken then Some ScanFailed else None)"
| "scanFileCanaries canaries carry (chunk # chunks) fin =
     (if chunk = [] then scanFileCanaries canaries carry chunks fin
      else let contents = carry @ chunk; maxCarry = int (maxCanaryLength canaries) - 1
           in if list_ex (\<lambda>canary. sublist canary contents) canaries then Some CredentialResidue
              else scanFileCanaries canaries
                     (if maxCarry > 0 \<and> int (length contents) > maxCarry then drop (length contents - nat maxCarry) contents
                      else contents) chunks fin)"

section \<open>Paths\<close>

definition cleanStep :: "bool \<Rightarrow> string list \<Rightarrow> string \<Rightarrow> string list" where
  "cleanStep rooted parts p =
     (if p = [] \<or> p = ''.'' then parts
      else if p = ''..'' then
        (if parts \<noteq> [] \<and> last parts \<noteq> ''..'' then butlast parts else if rooted then parts else parts @ [p])
      else parts @ [p])"

text \<open>\<^verbatim>\<open>filepath.Clean\<close>, \<^verbatim>\<open>filepath.Join\<close> and \<^verbatim>\<open>filepath.Dir\<close> on Unix paths.\<close>

definition pathClean :: "string \<Rightarrow> string" where
  "pathClean s =
     (let rooted = hasPrefix s ''/'';
          parts = foldl (cleanStep rooted) [] (splitOn (CHR ''/'') s);
          body = joinWith ''/'' parts
      in if s = [] then ''.'' else if rooted then CHR ''/'' # body else if parts = [] then ''.'' else body)"

definition pathJoin :: "string list \<Rightarrow> string" where
  "pathJoin parts =
     (let ps = filter (\<lambda>p. p \<noteq> []) parts in if ps = [] then [] else pathClean (joinWith ''/'' ps))"

definition pathDir :: "string \<Rightarrow> string" where
  "pathDir s = pathClean (rev (dropWhile (\<lambda>c. c \<noteq> CHR ''/'') (rev s)))"

section \<open>DNS providers\<close>

definition candidateDNSAPIDirs :: "string \<Rightarrow> string \<Rightarrow> string list" where
  "candidateDNSAPIDirs acmeShPath home =
     (if home \<noteq> [] then [pathJoin [home, ''dnsapi'']] else [])
     @ (if acmeShPath \<noteq> [] then [pathJoin [pathDir acmeShPath, ''dnsapi''], pathJoin [pathDir acmeShPath, ''.acme.sh'', ''dnsapi'']]
        else [])"

text \<open>A script \<^verbatim>\<open>dns_*.sh\<close> that is not a directory; \<open>readDir\<close> gives names and whether they are directories.\<close>

definition providerOf :: "string \<times> bool \<Rightarrow> string option" where
  "providerOf e =
     (case e of (name, isDir) \<Rightarrow>
        if \<not> hasPrefix name ''dns_'' \<or> \<not> suffix ''.sh'' name then None
        else if isDir then None else Some (take (length name - 3) name))"

definition ListDNSProviders :: "(string \<Rightarrow> (string \<times> bool) list option) \<Rightarrow> string \<Rightarrow> string \<Rightarrow> string list" where
  "ListDNSProviders readDir acmeShPath home =
     sort (remdups (concat (map (\<lambda>dir. case readDir dir of None \<Rightarrow> [] | Some entries \<Rightarrow> List.map_filter providerOf entries)
       (candidateDNSAPIDirs acmeShPath home))))"

end
