(* ===== verification/AcmeRunner.thy ===== *)
theory AcmeRunner
  imports AcmeText
begin

text \<open>
  The runner of \<^verbatim>\<open>acme.sh\<close> (\<^verbatim>\<open>internal/acme/runner.go\<close> and \<^verbatim>\<open>isolation.go\<close>): checks of the
  parameters, the argument lists, one command run with its result, the isolation of credentials, and
  the operations: issue, renew, install, query, revoke, remove and the account commands.

  What is outside of the program is an \<open>AcmeSys\<close>: the command, the context, the files.  Its functions
  pass a state of their own, so that each call may answer differently.  Durations are left out.
\<close>

section \<open>Parameters\<close>

record IssueParams =
  ip_Domain :: string
  ip_SAN :: "string list"
  ip_CA :: string
  ip_ChallengeMode :: string
  ip_DNSProvider :: string
  ip_WebrootPath :: string
  ip_Keylength :: string
  ip_DNSEnv :: Env
  ip_CertsDir :: string
  ip_StagingDir :: string
  ip_Profile :: string
  ip_Env :: Env
  ip_KeyType :: string
  ip_Staging :: bool
  ip_EABKID :: string
  ip_EABHMACKey :: string
  ip_EABKid :: string
  ip_EABHmacKey :: string

record OperationParams =
  op_Domain :: string
  op_CA :: string
  op_Keylength :: string
  op_DNSEnv :: Env
  op_Profile :: string
  op_Env :: Env
  op_KeyType :: string
  op_Staging :: bool
  op_EABKID :: string
  op_EABHMACKey :: string
  op_EABKid :: string
  op_EABHmacKey :: string

text \<open>The patterns, each for the whole text.\<close>

definition isLower :: "char \<Rightarrow> bool" where "isLower c = byteIn (CHR ''a'') (CHR ''z'') c"

definition isAlnum :: "char \<Rightarrow> bool" where
  "isAlnum c = (isLower c \<or> byteIn (CHR ''A'') (CHR ''Z'') c \<or> isDigit c)"

definition acmeLabel :: "string \<Rightarrow> bool" where
  "acmeLabel w = (w \<noteq> [] \<and> length w \<le> 63 \<and> isAlnum (hd w) \<and> isAlnum (last w) \<and> list_all (\<lambda>c. isAlnum c \<or> c = CHR ''-'') w)"

definition domainName :: "string \<Rightarrow> bool" where
  "domainName s =
     (let labels = splitOn (CHR ''.'') (trimPrefix s ''*.'') in 2 \<le> length labels \<and> list_all acmeLabel labels)"

definition dnsProviderName :: "string \<Rightarrow> bool" where
  "dnsProviderName s =
     (hasPrefix s ''dns_'' \<and> list_all (\<lambda>w. w \<noteq> [] \<and> list_all (\<lambda>c. isLower c \<or> isDigit c) w) (splitOn (CHR ''_'') (drop 4 s)))"

definition environmentName :: "string \<Rightarrow> bool" where
  "environmentName s =
     (s \<noteq> [] \<and> \<not> isDigit (hd s) \<and> list_all (\<lambda>c. isAlnum c \<or> c = CHR ''_'') s)"

definition profileName :: "string \<Rightarrow> bool" where
  "profileName s =
     (s \<noteq> [] \<and> length s \<le> 64 \<and> isAlnum (hd s) \<and> list_all (\<lambda>c. isAlnum c \<or> c \<in> set ''_.-'') s)"

definition caName :: "string \<Rightarrow> bool" where
  "caName s =
     (s \<noteq> [] \<and> length s \<le> 64 \<and> isLower (hd s) \<and> list_all (\<lambda>c. isLower c \<or> isDigit c \<or> c \<in> set ''._-'') s)"

definition validKeylength :: "string list" where
  "validKeylength = [''ec-256'', ''ec-384'', ''ec-521'', ''2048'', ''3072'', ''4096'']"

definition isECC :: "string \<Rightarrow> bool" where "isECC keylength = hasPrefix keylength ''ec-''"

text \<open>What is used of \<^verbatim>\<open>url.Parse\<close>, a parameter.\<close>

record ParsedURL =
  pu_Scheme :: string
  pu_Host :: string
  pu_HasUser :: bool
  pu_RawQuery :: string
  pu_Fragment :: string

datatype ParamErr = BadDomain | BadSAN | BadKeylength | BadKeyType | BadCA | BadProfile | BadEAB | BadStaging | BadEnv
  | BadProvider | BadWebroot | BadChallenge | NoParams

definition validateDomain :: "string \<Rightarrow> ParamErr option" where
  "validateDomain domain = failIf (\<not> domainName domain) BadDomain"

definition validateKeylength :: "string \<Rightarrow> ParamErr option" where
  "validateKeylength keylength = failIf (keylength \<noteq> [] \<and> keylength \<notin> set validKeylength) BadKeylength"

definition validateKeyType :: "string \<Rightarrow> string \<Rightarrow> ParamErr option" where
  "validateKeyType keyType keylength =
     failIf (keyType \<noteq> [] \<and> keyType \<noteq> ''ecc'' \<and> keyType \<noteq> ''rsa''
       \<or> keyType = ''ecc'' \<and> keylength \<noteq> [] \<and> \<not> isECC keylength
       \<or> keyType = ''rsa'' \<and> isECC keylength) BadKeyType"

definition validateCA :: "(string \<Rightarrow> ParsedURL option) \<Rightarrow> string \<Rightarrow> ParamErr option" where
  "validateCA parse ca =
     (if ca = [] \<or> caName ca then None
      else case parse ca of
        None \<Rightarrow> Some BadCA
      | Some u \<Rightarrow> failIf (pu_Scheme u \<noteq> ''https'' \<or> pu_Host u = [] \<or> pu_HasUser u \<or> pu_RawQuery u \<noteq> [] \<or> pu_Fragment u \<noteq> []) BadCA)"

definition validateProfile :: "string \<Rightarrow> ParamErr option" where
  "validateProfile profile = failIf (profile \<noteq> [] \<and> \<not> profileName profile) BadProfile"

definition orElse :: "string \<Rightarrow> string \<Rightarrow> string" where
  "orElse a b = (if a = [] then b else a)"

definition validateEAB :: "string \<Rightarrow> string \<Rightarrow> string \<Rightarrow> string \<Rightarrow> ParamErr option" where
  "validateEAB kid hmac compatKid compatHMAC =
     (let k = orElse kid compatKid; h = orElse hmac compatHMAC; blank = [CHR 0x00, CHR 0x0D, CHR 0x0A, CHR 0x09]
      in failIf (kid \<noteq> [] \<and> compatKid \<noteq> [] \<and> kid \<noteq> compatKid
           \<or> hmac \<noteq> [] \<and> compatHMAC \<noteq> [] \<and> hmac \<noteq> compatHMAC
           \<or> (k = []) \<noteq> (h = [])
           \<or> length k > 1024 \<or> length h > 4096 \<or> TrimSpace k \<noteq> k \<or> TrimSpace h \<noteq> h
           \<or> containsAny k blank \<or> containsAny h blank) BadEAB)"

definition validateStagingDir :: "string \<Rightarrow> ParamErr option" where
  "validateStagingDir dir = failIf (contains (CHR 0x00) dir) BadStaging"

definition validateDNSEnv :: "Env \<Rightarrow> ParamErr option" where
  "validateDNSEnv env = failIf (list_ex (\<lambda>(name, _). \<not> environmentName name) env) BadEnv"

definition issueEnv :: "IssueParams \<Rightarrow> Env" where "issueEnv p = mergeEnv (ip_DNSEnv p) (ip_Env p)"

definition operationEnv :: "OperationParams \<Rightarrow> Env" where "operationEnv p = mergeEnv (op_DNSEnv p) (op_Env p)"

definition validateIssueCommon :: "(string \<Rightarrow> ParsedURL option) \<Rightarrow> IssueParams \<Rightarrow> ParamErr option" where
  "validateIssueCommon parse p = firstErr
     ([validateDomain (ip_Domain p)]
      @ map (\<lambda>san. map_option (\<lambda>_. BadSAN) (validateDomain san)) (ip_SAN p)
      @ [validateKeylength (ip_Keylength p), validateKeyType (ip_KeyType p) (ip_Keylength p), validateCA parse (ip_CA p),
         validateProfile (ip_Profile p), validateEAB (ip_EABKID p) (ip_EABHMACKey p) (ip_EABKid p) (ip_EABHmacKey p),
         validateStagingDir (ip_StagingDir p), validateDNSEnv (issueEnv p)])"

definition validateChallengeParams :: "IssueParams \<Rightarrow> ParamErr option" where
  "validateChallengeParams p =
     (if ip_ChallengeMode p = ''dns_api'' then failIf (\<not> dnsProviderName (ip_DNSProvider p)) BadProvider
      else if ip_ChallengeMode p = ''dns_manual'' \<or> ip_ChallengeMode p = ''standalone'' then None
      else if ip_ChallengeMode p = ''webroot'' then failIf (TrimSpace (ip_WebrootPath p) = []) BadWebroot
      else Some BadChallenge)"

text \<open>\<open>None\<close> is a nil pointer.\<close>

definition validateIssueParams :: "(string \<Rightarrow> ParsedURL option) \<Rightarrow> IssueParams option \<Rightarrow> ParamErr option" where
  "validateIssueParams parse p =
     (case p of None \<Rightarrow> Some NoParams | Some q \<Rightarrow> firstErr [validateIssueCommon parse q, validateChallengeParams q])"

definition validateRenewInstallParams :: "(string \<Rightarrow> ParsedURL option) \<Rightarrow> IssueParams option \<Rightarrow> ParamErr option" where
  "validateRenewInstallParams parse p = (case p of None \<Rightarrow> Some NoParams | Some q \<Rightarrow> validateIssueCommon parse q)"

definition validateOperationParams :: "(string \<Rightarrow> ParsedURL option) \<Rightarrow> OperationParams option \<Rightarrow> ParamErr option" where
  "validateOperationParams parse p =
     (case p of
        None \<Rightarrow> Some NoParams
      | Some q \<Rightarrow> firstErr
          [validateDomain (op_Domain q), validateKeylength (op_Keylength q), validateKeyType (op_KeyType q) (op_Keylength q),
           validateCA parse (op_CA q), validateProfile (op_Profile q),
           validateEAB (op_EABKID q) (op_EABHMACKey q) (op_EABKid q) (op_EABHmacKey q), validateDNSEnv (operationEnv q)])"

section \<open>The runner and its arguments\<close>

record Runner =
  rn_AcmeShPath :: string
  rn_Home :: string
  rn_StateHome :: string
  rn_CertsDir :: string
  rn_ConfigHome :: string
  rn_EphemeralConfigHome :: bool
  rn_OutputLimit :: int

definition stateHome :: "Runner \<Rightarrow> string" where
  "stateHome r = (if rn_StateHome r \<noteq> [] then rn_StateHome r else rn_Home r)"

definition persistentConfigHome :: "Runner \<Rightarrow> string" where
  "persistentConfigHome r = (if rn_ConfigHome r \<noteq> [] then rn_ConfigHome r else stateHome r)"

definition outputLimit :: "Runner \<Rightarrow> nat" where
  "outputLimit r = (if 0 < rn_OutputLimit r then nat (rn_OutputLimit r) else 16 * 1024)"

text \<open>An option with its value, unless the value is empty.\<close>

definition optArg :: "string \<Rightarrow> string \<Rightarrow> string list" where
  "optArg name v = (if v \<noteq> [] then [name, v] else [])"

definition appendHome :: "Runner \<Rightarrow> string list \<Rightarrow> string list" where
  "appendHome r args = args @ optArg ''--home'' (stateHome r)"

definition appendConfigHome :: "string list \<Rightarrow> string \<Rightarrow> string list" where
  "appendConfigHome args configHome = args @ optArg ''--config-home'' configHome"

definition appendAccountConf :: "string list \<Rightarrow> string \<Rightarrow> string list" where
  "appendAccountConf args accountConf = args @ optArg ''--accountconf'' accountConf"

definition appendACMEOptions :: "string list \<Rightarrow> bool \<Rightarrow> string \<Rightarrow> string \<Rightarrow> string \<Rightarrow> string \<Rightarrow> string list" where
  "appendACMEOptions args staging eabKID eabHMACKey eabKid eabHmacKey =
     args @ (if staging then [''--staging''] else [])
     @ optArg ''--eab-kid'' (orElse eabKID eabKid) @ optArg ''--eab-hmac-key'' (orElse eabHMACKey eabHmacKey)"

definition challengeArgs :: "IssueParams \<Rightarrow> string list" where
  "challengeArgs p =
     (if ip_ChallengeMode p = ''dns_api'' then [''--dns'', ip_DNSProvider p]
      else if ip_ChallengeMode p = ''dns_manual'' then [''--dns'', ''--yes-I-know-dns-manual-mode-enough-go-ahead-please'']
      else if ip_ChallengeMode p = ''standalone'' then [''--standalone'', ''--httpport'', ''80'']
      else if ip_ChallengeMode p = ''webroot'' then [''--webroot'', ip_WebrootPath p] else [])"

definition effectiveKeylength :: "IssueParams \<Rightarrow> string" where
  "effectiveKeylength p =
     (if ip_Keylength p \<noteq> [] then ip_Keylength p
      else if ip_KeyType p = ''ecc'' then ''ec-256'' else if ip_KeyType p = ''rsa'' then ''2048'' else [])"

definition buildIssueArgs :: "Runner \<Rightarrow> IssueParams \<Rightarrow> string list" where
  "buildIssueArgs r p =
     appendHome r (appendACMEOptions
       ([''--issue'', ''-d'', ip_Domain p] @ concat (map (\<lambda>s. [''-d'', s]) (ip_SAN p)) @ challengeArgs p
        @ optArg ''--keylength'' (effectiveKeylength p) @ optArg ''--server'' (ip_CA p))
       (ip_Staging p) (ip_EABKID p) (ip_EABHMACKey p) (ip_EABKid p) (ip_EABHmacKey p))"

definition eccArg :: "string \<Rightarrow> string \<Rightarrow> string list" where
  "eccArg keyType keylength = (if keyType = ''ecc'' \<or> keyType = [] \<and> isECC keylength then [''--ecc''] else [])"

definition appendCertificateOptions :: "Runner \<Rightarrow> string list \<Rightarrow> OperationParams \<Rightarrow> string list" where
  "appendCertificateOptions r args p =
     appendHome r (appendACMEOptions (args @ eccArg (op_KeyType p) (op_Keylength p) @ optArg ''--server'' (op_CA p))
       (op_Staging p) [] [] [] [])"

definition installArgs :: "Runner \<Rightarrow> IssueParams \<Rightarrow> string \<Rightarrow> string list" where
  "installArgs r p outDir =
     appendHome r (appendACMEOptions
       ([''--install-cert'', ''-d'', ip_Domain p] @ eccArg (ip_KeyType p) (ip_Keylength p) @ optArg ''--server'' (ip_CA p))
       (ip_Staging p) [] [] [] [])
     @ [''--cert-file'', pathJoin [outDir, ''cert.pem''], ''--key-file'', pathJoin [outDir, ''key.pem''],
        ''--fullchain-file'', pathJoin [outDir, ''fullchain.pem''], ''--ca-file'', pathJoin [outDir, ''ca.pem'']]"

text \<open>\<^verbatim>\<open>--force\<close> after the first domain.\<close>

fun insertForce :: "string list \<Rightarrow> string list" where
  "insertForce (a # b # args) = (if a = ''-d'' then a # b # ''--force'' # args else a # insertForce (b # args))"
| "insertForce args = args @ [''--force'']"

section \<open>Commands\<close>

datatype OperationStatus = OperationUnset | OperationSucceeded | OperationSkipped | OperationManualPending | OperationFailed
  | OperationTimedOut | OperationCanceled

datatype CtxErr = CtxDeadline | CtxCanceled

datatype CommandErr = CommandCtx CtxErr | CommandFailed

record CommandSpec =
  cs_Path :: string
  cs_Args :: "string list"
  cs_Env :: "string list"
  cs_OutputLimit :: nat

record CommandResult =
  cr_Stdout :: string
  cr_Stderr :: string
  cr_StdoutTruncated :: bool
  cr_StderrTruncated :: bool
  cr_ExitCode :: int
  cr_Err :: "CommandErr option"

record OperationResult =
  or_Operation :: string
  or_Args :: "string list"
  or_ExitCode :: int
  or_Stdout :: string
  or_Stderr :: string
  or_StdoutTruncated :: bool
  or_StderrTruncated :: bool
  or_Status :: OperationStatus

datatype AcmeErr = InvalidParams ParamErr | AcmeNotReady | TooManyForce | NoCertsDir | DirFailed | TempFailed
  | Residue ScanErr | OperationError string int OperationStatus | MetadataFailed | CleanupFailed "AcmeErr option"

text \<open>What a path holds when it is looked at; an entry that may be ignored does not exist or may not be read.\<close>

datatype ScanNode = NodeIgnored | NodeBroken | NodeLink | NodeOther | NodeFile "string list" ReadEnd | NodeDir "ScanNode list"

record 'e AcmeSys =
  sy_Execute :: "CommandSpec \<Rightarrow> 'e \<Rightarrow> CommandResult \<times> 'e"
  sy_CtxErr :: "'e \<Rightarrow> CtxErr option \<times> 'e"
  sy_Look :: "string \<Rightarrow> 'e \<Rightarrow> ScanNode"
  sy_MkdirAll :: "string \<Rightarrow> 'e \<Rightarrow> bool \<times> 'e"
  sy_Chmod :: "string \<Rightarrow> 'e \<Rightarrow> bool \<times> 'e"
  sy_MkdirTemp :: "string \<Rightarrow> 'e \<Rightarrow> string option \<times> 'e"
  sy_WriteFile :: "string \<Rightarrow> string \<Rightarrow> 'e \<Rightarrow> bool \<times> 'e"
  sy_RemoveAll :: "string \<Rightarrow> 'e \<Rightarrow> bool \<times> 'e"
  sy_IsRegular :: "string \<Rightarrow> 'e \<Rightarrow> bool"
  sy_HasEntries :: "string \<Rightarrow> 'e \<Rightarrow> bool"
  sy_Environ :: "string list"
  sy_ParseURL :: "string \<Rightarrow> ParsedURL option"
  sy_Now :: "'e \<Rightarrow> int"
  sy_NotAfter :: "string \<Rightarrow> 'e \<Rightarrow> int option"

text \<open>
  The world keeps, beside the state of the outside, the temporary directories that exist, the directories
  whose removal failed and the commands run.
\<close>

record 'e AcmeWorld =
  aw_Ext :: 'e
  aw_Temp :: "string list"
  aw_Stuck :: "string list"
  aw_Commands :: "CommandSpec list"

definition ctxErr :: "'e AcmeSys \<Rightarrow> 'e AcmeWorld \<Rightarrow> CtxErr option \<times> 'e AcmeWorld" where
  "ctxErr sys w = (case sy_CtxErr sys (aw_Ext w) of (err, e) \<Rightarrow> (err, w\<lparr>aw_Ext := e\<rparr>))"

definition runCommand :: "'e AcmeSys \<Rightarrow> CommandSpec \<Rightarrow> 'e AcmeWorld \<Rightarrow> CommandResult \<times> 'e AcmeWorld" where
  "runCommand sys spec w =
     (case sy_Execute sys spec (aw_Ext w) of (res, e) \<Rightarrow> (res, w\<lparr>aw_Ext := e, aw_Commands := aw_Commands w @ [spec]\<rparr>))"

text \<open>A call that only succeeds or fails.\<close>

definition outsideCall :: "('e \<Rightarrow> bool \<times> 'e) \<Rightarrow> 'e AcmeWorld \<Rightarrow> bool \<times> 'e AcmeWorld" where
  "outsideCall f w = (case f (aw_Ext w) of (ok, e) \<Rightarrow> (ok, w\<lparr>aw_Ext := e\<rparr>))"

definition mkdirTemp :: "'e AcmeSys \<Rightarrow> string \<Rightarrow> 'e AcmeWorld \<Rightarrow> string option \<times> 'e AcmeWorld" where
  "mkdirTemp sys name w =
     (case sy_MkdirTemp sys name (aw_Ext w) of
        (None, e) \<Rightarrow> (None, w\<lparr>aw_Ext := e\<rparr>)
      | (Some dir, e) \<Rightarrow> (Some dir, w\<lparr>aw_Ext := e, aw_Temp := dir # aw_Temp w\<rparr>))"

definition removeAll :: "'e AcmeSys \<Rightarrow> string \<Rightarrow> 'e AcmeWorld \<Rightarrow> bool \<times> 'e AcmeWorld" where
  "removeAll sys dir w =
     (case sy_RemoveAll sys dir (aw_Ext w) of
        (True, e) \<Rightarrow> (True, w\<lparr>aw_Ext := e, aw_Temp := filter (\<lambda>d. d \<noteq> dir) (aw_Temp w)\<rparr>)
      | (False, e) \<Rightarrow> (False, w\<lparr>aw_Ext := e, aw_Stuck := aw_Stuck w @ [dir]\<rparr>))"

definition contextStatus :: "CtxErr \<Rightarrow> OperationStatus" where
  "contextStatus err = (case err of CtxDeadline \<Rightarrow> OperationTimedOut | CtxCanceled \<Rightarrow> OperationCanceled)"

definition contextOperationError :: "string \<Rightarrow> CtxErr \<Rightarrow> AcmeErr" where
  "contextOperationError operation err = OperationError operation (-1) (contextStatus err)"

definition buildEnv :: "string list \<Rightarrow> Env \<Rightarrow> string \<Rightarrow> string list" where
  "buildEnv environ dnsEnv home =
     (let overrides = AList.updates (map fst dnsEnv) (map snd dnsEnv) (if home \<noteq> [] then [(''ACME_HOME'', home)] else [])
      in filter (\<lambda>entry. map_of overrides (takeWhile (\<lambda>c. c \<noteq> CHR ''='') entry) = None) environ
         @ map (\<lambda>(name, v). name @ ''='' @ v) overrides)"

definition startResult :: "string \<Rightarrow> string list \<Rightarrow> OperationResult" where
  "startResult operation args =
     \<lparr>or_Operation = operation, or_Args = args, or_ExitCode = -1, or_Stdout = [], or_Stderr = [],
      or_StdoutTruncated = False, or_StderrTruncated = False, or_Status = OperationUnset\<rparr>"

text \<open>What the raw result of the command is kept as.\<close>

definition keptResult :: "nat \<Rightarrow> Env \<Rightarrow> OperationResult \<Rightarrow> CommandResult \<Rightarrow> OperationResult" where
  "keptResult limit redactions result raw =
     (let (out, cut) = redactAndLimit (cr_Stdout raw) redactions limit;
          (err, errCut) = redactAndLimit (cr_Stderr raw) redactions limit
      in result\<lparr>or_ExitCode := cr_ExitCode raw, or_Stdout := out, or_Stderr := err,
           or_StdoutTruncated := cut \<or> cr_StdoutTruncated raw, or_StderrTruncated := errCut \<or> cr_StderrTruncated raw\<rparr>)"

definition classify :: "string \<Rightarrow> CommandResult \<Rightarrow> OperationStatus \<times> AcmeErr option" where
  "classify operation raw =
     (case cr_Err raw of
        Some (CommandCtx c) \<Rightarrow> (contextStatus c, Some (contextOperationError operation c))
      | err \<Rightarrow>
          if cr_ExitCode raw = 0 \<and> err = None then (OperationSucceeded, None)
          else if cr_ExitCode raw = 2 then (OperationSkipped, None)
          else if cr_ExitCode raw = 3 then (OperationManualPending, None)
          else (OperationFailed, Some (OperationError operation (cr_ExitCode raw) OperationFailed)))"

definition execute ::
  "'e AcmeSys \<Rightarrow> Runner \<Rightarrow> string \<Rightarrow> string list \<Rightarrow> Env \<Rightarrow> string \<Rightarrow> string \<Rightarrow> 'e AcmeWorld
     \<Rightarrow> (OperationResult \<times> AcmeErr option) \<times> 'e AcmeWorld" where
  "execute sys r operation args0 dnsEnv configHome accountConf w =
     (let args = appendAccountConf (appendConfigHome args0 configHome) accountConf;
          redactions = commandRedactions args dnsEnv;
          result = startResult operation (redactArgs args redactions);
          ended = (\<lambda>res c. (res\<lparr>or_Status := contextStatus c\<rparr>, Some (contextOperationError operation c)))
      in case validateDNSEnv dnsEnv of
           Some e \<Rightarrow> ((result\<lparr>or_Status := OperationFailed\<rparr>, Some (InvalidParams e)), w)
         | None \<Rightarrow>
             (case ctxErr sys w of
                (Some c, w1) \<Rightarrow> (ended result c, w1)
              | (None, w1) \<Rightarrow>
                  let (raw, w2) = runCommand sys
                        \<lparr>cs_Path = rn_AcmeShPath r, cs_Args = args, cs_Env = buildEnv (sy_Environ sys) dnsEnv (stateHome r),
                         cs_OutputLimit = outputLimit r\<rparr> w1;
                      kept = keptResult (outputLimit r) redactions result raw
                  in case ctxErr sys w2 of
                       (Some c, w3) \<Rightarrow> (ended kept c, w3)
                     | (None, w3) \<Rightarrow>
                         (case classify operation raw of (status, err) \<Rightarrow> ((kept\<lparr>or_Status := status\<rparr>, err), w3))))"

section \<open>Looking for credentials\<close>

definition scanCtx :: "CtxErr \<Rightarrow> ScanErr" where
  "scanCtx c = (case c of CtxDeadline \<Rightarrow> ScanTimedOut | CtxCanceled \<Rightarrow> ScanCanceled)"

fun scanPersistentPath ::
    "('w \<Rightarrow> CtxErr option \<times> 'w) \<Rightarrow> string list \<Rightarrow> ScanNode \<Rightarrow> 'w \<Rightarrow> ScanErr option \<times> 'w"
  and scanEntries ::
    "('w \<Rightarrow> CtxErr option \<times> 'w) \<Rightarrow> string list \<Rightarrow> ScanNode list \<Rightarrow> 'w \<Rightarrow> ScanErr option \<times> 'w" where
  "scanPersistentPath ctx canaries node w =
     (case ctx w of
        (Some c, w1) \<Rightarrow> (Some (scanCtx c), w1)
      | (None, w1) \<Rightarrow>
          (case node of
             NodeBroken \<Rightarrow> (Some ScanFailed, w1)
           | NodeDir entries \<Rightarrow> scanEntries ctx canaries entries w1
           | NodeFile chunks fin \<Rightarrow> (scanFileCanaries canaries [] chunks fin, w1)
           | _ \<Rightarrow> (None, w1)))"
| "scanEntries ctx canaries [] w = (None, w)"
| "scanEntries ctx canaries (n # ns) w =
     (case scanPersistentPath ctx canaries n w of
        (Some e, w1) \<Rightarrow> (Some e, w1)
      | (None, w1) \<Rightarrow> scanEntries ctx canaries ns w1)"

text \<open>Each directory once, by its cleaned path.\<close>

fun scanDirs ::
  "'e AcmeSys \<Rightarrow> ('e AcmeWorld \<Rightarrow> CtxErr option \<times> 'e AcmeWorld) \<Rightarrow> string list \<Rightarrow> string list \<Rightarrow> string list \<Rightarrow> 'e AcmeWorld
     \<Rightarrow> ScanErr option \<times> 'e AcmeWorld" where
  "scanDirs sys ctx canaries seen [] w = (None, w)"
| "scanDirs sys ctx canaries seen (dir # dirs) w =
     (if dir = [] \<or> pathClean dir \<in> set seen then scanDirs sys ctx canaries seen dirs w
      else case scanPersistentPath ctx canaries (sy_Look sys (pathClean dir) (aw_Ext w)) w of
             (Some e, w1) \<Rightarrow> (Some e, w1)
           | (None, w1) \<Rightarrow> scanDirs sys ctx canaries (pathClean dir # seen) dirs w1)"

definition scanPersistentDirs ::
  "'e AcmeSys \<Rightarrow> ('e AcmeWorld \<Rightarrow> CtxErr option \<times> 'e AcmeWorld) \<Rightarrow> string list \<Rightarrow> Env \<Rightarrow> 'e AcmeWorld
     \<Rightarrow> ScanErr option \<times> 'e AcmeWorld" where
  "scanPersistentDirs sys ctx dirs env w =
     (if dnsCanaries env = [] then (None, w) else scanDirs sys ctx (dnsCanaries env) [] dirs w)"

definition isolationOperationError :: "string \<Rightarrow> ScanErr \<Rightarrow> AcmeErr" where
  "isolationOperationError operation e =
     (case e of
        ScanTimedOut \<Rightarrow> contextOperationError operation CtxDeadline
      | ScanCanceled \<Rightarrow> contextOperationError operation CtxCanceled
      | _ \<Rightarrow> Residue e)"

section \<open>Isolation\<close>

definition isolatesDNSCredentials :: "string \<Rightarrow> bool" where
  "isolatesDNSCredentials operation = (operation \<in> {''issue'', ''renew'', ''reissue'', ''install-cert''})"

definition prepareConfigHome ::
  "'e AcmeSys \<Rightarrow> Runner \<Rightarrow> 'e AcmeWorld \<Rightarrow> (AcmeErr + string \<times> bool) \<times> 'e AcmeWorld" where
  "prepareConfigHome sys r w =
     (let home = persistentConfigHome r
      in if \<not> rn_EphemeralConfigHome r \<and> home \<noteq> [] then
           (if rn_ConfigHome r \<noteq> [] then
              (case outsideCall (sy_MkdirAll sys home) w of
                 (False, w1) \<Rightarrow> (Inl DirFailed, w1)
               | (True, w1) \<Rightarrow>
                   (case outsideCall (sy_Chmod sys home) w1 of
                      (False, w2) \<Rightarrow> (Inl DirFailed, w2)
                    | (True, w2) \<Rightarrow> (Inr (home, False), w2)))
            else (Inr (home, False), w))
         else (case mkdirTemp sys ''certkeeper-acme-state-'' w of
                 (None, w1) \<Rightarrow> (Inl TempFailed, w1)
               | (Some dir, w1) \<Rightarrow>
                   (case outsideCall (sy_Chmod sys dir) w1 of
                      (False, w2) \<Rightarrow> (Inl TempFailed, snd (removeAll sys dir w2))
                    | (True, w2) \<Rightarrow> (Inr (dir, True), w2))))"

definition prepareAccountConf ::
  "'e AcmeSys \<Rightarrow> 'e AcmeWorld \<Rightarrow> (AcmeErr + string \<times> string) \<times> 'e AcmeWorld" where
  "prepareAccountConf sys w =
     (case mkdirTemp sys ''certkeeper-acme-credentials-'' w of
        (None, w1) \<Rightarrow> (Inl TempFailed, w1)
      | (Some dir, w1) \<Rightarrow>
          (case outsideCall (sy_Chmod sys dir) w1 of
             (False, w2) \<Rightarrow> (Inl TempFailed, snd (removeAll sys dir w2))
           | (True, w2) \<Rightarrow>
               (case outsideCall (sy_WriteFile sys (pathJoin [dir, ''account.conf'']) []) w2 of
                  (False, w3) \<Rightarrow> (Inl TempFailed, snd (removeAll sys dir w3))
                | (True, w3) \<Rightarrow> (Inr (pathJoin [dir, ''account.conf''], dir), w3))))"

text \<open>The deferred removal of one temporary directory.\<close>

definition cleanUp :: "'e AcmeSys \<Rightarrow> bool \<Rightarrow> string \<Rightarrow> AcmeErr option \<Rightarrow> 'e AcmeWorld \<Rightarrow> AcmeErr option \<times> 'e AcmeWorld" where
  "cleanUp sys needed dir err w =
     (if needed then (case removeAll sys dir w of (ok, w1) \<Rightarrow> (if ok then err else Some (CleanupFailed err), w1)) else (err, w))"

text \<open>The two scans around \<open>run\<close>; the second ignores the context.\<close>

definition scannedRun ::
  "'e AcmeSys \<Rightarrow> string \<Rightarrow> string list \<Rightarrow> Env \<Rightarrow> ('e AcmeWorld \<Rightarrow> (AcmeErr option \<times> 'x) \<times> 'e AcmeWorld) \<Rightarrow> 'x \<Rightarrow> 'e AcmeWorld
     \<Rightarrow> (AcmeErr option \<times> 'x) \<times> 'e AcmeWorld" where
  "scannedRun sys operation dirs env run x w =
     (case scanPersistentDirs sys (ctxErr sys) dirs env w of
        (Some e, w1) \<Rightarrow> ((Some (isolationOperationError operation e), x), w1)
      | (None, w1) \<Rightarrow>
          (case run w1 of
             ((err, x'), w2) \<Rightarrow>
               (case scanPersistentDirs sys (\<lambda>w. (None, w)) dirs env w2 of
                  (Some e, w3) \<Rightarrow> ((Some (isolationOperationError operation e), x'), w3)
                | (None, w3) \<Rightarrow> ((err, x'), w3))))"

definition withIsolatedConfig ::
  "'e AcmeSys \<Rightarrow> Runner \<Rightarrow> string \<Rightarrow> Env \<Rightarrow> string list
     \<Rightarrow> (string \<Rightarrow> string \<Rightarrow> 'e AcmeWorld \<Rightarrow> (AcmeErr option \<times> 'x) \<times> 'e AcmeWorld) \<Rightarrow> 'x \<Rightarrow> 'e AcmeWorld
     \<Rightarrow> (AcmeErr option \<times> 'x) \<times> 'e AcmeWorld" where
  "withIsolatedConfig sys r operation dnsEnv certsDirs run x w =
     (case prepareConfigHome sys r w of
        (Inl e, w1) \<Rightarrow> ((Some e, x), w1)
      | (Inr (configHome, temporary), w1) \<Rightarrow>
          (case (if isolatesDNSCredentials operation then prepareAccountConf sys w1 else (Inr ([], []), w1)) of
             (Inl e, w2) \<Rightarrow> ((Some e, x), if temporary then snd (removeAll sys configHome w2) else w2)
           | (Inr (accountConf, credentialDir), w2) \<Rightarrow>
               (case scannedRun sys operation ([stateHome r, configHome] @ certsDirs) dnsEnv (run configHome accountConf) x w2 of
                  ((err, x'), w3) \<Rightarrow>
                    (case cleanUp sys (credentialDir \<noteq> []) credentialDir err w3 of
                       (err1, w4) \<Rightarrow> (case cleanUp sys temporary configHome err1 w4 of (err2, w5) \<Rightarrow> ((err2, x'), w5))))))"

section \<open>Operations\<close>

record IssueResult =
  ir_Domain :: string
  ir_OutDir :: string
  ir_Files :: "string list"
  ir_NotAfter :: "int option"
  ir_StdoutStderr :: string
  ir_Status :: OperationStatus
  ir_Issue :: OperationResult
  ir_Install :: OperationResult

definition noResult :: OperationResult where "noResult = (startResult [] [])\<lparr>or_ExitCode := 0\<rparr>"

definition newIssueResult :: "IssueParams \<Rightarrow> string \<Rightarrow> IssueResult" where
  "newIssueResult p outDir =
     \<lparr>ir_Domain = ip_Domain p, ir_OutDir = outDir, ir_Files = [], ir_NotAfter = None, ir_StdoutStderr = [],
      ir_Status = OperationUnset, ir_Issue = noResult, ir_Install = noResult\<rparr>"

fun combineParts :: "nat \<Rightarrow> string \<Rightarrow> string list \<Rightarrow> string" where
  "combineParts limit out [] = out"
| "combineParts limit out (part # parts) =
     (if part = [] then combineParts limit out parts
      else let out' = (if out \<noteq> [] then out @ [CHR 0x0A] else out) @ part
           in if limit \<le> length out' then take limit out' else combineParts limit out' parts)"

definition combineOutput :: "Runner \<Rightarrow> OperationResult list \<Rightarrow> string" where
  "combineOutput r results = combineParts (outputLimit r) [] (concat (map (\<lambda>x. [or_Stdout x, or_Stderr x]) results))"

definition validateReady :: "Runner \<Rightarrow> AcmeErr option" where
  "validateReady r = failIf (rn_AcmeShPath r = []) AcmeNotReady"

text \<open>Where the files of a certificate go, and the directory that is searched for credentials.\<close>

definition outputDir :: "'e AcmeSys \<Rightarrow> Runner \<Rightarrow> IssueParams \<Rightarrow> 'e AcmeWorld \<Rightarrow> (AcmeErr + string \<times> string) \<times> 'e AcmeWorld" where
  "outputDir sys r p w =
     (if ip_StagingDir p \<noteq> [] then
        (case outsideCall (sy_MkdirAll sys (ip_StagingDir p)) w of
           (ok, w1) \<Rightarrow> (if ok then Inr (ip_StagingDir p, ip_StagingDir p) else Inl DirFailed, w1))
      else let certsDir = (if ip_CertsDir p \<noteq> [] then ip_CertsDir p else rn_CertsDir r)
           in if certsDir = [] then (Inl NoCertsDir, w)
              else (case outsideCall (sy_MkdirAll sys certsDir) w of
                      (False, w1) \<Rightarrow> (Inl DirFailed, w1)
                    | (True, w1) \<Rightarrow>
                        let outDir = pathJoin [certsDir, ip_Domain p]
                        in (case outsideCall (sy_MkdirAll sys outDir) w1 of
                              (ok, w2) \<Rightarrow> (if ok then Inr (outDir, certsDir) else Inl DirFailed, w2))))"

definition writeIssueMetadata ::
  "'e AcmeSys \<Rightarrow> IssueResult \<Rightarrow> string \<Rightarrow> 'e AcmeWorld \<Rightarrow> (AcmeErr option \<times> IssueResult) \<times> 'e AcmeWorld" where
  "writeIssueMetadata sys res outDir w =
     (case outsideCall (sy_WriteFile sys (pathJoin [outDir, ''time.log'']) (showInt (sy_Now sys (aw_Ext w)))) w of
        (False, w1) \<Rightarrow> ((Some MetadataFailed, res), w1)
      | (True, w1) \<Rightarrow>
          ((None, res\<lparr>ir_NotAfter := (case sy_NotAfter sys (pathJoin [outDir, ''fullchain.pem'']) (aw_Ext w1) of
                                        None \<Rightarrow> ir_NotAfter res | Some t \<Rightarrow> Some t),
                      ir_Files := [''cert.pem'', ''key.pem'', ''fullchain.pem'', ''ca.pem'', ''time.log'']\<rparr>), w1))"

definition installCert ::
  "'e AcmeSys \<Rightarrow> Runner \<Rightarrow> IssueParams \<Rightarrow> string \<Rightarrow> string \<Rightarrow> string \<Rightarrow> 'e AcmeWorld
     \<Rightarrow> (OperationResult \<times> AcmeErr option) \<times> 'e AcmeWorld" where
  "installCert sys r p outDir configHome accountConf w =
     execute sys r ''install-cert'' (installArgs r p outDir) (issueEnv p) configHome accountConf w"

text \<open>The installation after the command: the result with the install step, and then the metadata.\<close>

definition installSteps ::
  "'e AcmeSys \<Rightarrow> Runner \<Rightarrow> string \<Rightarrow> IssueParams \<Rightarrow> string \<Rightarrow> string \<Rightarrow> string \<Rightarrow> (OperationStatus \<Rightarrow> IssueResult \<Rightarrow> IssueResult)
     \<Rightarrow> IssueResult \<Rightarrow> 'e AcmeWorld \<Rightarrow> (AcmeErr option \<times> IssueResult) \<times> 'e AcmeWorld" where
  "installSteps sys r operation p outDir configHome accountConf keep res w =
     (case installCert sys r p outDir configHome accountConf w of
        ((install, err), w1) \<Rightarrow>
          let res1 = keep (or_Status install)
                (res\<lparr>ir_Install := install, ir_StdoutStderr := combineOutput r [ir_Issue res, install]\<rparr>)
          in if err \<noteq> None \<or> or_Status install \<noteq> OperationSucceeded then ((err, res1), w1)
             else (case ctxErr sys w1 of
                     (Some c, w2) \<Rightarrow> ((Some (contextOperationError operation c), res1), w2)
                   | (None, w2) \<Rightarrow> writeIssueMetadata sys res1 outDir w2))"

definition issueSteps ::
  "'e AcmeSys \<Rightarrow> Runner \<Rightarrow> IssueParams \<Rightarrow> string \<Rightarrow> string \<Rightarrow> string \<Rightarrow> IssueResult \<Rightarrow> 'e AcmeWorld
     \<Rightarrow> (AcmeErr option \<times> IssueResult) \<times> 'e AcmeWorld" where
  "issueSteps sys r p outDir configHome accountConf res w =
     (case execute sys r ''issue'' (buildIssueArgs r p) (issueEnv p) configHome accountConf w of
        ((issue, err), w1) \<Rightarrow>
          let res1 = res\<lparr>ir_Issue := issue, ir_Status := or_Status issue, ir_StdoutStderr := combineOutput r [issue]\<rparr>
          in if err \<noteq> None \<or> or_Status issue \<noteq> OperationSucceeded then ((err, res1), w1)
             else installSteps sys r ''issue'' p outDir configHome accountConf (\<lambda>status x. x\<lparr>ir_Status := status\<rparr>) res1 w1)"

text \<open>An operation that has a result once its output directory is there.\<close>

definition inOutputDir ::
  "'e AcmeSys \<Rightarrow> Runner \<Rightarrow> string \<Rightarrow> IssueParams
     \<Rightarrow> (string \<Rightarrow> string \<Rightarrow> string \<Rightarrow> IssueResult \<Rightarrow> 'e AcmeWorld \<Rightarrow> (AcmeErr option \<times> IssueResult) \<times> 'e AcmeWorld) \<Rightarrow> 'e AcmeWorld
     \<Rightarrow> (IssueResult option \<times> AcmeErr option) \<times> 'e AcmeWorld" where
  "inOutputDir sys r operation p steps w =
     (case outputDir sys r p w of
        (Inl e, w1) \<Rightarrow> ((None, Some e), w1)
      | (Inr (outDir, certsDir), w1) \<Rightarrow>
          (case withIsolatedConfig sys r operation (issueEnv p) [certsDir]
                  (\<lambda>configHome accountConf. steps outDir configHome accountConf (newIssueResult p outDir)) (newIssueResult p outDir) w1 of
             ((err, res), w2) \<Rightarrow> ((Some res, err), w2)))"

definition issueWithContext ::
  "'e AcmeSys \<Rightarrow> Runner \<Rightarrow> IssueParams \<Rightarrow> 'e AcmeWorld \<Rightarrow> (IssueResult option \<times> AcmeErr option) \<times> 'e AcmeWorld" where
  "issueWithContext sys r p w = inOutputDir sys r ''issue'' p (issueSteps sys r p) w"

definition renewParams :: "IssueParams \<Rightarrow> OperationParams" where
  "renewParams p =
     \<lparr>op_Domain = ip_Domain p, op_CA = ip_CA p, op_Keylength = ip_Keylength p, op_DNSEnv = [], op_Profile = [], op_Env = [],
      op_KeyType = ip_KeyType p, op_Staging = ip_Staging p, op_EABKID = ip_EABKID p, op_EABHMACKey = ip_EABHMACKey p,
      op_EABKid = ip_EABKid p, op_EABHmacKey = ip_EABHmacKey p\<rparr>"

definition renewArgs :: "Runner \<Rightarrow> IssueParams \<Rightarrow> bool \<Rightarrow> string list" where
  "renewArgs r p force =
     (let args = appendCertificateOptions r [''--renew'', ''-d'', ip_Domain p] (renewParams p)
      in if force then insertForce args else args)"

text \<open>A renewal that was skipped is installed as well; its status stays skipped.\<close>

definition renewSteps ::
  "'e AcmeSys \<Rightarrow> Runner \<Rightarrow> IssueParams \<Rightarrow> bool \<Rightarrow> string \<Rightarrow> string \<Rightarrow> string \<Rightarrow> IssueResult \<Rightarrow> 'e AcmeWorld
     \<Rightarrow> (AcmeErr option \<times> IssueResult) \<times> 'e AcmeWorld" where
  "renewSteps sys r p force outDir configHome accountConf res w =
     (case execute sys r ''renew'' (renewArgs r p force) (issueEnv p) configHome accountConf w of
        ((renew, err), w1) \<Rightarrow>
          let res1 = res\<lparr>ir_Issue := renew, ir_Status := or_Status renew, ir_StdoutStderr := combineOutput r [renew]\<rparr>
          in if err \<noteq> None \<or> or_Status renew \<noteq> OperationSucceeded \<and> or_Status renew \<noteq> OperationSkipped
             then ((err, res1), w1)
             else installSteps sys r ''renew'' p outDir configHome accountConf
                    (\<lambda>status x. if status \<noteq> OperationSucceeded then x\<lparr>ir_Status := status\<rparr> else x) res1 w1)"

definition renewAndInstallWithContext ::
  "'e AcmeSys \<Rightarrow> Runner \<Rightarrow> IssueParams \<Rightarrow> bool \<Rightarrow> 'e AcmeWorld \<Rightarrow> (IssueResult option \<times> AcmeErr option) \<times> 'e AcmeWorld" where
  "renewAndInstallWithContext sys r p force w = inOutputDir sys r ''renew'' p (renewSteps sys r p force) w"

text \<open>A regular file that holds the state of the domain, in the persistent configuration or the state directory.\<close>

definition domainStateFiles :: "string \<Rightarrow> string \<Rightarrow> string \<Rightarrow> string \<Rightarrow> string list" where
  "domainStateFiles home domain keyType keylength =
     (let bases = [pathJoin [home, domain]]
            @ (if keyType = ''rsa'' \<or> keyType = [] \<and> \<not> isECC keylength \<and> keylength \<noteq> [] then []
               else [pathJoin [home, domain @ ''_ecc'']])
      in concat (map (\<lambda>base. [base @ ''.conf'', pathJoin [base, domain @ ''.conf''], pathJoin [base, domain @ ''_ecc.conf'']]) bases))"

definition hasDomainState :: "'e AcmeSys \<Rightarrow> Runner \<Rightarrow> string \<Rightarrow> string \<Rightarrow> string \<Rightarrow> 'e AcmeWorld \<Rightarrow> bool" where
  "hasDomainState sys r domain keyType keylength w =
     list_ex (\<lambda>home. list_ex (\<lambda>f. sy_IsRegular sys f (aw_Ext w)) (domainStateFiles home domain keyType keylength))
       (filter (\<lambda>home. home \<noteq> []) [persistentConfigHome r, stateHome r])"

definition checkedIssue ::
  "Runner \<Rightarrow> ParamErr option \<Rightarrow> AcmeErr option" where
  "checkedIssue r bad = firstErr [map_option InvalidParams bad, validateReady r]"

definition Issue ::
  "'e AcmeSys \<Rightarrow> Runner \<Rightarrow> IssueParams option \<Rightarrow> 'e AcmeWorld \<Rightarrow> (IssueResult option \<times> AcmeErr option) \<times> 'e AcmeWorld" where
  "Issue sys r p w =
     (case checkedIssue r (validateIssueParams (sy_ParseURL sys) p) of
        Some e \<Rightarrow> ((None, Some e), w)
      | None \<Rightarrow> issueWithContext sys r (the p) w)"

definition RenewAndInstall ::
  "'e AcmeSys \<Rightarrow> Runner \<Rightarrow> IssueParams option \<Rightarrow> bool \<Rightarrow> 'e AcmeWorld \<Rightarrow> (IssueResult option \<times> AcmeErr option) \<times> 'e AcmeWorld" where
  "RenewAndInstall sys r p force w =
     (case checkedIssue r (validateRenewInstallParams (sy_ParseURL sys) p) of
        Some e \<Rightarrow> ((None, Some e), w)
      | None \<Rightarrow> renewAndInstallWithContext sys r (the p) force w)"

definition IssueOrRenew ::
  "'e AcmeSys \<Rightarrow> Runner \<Rightarrow> IssueParams option \<Rightarrow> bool list \<Rightarrow> 'e AcmeWorld \<Rightarrow> (IssueResult option \<times> AcmeErr option) \<times> 'e AcmeWorld" where
  "IssueOrRenew sys r p force w =
     (if length force > 1 then ((None, Some TooManyForce), w)
      else case checkedIssue r (validateRenewInstallParams (sy_ParseURL sys) p) of
        Some e \<Rightarrow> ((None, Some e), w)
      | None \<Rightarrow>
          let q = the p
          in if hasDomainState sys r (ip_Domain q) (ip_KeyType q) (ip_Keylength q) w
             then renewAndInstallWithContext sys r q (force = [True]) w
             else (case validateChallengeParams q of
                     Some e \<Rightarrow> ((None, Some (InvalidParams e)), w)
                   | None \<Rightarrow> issueWithContext sys r q w))"

text \<open>One command that has only its own result.\<close>

definition isolatedCommand ::
  "'e AcmeSys \<Rightarrow> Runner \<Rightarrow> string \<Rightarrow> string list \<Rightarrow> Env \<Rightarrow> string list \<Rightarrow> 'e AcmeWorld
     \<Rightarrow> (OperationResult option \<times> AcmeErr option) \<times> 'e AcmeWorld" where
  "isolatedCommand sys r operation args env dirs w =
     (case withIsolatedConfig sys r operation env dirs
             (\<lambda>configHome accountConf w. case execute sys r operation args env configHome accountConf w of
                ((result, err), w1) \<Rightarrow> ((err, result), w1)) noResult w of
        ((err, result), w1) \<Rightarrow> ((Some result, err), w1))"

definition InstallCert ::
  "'e AcmeSys \<Rightarrow> Runner \<Rightarrow> IssueParams option \<Rightarrow> 'e AcmeWorld \<Rightarrow> (OperationResult option \<times> AcmeErr option) \<times> 'e AcmeWorld" where
  "InstallCert sys r p w =
     (case checkedIssue r (validateRenewInstallParams (sy_ParseURL sys) p) of
        Some e \<Rightarrow> ((None, Some e), w)
      | None \<Rightarrow>
          (case outputDir sys r (the p) w of
             (Inl e, w1) \<Rightarrow> ((None, Some e), w1)
           | (Inr (outDir, certsDir), w1) \<Rightarrow>
               isolatedCommand sys r ''install-cert'' (installArgs r (the p) outDir) (issueEnv (the p)) [certsDir] w1))"

definition certificateOperation ::
  "'e AcmeSys \<Rightarrow> Runner \<Rightarrow> string \<Rightarrow> OperationParams option \<Rightarrow> bool \<Rightarrow> 'e AcmeWorld
     \<Rightarrow> (OperationResult option \<times> AcmeErr option) \<times> 'e AcmeWorld" where
  "certificateOperation sys r operation p force w =
     (case checkedIssue r (validateOperationParams (sy_ParseURL sys) p) of
        Some e \<Rightarrow> ((None, Some e), w)
      | None \<Rightarrow>
          isolatedCommand sys r operation
            (appendCertificateOptions r ([''--renew'', ''-d'', op_Domain (the p)] @ (if force then [''--force''] else [])) (the p))
            (operationEnv (the p)) [rn_CertsDir r] w)"

definition namedCertificateOperation ::
  "'e AcmeSys \<Rightarrow> Runner \<Rightarrow> string \<Rightarrow> string \<Rightarrow> OperationParams option \<Rightarrow> 'e AcmeWorld
     \<Rightarrow> (OperationResult option \<times> AcmeErr option) \<times> 'e AcmeWorld" where
  "namedCertificateOperation sys r operation command p w =
     (case checkedIssue r (validateOperationParams (sy_ParseURL sys) p) of
        Some e \<Rightarrow> ((None, Some e), w)
      | None \<Rightarrow>
          isolatedCommand sys r operation (appendCertificateOptions r [command, ''-d'', op_Domain (the p)] (the p))
            (operationEnv (the p)) [rn_CertsDir r] w)"

definition Renew where "Renew sys r p w = certificateOperation sys r ''renew'' p False w"

definition Reissue where "Reissue sys r p w = certificateOperation sys r ''reissue'' p True w"

definition runnerInfo where "runnerInfo sys r p w = namedCertificateOperation sys r ''info'' ''--info'' p w"

definition RevokeCert where "RevokeCert sys r p w = namedCertificateOperation sys r ''revoke'' ''--revoke'' p w"

definition RemoveCert where "RemoveCert sys r p w = namedCertificateOperation sys r ''remove'' ''--remove'' p w"

text \<open>Operations on the installation itself; the error and the result of the command.\<close>

definition accountCommand ::
  "'e AcmeSys \<Rightarrow> Runner \<Rightarrow> string \<Rightarrow> string list \<Rightarrow> 'e AcmeWorld \<Rightarrow> (OperationResult option \<times> AcmeErr option) \<times> 'e AcmeWorld" where
  "accountCommand sys r operation args w =
     (case validateReady r of
        Some e \<Rightarrow> ((None, Some e), w)
      | None \<Rightarrow> isolatedCommand sys r operation args [] [] w)"

definition VersionOf where "VersionOf sys r w = accountCommand sys r ''version'' [''--version''] w"

definition AutoUpgrade where
  "AutoUpgrade sys r w =
     (case accountCommand sys r ''upgrade'' (appendHome r [''--upgrade'', ''--auto-upgrade'']) w of ((_, err), w1) \<Rightarrow> (err, w1))"

definition SetDefaultCA :: "'e AcmeSys \<Rightarrow> Runner \<Rightarrow> string \<Rightarrow> 'e AcmeWorld \<Rightarrow> AcmeErr option \<times> 'e AcmeWorld" where
  "SetDefaultCA sys r ca w =
     (if ca = [] then (None, w)
      else case validateCA (sy_ParseURL sys) ca of
        Some e \<Rightarrow> (Some (InvalidParams e), w)
      | None \<Rightarrow>
          (case accountCommand sys r ''set-default-ca'' (appendHome r [''--set-default-ca'', ''--server'', ca]) w of
             ((_, err), w1) \<Rightarrow> (err, w1)))"

definition AccountRegistered :: "'e AcmeSys \<Rightarrow> Runner \<Rightarrow> 'e AcmeWorld \<Rightarrow> bool" where
  "AccountRegistered sys r w =
     list_ex (\<lambda>home. home \<noteq> [] \<and> sy_HasEntries sys (pathJoin [home, ''ca'']) (aw_Ext w)) [persistentConfigHome r, stateHome r]"

text \<open>An error after an output with the word already counts as success.\<close>

definition RegisterAccount :: "'e AcmeSys \<Rightarrow> Runner \<Rightarrow> string \<Rightarrow> 'e AcmeWorld \<Rightarrow> AcmeErr option \<times> 'e AcmeWorld" where
  "RegisterAccount sys r email w =
     (if email = [] then (None, w)
      else case accountCommand sys r ''register-account'' (appendHome r [''--register-account'', ''-m'', email]) w of
        ((result, err), w1) \<Rightarrow>
          (if err \<noteq> None \<and> (case result of None \<Rightarrow> False
              | Some res \<Rightarrow> sublist ''already'' (or_Stdout res @ [CHR 0x0A] @ or_Stderr res)) then None else err, w1))"

section \<open>The issuer of the service\<close>

text \<open>\<^verbatim>\<open>acmeV2Issuer\<close> (\<^verbatim>\<open>internal/service/v2_issuer.go\<close>).\<close>

record AcmeSettings =
  as_AcmeShPath :: string
  as_Home :: string
  as_CertsDir :: string

record AcmeV2Params =
  vp_Domain :: string
  vp_SAN :: "string list"
  vp_CA :: string
  vp_Keylength :: string
  vp_DNSProvider :: string
  vp_DNSProfile :: string
  vp_Force :: bool
  vp_DNSEnv :: Env
  vp_StagingDir :: string

definition acmeRunnerOf :: "AcmeSettings \<Rightarrow> Runner" where
  "acmeRunnerOf s =
     \<lparr>rn_AcmeShPath = as_AcmeShPath s, rn_Home = as_Home s, rn_StateHome = [], rn_CertsDir = as_CertsDir s,
      rn_ConfigHome = as_Home s, rn_EphemeralConfigHome = False, rn_OutputLimit = 0\<rparr>"

definition acmeIssueParams :: "AcmeV2Params \<Rightarrow> IssueParams" where
  "acmeIssueParams v =
     \<lparr>ip_Domain = vp_Domain v, ip_SAN = vp_SAN v, ip_CA = vp_CA v, ip_ChallengeMode = ''dns_api'',
      ip_DNSProvider = vp_DNSProvider v, ip_WebrootPath = [], ip_Keylength = vp_Keylength v, ip_DNSEnv = vp_DNSEnv v,
      ip_CertsDir = [], ip_StagingDir = vp_StagingDir v, ip_Profile = vp_DNSProfile v, ip_Env = [], ip_KeyType = [],
      ip_Staging = False, ip_EABKID = [], ip_EABHMACKey = [], ip_EABKid = [], ip_EABHmacKey = []\<rparr>"

datatype IssuerErr = IssuerFailed AcmeErr | IssuerUnfinished

definition acmeV2Issue :: "'e AcmeSys \<Rightarrow> AcmeSettings \<Rightarrow> AcmeV2Params \<Rightarrow> 'e AcmeWorld \<Rightarrow> IssuerErr option \<times> 'e AcmeWorld" where
  "acmeV2Issue sys s v w =
     (case IssueOrRenew sys (acmeRunnerOf s) (Some (acmeIssueParams v)) [vp_Force v] w of
        ((res, Some e), w1) \<Rightarrow> (Some (IssuerFailed e), w1)
      | ((res, None), w1) \<Rightarrow>
          (case res of
             None \<Rightarrow> Some IssuerUnfinished
           | Some x \<Rightarrow> failIf (ir_Status x \<noteq> OperationSucceeded \<and> ir_Status x \<noteq> OperationSkipped) IssuerUnfinished, w1))"

end
