(* ===== verification/AcmeTextProofs.thy ===== *)
theory AcmeTextProofs
  imports AcmeText
begin

text \<open>
  Redaction hides every value, whole or cut off at the end; the bounded buffer keeps the first bytes;
  the search for credentials in chunks finds what a search of the whole file finds.
\<close>

section \<open>Replacement\<close>

text \<open>A text without the star cannot use the stars, so it occurs in the result only where it occurred before.\<close>

lemma sublist_Cons_other: "w \<noteq> [] \<Longrightarrow> x \<notin> set w \<Longrightarrow> sublist w (x # s) \<longleftrightarrow> sublist w s"
  by (cases w) (auto simp: sublist_Cons_right)

lemma prefix_Cons_other: "w \<noteq> [] \<Longrightarrow> x \<notin> set w \<Longrightarrow> \<not> prefix w (x # s)"
  by (cases w) auto

lemma sublist_mask: "w \<noteq> [] \<Longrightarrow> CHR ''*'' \<notin> set w \<Longrightarrow> sublist w (stars @ s) \<longleftrightarrow> sublist w s"
  by (simp add: sublist_Cons_other)

lemma replaceAll_prefix:
  "CHR ''*'' \<notin> set w \<Longrightarrow> prefix w (replaceAll v stars s) \<Longrightarrow> prefix w s"
proof (induction v stars s arbitrary: w rule: replaceAll.induct)
  case (2 old c s)
  show ?case
  proof (cases "prefix old (c # s)")
    case True
    then have "w = []"
      using 2(3,4) prefix_Cons_other[of w "CHR ''*''"] by auto
    then show ?thesis by simp
  next
    case False
    then show ?thesis
      using 2 by (cases w) auto
  qed
qed simp

lemma sublist_trans: "sublist a b \<Longrightarrow> sublist b c \<Longrightarrow> sublist a c"
  by (rule sublist_order.order.trans)

lemma sublist_in_drop: "sublist w (drop n s) \<Longrightarrow> sublist w s"
  by (erule sublist_trans) (rule sublist_drop)

lemma replaceAll_sublist:
  "w \<noteq> [] \<Longrightarrow> CHR ''*'' \<notin> set w \<Longrightarrow> sublist w (replaceAll v stars s) \<Longrightarrow> sublist w s"
proof (induction v stars s rule: replaceAll.induct)
  case (2 old c s)
  show ?case
  proof (cases "prefix old (c # s)")
    case True
    then have "sublist w (drop (length old - 1) s)"
      using 2 sublist_mask by simp
    then show ?thesis
      using sublist_in_drop by (simp add: sublist_Cons_right) blast
  next
    case False
    then have "prefix w (c # replaceAll old stars s) \<or> sublist w (replaceAll old stars s)"
      using 2(5) by (simp add: sublist_Cons_right)
    then show ?thesis
    proof
      assume "prefix w (c # replaceAll old stars s)"
      then show ?thesis
        using 2(3,4) replaceAll_prefix[of "tl w" old s] by (cases w) (auto simp: sublist_Cons_right)
    next
      assume "sublist w (replaceAll old stars s)"
      then show ?thesis using 2 False by (simp add: sublist_Cons_right)
    qed
  qed
qed simp

lemma replaceAll_removes:
  "v \<noteq> [] \<Longrightarrow> CHR ''*'' \<notin> set v \<Longrightarrow> \<not> sublist v (replaceAll v stars s)"
proof (induction v stars s rule: replaceAll.induct)
  case (2 old c s)
  show ?case
  proof (cases "prefix old (c # s)")
    case True
    then show ?thesis using 2 sublist_mask by simp
  next
    case False
    then have "\<not> prefix old (c # replaceAll old stars s)"
      using 2(3,4) replaceAll_prefix[of "tl old" old s] by (cases old) auto
    then show ?thesis using 2 False by (simp add: sublist_Cons_right)
  qed
qed simp

lemma suffix_Cons_strict: "suffix w (x # s) \<longleftrightarrow> w = x # s \<or> suffix w s"
  by (auto simp: suffix_Cons)

lemma suffix_mask: "w \<noteq> [] \<Longrightarrow> CHR ''*'' \<notin> set w \<Longrightarrow> suffix w (stars @ s) \<Longrightarrow> suffix w s"
  by (auto simp: suffix_Cons_strict)

lemma replaceAll_same: "CHR ''*'' \<notin> set (replaceAll v stars s) \<Longrightarrow> replaceAll v stars s = s"
  by (induction v stars s rule: replaceAll.induct) (auto split: if_splits)

lemma suffix_in_drop: "suffix w (drop n s) \<Longrightarrow> suffix w s"
  by (metis append_take_drop_id append.assoc suffix_def)

lemma replaceAll_suffix:
  "w \<noteq> [] \<Longrightarrow> CHR ''*'' \<notin> set w \<Longrightarrow> suffix w (replaceAll v stars s) \<Longrightarrow> suffix w s"
proof (induction v stars s rule: replaceAll.induct)
  case (2 old c s)
  show ?case
  proof (cases "prefix old (c # s)")
    case True
    then have "suffix w (stars @ replaceAll old stars (drop (length old - 1) s))"
      using 2(5) by (metis replaceAll.simps(2))
    then have "suffix w (replaceAll old stars (drop (length old - 1) s))"
      by (rule suffix_mask[OF 2(3,4)])
    then have "suffix w s"
      using suffix_in_drop[OF 2(1)[OF True 2(3,4)]] by simp
    then show ?thesis
      by (simp add: suffix_Cons)
  next
    case False
    then consider (all) "w = c # replaceAll old stars s" | (part) "suffix w (replaceAll old stars s)"
      using 2(5) by (auto simp: suffix_Cons)
    then show ?thesis
    proof cases
      case all
      then show ?thesis using 2(4) replaceAll_same[of old s] by simp
    next
      case part
      then show ?thesis using 2(2)[OF False 2(3,4)] by (simp add: suffix_Cons)
    qed
  qed
qed simp

section \<open>Redaction\<close>

text \<open>Neither the whole value nor a part that a cut left at the end stays, and later values bring nothing back.\<close>

definition hidden :: "string \<Rightarrow> string \<Rightarrow> bool" where
  "hidden v out \<longleftrightarrow> \<not> sublist v out \<and> (\<forall>n. 0 < n \<longrightarrow> \<not> suffix (take n v) out)"

lemma sublist_rev_mask: "w \<noteq> [] \<Longrightarrow> CHR ''*'' \<notin> set w \<Longrightarrow> sublist w (s @ stars) \<longleftrightarrow> sublist w s"
  using sublist_mask[of "rev w" "rev s"] sublist_rev[of w "s @ stars"] sublist_rev[of w s] by simp

lemma suffix_mask_end: "w \<noteq> [] \<Longrightarrow> CHR ''*'' \<notin> set w \<Longrightarrow> \<not> suffix w (s @ stars)"
  by (cases w rule: rev_cases) (auto simp: suffix_def)

lemma sublist_in_take: "sublist w (take n s) \<Longrightarrow> sublist w s"
  by (erule sublist_trans) (metis append_take_drop_id sublist_append_rightI)

lemma star_take: "CHR ''*'' \<notin> set w \<Longrightarrow> CHR ''*'' \<notin> set (take n w)"
  by (auto dest: in_set_takeD)

lemma redactValue_keeps:
  assumes "hidden w out" "w \<noteq> []" "CHR ''*'' \<notin> set w"
  shows "hidden w (redactValue out v)"
proof (cases "v = []")
  case False
  let ?out = "replaceAll v stars out"
  have sub: "\<not> sublist w ?out"
    using assms replaceAll_sublist[of w] by (auto simp: hidden_def)
  have suf: "\<not> suffix (take n w) ?out" if "0 < n" for n
    using assms replaceAll_suffix[of "take n w" v out] star_take that by (auto simp: hidden_def)
  show ?thesis
  proof (cases "List.find (\<lambda>n. suffix (take n v) ?out) (rev [1..<length v])")
    case None
    then show ?thesis using False sub suf by (simp add: redactValue_def hidden_def)
  next
    case (Some n)
    have "\<not> sublist w (take k ?out @ stars)" for k
      using sub sublist_rev_mask[OF assms(2,3)] sublist_in_take by blast
    moreover have "\<not> suffix (take m w) (take k ?out @ stars)" if "0 < m" for m k
      using that assms(2) by (intro suffix_mask_end star_take assms(3)) simp
    ultimately show ?thesis using False Some by (simp add: redactValue_def hidden_def Let_def)
  qed
qed (use assms in \<open>simp add: redactValue_def\<close>)

lemma redactValue_hides:
  assumes "v \<noteq> []" "CHR ''*'' \<notin> set v"
  shows "hidden v (redactValue out v)"
proof -
  let ?out = "replaceAll v stars out"
  have sub: "\<not> sublist v ?out"
    by (rule replaceAll_removes[OF assms])
  show ?thesis
  proof (cases "List.find (\<lambda>n. suffix (take n v) ?out) (rev [1..<length v])")
    case None
    then have none: "\<not> suffix (take n v) ?out" if "0 < n" "n < length v" for n
      using that by (auto simp: find_None_iff)
    have "\<not> suffix (take n v) ?out" if "0 < n" for n
    proof (cases "n < length v")
      case False
      then show ?thesis using sub by (auto dest: suffix_imp_sublist)
    qed (use none that in simp)
    then show ?thesis using None assms sub by (simp add: redactValue_def hidden_def)
  next
    case (Some n)
    have "\<not> sublist v (take k ?out @ stars)" for k
      using sub sublist_rev_mask[OF assms] sublist_in_take by blast
    moreover have "\<not> suffix (take m v) (take k ?out @ stars)" if "0 < m" for m k
      using that assms(1) by (intro suffix_mask_end star_take assms(2)) simp
    ultimately show ?thesis using assms Some by (simp add: redactValue_def hidden_def Let_def)
  qed
qed

lemma redact_all_hidden:
  assumes "v \<in> set vs" "v \<noteq> []" "CHR ''*'' \<notin> set v"
  shows "hidden v (foldl redactValue out vs)"
  using assms
proof (induction vs rule: rev_induct)
  case (snoc u vs)
  then show ?case
    using redactValue_hides redactValue_keeps by (cases "v = u") auto
qed simp

lemma output_redacted_facts:
  assumes "v \<in> set (map snd env)" "v \<noteq> []" "CHR ''*'' \<notin> set v" "redactAndLimit output env limit = (out, truncated)"
  shows "\<not> sublist v out \<and> length out \<le> limit \<and> (\<not> truncated \<and> 0 < n \<longrightarrow> \<not> suffix (take n v) out)"
proof -
  define all where "all = foldl redactValue output (map snd env)"
  have hid: "\<not> sublist v all" "0 < n \<longrightarrow> \<not> suffix (take n v) all"
    using redact_all_hidden[OF assms(1-3), where out = "output"] by (simp_all add: hidden_def all_def)
  show ?thesis
  proof (cases "length all \<le> limit")
    case True
    then have "out = all" "\<not> truncated"
      using assms(4) by (simp_all add: redactAndLimit_def all_def)
    then show ?thesis using hid True by simp
  next
    case False
    then have "out = take limit all" "truncated"
      using assms(4) by (simp_all add: redactAndLimit_def all_def)
    then show ?thesis using hid(1) sublist_in_take[of v limit all] by auto
  qed
qed

lemma redacted_hidden:
  "v \<in> set (map snd env) \<Longrightarrow> v \<noteq> [] \<Longrightarrow> CHR ''*'' \<notin> set v \<Longrightarrow> \<not> sublist v (fst (redactAndLimit s env limit))"
  using output_redacted_facts[OF _ _ _ prod.collapse[symmetric]] by blast

text \<open>no secret value is left in the output that a command's result carries, nor, where the output
  was not too long, the beginning of one that the command's own output limit has cut off; whatever the
  order in which the map is visited, and also where values overlap.  Values with the star that the stars
  is made of are excepted.\<close>

theorem output_redacted:
  assumes "v \<in> set (map snd env)" "v \<noteq> []" "CHR ''*'' \<notin> set v" "redactAndLimit output env limit = (out, truncated)"
  shows "\<not> sublist v out \<and> length out \<le> limit \<and> (\<not> truncated \<and> 0 < n \<longrightarrow> \<not> suffix (take n v) out)"
  by (rule output_redacted_facts[OF assms])

lemma foldl_replace_hides:
  assumes "v \<in> set vs \<or> \<not> sublist v s" "v \<noteq> []" "CHR ''*'' \<notin> set v"
  shows "\<not> sublist v (foldl (\<lambda>x u. if u \<noteq> [] then replaceAll u stars x else x) s vs)"
  using assms(1)
proof (induction vs arbitrary: s)
  case (Cons u vs)
  have "\<not> sublist v (replaceAll u stars s)" if "\<not> sublist v s" "u \<noteq> []"
    using that replaceAll_sublist[OF assms(2,3)] by blast
  moreover have "\<not> sublist v (replaceAll v stars s)"
    by (rule replaceAll_removes[OF assms(2,3)])
  ultimately show ?case
    using Cons assms(2) by (auto simp del: replaceAll.simps)
qed simp

lemma dnsCanaries_set: "set (dnsCanaries env) = set (map snd env) - {[]}"
proof -
  have "set (fold (\<lambda>v values. if v = [] \<or> v \<in> set values then values else values @ [v]) vs acc) = set acc \<union> (set vs - {[]})" for vs :: "string list" and acc
    by (induction vs arbitrary: acc) auto
  then show ?thesis
    by (simp add: dnsCanaries_def)
qed

lemma redactArgsFrom_hides:
  assumes "v \<in> set secrets" "v \<noteq> []" "CHR ''*'' \<notin> set v"
  shows "a \<in> set (redactArgsFrom secrets hide args) \<Longrightarrow> \<not> sublist v a"
  using assms foldl_replace_hides[of v secrets]
  by (induction secrets hide args rule: redactArgsFrom.induct) (auto simp: Let_def split: if_splits)

text \<open>the arguments and the error message that are kept or returned have no secret value in them.\<close>

theorem arguments_redacted:
  assumes "v \<in> set (map snd env)" "v \<noteq> []" "CHR ''*'' \<notin> set v"
  shows "(\<forall>a\<in>set (redactArgs args env). \<not> sublist v a) \<and> \<not> sublist v (safeMessage message env)"
  using assms redactArgsFrom_hides[of v "dnsCanaries env"] dnsCanaries_set[of env] foldl_replace_hides[of v "map snd env" message]
  by (auto simp: redactArgs_def safeMessage_def)

section \<open>The search in chunks\<close>

lemma maxCanaryLength_le: "c \<in> set canaries \<Longrightarrow> length c \<le> maxCanaryLength canaries"
proof -
  have "m \<le> fold (\<lambda>c m. if length c > m then length c else m) cs m \<and>
      (\<forall>c\<in>set cs. length c \<le> fold (\<lambda>c m. if length c > m then length c else m) cs m)" for cs :: "string list" and m
    by (induction cs arbitrary: m) (auto, (meson le_trans less_imp_le not_less)+)
  then show "c \<in> set canaries \<Longrightarrow> length c \<le> maxCanaryLength canaries"
    by (simp add: maxCanaryLength_def)
qed

text \<open>The part carried over is all that was read, or long enough for any value that the next chunk completes.\<close>

definition carryOk :: "string list \<Rightarrow> string \<Rightarrow> string \<Rightarrow> bool" where
  "carryOk canaries prior carry \<longleftrightarrow> suffix carry prior \<and> (\<forall>c\<in>set canaries. \<not> sublist c prior) \<and>
     (carry = prior \<or> maxCanaryLength canaries - 1 \<le> length carry)"

lemma sublist_across:
  assumes "suffix carry prior" "\<not> sublist c prior" "carry = prior \<or> length c - 1 \<le> length carry"
  shows "sublist c (prior @ chunk) \<longleftrightarrow> sublist c (carry @ chunk)"
proof
  assume "sublist c (carry @ chunk)"
  then show "sublist c (prior @ chunk)"
    using assms(1) by (elim sublist_trans) (auto simp: suffix_def)
next
  assume a: "sublist c (prior @ chunk)"
  show "sublist c (carry @ chunk)"
  proof (cases "carry = prior \<or> sublist c chunk")
    case True
    then show ?thesis using a by (auto simp: sublist_append)
  next
    case False
    then obtain as bs where c: "c = as @ bs" "suffix as prior" "prefix bs chunk"
      using a assms(2) by (auto simp: sublist_append)
    have "bs \<noteq> []"
      using c assms(2) by (auto dest: suffix_imp_sublist)
    then have "length as \<le> length carry"
      using c(1) assms(3) False by (cases bs) auto
    then have "suffix as carry"
      using c(2) assms(1) suffix_length_suffix by blast
    then show ?thesis
      using c(1,3) by (auto simp: sublist_append)
  qed
qed

lemma scan_carry:
  assumes "carryOk canaries prior carry" "[] \<notin> set canaries"
  shows "scanFileCanaries canaries carry chunks fin = (if \<exists>c\<in>set canaries. sublist c (prior @ concat chunks) then Some CredentialResidue
    else if fin = ReadBroken then Some ScanFailed else None)"
  using assms
proof (induction chunks arbitrary: prior carry)
  case Nil
  then show ?case by (auto simp: carryOk_def)
next
  case (Cons chunk chunks)
  show ?case
  proof (cases "chunk = []")
    case True
    then show ?thesis using Cons by simp
  next
    case False
    have "length c - 1 \<le> maxCanaryLength canaries - 1" if "c \<in> set canaries" for c
      using maxCanaryLength_le[OF that] by simp
    then have across: "sublist c (prior @ chunk) \<longleftrightarrow> sublist c (carry @ chunk)" if "c \<in> set canaries" for c
      using that Cons.prems(1) by (intro sublist_across) (force simp: carryOk_def)+
    show ?thesis
    proof (cases "\<exists>c\<in>set canaries. sublist c (carry @ chunk)")
      case True
      moreover have "sublist (prior @ chunk) (prior @ concat (chunk # chunks))"
        by (metis append.assoc concat.simps(2) sublist_append_rightI)
      ultimately have "\<exists>c\<in>set canaries. sublist c (prior @ concat (chunk # chunks))"
        using across sublist_trans by blast
      then show ?thesis using True False by (auto simp: list_ex_iff Let_def)
    next
      case none: False
      define carry' where "carry' = (if int (maxCanaryLength canaries) - 1 > 0 \<and> int (length (carry @ chunk)) > int (maxCanaryLength canaries) - 1
        then drop (length (carry @ chunk) - nat (int (maxCanaryLength canaries) - 1)) (carry @ chunk) else carry @ chunk)"
      have "suffix (carry @ chunk) (prior @ chunk)"
        using Cons.prems(1) by (auto simp: carryOk_def suffix_def)
      moreover have "suffix carry' (carry @ chunk)"
        unfolding carry'_def by (simp add: suffix_drop del: drop_append)
      ultimately have "suffix carry' (prior @ chunk)"
        by (auto simp: suffix_def)
      moreover have "carry' = prior @ chunk \<or> maxCanaryLength canaries - 1 \<le> length carry'"
        using Cons.prems(1) unfolding carry'_def carryOk_def by auto
      ultimately have "carryOk canaries (prior @ chunk) carry'"
        using none across by (auto simp: carryOk_def)
      moreover have "scanFileCanaries canaries carry (chunk # chunks) fin = scanFileCanaries canaries carry' chunks fin"
        using none False by (simp add: list_ex_iff Let_def carry'_def)
      ultimately show ?thesis
        using Cons.IH[OF _ Cons.prems(2)] by simp
    qed
  qed
qed

text \<open>C28: the search of a file in chunks, of whatever sizes the reads return, finds a credential exactly
  when the whole file has one, also across the border of chunks.\<close>

theorem chunked_scan_complete:
  assumes "[] \<notin> set canaries"
  shows "scanFileCanaries canaries [] chunks fin =
    (if \<exists>c\<in>set canaries. sublist c (concat chunks) then Some CredentialResidue
     else if fin = ReadBroken then Some ScanFailed else None)"
proof -
  have "carryOk canaries [] []"
    using assms by (auto simp: carryOk_def)
  then show ?thesis
    using scan_carry[OF _ assms, of "[]" "[]"] by simp
qed

section \<open>The output buffer\<close>

definition bufferOf :: "int \<Rightarrow> string \<Rightarrow> LimitedBuffer" where
  "bufferOf limit written = \<lparr>lb_Buffer = take (nat limit) written, lb_Limit = limit,
     lb_Truncated = (0 < limit \<and> limit < int (length written))\<rparr>"

lemma lbWrite_bufferOf: "lbWrite (bufferOf limit written) data = bufferOf limit (written @ data)"
proof (cases "0 < limit \<and> int (length written) < limit")
  case True
  then have "nat (limit - int (length written)) = nat limit - length written"
    by simp
  then show ?thesis
    using True by (auto simp: lbWrite_def bufferOf_def Let_def)
next
  case False
  then show ?thesis
    by (cases data) (auto simp: lbWrite_def bufferOf_def Let_def)
qed

text \<open>however a command splits what it writes, the buffer keeps the first \<open>limit\<close> bytes and says
  truncated exactly when there was more.\<close>

theorem output_buffer_keeps_first:
  "foldl lbWrite \<lparr>lb_Buffer = [], lb_Limit = limit, lb_Truncated = False\<rparr> writes
    = \<lparr>lb_Buffer = take (nat limit) (concat writes), lb_Limit = limit,
       lb_Truncated = (0 < limit \<and> limit < int (length (concat writes)))\<rparr>"
proof -
  have "foldl lbWrite (bufferOf limit written) writes = bufferOf limit (written @ concat writes)" for written
    by (induction writes arbitrary: written) (simp_all add: lbWrite_bufferOf)
  from this[of "[]"] show ?thesis
    by (cases "0 < limit") (simp_all add: bufferOf_def)
qed

section \<open>Examples\<close>

theorem output_redacted_witness:
  "\<not> sublist ''s3cret'' (fst (redactAndLimit ''token=s3cret user=me tail=s3c'' [(''KEY'', ''s3cret''), (''USER'', ''me'')] 100))"
  using output_redacted[where v = "''s3cret''" and env = "[(''KEY'', ''s3cret''), (''USER'', ''me'')]", OF _ _ _ prod.collapse[symmetric]]
  by simp

theorem arguments_redacted_witness:
  "list_all (\<lambda>a. \<not> sublist ''s3cret'' a) (redactArgs [''--dns'', ''dns_cf'', ''s3cret''] [(''KEY'', ''s3cret'')])"
  using arguments_redacted[where v = "''s3cret''" and env = "[(''KEY'', ''s3cret'')]"] by (simp add: list_all_iff)

theorem chunked_scan_complete_witness:
  "scanFileCanaries [''s3cret''] [] [''KEY=s3'', ''cre'', ''t''] ReadEOF = Some CredentialResidue"
  by (subst chunked_scan_complete) (simp_all add: sublist_code)

end
