(* ===== verification/AcmeRunnerProofs.thy ===== *)
theory AcmeRunnerProofs
  imports AcmeRunner AcmeTextProofs
begin

text \<open>
  Properties of the runner: what a result may show, which commands run, that temporary directories go
  and credentials do not stay, and what an issue that succeeded has done.
\<close>

named_theorems frames

section \<open>Frames\<close>

text \<open>The temporary directories, failed removals and commands, which most steps leave alone.\<close>

definition seen :: "'e AcmeWorld \<Rightarrow> string list \<times> string list \<times> CommandSpec list" where
  "seen w = (aw_Temp w, aw_Stuck w, aw_Commands w)"

lemma seen_parts:
  "seen w = seen w' \<longleftrightarrow> aw_Temp w = aw_Temp w' \<and> aw_Stuck w = aw_Stuck w' \<and> aw_Commands w = aw_Commands w'"
  by (simp add: seen_def)

lemma ctxErr_seen [frames]: "ctxErr sys w = (c, w1) \<Longrightarrow> seen w1 = seen w"
  by (auto simp: ctxErr_def seen_def split: prod.splits)

lemma outsideCall_seen [frames]: "outsideCall f w = (ok, w1) \<Longrightarrow> seen w1 = seen w"
  by (auto simp: outsideCall_def seen_def split: prod.splits)

lemma scan_frame:
  "(\<And>w. f (snd (ctx w)) = f w) \<Longrightarrow> f (snd (scanPersistentPath ctx canaries node w)) = f w"
  "(\<And>w. f (snd (ctx w)) = f w) \<Longrightarrow> f (snd (scanEntries ctx canaries nodes w)) = f w"
proof (induction ctx canaries node w and ctx canaries nodes w rule: scanPersistentPath_scanEntries.induct)
  case (1 ctx canaries node w)
  obtain c w1 where c: "ctx w = (c, w1)"
    by fastforce
  then have "f w1 = f w"
    using 1(2)[of w] by simp
  then show ?case
    using 1 c by (cases c; cases node) simp_all
next
  case (3 ctx canaries n ns w)
  obtain e w1 where e: "scanPersistentPath ctx canaries n w = (e, w1)"
    by fastforce
  then show ?case
    using 3 by (cases e) simp_all
qed simp

lemma scanDirs_frame:
  assumes "\<And>w. seen (snd (ctx w)) = seen w"
  shows "seen (snd (scanDirs sys ctx canaries old dirs w)) = seen w"
proof (induction dirs arbitrary: old w)
  case (Cons dir dirs)
  obtain e w1 where e: "scanPersistentPath ctx canaries (sy_Look sys (pathClean dir) (aw_Ext w)) w = (e, w1)"
    by fastforce
  have "seen w1 = seen w"
    using scan_frame(1)[of seen, OF assms, of canaries "sy_Look sys (pathClean dir) (aw_Ext w)" w] e by simp
  then show ?case
    using Cons e by (cases e) simp_all
qed simp

lemma scan_seen [frames]:
  "scanPersistentDirs sys (ctxErr sys) dirs env w = (e, w1) \<Longrightarrow> seen w1 = seen w"
  "scanPersistentDirs sys (\<lambda>w. (None, w)) dirs env w = (e, w1) \<Longrightarrow> seen w1 = seen w"
proof -
  have ctx: "seen (snd (ctxErr sys w)) = seen w" for w
    by (cases "ctxErr sys w") (simp add: ctxErr_seen)
  show "scanPersistentDirs sys (ctxErr sys) dirs env w = (e, w1) \<Longrightarrow> seen w1 = seen w"
    using scanDirs_frame[of "ctxErr sys" sys "dnsCanaries env" "[]" dirs w, OF ctx] by (auto simp: scanPersistentDirs_def split: if_splits)
  show "scanPersistentDirs sys (\<lambda>w. (None, w)) dirs env w = (e, w1) \<Longrightarrow> seen w1 = seen w"
    using scanDirs_frame[of "\<lambda>w. (None, w)" sys "dnsCanaries env" "[]" dirs w] by (auto simp: scanPersistentDirs_def split: if_splits)
qed

text \<open>One run adds at most its command.\<close>

definition commandOf :: "'e AcmeSys \<Rightarrow> Runner \<Rightarrow> string list \<Rightarrow> Env \<Rightarrow> string \<Rightarrow> string \<Rightarrow> CommandSpec" where
  "commandOf sys r args dnsEnv configHome accountConf =
     \<lparr>cs_Path = rn_AcmeShPath r, cs_Args = appendAccountConf (appendConfigHome args configHome) accountConf,
      cs_Env = buildEnv (sy_Environ sys) dnsEnv (stateHome r), cs_OutputLimit = outputLimit r\<rparr>"

lemma execute_cases:
  assumes "execute sys r operation args env ch ac w = ((res, err), w')"
  obtains (refused) "seen w' = seen w" "err \<noteq> None" "or_Status res \<noteq> OperationSucceeded"
      "or_Stdout res = []" "or_Stderr res = []"
      "or_Args res = redactArgs (appendAccountConf (appendConfigHome args ch) ac) (commandRedactions (appendAccountConf (appendConfigHome args ch) ac) env)"
  | (ran) raw where "aw_Temp w' = aw_Temp w" "aw_Stuck w' = aw_Stuck w" "aw_Commands w' = aw_Commands w @ [commandOf sys r args env ch ac]"
      "res = (keptResult (outputLimit r) (commandRedactions (appendAccountConf (appendConfigHome args ch) ac) env)
        (startResult operation (redactArgs (appendAccountConf (appendConfigHome args ch) ac)
           (commandRedactions (appendAccountConf (appendConfigHome args ch) ac) env))) raw)\<lparr>or_Status := or_Status res\<rparr>"
      "err = None \<longleftrightarrow> or_Status res \<in> {OperationSucceeded, OperationSkipped, OperationManualPending}"
proof -
  let ?args = "appendAccountConf (appendConfigHome args ch) ac"
  let ?red = "commandRedactions ?args env"
  let ?start = "startResult operation (redactArgs ?args ?red)"
  have start: "or_Stdout ?start = []" "or_Stderr ?start = []" "or_Args ?start = redactArgs ?args ?red"
    by (simp_all add: startResult_def)
  show ?thesis
  proof (cases "validateDNSEnv env")
    case (Some e)
    then show ?thesis
      using assms refused start by (auto simp: execute_def Let_def)
  next
    case valid: None
    obtain c w1 where c: "ctxErr sys w = (c, w1)"
      by fastforce
    show ?thesis
    proof (cases c)
      case (Some x)
      then show ?thesis
        using assms refused start valid c ctxErr_seen[OF c] by (cases x) (auto simp: execute_def Let_def contextStatus_def)
    next
      case live: None
      obtain raw w2 where raw: "runCommand sys (commandOf sys r args env ch ac) w1 = (raw, w2)"
        by fastforce
      obtain c2 w3 where c2: "ctxErr sys w2 = (c2, w3)"
        by fastforce
      have seen: "aw_Temp w3 = aw_Temp w" "aw_Stuck w3 = aw_Stuck w" "aw_Commands w3 = aw_Commands w @ [commandOf sys r args env ch ac]"
        using ctxErr_seen[OF c] ctxErr_seen[OF c2] raw by (auto simp: seen_parts runCommand_def split: prod.splits)
      show ?thesis
      proof (cases c2)
        case (Some x)
        then show ?thesis
          using assms valid c live raw c2 seen
          by (intro ran[of raw]) (cases x; auto simp: execute_def Let_def commandOf_def contextStatus_def)+
      next
        case None
        obtain status e where cl: "classify operation raw = (status, e)"
          by fastforce
        have "e = None \<longleftrightarrow> status \<in> {OperationSucceeded, OperationSkipped, OperationManualPending}"
          using cl by (auto simp: classify_def contextStatus_def split: option.splits CommandErr.splits CtxErr.splits if_splits)
        then show ?thesis
          using assms valid c live raw c2 None seen cl
          by (intro ran[of raw]) (auto simp: execute_def Let_def commandOf_def)
      qed
    qed
  qed
qed

section \<open>What a result shows\<close>

lemma map_of_updates: "map_of (AList.updates (map fst env) (map snd env) acc) = map_of acc ++ map_of (rev env)"
  by (induction env arbitrary: acc) (auto simp: update_conv' map_add_def fun_eq_iff split: option.splits)

lemma mergeEnv_values:
  assumes "distinct (map fst env)"
  shows "set (map snd (mergeEnv env [])) = set (map snd env)"
proof -
  have "map_of (mergeEnv env []) = map_of (rev env)"
    by (simp add: mergeEnv_def map_of_updates)
  moreover have "distinct (map fst (mergeEnv env []))"
    by (simp add: mergeEnv_def distinct_updates)
  moreover have "distinct (map fst (rev env))"
    using assms by (simp add: rev_map[symmetric])
  ultimately have "snd ` set (mergeEnv env []) = snd ` set (rev env)"
    by (metis ran_distinct)
  then show ?thesis
    by simp
qed

text \<open>The values of the credential options join the secrets, under names of their own.\<close>

lemma update_other: "x \<in> set al \<Longrightarrow> fst x \<noteq> k \<Longrightarrow> x \<in> set (AList.update k v al)"
  by (induction al) auto

lemma eabRedactions_keeps:
  "(\<And>j. ''EAB_'' @ showNat j \<notin> fst ` set env0) \<Longrightarrow> set env0 \<subseteq> set env \<Longrightarrow> set env0 \<subseteq> set (eabRedactions i args env)"
proof (induction i args env rule: eabRedactions.induct)
  case (1 i a b args env)
  have "set env0 \<subseteq> set (if eabOption a then AList.update (''EAB_'' @ showNat i) b env else env)"
  proof
    fix x assume x: "x \<in> set env0"
    then have "fst x \<noteq> ''EAB_'' @ showNat i"
      using 1(2)[of i] by force
    then show "x \<in> set (if eabOption a then AList.update (''EAB_'' @ showNat i) b env else env)"
      using x 1(3) update_other[of x env] by auto
  qed
  then show ?case
    using 1 by simp
qed simp_all

lemma commandRedactions_values:
  assumes "distinct (map fst env)" "\<forall>j. ''EAB_'' @ showNat j \<notin> fst ` set env" "v \<in> set (map snd env)"
  shows "v \<in> set (map snd (commandRedactions args env))"
proof -
  have keys: "fst ` set (mergeEnv env []) \<subseteq> fst ` set env"
    using dom_map_of_conv_image_fst[of "mergeEnv env []"] dom_map_of_conv_image_fst[of "rev env"]
    by (simp add: mergeEnv_def map_of_updates)
  have "set (mergeEnv env []) \<subseteq> set (commandRedactions args env)"
    unfolding commandRedactions_def by (intro eabRedactions_keeps subset_refl) (use assms(2) keys in blast)
  moreover have "v \<in> snd ` set (mergeEnv env [])"
    using assms(3) mergeEnv_values[OF assms(1)] by simp
  ultimately show ?thesis
    by auto
qed


section \<open>Temporary directories\<close>

text \<open>The names the system makes for temporary directories are not empty.\<close>

definition tempLaws :: "'e AcmeSys \<Rightarrow> bool" where
  "tempLaws sys \<longleftrightarrow> (\<forall>name e. fst (sy_MkdirTemp sys name e) \<noteq> Some [])"

definition keepsTemp :: "('e AcmeWorld \<Rightarrow> 'x \<times> 'e AcmeWorld) \<Rightarrow> bool" where
  "keepsTemp f \<longleftrightarrow> (\<forall>w x w'. f w = (x, w') \<longrightarrow> aw_Temp w' = aw_Temp w \<and> aw_Stuck w' = aw_Stuck w)"

text \<open>
  From one world to a later one, with the directories \<open>used\<close> still in use: a temporary directory is an old
  one, one in use, or one whose removal failed on the way.
\<close>

definition tidied :: "string set \<Rightarrow> 'e AcmeWorld \<Rightarrow> 'e AcmeWorld \<Rightarrow> bool" where
  "tidied used w w' \<longleftrightarrow> (\<exists>stuck. aw_Stuck w' = aw_Stuck w @ stuck \<and> set (aw_Temp w') \<subseteq> set (aw_Temp w) \<union> used \<union> set stuck)"

lemma tidied_refl: "tidied {} w w"
  by (simp add: tidied_def)

lemma tidied_same: "aw_Temp w' = aw_Temp w \<Longrightarrow> aw_Stuck w' = aw_Stuck w \<Longrightarrow> tidied {} w w'"
  by (simp add: tidied_def)

lemma tidied_trans: "tidied A w w' \<Longrightarrow> tidied B w' w'' \<Longrightarrow> tidied (A \<union> B) w w''"
  unfolding tidied_def by (elim exE conjE, rule_tac x = "stuck @ stucka" in exI) auto

lemma tidied_remove:
  assumes "tidied (insert dir A) w w'"
  shows "tidied A w (snd (removeAll sys dir w'))"
proof -
  obtain stuck where s: "aw_Stuck w' = aw_Stuck w @ stuck" "set (aw_Temp w') \<subseteq> set (aw_Temp w) \<union> insert dir A \<union> set stuck"
    using assms unfolding tidied_def by blast
  obtain ok e where r: "sy_RemoveAll sys dir (aw_Ext w') = (ok, e)"
    by fastforce
  show ?thesis
  proof (cases ok)
    case True
    then show ?thesis
      using r s unfolding tidied_def by (intro exI[of _ stuck]) (auto simp: removeAll_def)
  next
    case False
    then show ?thesis
      using r s unfolding tidied_def by (intro exI[of _ "stuck @ [dir]"]) (auto simp: removeAll_def)
  qed
qed

lemma removeAll_ok:
  "removeAll sys dir w = (True, w') \<Longrightarrow> aw_Stuck w' = aw_Stuck w \<and> aw_Temp w' = filter (\<lambda>d. d \<noteq> dir) (aw_Temp w)"
  by (auto simp: removeAll_def split: prod.splits bool.splits)

lemma mkdirTemp_temp:
  "mkdirTemp sys name w = (Some dir, w') \<Longrightarrow> aw_Temp w' = dir # aw_Temp w \<and> aw_Stuck w' = aw_Stuck w"
  "mkdirTemp sys name w = (None, w') \<Longrightarrow> aw_Temp w' = aw_Temp w \<and> aw_Stuck w' = aw_Stuck w"
  by (auto simp: mkdirTemp_def split: prod.splits option.splits)

lemma mkdirTemp_name: "tempLaws sys \<Longrightarrow> mkdirTemp sys name w = (Some dir, w') \<Longrightarrow> dir \<noteq> []"
  by (auto simp: mkdirTemp_def tempLaws_def split: prod.splits option.splits) (metis fst_conv)

text \<open>A world with one more temporary directory, which is removed again or in use.\<close>

lemma tidied_fresh: "aw_Temp w' = dir # aw_Temp w \<Longrightarrow> aw_Stuck w' = aw_Stuck w \<Longrightarrow> tidied {dir} w w'"
  by (auto simp: tidied_def)

lemma prepareConfigHome_temp:
  assumes "prepareConfigHome sys r w = (x, w')"
  shows "tidied (case x of Inr (dir, True) \<Rightarrow> {dir} | _ \<Rightarrow> {}) w w'"
    "x = Inr y \<Longrightarrow> aw_Stuck w' = aw_Stuck w"
  using assms
  by (auto simp: prepareConfigHome_def Let_def seen_parts tidied_refl dest!: outsideCall_seen mkdirTemp_temp
      intro!: tidied_same tidied_fresh tidied_remove split: if_splits prod.splits option.splits bool.splits)

lemma prepareAccountConf_temp:
  assumes "tempLaws sys" "prepareAccountConf sys w = (x, w')"
  shows "tidied (case x of Inr (conf, dir) \<Rightarrow> {dir} | _ \<Rightarrow> {}) w w'"
    "x = Inr (conf, dir) \<Longrightarrow> dir \<noteq> [] \<and> aw_Stuck w' = aw_Stuck w"
proof -
  show "tidied (case x of Inr (conf, dir) \<Rightarrow> {dir} | _ \<Rightarrow> {}) w w'"
    using assms(2)
    by (auto simp: prepareAccountConf_def seen_parts dest!: outsideCall_seen mkdirTemp_temp
        intro!: tidied_same tidied_fresh tidied_remove split: if_splits prod.splits option.splits bool.splits)
  show "x = Inr (conf, dir) \<Longrightarrow> dir \<noteq> [] \<and> aw_Stuck w' = aw_Stuck w"
    using assms mkdirTemp_name[OF assms(1)]
    by (auto simp: prepareAccountConf_def seen_parts dest!: outsideCall_seen mkdirTemp_temp split: prod.splits option.splits bool.splits)
qed

lemma cleanUp_temp:
  assumes "cleanUp sys needed dir err w' = (err', w'')"
  shows "tidied (if needed then insert dir A else A) w w' \<Longrightarrow> tidied A w w''"
    "err' = None \<Longrightarrow> err = None \<and> aw_Stuck w'' = aw_Stuck w'"
proof -
  show "tidied (if needed then insert dir A else A) w w' \<Longrightarrow> tidied A w w''"
    using assms tidied_remove[of dir A w w' sys] by (auto simp: cleanUp_def split: if_splits prod.splits)
  show "err' = None \<Longrightarrow> err = None \<and> aw_Stuck w'' = aw_Stuck w'"
    using assms removeAll_ok[of sys dir w'] by (auto simp: cleanUp_def split: if_splits prod.splits)
qed

lemma scannedRun_keeps:
  assumes "keepsTemp run"
  shows "keepsTemp (scannedRun sys operation dirs env run x)"
  using assms unfolding keepsTemp_def scannedRun_def
  by (auto split: prod.splits option.splits dest!: scan_seen simp: seen_parts)

text \<open>
  What every path through the isolation does to the temporary directories: those left are old or stuck,
  and without an error nothing is stuck.
\<close>

definition leavesNoTemp :: "AcmeErr option \<Rightarrow> 'e AcmeWorld \<Rightarrow> 'e AcmeWorld \<Rightarrow> bool" where
  "leavesNoTemp err w w' \<longleftrightarrow> tidied {} w w' \<and> (err = None \<longrightarrow> aw_Stuck w' = aw_Stuck w)"

lemma isolated_temp:
  assumes laws: "tempLaws sys" and run: "\<And>ch ac. keepsTemp (run ch ac)"
    and w': "withIsolatedConfig sys r operation env dirs run x w = ((err, out), w')"
  shows "leavesNoTemp err w w'"
proof -
  obtain conf w1 where conf: "prepareConfigHome sys r w = (conf, w1)"
    by fastforce
  note t1 = prepareConfigHome_temp[OF conf]
  show ?thesis
  proof (cases conf)
    case (Inl e)
    then show ?thesis using w' conf t1 by (auto simp: withIsolatedConfig_def leavesNoTemp_def)
  next
    case (Inr p)
    then obtain ch temporary where p: "conf = Inr (ch, temporary)"
      by (cases p) auto
    define home where "home = (if temporary then {ch} else {})"
    have t1': "tidied home w w1"
      using t1(1) by (simp add: p home_def split: if_splits bool.splits)
    obtain cred w2 where cred: "(if isolatesDNSCredentials operation then prepareAccountConf sys w1 else (Inr ([], []), w1)) = (cred, w2)"
      by fastforce
    show ?thesis
    proof (cases cred)
      case (Inl e)
      then have a: "prepareAccountConf sys w1 = (Inl e, w2)"
        using cred by (simp split: if_splits)
      have "tidied (home \<union> {}) w w2"
        using tidied_trans[OF t1', of "{}" w2] prepareAccountConf_temp(1)[OF laws a] by simp
      then show ?thesis
        using w' conf p cred Inl tidied_remove[of ch "{}" w w2 sys]
        by (auto simp: withIsolatedConfig_def leavesNoTemp_def home_def split: if_splits)
    next
      case (Inr q)
      then obtain ac dir where q: "cred = Inr (ac, dir)"
        by (cases q) auto
      define own where "own = (if dir = [] then {} else {dir})"
      have t2: "tidied own w1 w2" "aw_Stuck w2 = aw_Stuck w1"
        using prepareAccountConf_temp[OF laws, of w1 cred w2] cred q
        by (auto simp: own_def tidied_refl split: if_splits)
      obtain e1 y w3 where sr: "scannedRun sys operation ([stateHome r, ch] @ dirs) env (run ch ac) x w2 = ((e1, y), w3)"
        by (metis prod.collapse)
      obtain e2 w4 where c1: "cleanUp sys (dir \<noteq> []) dir e1 w3 = (e2, w4)"
        by fastforce
      obtain e3 w5 where c2: "cleanUp sys temporary ch e2 w4 = (e3, w5)"
        by fastforce
      have same: "aw_Temp w3 = aw_Temp w2" "aw_Stuck w3 = aw_Stuck w2"
        using scannedRun_keeps[OF run] sr unfolding keepsTemp_def by blast+
      have ends: "w' = w5" "err = e3"
        using w' unfolding withIsolatedConfig_def by (simp_all add: conf p cred q sr[simplified] c1 c2)
      have "tidied (home \<union> own) w w3"
        using tidied_trans[OF tidied_trans[OF t1' t2(1)] tidied_same[OF same]] by simp
      then have "tidied (if dir \<noteq> [] then insert dir home else home) w w3"
        by (auto simp: own_def)
      then have "tidied home w w4"
        by (rule cleanUp_temp(1)[OF c1])
      then have "tidied (if temporary then insert ch {} else {}) w w4"
        by (simp add: home_def)
      then have "tidied {} w w5"
        by (rule cleanUp_temp(1)[OF c2])
      moreover have "aw_Stuck w5 = aw_Stuck w" if "err = None"
        using cleanUp_temp(2)[OF c2] cleanUp_temp(2)[OF c1] that ends same t2(2) t1(2) p by simp
      ultimately show ?thesis
        using ends by (simp add: leavesNoTemp_def)
    qed
  qed
qed

lemma execute_temp: "execute sys r operation args env ch ac w = (x, w') \<Longrightarrow> aw_Temp w' = aw_Temp w \<and> aw_Stuck w' = aw_Stuck w"
  by (cases x) (auto elim!: execute_cases simp: seen_parts)

lemma writeIssueMetadata_temp: "writeIssueMetadata sys res outDir w = (x, w') \<Longrightarrow> seen w' = seen w"
  by (auto simp: writeIssueMetadata_def dest!: outsideCall_seen split: prod.splits bool.splits)

lemma installSteps_temp:
  "installSteps sys r operation p outDir ch ac keep res w = (x, w') \<Longrightarrow> aw_Temp w' = aw_Temp w \<and> aw_Stuck w' = aw_Stuck w"
  by (auto simp: installSteps_def installCert_def Let_def seen_parts
      dest!: execute_temp ctxErr_seen writeIssueMetadata_temp split: prod.splits option.splits if_splits)

lemma issueSteps_temp: "keepsTemp (issueSteps sys r p outDir ch ac res)"
  by (auto simp: keepsTemp_def issueSteps_def Let_def dest!: execute_temp installSteps_temp split: prod.splits if_splits)

lemma renewSteps_temp: "keepsTemp (renewSteps sys r p force outDir ch ac res)"
  by (auto simp: keepsTemp_def renewSteps_def Let_def dest!: execute_temp installSteps_temp split: prod.splits if_splits)

lemma outputDir_seen: "outputDir sys r p w = (x, w') \<Longrightarrow> seen w' = seen w"
  by (auto simp: outputDir_def Let_def dest!: outsideCall_seen split: prod.splits bool.splits if_splits)

lemma leavesNoTemp_refl: "leavesNoTemp err w w"
  by (simp add: leavesNoTemp_def tidied_refl)

lemma leavesNoTemp_seen: "seen w1 = seen w \<Longrightarrow> leavesNoTemp err w1 w' \<Longrightarrow> leavesNoTemp err w w'"
  by (simp add: leavesNoTemp_def tidied_def seen_parts)

lemma leavesNoTemp_same: "seen w' = seen w \<Longrightarrow> leavesNoTemp err w w'"
  by (simp add: leavesNoTemp_def tidied_def seen_parts)

lemma inOutputDir_temp:
  assumes "tempLaws sys" "\<And>outDir ch ac res. keepsTemp (steps outDir ch ac res)"
    and "inOutputDir sys r operation p steps w = ((x, err), w')"
  shows "leavesNoTemp err w w'"
proof -
  obtain d w1 where d: "outputDir sys r p w = (d, w1)"
    by fastforce
  show ?thesis
  proof (cases d)
    case (Inr q)
    then obtain outDir certsDir where q: "d = Inr (outDir, certsDir)"
      by (cases q) auto
    obtain err' out w2 where i: "withIsolatedConfig sys r operation (issueEnv p) [certsDir]
        (\<lambda>ch ac. steps outDir ch ac (newIssueResult p outDir)) (newIssueResult p outDir) w1 = ((err', out), w2)"
      by (metis prod.collapse)
    have "w2 = w'" "err' = err"
      using assms(3) d q i by (simp_all add: inOutputDir_def)
    then show ?thesis
      using isolated_temp[OF assms(1) assms(2) i] leavesNoTemp_seen[OF outputDir_seen[OF d]] by simp
  qed (use assms(3) d leavesNoTemp_same[OF outputDir_seen[OF d]] in \<open>simp add: inOutputDir_def\<close>)
qed

lemma isolatedCommand_temp:
  assumes "tempLaws sys" "isolatedCommand sys r operation args env dirs w = ((x, err), w')"
  shows "leavesNoTemp err w w'"
proof -
  let ?run = "\<lambda>ch ac w. case execute sys r operation args env ch ac w of ((result, err), w1) \<Rightarrow> ((err, result), w1)"
  have keeps: "keepsTemp (?run ch ac)" for ch ac
    by (auto simp: keepsTemp_def dest!: execute_temp split: prod.splits)
  obtain err' out w2 where i: "withIsolatedConfig sys r operation env dirs ?run noResult w = ((err', out), w2)"
    by (metis prod.collapse)
  moreover have "w2 = w'" "err' = err"
    using assms(2) i by (simp_all add: isolatedCommand_def)
  ultimately show ?thesis
    using isolated_temp[OF assms(1) keeps i] by simp
qed

lemma run_parts: "y = ((fst (fst y), snd (fst y)), snd y)"
  by simp


section \<open>What an issue that succeeded has done\<close>

lemma removeAll_commands: "aw_Commands (snd (removeAll sys dir w)) = aw_Commands w"
  by (simp add: removeAll_def split: prod.split bool.split)

lemma mkdirTemp_commands: "mkdirTemp sys name w = (x, w') \<Longrightarrow> aw_Commands w' = aw_Commands w"
  by (auto simp: mkdirTemp_def split: prod.splits option.splits)

lemma prepare_commands:
  "prepareConfigHome sys r w = (x, w') \<Longrightarrow> aw_Commands w' = aw_Commands w"
  "prepareAccountConf sys w = (y, w') \<Longrightarrow> aw_Commands w' = aw_Commands w"
  by (auto simp: prepareConfigHome_def prepareAccountConf_def Let_def seen_parts removeAll_commands
      dest!: outsideCall_seen mkdirTemp_commands split: if_splits prod.splits option.splits bool.splits)

text \<open>The search that ignores the context leaves the world alone.\<close>

lemma scanDirs_world:
  "snd (scanDirs sys (\<lambda>w. (None, w)) canaries old dirs w) = w"
proof (induction dirs arbitrary: old)
  case (Cons dir dirs)
  have same: "snd (scanPersistentPath (\<lambda>w. (None, w)) canaries node w) = w" for node
    using scan_frame(1)[of "\<lambda>w. w" "\<lambda>w. (None, w)"] by simp
  obtain e w1 where e: "scanPersistentPath (\<lambda>w. (None, w)) canaries (sy_Look sys (pathClean dir) (aw_Ext w)) w = (e, w1)"
    by fastforce
  then have "w1 = w"
    using same by (metis snd_conv)
  then show ?case
    using Cons e by (cases e) simp_all
qed simp

lemma scan_world: "scanPersistentDirs sys (\<lambda>w. (None, w)) dirs env w = (e, w1) \<Longrightarrow> w1 = w"
  using scanDirs_world[of sys "dnsCanaries env" "[]" dirs w] by (auto simp: scanPersistentDirs_def split: if_splits)

text \<open>Worlds that only removals of directories lie between.\<close>

inductive removals :: "'e AcmeSys \<Rightarrow> 'e \<Rightarrow> 'e \<Rightarrow> bool" for sys :: "'e AcmeSys" and e :: 'e where
  removals_none: "removals sys e e"
| removals_one: "removals sys e e' \<Longrightarrow> removals sys e (snd (sy_RemoveAll sys dir e'))"

lemma removeAll_ext: "aw_Ext (snd (removeAll sys dir w)) = snd (sy_RemoveAll sys dir (aw_Ext w))"
  by (simp add: removeAll_def split: prod.split bool.split)

lemma cleanUp_None:
  assumes "cleanUp sys needed dir err w = (None, w')"
  shows "err = None" "aw_Commands w' = aw_Commands w" "removals sys e (aw_Ext w) \<Longrightarrow> removals sys e (aw_Ext w')"
  using assms removeAll_commands[of sys dir w] removeAll_ext[of sys dir w] removals_one[of sys e "aw_Ext w" dir]
  by (auto simp: cleanUp_def split: if_splits prod.splits)

text \<open>Without an error the operation ran, between two searches, and the second found nothing.\<close>

lemma isolated_ok:
  assumes "withIsolatedConfig sys r operation env dirs run x w = ((None, x'), w')"
  obtains ch ac w1 w2 w3 where "run ch ac w1 = ((None, x'), w2)" "aw_Commands w1 = aw_Commands w"
    "aw_Commands w' = aw_Commands w2" "removals sys (aw_Ext w2) (aw_Ext w')"
    "scanPersistentDirs sys (\<lambda>w. (None, w)) ([stateHome r, ch] @ dirs) env w2 = (None, w3)"
proof -
  obtain conf w1 where conf: "prepareConfigHome sys r w = (conf, w1)"
    by fastforce
  obtain ch temporary where ch: "conf = Inr (ch, temporary)"
    using assms conf by (cases conf) (auto simp: withIsolatedConfig_def)
  obtain cred w2 where cred: "(if isolatesDNSCredentials operation then prepareAccountConf sys w1 else (Inr ([], []), w1)) = (cred, w2)"
    by fastforce
  obtain ac dir where ac: "cred = Inr (ac, dir)"
    using assms conf ch cred by (cases cred) (auto simp: withIsolatedConfig_def)
  obtain err y w3 where sr: "scannedRun sys operation ([stateHome r, ch] @ dirs) env (run ch ac) x w2 = ((err, y), w3)"
    by (metis prod.collapse)
  obtain err1 w4 where c1: "cleanUp sys (dir \<noteq> []) dir err w3 = (err1, w4)"
    by fastforce
  obtain err2 w5 where c2: "cleanUp sys temporary ch err1 w4 = (err2, w5)"
    by fastforce
  have ends: "err2 = None" "y = x'" "w5 = w'"
    using assms unfolding withIsolatedConfig_def by (simp_all add: conf ch cred ac sr[simplified] c1 c2)
  have err1: "err1 = None"
    by (rule cleanUp_None(1)[OF c2[unfolded ends]])
  have err: "err = None" "aw_Commands w' = aw_Commands w3" "removals sys (aw_Ext w3) (aw_Ext w')"
    using cleanUp_None[OF c2[unfolded ends]] cleanUp_None[OF c1[unfolded err1]] removals_none by metis+
  have before: "aw_Commands w2 = aw_Commands w"
    using prepare_commands(1)[OF conf] prepare_commands(2)[of sys w1 cred w2] cred by (auto split: if_splits)
  obtain e wa where scan1: "scanPersistentDirs sys (ctxErr sys) ([stateHome r, ch] @ dirs) env w2 = (e, wa)"
    by fastforce
  have e: "e = None"
    using sr err(1) scan1 by (cases e) (auto simp: scannedRun_def)
  obtain err' z wb where body: "run ch ac wa = ((err', z), wb)"
    by (metis prod.collapse)
  obtain e' wc where scan2: "scanPersistentDirs sys (\<lambda>w. (None, w)) ([stateHome r, ch] @ dirs) env wb = (e', wc)"
    by fastforce
  have "e' = None" "err' = None" "z = x'" "w3 = wc"
    using sr err(1) ends(2) scan1[simplified] e body scan2[simplified] by (auto simp: scannedRun_def split: option.splits)
  then show ?thesis
    using that[of ch ac wa wb wc] body scan2 before err(2,3) scan_seen(1)[OF scan1] scan_seen(2)[OF scan2] scan_world[OF scan2]
    by (simp add: seen_parts)
qed

lemma inOutputDir_ok:
  assumes "inOutputDir sys r operation p steps w = ((res, None), w')"
  obtains outDir certsDir ch ac w0 w1 w2 w3 x where "outputDir sys r p w = (Inr (outDir, certsDir), w0)" "res = Some x"
    "steps outDir ch ac (newIssueResult p outDir) w1 = ((None, x), w2)" "aw_Commands w1 = aw_Commands w"
    "aw_Commands w' = aw_Commands w2" "removals sys (aw_Ext w2) (aw_Ext w')"
    "scanPersistentDirs sys (\<lambda>w. (None, w)) ([stateHome r, ch] @ [certsDir]) (issueEnv p) w2 = (None, w3)"
proof -
  obtain d w0 where d: "outputDir sys r p w = (d, w0)"
    by fastforce
  obtain outDir certsDir where q: "d = Inr (outDir, certsDir)"
    using assms d by (cases d) (auto simp: inOutputDir_def)
  obtain err x wz where i: "withIsolatedConfig sys r operation (issueEnv p) [certsDir]
      (\<lambda>ch ac. steps outDir ch ac (newIssueResult p outDir)) (newIssueResult p outDir) w0 = ((err, x), wz)"
    by (metis prod.collapse)
  have e: "err = None" "res = Some x" "wz = w'"
    using assms d q i by (auto simp: inOutputDir_def)
  show ?thesis
  proof (rule isolated_ok[OF i[unfolded e]])
    fix ch ac w1 w2 w3
    assume "steps outDir ch ac (newIssueResult p outDir) w1 = ((None, x), w2)" "aw_Commands w1 = aw_Commands w0"
      "aw_Commands w' = aw_Commands w2" "removals sys (aw_Ext w2) (aw_Ext w')"
      "scanPersistentDirs sys (\<lambda>w. (None, w)) ([stateHome r, ch] @ [certsDir]) (issueEnv p) w2 = (None, w3)"
    then show ?thesis
      using that d q e outputDir_seen[OF d] by (simp add: seen_parts)
  qed
qed

text \<open>The steps: which commands, with which result.\<close>

definition issuedFiles :: "string list" where
  "issuedFiles = [''cert.pem'', ''key.pem'', ''fullchain.pem'', ''ca.pem'', ''time.log'']"

lemma execute_ok:
  assumes "execute sys r operation args env ch ac w = ((res, None), w')"
  shows "aw_Commands w' = aw_Commands w @ [commandOf sys r args env ch ac]"
    "or_Status res \<in> {OperationSucceeded, OperationSkipped, OperationManualPending}"
  using assms by (auto elim!: execute_cases)

lemma installSteps_ok:
  assumes "installSteps sys r operation p outDir ch ac keep res w = ((None, x), w')"
  obtains i where "aw_Commands w' = aw_Commands w @ [commandOf sys r (installArgs r p outDir) (issueEnv p) ch ac]"
    "or_Status i \<in> {OperationSucceeded, OperationSkipped, OperationManualPending}"
    "if or_Status i = OperationSucceeded
     then \<exists>t. x = (keep (or_Status i) (res\<lparr>ir_Install := i, ir_StdoutStderr := combineOutput r [ir_Issue res, i]\<rparr>))\<lparr>ir_NotAfter := t, ir_Files := issuedFiles\<rparr>
     else x = keep (or_Status i) (res\<lparr>ir_Install := i, ir_StdoutStderr := combineOutput r [ir_Issue res, i]\<rparr>)"
proof -
  obtain i err w1 where i: "installCert sys r p outDir ch ac w = ((i, err), w1)"
    by (metis prod.collapse)
  let ?res = "keep (or_Status i) (res\<lparr>ir_Install := i, ir_StdoutStderr := combineOutput r [ir_Issue res, i]\<rparr>)"
  have err: "err = None"
    using assms i by (auto simp: installSteps_def Let_def split: if_splits)
  note ran = execute_ok[OF i[unfolded installCert_def err]]
  show ?thesis
  proof (cases "or_Status i = OperationSucceeded")
    case False
    then show ?thesis using assms i err ran by (intro that[of i]) (simp_all add: installSteps_def Let_def)
  next
    case True
    obtain c w2 where c: "ctxErr sys w1 = (c, w2)"
      by fastforce
    have "c = None"
      using assms i err True c by (cases c) (auto simp: installSteps_def Let_def)
    then have m: "writeIssueMetadata sys ?res outDir w2 = ((None, x), w')"
      using assms i err True c by (simp add: installSteps_def Let_def)
    have "\<exists>t. x = ?res\<lparr>ir_NotAfter := t, ir_Files := issuedFiles\<rparr>"
      using m by (auto simp: writeIssueMetadata_def issuedFiles_def split: prod.splits bool.splits)
    then show ?thesis
      using True ran ctxErr_seen[OF c] writeIssueMetadata_temp[OF m] by (intro that[of i]) (simp_all add: seen_parts)
  qed
qed

text \<open>Success means both commands and all files.\<close>

definition stepsDone :: "'e AcmeSys \<Rightarrow> Runner \<Rightarrow> IssueParams \<Rightarrow> string \<Rightarrow> string list \<Rightarrow> string \<Rightarrow> string \<Rightarrow> IssueResult \<Rightarrow> 'e AcmeWorld \<Rightarrow> 'e AcmeWorld \<Rightarrow> bool" where
  "stepsDone sys r p outDir args ch ac x w w' \<longleftrightarrow>
     ir_Status x \<in> {OperationSucceeded, OperationSkipped, OperationManualPending} \<and>
     (ir_Files x = issuedFiles \<and> or_Status (ir_Install x) = OperationSucceeded \<and>
        aw_Commands w' = aw_Commands w @ [commandOf sys r args (issueEnv p) ch ac,
          commandOf sys r (installArgs r p outDir) (issueEnv p) ch ac] \<or>
      ir_Files x = [] \<and> ir_Status x \<noteq> OperationSucceeded)"

lemma issueSteps_ok:
  assumes "issueSteps sys r p outDir ch ac (newIssueResult p outDir) w = ((None, x), w')"
  shows "stepsDone sys r p outDir (buildIssueArgs r p) ch ac x w w'"
proof -
  obtain i err w1 where i: "execute sys r ''issue'' (buildIssueArgs r p) (issueEnv p) ch ac w = ((i, err), w1)"
    by (metis prod.collapse)
  have err: "err = None"
    using assms i by (auto simp: issueSteps_def Let_def split: if_splits)
  note ran = execute_ok[OF i[unfolded err]]
  show ?thesis
  proof (cases "or_Status i = OperationSucceeded")
    case False
    then have "x = (newIssueResult p outDir)\<lparr>ir_Issue := i, ir_Status := or_Status i, ir_StdoutStderr := combineOutput r [i]\<rparr>"
      using assms i err by (simp add: issueSteps_def Let_def)
    then show ?thesis
      using False ran by (auto simp: stepsDone_def newIssueResult_def)
  next
    case True
    let ?res = "(newIssueResult p outDir)\<lparr>ir_Issue := i, ir_Status := or_Status i, ir_StdoutStderr := combineOutput r [i]\<rparr>"
    have "installSteps sys r ''issue'' p outDir ch ac (\<lambda>status x. x\<lparr>ir_Status := status\<rparr>) ?res w1 = ((None, x), w')"
      using assms i err True by (simp add: issueSteps_def Let_def)
    then show ?thesis
      using ran by (rule_tac installSteps_ok) (auto simp: stepsDone_def newIssueResult_def issuedFiles_def split: if_splits)
  qed
qed

lemma renewSteps_ok:
  assumes "renewSteps sys r p force outDir ch ac (newIssueResult p outDir) w = ((None, x), w')"
  shows "stepsDone sys r p outDir (renewArgs r p force) ch ac x w w'"
proof -
  obtain i err w1 where i: "execute sys r ''renew'' (renewArgs r p force) (issueEnv p) ch ac w = ((i, err), w1)"
    by (metis prod.collapse)
  have err: "err = None"
    using assms i by (auto simp: renewSteps_def Let_def split: if_splits)
  note ran = execute_ok[OF i[unfolded err]]
  let ?res = "(newIssueResult p outDir)\<lparr>ir_Issue := i, ir_Status := or_Status i, ir_StdoutStderr := combineOutput r [i]\<rparr>"
  show ?thesis
  proof (cases "or_Status i = OperationManualPending")
    case True
    then have "x = ?res"
      using assms i err by (simp add: renewSteps_def Let_def)
    then show ?thesis
      using True by (simp add: stepsDone_def newIssueResult_def)
  next
    case False
    then have "installSteps sys r ''renew'' p outDir ch ac
        (\<lambda>status x. if status \<noteq> OperationSucceeded then x\<lparr>ir_Status := status\<rparr> else x) ?res w1 = ((None, x), w')"
      using assms i err ran(2) by (auto simp: renewSteps_def Let_def split: if_splits)
    then show ?thesis
      using ran False by (rule_tac installSteps_ok) (auto simp: stepsDone_def newIssueResult_def issuedFiles_def split: if_splits)
  qed
qed

text \<open>What the search means: no file below the path has the value in it.\<close>

fun leaks :: "string \<Rightarrow> ScanNode \<Rightarrow> bool" where
  "leaks v (NodeFile chunks fin) = sublist v (concat chunks)"
| "leaks v (NodeDir nodes) = (\<exists>n\<in>set nodes. leaks v n)"
| "leaks v _ = False"

lemma scan_clean:
  "(\<And>w. ctx w = (None, w)) \<Longrightarrow> [] \<notin> set canaries \<Longrightarrow> scanPersistentPath ctx canaries node w = (None, w')
     \<Longrightarrow> w' = w \<and> (\<forall>v\<in>set canaries. \<not> leaks v node)"
  "(\<And>w. ctx w = (None, w)) \<Longrightarrow> [] \<notin> set canaries \<Longrightarrow> scanEntries ctx canaries nodes w = (None, w')
     \<Longrightarrow> w' = w \<and> (\<forall>v\<in>set canaries. \<forall>n\<in>set nodes. \<not> leaks v n)"
proof (induction ctx canaries node w and ctx canaries nodes w arbitrary: w' and w' rule: scanPersistentPath_scanEntries.induct)
  case (1 ctx canaries node w)
  then show ?case
    by (cases node) (auto simp: chunked_scan_complete split: if_splits)
next
  case (3 ctx canaries n ns w)
  obtain e w1 where e: "scanPersistentPath ctx canaries n w = (e, w1)"
    by fastforce
  have none: "e = None"
    using 3(5) e by (cases e) (auto simp del: scanPersistentPath.simps)
  then have rest: "scanEntries ctx canaries ns w1 = (None, w')"
    using 3(5) e by (simp del: scanPersistentPath.simps)
  have "w1 = w \<and> (\<forall>v\<in>set canaries. \<not> leaks v n)"
    using 3(1)[OF 3(3,4)] e none by blast
  moreover have "w' = w1 \<and> (\<forall>v\<in>set canaries. \<forall>n\<in>set ns. \<not> leaks v n)"
    by (rule 3(2)[OF e[symmetric] none 3(3,4) rest])
  ultimately show ?case
    by auto
qed simp

lemma scanDirs_clean:
  assumes "[] \<notin> set canaries" "scanDirs sys (\<lambda>w. (None, w)) canaries old dirs w = (None, w')"
    and "dir \<in> set dirs" "dir \<noteq> []" "v \<in> set canaries"
  shows "pathClean dir \<in> set old \<or> \<not> leaks v (sy_Look sys (pathClean dir) (aw_Ext w))"
  using assms(2,3)
proof (induction dirs arbitrary: old w)
  case (Cons d dirs)
  show ?case
  proof (cases "d = [] \<or> pathClean d \<in> set old")
    case True
    then show ?thesis using Cons assms(4) by auto
  next
    case False
    obtain e w1 where e: "scanPersistentPath (\<lambda>w. (None, w)) canaries (sy_Look sys (pathClean d) (aw_Ext w)) w = (e, w1)"
      by fastforce
    have "e = None"
      using Cons.prems(1) False e by (cases e) auto
    then have clean: "w1 = w" "\<not> leaks v (sy_Look sys (pathClean d) (aw_Ext w))"
      using scan_clean(1)[OF refl assms(1), of "sy_Look sys (pathClean d) (aw_Ext w)" w w1] e assms(5) by auto
    then have "scanDirs sys (\<lambda>w. (None, w)) canaries (pathClean d # old) dirs w = (None, w')"
      using Cons.prems(1) False e \<open>e = None\<close> by simp
    from Cons.prems(2) consider "dir = d" | "dir \<in> set dirs"
      by auto
    then show ?thesis
    proof cases
      case 2
      then have "pathClean dir \<in> set (pathClean d # old) \<or> \<not> leaks v (sy_Look sys (pathClean dir) (aw_Ext w))"
        using Cons.IH \<open>scanDirs sys (\<lambda>w. (None, w)) canaries (pathClean d # old) dirs w = (None, w')\<close> by blast
      then show ?thesis
        using clean(2) by auto
    qed (use clean(2) in simp)
  qed
qed simp

lemma scanned_clean:
  assumes "scanPersistentDirs sys (\<lambda>w. (None, w)) dirs env w = (None, w')" "v \<in> set (map snd env)" "v \<noteq> []"
    and "dir \<in> set dirs" "dir \<noteq> []"
  shows "\<not> leaks v (sy_Look sys (pathClean dir) (aw_Ext w))"
proof -
  have v: "v \<in> set (dnsCanaries env)" "[] \<notin> set (dnsCanaries env)"
    using assms(2,3) by (simp_all add: dnsCanaries_set)
  then have "scanDirs sys (\<lambda>w. (None, w)) (dnsCanaries env) [] dirs w = (None, w')"
    using assms(1) by (auto simp: scanPersistentDirs_def split: if_splits)
  then show ?thesis
    using scanDirs_clean[OF v(2) _ assms(4,5) v(1)] by fastforce
qed

definition firstArgs :: "'e AcmeSys \<Rightarrow> Runner \<Rightarrow> IssueParams \<Rightarrow> bool list \<Rightarrow> 'e AcmeWorld \<Rightarrow> string list" where
  "firstArgs sys r p force w =
     (if hasDomainState sys r (ip_Domain p) (ip_KeyType p) (ip_Keylength p) w then renewArgs r p (force = [True]) else buildIssueArgs r p)"

lemma commandOf_hd: "args \<noteq> [] \<Longrightarrow> hd (cs_Args (commandOf sys r args env ch ac)) = hd args"
  by (simp add: commandOf_def appendAccountConf_def appendConfigHome_def)

lemma commandOf_keeps: "a \<in> set args \<Longrightarrow> a \<in> set (cs_Args (commandOf sys r args env ch ac))"
  by (simp add: commandOf_def appendAccountConf_def appendConfigHome_def)

lemma commandOf_sublist: "sublist xs args \<Longrightarrow> sublist xs (cs_Args (commandOf sys r args env ch ac))"
  by (simp add: commandOf_def appendAccountConf_def appendConfigHome_def sublist_append)

lemma buildIssueArgs_hd: "hd (buildIssueArgs r p) = ''--issue''" "buildIssueArgs r p \<noteq> []"
  by (simp_all add: buildIssueArgs_def appendHome_def appendACMEOptions_def)

lemma renewArgs_hd: "hd (renewArgs r p force) = ''--renew''" "renewArgs r p force \<noteq> []"
  by (simp_all add: renewArgs_def appendCertificateOptions_def appendHome_def appendACMEOptions_def Let_def)

lemma renewArgs_force: "''--force'' \<in> set (renewArgs r p True)"
  by (simp add: renewArgs_def appendCertificateOptions_def appendHome_def appendACMEOptions_def)

lemma IssueOrRenew_ok:
  assumes "IssueOrRenew sys r (Some p) force w = ((res, None), w')"
  obtains outDir certsDir ch ac w0 w1 w2 w3 x where "outputDir sys r p w = (Inr (outDir, certsDir), w0)" "res = Some x"
    "stepsDone sys r p outDir (firstArgs sys r p force w) ch ac x w w'" "aw_Commands w' = aw_Commands w2"
    "removals sys (aw_Ext w2) (aw_Ext w')"
    "scanPersistentDirs sys (\<lambda>w. (None, w)) ([stateHome r, ch] @ [certsDir]) (issueEnv p) w2 = (None, w3)"
proof (cases "hasDomainState sys r (ip_Domain p) (ip_KeyType p) (ip_Keylength p) w")
  case True
  then have "inOutputDir sys r ''renew'' p (renewSteps sys r p (force = [True])) w = ((res, None), w')"
    using assms by (auto simp: IssueOrRenew_def renewAndInstallWithContext_def Let_def split: if_splits option.splits)
  then show ?thesis
    by (rule inOutputDir_ok) (use True in \<open>auto intro!: that simp: firstArgs_def stepsDone_def dest!: renewSteps_ok\<close>)
next
  case False
  then have "inOutputDir sys r ''issue'' p (issueSteps sys r p) w = ((res, None), w')"
    using assms by (auto simp: IssueOrRenew_def issueWithContext_def Let_def split: if_splits option.splits)
  then show ?thesis
    by (rule inOutputDir_ok) (use False in \<open>auto intro!: that simp: firstArgs_def stepsDone_def dest!: issueSteps_ok\<close>)
qed

text \<open>The names that a command names with \<^verbatim>\<open>-d\<close>.\<close>

fun namedDomains :: "string list \<Rightarrow> string list" where
  "namedDomains (a # b # args) = (if a = ''-d'' then b # namedDomains args else namedDomains (b # args))"
| "namedDomains args = []"

lemma namedDomains_sans: "namedDomains (concat (map (\<lambda>s. [''-d'', s]) sans) @ args) = sans @ namedDomains args"
  by (induction sans) simp_all

lemma namedDomains_append: "set (namedDomains xs) \<subseteq> set (namedDomains (xs @ ys))"
  by (induction xs rule: namedDomains.induct) auto

lemma issueArgs_names: "set (ip_Domain p # ip_SAN p) \<subseteq> set (namedDomains (buildIssueArgs r p))"
  by (simp add: buildIssueArgs_def appendHome_def appendACMEOptions_def namedDomains_sans) blast

lemma renewArgs_name: "ip_Domain p \<in> set (namedDomains (renewArgs r p force))"
  by (simp add: renewArgs_def appendCertificateOptions_def appendHome_def appendACMEOptions_def Let_def)

lemma commandOf_names: "set (namedDomains args) \<subseteq> set (namedDomains (cs_Args (commandOf sys r args env ch ac)))"
  unfolding commandOf_def appendAccountConf_def appendConfigHome_def
  using namedDomains_append[of args "optArg ''--config-home'' ch @ optArg ''--accountconf'' ac"] by simp

text \<open>
  The two commands of an issue or renewal. Where \<^verbatim>\<open>acme.sh\<close> knows the domain the first one is the renewal
  and names the domain; otherwise it is the issue and names the domain and every further name.
\<close>

definition issueCommands :: "bool \<Rightarrow> IssueParams \<Rightarrow> bool \<Rightarrow> CommandSpec \<Rightarrow> CommandSpec \<Rightarrow> bool" where
  "issueCommands known p force c1 c2 \<longleftrightarrow>
     (if known then hd (cs_Args c1) = ''--renew'' \<and> ip_Domain p \<in> set (namedDomains (cs_Args c1)) \<and>
        (force \<longrightarrow> ''--force'' \<in> set (cs_Args c1))
      else hd (cs_Args c1) = ''--issue'' \<and> set (ip_Domain p # ip_SAN p) \<subseteq> set (namedDomains (cs_Args c1))) \<and>
     hd (cs_Args c2) = ''--install-cert'' \<and> ip_Domain p \<in> set (namedDomains (cs_Args c2)) \<and>
     (ip_StagingDir p \<noteq> [] \<longrightarrow> sublist [''--key-file'', pathJoin [ip_StagingDir p, ''key.pem'']] (cs_Args c2))"


text \<open>Removing a path puts no text into any file: documented of \<^verbatim>\<open>os.RemoveAll\<close>.\<close>

definition removalLaw :: "'e AcmeSys \<Rightarrow> bool" where
  "removalLaw sys \<longleftrightarrow> (\<forall>dir path v e. leaks v (sy_Look sys path (snd (sy_RemoveAll sys dir e))) \<longrightarrow> leaks v (sy_Look sys path e))"

text \<open>C31: an issue or renewal that ends without an error leaves no credential in the state directory and the
  staging directory. In the world it ends in, after every command, every write of its own and the removal
  of its temporary directories, no file below these two directories, links not followed and unreadable
  ones aside, has the value of a DNS variable in it. Removing a directory puts no text into files.\<close>

theorem issue_leaves_no_credential:
  assumes "IssueOrRenew sys r (Some p) force w = ((res, None), w')" "removalLaw sys"
    and "v \<in> set (map snd (issueEnv p))" "v \<noteq> []" "dir \<in> {stateHome r, ip_StagingDir p}" "dir \<noteq> []"
  shows "\<not> leaks v (sy_Look sys (pathClean dir) (aw_Ext w'))"
  using assms(1)
proof (rule IssueOrRenew_ok)
  fix outDir certsDir ch ac w0 w2 w3 x
  assume a: "outputDir sys r p w = (Inr (outDir, certsDir), w0)"
    "scanPersistentDirs sys (\<lambda>w. (None, w)) ([stateHome r, ch] @ [certsDir]) (issueEnv p) w2 = (None, w3)"
    "removals sys (aw_Ext w2) (aw_Ext w')"
  have "ip_StagingDir p \<noteq> [] \<Longrightarrow> certsDir = ip_StagingDir p"
    using a(1) by (auto simp: outputDir_def split: prod.splits if_splits)
  then have "\<not> leaks v (sy_Look sys (pathClean dir) (aw_Ext w2))"
    using scanned_clean[OF a(2) assms(3,4), of dir] assms(5,6) by auto
  moreover have "leaks v (sy_Look sys (pathClean dir) e') \<Longrightarrow> leaks v (sy_Look sys (pathClean dir) e)" if "removals sys e e'" for e e'
    using that by (induction rule: removals.induct) (use assms(2) in \<open>auto simp: removalLaw_def\<close>)
  ultimately show ?thesis
    using a(3) by blast
qed

section \<open>Arguments\<close>

text \<open>The options that the issue and the installation use; whatever else begins with a dash would be one that a value brought in.\<close>

definition runnerOptions :: "string list" where
  "runnerOptions = [''--issue'', ''--renew'', ''--install-cert'', ''-d'', ''--dns'', ''--keylength'', ''--server'', ''--ecc'', ''--force'',
     ''--home'', ''--config-home'', ''--accountconf'', ''--cert-file'', ''--key-file'', ''--fullchain-file'', ''--ca-file'',
     ''--standalone'', ''--httpport'', ''--webroot'', ''--staging'', ''--eab-kid'', ''--eab-hmac-key'',
     ''--yes-I-know-dns-manual-mode-enough-go-ahead-please'']"

definition plainArg :: "string \<Rightarrow> bool" where
  "plainArg a \<longleftrightarrow> (a = [] \<or> hd a \<noteq> CHR ''-'')"

definition rootedPath :: "string \<Rightarrow> bool" where
  "rootedPath s \<longleftrightarrow> (\<exists>t. s = CHR ''/'' # t)"

lemma alnum_not_dash: "isAlnum c \<Longrightarrow> c \<noteq> CHR ''-''"
  by (auto simp: isAlnum_def isLower_def isDigit_def byteIn_def byteval_def)

lemma domain_plain: "validateDomain s = None \<Longrightarrow> plainArg s"
proof -
  assume "validateDomain s = None"
  then have d: "list_all acmeLabel (splitOn (CHR ''.'') (trimPrefix s ''*.''))"
    by (simp add: validateDomain_def domainName_def Let_def)
  show "plainArg s"
  proof (cases "prefix ''*.'' s")
    case True
    then show ?thesis by (cases s) (auto simp: plainArg_def)
  next
    case False
    then have l: "list_all acmeLabel (splitOn (CHR ''.'') s)"
      using d by (simp add: trimPrefix_def)
    show ?thesis
    proof (cases s)
      case (Cons c t)
      obtain x xs where x: "splitOn (CHR ''.'') t = x # xs"
        by (cases "splitOn (CHR ''.'') t") simp_all
      have "acmeLabel (if c = CHR ''.'' then [] else c # x)"
        using l Cons x by (simp split: if_splits)
      then show ?thesis
        using Cons alnum_not_dash[of c] by (auto simp: plainArg_def acmeLabel_def split: if_splits)
    qed (simp add: plainArg_def)
  qed
qed

lemma provider_plain: "dnsProviderName s \<Longrightarrow> plainArg s"
  by (cases s) (auto simp: dnsProviderName_def hasPrefix_def plainArg_def)

lemma keylength_plain: "validateKeylength s = None \<Longrightarrow> plainArg s"
  by (auto simp: validateKeylength_def validKeylength_def plainArg_def)

lemma ca_plain:
  assumes "validateCA parse s = None" "\<And>u. parse s = Some u \<Longrightarrow> pu_Scheme u = ''https'' \<Longrightarrow> hd s \<noteq> CHR ''-''"
  shows "plainArg s"
  using assms alnum_not_dash[of "hd s"]
  by (auto simp: validateCA_def caName_def plainArg_def isAlnum_def split: if_splits option.splits)

lemma rooted_plain: "rootedPath s \<Longrightarrow> plainArg s"
  by (auto simp: rootedPath_def plainArg_def)

lemma rooted_join: "rootedPath dir \<Longrightarrow> rootedPath (pathJoin (dir # ps))"
proof -
  assume "rootedPath dir"
  then obtain t where t: "dir = CHR ''/'' # t"
    by (auto simp: rootedPath_def)
  have "\<exists>u. joinWith ''/'' (dir # qs) = CHR ''/'' # u" for qs
    by (cases qs) (simp_all add: t)
  from this[of "filter (\<lambda>p. p \<noteq> []) ps"] obtain u where u: "joinWith ''/'' (dir # filter (\<lambda>p. p \<noteq> []) ps) = CHR ''/'' # u"
    by blast
  have "pathJoin (dir # ps) = pathClean (CHR ''/'' # u)"
    unfolding pathJoin_def Let_def using u by (simp add: t)
  then show "rootedPath (pathJoin (dir # ps))"
    by (simp add: pathClean_def Let_def rootedPath_def hasPrefix_def)
qed

text \<open>The values that the checks let begin with a dash: the web root and the two account credentials.\<close>

definition uncheckedValues :: "IssueParams \<Rightarrow> string set" where
  "uncheckedValues p = (if ip_ChallengeMode p = ''webroot'' then {ip_WebrootPath p} else {})
     \<union> {orElse (ip_EABKID p) (ip_EABKid p), orElse (ip_EABHMACKey p) (ip_EABHmacKey p)}"

definition safeArgs :: "string set \<Rightarrow> string list \<Rightarrow> bool" where
  "safeArgs unchecked args \<longleftrightarrow> (\<forall>a\<in>set args. plainArg a \<or> a \<in> set runnerOptions \<or> a \<in> unchecked)"

lemma safeArgs_append [simp]: "safeArgs u (xs @ ys) \<longleftrightarrow> safeArgs u xs \<and> safeArgs u ys"
  by (auto simp: safeArgs_def)

lemma safeArgs_Cons [simp]:
  "safeArgs u (x # xs) \<longleftrightarrow> (plainArg x \<or> x \<in> set runnerOptions \<or> x \<in> u) \<and> safeArgs u xs"
  "safeArgs u []"
  by (auto simp: safeArgs_def)

lemma safeArgs_option: "name \<in> set runnerOptions \<Longrightarrow> plainArg v \<or> v \<in> u \<Longrightarrow> safeArgs u (optArg name v)"
  by (simp add: optArg_def) blast

lemma safeArgs_force: "safeArgs u args \<Longrightarrow> safeArgs u (insertForce args)"
  by (induction args rule: insertForce.induct) (auto simp: safeArgs_def runnerOptions_def)

lemma option_names:
  "set [''--issue'', ''--renew'', ''--install-cert'', ''-d'', ''--dns'', ''--keylength'', ''--server'', ''--ecc'', ''--force'',
     ''--home'', ''--config-home'', ''--accountconf'', ''--cert-file'', ''--key-file'', ''--fullchain-file'', ''--ca-file'',
     ''--standalone'', ''--httpport'', ''--webroot'', ''--staging'', ''--eab-kid'', ''--eab-hmac-key'',
     ''--yes-I-know-dns-manual-mode-enough-go-ahead-please''] \<subseteq> set runnerOptions"
  by (simp add: runnerOptions_def)


section \<open>Examples\<close>

text \<open>
  A system in which the commands exit with the given codes, one after the other, and nothing else fails. The
  state counts the commands; the second one writes the staging directory.
\<close>

definition demoLook :: "string \<Rightarrow> nat \<Rightarrow> ScanNode" where
  "demoLook dir n =
     (if dir = ''/a'' then NodeDir [NodeLink, NodeFile [''ACCO'', ''UNT''] ReadEOF]
      else if dir = ''/s'' \<and> 2 \<le> n then NodeDir [NodeFile [''CERT''] ReadEOF] else NodeIgnored)"

definition demoSys :: "(nat \<Rightarrow> int) \<Rightarrow> nat AcmeSys" where
  "demoSys codes =
     \<lparr>sy_Execute = (\<lambda>spec n. (\<lparr>cr_Stdout = ''ok'', cr_Stderr = [], cr_StdoutTruncated = False, cr_StderrTruncated = False,
          cr_ExitCode = codes n, cr_Err = (if codes n = 0 then None else Some CommandFailed)\<rparr>, Suc n)),
      sy_CtxErr = (\<lambda>n. (None, n)), sy_Look = demoLook, sy_MkdirAll = (\<lambda>_ n. (True, n)), sy_Chmod = (\<lambda>_ n. (True, n)),
      sy_MkdirTemp = (\<lambda>name n. (Some (''/tmp/'' @ name), n)), sy_WriteFile = (\<lambda>_ _ n. (True, n)), sy_RemoveAll = (\<lambda>_ n. (True, n)),
      sy_IsRegular = (\<lambda>_ _. False), sy_HasEntries = (\<lambda>_ _. False), sy_Environ = [], sy_ParseURL = (\<lambda>_. None),
      sy_Now = (\<lambda>_. 7), sy_NotAfter = (\<lambda>_ _. None)\<rparr>"

definition demoAcme :: AcmeSettings where
  "demoAcme = \<lparr>as_AcmeShPath = ''/a/acme.sh'', as_Home = ''/a'', as_CertsDir = ''/c''\<rparr>"

definition acmeDemoEnv :: Env where "acmeDemoEnv = [(''KEY'', ''s3cret'')]"

definition demoV2 :: AcmeV2Params where
  "demoV2 = \<lparr>vp_Domain = ''a.io'', vp_SAN = [], vp_CA = ''le'', vp_Keylength = ''ec-256'', vp_DNSProvider = ''dns_cf'',
     vp_DNSProfile = ''p'', vp_Force = False, vp_DNSEnv = acmeDemoEnv, vp_StagingDir = ''/s''\<rparr>"

definition startWorld :: "nat AcmeWorld" where
  "startWorld = \<lparr>aw_Ext = 0, aw_Temp = [], aw_Stuck = [], aw_Commands = []\<rparr>"

lemma demo_checks: "validateIssueCommon (\<lambda>_. None) (acmeIssueParams demoV2) = None" "validateChallengeParams (acmeIssueParams demoV2) = None"
  by code_simp+

lemma demo_params: "checkedIssue (acmeRunnerOf demoAcme) (validateRenewInstallParams (sy_ParseURL (demoSys codes)) (Some (acmeIssueParams demoV2))) = None"
  using demo_checks by (simp add: checkedIssue_def validateRenewInstallParams_def validateReady_def acmeRunnerOf_def demoAcme_def demoSys_def)

lemma demo_env: "issueEnv (acmeIssueParams demoV2) = acmeDemoEnv"
  by (simp add: issueEnv_def mergeEnv_def acmeIssueParams_def demoV2_def acmeDemoEnv_def)

lemma acme_demo_scan:
  assumes "\<And>w. ctx w = (None, w)"
  shows "scanPersistentDirs (demoSys codes) ctx dirs acmeDemoEnv w = (None, w)"
proof -
  have canaries: "dnsCanaries acmeDemoEnv = [''s3cret'']"
    by code_simp
  have files: "scanFileCanaries [''s3cret''] [] [''ACCO'', ''UNT''] ReadEOF = None" "scanFileCanaries [''s3cret''] [] [''CERT''] ReadEOF = None"
    by code_simp+
  have clean: "scanPersistentPath ctx [''s3cret''] (demoLook dir n) w = (None, w)" for dir n
    using files by (simp add: demoLook_def assms del: scanFileCanaries.simps)
  have "scanDirs (demoSys codes) ctx [''s3cret''] old dirs w = (None, w)" for old
  proof (induction dirs arbitrary: old)
    case (Cons d dirs)
    have "sy_Look (demoSys codes) = demoLook"
      by (simp add: demoSys_def)
    then show ?case
      using Cons clean by simp
  qed simp
  then show ?thesis
    by (simp add: scanPersistentDirs_def canaries)
qed

lemma demo_ctx: "ctxErr (demoSys codes) w = (None, w)"
  by (simp add: ctxErr_def demoSys_def)

lemma demo_output: "outputDir (demoSys codes) r (acmeIssueParams demoV2) w = (Inr (''/s'', ''/s''), w)"
  by (simp add: outputDir_def outsideCall_def demoSys_def acmeIssueParams_def demoV2_def)

definition demoCred :: string where "demoCred = ''/tmp/certkeeper-acme-credentials-''"

lemma demo_isolated:
  assumes "isolatesDNSCredentials operation" "aw_Temp w = []"
    and "run ''/a'' (pathJoin [demoCred, ''account.conf'']) (w\<lparr>aw_Temp := [demoCred]\<rparr>) = (out, w1)" "aw_Temp w1 = [demoCred]"
  shows "withIsolatedConfig (demoSys codes) (acmeRunnerOf demoAcme) operation acmeDemoEnv dirs run x w = (out, w1\<lparr>aw_Temp := []\<rparr>)"
proof -
  have conf: "prepareConfigHome (demoSys codes) (acmeRunnerOf demoAcme) w = (Inr (''/a'', False), w)"
    by (simp add: prepareConfigHome_def persistentConfigHome_def acmeRunnerOf_def demoAcme_def outsideCall_def demoSys_def)
  have cred: "prepareAccountConf (demoSys codes) w = (Inr (pathJoin [demoCred, ''account.conf''], demoCred), w\<lparr>aw_Temp := [demoCred]\<rparr>)"
    using assms(2) by (simp add: prepareAccountConf_def mkdirTemp_def outsideCall_def demoSys_def demoCred_def)
  have clean: "removeAll (demoSys codes) demoCred w1 = (True, w1\<lparr>aw_Temp := []\<rparr>)"
    using assms(4) by (simp add: removeAll_def) (simp add: demoSys_def)
  have "demoCred \<noteq> []"
    by (simp add: demoCred_def)
  then show ?thesis
    using assms(3) by (cases out) (simp add: withIsolatedConfig_def conf assms(1) cred scannedRun_def acme_demo_scan demo_ctx cleanUp_def clean)
qed

definition demoExit :: "(nat \<Rightarrow> int) \<Rightarrow> string \<Rightarrow> nat \<Rightarrow> OperationStatus \<times> AcmeErr option" where
  "demoExit codes operation n =
     (if codes n = 0 then (OperationSucceeded, None) else if codes n = 2 then (OperationSkipped, None)
      else if codes n = 3 then (OperationManualPending, None)
      else (OperationFailed, Some (OperationError operation (codes n) OperationFailed)))"

lemma demo_env_valid: "validateDNSEnv acmeDemoEnv = None"
  by code_simp

lemma demo_execute_parts:
  "snd (execute (demoSys codes) r operation args acmeDemoEnv ch ac w) =
     w\<lparr>aw_Ext := Suc (aw_Ext w), aw_Commands := aw_Commands w @ [commandOf (demoSys codes) r args acmeDemoEnv ch ac]\<rparr>"
  "snd (fst (execute (demoSys codes) r operation args acmeDemoEnv ch ac w)) = snd (demoExit codes operation (aw_Ext w))"
  "or_Status (fst (fst (execute (demoSys codes) r operation args acmeDemoEnv ch ac w))) = fst (demoExit codes operation (aw_Ext w))"
  using demo_env_valid
  by (simp_all add: execute_def Let_def ctxErr_def runCommand_def commandOf_def demoSys_def classify_def demoExit_def
      split: prod.split)

lemma demo_execute:
  obtains res where "execute (demoSys codes) r operation args acmeDemoEnv ch ac w = ((res, snd (demoExit codes operation (aw_Ext w))),
      w\<lparr>aw_Ext := Suc (aw_Ext w), aw_Commands := aw_Commands w @ [commandOf (demoSys codes) r args acmeDemoEnv ch ac]\<rparr>)"
    "or_Status res = fst (demoExit codes operation (aw_Ext w))"
  using demo_execute_parts by (metis prod.collapse)

lemma acme_demo_first:
  "IssueOrRenew (demoSys codes) (acmeRunnerOf demoAcme) (Some (acmeIssueParams demoV2)) [False] startWorld =
     inOutputDir (demoSys codes) (acmeRunnerOf demoAcme) ''issue'' (acmeIssueParams demoV2)
       (issueSteps (demoSys codes) (acmeRunnerOf demoAcme) (acmeIssueParams demoV2)) startWorld"
proof -
  have "\<not> hasDomainState (demoSys codes) r d t k w" for r d t k w
    by (simp add: hasDomainState_def demoSys_def list_ex_iff)
  then show ?thesis
    using demo_params demo_checks(2) by (simp add: IssueOrRenew_def issueWithContext_def Let_def)
qed

text \<open>when the first issue of a domain is skipped by \<^verbatim>\<open>acme.sh\<close>, the issuer of the service reports
  success although it has installed nothing: it ran one command, and no file was written.\<close>

theorem skipped_issue_reports_success:
  "\<exists>w'. acmeV2Issue (demoSys (\<lambda>_. 2)) demoAcme demoV2 startWorld = (None, w') \<and> map (\<lambda>c. hd (cs_Args c)) (aw_Commands w') = [''--issue'']"
proof -
  let ?sys = "demoSys (\<lambda>_. 2)" and ?r = "acmeRunnerOf demoAcme" and ?p = "acmeIssueParams demoV2"
  let ?ac = "pathJoin [demoCred, ''account.conf'']" and ?w = "startWorld\<lparr>aw_Temp := [demoCred]\<rparr>"
  let ?cmd = "commandOf ?sys ?r (buildIssueArgs ?r ?p) acmeDemoEnv ''/a'' ?ac"
  obtain res where e: "execute ?sys ?r ''issue'' (buildIssueArgs ?r ?p) acmeDemoEnv ''/a'' ?ac ?w = ((res, None), ?w\<lparr>aw_Ext := 1, aw_Commands := [?cmd]\<rparr>)"
    and status: "or_Status res = OperationSkipped"
    by (rule demo_execute[of "\<lambda>_. 2" ?r "''issue''" "buildIssueArgs ?r ?p" "''/a''" ?ac ?w]) (simp add: demoExit_def startWorld_def)
  obtain x where run: "issueSteps ?sys ?r ?p ''/s'' ''/a'' ?ac (newIssueResult ?p ''/s'') ?w = ((None, x), ?w\<lparr>aw_Ext := 1, aw_Commands := [?cmd]\<rparr>)"
    "ir_Status x = OperationSkipped"
    by (simp add: issueSteps_def Let_def demo_env e status)
  obtain w' where "IssueOrRenew ?sys ?r (Some ?p) [False] startWorld = ((Some x, None), w')" "aw_Commands w' = [?cmd]"
    unfolding acme_demo_first inOutputDir_def using demo_isolated[where run = "\<lambda>ch ac. issueSteps ?sys ?r ?p ''/s'' ch ac (newIssueResult ?p ''/s'')" and
        operation = "''issue''" and w = startWorld and codes = "\<lambda>_. 2", OF _ _ run(1)]
    by (simp add: demo_output demo_env isolatesDNSCredentials_def startWorld_def)
  then have "acmeV2Issue ?sys demoAcme demoV2 startWorld = (None, w')" "aw_Commands w' = [?cmd]"
    using run(2) by (simp_all add: acmeV2Issue_def) (simp add: demoV2_def)
  then show ?thesis
    by (simp add: commandOf_def appendAccountConf_def appendConfigHome_def buildIssueArgs_def appendHome_def appendACMEOptions_def)
qed

lemma demo_success:
  obtains x w' where "IssueOrRenew (demoSys (\<lambda>_. 0)) (acmeRunnerOf demoAcme) (Some (acmeIssueParams demoV2)) [False] startWorld = ((Some x, None), w')"
    "ir_Status x = OperationSucceeded"
proof -
  let ?sys = "demoSys (\<lambda>_. 0)" and ?r = "acmeRunnerOf demoAcme" and ?p = "acmeIssueParams demoV2"
  let ?ac = "pathJoin [demoCred, ''account.conf'']" and ?w = "startWorld\<lparr>aw_Temp := [demoCred]\<rparr>"
  obtain res w1 where e: "execute ?sys ?r ''issue'' (buildIssueArgs ?r ?p) acmeDemoEnv ''/a'' ?ac ?w = ((res, None), w1)" "aw_Temp w1 = [demoCred]"
    and status: "or_Status res = OperationSucceeded"
    by (rule demo_execute[of "\<lambda>_. 0" ?r "''issue''" "buildIssueArgs ?r ?p" "''/a''" ?ac ?w]) (simp add: demoExit_def)
  obtain i w2 where i: "execute ?sys ?r ''install-cert'' (installArgs ?r ?p ''/s'') acmeDemoEnv ''/a'' ?ac w1 = ((i, None), w2)" "aw_Temp w2 = [demoCred]"
    and installed: "or_Status i = OperationSucceeded"
    by (rule demo_execute[of "\<lambda>_. 0" ?r "''install-cert''" "installArgs ?r ?p ''/s''" "''/a''" ?ac w1]) (simp add: demoExit_def e(2))
  have meta: "writeIssueMetadata ?sys y d w2 = ((None, y\<lparr>ir_Files := issuedFiles\<rparr>), w2)" for y d
    by (cases y) (simp add: writeIssueMetadata_def outsideCall_def demoSys_def issuedFiles_def)
  obtain x where run: "issueSteps ?sys ?r ?p ''/s'' ''/a'' ?ac (newIssueResult ?p ''/s'') ?w = ((None, x), w2)" "ir_Status x = OperationSucceeded"
    by (simp add: issueSteps_def installSteps_def installCert_def Let_def demo_env e(1) status i(1) installed demo_ctx meta)
  show ?thesis
    using that run(2) unfolding acme_demo_first inOutputDir_def
    using demo_isolated[where run = "\<lambda>ch ac. issueSteps ?sys ?r ?p ''/s'' ch ac (newIssueResult ?p ''/s'')" and
        operation = "''issue''" and w = startWorld and codes = "\<lambda>_. 0", OF _ _ run(1) i(2)]
    by (simp add: demo_output demo_env isolatesDNSCredentials_def startWorld_def)
qed


theorem issue_leaves_no_credential_witness:
  "\<exists>x w' nodes. IssueOrRenew (demoSys (\<lambda>_. 0)) (acmeRunnerOf demoAcme) (Some (acmeIssueParams demoV2)) [False] startWorld = ((Some x, None), w') \<and>
     sy_Look (demoSys (\<lambda>_. 0)) (pathClean ''/a'') (aw_Ext w') = NodeDir nodes \<and> nodes \<noteq> [] \<and>
     \<not> leaks ''s3cret'' (sy_Look (demoSys (\<lambda>_. 0)) (pathClean ''/a'') (aw_Ext w'))"
proof (rule demo_success)
  fix x w' assume run: "IssueOrRenew (demoSys (\<lambda>_. 0)) (acmeRunnerOf demoAcme) (Some (acmeIssueParams demoV2)) [False] startWorld = ((Some x, None), w')"
  have "pathClean ''/a'' = ''/a''"
    by code_simp
  then have "sy_Look (demoSys (\<lambda>_. 0)) (pathClean ''/a'') (aw_Ext w') = NodeDir [NodeLink, NodeFile [''ACCO'', ''UNT''] ReadEOF]"
    by (simp add: demoSys_def demoLook_def)
  moreover have "removalLaw (demoSys (\<lambda>_. 0))"
    by (simp add: removalLaw_def demoSys_def)
  moreover have "stateHome (acmeRunnerOf demoAcme) = ''/a''"
    by (simp add: stateHome_def acmeRunnerOf_def demoAcme_def)
  ultimately show ?thesis
    using run issue_leaves_no_credential[OF run, of "''s3cret''" "''/a''"] by (auto simp: demo_env acmeDemoEnv_def)
qed




end
