(* ===== verification/ServiceV1.thy ===== *)
theory ServiceV1
  imports Secrets AcmeRunner ServiceRun Auth
begin

text \<open>
  The v1 service (\<^verbatim>\<open>internal/service/service.go\<close>) with its log (\<^verbatim>\<open>internal/store/logs.go\<close>): issue or renew a
  certificate into the shared directory, read what is there, and the operations of the administration
  interface.  The issuer, the files of the certificate directory and the lock are parameters; one reading
  of the clock stands for those of one call, and durations are left out.
\<close>

section \<open>The log of issues\<close>

record IssueLog =
  il_Domain :: string
  il_ClientToken :: string
  il_Action :: string
  il_Success :: bool
  il_Message :: string
  il_CreatedAt :: int

record LogFilter =
  lf_Domain :: string
  lf_Client :: string
  lf_Success :: "bool option"
  lf_Limit :: int
  lf_Offset :: int

definition AddLog :: "int \<Rightarrow> IssueLog \<Rightarrow> IssueLog list \<Rightarrow> IssueLog list" where
  "AddLog now l logs = logs @ [l\<lparr>il_CreatedAt := now\<rparr>]"

text \<open>Newest first; rows of the same second stay in the order of their insertion.\<close>

definition ListLogs :: "LogFilter \<Rightarrow> IssueLog list \<Rightarrow> IssueLog list" where
  "ListLogs f logs =
     page (lf_Limit f) (lf_Offset f)
       (sort_key (\<lambda>l. - il_CreatedAt l)
          (filter (\<lambda>l. (lf_Domain f \<noteq> [] \<longrightarrow> il_Domain l = lf_Domain f) \<and> (lf_Client f \<noteq> [] \<longrightarrow> il_ClientToken l = lf_Client f)
                     \<and> (case lf_Success f of None \<Rightarrow> True | Some b \<Rightarrow> il_Success l = b)) logs))"

section \<open>Surroundings and state\<close>

datatype V1Err =
    V1Invalid string | V1NoPermission string | V1Store StoreError | V1Acme AcmeErr | V1LockFailed
  | V1FileAbsent | V1FileUnreadable | V1IsCurrent | V1NoPreset | V1NoRandom

datatype FileRead = FileAbsent | FileUnreadable | FileData string

text \<open>
  \<open>v1e_Issue\<close> is the injected issuer; without one the runner's own is used.  \<open>v1e_Text\<close> gives the text of an
  error, \<open>v1e_AcmeV2\<close> what the v2 error helpers find in one of the runner.
\<close>

record 'e V1Env =
  v1e_Lib :: CertLib
  v1e_Settings :: AcmeSettings
  v1e_DefaultCA :: string
  v1e_DefaultKeylength :: string
  v1e_DefaultRenewDays :: int
  v1e_EncryptionKey :: string
  v1e_Aead :: Aead
  v1e_Ring :: KeyRing
  v1e_Sys :: "'e AcmeSys"
  v1e_Issue :: "(IssueParams \<Rightarrow> 'e AcmeWorld \<Rightarrow> (IssueResult option \<times> AcmeErr option) \<times> 'e AcmeWorld) option"
  v1e_ReadFile :: "string \<Rightarrow> 'e \<Rightarrow> FileRead"
  v1e_StatSize :: "string \<Rightarrow> 'e \<Rightarrow> int option"
  v1e_LockFails :: "'e \<Rightarrow> bool"
  v1e_DNSAPIDir :: "string \<Rightarrow> (string \<times> bool) list option"
  v1e_Text :: "V1Err \<Rightarrow> string"
  v1e_AcmeV2 :: "AcmeErr \<Rightarrow> V2Error"

record 'e V1State =
  v1_Sd :: SecretDb
  v1_Logs :: "IssueLog list"
  v1_World :: "'e AcmeWorld"

definition v1_Db :: "'e V1State \<Rightarrow> Db" where "v1_Db s = sd_Db (v1_Sd s)"

definition withDb :: "Db \<Rightarrow> 'e V1State \<Rightarrow> 'e V1State" where
  "withDb db s = s\<lparr>v1_Sd := (v1_Sd s)\<lparr>sd_Db := db\<rparr>\<rparr>"

section \<open>Files of the certificate directory\<close>

definition allowedFiles :: "string list" where
  "allowedFiles = [''cert.pem'', ''key.pem'', ''fullchain.pem'', ''ca.pem'', ''time.log'']"

definition serviceDomain :: "string \<Rightarrow> V1Err option" where
  "serviceDomain domain = firstErr
     [failIf (domain = []) (V1Invalid ''domain''),
      failIf (TrimSpace domain \<noteq> domain \<or> containsAny domain [CHR ''/'', CHR 0x5C] \<or> contains (CHR 0x00) domain
              \<or> domain = ''.'' \<or> domain = ''..'' \<or> sublist ''..'' domain) (V1Invalid ''domain format'')]"

definition readAt :: "'e V1Env \<Rightarrow> 'e V1State \<Rightarrow> string \<Rightarrow> string \<Rightarrow> FileRead" where
  "readAt env s dir name = v1e_ReadFile env (pathJoin [dir, name]) (aw_Ext (v1_World s))"

definition domainDir :: "'e V1Env \<Rightarrow> string \<Rightarrow> string" where
  "domainDir env domain = pathJoin [as_CertsDir (v1e_Settings env), domain]"

record FileMeta =
  vf_Name :: string
  vf_Size :: int
  vf_SHA256 :: string

definition scanCertFile :: "'e V1Env \<Rightarrow> 'e V1State \<Rightarrow> string \<Rightarrow> string \<Rightarrow> FileMeta list" where
  "scanCertFile env s dir name =
     (case (v1e_StatSize env (pathJoin [dir, name]) (aw_Ext (v1_World s)), readAt env s dir name) of
        (Some n, FileData data) \<Rightarrow> [\<lparr>vf_Name = name, vf_Size = n, vf_SHA256 = hexEncode (lib_sha256 (v1e_Lib env) data)\<rparr>]
      | _ \<Rightarrow> [])"

definition scanCertFiles :: "'e V1Env \<Rightarrow> 'e V1State \<Rightarrow> string \<Rightarrow> FileMeta list" where
  "scanCertFiles env s dir =
     concat (map (scanCertFile env s dir) [''cert.pem'', ''key.pem'', ''fullchain.pem'', ''ca.pem'', ''time.log''])"

definition readTimeLog :: "'e V1Env \<Rightarrow> 'e V1State \<Rightarrow> string \<Rightarrow> int" where
  "readTimeLog env s dir =
     (case readAt env s dir ''time.log'' of FileData b \<Rightarrow> parseTimeLog (TrimSpace b) | _ \<Rightarrow> 0)"

text \<open>With the error dropped: no expiry is the zero time.\<close>

abbreviation zeroTime :: int where "zeroTime \<equiv> -62135596800"

definition readCertExpiry :: "'e V1Env \<Rightarrow> 'e V1State \<Rightarrow> string \<Rightarrow> int" where
  "readCertExpiry env s dir =
     (case readAt env s dir ''fullchain.pem'' of
        FileData b \<Rightarrow> (case ParsePemExpiry (v1e_Lib env) b of Inl _ \<Rightarrow> zeroTime | Inr t \<Rightarrow> t)
      | _ \<Rightarrow> zeroTime)"

definition fileExists :: "'e V1Env \<Rightarrow> 'e V1State \<Rightarrow> string \<Rightarrow> string \<Rightarrow> bool" where
  "fileExists env s dir name \<longleftrightarrow> v1e_StatSize env (pathJoin [dir, name]) (aw_Ext (v1_World s)) \<noteq> None"

section \<open>Parameters of an issue\<close>

record ApplyRequest =
  aq_Domain :: string
  aq_SAN :: "string list"
  aq_CA :: string
  aq_ChallengeMode :: string
  aq_DNSProvider :: string
  aq_WebrootPath :: string
  aq_Keylength :: string
  aq_Force :: bool
  aq_Actor :: string

record V1Params =
  pp_Domain :: string
  pp_SAN :: "string list"
  pp_CA :: string
  pp_ChallengeMode :: string
  pp_DNSProvider :: string
  pp_WebrootPath :: string
  pp_Keylength :: string
  pp_RenewDays :: int

text \<open>What the request leaves out comes from the preset, and then from the configuration.\<close>

definition presetParams :: "ApplyRequest \<Rightarrow> int \<Rightarrow> Cert option \<Rightarrow> V1Params" where
  "presetParams req days preset =
     (case preset of
        None \<Rightarrow> \<lparr>pp_Domain = aq_Domain req, pp_SAN = aq_SAN req, pp_CA = aq_CA req, pp_ChallengeMode = aq_ChallengeMode req,
                 pp_DNSProvider = aq_DNSProvider req, pp_WebrootPath = aq_WebrootPath req,
                 pp_Keylength = aq_Keylength req, pp_RenewDays = days\<rparr>
      | Some c \<Rightarrow>
          \<lparr>pp_Domain = aq_Domain req,
           pp_SAN = (if aq_SAN req = [] then splitCSV (ct_SAN c) else aq_SAN req),
           pp_CA = v2OrDefault (aq_CA req) (ct_CA c),
           pp_ChallengeMode = v2OrDefault (aq_ChallengeMode req) (ct_ChallengeMode c),
           pp_DNSProvider = v2OrDefault (aq_DNSProvider req) (orEmpty (ct_DNSProvider c)),
           pp_WebrootPath = v2OrDefault (aq_WebrootPath req) (orEmpty (ct_WebrootPath c)),
           pp_Keylength = v2OrDefault (aq_Keylength req) (ct_Keylength c),
           pp_RenewDays = ct_RenewDays c\<rparr>)"

definition challengeErr :: "V1Params \<Rightarrow> V1Err option" where
  "challengeErr p =
     (if pp_ChallengeMode p = [] then Some (V1Invalid ''challenge_mode missing'')
      else if pp_ChallengeMode p = ''dns_api'' then failIf (pp_DNSProvider p = []) (V1Invalid ''dns_provider'')
      else if pp_ChallengeMode p = ''webroot'' then failIf (pp_WebrootPath p = []) (V1Invalid ''webroot_path'')
      else failIf (pp_ChallengeMode p \<notin> {''standalone'', ''dns_manual''}) (V1Invalid ''challenge_mode''))"

definition buildIssueParams :: "'e V1Env \<Rightarrow> ApplyRequest \<Rightarrow> Cert option \<Rightarrow> V1Err + V1Params" where
  "buildIssueParams env req preset =
     (let p0 = presetParams req (v1e_DefaultRenewDays env) preset;
          p = p0\<lparr>pp_CA := v2OrDefault (pp_CA p0) (v1e_DefaultCA env),
                 pp_Keylength := v2OrDefault (pp_Keylength p0) (v1e_DefaultKeylength env)\<rparr>
      in guardR (challengeErr p) (Inr p))"

definition runnerParams :: "V1Params \<Rightarrow> Env \<Rightarrow> IssueParams" where
  "runnerParams p dnsEnv =
     \<lparr>ip_Domain = pp_Domain p, ip_SAN = pp_SAN p, ip_CA = pp_CA p, ip_ChallengeMode = pp_ChallengeMode p,
      ip_DNSProvider = pp_DNSProvider p, ip_WebrootPath = pp_WebrootPath p, ip_Keylength = pp_Keylength p,
      ip_DNSEnv = dnsEnv, ip_CertsDir = [], ip_StagingDir = [], ip_Profile = [], ip_Env = [], ip_KeyType = [],
      ip_Staging = False, ip_EABKID = [], ip_EABHMACKey = [], ip_EABKid = [], ip_EABHmacKey = []\<rparr>"

section \<open>Issue or renew\<close>

record ApplyResult =
  ar_Success :: bool
  ar_Domain :: string
  ar_Renewed :: bool
  ar_NotAfter :: int
  ar_Files :: "FileMeta list"
  ar_TimeLog :: int
  ar_Message :: string

definition v1Runner :: "AcmeSettings \<Rightarrow> Runner" where
  "v1Runner s =
     \<lparr>rn_AcmeShPath = as_AcmeShPath s, rn_Home = as_Home s, rn_StateHome = [], rn_CertsDir = as_CertsDir s,
      rn_ConfigHome = [], rn_EphemeralConfigHome = False, rn_OutputLimit = 0\<rparr>"

definition issueFunc ::
  "'e V1Env \<Rightarrow> IssueParams \<Rightarrow> 'e AcmeWorld \<Rightarrow> (IssueResult option \<times> AcmeErr option) \<times> 'e AcmeWorld" where
  "issueFunc env p w =
     (case v1e_Issue env of
        Some f \<Rightarrow> f p w
      | None \<Rightarrow> Issue (v1e_Sys env) (v1Runner (v1e_Settings env)) (Some p) w)"

definition dnsEnvOf :: "'e V1Env \<Rightarrow> V1Params \<Rightarrow> SecretDb \<Rightarrow> V1Err + Env" where
  "dnsEnvOf env p sd =
     (if pp_ChallengeMode p = ''dns_api''
      then (case ListSecretsByProvider (v1e_Aead env) (lib_sha256 (v1e_Lib env)) (v1e_Ring env) (pp_DNSProvider p)
                  (v1e_EncryptionKey env) sd of
              Inl e \<Rightarrow> Inl (V1Store e) | Inr values \<Rightarrow> Inr values)
      else Inr [])"

definition pushedCert :: "V1Params \<Rightarrow> Cert" where
  "pushedCert p =
     \<lparr>ct_Domain = pp_Domain p, ct_SAN = joinWith '','' (pp_SAN p), ct_CA = pp_CA p,
      ct_ChallengeMode = pp_ChallengeMode p, ct_DNSProvider = nullable (pp_DNSProvider p), ct_DNSProfile = None,
      ct_WebrootPath = nullable (pp_WebrootPath p), ct_Keylength = pp_Keylength p, ct_RenewDays = pp_RenewDays p,
      ct_ReloadCmd = None, ct_CreatedAt = 0, ct_UpdatedAt = 0, ct_Source = ''pushed''\<rparr>"

text \<open>What \<^verbatim>\<open>Apply\<close> answers, from the state it leaves.\<close>

definition applyAnswer :: "'e V1Env \<Rightarrow> ApplyRequest \<Rightarrow> bool \<Rightarrow> int \<Rightarrow> string \<Rightarrow> 'e V1State \<Rightarrow> ApplyResult" where
  "applyAnswer env req renewed notAfter msg s =
     (let outDir = domainDir env (aq_Domain req)
      in \<lparr>ar_Success = True, ar_Domain = aq_Domain req, ar_Renewed = renewed, ar_NotAfter = notAfter,
          ar_Files = scanCertFiles env s outDir, ar_TimeLog = readTimeLog env s outDir, ar_Message = msg\<rparr>)"

definition savePushed ::
  "int \<Rightarrow> ApplyRequest \<Rightarrow> Cert option \<Rightarrow> V1Params \<Rightarrow> 'e V1State \<Rightarrow> V1Err option \<times> 'e V1State" where
  "savePushed now req preset p s =
     (if aq_ChallengeMode req \<noteq> [] \<and> preset = None
      then (case UpsertCert (unixSec now) (Some (pushedCert p)) (v1_Db s) of
              (Inl e, db) \<Rightarrow> (Some (V1Store e), withDb db s)
            | (Inr _, db) \<Rightarrow> (None, withDb db s))
      else (None, s))"

text \<open>A renewal that is due: the lock, the DNS secrets, the issuer, and a pushed preset is saved.\<close>

definition issueNow ::
  "'e V1Env \<Rightarrow> int \<Rightarrow> ApplyRequest \<Rightarrow> Cert option \<Rightarrow> V1Params \<Rightarrow> int \<Rightarrow> 'e V1State \<Rightarrow> (V1Err + ApplyResult) \<times> 'e V1State" where
  "issueNow env now req preset p notAfter s =
     (if v1e_LockFails env (aw_Ext (v1_World s)) then (Inl V1LockFailed, s)
      else case dnsEnvOf env p (v1_Sd s) of
        Inl e \<Rightarrow> (Inl e, s)
      | Inr dnsEnv \<Rightarrow>
          (case issueFunc env (runnerParams p dnsEnv) (v1_World s) of
             ((_, Some e), w1) \<Rightarrow> (Inl (V1Acme e), s\<lparr>v1_World := w1\<rparr>)
           | ((res, None), w1) \<Rightarrow>
               let s1 = s\<lparr>v1_World := w1\<rparr>;
                   expiry = (case res of None \<Rightarrow> notAfter
                             | Some r \<Rightarrow> (case ir_NotAfter r of None \<Rightarrow> zeroTime | Some t \<Rightarrow> t))
               in (case savePushed now req preset p s1 of
                     (Some e, s2) \<Rightarrow> (Inl e, s2)
                   | (None, s2) \<Rightarrow> (Inr (applyAnswer env req True expiry [] s2), s2))))"

definition applyOutcome ::
  "'e V1Env \<Rightarrow> int \<Rightarrow> ApplyRequest \<Rightarrow> Cert option \<Rightarrow> V1Params \<Rightarrow> 'e V1State \<Rightarrow> (V1Err + ApplyResult) \<times> 'e V1State" where
  "applyOutcome env now req preset p s =
     (let notAfter = readCertExpiry env s (domainDir env (aq_Domain req))
      in if \<not> aq_Force req \<and> \<not> ShouldRenew now notAfter (pp_RenewDays p)
         then (Inr (applyAnswer env req False notAfter MsgNotDue s), s)
         else issueNow env now req preset p notAfter s)"

definition issueLogOf :: "'e V1Env \<Rightarrow> ApplyRequest \<Rightarrow> V1Err + ApplyResult \<Rightarrow> IssueLog" where
  "issueLogOf env req r =
     \<lparr>il_Domain = aq_Domain req, il_ClientToken = v2OrDefault (aq_Actor req) ''server-cli'', il_Action = ''apply'',
      il_Success = isOk r, il_Message = (case r of Inl e \<Rightarrow> v1e_Text env e | Inr a \<Rightarrow> ar_Message a), il_CreatedAt = 0\<rparr>"

definition ServiceApply ::
  "'e V1Env \<Rightarrow> int \<Rightarrow> ApplyRequest \<Rightarrow> 'e V1State \<Rightarrow> (V1Err + ApplyResult) \<times> 'e V1State" where
  "ServiceApply env now req s =
     (case serviceDomain (aq_Domain req) of
        Some e \<Rightarrow> (Inl e, s)
      | None \<Rightarrow>
          (let preset = GetCert (aq_Domain req) (v1_Db s)
           in case buildIssueParams env req preset of
                Inl e \<Rightarrow> (Inl e, s)
              | Inr p \<Rightarrow>
                  (case applyOutcome env now req preset p s of
                     (r, s1) \<Rightarrow> (r, s1\<lparr>v1_Logs := AddLog (unixSec now) (issueLogOf env req r) (v1_Logs s1)\<rparr>))))"

definition emptyApply :: "string \<Rightarrow> bool \<Rightarrow> string \<Rightarrow> ApplyRequest" where
  "emptyApply domain force actor =
     \<lparr>aq_Domain = domain, aq_SAN = [], aq_CA = [], aq_ChallengeMode = [], aq_DNSProvider = [], aq_WebrootPath = [],
      aq_Keylength = [], aq_Force = force, aq_Actor = actor\<rparr>"

definition ServiceReissue ::
  "'e V1Env \<Rightarrow> int \<Rightarrow> string \<Rightarrow> string \<Rightarrow> 'e V1State \<Rightarrow> (V1Err + ApplyResult) \<times> 'e V1State" where
  "ServiceReissue env now domain actor s =
     (case firstErr [serviceDomain domain, failIf (GetCert domain (v1_Db s) = None) (V1Invalid ''preset'')] of
        Some e \<Rightarrow> (Inl e, s)
      | None \<Rightarrow> ServiceApply env now (emptyApply domain True actor) s)"

section \<open>Reading\<close>

record CertStatus =
  cts_Domain :: string
  cts_NotAfter :: int
  cts_TimeLog :: int
  cts_Files :: "FileMeta list"
  cts_Exists :: bool

definition ServiceStatus :: "'e V1Env \<Rightarrow> string \<Rightarrow> 'e V1State \<Rightarrow> V1Err + CertStatus" where
  "ServiceStatus env domain s =
     guardR (serviceDomain domain)
       (let outDir = domainDir env domain
        in Inr \<lparr>cts_Domain = domain, cts_NotAfter = readCertExpiry env s outDir, cts_TimeLog = readTimeLog env s outDir,
                cts_Files = scanCertFiles env s outDir, cts_Exists = fileExists env s outDir ''fullchain.pem''\<rparr>)"

record CertStatusSummary =
  css_Domain :: string
  css_NotAfter :: int
  css_TimeLog :: int
  css_RenewDays :: int
  css_ChallengeMode :: string
  css_Exists :: bool

fun statusSummaries :: "'e V1Env \<Rightarrow> 'e V1State \<Rightarrow> Cert list \<Rightarrow> V1Err + CertStatusSummary list" where
  "statusSummaries env s [] = Inr []"
| "statusSummaries env s (c # cs) =
     bindR (ServiceStatus env (ct_Domain c) s) (\<lambda>status.
     bindR (statusSummaries env s cs) (\<lambda>rest.
       Inr (\<lparr>css_Domain = ct_Domain c, css_NotAfter = cts_NotAfter status, css_TimeLog = cts_TimeLog status,
             css_RenewDays = ct_RenewDays c, css_ChallengeMode = ct_ChallengeMode c, css_Exists = cts_Exists status\<rparr> # rest)))"

definition AllStatuses :: "'e V1Env \<Rightarrow> 'e V1State \<Rightarrow> V1Err + CertStatusSummary list" where
  "AllStatuses env s = statusSummaries env s (ListCerts (v1_Db s))"

definition ServiceReadFile :: "'e V1Env \<Rightarrow> string \<Rightarrow> string \<Rightarrow> 'e V1State \<Rightarrow> V1Err + string" where
  "ServiceReadFile env domain name s =
     guardR (firstErr [serviceDomain domain, failIf (name \<notin> set allowedFiles) (V1Invalid ''file'')])
       (case readAt env s (domainDir env domain) name of
          FileData data \<Rightarrow> Inr data | FileAbsent \<Rightarrow> Inl V1FileAbsent | FileUnreadable \<Rightarrow> Inl V1FileUnreadable)"

section \<open>Administration\<close>

definition SaveCertConfig :: "'e V1Env \<Rightarrow> int \<Rightarrow> Cert \<Rightarrow> 'e V1State \<Rightarrow> (V1Err + Cert) \<times> 'e V1State" where
  "SaveCertConfig env now c s =
     (case firstErr
         [serviceDomain (ct_Domain c), failIf (ct_ChallengeMode c = []) (V1Invalid ''challenge_mode missing''),
          failIf (ct_ChallengeMode c \<notin> {''dns_api'', ''standalone'', ''webroot'', ''dns_manual''}) (V1Invalid ''challenge_mode'')] of
        Some e \<Rightarrow> (Inl e, s)
      | None \<Rightarrow>
          (let c' = c\<lparr>ct_CA := v2OrDefault (ct_CA c) (v1e_DefaultCA env),
                      ct_Keylength := v2OrDefault (ct_Keylength c) (v1e_DefaultKeylength env),
                      ct_RenewDays := (if ct_RenewDays c = 0 then v1e_DefaultRenewDays env else ct_RenewDays c),
                      ct_Source := v2OrDefault (ct_Source c) ''preset''\<rparr>
           in case UpsertCert (unixSec now) (Some c') (v1_Db s) of
                (Inl e, db) \<Rightarrow> (Inl (V1Store e), withDb db s)
              | (Inr saved, db) \<Rightarrow> (Inr saved, withDb db s)))"

record TokenCreateRequest =
  tc_ID :: string
  tc_Secret :: string
  tc_Note :: string
  tc_Enabled :: bool
  tc_IsAdmin :: bool
  tc_AutoGen :: bool

text \<open>The random bytes of the ID and of the secret, and the one of the ciphertext's nonce.\<close>

record TokenRandom =
  rt_ID :: "nat \<Rightarrow> string option"
  rt_Secret :: "nat \<Rightarrow> string option"
  rt_Nonce :: "string option"

definition sealToken :: "'e V1Env \<Rightarrow> string option \<Rightarrow> string \<Rightarrow> string \<Rightarrow> string option" where
  "sealToken env random plain aad = encryptAESGCM (v1e_Aead env) random plain (kr_Active (v1e_Ring env)) aad"

definition newToken :: "int \<Rightarrow> TokenCreateRequest \<Rightarrow> Token" where
  "newToken now req =
     \<lparr>to_ID = tc_ID req, to_Secret = tc_Secret req, to_Note = tc_Note req, to_Enabled = tc_Enabled req,
      to_IsAdmin = tc_IsAdmin req, to_CreatedAt = unixSec now, to_LastUsedAt = None, to_exposeSecret = False\<rparr>"

definition filledRequest :: "TokenRandom \<Rightarrow> TokenCreateRequest \<Rightarrow> V1Err + TokenCreateRequest" where
  "filledRequest rnd req =
     bindR (if tc_ID req = [] \<or> tc_AutoGen req
            then (case GenTokenID (rt_ID rnd) of None \<Rightarrow> Inl V1NoRandom | Some i \<Rightarrow> Inr (req\<lparr>tc_ID := i\<rparr>)) else Inr req)
       (\<lambda>r. if tc_Secret r = []
            then (case GenSecret (rt_Secret rnd) of None \<Rightarrow> Inl V1NoRandom | Some x \<Rightarrow> Inr (r\<lparr>tc_Secret := x\<rparr>)) else Inr r)"

definition ServiceCreateToken ::
  "'e V1Env \<Rightarrow> int \<Rightarrow> TokenRandom \<Rightarrow> TokenCreateRequest \<Rightarrow> 'e V1State \<Rightarrow> (V1Err + Token) \<times> 'e V1State" where
  "ServiceCreateToken env now rnd req s =
     (case filledRequest rnd req of
        Inl e \<Rightarrow> (Inl e, s)
      | Inr r \<Rightarrow>
          (case CreateToken (sealToken env (rt_Nonce rnd)) (unixSec now) (Some (newToken now r)) (v1_Db s) of
             (Inl e, db) \<Rightarrow> (Inl (V1Store e), withDb db s)
           | (Inr t, db) \<Rightarrow> (Inr t, withDb db s)))"

record SecretView =
  sw_ID :: int
  sw_Provider :: string
  sw_EnvKey :: string
  sw_EnvValue :: string
  sw_CreatedAt :: int

definition providerSecrets :: "'e V1Env \<Rightarrow> SecretDb \<Rightarrow> string \<Rightarrow> V1Err + (string \<times> string) list" where
  "providerSecrets env sd provider =
     (case ListSecretsByProvider (v1e_Aead env) (lib_sha256 (v1e_Lib env)) (v1e_Ring env) provider (v1e_EncryptionKey env) sd of
        Inl e \<Rightarrow> Inl (V1Store e) | Inr values \<Rightarrow> Inr values)"

fun valuesOf :: "'e V1Env \<Rightarrow> SecretDb \<Rightarrow> string list \<Rightarrow> V1Err + (string \<times> string) list" where
  "valuesOf env sd [] = Inr []"
| "valuesOf env sd (p # ps) =
     bindR (providerSecrets env sd p) (\<lambda>params.
     bindR (valuesOf env sd ps) (\<lambda>rest. Inr (map (\<lambda>(k, v). (shadowKey p k, v)) params @ rest)))"

definition secretView :: "bool \<Rightarrow> (string \<times> string) list \<Rightarrow> DNSSecret \<Rightarrow> SecretView" where
  "secretView showValue vals r =
     \<lparr>sw_ID = dsec_ID r, sw_Provider = dsec_Provider r, sw_EnvKey = dsec_EnvKey r,
      sw_EnvValue = (if showValue then orEmpty (map_of vals (shadowKey (dsec_Provider r) (dsec_EnvKey r))) else ''***''),
      sw_CreatedAt = dsec_CreatedAt r\<rparr>"

definition ListSecretViews :: "'e V1Env \<Rightarrow> bool \<Rightarrow> SecretDb \<Rightarrow> V1Err + SecretView list" where
  "ListSecretViews env showValue sd =
     (let secrets = ListSecrets sd
      in bindR (if showValue then valuesOf env sd (remdups (map dsec_Provider secrets)) else Inr [])
           (\<lambda>vals. Inr (map (secretView showValue vals) secrets)))"

record ProviderItem =
  pi_Provider :: string
  pi_Configured :: bool

definition ListProviders :: "'e V1Env \<Rightarrow> SecretDb \<Rightarrow> ProviderItem list" where
  "ListProviders env sd =
     map (\<lambda>p. \<lparr>pi_Provider = p, pi_Configured = (p \<in> set (ConfiguredProviders sd))\<rparr>)
       (ListDNSProviders (v1e_DNSAPIDir env) (as_AcmeShPath (v1e_Settings env)) (as_Home (v1e_Settings env)))"

definition ProviderParameters :: "'e V1Env \<Rightarrow> string \<Rightarrow> SecretDb \<Rightarrow> V1Err + SecretParameter list" where
  "ProviderParameters env provider sd =
     (case ListSecretParameters (v1e_Aead env) (lib_sha256 (v1e_Lib env)) (v1e_Ring env) provider (v1e_EncryptionKey env) sd of
        Inl e \<Rightarrow> Inl (V1Store e)
      | Inr params \<Rightarrow> Inr (map (\<lambda>p. p\<lparr>sp_EnvValue := MaskSecretValue (sp_EnvValue p)\<rparr>) params))"

section \<open>Lifecycle\<close>

definition MsgLifecycle :: string where
  "MsgLifecycle = map char_of ([0xE7, 0x94, 0x9F, 0xE5, 0x91, 0xBD, 0xE5, 0x91, 0xA8, 0xE6, 0x9C, 0x9F, 0xE6, 0x93, 0x8D, 0xE4,
     0xBD, 0x9C, 0xE5, 0xAE, 0x8C, 0xE6, 0x88, 0x90] :: nat list)"

definition MsgDeleted :: string where
  "MsgDeleted = map char_of ([0xE5, 0x88, 0xA0, 0xE9, 0x99, 0xA4, 0xE8, 0xAF, 0x81, 0xE4, 0xB9, 0xA6, 0xE7, 0x94, 0x9F, 0xE5,
     0x91, 0xBD, 0xE5, 0x91, 0xA8, 0xE6, 0x9C, 0x9F, 0xE8, 0xAE, 0xB0, 0xE5, 0xBD, 0x95] :: nat list)"

record LifecycleRequest =
  lr_Domain :: string
  lr_Actor :: string
  lr_Grant :: string

definition checkLifecycle :: "LifecycleRequest \<Rightarrow> V1Err option" where
  "checkLifecycle req = firstErr
     [serviceDomain (lr_Domain req),
      failIf (TrimSpace (lr_Actor req) = [] \<or> TrimSpace (lr_Grant req) = []) (V1NoPermission ''lifecycle'')]"

definition lifecycleParams :: "LifecycleRequest \<Rightarrow> Cert \<Rightarrow> Env \<Rightarrow> OperationParams" where
  "lifecycleParams req c dnsEnv =
     \<lparr>op_Domain = lr_Domain req, op_CA = ct_CA c, op_Keylength = ct_Keylength c, op_DNSEnv = dnsEnv,
      op_Profile = profileOf c, op_Env = [], op_KeyType = [], op_Staging = False, op_EABKID = [], op_EABHMACKey = [],
      op_EABKid = [], op_EABHmacKey = []\<rparr>"

definition auditV1 :: "int \<Rightarrow> LifecycleRequest \<Rightarrow> string \<Rightarrow> string \<Rightarrow> string \<Rightarrow> 'e V1State \<Rightarrow> 'e V1State" where
  "auditV1 now req action outcome detail s =
     withDb (auditV2 now (lr_Actor req) (lr_Domain req) action outcome detail (v1_Db s)) s"

type_synonym 'e LifecycleOp =
  "'e AcmeSys \<Rightarrow> Runner \<Rightarrow> OperationParams option \<Rightarrow> 'e AcmeWorld \<Rightarrow> (OperationResult option \<times> AcmeErr option) \<times> 'e AcmeWorld"

definition runLifecycle ::
  "'e V1Env \<Rightarrow> int \<Rightarrow> LifecycleRequest \<Rightarrow> string \<Rightarrow> 'e LifecycleOp \<Rightarrow> 'e V1State \<Rightarrow> V1Err option \<times> 'e V1State" where
  "runLifecycle env now req action operation s =
     (case checkLifecycle req of
        Some e \<Rightarrow> (Some e, s)
      | None \<Rightarrow>
          (case GetCert (lr_Domain req) (v1_Db s) of
             None \<Rightarrow> (Some V1NoPreset, s)
           | Some c \<Rightarrow>
               (case ListDNSProfileSecretsWithValues (v1e_Aead env) (v1e_Ring env) (orEmpty (ct_DNSProvider c)) (profileOf c)
                       (v1_Sd s) of
                  Inl e \<Rightarrow> (Some (V1Store e), s)
                | Inr dnsEnv \<Rightarrow>
                    (case operation (v1e_Sys env) (acmeRunnerOf (v1e_Settings env)) (Some (lifecycleParams req c dnsEnv))
                            (v1_World s) of
                       ((_, Some e), w1) \<Rightarrow>
                         (Some (V1Acme e), auditV1 now req action ''failed'' (v2PublicErrorMessage (v1e_AcmeV2 env e))
                            (s\<lparr>v1_World := w1\<rparr>))
                     | ((_, None), w1) \<Rightarrow> (None, auditV1 now req action ''succeeded'' MsgLifecycle (s\<lparr>v1_World := w1\<rparr>))))))"

definition ServiceRevoke :: "'e V1Env \<Rightarrow> int \<Rightarrow> LifecycleRequest \<Rightarrow> 'e V1State \<Rightarrow> V1Err option \<times> 'e V1State" where
  "ServiceRevoke env now req s = runLifecycle env now req ''revoke'' RevokeCert s"

definition ServiceRemove :: "'e V1Env \<Rightarrow> int \<Rightarrow> LifecycleRequest \<Rightarrow> 'e V1State \<Rightarrow> V1Err option \<times> 'e V1State" where
  "ServiceRemove env now req s = runLifecycle env now req ''remove'' RemoveCert s"

text \<open>The preset is deleted, unless the domain has a current generation.\<close>

definition ServiceDelete :: "int \<Rightarrow> LifecycleRequest \<Rightarrow> 'e V1State \<Rightarrow> V1Err option \<times> 'e V1State" where
  "ServiceDelete now req s =
     (case firstErr [checkLifecycle req, failIf (GetCurrentCertificateGeneration (lr_Domain req) (v1_Db s) \<noteq> None) V1IsCurrent] of
        Some e \<Rightarrow> (Some e, s)
      | None \<Rightarrow>
          (case DeleteCert (lr_Domain req) (v1_Db s) of
             (Some e, db) \<Rightarrow> (Some (V1Store e), withDb db s)
           | (None, db) \<Rightarrow> (None, auditV1 now req ''delete'' ''succeeded'' MsgDeleted (withDb db s))))"

end
