(* ===== verification/JsonCodec.thy ===== *)
theory JsonCodec
  imports ClientApply
begin

text \<open>
  Decoding of JSON values into Go structs, as \<^verbatim>\<open>encoding/json\<close> does it without \<^verbatim>\<open>DisallowUnknownFields\<close>:
  used by the v1 server for requests and by the v1 client for answers.
\<close>

text \<open>
  \<^verbatim>\<open>json.Unmarshal\<close> into a struct: unknown members are ignored, \<^verbatim>\<open>null\<close> leaves a field alone, a value of
  another type is an error.
\<close>

definition intoInt :: "(int \<Rightarrow> 'a) \<Rightarrow> 'a \<Rightarrow> JsonValue \<Rightarrow> 'a option" where
  "intoInt f old v =
     (case v of JsonNumber n \<Rightarrow> if - (2 ^ 63) \<le> n \<and> n < 2 ^ 63 then Some (f n) else None | JsonNull \<Rightarrow> Some old | _ \<Rightarrow> None)"

fun textsOf :: "JsonValue list \<Rightarrow> string list option" where
  "textsOf [] = Some []"
| "textsOf (v # vs) =
     (case (case v of JsonText s \<Rightarrow> Some s | JsonNull \<Rightarrow> Some [] | _ \<Rightarrow> None) of
        None \<Rightarrow> None | Some s \<Rightarrow> map_option (\<lambda>rest. s # rest) (textsOf vs))"

definition intoTexts :: "(string list \<Rightarrow> 'a) \<Rightarrow> JsonValue \<Rightarrow> 'a option" where
  "intoTexts f v = (case v of JsonArray vs \<Rightarrow> map_option f (textsOf vs) | JsonNull \<Rightarrow> Some (f []) | _ \<Rightarrow> None)"

text \<open>\<^verbatim>\<open>JSONNullString\<close>: \<^verbatim>\<open>null\<close> and the empty string are the absent value.\<close>

definition intoNullText :: "(string option \<Rightarrow> 'a) \<Rightarrow> JsonValue \<Rightarrow> 'a option" where
  "intoNullText f v = (case v of JsonText s \<Rightarrow> Some (f (nullable s)) | JsonNull \<Rightarrow> Some (f None) | _ \<Rightarrow> None)"

fun decodeMembers :: "(string \<Rightarrow> JsonValue \<Rightarrow> 'a \<Rightarrow> 'a option) \<Rightarrow> (string \<times> JsonValue) list \<Rightarrow> 'a \<Rightarrow> 'a option" where
  "decodeMembers field [] x = Some x"
| "decodeMembers field ((k, v) # rest) x =
     (case field (toLowerASCII k) v x of None \<Rightarrow> None | Some x' \<Rightarrow> decodeMembers field rest x')"

definition decodeStruct :: "(string \<Rightarrow> JsonValue \<Rightarrow> 'a \<Rightarrow> 'a option) \<Rightarrow> 'a \<Rightarrow> JsonValue \<Rightarrow> 'a option" where
  "decodeStruct field x v =
     (case v of JsonObject ms \<Rightarrow> decodeMembers field ms x | JsonNull \<Rightarrow> Some x | _ \<Rightarrow> None)"

text \<open>A time in an answer.\<close>

definition intoTime :: "(int \<Rightarrow> 'a) \<Rightarrow> 'a \<Rightarrow> JsonValue \<Rightarrow> 'a option" where
  "intoTime f old v = (case v of JsonTime t \<Rightarrow> Some (f t) | JsonNull \<Rightarrow> Some old | _ \<Rightarrow> None)"

text \<open>A list of structs.\<close>

fun decodeAll :: "('b \<Rightarrow> 'a option) \<Rightarrow> 'b list \<Rightarrow> 'a list option" where
  "decodeAll f [] = Some []"
| "decodeAll f (v # vs) =
     (case f v of None \<Rightarrow> None | Some x \<Rightarrow> map_option (\<lambda>xs. x # xs) (decodeAll f vs))"

definition intoStructs :: "(string \<Rightarrow> JsonValue \<Rightarrow> 'b \<Rightarrow> 'b option) \<Rightarrow> 'b \<Rightarrow> ('b list \<Rightarrow> 'a) \<Rightarrow> JsonValue \<Rightarrow> 'a option" where
  "intoStructs field x f v =
     (case v of JsonArray vs \<Rightarrow> map_option f (decodeAll (decodeStruct field x) vs) | JsonNull \<Rightarrow> Some (f []) | _ \<Rightarrow> None)"

end
