(* ===== verification/ApiV1.thy ===== *)
theory ApiV1
  imports ServiceV1 JsonCodec
begin

text \<open>
  The v1 HTTP interface: certificates and clients (\<^verbatim>\<open>internal/api/cert.go\<close>), administration
  (\<^verbatim>\<open>internal/api/admin.go\<close>, \<^verbatim>\<open>internal/api/providers.go\<close>) and the table of routes
  (\<^verbatim>\<open>internal/api/server.go\<close>).  Bodies are JSON values; texts that only people read are short names, and
  the text of a service error is the parameter \<open>v1e_Text\<close>.
\<close>

section \<open>Decoding\<close>

text \<open>The v1 requests add the body's first JSON value with what follows it, and the values of the query.\<close>

record V1Request = WireRequest +
  wr_Json :: "JsonValue option \<times> trailing"
  wr_Query :: "string \<Rightarrow> string"

text \<open>\<^verbatim>\<open>readJSON\<close> takes an empty body for no fields at all, and the whole body for one value.\<close>

definition readJSON :: "(string \<Rightarrow> JsonValue \<Rightarrow> 'a \<Rightarrow> 'a option) \<Rightarrow> 'a \<Rightarrow> V1Request \<Rightarrow> 'a option" where
  "readJSON field x r =
     (if readRequestBody (wr_Http r) = Inr [] then Some x
      else case wr_Json r of (Some v, TrailEOF) \<Rightarrow> decodeStruct field x v | _ \<Rightarrow> None)"

text \<open>\<^verbatim>\<open>json.NewDecoder(r.Body).Decode\<close> reads the first value only.\<close>

definition decodeFirst :: "(string \<Rightarrow> JsonValue \<Rightarrow> 'a \<Rightarrow> 'a option) \<Rightarrow> 'a \<Rightarrow> V1Request \<Rightarrow> 'a option" where
  "decodeFirst field x r =
     (if readRequestBody (wr_Http r) = Inr [] then None
      else case fst (wr_Json r) of Some v \<Rightarrow> decodeStruct field x v | None \<Rightarrow> None)"

definition applyField :: "string \<Rightarrow> JsonValue \<Rightarrow> ApplyRequest \<Rightarrow> ApplyRequest option" where
  "applyField k v q =
     (if k = ''domain'' then intoText (\<lambda>s. q\<lparr>aq_Domain := s\<rparr>) q v
      else if k = ''san'' then intoTexts (\<lambda>l. q\<lparr>aq_SAN := l\<rparr>) v
      else if k = ''ca'' then intoText (\<lambda>s. q\<lparr>aq_CA := s\<rparr>) q v
      else if k = ''challenge_mode'' then intoText (\<lambda>s. q\<lparr>aq_ChallengeMode := s\<rparr>) q v
      else if k = ''dns_provider'' then intoText (\<lambda>s. q\<lparr>aq_DNSProvider := s\<rparr>) q v
      else if k = ''webroot_path'' then intoText (\<lambda>s. q\<lparr>aq_WebrootPath := s\<rparr>) q v
      else if k = ''keylength'' then intoText (\<lambda>s. q\<lparr>aq_Keylength := s\<rparr>) q v
      else if k = ''force'' then intoBool (\<lambda>b. q\<lparr>aq_Force := b\<rparr>) q v
      else Some q)"

section \<open>Encoding\<close>

definition encodeFileMeta :: "FileMeta \<Rightarrow> JsonValue" where
  "encodeFileMeta f =
     JsonObject [(''name'', JsonText (vf_Name f)), (''size'', JsonNumber (vf_Size f)), (''sha256'', JsonText (vf_SHA256 f))]"

definition encodeApply :: "ApplyResult \<Rightarrow> JsonValue" where
  "encodeApply a =
     JsonObject ([(''success'', JsonBool (ar_Success a)), (''domain'', JsonText (ar_Domain a)),
       (''renewed'', JsonBool (ar_Renewed a)), (''not_after'', JsonTime (ar_NotAfter a)),
       (''files'', JsonArray (map encodeFileMeta (ar_Files a))), (''time_log'', JsonNumber (ar_TimeLog a))]
       @ (if ar_Message a = [] then [] else [(''message'', JsonText (ar_Message a))]))"

definition encodeCertStatus :: "CertStatus \<Rightarrow> JsonValue" where
  "encodeCertStatus c =
     JsonObject [(''domain'', JsonText (cts_Domain c)), (''not_after'', JsonTime (cts_NotAfter c)),
       (''time_log'', JsonNumber (cts_TimeLog c)), (''files'', JsonArray (map encodeFileMeta (cts_Files c))),
       (''exists'', JsonBool (cts_Exists c))]"

definition encodeSummary :: "CertStatusSummary \<Rightarrow> JsonValue" where
  "encodeSummary c =
     JsonObject [(''domain'', JsonText (css_Domain c)), (''not_after'', JsonTime (css_NotAfter c)),
       (''time_log'', JsonNumber (css_TimeLog c)), (''renew_days'', JsonNumber (css_RenewDays c)),
       (''challenge_mode'', JsonText (css_ChallengeMode c)), (''exists'', JsonBool (css_Exists c))]"

text \<open>\<^verbatim>\<open>sql.NullInt64\<close> has no encoder of its own: it is written as its two fields.\<close>

definition encodeNullInt :: "int option \<Rightarrow> JsonValue" where
  "encodeNullInt x =
     JsonObject [(''Int64'', JsonNumber (case x of None \<Rightarrow> 0 | Some n \<Rightarrow> n)), (''Valid'', JsonBool (x \<noteq> None))]"

definition encodeNullText :: "string option \<Rightarrow> JsonValue" where
  "encodeNullText x = (case x of None \<Rightarrow> JsonNull | Some s \<Rightarrow> JsonText s)"

definition omitEmpty :: "string \<Rightarrow> string \<Rightarrow> (string \<times> JsonValue) list" where
  "omitEmpty key s = (if s = [] then [] else [(key, JsonText s)])"

definition encodeToken :: "Token \<Rightarrow> JsonValue" where
  "encodeToken t =
     (let j = Token_MarshalJSON t
      in JsonObject ([(''id'', JsonText (tj_ID j))] @ omitEmpty ''secret'' (tj_Secret j)
           @ [(''note'', JsonText (tj_Note j)), (''enabled'', JsonBool (tj_Enabled j)), (''is_admin'', JsonBool (tj_IsAdmin j)),
              (''created_at'', JsonNumber (tj_CreatedAt j)), (''last_used_at'', encodeNullInt (tj_LastUsedAt j))]))"

definition encodeCert :: "Cert \<Rightarrow> JsonValue" where
  "encodeCert c =
     JsonObject [(''domain'', JsonText (ct_Domain c)), (''san'', JsonText (ct_SAN c)), (''ca'', JsonText (ct_CA c)),
       (''challenge_mode'', JsonText (ct_ChallengeMode c)), (''dns_provider'', encodeNullText (ct_DNSProvider c)),
       (''dns_profile'', encodeNullText (ct_DNSProfile c)), (''webroot_path'', encodeNullText (ct_WebrootPath c)),
       (''keylength'', JsonText (ct_Keylength c)), (''renew_days'', JsonNumber (ct_RenewDays c)),
       (''reload_cmd'', encodeNullText (ct_ReloadCmd c)), (''created_at'', JsonNumber (ct_CreatedAt c)),
       (''updated_at'', JsonNumber (ct_UpdatedAt c)), (''source'', JsonText (ct_Source c))]"

definition certField :: "string \<Rightarrow> JsonValue \<Rightarrow> Cert \<Rightarrow> Cert option" where
  "certField k v c =
     (if k = ''domain'' then intoText (\<lambda>s. c\<lparr>ct_Domain := s\<rparr>) c v
      else if k = ''san'' then intoText (\<lambda>s. c\<lparr>ct_SAN := s\<rparr>) c v
      else if k = ''ca'' then intoText (\<lambda>s. c\<lparr>ct_CA := s\<rparr>) c v
      else if k = ''challenge_mode'' then intoText (\<lambda>s. c\<lparr>ct_ChallengeMode := s\<rparr>) c v
      else if k = ''dns_provider'' then intoNullText (\<lambda>s. c\<lparr>ct_DNSProvider := s\<rparr>) v
      else if k = ''dns_profile'' then intoNullText (\<lambda>s. c\<lparr>ct_DNSProfile := s\<rparr>) v
      else if k = ''webroot_path'' then intoNullText (\<lambda>s. c\<lparr>ct_WebrootPath := s\<rparr>) v
      else if k = ''keylength'' then intoText (\<lambda>s. c\<lparr>ct_Keylength := s\<rparr>) c v
      else if k = ''renew_days'' then intoInt (\<lambda>n. c\<lparr>ct_RenewDays := n\<rparr>) c v
      else if k = ''reload_cmd'' then intoNullText (\<lambda>s. c\<lparr>ct_ReloadCmd := s\<rparr>) v
      else if k = ''created_at'' then intoInt (\<lambda>n. c\<lparr>ct_CreatedAt := n\<rparr>) c v
      else if k = ''updated_at'' then intoInt (\<lambda>n. c\<lparr>ct_UpdatedAt := n\<rparr>) c v
      else if k = ''source'' then intoText (\<lambda>s. c\<lparr>ct_Source := s\<rparr>) c v
      else Some c)"

definition emptyCert :: Cert where
  "emptyCert = \<lparr>ct_Domain = [], ct_SAN = [], ct_CA = [], ct_ChallengeMode = [], ct_DNSProvider = None,
     ct_DNSProfile = None, ct_WebrootPath = None, ct_Keylength = [], ct_RenewDays = 0, ct_ReloadCmd = None,
     ct_CreatedAt = 0, ct_UpdatedAt = 0, ct_Source = []\<rparr>"

definition encodeSecret :: "DNSSecret \<Rightarrow> JsonValue" where
  "encodeSecret s =
     (let j = DNSSecret_MarshalJSON s
      in JsonObject ([(''id'', JsonNumber (dsj_ID j)), (''provider'', JsonText (dsj_Provider j))]
           @ omitEmpty ''profile'' (dsj_Profile j) @ omitEmpty ''account'' (dsj_Account j)
           @ [(''env_key'', JsonText (dsj_EnvKey j)), (''created_at'', JsonNumber (dsj_CreatedAt j))]))"

definition encodeParameter :: "SecretParameter \<Rightarrow> JsonValue" where
  "encodeParameter p =
     (let j = SecretParameter_MarshalJSON p
      in JsonObject ([(''env_key'', JsonText (sp_EnvKey j))] @ omitEmpty ''env_value'' (sp_EnvValue j)
           @ [(''created_at'', JsonNumber (Secrets.sp_CreatedAt j))]))"

definition encodeClient :: "Client \<Rightarrow> JsonValue" where
  "encodeClient c =
     JsonObject [(''token_id'', JsonText (cl_TokenID c)), (''hostname'', encodeNullText (cl_Hostname c)),
       (''os_info'', encodeNullText (cl_OSInfo c)), (''registered_at'', JsonNumber (cl_RegisteredAt c)),
       (''last_seen_at'', JsonNumber (cl_LastSeenAt c))]"

text \<open>The ID and the duration of a log line are left out, as in the model of the log.\<close>

definition encodeLog :: "IssueLog \<Rightarrow> JsonValue" where
  "encodeLog l =
     JsonObject [(''domain'', JsonText (il_Domain l)), (''client_token'', JsonText (il_ClientToken l)),
       (''action'', JsonText (il_Action l)), (''success'', JsonBool (il_Success l)), (''message'', JsonText (il_Message l)),
       (''created_at'', JsonNumber (il_CreatedAt l))]"

text \<open>A slice that was never filled is encoded as \<^verbatim>\<open>null\<close>.\<close>

definition encodeRows :: "('a \<Rightarrow> JsonValue) \<Rightarrow> 'a list \<Rightarrow> JsonValue" where
  "encodeRows f rows = (if rows = [] then JsonNull else JsonArray (map f rows))"

section \<open>Answers\<close>

record 'e LegacyServer =
  ls_V2 :: V2Server
  ls_V1 :: "'e V1Env"

text \<open>What one request takes from outside, with the random bytes of a new token and of a secret's nonce.\<close>

record V1Surroundings = Surroundings +
  sr_Token :: TokenRandom
  sr_Nonce :: "string option"

definition answerJson :: "nat \<Rightarrow> JsonValue \<Rightarrow> HttpResponse" where
  "answerJson code v = writeJSON code (Some (JsonBody v))"

definition answerError :: "nat \<Rightarrow> string \<Rightarrow> HttpResponse" where
  "answerError code msg = writeJSON code (Some (errorBody msg))"

definition answerOk :: HttpResponse where
  "answerOk = answerJson 200 (JsonObject [(''ok'', JsonBool True)])"

definition serviceFailure :: "'e V1Env \<Rightarrow> V1Err \<Rightarrow> HttpResponse" where
  "serviceFailure env e = answerError (case e of V1Invalid _ \<Rightarrow> 400 | _ \<Rightarrow> 500) (v1e_Text env e)"

definition storeFailure :: "'e V1Env \<Rightarrow> StoreError \<Rightarrow> HttpResponse" where
  "storeFailure env e = answerError 500 (v1e_Text env (V1Store e))"

section \<open>Certificates\<close>

definition requireLegacyGrant :: "Token \<Rightarrow> string \<Rightarrow> string \<Rightarrow> Db \<Rightarrow> string option" where
  "requireLegacyGrant t domain permission db =
     (case HasCertificatePermission db (to_ID t) domain permission of
        Inl _ \<Rightarrow> Some ''grant check''
      | Inr ok \<Rightarrow> failIf (\<not> ok) permission)"

text \<open>The checks of an issue request: grants, force for administrators, a pushed challenge for administrators.\<close>

definition applyRefused :: "Token \<Rightarrow> ApplyRequest \<Rightarrow> Db \<Rightarrow> string option" where
  "applyRefused t q db = firstErr
     [requireLegacyGrant t (aq_Domain q) ''apply'' db,
      (if aq_Force q
       then firstErr [failIf (\<not> to_IsAdmin t) ''force'', requireLegacyGrant t (aq_Domain q) ''force'' db]
       else None),
      failIf (aq_ChallengeMode q \<noteq> [] \<and> \<not> to_IsAdmin t) ''challenge_mode'']"

definition applyCert ::
  "'e LegacyServer \<Rightarrow> V1Surroundings \<Rightarrow> Token \<Rightarrow> V1Request \<Rightarrow> 'e V1State \<Rightarrow> HttpResponse \<times> 'e V1State" where
  "applyCert sv sr t r s =
     (case readJSON applyField (emptyApply [] False []) r of
        None \<Rightarrow> (answerError 400 ''body'', s)
      | Some q \<Rightarrow>
          if aq_Domain q = [] then (answerError 400 ''domain'', s)
          else (case applyRefused t q (v1_Db s) of
                  Some msg \<Rightarrow> (answerError 403 msg, s)
                | None \<Rightarrow>
                    (case ServiceApply (ls_V1 sv) (sr_Now sr) (q\<lparr>aq_Actor := to_ID t\<rparr>) s of
                       (Inl e, s') \<Rightarrow> (serviceFailure (ls_V1 sv) e, s')
                     | (Inr a, s') \<Rightarrow> (answerJson 200 (encodeApply a), s'))))"

definition certStatus :: "'e LegacyServer \<Rightarrow> Token \<Rightarrow> string \<Rightarrow> 'e V1State \<Rightarrow> HttpResponse" where
  "certStatus sv t domain s =
     (case requireLegacyGrant t domain ''status'' (v1_Db s) of
        Some msg \<Rightarrow> answerError 403 msg
      | None \<Rightarrow>
          (case ServiceStatus (ls_V1 sv) domain s of
             Inl e \<Rightarrow> serviceFailure (ls_V1 sv) e
           | Inr status \<Rightarrow> answerJson 200 (encodeCertStatus status)))"

text \<open>Without the range and conditional headers of \<^verbatim>\<open>http.ServeContent\<close>.\<close>

definition certFile :: "'e LegacyServer \<Rightarrow> Token \<Rightarrow> string \<Rightarrow> string \<Rightarrow> 'e V1State \<Rightarrow> HttpResponse" where
  "certFile sv t domain name s =
     (case requireLegacyGrant t domain (filePermission name) (v1_Db s) of
        Some msg \<Rightarrow> answerError 403 msg
      | None \<Rightarrow>
          (case ServiceReadFile (ls_V1 sv) domain name s of
             Inl e \<Rightarrow> answerError (case e of V1Invalid _ \<Rightarrow> 400 | V1FileAbsent \<Rightarrow> 404 | _ \<Rightarrow> 500) (v1e_Text (ls_V1 sv) e)
           | Inr data \<Rightarrow> writeJSON 200 (Some (RawBytes data))))"

definition certSubtree :: "'e LegacyServer \<Rightarrow> Token \<Rightarrow> string \<Rightarrow> 'e V1State \<Rightarrow> HttpResponse" where
  "certSubtree sv t path s =
     (if \<not> hasPrefix path ''/api/v1/certs/'' then notFound
      else let parts = splitPath (trimPrefix path ''/api/v1/certs/'')
           in if parts = [] then answerError 400 ''domain''
              else if length parts = 2 \<and> parts ! 1 = ''status'' then certStatus sv t (parts ! 0) s
              else if length parts = 3 \<and> parts ! 1 = ''files'' then certFile sv t (parts ! 0) (parts ! 2) s
              else answerError 404 ''path'')"

section \<open>Clients\<close>

definition clientField :: "string \<Rightarrow> JsonValue \<Rightarrow> string \<times> string \<Rightarrow> (string \<times> string) option" where
  "clientField k v q =
     (if k = ''hostname'' then intoText (\<lambda>s. (s, snd q)) q v
      else if k = ''os_info'' then intoText (\<lambda>s. (fst q, s)) q v
      else Some q)"

definition registerClient ::
  "'e LegacyServer \<Rightarrow> V1Surroundings \<Rightarrow> Token \<Rightarrow> V1Request \<Rightarrow> 'e V1State \<Rightarrow> HttpResponse \<times> 'e V1State" where
  "registerClient sv sr t r s =
     (case readJSON clientField ([], []) r of
        None \<Rightarrow> (answerError 400 ''body'', s)
      | Some (host, os) \<Rightarrow>
          if length host > 255 \<or> length os > 255 then (answerError 400 ''length'', s)
          else (case UpsertClient (unixSec (sr_Now sr))
                       \<lparr>cl_TokenID = to_ID t, cl_Hostname = nullable host, cl_OSInfo = nullable os, cl_RegisteredAt = 0,
                        cl_LastSeenAt = 0\<rparr> (v1_Db s) of
                  (Some e, db) \<Rightarrow> (storeFailure (ls_V1 sv) e, withDb db s)
                | (None, db) \<Rightarrow> (answerOk, withDb db s)))"

definition heartbeat :: "V1Surroundings \<Rightarrow> Token \<Rightarrow> 'e V1State \<Rightarrow> HttpResponse \<times> 'e V1State" where
  "heartbeat sr t s = (answerOk, withDb (TouchClient (unixSec (sr_Now sr)) (to_ID t) (v1_Db s)) s)"

definition ping :: "V1Surroundings \<Rightarrow> HttpResponse" where
  "ping sr = answerJson 200 (JsonObject [(''pong'', JsonBool True), (''ts'', JsonNumber (unixSec (sr_Now sr)))])"

definition healthz :: HttpResponse where
  "healthz = answerOk"

section \<open>Administration\<close>

definition restOf :: "string \<Rightarrow> string \<Rightarrow> string" where
  "restOf path pre = trimSlashes (trimPrefix path pre)"

definition tokenField :: "string \<Rightarrow> JsonValue \<Rightarrow> TokenCreateRequest \<times> bool option \<Rightarrow> (TokenCreateRequest \<times> bool option) option" where
  "tokenField k v x =
     (let q = fst x; enabled = snd x
      in if k = ''id'' then intoText (\<lambda>s. (q\<lparr>tc_ID := s\<rparr>, enabled)) x v
         else if k = ''secret'' then intoText (\<lambda>s. (q\<lparr>tc_Secret := s\<rparr>, enabled)) x v
         else if k = ''note'' then intoText (\<lambda>s. (q\<lparr>tc_Note := s\<rparr>, enabled)) x v
         else if k = ''is_admin'' then intoBool (\<lambda>b. (q\<lparr>tc_IsAdmin := b\<rparr>, enabled)) x v
         else if k = ''enabled'' then intoBool (\<lambda>b. (q, Some b)) (q, None) v
         else if k = ''auto_gen'' then intoBool (\<lambda>b. (q\<lparr>tc_AutoGen := b\<rparr>, enabled)) x v
         else Some x)"

definition noTokenRequest :: TokenCreateRequest where
  "noTokenRequest = \<lparr>tc_ID = [], tc_Secret = [], tc_Note = [], tc_Enabled = False, tc_IsAdmin = False, tc_AutoGen = False\<rparr>"

definition tokenUpdateField :: "string \<Rightarrow> JsonValue \<Rightarrow> TokenCreateRequest \<Rightarrow> TokenCreateRequest option" where
  "tokenUpdateField k v q =
     (if k = ''note'' then intoText (\<lambda>s. q\<lparr>tc_Note := s\<rparr>) q v
      else if k = ''enabled'' then intoBool (\<lambda>b. q\<lparr>tc_Enabled := b\<rparr>) q v
      else if k = ''is_admin'' then intoBool (\<lambda>b. q\<lparr>tc_IsAdmin := b\<rparr>) q v
      else Some q)"

definition createTokenAnswer ::
  "'e LegacyServer \<Rightarrow> V1Surroundings \<Rightarrow> V1Request \<Rightarrow> 'e V1State \<Rightarrow> HttpResponse \<times> 'e V1State" where
  "createTokenAnswer sv sr r s =
     (case decodeFirst tokenField (noTokenRequest, None) r of
        None \<Rightarrow> (answerError 400 ''body'', s)
      | Some (q, enabled) \<Rightarrow>
          (case ServiceCreateToken (ls_V1 sv) (sr_Now sr) (sr_Token sr)
                  (q\<lparr>tc_Enabled := (case enabled of None \<Rightarrow> True | Some b \<Rightarrow> b)\<rparr>) s of
             (Inl e, s') \<Rightarrow> (answerError 500 (v1e_Text (ls_V1 sv) e), s')
           | (Inr t, s') \<Rightarrow> (answerJson 201 (encodeToken t), s')))"

definition tokensHandler ::
  "'e LegacyServer \<Rightarrow> V1Surroundings \<Rightarrow> V1Request \<Rightarrow> 'e V1State \<Rightarrow> HttpResponse \<times> 'e V1State" where
  "tokensHandler sv sr r s =
     (let rest = restOf (rq_Path (wr_Http r)) ''/api/v1/admin/tokens''; method = rq_Method (wr_Http r)
      in if method = ''GET'' then
           (if rest \<noteq> []
            then (case GetToken (sv_Secret (ls_V2 sv)) rest (v1_Db s) of
                    Inl e \<Rightarrow> storeFailure (ls_V1 sv) e
                  | Inr None \<Rightarrow> answerError 404 ''token''
                  | Inr (Some t) \<Rightarrow> answerJson 200 (encodeToken t))
            else answerJson 200 (encodeRows encodeToken (ListTokens (v1_Db s))), s)
         else if method = ''POST'' then createTokenAnswer sv sr r s
         else if method = ''PUT'' \<or> method = ''PATCH'' then
           (let parts = splitPath rest
            in if length parts \<noteq> 1 then (answerError 400 ''path'', s)
               else (case decodeFirst tokenUpdateField noTokenRequest r of
                       None \<Rightarrow> (answerError 400 ''body'', s)
                     | Some q \<Rightarrow>
                         (answerOk, withDb (UpdateToken (parts ! 0) (tc_Note q) (tc_Enabled q) (tc_IsAdmin q) (v1_Db s)) s)))
         else if method = ''DELETE'' then
           (if rest = [] then (answerError 400 ''path'', s) else (answerOk, withDb (DeleteToken rest (v1_Db s)) s))
         else (answerError 405 ''method not allowed'', s))"

definition certsAdminHandler ::
  "'e LegacyServer \<Rightarrow> V1Surroundings \<Rightarrow> Token \<Rightarrow> V1Request \<Rightarrow> 'e V1State \<Rightarrow> HttpResponse \<times> 'e V1State" where
  "certsAdminHandler sv sr t r s =
     (let rest = restOf (rq_Path (wr_Http r)) ''/api/v1/admin/certs''; method = rq_Method (wr_Http r); parts = splitPath rest
      in if method = ''GET'' then
           (if rest = ''status''
            then (case AllStatuses (ls_V1 sv) s of
                    Inl e \<Rightarrow> answerError 500 (v1e_Text (ls_V1 sv) e)
                  | Inr all \<Rightarrow> answerJson 200 (JsonArray (map encodeSummary all)))
            else answerJson 200 (encodeRows encodeCert (ListCerts (v1_Db s))), s)
         else if method = ''POST'' then
           (if length parts = 2 \<and> parts ! 1 = ''reissue''
            then (case ServiceReissue (ls_V1 sv) (sr_Now sr) (parts ! 0) (to_ID t) s of
                    (Inl e, s') \<Rightarrow> (serviceFailure (ls_V1 sv) e, s')
                  | (Inr a, s') \<Rightarrow> (answerJson 200 (encodeApply a), s'))
            else (case decodeFirst certField emptyCert r of
                    None \<Rightarrow> (answerError 400 ''body'', s)
                  | Some c \<Rightarrow>
                      (case SaveCertConfig (ls_V1 sv) (sr_Now sr) c s of
                         (Inl e, s') \<Rightarrow> (serviceFailure (ls_V1 sv) e, s')
                       | (Inr saved, s') \<Rightarrow> (answerJson 201 (encodeCert saved), s'))))
         else if method = ''DELETE'' then
           (if parts = [] then (answerError 400 ''path'', s)
            else (case DeleteCert (parts ! 0) (v1_Db s) of
                    (Some e, db) \<Rightarrow> (storeFailure (ls_V1 sv) e, withDb db s)
                  | (None, db) \<Rightarrow> (answerOk, withDb db s)))
         else (answerError 405 ''method not allowed'', s))"

definition secretField :: "string \<Rightarrow> JsonValue \<Rightarrow> string \<times> string \<times> string \<Rightarrow> (string \<times> string \<times> string) option" where
  "secretField k v x =
     (case x of (provider, envKey, envValue) \<Rightarrow>
        if k = ''provider'' then intoText (\<lambda>s. (s, envKey, envValue)) x v
        else if k = ''env_key'' then intoText (\<lambda>s. (provider, s, envValue)) x v
        else if k = ''env_value'' then intoText (\<lambda>s. (provider, envKey, s)) x v
        else Some x)"

definition secretsHandler ::
  "'e LegacyServer \<Rightarrow> V1Surroundings \<Rightarrow> V1Request \<Rightarrow> 'e V1State \<Rightarrow> HttpResponse \<times> 'e V1State" where
  "secretsHandler sv sr r s =
     (let env = ls_V1 sv; method = rq_Method (wr_Http r); parts = splitPath (restOf (rq_Path (wr_Http r)) ''/api/v1/admin/secrets'')
      in if method = ''GET'' then (answerJson 200 (encodeRows encodeSecret (ListSecrets (v1_Sd s))), s)
         else if method = ''POST'' then
           (case decodeFirst secretField ([], [], []) r of
              None \<Rightarrow> (answerError 400 ''body'', s)
            | Some (provider, envKey, envValue) \<Rightarrow>
                if provider = [] \<or> envKey = [] \<or> envValue = [] then (answerError 400 ''fields'', s)
                else (case UpsertSecret (v1e_Aead env) (v1e_Ring env) (unixSec (sr_Now sr)) (sr_Nonce sr) provider envKey
                             envValue (v1_Sd s) of
                        (Some e, sd) \<Rightarrow> (storeFailure env e, s\<lparr>v1_Sd := sd\<rparr>)
                      | (None, sd) \<Rightarrow> (answerJson 201 (JsonObject [(''ok'', JsonBool True)]), s\<lparr>v1_Sd := sd\<rparr>)))
         else if method = ''DELETE'' then
           (if length parts = 1
            then (case atoi (parts ! 0) of
                    None \<Rightarrow> (answerError 400 ''id'', s)
                  | Some i \<Rightarrow> (answerOk, s\<lparr>v1_Sd := DeleteSecret i (v1_Sd s)\<rparr>))
            else if length parts = 2
            then (answerOk, s\<lparr>v1_Sd := DeleteSecretByKV (parts ! 0) (parts ! 1) (v1_Sd s)\<rparr>)
            else (answerError 400 ''path'', s))
         else (answerError 405 ''method not allowed'', s))"

text \<open>The path has been cleaned, so it cannot name an empty provider.\<close>

definition providersHandler :: "'e LegacyServer \<Rightarrow> V1Request \<Rightarrow> 'e V1State \<Rightarrow> HttpResponse" where
  "providersHandler sv r s =
     (let rest = restOf (rq_Path (wr_Http r)) ''/api/v1/admin/providers''; parts = splitPath rest; env = ls_V1 sv
      in if rq_Method (wr_Http r) \<noteq> ''GET'' then answerError 405 ''method not allowed''
         else if rest = [] then
           answerJson 200 (JsonObject [(''providers'', JsonArray (map (\<lambda>p. JsonObject
             [(''provider'', JsonText (pi_Provider p)), (''configured'', JsonBool (pi_Configured p))]) (ListProviders env (v1_Sd s))))])
         else if length parts = 2 \<and> parts ! 1 = ''parameters'' then
           (if parts ! 0 = [] then answerError 400 ''provider''
            else case ProviderParameters env (parts ! 0) (v1_Sd s) of
              Inl e \<Rightarrow> answerError 500 (v1e_Text env e)
            | Inr params \<Rightarrow> answerJson 200 (JsonObject
                [(''parameters'', JsonArray (map encodeParameter params)), (''provider'', JsonText (parts ! 0))]))
         else answerError 404 ''path'')"

definition clientsHandler :: "V1Request \<Rightarrow> 'e V1State \<Rightarrow> HttpResponse" where
  "clientsHandler r s =
     (if rq_Method (wr_Http r) \<noteq> ''GET'' then answerError 405 ''method not allowed''
      else answerJson 200 (encodeRows encodeClient (ListClients (v1_Db s))))"

definition logFilter :: "(string \<Rightarrow> string) \<Rightarrow> LogFilter" where
  "logFilter q =
     \<lparr>lf_Domain = q ''domain'', lf_Client = q ''client'',
      lf_Success = (if q ''success'' = [] then None else Some (q ''success'' = ''1'' \<or> q ''success'' = ''true'')),
      lf_Limit = (case atoi (q ''limit'') of None \<Rightarrow> 0 | Some n \<Rightarrow> n),
      lf_Offset = (case atoi (q ''offset'') of None \<Rightarrow> 0 | Some n \<Rightarrow> n)\<rparr>"

definition logsHandler :: "V1Request \<Rightarrow> 'e V1State \<Rightarrow> HttpResponse" where
  "logsHandler r s =
     (if rq_Method (wr_Http r) \<noteq> ''GET'' then answerError 405 ''method not allowed''
      else answerJson 200 (encodeRows encodeLog (ListLogs (logFilter (wr_Query r)) (v1_Logs s))))"

section \<open>Routes\<close>

text \<open>The token check of \<^verbatim>\<open>authed\<close> and \<^verbatim>\<open>admin\<close>; the latter serves administrators only.\<close>

definition authedV1 ::
  "'e LegacyServer \<Rightarrow> V1Surroundings \<Rightarrow> V1Request \<Rightarrow> bool \<Rightarrow> (Token \<Rightarrow> 'e V1State \<Rightarrow> HttpResponse \<times> 'e V1State) \<Rightarrow> 'e V1State
     \<Rightarrow> HttpResponse \<times> 'e V1State" where
  "authedV1 sv sr r needAdmin h s =
     (let v2 = ls_V2 sv
      in case verifyToken (sv_Mac v2) (sv_Sha v2) (sv_Secret v2) (sv_Mime v2) (sv_Auth v2) (atOnce (unixSec (sr_Now sr))) (wr_Http r)
                (v1_Db s) of
           (Inl e, db) \<Rightarrow> (answerError (writeRequestError e) ''auth'', withDb db s)
         | (Inr t, db) \<Rightarrow>
             (if needAdmin \<and> \<not> to_IsAdmin t then (answerError 403 ''admin'', withDb db s) else h t (withDb db s)))"

definition answerRoutedV1 :: "(HttpResponse \<times> 'e V1State) routed \<Rightarrow> 'e V1State \<Rightarrow> HttpResponse \<times> 'e V1State" where
  "answerRoutedV1 r s =
     (case r of
        NotFound404 \<Rightarrow> (notFound, s)
      | MethodNotAllowed405 _ \<Rightarrow> (answerError 405 ''method not allowed'', s)
      | Handled x \<Rightarrow> x)"

text \<open>A handler that leaves the state alone.\<close>

definition reading :: "(Token \<Rightarrow> 'e V1State \<Rightarrow> HttpResponse) \<Rightarrow> Token \<Rightarrow> 'e V1State \<Rightarrow> HttpResponse \<times> 'e V1State" where
  "reading h t s = (h t s, s)"

text \<open>
  The v1 routes of \<^verbatim>\<open>Handler\<close>; \<open>None\<close> is a path that none of them takes.  The path is clean (see
  \<^verbatim>\<open>ApiV2\<close>).  The subtree of the certificates has no pattern without the slash, so that path is redirected.
\<close>

definition serveV1 ::
  "'e LegacyServer \<Rightarrow> V1Surroundings \<Rightarrow> V1Request \<Rightarrow> 'e V1State \<Rightarrow> (HttpResponse \<times> 'e V1State) option" where
  "serveV1 sv sr r s =
     (let path = rq_Path (wr_Http r); method = rq_Method (wr_Http r);
          fixed = (\<lambda>m needAdmin h. Some (answerRoutedV1 (methodHandler [m] method (authedV1 sv sr r needAdmin h s)) s));
          routes = (\<lambda>f h. Some (answerRoutedV1 (routeMethodHandler f method path (authedV1 sv sr r True h s)) s))
      in if path = ''/api/v1/client/register'' then fixed ''POST'' False (\<lambda>t. registerClient sv sr t r)
         else if path = ''/api/v1/client/heartbeat'' then fixed ''POST'' False (\<lambda>t. heartbeat sr t)
         else if path = ''/api/v1/certs/apply'' then fixed ''POST'' False (\<lambda>t. applyCert sv sr t r)
         else if path = ''/api/v1/certs'' then Some (writeJSON 301 None, s)
         else if hasPrefix path ''/api/v1/certs/''
         then fixed ''GET'' False (reading (\<lambda>t. certSubtree sv t path))
         else if path = ''/api/v1/ping'' then fixed ''GET'' False (reading (\<lambda>_ _. ping sr))
         else if under path ''/api/v1/admin/tokens'' then routes adminTokenMethods (\<lambda>_. tokensHandler sv sr r)
         else if under path ''/api/v1/admin/certs'' then routes adminCertMethods (\<lambda>t. certsAdminHandler sv sr t r)
         else if under path ''/api/v1/admin/secrets'' then routes adminSecretMethods (\<lambda>_. secretsHandler sv sr r)
         else if under path ''/api/v1/admin/providers'' then routes adminProviderMethods (reading (\<lambda>_. providersHandler sv r))
         else if path = ''/api/v1/admin/clients'' then fixed ''GET'' True (reading (\<lambda>_. clientsHandler r))
         else if path = ''/api/v1/admin/logs'' then fixed ''GET'' True (reading (\<lambda>_. logsHandler r))
         else None)"

text \<open>The state of the whole server, and all its routes but the two of the observability.\<close>

record 'e ServerState =
  ss_V1 :: "'e V1State"
  ss_Root :: CertRoot

definition v2Part :: "'e ServerState \<Rightarrow> V2State" where
  "v2Part s = \<lparr>vs_Db = v1_Db (ss_V1 s), vs_Root = ss_Root s\<rparr>"

definition withV2 :: "V2State \<Rightarrow> 'e ServerState \<Rightarrow> 'e ServerState" where
  "withV2 v s = \<lparr>ss_V1 = withDb (vs_Db v) (ss_V1 s), ss_Root = vs_Root v\<rparr>"

definition serveServer ::
  "'e LegacyServer \<Rightarrow> V1Surroundings \<Rightarrow> V1Request \<Rightarrow> 'e ServerState \<Rightarrow> HttpResponse \<times> 'e ServerState" where
  "serveServer sv sr r s =
     (let path = rq_Path (wr_Http r);
          legacy = (if cleanPath path \<and> sv_LegacyAPIEnabled (ls_V2 sv) then serveV1 sv sr r (ss_V1 s) else None)
      in if cleanPath path \<and> path = ''/healthz''
         then (case methodHandler [''GET''] (rq_Method (wr_Http r)) healthz of
                 Handled x \<Rightarrow> (x, s) | _ \<Rightarrow> (answerError 405 ''method not allowed'', s))
         else case legacy of
           Some (resp, v1) \<Rightarrow> (resp, s\<lparr>ss_V1 := v1\<rparr>)
         | None \<Rightarrow>
             (case serveV2 (ls_V2 sv) (Surroundings.truncate sr) (WireRequest.truncate r) (v2Part s) of
                (resp, v) \<Rightarrow> (resp, withV2 v s)))"

end
