(* ===== verification/LegacyProofs.thy ===== *)
theory LegacyProofs
  imports ApiV1 SystemReady SecretProofs AcmeRunnerProofs
begin

text \<open>
  What holds of the v1 service and interface: who may do what, what an issue request leaves in the log,
  what a token without administration rights can still choose, and that nothing of it is reachable when
  the legacy interface is switched off.
\<close>

section \<open>Answers and routes\<close>

definition plainAnswer :: "HttpResponse \<Rightarrow> bool" where
  "plainAnswer resp \<longleftrightarrow> (\<forall>data. hr_Body resp \<noteq> RawBytes data)"

lemma plain_answers [simp]:
  "plainAnswer (answerJson c v)" "plainAnswer (answerError c m)" "plainAnswer answerOk" "plainAnswer notFound"
  "plainAnswer (serviceFailure env e)" "plainAnswer (storeFailure env f)" "plainAnswer (writeJSON c None)" "plainAnswer (ping sr)"
  by (simp_all add: plainAnswer_def answerJson_def answerError_def answerOk_def notFound_def serviceFailure_def
      storeFailure_def writeJSON_def errorBody_def ping_def)

lemma v1_Db_withDb [simp]: "v1_Db (withDb db s) = db" "v1_World (withDb db s) = v1_World s" "v1_Logs (withDb db s) = v1_Logs s"
  "withDb db (withDb db' s) = withDb db s" "sd_Secrets (v1_Sd (withDb db s)) = sd_Secrets (v1_Sd s)"
  "sd_Legacy (v1_Sd (withDb db s)) = sd_Legacy (v1_Sd s)"
  by (simp_all add: v1_Db_def withDb_def)

definition verifiedToken :: "'e LegacyServer \<Rightarrow> V1Surroundings \<Rightarrow> V1Request \<Rightarrow> 'e V1State \<Rightarrow> (AuthError + Token) \<times> Db" where
  "verifiedToken sv sr r s =
     verifyToken (sv_Mac (ls_V2 sv)) (sv_Sha (ls_V2 sv)) (sv_Secret (ls_V2 sv)) (sv_Mime (ls_V2 sv)) (sv_Auth (ls_V2 sv))
       (atOnce (unixSec (sr_Now sr))) (wr_Http r) (v1_Db s)"

text \<open>What only administrators may change: presets, grants, DNS profiles and secrets.\<close>

definition managed :: "'e V1State \<Rightarrow> Cert list \<times> TokenGrant list \<times> DNSProfile list \<times> SecretRow list \<times> LegacySecret list" where
  "managed s = (db_certs (v1_Db s), db_grants (v1_Db s), db_dnsProfiles (v1_Db s), sd_Secrets (v1_Sd s), sd_Legacy (v1_Sd s))"

lemma managed_withDb [simp]:
  "managed (withDb db s) = (db_certs db, db_grants db, db_dnsProfiles db, sd_Secrets (v1_Sd s), sd_Legacy (v1_Sd s))"
  by (simp add: managed_def)

lemma verify_managed:
  assumes "verifyToken mac sha dec mime cfg now r db = (x, db')"
  shows "db_certs db' = db_certs db \<and> db_grants db' = db_grants db \<and> db_dnsProfiles db' = db_dnsProfiles db"
  using assms
  by (auto simp: verifyToken_def verifyTokenBody_def ConsumeNonce_def UpdateTokenUsage_def Let_def
      split: sum.splits option.splits if_splits)

lemma authedV1_cases:
  assumes "authedV1 sv sr r needAdmin h s = (resp, s')"
  obtains (refused) db where "s' = withDb db s" "plainAnswer resp" "managed s' = managed s"
  | (served) t db where "verifiedToken sv sr r s = (Inr t, db)" "needAdmin \<longrightarrow> to_IsAdmin t" "h t (withDb db s) = (resp, s')"
      "managed (withDb db s) = managed s"
proof (cases "verifiedToken sv sr r s")
  case (Pair x db)
  have kept: "managed (withDb db s) = managed s"
    using verify_managed[OF Pair[unfolded verifiedToken_def]] by (simp add: managed_def)
  show thesis
    using assms Pair served refused[of db] kept unfolding authedV1_def verifiedToken_def
    by (cases x) (auto simp: Let_def split: if_splits)
qed

lemma routed_cases:
  assumes "answerRoutedV1 (methodHandler ms m x) s = (resp, s')"
  shows "s' = s \<and> plainAnswer resp \<or> x = (resp, s')"
  using assms by (auto simp: answerRoutedV1_def methodHandler_def split: if_splits)

lemma routes_cases:
  assumes "answerRoutedV1 (routeMethodHandler f m path x) s = (resp, s')"
  shows "s' = s \<and> plainAnswer resp \<or> x = (resp, s')"
  using assms routed_cases[of "f path" m x s resp s'] by (auto simp: routeMethodHandler_def answerRoutedV1_def Let_def split: if_splits)

lemma UpsertClient_managed:
  "UpsertClient now c db = (e, db') \<Longrightarrow> db_certs db' = db_certs db \<and> db_grants db' = db_grants db \<and> db_dnsProfiles db' = db_dnsProfiles db"
  by (auto simp: UpsertClient_def Let_def split: if_splits)

section \<open>What each handler does\<close>

lemma applyRefused_None:
  assumes "applyRefused t q db = None"
  shows "HasCertificatePermission db (to_ID t) (aq_Domain q) ''apply'' = Inr True"
    "\<not> to_IsAdmin t \<Longrightarrow> \<not> aq_Force q \<and> aq_ChallengeMode q = []"
  using assms by (auto simp: applyRefused_def requireLegacyGrant_def split: sum.splits if_splits)

lemma ServiceApply_unpushed:
  assumes "ServiceApply env now q s = (r, s')" "aq_ChallengeMode q = []"
  shows "managed s' = managed s"
  using assms
  by (auto simp: ServiceApply_def applyOutcome_def issueNow_def savePushed_def Let_def managed_def v1_Db_def
      split: option.splits sum.splits prod.splits if_splits)

lemma applyCert_served:
  assumes "applyCert sv sr t r s = (resp, s')"
  obtains "s' = s" "plainAnswer resp"
  | q a where "readJSON applyField (emptyApply [] False []) r = Some q" "applyRefused t q (v1_Db s) = None"
      "ServiceApply (ls_V1 sv) (sr_Now sr) (q\<lparr>aq_Actor := to_ID t\<rparr>) s = (a, s')" "plainAnswer resp"
  using assms by (auto simp: applyCert_def split: option.splits if_splits prod.splits sum.splits)

lemma applyCert_cases:
  assumes "applyCert sv sr t r s = (resp, s')"
  shows "plainAnswer resp \<and>
    (s' = s \<or> (\<exists>q. readJSON applyField (emptyApply [] False []) r = Some q \<and>
       HasCertificatePermission (v1_Db s) (to_ID t) (aq_Domain q) ''apply'' = Inr True \<and>
       (to_IsAdmin t \<or> \<not> aq_Force q \<and> aq_ChallengeMode q = []))) \<and>
    (to_IsAdmin t \<or> managed s' = managed s)"
  using assms
proof (cases rule: applyCert_served)
  case (2 q a)
  show ?thesis
    using applyRefused_None[OF 2(2)] ServiceApply_unpushed[OF 2(3)] 2(1,4) by auto
qed simp

lemma certFile_cases:
  assumes "certFile sv t d n s = resp" "hr_Body resp = RawBytes data"
  shows "HasCertificatePermission (v1_Db s) (to_ID t) d (filePermission n) = Inr True \<and> ServiceReadFile (ls_V1 sv) d n s = Inr data"
  using assms
  by (auto simp: certFile_def requireLegacyGrant_def answerError_def writeJSON_def errorBody_def
      split: option.splits sum.splits if_splits V1Err.splits)

lemma certStatus_plain: "plainAnswer (certStatus sv t d s)"
  by (simp add: certStatus_def split: option.split sum.split)

lemma certSubtree_cases:
  assumes "hr_Body (certSubtree sv t path s) = RawBytes data"
  shows "\<exists>d n. HasCertificatePermission (v1_Db s) (to_ID t) d (filePermission n) = Inr True \<and> ServiceReadFile (ls_V1 sv) d n s = Inr data"
proof -
  have "plainAnswer (certSubtree sv t path s) \<or> (\<exists>d n. certSubtree sv t path s = certFile sv t d n s)"
    by (auto simp: certSubtree_def Let_def certStatus_plain)
  then show ?thesis
    using assms certFile_cases[OF refl] by (fastforce simp: plainAnswer_def)
qed

lemma registerClient_cases:
  assumes "registerClient sv sr t r s = (resp, s')"
  shows "plainAnswer resp \<and> v1_World s' = v1_World s \<and> managed s' = managed s"
  using assms
  by (auto simp: registerClient_def managed_def split: option.splits if_splits prod.splits dest!: UpsertClient_managed)

lemma heartbeat_cases:
  assumes "heartbeat sr t s = (resp, s')"
  shows "plainAnswer resp \<and> v1_World s' = v1_World s \<and> managed s' = managed s"
  using assms by (auto simp: heartbeat_def managed_def TouchClient_def)

lemma admin_plain:
  "tokensHandler sv sr r s = (resp, s') \<Longrightarrow> plainAnswer resp"
  "certsAdminHandler sv sr t r s = (resp, s') \<Longrightarrow> plainAnswer resp"
  "secretsHandler sv sr r s = (resp, s') \<Longrightarrow> plainAnswer resp"
  "plainAnswer (providersHandler sv r s)" "plainAnswer (clientsHandler r s)" "plainAnswer (logsHandler r s)"
  by (auto simp: tokensHandler_def createTokenAnswer_def certsAdminHandler_def secretsHandler_def providersHandler_def clientsHandler_def
      logsHandler_def Let_def split: option.splits sum.splits if_splits prod.splits)

section \<open>Permissions\<close>

lemma serveV1_routes:
  assumes "serveV1 sv sr r s = Some (resp, s')"
  obtains "s' = s" "plainAnswer resp"
  | h where "authedV1 sv sr r False h s = (resp, s')"
      "h \<in> {\<lambda>t. registerClient sv sr t r, \<lambda>t. heartbeat sr t, \<lambda>t. applyCert sv sr t r,
            reading (\<lambda>t. certSubtree sv t (rq_Path (wr_Http r))), reading (\<lambda>_ _. ping sr)}"
  | h where "authedV1 sv sr r True h s = (resp, s')"
      "h \<in> {\<lambda>_. tokensHandler sv sr r, \<lambda>t. certsAdminHandler sv sr t r, \<lambda>_. secretsHandler sv sr r,
            reading (\<lambda>_. providersHandler sv r), reading (\<lambda>_. clientsHandler r), reading (\<lambda>_. logsHandler r)}"
proof -
  have "s' = s \<and> plainAnswer resp \<or>
    (\<exists>h. authedV1 sv sr r False h s = (resp, s') \<and> h \<in> {\<lambda>t. registerClient sv sr t r, \<lambda>t. heartbeat sr t, \<lambda>t. applyCert sv sr t r,
            reading (\<lambda>t. certSubtree sv t (rq_Path (wr_Http r))), reading (\<lambda>_ _. ping sr)}) \<or>
    (\<exists>h. authedV1 sv sr r True h s = (resp, s') \<and> h \<in> {\<lambda>_. tokensHandler sv sr r, \<lambda>t. certsAdminHandler sv sr t r, \<lambda>_. secretsHandler sv sr r,
            reading (\<lambda>_. providersHandler sv r), reading (\<lambda>_. clientsHandler r), reading (\<lambda>_. logsHandler r)})"
    using assms unfolding serveV1_def Let_def
    by (simp split: if_splits) (fastforce dest!: routed_cases routes_cases)+
  then show thesis
    using that by blast
qed

text \<open>C34: every v1 request is answered within the rights of its token.  The bytes of a certificate file go only to a
  token with the right to read that file of that domain; the issuer runs only for an administrator, or for a
  token that may apply for the domain it names and neither forces nor names a challenge; presets, grants,
  profiles and secrets are changed by administrators only.\<close>

theorem v1_needs_grant:
  assumes "serveV1 sv sr r s = Some (resp, s')"
  shows "(\<forall>data. hr_Body resp = RawBytes data \<longrightarrow>
            (\<exists>t db d n. verifiedToken sv sr r s = (Inr t, db) \<and>
               HasCertificatePermission db (to_ID t) d (filePermission n) = Inr True \<and>
               ServiceReadFile (ls_V1 sv) d n (withDb db s) = Inr data)) \<and>
         (v1_World s' \<noteq> v1_World s \<longrightarrow>
            (\<exists>t db. verifiedToken sv sr r s = (Inr t, db) \<and>
               (to_IsAdmin t \<or>
                (\<exists>q. readJSON applyField (emptyApply [] False []) r = Some q \<and> \<not> aq_Force q \<and> aq_ChallengeMode q = [] \<and>
                   HasCertificatePermission db (to_ID t) (aq_Domain q) ''apply'' = Inr True)))) \<and>
         (managed s' \<noteq> managed s \<longrightarrow> (\<exists>t db. verifiedToken sv sr r s = (Inr t, db) \<and> to_IsAdmin t))"
  using assms
proof (cases rule: serveV1_routes)
  case 1
  then show ?thesis by (simp add: plainAnswer_def)
next
  case (2 h)
  from 2(1) show ?thesis
  proof (cases rule: authedV1_cases)
    case (refused db)
    then show ?thesis by (simp add: plainAnswer_def)
  next
    case (served t db)
    show ?thesis
      using 2(2) served registerClient_cases[of sv sr t r "withDb db s" resp s'] heartbeat_cases[of sr t "withDb db s" resp s']
        applyCert_cases[of sv sr t r "withDb db s" resp s'] certSubtree_cases[of sv t "rq_Path (wr_Http r)" "withDb db s"] plain_answers(8)[of sr]
      by (auto simp: plainAnswer_def reading_def)
  qed
next
  case (3 h)
  from 3(1) show ?thesis
  proof (cases rule: authedV1_cases)
    case (refused db)
    then show ?thesis by (simp add: plainAnswer_def)
  next
    case (served t db)
    have "plainAnswer resp"
      using 3(2) served(3) admin_plain by (auto simp: reading_def)
    then show ?thesis
      using served(1,2) by (auto simp: plainAnswer_def)
  qed
qed

lemma buildIssueParams_actor [simp]: "buildIssueParams env (q\<lparr>aq_Actor := a\<rparr>) preset = buildIssueParams env q preset"
  by (simp add: buildIssueParams_def presetParams_def split: option.split)

lemma buildIssueParams_request:
  assumes "buildIssueParams env q preset = Inr p"
  shows "aq_SAN q \<noteq> [] \<Longrightarrow> pp_SAN p = aq_SAN q" "aq_DNSProvider q \<noteq> [] \<Longrightarrow> pp_DNSProvider p = aq_DNSProvider q"
    "aq_CA q \<noteq> [] \<Longrightarrow> pp_CA p = aq_CA q"
  using assms by (auto simp: buildIssueParams_def presetParams_def v2OrDefault_def Let_def split: option.splits)

text \<open>C36: a token without administration rights must not name the challenge of an issue, but the rest of the request is
  taken over unchecked: with the right to apply for one domain it gets the names, the DNS provider with its
  secrets, the CA and the web root of its choice issued.\<close>

theorem pushed_names_without_admin:
  assumes "readJSON applyField (emptyApply [] False []) r = Some q" "aq_Domain q \<noteq> []" "aq_SAN q \<noteq> []"
    and "\<not> to_IsAdmin t" "\<not> aq_Force q" "aq_ChallengeMode q = []"
    and "HasCertificatePermission (v1_Db s) (to_ID t) (aq_Domain q) ''apply'' = Inr True"
    and "serviceDomain (aq_Domain q) = None" "GetCert (aq_Domain q) (v1_Db s) = Some c"
    and "buildIssueParams (ls_V1 sv) q (Some c) = Inr p" "dnsEnvOf (ls_V1 sv) p (v1_Sd s) = Inr secrets"
    and "ShouldRenew (sr_Now sr) (readCertExpiry (ls_V1 sv) s (domainDir (ls_V1 sv) (aq_Domain q))) (pp_RenewDays p)"
    and "\<not> v1e_LockFails (ls_V1 sv) (aw_Ext (v1_World s))"
  shows "ip_SAN (runnerParams p secrets) = aq_SAN q \<and>
     (aq_DNSProvider q \<noteq> [] \<longrightarrow> ip_DNSProvider (runnerParams p secrets) = aq_DNSProvider q) \<and>
     (aq_CA q \<noteq> [] \<longrightarrow> ip_CA (runnerParams p secrets) = aq_CA q) \<and>
     v1_World (snd (applyCert sv sr t r s)) = snd (issueFunc (ls_V1 sv) (runnerParams p secrets) (v1_World s))"
proof -
  have "applyRefused t q (v1_Db s) = None"
    using assms by (simp add: applyRefused_def requireLegacyGrant_def)
  then have "v1_World (snd (applyCert sv sr t r s)) = snd (issueFunc (ls_V1 sv) (runnerParams p secrets) (v1_World s))"
    using assms by (auto simp: applyCert_def ServiceApply_def applyOutcome_def issueNow_def savePushed_def Let_def split: prod.split sum.split option.split)
  then show ?thesis
    using buildIssueParams_request[OF assms(10)] assms(3) by (simp add: runnerParams_def)
qed

section \<open>Issues and the log\<close>

lemma applyOutcome_logs: "v1_Logs (snd (applyOutcome env now q preset p s)) = v1_Logs s"
  by (auto simp: applyOutcome_def issueNow_def savePushed_def Let_def split: prod.split sum.split option.split)

text \<open>C35: an issue request with bad parameters changes nothing; every other one leaves exactly one line in the log, which says
  whether it succeeded and who asked.  While the certificate is not due and nobody forces, neither the issuer
  nor the database is touched.\<close>

theorem apply_outcome_logged:
  assumes "ServiceApply env now q s = (r, s')"
  shows "(if serviceDomain (aq_Domain q) \<noteq> None \<or> \<not> isOk (buildIssueParams env q (GetCert (aq_Domain q) (v1_Db s)))
          then s' = s \<and> \<not> isOk r
          else \<exists>l. v1_Logs s' = v1_Logs s @ [l] \<and> (il_Success l \<longleftrightarrow> isOk r) \<and> il_Domain l = aq_Domain q \<and>
                 il_ClientToken l = (if aq_Actor q = [] then ''server-cli'' else aq_Actor q) \<and> il_CreatedAt l = unixSec now) \<and>
         (\<forall>p. buildIssueParams env q (GetCert (aq_Domain q) (v1_Db s)) = Inr p \<and> \<not> aq_Force q \<and>
              \<not> ShouldRenew now (readCertExpiry env s (domainDir env (aq_Domain q))) (pp_RenewDays p) \<longrightarrow>
            v1_World s' = v1_World s \<and> v1_Sd s' = v1_Sd s)"
proof (cases "serviceDomain (aq_Domain q)")
  case (Some e)
  then show ?thesis using assms by (auto simp: ServiceApply_def)
next
  case None
  show ?thesis
  proof (cases "buildIssueParams env q (GetCert (aq_Domain q) (v1_Db s))")
    case (Inl e)
    then show ?thesis using None assms by (auto simp: ServiceApply_def)
  next
    case (Inr p)
    obtain s1 where out: "applyOutcome env now q (GetCert (aq_Domain q) (v1_Db s)) p s = (r, s1)"
      and s': "s' = s1\<lparr>v1_Logs := AddLog (unixSec now) (issueLogOf env q r) (v1_Logs s1)\<rparr>"
      using assms None Inr by (auto simp: ServiceApply_def split: prod.splits)
    have "s1 = s" if "\<not> aq_Force q" "\<not> ShouldRenew now (readCertExpiry env s (domainDir env (aq_Domain q))) (pp_RenewDays p)"
      using out that by (simp add: applyOutcome_def Let_def)
    then show ?thesis
      using None Inr s' applyOutcome_logs[of env now q "GetCert (aq_Domain q) (v1_Db s)" p s] out
      by (auto simp: AddLog_def issueLogOf_def v2OrDefault_def)
  qed
qed

section \<open>The legacy interface switched off\<close>

lemma prefix_parts: "hasPrefix path pre \<longleftrightarrow> take (length pre) path = pre"
  by (auto simp: hasPrefix_def prefix_def) (metis append_take_drop_id)

lemma withV2_v2Part [simp]: "withV2 (v2Part s) s = s"
  by (simp add: withV2_def v2Part_def withDb_def v1_Db_def)

text \<open>C37: while the legacy interface is switched off, no path of it is served: the answer is that of an unknown path, and the
  state of the server stays as it is.\<close>

theorem legacy_switched_off:
  assumes "\<not> sv_LegacyAPIEnabled (ls_V2 sv)" "hasPrefix (rq_Path (wr_Http r)) ''/api/v1/''" "cleanPath (rq_Path (wr_Http r))"
  shows "serveServer sv sr r s = (notFound, s)"
proof -
  let ?path = "rq_Path (wr_Http r)"
  have start: "take 8 ?path = ''/api/v1/''"
    using assms(2) by (simp add: prefix_parts numeral_eq_Suc)
  have other: "?path \<noteq> x" if "take 8 x \<noteq> ''/api/v1/''" for x
    using start that by auto
  have sub: "\<not> under ?path x" if "take 8 x \<noteq> ''/api/v1/''" "8 \<le> length x" for x
  proof
    assume "under ?path x"
    then have "take 8 ?path = take 8 x"
      using that(2) by (auto simp: under_def hasPrefix_def prefix_def)
    then show False using start that(1) by simp
  qed
  have "\<not> under ?path v2CertsPrefix" "\<not> under ?path v2JobsPrefix" "?path \<noteq> V2APIPath @ ''/capabilities''" "?path \<noteq> ''/healthz''"
    by (rule sub other; code_simp)+
  then have "serveV2 (ls_V2 sv) x (WireRequest.truncate r) (v2Part s) = (notFound, v2Part s)" for x
    using assms(3) by (simp add: serveV2_def Let_def WireRequest.truncate_def)
  then show ?thesis
    using assms(1) \<open>?path \<noteq> ''/healthz''\<close> by (simp add: serveServer_def Let_def)
qed

section \<open>A concrete server\<close>

definition demoV1Env :: "nat V1Env" where
  "demoV1Env =
     \<lparr>v1e_Lib = demoLib, v1e_Settings = demoAcme, v1e_DefaultCA = ''letsencrypt'', v1e_DefaultKeylength = ''ec-256'',
      v1e_DefaultRenewDays = 30, v1e_EncryptionKey = [], v1e_Aead = demoAead, v1e_Ring = demoRing, v1e_Sys = demoSys (\<lambda>_. 0),
      v1e_Issue = None,
      v1e_ReadFile = (\<lambda>path _. if path = pathJoin [pathJoin [as_CertsDir demoAcme, ''a.b''], ''key.pem''] then FileData ''K'' else FileAbsent),
      v1e_StatSize = (\<lambda>_ _. None), v1e_LockFails = (\<lambda>_. False), v1e_DNSAPIDir = (\<lambda>_. None), v1e_Text = (\<lambda>_. ''error''),
      v1e_AcmeV2 = (\<lambda>_. plainV2 (errorsNew ''acme''))\<rparr>"

definition demoLegacy :: "nat LegacyServer" where
  "demoLegacy = \<lparr>ls_V2 = demoServer, ls_V1 = demoV1Env\<rparr>"

definition demoV1State :: "Db \<Rightarrow> nat V1State" where
  "demoV1State db =
     \<lparr>v1_Sd = \<lparr>sd_Db = db, sd_Secrets = [], sd_Seq = 0, sd_Legacy = []\<rparr>, v1_Logs = [], v1_World = startWorld\<rparr>"

lemma demo_v1_state [simp]: "v1_Db (demoV1State db) = db" "v1_World (demoV1State db) = startWorld" "v1_Logs (demoV1State db) = []"
  by (simp_all add: demoV1State_def v1_Db_def)

lemma demo_v1_paths:
  "pathJoin [pathJoin [as_CertsDir demoAcme, ''a.b''], ''fullchain.pem''] \<noteq> pathJoin [pathJoin [as_CertsDir demoAcme, ''a.b''], ''key.pem'']"
  by code_simp

definition demoOutside :: V1Surroundings where
  "demoOutside = \<lparr>sr_Now = 1000000000000, sr_Random = None, sr_LastRow = 0,
     sr_Token = \<lparr>rt_ID = (\<lambda>_. None), rt_Secret = (\<lambda>_. None), rt_Nonce = None\<rparr>, sr_Nonce = None\<rparr>"

definition demoJsonRequest :: "Request \<Rightarrow> JsonValue option \<Rightarrow> V1Request" where
  "demoJsonRequest http body =
     \<lparr>wr_Http = http, wr_Reconcile = (None, TrailEOF), wr_Report = (None, TrailEOF), wr_Json = (body, TrailEOF), wr_Query = (\<lambda>_. [])\<rparr>"

text \<open>A body that names other domains than the one of the grant.\<close>

definition pushRequest :: V1Request where
  "pushRequest = demoJsonRequest ((demoRequest 1000)\<lparr>rq_Method := ''POST'', rq_Path := ''/api/v1/certs/apply'', rq_Body := BodyBytes ''{}''\<rparr>)
     (Some (JsonObject [(''domain'', JsonText ''a.b''), (''san'', JsonArray [JsonText ''c.d''])]))"

definition pushed :: ApplyRequest where
  "pushed = (emptyApply ''a.b'' False [])\<lparr>aq_SAN := [''c.d'']\<rparr>"

lemma push_decoded: "readJSON applyField (emptyApply [] False []) pushRequest = Some pushed"
proof -
  have "decodeStruct applyField (emptyApply [] False []) (JsonObject [(''domain'', JsonText ''a.b''), (''san'', JsonArray [JsonText ''c.d''])])
      = Some pushed"
    by code_simp
  moreover have "readRequestBody (wr_Http pushRequest) \<noteq> Inr []"
    by (simp add: pushRequest_def demoJsonRequest_def readRequestBody_def demoRequest_def)
  ultimately show ?thesis
    by (simp add: readJSON_def) (simp add: pushRequest_def demoJsonRequest_def)
qed

definition pushedParams :: V1Params where
  "pushedParams = \<lparr>pp_Domain = ''a.b'', pp_SAN = [''c.d''], pp_CA = ''letsencrypt'', pp_ChallengeMode = ''dns_api'',
     pp_DNSProvider = ''dns_cf'', pp_WebrootPath = [], pp_Keylength = ''ec-256'', pp_RenewDays = 0\<rparr>"

lemma demo_v1_permission:
  "p \<in> set validCertificatePermissions \<Longrightarrow>
     HasCertificatePermission (vs_Db (demoService ps)) (to_ID (demoToken\<lparr>to_ID := ''t''\<rparr>)) ''a.b'' p = Inr (p \<in> set ps)"
  by (simp add: demo_permission)

theorem pushed_names_without_admin_witness:
  "ip_SAN (runnerParams pushedParams []) = [''c.d''] \<and>
   v1_World (snd (applyCert demoLegacy demoOutside (demoToken\<lparr>to_ID := ''t''\<rparr>) pushRequest (demoV1State (vs_Db (demoService [''apply'']))))) =
     snd (issueFunc demoV1Env (runnerParams pushedParams []) startWorld)"
proof -
  let ?s = "demoV1State (vs_Db (demoService [''apply'']))"
  have dom: "serviceDomain (aq_Domain pushed) = None"
    by code_simp
  have preset: "GetCert (aq_Domain pushed) (v1_Db ?s) = Some demoPreset"
    by (simp add: GetCert_def demoService_def demoPreset_def pushed_def emptyApply_def)
  have params: "buildIssueParams (ls_V1 demoLegacy) pushed (Some demoPreset) = Inr pushedParams"
    by (simp add: buildIssueParams_def presetParams_def challengeErr_def pushed_def emptyApply_def demoPreset_def demoCert_def
        pushedParams_def v2OrDefault_def orEmpty_def demoLegacy_def demoV1Env_def Let_def)
  have secrets: "dnsEnvOf (ls_V1 demoLegacy) pushedParams (v1_Sd ?s) = Inr []"
    by (simp add: dnsEnvOf_def pushedParams_def ListSecretsByProvider_def ListDNSProfileSecretsWithValues_def secretsOf_def joined_def
        demoV1State_def demoLegacy_def demoV1Env_def)
  have due: "ShouldRenew (sr_Now demoOutside) (readCertExpiry (ls_V1 demoLegacy) ?s (domainDir (ls_V1 demoLegacy) (aq_Domain pushed)))
      (pp_RenewDays pushedParams)"
    by (simp add: ShouldRenew_def readCertExpiry_def readAt_def demoLegacy_def demoV1Env_def domainDir_def demo_v1_paths pushed_def emptyApply_def)
  show ?thesis
    using pushed_names_without_admin[OF push_decoded _ _ _ _ _ _ dom preset params secrets due, of "demoToken\<lparr>to_ID := ''t''\<rparr>"]
      demo_permission[of "''apply''" "[''apply'']"]
    by (simp add: pushed_def emptyApply_def demoToken_def validCertificatePermissions_def demoLegacy_def demoV1Env_def)
qed

theorem apply_outcome_logged_witness:
  "\<exists>r s' l. ServiceApply demoV1Env 1000000000000 pushed (demoV1State (vs_Db (demoService []))) = (r, s') \<and>
     v1_Logs s' = [l] \<and> il_ClientToken l = ''server-cli''"
proof -
  let ?s = "demoV1State (vs_Db (demoService []))"
  obtain r s' where run: "ServiceApply demoV1Env 1000000000000 pushed ?s = (r, s')"
    by fastforce
  have dom: "serviceDomain (aq_Domain pushed) = None"
    by code_simp
  have preset: "GetCert (aq_Domain pushed) (v1_Db ?s) = Some demoPreset" and logs: "v1_Logs ?s = []"
    by (simp_all add: GetCert_def demoService_def demoPreset_def pushed_def emptyApply_def)
  have "isOk (buildIssueParams demoV1Env pushed (Some demoPreset))"
    by (simp add: buildIssueParams_def presetParams_def challengeErr_def pushed_def emptyApply_def demoPreset_def demoCert_def
        v2OrDefault_def orEmpty_def demoV1Env_def Let_def isOk_def)
  then show ?thesis
    using apply_outcome_logged[OF run] run dom preset logs by (auto simp: pushed_def emptyApply_def)
qed

theorem legacy_switched_off_witness:
  "serveServer demoLegacy demoOutside pushRequest \<lparr>ss_V1 = demoV1State emptyDb, ss_Root = demoCertRoot\<rparr> =
     (notFound, \<lparr>ss_V1 = demoV1State emptyDb, ss_Root = demoCertRoot\<rparr>)"
proof (rule legacy_switched_off)
  show "\<not> sv_LegacyAPIEnabled (ls_V2 demoLegacy)"
    by (simp add: demoLegacy_def demoServer_def)
  have "rq_Path (wr_Http pushRequest) = ''/api/v1/certs/apply''"
    by (simp add: pushRequest_def demoJsonRequest_def)
  moreover have "hasPrefix ''/api/v1/certs/apply'' ''/api/v1/''" "cleanPath ''/api/v1/certs/apply''"
    by code_simp+
  ultimately show "hasPrefix (rq_Path (wr_Http pushRequest)) ''/api/v1/''" "cleanPath (rq_Path (wr_Http pushRequest))"
    by simp_all
qed

lemma demo_file_request:
  obtains http t db where
    "sentRequest demoMac demoSha demoClient 1000 (demoNonces 0) ''GET'' ''/api/v1/certs/a.b/files/key.pem'' None = Some http"
    "verifyToken demoMac demoSha demoDec (\<lambda>v. Some v) \<lparr>ac_TimestampWindowSec = 300, ac_NonceTTLSec = 600\<rparr> (atOnce 1000) http
       (vs_Db (wd_State demoNetwork)) = (Inr t, db)"
    "HasCertificatePermission db (to_ID t) ''a.b'' ''read_private_key'' = Inr True"
proof -
  have path: "plainPath ''/api/v1/certs/a.b/files/key.pem''"
    by (simp add: plainPath_def)
  obtain http where http: "sentRequest demoMac demoSha demoClient 1000 (demoNonces 0) ''GET'' ''/api/v1/certs/a.b/files/key.pem'' None = Some http"
    by (simp add: sentRequest_def urlParts_def Let_def)
  have now: "unixSec (wd_Now demoNetwork) = 1000" "wd_Count demoNetwork = 0"
    by (simp_all add: demoNetwork_def unixSec_def)
  have sv: "lk_Server demoLink = demoServer" "lk_Client demoLink = demoClient" "lk_Nonce demoLink = demoNonces"
    "sv_Mac demoServer = demoMac" "sv_Sha demoServer = demoSha" "sv_Secret demoServer = demoDec" "sv_Mime demoServer = (\<lambda>v. Some v)"
    "sv_Auth demoServer = \<lparr>ac_TimestampWindowSec = 300, ac_NonceTTLSec = 600\<rparr>"
    by (simp_all add: demoLink_def demoServer_def)
  obtain t db where v: "verifyToken demoMac demoSha demoDec (\<lambda>v. Some v) \<lparr>ac_TimestampWindowSec = 300, ac_NonceTTLSec = 600\<rparr> (atOnce 1000) http
       (vs_Db (wd_State demoNetwork)) = (Inr t, db)" "to_ID t = cc_TokenID demoClient"
    and r: "ready demoLink ''a.b'' (demoNetwork\<lparr>wd_Count := Suc 0, wd_State := (wd_State demoNetwork)\<lparr>vs_Db := db\<rparr>\<rparr>)"
    using ready_verified[OF demo_link demo_ready, of "''GET''" "''/api/v1/certs/a.b/files/key.pem''" http] http path
    by (auto simp: now sv)
  have "HasCertificatePermission db (to_ID t) ''a.b'' ''read_private_key'' = Inr True"
    using r v(2) by (simp add: ready_def mayRead_def sv)
  then show thesis
    using that http v(1) by blast
qed

theorem v1_needs_grant_witness:
  "\<exists>r resp s' (t :: Token) db d n. serveV1 demoLegacy demoOutside r (demoV1State (vs_Db (wd_State demoNetwork))) = Some (resp, s') \<and>
     hr_Body resp = RawBytes ''K'' \<and> HasCertificatePermission db (to_ID t) d (filePermission n) = Inr True"
proof (rule demo_file_request)
  fix http t db
  assume sent: "sentRequest demoMac demoSha demoClient 1000 (demoNonces 0) ''GET'' ''/api/v1/certs/a.b/files/key.pem'' None = Some http"
    and v: "verifyToken demoMac demoSha demoDec (\<lambda>v. Some v) \<lparr>ac_TimestampWindowSec = 300, ac_NonceTTLSec = 600\<rparr> (atOnce 1000) http
       (vs_Db (wd_State demoNetwork)) = (Inr t, db)"
    and p: "HasCertificatePermission db (to_ID t) ''a.b'' ''read_private_key'' = Inr True"
  let ?r = "demoJsonRequest http None" and ?s = "demoV1State (vs_Db (wd_State demoNetwork))"
  have http: "rq_Method http = ''GET''" "rq_Path http = ''/api/v1/certs/a.b/files/key.pem''"
    using sent by (auto simp: sentRequest_def urlParts_def Let_def)
  have read: "ServiceReadFile demoV1Env ''a.b'' ''key.pem'' (withDb db ?s) = Inr ''K''"
  proof -
    have "serviceDomain ''a.b'' = None" "''key.pem'' \<in> set allowedFiles"
      by code_simp+
    then show ?thesis
      by (simp add: ServiceReadFile_def readAt_def domainDir_def demoV1Env_def)
  qed
  have parts: "splitPath ''a.b/files/key.pem'' = [''a.b'', ''files'', ''key.pem'']"
    by code_simp
  have "certSubtree demoLegacy t ''/api/v1/certs/a.b/files/key.pem'' (withDb db ?s) = writeJSON 200 (Some (RawBytes ''K''))"
    using p read by (simp add: certSubtree_def hasPrefix_def trimPrefix_def parts Let_def certFile_def requireLegacyGrant_def filePermission_def
        demoLegacy_def)
  then have "serveV1 demoLegacy demoOutside ?r ?s = Some (writeJSON 200 (Some (RawBytes ''K'')), withDb db ?s)"
    using v by (simp add: serveV1_def Let_def demoJsonRequest_def http hasPrefix_def answerRoutedV1_def methodHandler_def authedV1_def
        reading_def demoLegacy_def demoServer_def demoOutside_def unixSec_def)
  then have served: "serveV1 demoLegacy demoOutside ?r ?s = Some (writeJSON 200 (Some (RawBytes ''K'')), withDb db ?s)"
    by simp
  have body: "hr_Body (writeJSON 200 (Some (RawBytes ''K''))) = RawBytes ''K''"
    by (simp add: writeJSON_def)
  obtain t :: Token and db' d n where "HasCertificatePermission db' (to_ID t) d (filePermission n) = Inr True"
    using conjunct1[OF v1_needs_grant[OF served]] body by blast
  then show ?thesis
    using served body by blast
qed

end
