(* ===== verification/ClientV1.thy ===== *)
theory ClientV1
  imports JsonCodec AcmeText
begin

text \<open>
  The v1 flow of the client (\<^verbatim>\<open>internal/client/client.go\<close>): ask the server for a certificate, download its files
  over the old ones, keep those as backups until the verify command has passed.  The output directory is a map
  from paths to what is there; which system calls fail, and what a failed write leaves, are parameters.  Go
  visits the backups in any order, so that order is a parameter too.  Commands are assumed to leave the
  output files alone.
\<close>

section \<open>Options and surroundings\<close>

record ApplyOpts =
  ap_Domain :: string
  ap_SAN :: "string list"
  ap_ChallengeMode :: string
  ap_DNSProvider :: string
  ap_WebrootPath :: string
  ap_CA :: string
  ap_Keylength :: string
  ap_OutDir :: string
  ap_CertFile :: string
  ap_KeyFile :: string
  ap_FullchainFile :: string
  ap_CAFile :: string
  ap_VerifyCmd :: string
  ap_ReloadCmd :: string
  ap_Force :: bool

datatype OutNode = OutFile string | OutOther

type_synonym OutFiles = "string \<Rightarrow> OutNode option"

datatype OutPoint = MakeOut | StatOut string | BackupOut string | RestoreOut string | RemoveOut string

text \<open>\<open>ev_Write p\<close> is \<open>None\<close> when writing \<open>p\<close> succeeds, and otherwise what the failed write leaves there.\<close>

record 'w ApplyEnv =
  ev_Transport :: "'w Transport"
  ev_Settings :: ClientSettings
  ev_Sha :: "string \<Rightarrow> string"
  ev_Fails :: "OutPoint \<Rightarrow> bool"
  ev_Write :: "string \<Rightarrow> OutNode option option"
  ev_Shell :: "string \<Rightarrow> string \<Rightarrow> OutFiles \<Rightarrow> string option"
  ev_Order :: "(string \<times> string) list \<Rightarrow> (string \<times> string) list"

datatype ApplyErr =
    ApRequest ClientErr | ApStatus nat | ApUndecodable | ApFailed string | ApOutDir
  | ApBadName string ErrorCode | ApDuplicate string | ApUnmapped string | ApBackup string
  | ApDownload string ClientErr | ApDownloadStatus string nat | ApHash string | ApWrite string
  | ApVerify string | ApReload string

section \<open>The request and its answer\<close>

text \<open>The members of a Go map are encoded in the order of their names.\<close>

definition applyBody :: "ApplyOpts \<Rightarrow> JsonValue" where
  "applyBody o1 =
     (let pushed = ap_ChallengeMode o1 \<noteq> [];
          san = (if ap_SAN o1 = [] then JsonNull else JsonArray (map JsonText (ap_SAN o1)))
      in JsonObject
        ((if pushed then [(''ca'', JsonText (ap_CA o1)), (''challenge_mode'', JsonText (ap_ChallengeMode o1)),
                          (''dns_provider'', JsonText (ap_DNSProvider o1))] else [])
         @ [(''domain'', JsonText (ap_Domain o1))]
         @ (if ap_Force o1 then [(''force'', JsonBool True)] else [])
         @ (if pushed then [(''keylength'', JsonText (ap_Keylength o1)), (''san'', san),
                            (''webroot_path'', JsonText (ap_WebrootPath o1))] else [])))"

record ClientFile =
  ff_Name :: string
  ff_Size :: int
  ff_SHA256 :: string

record ApplyResp =
  rp_Success :: bool
  rp_Domain :: string
  rp_Renewed :: bool
  rp_NotAfter :: int
  rp_Files :: "ClientFile list"
  rp_TimeLog :: int
  rp_Message :: string

definition clientFileField :: "string \<Rightarrow> JsonValue \<Rightarrow> ClientFile \<Rightarrow> ClientFile option" where
  "clientFileField k v f =
     (if k = ''name'' then intoText (\<lambda>s. f\<lparr>ff_Name := s\<rparr>) f v
      else if k = ''size'' then intoInt (\<lambda>n. f\<lparr>ff_Size := n\<rparr>) f v
      else if k = ''sha256'' then intoText (\<lambda>s. f\<lparr>ff_SHA256 := s\<rparr>) f v
      else Some f)"

definition noClientFile :: ClientFile where
  "noClientFile = \<lparr>ff_Name = [], ff_Size = 0, ff_SHA256 = []\<rparr>"

definition applyRespField :: "string \<Rightarrow> JsonValue \<Rightarrow> ApplyResp \<Rightarrow> ApplyResp option" where
  "applyRespField k v a =
     (if k = ''success'' then intoBool (\<lambda>b. a\<lparr>rp_Success := b\<rparr>) a v
      else if k = ''domain'' then intoText (\<lambda>s. a\<lparr>rp_Domain := s\<rparr>) a v
      else if k = ''renewed'' then intoBool (\<lambda>b. a\<lparr>rp_Renewed := b\<rparr>) a v
      else if k = ''not_after'' then intoTime (\<lambda>t. a\<lparr>rp_NotAfter := t\<rparr>) a v
      else if k = ''files'' then intoStructs clientFileField noClientFile (\<lambda>l. a\<lparr>rp_Files := l\<rparr>) v
      else if k = ''time_log'' then intoInt (\<lambda>n. a\<lparr>rp_TimeLog := n\<rparr>) a v
      else if k = ''message'' then intoText (\<lambda>s. a\<lparr>rp_Message := s\<rparr>) a v
      else Some a)"

definition noApplyResp :: ApplyResp where
  "noApplyResp = \<lparr>rp_Success = False, rp_Domain = [], rp_Renewed = False, rp_NotAfter = -62135596800, rp_Files = [],
     rp_TimeLog = 0, rp_Message = []\<rparr>"

definition decodeApplyResp :: "WireBody \<Rightarrow> ApplyResp option" where
  "decodeApplyResp b = (case b of JsonBody v \<Rightarrow> decodeStruct applyRespField noApplyResp v | _ \<Rightarrow> None)"

section \<open>Output files\<close>

definition outName :: "ApplyOpts \<Rightarrow> string \<Rightarrow> string" where
  "outName o1 name =
     (if name = ''cert.pem'' then ap_CertFile o1
      else if name = ''key.pem'' then ap_KeyFile o1
      else if name = ''fullchain.pem'' then ap_FullchainFile o1
      else if name = ''ca.pem'' then ap_CAFile o1
      else if name = ''time.log'' then ''time.log''
      else [])"

definition outPath :: "ApplyOpts \<Rightarrow> string \<Rightarrow> string" where
  "outPath o1 name = pathJoin [ap_OutDir o1, outName o1 name]"

definition backupPath :: "string \<Rightarrow> string" where
  "backupPath path = path @ ''.bak''"

definition renameOut :: "bool \<Rightarrow> string \<Rightarrow> string \<Rightarrow> OutFiles \<Rightarrow> bool \<times> OutFiles" where
  "renameOut fails src dst fs =
     (case fs src of
        None \<Rightarrow> (False, fs)
      | Some node \<Rightarrow> if fails then (False, fs) else (True, fs(src := None, dst := Some node)))"

text \<open>Errors of the restoration are dropped.\<close>

definition restoreBackups :: "'w ApplyEnv \<Rightarrow> (string \<times> string) list \<Rightarrow> OutFiles \<Rightarrow> OutFiles" where
  "restoreBackups env backups fs =
     fold (\<lambda>(dst, src) fs. snd (renameOut (ev_Fails env (RestoreOut dst)) src dst fs)) (ev_Order env backups) fs"

definition removeBackups :: "'w ApplyEnv \<Rightarrow> (string \<times> string) list \<Rightarrow> OutFiles \<Rightarrow> OutFiles" where
  "removeBackups env backups fs =
     fold (\<lambda>(dst, src) fs. if ev_Fails env (RemoveOut src) then fs else fs(src := None)) (ev_Order env backups) fs"

section \<open>Download\<close>

fun checkNames :: "string list \<Rightarrow> ClientFile list \<Rightarrow> ApplyErr option" where
  "checkNames seen [] = None"
| "checkNames seen (f # fs) =
     (case ValidateFileName (ff_Name f) of
        Some e \<Rightarrow> Some (ApBadName (ff_Name f) e)
      | None \<Rightarrow> if ff_Name f \<in> set seen then Some (ApDuplicate (ff_Name f)) else checkNames (ff_Name f # seen) fs)"

text \<open>The old file of a path is moved aside, if there is one; \<open>None\<close> is a failed rename.\<close>

definition backUp :: "'w ApplyEnv \<Rightarrow> string \<Rightarrow> (string \<times> string) list \<Rightarrow> OutFiles \<Rightarrow> ((string \<times> string) list \<times> OutFiles) option" where
  "backUp env path backups fs =
     (if fs path \<noteq> None \<and> \<not> ev_Fails env (StatOut path)
      then (case renameOut (ev_Fails env (BackupOut path)) path (backupPath path) fs of
              (False, _) \<Rightarrow> None
            | (True, fs') \<Rightarrow> Some (AList.update path (backupPath path) backups, fs'))
      else Some (backups, fs))"

definition writeOut :: "'w ApplyEnv \<Rightarrow> string \<Rightarrow> string \<Rightarrow> OutFiles \<Rightarrow> bool \<times> OutFiles" where
  "writeOut env path data fs =
     (case ev_Write env path of None \<Rightarrow> (True, fs(path := Some (OutFile data))) | Some left \<Rightarrow> (False, fs(path := left)))"

definition filePathV1 :: "string \<Rightarrow> string \<Rightarrow> string" where
  "filePathV1 domain name = ''/api/v1/certs/'' @ domain @ ''/files/'' @ name"

text \<open>What a download of a listed file gives: its bytes, if they have the listed digest.\<close>

definition fetchListed :: "'w ApplyEnv \<Rightarrow> ApplyOpts \<Rightarrow> ClientFile \<Rightarrow> 'w \<Rightarrow> (ApplyErr + string) \<times> 'w" where
  "fetchListed env o1 f w =
     (case doRequestCtx (ev_Transport env) (ev_Settings env) ''GET'' (filePathV1 (ap_Domain o1) (ff_Name f)) NoRequestBody w of
        (Inl e, w1) \<Rightarrow> (Inl (ApDownload (ff_Name f) e), w1)
      | (Inr resp, w1) \<Rightarrow>
          (let data = bodyBytesOf (ev_Transport env) (hr_Body resp)
           in if hr_Status resp \<noteq> 200 then Inl (ApDownloadStatus (ff_Name f) (hr_Status resp))
              else if hexEncode (ev_Sha env data) \<noteq> ff_SHA256 f then Inl (ApHash (ff_Name f))
              else Inr data, w1))"

text \<open>The loop over the listed files; a missing name and a failed backup return without restoring anything.\<close>

fun downloadFiles ::
  "'w ApplyEnv \<Rightarrow> ApplyOpts \<Rightarrow> ClientFile list \<Rightarrow> (string \<times> string) list \<Rightarrow> OutFiles \<Rightarrow> 'w
     \<Rightarrow> (ApplyErr option \<times> (string \<times> string) list \<times> OutFiles) \<times> 'w" where
  "downloadFiles env o1 [] backups fs w = ((None, backups, fs), w)"
| "downloadFiles env o1 (f # files) backups fs w =
     (if outName o1 (ff_Name f) = [] then ((Some (ApUnmapped (ff_Name f)), backups, fs), w)
      else let path = outPath o1 (ff_Name f)
           in case backUp env path backups fs of
                None \<Rightarrow> ((Some (ApBackup path), backups, fs), w)
              | Some (backups1, fs1) \<Rightarrow>
                  (case fetchListed env o1 f w of
                     (Inl e, w1) \<Rightarrow> ((Some e, backups1, restoreBackups env backups1 fs1), w1)
                   | (Inr data, w1) \<Rightarrow>
                       (case writeOut env path data fs1 of
                          (False, fs2) \<Rightarrow> ((Some (ApWrite path), backups1, restoreBackups env backups1 fs2), w1)
                        | (True, fs2) \<Rightarrow> downloadFiles env o1 files backups1 fs2 w1)))"

section \<open>The operations\<close>

definition optionalCommand :: "'w ApplyEnv \<Rightarrow> string \<Rightarrow> string \<Rightarrow> OutFiles \<Rightarrow> string option" where
  "optionalCommand env cmd dir fs = (if cmd = [] then None else ev_Shell env cmd dir fs)"

definition requestCertificate :: "'w ApplyEnv \<Rightarrow> ApplyOpts \<Rightarrow> 'w \<Rightarrow> (ApplyErr + ApplyResp) \<times> 'w" where
  "requestCertificate env o1 w =
     (case doRequestCtx (ev_Transport env) (ev_Settings env) ''POST'' ''/api/v1/certs/apply'' (JsonPayload (applyBody o1)) w of
        (Inl e, w1) \<Rightarrow> (Inl (ApRequest e), w1)
      | (Inr resp, w1) \<Rightarrow>
          (if hr_Status resp \<noteq> 200 then Inl (ApStatus (hr_Status resp))
           else case decodeApplyResp (hr_Body resp) of
             None \<Rightarrow> Inl ApUndecodable
           | Some ar \<Rightarrow> if \<not> rp_Success ar then Inl (ApFailed (rp_Message ar)) else Inr ar, w1))"

text \<open>The verify command, the end of the backups and the reload command.\<close>

definition finishApply :: "'w ApplyEnv \<Rightarrow> ApplyOpts \<Rightarrow> (string \<times> string) list \<Rightarrow> OutFiles \<Rightarrow> ApplyErr option \<times> OutFiles" where
  "finishApply env o1 backups fs =
     (case optionalCommand env (ap_VerifyCmd o1) (ap_OutDir o1) fs of
        Some e \<Rightarrow> (Some (ApVerify e), restoreBackups env backups fs)
      | None \<Rightarrow>
          (let fs' = removeBackups env backups fs
           in (map_option ApReload (optionalCommand env (ap_ReloadCmd o1) (ap_OutDir o1) fs'), fs')))"

definition ApplyV1 :: "'w ApplyEnv \<Rightarrow> ApplyOpts \<Rightarrow> OutFiles \<Rightarrow> 'w \<Rightarrow> (ApplyErr option \<times> OutFiles) \<times> 'w" where
  "ApplyV1 env o1 fs w =
     (case requestCertificate env o1 w of
        (Inl e, w1) \<Rightarrow> ((Some e, fs), w1)
      | (Inr ar, w1) \<Rightarrow>
          (if ev_Fails env MakeOut then ((Some ApOutDir, fs), w1)
           else case checkNames [] (rp_Files ar) of
             Some e \<Rightarrow> ((Some e, fs), w1)
           | None \<Rightarrow>
               (case downloadFiles env o1 (rp_Files ar) [] fs w1 of
                  ((Some e, _, fs1), w2) \<Rightarrow> ((Some e, fs1), w2)
                | ((None, backups, fs1), w2) \<Rightarrow> (finishApply env o1 backups fs1, w2))))"

text \<open>A request whose answer is only printed.\<close>

definition simpleRequest :: "'w ApplyEnv \<Rightarrow> string \<Rightarrow> string \<Rightarrow> ClientBody \<Rightarrow> 'w \<Rightarrow> (ClientErr + string) \<times> 'w" where
  "simpleRequest env method path body w =
     (case doRequestCtx (ev_Transport env) (ev_Settings env) method path body w of
        (Inl e, w1) \<Rightarrow> (Inl e, w1)
      | (Inr resp, w1) \<Rightarrow>
          (if hr_Status resp \<noteq> 200 then Inl (ClStatus (hr_Status resp))
           else Inr (bodyBytesOf (ev_Transport env) (hr_Body resp)), w1))"

definition StatusV1 :: "'w ApplyEnv \<Rightarrow> string \<Rightarrow> 'w \<Rightarrow> (ClientErr + string) \<times> 'w" where
  "StatusV1 env domain w = simpleRequest env ''GET'' (''/api/v1/certs/'' @ domain @ ''/status'') NoRequestBody w"

definition DownloadV1 ::
  "'w ApplyEnv \<Rightarrow> string \<Rightarrow> string \<Rightarrow> string \<Rightarrow> OutFiles \<Rightarrow> 'w \<Rightarrow> (ClientErr option \<times> OutFiles) \<times> 'w" where
  "DownloadV1 env domain fileName path fs w =
     (case ValidateFileName fileName of
        Some e \<Rightarrow> ((Some (ClBadFile e), fs), w)
      | None \<Rightarrow>
          (case simpleRequest env ''GET'' (filePathV1 domain fileName) NoRequestBody w of
             (Inl e, w1) \<Rightarrow> ((Some e, fs), w1)
           | (Inr data, w1) \<Rightarrow>
               (case writeOut env path data fs of (ok, fs') \<Rightarrow> ((failIf (\<not> ok) ClOutputFailed, fs'), w1))))"

definition RegisterV1 :: "'w ApplyEnv \<Rightarrow> string \<Rightarrow> string \<Rightarrow> 'w \<Rightarrow> (ClientErr + string) \<times> 'w" where
  "RegisterV1 env hostname osInfo w =
     simpleRequest env ''POST'' ''/api/v1/client/register''
       (JsonPayload (JsonObject [(''hostname'', JsonText hostname), (''os_info'', JsonText osInfo)])) w"

definition TestV1 :: "'w ApplyEnv \<Rightarrow> 'w \<Rightarrow> (ClientErr + string) \<times> 'w" where
  "TestV1 env w = simpleRequest env ''GET'' ''/api/v1/ping'' NoRequestBody w"

end
