(* ===== verification/ClientV1Proofs.thy ===== *)
theory ClientV1Proofs
  imports ClientV1
begin

text \<open>
  What an apply of the v1 client leaves in the output directory: after success the files the server listed,
  after most failures the old files, and after a failed backup a mixture.
\<close>

section \<open>Backups\<close>

text \<open>
  The paths of the listed files and of their backups are pairwise different.  Nothing in the client checks it:
  two options may name the same output file.
\<close>

definition separatePaths :: "ApplyOpts \<Rightarrow> ClientFile list \<Rightarrow> bool" where
  "separatePaths o1 files \<longleftrightarrow>
     distinct (map (\<lambda>f. outPath o1 (ff_Name f)) files @ map (\<lambda>f. backupPath (outPath o1 (ff_Name f))) files)"

text \<open>
  The situation after some of the paths have been dealt with: what was there is in its backup, and every other
  path is as it was at the start.
\<close>

definition backedUp :: "OutFiles \<Rightarrow> string list \<Rightarrow> (string \<times> string) list \<Rightarrow> OutFiles \<Rightarrow> bool" where
  "backedUp fs0 ps backups fs \<longleftrightarrow>
     distinct (map fst backups) \<and>
     (\<forall>(d, b)\<in>set backups. b = backupPath d \<and> d \<in> set ps \<and> fs b = fs0 d \<and> fs0 d \<noteq> None) \<and>
     (\<forall>p\<in>set ps. fs0 p \<noteq> None \<longrightarrow> p \<in> fst ` set backups) \<and>
     (\<forall>p. p \<notin> set ps \<and> p \<notin> backupPath ` set ps \<longrightarrow> fs p = fs0 p)"

lemma backupPath_inject [simp]: "backupPath a = backupPath b \<longleftrightarrow> a = b"
  by (simp add: backupPath_def)

lemma backedUp_Nil: "backedUp fs [] [] fs"
  by (simp add: backedUp_def)

lemma backedUp_write:
  assumes "backedUp fs0 ps backups fs" "p \<in> set ps" "p \<notin> backupPath ` set ps"
  shows "backedUp fs0 ps backups (fs(p := x))"
  using assms by (fastforce simp: backedUp_def)

lemma backUp_step:
  assumes "backedUp fs0 ps backups fs" "backUp env p backups fs = Some (backups', fs')"
    and "p \<notin> set ps" "p \<notin> backupPath ` set ps" "backupPath p \<notin> insert p (set ps)" "\<not> ev_Fails env (StatOut p)"
  shows "backedUp fs0 (p # ps) backups' fs'"
proof -
  have p: "fs p = fs0 p"
    using assms(1,3,4) by (simp add: backedUp_def)
  have new: "p \<notin> fst ` set backups"
    using assms(1,3) by (fastforce simp: backedUp_def)
  show ?thesis
  proof (cases "fs p")
    case None
    then show ?thesis
      using assms(1,2) p by (fastforce simp: backUp_def backedUp_def)
  next
    case (Some node)
    then have made: "backups' = AList.update p (backupPath p) backups" "fs' = fs(p := None, backupPath p := Some node)"
      using assms(2,6) by (auto simp: backUp_def renameOut_def split: prod.splits bool.splits if_splits)
    have upd: "AList.update p (backupPath p) backups = backups @ [(p, backupPath p)]"
      using new by (induction backups) auto
    show ?thesis
      using assms(1,3-5) p new Some unfolding made upd
      by (fastforce simp: backedUp_def)
  qed
qed

lemma restored:
  assumes "backedUp fs0 ps backups fs" "set order = set backups" "distinct order" "\<And>d. \<not> ev_Fails env (RestoreOut d)"
    and "set ps \<inter> backupPath ` set ps = {}" "fs0 p \<noteq> None" "p \<notin> backupPath ` set ps"
  shows "fold (\<lambda>(dst, src) fs. snd (renameOut (ev_Fails env (RestoreOut dst)) src dst fs)) order fs p = fs0 p"
proof -
  have gen: "fold (\<lambda>(dst, src) fs. snd (renameOut (ev_Fails env (RestoreOut dst)) src dst fs)) os fs p = fs0 p"
    if "distinct (map fst os)" "\<forall>(d, b)\<in>set os. b = backupPath d \<and> d \<in> set ps \<and> fs b = fs0 d \<and> fs0 d \<noteq> None"
      "p \<in> fst ` set os \<or> fs p = fs0 p" for os fs
    using that
  proof (induction os arbitrary: fs)
    case (Cons x os)
    obtain d b where x: "x = (d, b)" by (cases x)
    then have b: "b = backupPath d" "d \<in> set ps" "fs b = fs0 d" "fs0 d \<noteq> None"
      using Cons.prems(2) by auto
    let ?fs = "fs(b := None, d := fs0 d)"
    have step: "snd (renameOut (ev_Fails env (RestoreOut d)) b d fs) = ?fs"
      using b assms(4) by (auto simp: renameOut_def)
    have "fold (\<lambda>(dst, src) fs. snd (renameOut (ev_Fails env (RestoreOut dst)) src dst fs)) os ?fs p = fs0 p"
    proof (rule Cons.IH)
      show "distinct (map fst os)" using Cons.prems(1) by simp
      show "\<forall>(d', b')\<in>set os. b' = backupPath d' \<and> d' \<in> set ps \<and> ?fs b' = fs0 d' \<and> fs0 d' \<noteq> None"
      proof (clarify)
        fix d' b' assume in_os: "(d', b') \<in> set os"
        then have "b' = backupPath d'" "d' \<in> set ps" "fs b' = fs0 d'" "fs0 d' \<noteq> None" "d' \<noteq> d"
          using Cons.prems(1,2) x by force+
        moreover have "backupPath d' \<noteq> d"
          using assms(5) b(2) \<open>d' \<in> set ps\<close> by blast
        ultimately show "b' = backupPath d' \<and> d' \<in> set ps \<and> ?fs b' = fs0 d' \<and> fs0 d' \<noteq> None"
          using b(1) by auto
      qed
      show "p \<in> fst ` set os \<or> ?fs p = fs0 p"
        using Cons.prems(3) x b(1,2) assms(7) by auto
    qed
    then show ?case
      using x step by simp
  qed simp
  have "\<forall>x\<in>set order. snd x = backupPath (fst x)"
    using assms(1,2) by (auto simp: backedUp_def)
  then have "inj_on fst (set order)"
    by (simp add: inj_on_def prod_eq_iff)
  then have same: "set order = set backups" "distinct (map fst order)"
    using assms(2,3) by (simp_all add: distinct_map)
  show ?thesis
  proof (rule gen)
    show "distinct (map fst order)" by (rule same(2))
    show "\<forall>(d, b)\<in>set order. b = backupPath d \<and> d \<in> set ps \<and> fs b = fs0 d \<and> fs0 d \<noteq> None"
      using assms(1) same(1) by (simp add: backedUp_def)
    show "p \<in> fst ` set order \<or> fs p = fs0 p"
      using assms(1,6,7) unfolding backedUp_def same(1) by blast
  qed
qed

section \<open>The downloads\<close>

text \<open>
  \<^verbatim>\<open>Stat\<close> sees every file, restoring succeeds, and the order of the visits is one of the backups.
\<close>

definition carefulDisk :: "'w ApplyEnv \<Rightarrow> bool" where
  "carefulDisk env \<longleftrightarrow> (\<forall>p. \<not> ev_Fails env (StatOut p) \<and> \<not> ev_Fails env (RestoreOut p)) \<and>
     (\<forall>l. distinct l \<longrightarrow> distinct (ev_Order env l) \<and> set (ev_Order env l) = set l)"

abbreviation pathsOf :: "ApplyOpts \<Rightarrow> ClientFile list \<Rightarrow> string list" where
  "pathsOf o1 files \<equiv> map (\<lambda>f. outPath o1 (ff_Name f)) files"

definition apart :: "string list \<Rightarrow> bool" where
  "apart ps \<longleftrightarrow> distinct ps \<and> set ps \<inter> backupPath ` set ps = {}"

lemma apart_iff: "apart ps \<longleftrightarrow> distinct (ps @ map backupPath ps)"
  by (simp add: apart_def distinct_map inj_on_def)

lemma separatePaths_apart: "separatePaths o1 files = apart (pathsOf o1 files)"
  by (simp add: separatePaths_def apart_iff comp_def)

lemma restoreBackups_restored:
  assumes "carefulDisk env" "backedUp fs0 ps backups fs" "apart ps" "fs0 p \<noteq> None" "p \<notin> backupPath ` set ps"
  shows "restoreBackups env backups fs p = fs0 p"
proof -
  have "distinct backups"
    using assms(2) by (simp add: backedUp_def distinct_map)
  then have order: "set (ev_Order env backups) = set backups" "distinct (ev_Order env backups)"
    using assms(1) by (simp_all add: carefulDisk_def)
  show ?thesis
    unfolding restoreBackups_def
    by (rule restored[OF assms(2) order]) (use assms in \<open>auto simp: carefulDisk_def apart_def\<close>)
qed

lemma fetchListed_ok:
  assumes "fetchListed env o1 f w = (Inr data, w')"
  shows "hexEncode (ev_Sha env data) = ff_SHA256 f"
  using assms by (auto simp: fetchListed_def Let_def split: prod.splits sum.splits if_splits)

text \<open>Errors after which nothing is restored.\<close>

definition leavesMixture :: "ApplyErr \<Rightarrow> bool" where
  "leavesMixture e \<longleftrightarrow> (case e of ApUnmapped _ \<Rightarrow> True | ApBackup _ \<Rightarrow> True | _ \<Rightarrow> False)"

lemma fetchListed_error: "fetchListed env o1 f w = (Inl e, w') \<Longrightarrow> \<not> leavesMixture e"
  by (auto simp: fetchListed_def leavesMixture_def Let_def split: prod.splits sum.splits if_splits)

lemma downloadFiles_outcome:
  assumes "downloadFiles env o1 files backups fs w = ((r, backups', fs'), w')"
    and "carefulDisk env" "backedUp fs0 ps backups fs" "apart (ps @ pathsOf o1 files)"
  shows "case r of
      None \<Rightarrow> (\<exists>qs. set qs = set ps \<union> set (pathsOf o1 files) \<and> backedUp fs0 qs backups' fs') \<and>
        (\<forall>f\<in>set files. \<exists>data. fs' (outPath o1 (ff_Name f)) = Some (OutFile data) \<and> hexEncode (ev_Sha env data) = ff_SHA256 f) \<and>
        (\<forall>p. p \<notin> set (pathsOf o1 files) \<and> p \<notin> backupPath ` set (pathsOf o1 files) \<longrightarrow> fs' p = fs p)
    | Some e \<Rightarrow> leavesMixture e \<or>
        (\<forall>p. fs0 p \<noteq> None \<and> p \<notin> backupPath ` (set ps \<union> set (pathsOf o1 files)) \<longrightarrow> fs' p = fs0 p)"
  using assms
proof (induction files arbitrary: backups fs w ps)
  case Nil
  then show ?case by auto
next
  case (Cons f files)
  let ?p = "outPath o1 (ff_Name f)"
  show ?case
  proof (cases "outName o1 (ff_Name f) = []")
    case True
    then show ?thesis using Cons.prems(1) by (auto simp: leavesMixture_def)
  next
    case mapped: False
    show ?thesis
    proof (cases "backUp env ?p backups fs")
      case None
      then show ?thesis using Cons.prems(1) mapped by (auto simp: leavesMixture_def Let_def)
    next
      case (Some x)
      obtain backups1 fs1 where x: "x = (backups1, fs1)" by (cases x)
      have fresh: "?p \<notin> set ps" "?p \<notin> backupPath ` set ps" "backupPath ?p \<notin> insert ?p (set ps)"
        and here: "apart (?p # ps)" and later: "apart ((?p # ps) @ pathsOf o1 files)"
        using Cons.prems(4) by (auto simp: apart_def)
      have b1: "backedUp fs0 (?p # ps) backups1 fs1"
        using backUp_step[OF Cons.prems(3) Some[unfolded x] fresh] Cons.prems(2) by (simp add: carefulDisk_def)
      have old: "q \<noteq> ?p \<Longrightarrow> q \<noteq> backupPath ?p \<Longrightarrow> fs1 q = fs q" for q
        using Some x by (auto simp: backUp_def renameOut_def split: if_splits option.splits prod.splits)
      have undone: "restoreBackups env backups1 fs2 q = fs0 q"
        if "backedUp fs0 (?p # ps) backups1 fs2" "fs0 q \<noteq> None" "q \<notin> backupPath ` set (?p # ps)" for fs2 q
        using restoreBackups_restored[OF Cons.prems(2) that(1) here that(2,3)] .
      have written: "backedUp fs0 (?p # ps) backups1 (fs1(?p := y))" for y
        by (rule backedUp_write[OF b1]) (use here in \<open>auto simp: apart_def\<close>)
      obtain got w1 where fetch: "fetchListed env o1 f w = (got, w1)" by fastforce
      show ?thesis
      proof (cases got)
        case (Inl e)
        then have "r = Some e" "fs' = restoreBackups env backups1 fs1"
          using Cons.prems(1) mapped Some x fetch by (auto simp: Let_def)
        then show ?thesis
          using undone[OF b1] by (simp add: image_Un)
      next
        case (Inr data)
        show ?thesis
        proof (cases "ev_Write env ?p")
          case failed: (Some left)
          then have "r = Some (ApWrite ?p)" "fs' = restoreBackups env backups1 (fs1(?p := left))"
            using Cons.prems(1) mapped Some x fetch Inr by (auto simp: Let_def writeOut_def)
          then show ?thesis
            using undone[OF written] by (simp add: image_Un)
        next
          case None
          let ?fs2 = "fs1(?p := Some (OutFile data))"
          have rest: "downloadFiles env o1 files backups1 ?fs2 w1 = ((r, backups', fs'), w')"
            using Cons.prems(1) mapped Some x fetch Inr None by (simp add: Let_def writeOut_def)
          have kept: "?p \<notin> set (pathsOf o1 files)" "?p \<notin> backupPath ` set (pathsOf o1 files)"
            using Cons.prems(4) by (auto simp: apart_def)
          show ?thesis
            using Cons.IH[OF rest Cons.prems(2) written later] fetchListed_ok[OF fetch[unfolded Inr]] kept old
            by (cases r) fastforce+
        qed
      qed
    qed
  qed
qed

section \<open>The whole operation\<close>

lemma removeBackups_other:
  assumes "carefulDisk env" "distinct backups" "p \<notin> snd ` set backups"
  shows "removeBackups env backups fs p = fs p"
proof -
  have frame: "fold (\<lambda>(dst, src) fs. if ev_Fails env (RemoveOut src) then fs else fs(src := None)) os fs p = fs p"
    if "p \<notin> snd ` set os" for os fs
    using that by (induction os arbitrary: fs) auto
  have "set (ev_Order env backups) = set backups"
    using assms(1,2) by (simp add: carefulDisk_def)
  then show ?thesis
    using frame[of "ev_Order env backups" fs] assms(3) by (simp add: removeBackups_def)
qed

lemma ApplyV1_downloads:
  assumes "ApplyV1 env o1 fs w = ((r, fs'), w')"
  obtains e where "r = Some e" "fs' = fs" "\<not> (\<exists>m. e = ApReload m)"
  | ar w1 e backups w2 where "requestCertificate env o1 w = (Inr ar, w1)"
      "downloadFiles env o1 (rp_Files ar) [] fs w1 = ((Some e, backups, fs'), w2)" "r = Some e"
  | ar w1 backups fs1 w2 where "requestCertificate env o1 w = (Inr ar, w1)"
      "downloadFiles env o1 (rp_Files ar) [] fs w1 = ((None, backups, fs1), w2)" "finishApply env o1 backups fs1 = (r, fs')"
proof -
  have names: "checkNames seen files = Some e \<Longrightarrow> \<not> (\<exists>m. e = ApReload m)" for seen files e
    by (induction files arbitrary: seen) (auto split: option.splits if_splits)
  have request: "requestCertificate env o1 w = (Inl e, w1) \<Longrightarrow> \<not> (\<exists>m. e = ApReload m)" for e w1
    by (auto simp: requestCertificate_def split: prod.splits sum.splits if_splits option.splits)
  obtain a w1 where a: "requestCertificate env o1 w = (a, w1)" by fastforce
  show thesis
  proof (cases a)
    case (Inl e)
    then have "r = Some e" "fs' = fs"
      using assms a by (simp_all add: ApplyV1_def)
    then show thesis using a Inl request that(1) by blast
  next
    case (Inr ar)
    show thesis
    proof (cases "ev_Fails env MakeOut \<or> checkNames [] (rp_Files ar) \<noteq> None")
      case True
      then obtain e where "r = Some e" "fs' = fs" "e = ApOutDir \<or> checkNames [] (rp_Files ar) = Some e"
        using assms a Inr by (cases "checkNames [] (rp_Files ar)"; cases "ev_Fails env MakeOut") (auto simp: ApplyV1_def)
      then show thesis
        using names that(1) by blast
    next
      case False
      obtain x backups fs1 w2 where d: "downloadFiles env o1 (rp_Files ar) [] fs w1 = ((x, backups, fs1), w2)"
        by (metis prod.collapse)
      show thesis
        using assms a Inr False d that(2)[of ar w1 _ backups w2] that(3)[of ar w1 backups fs1 w2]
        by (cases x) (simp_all add: ApplyV1_def)
    qed
  qed
qed

lemma downloadFiles_no_reload:
  "downloadFiles env o1 files backups fs w = ((Some e, backups', fs'), w') \<Longrightarrow> e \<noteq> ApReload m"
proof (induction files arbitrary: backups fs w)
  case (Cons f files)
  have "fetchListed env o1 f w = (Inl e, w1) \<Longrightarrow> e \<noteq> ApReload m" for w1
    by (auto simp: fetchListed_def Let_def split: prod.splits sum.splits if_splits)
  then show ?case
    using Cons by (auto simp: Let_def split: if_splits option.splits prod.splits sum.splits bool.splits)
qed simp



lemma downloadFiles_append:
  "downloadFiles env o1 files1 backups fs w = ((None, backups1, fs1), w1) \<Longrightarrow>
     downloadFiles env o1 (files1 @ files2) backups fs w = downloadFiles env o1 files2 backups1 fs1 w1"
  by (induction files1 arbitrary: backups fs w)
    (auto simp: Let_def split: if_splits option.splits prod.splits sum.splits bool.splits)

text \<open>C40: when the backup of a listed file cannot be made, the apply stops with a mixture: the files before it are the new
  ones, this one is still the old one, and nothing is put back.\<close>

theorem v1_backup_failure_mixes:
  assumes "requestCertificate env o1 w = (Inr ar, w1)" "rp_Files ar = done1 @ g # rest" "checkNames [] (rp_Files ar) = None"
    and "\<not> ev_Fails env MakeOut" "carefulDisk env" "separatePaths o1 (rp_Files ar)"
    and "downloadFiles env o1 done1 [] fs w1 = ((None, backups, fs1), w2)"
    and "outName o1 (ff_Name g) \<noteq> []" "fs (outPath o1 (ff_Name g)) = Some old" "ev_Fails env (BackupOut (outPath o1 (ff_Name g)))"
  shows "ApplyV1 env o1 fs w = ((Some (ApBackup (outPath o1 (ff_Name g))), fs1), w2) \<and>
    fs1 (outPath o1 (ff_Name g)) = Some old \<and>
    (\<forall>f\<in>set done1. \<exists>data. fs1 (outPath o1 (ff_Name f)) = Some (OutFile data) \<and> hexEncode (ev_Sha env data) = ff_SHA256 f)"
proof -
  let ?p = "outPath o1 (ff_Name g)"
  have all: "apart (pathsOf o1 done1 @ ?p # pathsOf o1 rest)"
    using assms(2,6) by (simp add: separatePaths_apart)
  then have "apart ([] @ pathsOf o1 done1)"
    by (auto simp: apart_def)
  note got = downloadFiles_outcome[OF assms(7,5) backedUp_Nil this]
  have "?p \<notin> set (pathsOf o1 done1)" "?p \<notin> backupPath ` set (pathsOf o1 done1)"
    using all by (auto simp: apart_def)
  then have same: "fs1 ?p = Some old"
    using got assms(9) by simp
  have "backUp env ?p backups fs1 = None"
    using same assms(5,10) by (simp add: backUp_def renameOut_def carefulDisk_def)
  then have "downloadFiles env o1 (rp_Files ar) [] fs w1 = ((Some (ApBackup ?p), backups, fs1), w2)"
    using assms(2,7,8) by (simp add: downloadFiles_append)
  then show ?thesis
    using assms(1,3,4) got same by (simp add: ApplyV1_def)
qed

section \<open>A concrete server and disk\<close>

definition listedFiles :: "ClientFile list" where
  "listedFiles = [\<lparr>ff_Name = ''cert.pem'', ff_Size = 1, ff_SHA256 = ''42''\<rparr>, \<lparr>ff_Name = ''key.pem'', ff_Size = 1, ff_SHA256 = ''42''\<rparr>]"

definition listedBody :: JsonValue where
  "listedBody = JsonObject [(''success'', JsonBool True), (''files'', JsonArray (map (\<lambda>n. JsonObject
     [(''name'', JsonText n), (''size'', JsonNumber 1), (''sha256'', JsonText ''42'')]) [''cert.pem'', ''key.pem'']))]"

definition listedResp :: ApplyResp where
  "listedResp = noApplyResp\<lparr>rp_Success := True, rp_Files := listedFiles\<rparr>"

text \<open>A server whose files are all the same byte.\<close>

definition listingTransport :: "unit Transport" where
  "listingTransport =
     \<lparr>tp_Do = (\<lambda>method path body w. (Answered \<lparr>hr_Status = 200, hr_Location = [], hr_RetryAfter = [],
        hr_Body = (if method = ''POST'' then JsonBody listedBody else RawBytes ''N'')\<rparr>, w)),
      tp_Sleep = (\<lambda>_ w. (None, w)), tp_Text = (\<lambda>_. [])\<rparr>"

definition outEnv :: "(OutPoint \<Rightarrow> bool) \<Rightarrow> string option \<Rightarrow> unit ApplyEnv" where
  "outEnv fails verify =
     \<lparr>ev_Transport = listingTransport,
      ev_Settings = \<lparr>cs_URL = Some (''https'', ''h''), cs_Development = False, cs_InsecureHTTP = False, cs_RetryMin = 0, cs_RetryMax = 0\<rparr>,
      ev_Sha = (\<lambda>_. ''B''), ev_Fails = fails, ev_Write = (\<lambda>_. None), ev_Shell = (\<lambda>_ _ _. verify), ev_Order = (\<lambda>l. l)\<rparr>"

definition outOpts :: ApplyOpts where
  "outOpts = \<lparr>ap_Domain = ''a.b'', ap_SAN = [], ap_ChallengeMode = [], ap_DNSProvider = [], ap_WebrootPath = [], ap_CA = [],
     ap_Keylength = [], ap_OutDir = ''/o'', ap_CertFile = ''c'', ap_KeyFile = ''k'', ap_FullchainFile = ''f'', ap_CAFile = ''a'',
     ap_VerifyCmd = ''check'', ap_ReloadCmd = [], ap_Force = False\<rparr>"

definition oldOut :: OutFiles where
  "oldOut = (\<lambda>p. if p = ''/o/c'' \<or> p = ''/o/k'' then Some (OutFile ''O'') else None)"

lemma listed_request: "doRequestCtx (ev_Transport (outEnv fails v)) (ev_Settings (outEnv fails v)) method path body w =
    (Inr \<lparr>hr_Status = 200, hr_Location = [], hr_RetryAfter = [],
          hr_Body = (if method = ''POST'' then JsonBody listedBody else RawBytes ''N'')\<rparr>, w)"
  by (simp add: doRequestCtx_def ValidateServer_def outEnv_def doRequestLoop.simps retryBounds_def Let_def bodyTooLarge_def
      listingTransport_def bodyBytesOf_def)

lemma listed_answer: "requestCertificate (outEnv fails v) outOpts w = (Inr listedResp, w)"
proof -
  have "decodeApplyResp (JsonBody listedBody) = Some listedResp" "rp_Success listedResp"
    by code_simp+
  then show ?thesis
    by (simp add: requestCertificate_def listed_request)
qed

lemma listed_paths: "outPath outOpts ''cert.pem'' = ''/o/c''" "outPath outOpts ''key.pem'' = ''/o/k''"
    "outName outOpts ''cert.pem'' = ''c''" "outName outOpts ''key.pem'' = ''k''" "checkNames [] (rp_Files listedResp) = None"
    "separatePaths outOpts (rp_Files listedResp)"
  by code_simp+

lemma listed_fetch:
  "f \<in> set (rp_Files listedResp) \<Longrightarrow> fetchListed (outEnv fails v) outOpts f w = (Inr ''N'', w)"
proof -
  have "hexEncode ''B'' = ''42''"
    by code_simp
  then show "f \<in> set (rp_Files listedResp) \<Longrightarrow> ?thesis"
    unfolding fetchListed_def listed_request by (auto simp: bodyBytesOf_def outEnv_def listedResp_def listedFiles_def)
qed

lemma careful_demo: "(\<And>p. \<not> fails (StatOut p) \<and> \<not> fails (RestoreOut p)) \<Longrightarrow> carefulDisk (outEnv fails v)"
  by (simp add: carefulDisk_def outEnv_def)

theorem v1_backup_failure_mixes_witness:
  "\<exists>fs1 w. ApplyV1 (outEnv (\<lambda>p. p = BackupOut ''/o/k'') None) outOpts oldOut () = ((Some (ApBackup ''/o/k''), fs1), w) \<and>
     fs1 ''/o/k'' = Some (OutFile ''O'') \<and> fs1 ''/o/c'' = Some (OutFile ''N'')"
proof -
  let ?env = "outEnv (\<lambda>p. p = BackupOut ''/o/k'') None"
  let ?f = "\<lparr>ff_Name = ''cert.pem'', ff_Size = 1, ff_SHA256 = ''42''\<rparr>" and ?g = "\<lparr>ff_Name = ''key.pem'', ff_Size = 1, ff_SHA256 = ''42''\<rparr>"
  let ?fs1 = "oldOut(''/o/c'' := None, ''/o/c.bak'' := Some (OutFile ''O''), ''/o/c'' := Some (OutFile ''N''))"
  have files: "rp_Files listedResp = [?f] @ ?g # []"
    by (simp add: listedResp_def listedFiles_def)
  have down: "downloadFiles ?env outOpts [?f] [] oldOut () = ((None, [(''/o/c'', ''/o/c.bak'')], ?fs1), ())"
    using listed_fetch[of ?f "\<lambda>p. p = BackupOut ''/o/k''" None "()"] files
    by (simp add: listed_paths backUp_def renameOut_def writeOut_def oldOut_def Let_def)
      (simp add: outEnv_def backupPath_def)
  have "ApplyV1 ?env outOpts oldOut () = ((Some (ApBackup (outPath outOpts (ff_Name ?g))), ?fs1), ())"
    by (rule conjunct1[OF v1_backup_failure_mixes[OF listed_answer files listed_paths(5) _ careful_demo listed_paths(6) down]])
      (simp_all add: listed_paths oldOut_def, simp_all add: outEnv_def)
  then show ?thesis
    by (auto simp: listed_paths oldOut_def)
qed

lemma listed_run:
  "\<exists>fs'. ApplyV1 (outEnv (\<lambda>_. False) v) outOpts oldOut () = ((map_option ApVerify v, fs'), ())"
proof -
  let ?env = "outEnv (\<lambda>_. False) v"
  let ?f = "\<lparr>ff_Name = ''cert.pem'', ff_Size = 1, ff_SHA256 = ''42''\<rparr>" and ?g = "\<lparr>ff_Name = ''key.pem'', ff_Size = 1, ff_SHA256 = ''42''\<rparr>"
  have files: "rp_Files listedResp = [?f, ?g]"
    by (simp add: listedResp_def listedFiles_def)
  have env: "ev_Write ?env = (\<lambda>_. None)" "ev_Fails ?env = (\<lambda>_. False)"
    by (simp_all add: outEnv_def)
  have names: "backupPath ''/o/c'' = ''/o/c.bak''" "backupPath ''/o/k'' = ''/o/k.bak''"
    by (simp_all add: backupPath_def)
  obtain b fs1 where "downloadFiles ?env outOpts [?f, ?g] [] oldOut () = ((None, b, fs1), ())"
    using listed_fetch[of ?f "\<lambda>_. False" v "()"] listed_fetch[of ?g "\<lambda>_. False" v "()"] files
    by (simp add: listed_paths backUp_def renameOut_def writeOut_def oldOut_def Let_def env names)
  then have "ApplyV1 ?env outOpts oldOut () = (finishApply ?env outOpts b fs1, ())"
    using listed_paths(5) by (simp add: ApplyV1_def listed_answer env files)
  moreover have "\<exists>fs'. finishApply ?env outOpts b fs1 = (map_option ApVerify v, fs')"
    by (cases v) (simp_all add: finishApply_def optionalCommand_def outEnv_def outOpts_def Let_def)
  ultimately show ?thesis
    by auto
qed



end
