(* ===== verification/Registry.thy ===== *)
theory Registry
  imports AcmeText CertFiles
begin

text \<open>
  The registry of metrics and readiness checks (\<^verbatim>\<open>internal/observability/registry.go\<close>).  A Go map is a
  list of pairs with distinct keys, in the order in which a range over it visits them.  The numbers
  (\<^verbatim>\<open>float64\<close>) and \<^verbatim>\<open>strconv.Quote\<close> are arguments; every call holds the lock of the registry, so
  calls are steps of the state.
\<close>

section \<open>State\<close>

type_synonym Labels = "(string \<times> string) list"

datatype MetricType = CounterType | GaugeType

datatype RegErr =
    InvalidMetricName string | InvalidLabel string | SensitiveLabel string | MetricConflict string
  | NilCheck | CheckExists string

text \<open>What the registry uses of floating point numbers.\<close>

record 'v Floats =
  fl_Zero :: 'v
  fl_One :: 'v
  fl_Add :: "'v \<Rightarrow> 'v \<Rightarrow> 'v"
  fl_Negative :: "'v \<Rightarrow> bool"
  fl_Finite :: "'v \<Rightarrow> bool"
  fl_Format :: "'v \<Rightarrow> string"

record 'v Series =
  sr_Labels :: Labels
  sr_Value :: 'v

record 'v Metric =
  mt_Help :: string
  mt_Type :: MetricType
  mt_LabelNames :: "string list"
  mt_Series :: "(string \<times> 'v Series) list"

text \<open>A check runs in a world and gives the text of its error, if it fails.\<close>

type_synonym 'w Check = "'w \<Rightarrow> string option \<times> 'w"

record ('v, 'w) Registry =
  rg_Metrics :: "(string \<times> 'v Metric) list"
  rg_Checks :: "(string \<times> 'w Check) list"

definition NewRegistry :: "('v, 'w) Registry" where
  "NewRegistry = \<lparr>rg_Metrics = [], rg_Checks = []\<rparr>"

section \<open>Names\<close>

definition isASCIILetter :: "char \<Rightarrow> bool" where
  "isASCIILetter c \<longleftrightarrow> byteIn (CHR ''a'') (CHR ''z'') c \<or> byteIn (CHR ''A'') (CHR ''Z'') c"

text \<open>A byte of a longer rune is refused, as the rune is.\<close>

definition identChar :: "bool \<Rightarrow> char \<Rightarrow> bool" where
  "identChar allowColon c \<longleftrightarrow> c = CHR '':'' \<and> allowColon \<or> c = CHR ''_'' \<or> isASCIILetter c"

definition validIdentifier :: "string \<Rightarrow> bool \<Rightarrow> bool" where
  "validIdentifier name allowColon \<longleftrightarrow>
     (case name of
        [] \<Rightarrow> False
      | c # cs \<Rightarrow> \<not> hasPrefix name ''__'' \<and> identChar allowColon c \<and> list_all (\<lambda>d. identChar allowColon d \<or> isDigit d) cs)"

definition sensitiveWords :: "string list" where
  "sensitiveWords = [''token'', ''secret'', ''authorization'', ''domain'', ''password'', ''credential'', ''api_key'', ''apikey'']"

definition isSensitiveName :: "string \<Rightarrow> bool" where
  "isSensitiveName name = list_ex (\<lambda>w. sublist w (lowerRunes name)) sensitiveWords"

definition validateLabelName :: "string \<Rightarrow> RegErr option" where
  "validateLabelName name = firstErr
     [failIf (isSensitiveName name) (SensitiveLabel name), failIf (\<not> validIdentifier name False) (InvalidLabel name)]"

text \<open>The names are sorted; \<open>prev\<close> is the one before.\<close>

fun labelNamesErr :: "string option \<Rightarrow> string list \<Rightarrow> RegErr option" where
  "labelNamesErr prev [] = None"
| "labelNamesErr prev (n # ns) =
     (case validateLabelName n of
        Some e \<Rightarrow> Some e
      | None \<Rightarrow> if prev = Some n then Some (InvalidLabel n) else labelNamesErr (Some n) ns)"

definition normalizedLabelNames :: "string list \<Rightarrow> RegErr + string list" where
  "normalizedLabelNames labelNames = (let labels = sort labelNames in guardR (labelNamesErr None labels) (Inr labels))"

definition ValidateLabels :: "Labels \<Rightarrow> RegErr option" where
  "ValidateLabels labels =
     firstErr (map (\<lambda>(n, v). firstErr [validateLabelName n, failIf (contains (CHR 0x00) v) (InvalidLabel n)]) labels)"

section \<open>Metrics\<close>

definition registerMetric ::
  "string \<Rightarrow> string \<Rightarrow> MetricType \<Rightarrow> string list \<Rightarrow> ('v, 'w) Registry \<Rightarrow> RegErr option \<times> ('v, 'w) Registry" where
  "registerMetric name help typ labelNames r =
     (if \<not> validIdentifier name True then (Some (InvalidMetricName name), r)
      else case normalizedLabelNames labelNames of
        Inl e \<Rightarrow> (Some e, r)
      | Inr labels \<Rightarrow>
          (case map_of (rg_Metrics r) name of
             Some m \<Rightarrow> (failIf (mt_Type m \<noteq> typ \<or> mt_Help m \<noteq> help \<or> mt_LabelNames m \<noteq> labels) (MetricConflict name), r)
           | None \<Rightarrow>
               (None, r\<lparr>rg_Metrics := (name, \<lparr>mt_Help = help, mt_Type = typ, mt_LabelNames = labels, mt_Series = []\<rparr>) # rg_Metrics r\<rparr>)))"

definition metricFor :: "string \<Rightarrow> MetricType \<Rightarrow> Labels \<Rightarrow> ('v, 'w) Registry \<Rightarrow> RegErr + 'v Metric" where
  "metricFor name typ labels r =
     (case map_of (rg_Metrics r) name of
        None \<Rightarrow> Inl (MetricConflict name)
      | Some m \<Rightarrow>
          guardR (firstErr ([failIf (mt_Type m \<noteq> typ) (MetricConflict name), ValidateLabels labels,
                    failIf (length labels \<noteq> length (mt_LabelNames m)) (InvalidLabel name)]
                    @ map (\<lambda>n. failIf (map_of labels n = None) (InvalidLabel n)) (mt_LabelNames m)))
            (Inr m))"

definition labelText :: "Labels \<Rightarrow> string \<Rightarrow> string" where
  "labelText labels n = (case map_of labels n of None \<Rightarrow> [] | Some v \<Rightarrow> v)"

definition labelsKey :: "(string \<Rightarrow> string) \<Rightarrow> string list \<Rightarrow> Labels \<Rightarrow> string" where
  "labelsKey quote names labels = concat (map (\<lambda>n. n @ ''='' @ quote (labelText labels n) @ '';'') names)"

definition putSeries :: "string \<Rightarrow> 'v Metric \<Rightarrow> string \<Rightarrow> 'v Series \<Rightarrow> ('v, 'w) Registry \<Rightarrow> ('v, 'w) Registry" where
  "putSeries name m key item r =
     r\<lparr>rg_Metrics := AList.update name (m\<lparr>mt_Series := AList.update key item (mt_Series m)\<rparr>) (rg_Metrics r)\<rparr>"

definition addSample ::
  "'v Floats \<Rightarrow> (string \<Rightarrow> string) \<Rightarrow> string \<Rightarrow> MetricType \<Rightarrow> Labels \<Rightarrow> 'v \<Rightarrow> ('v, 'w) Registry \<Rightarrow> RegErr option \<times> ('v, 'w) Registry" where
  "addSample fl quote name typ labels v r =
     (case metricFor name typ labels r of
        Inl e \<Rightarrow> (Some e, r)
      | Inr m \<Rightarrow>
          (let key = labelsKey quote (mt_LabelNames m) labels;
               old = (case map_of (mt_Series m) key of None \<Rightarrow> fl_Zero fl | Some item \<Rightarrow> sr_Value item)
           in (None, putSeries name m key \<lparr>sr_Labels = labels, sr_Value = fl_Add fl old v\<rparr> r)))"

definition setSample ::
  "(string \<Rightarrow> string) \<Rightarrow> string \<Rightarrow> MetricType \<Rightarrow> Labels \<Rightarrow> 'v \<Rightarrow> ('v, 'w) Registry \<Rightarrow> RegErr option \<times> ('v, 'w) Registry" where
  "setSample quote name typ labels v r =
     (case metricFor name typ labels r of
        Inl e \<Rightarrow> (Some e, r)
      | Inr m \<Rightarrow> (None, putSeries name m (labelsKey quote (mt_LabelNames m) labels) \<lparr>sr_Labels = labels, sr_Value = v\<rparr> r))"

text \<open>The operations of the handles; a handle is the name of its metric.\<close>

definition Counter_Add ::
  "'v Floats \<Rightarrow> (string \<Rightarrow> string) \<Rightarrow> string \<Rightarrow> Labels \<Rightarrow> 'v \<Rightarrow> ('v, 'w) Registry \<Rightarrow> RegErr option \<times> ('v, 'w) Registry" where
  "Counter_Add fl quote name labels v r =
     (if fl_Negative fl v \<or> \<not> fl_Finite fl v then (Some (InvalidLabel name), r)
      else addSample fl quote name CounterType labels v r)"

definition Counter_Inc ::
  "'v Floats \<Rightarrow> (string \<Rightarrow> string) \<Rightarrow> string \<Rightarrow> Labels \<Rightarrow> ('v, 'w) Registry \<Rightarrow> RegErr option \<times> ('v, 'w) Registry" where
  "Counter_Inc fl quote name labels r = Counter_Add fl quote name labels (fl_One fl) r"

definition Gauge_Set ::
  "'v Floats \<Rightarrow> (string \<Rightarrow> string) \<Rightarrow> string \<Rightarrow> Labels \<Rightarrow> 'v \<Rightarrow> ('v, 'w) Registry \<Rightarrow> RegErr option \<times> ('v, 'w) Registry" where
  "Gauge_Set fl quote name labels v r =
     (if \<not> fl_Finite fl v then (Some (InvalidLabel name), r) else setSample quote name GaugeType labels v r)"

definition Gauge_Add ::
  "'v Floats \<Rightarrow> (string \<Rightarrow> string) \<Rightarrow> string \<Rightarrow> Labels \<Rightarrow> 'v \<Rightarrow> ('v, 'w) Registry \<Rightarrow> RegErr option \<times> ('v, 'w) Registry" where
  "Gauge_Add fl quote name labels v r =
     (if \<not> fl_Finite fl v then (Some (InvalidLabel name), r) else addSample fl quote name GaugeType labels v r)"

section \<open>The text\<close>

record 'v MetricSnapshot =
  ms_Name :: string
  ms_Help :: string
  ms_Type :: MetricType
  ms_Samples :: "'v Series list"

text \<open>Metrics and series in the order of their names and keys.\<close>

definition inOrder :: "(string \<times> 'a) list \<Rightarrow> (string \<times> 'a) list" where
  "inOrder xs = sort_key fst xs"

definition metricSnapshot :: "string \<times> 'v Metric \<Rightarrow> 'v MetricSnapshot" where
  "metricSnapshot nm =
     \<lparr>ms_Name = fst nm, ms_Help = mt_Help (snd nm), ms_Type = mt_Type (snd nm),
      ms_Samples = map snd (inOrder (mt_Series (snd nm)))\<rparr>"

definition RegistrySnapshot :: "('v, 'w) Registry \<Rightarrow> 'v MetricSnapshot list" where
  "RegistrySnapshot r = map metricSnapshot (inOrder (rg_Metrics r))"

definition escapeLabelValue :: "string \<Rightarrow> string" where
  "escapeLabelValue v =
     replaceAll [CHR 0x22] [CHR 0x5C, CHR 0x22] (replaceAll [CHR 0x0A] [CHR 0x5C, CHR ''n''] (replaceAll [CHR 0x5C] [CHR 0x5C, CHR 0x5C] v))"

definition escapeHelp :: "string \<Rightarrow> string" where
  "escapeHelp h = replaceAll [CHR 0x0A] [CHR 0x5C, CHR ''n''] (replaceAll [CHR 0x5C] [CHR 0x5C, CHR 0x5C] h)"

definition formatLabels :: "Labels \<Rightarrow> string" where
  "formatLabels labels =
     (if labels = [] then []
      else ''{'' @ joinWith '','' (map (\<lambda>(n, v). n @ ''='' @ [CHR 0x22] @ escapeLabelValue v @ [CHR 0x22]) (inOrder labels)) @ ''}'')"

definition typeName :: "MetricType \<Rightarrow> string" where
  "typeName t = (case t of CounterType \<Rightarrow> ''counter'' | GaugeType \<Rightarrow> ''gauge'')"

definition sampleLine :: "'v Floats \<Rightarrow> string \<Rightarrow> 'v Series \<Rightarrow> string" where
  "sampleLine fl name s = name @ formatLabels (sr_Labels s) @ '' '' @ fl_Format fl (sr_Value s) @ [CHR 0x0A]"

definition metricText :: "'v Floats \<Rightarrow> 'v MetricSnapshot \<Rightarrow> string" where
  "metricText fl m =
     ''# HELP '' @ ms_Name m @ '' '' @ escapeHelp (ms_Help m) @ [CHR 0x0A] @
     ''# TYPE '' @ ms_Name m @ '' '' @ typeName (ms_Type m) @ [CHR 0x0A] @
     concat (map (sampleLine fl (ms_Name m)) (ms_Samples m))"

definition PrometheusText :: "'v Floats \<Rightarrow> ('v, 'w) Registry \<Rightarrow> string" where
  "PrometheusText fl r = concat (map (metricText fl) (RegistrySnapshot r))"

section \<open>The standard metrics\<close>

record StandardMetrics =
  sm_Requests :: string
  sm_ACME :: string
  sm_Jobs :: string
  sm_Deployments :: string
  sm_Readiness :: string

definition HelpRequests :: string where
  "HelpRequests = map char_of ([0xE5, 0xA4, 0x84, 0xE7, 0x90, 0x86, 0xE7, 0x9A, 0x84, 0x20, 0x48, 0x54, 0x54, 0x50, 0x20,
     0xE8, 0xAF, 0xB7, 0xE6, 0xB1, 0x82, 0xE6, 0x80, 0xBB, 0xE6, 0x95, 0xB0] :: nat list)"

definition HelpACME :: string where
  "HelpACME = map char_of ([0xE6, 0x89, 0xA7, 0xE8, 0xA1, 0x8C, 0xE7, 0x9A, 0x84, 0x20, 0x41, 0x43, 0x4D, 0x45, 0x20,
     0xE6, 0x93, 0x8D, 0xE4, 0xBD, 0x9C, 0xE6, 0x80, 0xBB, 0xE6, 0x95, 0xB0] :: nat list)"

definition HelpJobs :: string where
  "HelpJobs = map char_of ([0xE6, 0x89, 0xA7, 0xE8, 0xA1, 0x8C, 0xE7, 0x9A, 0x84, 0xE5, 0x90, 0x8E, 0xE5, 0x8F, 0xB0,
     0xE4, 0xBB, 0xBB, 0xE5, 0x8A, 0xA1, 0xE6, 0x80, 0xBB, 0xE6, 0x95, 0xB0] :: nat list)"

definition HelpDeployments :: string where
  "HelpDeployments = map char_of ([0xE6, 0x89, 0xA7, 0xE8, 0xA1, 0x8C, 0xE7, 0x9A, 0x84, 0xE9, 0x83, 0xA8, 0xE7, 0xBD, 0xB2,
     0xE6, 0x80, 0xBB, 0xE6, 0x95, 0xB0] :: nat list)"

definition HelpReadiness :: string where
  "HelpReadiness = map char_of ([0xE5, 0xB0, 0xB1, 0xE7, 0xBB, 0xAA, 0xE6, 0xA3, 0x80, 0xE6, 0x9F, 0xA5, 0xE7, 0x8A, 0xB6,
     0xE6, 0x80, 0x81, 0xEF, 0xBC, 0x8C, 0xE6, 0x88, 0x90, 0xE5, 0x8A, 0x9F, 0xE4, 0xB8, 0xBA,
     0x20, 0x31] :: nat list)"

definition standardDefs :: "(string \<times> string \<times> MetricType \<times> string list) list" where
  "standardDefs =
     [(''certkeeper_requests_total'', HelpRequests, CounterType, [''method'', ''status'']),
      (''certkeeper_acme_operations_total'', HelpACME, CounterType, [''operation'', ''status'']),
      (''certkeeper_jobs_total'', HelpJobs, CounterType, [''job'', ''status'']),
      (''certkeeper_deployments_total'', HelpDeployments, CounterType, [''status'']),
      (''certkeeper_readiness'', HelpReadiness, GaugeType, [''check''])]"

text \<open>Registrations in order, up to the first error.\<close>

fun registerAll :: "(string \<times> string \<times> MetricType \<times> string list) list \<Rightarrow> ('v, 'w) Registry \<Rightarrow> RegErr option \<times> ('v, 'w) Registry" where
  "registerAll [] r = (None, r)"
| "registerAll ((name, help, typ, labels) # defs) r =
     (case registerMetric name help typ labels r of (Some e, r1) \<Rightarrow> (Some e, r1) | (None, r1) \<Rightarrow> registerAll defs r1)"

definition StandardMetricsOf :: "('v, 'w) Registry \<Rightarrow> (RegErr + StandardMetrics) \<times> ('v, 'w) Registry" where
  "StandardMetricsOf r =
     (case registerAll standardDefs r of
        (Some e, r1) \<Rightarrow> (Inl e, r1)
      | (None, r1) \<Rightarrow>
          (Inr \<lparr>sm_Requests = ''certkeeper_requests_total'', sm_ACME = ''certkeeper_acme_operations_total'',
                sm_Jobs = ''certkeeper_jobs_total'', sm_Deployments = ''certkeeper_deployments_total'',
                sm_Readiness = ''certkeeper_readiness''\<rparr>, r1))"

section \<open>Readiness\<close>

record CheckResult =
  chk_Name :: string
  chk_Passed :: bool

record ReadinessReport =
  rdy_Ready :: bool
  rdy_Checks :: "CheckResult list"

definition RegisterReadiness :: "string \<Rightarrow> 'w Check option \<Rightarrow> ('v, 'w) Registry \<Rightarrow> RegErr option \<times> ('v, 'w) Registry" where
  "RegisterReadiness name check r =
     (case check of
        None \<Rightarrow> (Some NilCheck, r)
      | Some c \<Rightarrow>
          (case validateLabelName name of
             Some e \<Rightarrow> (Some e, r)
           | None \<Rightarrow>
               if map_of (rg_Checks r) name \<noteq> None then (Some (CheckExists name), r)
               else (None, r\<lparr>rg_Checks := (name, c) # rg_Checks r\<rparr>)))"

fun runChecks :: "(string \<times> 'w Check) list \<Rightarrow> 'w \<Rightarrow> CheckResult list \<times> 'w" where
  "runChecks [] w = ([], w)"
| "runChecks ((name, c) # cs) w =
     (case c w of (err, w1) \<Rightarrow>
      case runChecks cs w1 of (results, w2) \<Rightarrow> (\<lparr>chk_Name = name, chk_Passed = (err = None)\<rparr> # results, w2))"

text \<open>The report and the names in the joined error: the texts of the checks' errors are not passed on.\<close>

definition CheckReadiness :: "('v, 'w) Registry \<Rightarrow> 'w \<Rightarrow> (ReadinessReport \<times> string list) \<times> 'w" where
  "CheckReadiness r w =
     (case runChecks (inOrder (rg_Checks r)) w of (results, w1) \<Rightarrow>
      ((\<lparr>rdy_Ready = list_all chk_Passed results, rdy_Checks = results\<rparr>,
        map chk_Name (filter (\<lambda>c. \<not> chk_Passed c) results)), w1))"

end
