(* ===== verification/Observed.thy ===== *)
theory Observed
  imports Registry ApiV1
begin

text \<open>
  The whole handler of the server (\<^verbatim>\<open>internal/api/server.go\<close>): the routes of \<^verbatim>\<open>ApiV1\<close>, the endpoints of the
  metrics and of the readiness checks, and the counter of the requests around them.
\<close>

record 'v Observing =
  ob_Floats :: "'v Floats"
  ob_Quote :: "string \<Rightarrow> string"
  ob_MetricsEnabled :: bool
  ob_ReadyEnabled :: bool

text \<open>The registry is absent in a server without metrics; its checks run in the state of the server.\<close>

record ('v, 'e) ObservedState =
  os_Server :: "'e ServerState"
  os_Registry :: "('v, 'e ServerState) Registry option"

section \<open>Metrics\<close>

definition metricsHandler :: "'v Floats \<Rightarrow> ('v, 'w) Registry \<Rightarrow> HttpResponse" where
  "metricsHandler fl reg = writeJSON 200 (Some (RawBytes (PrometheusText fl reg)))"

section \<open>Readiness\<close>

fun recordChecks :: "'v Floats \<Rightarrow> (string \<Rightarrow> string) \<Rightarrow> string \<Rightarrow> CheckResult list \<Rightarrow> ('v, 'w) Registry \<Rightarrow> ('v, 'w) Registry" where
  "recordChecks fl quote gauge [] reg = reg"
| "recordChecks fl quote gauge (c # cs) reg =
     recordChecks fl quote gauge cs
       (snd (Gauge_Set fl quote gauge [(''check'', chk_Name c)] (if chk_Passed c then fl_One fl else fl_Zero fl) reg))"

definition recordReadiness :: "'v Floats \<Rightarrow> (string \<Rightarrow> string) \<Rightarrow> ReadinessReport \<Rightarrow> ('v, 'w) Registry \<Rightarrow> ('v, 'w) Registry" where
  "recordReadiness fl quote report reg =
     (case StandardMetricsOf reg of
        (Inl _, reg1) \<Rightarrow> reg1
      | (Inr std, reg1) \<Rightarrow> recordChecks fl quote (sm_Readiness std) (rdy_Checks report) reg1)"

definition encodeReadiness :: "ReadinessReport \<Rightarrow> JsonValue" where
  "encodeReadiness report =
     JsonObject [(''Ready'', JsonBool (rdy_Ready report)),
       (''Checks'', JsonArray (map (\<lambda>c. JsonObject [(''Name'', JsonText (chk_Name c)), (''Passed'', JsonBool (chk_Passed c))]) (rdy_Checks report)))]"

definition readyz :: "'v Floats \<Rightarrow> (string \<Rightarrow> string) \<Rightarrow> ('v, 'w) Registry \<Rightarrow> 'w \<Rightarrow> HttpResponse \<times> ('v, 'w) Registry \<times> 'w" where
  "readyz fl quote reg w =
     (case CheckReadiness reg w of ((report, failures), w1) \<Rightarrow>
        (writeJSON (if failures \<noteq> [] \<or> \<not> rdy_Ready report then 503 else 200) (Some (JsonBody (encodeReadiness report))),
         recordReadiness fl quote report reg, w1))"

section \<open>The handler\<close>

definition metricsOn :: "'v Observing \<Rightarrow> ('v, 'e) ObservedState \<Rightarrow> bool" where
  "metricsOn ob s \<longleftrightarrow> os_Registry s \<noteq> None \<and> ob_MetricsEnabled ob"

text \<open>
  \<^verbatim>\<open>Handler\<close> registers the standard metrics when it is built, and counts requests only if that succeeds.
\<close>

definition buildHandler :: "'v Observing \<Rightarrow> ('v, 'e) ObservedState \<Rightarrow> string option \<times> ('v, 'e) ObservedState" where
  "buildHandler ob s =
     (case os_Registry s of
        None \<Rightarrow> (None, s)
      | Some reg \<Rightarrow>
          if \<not> ob_MetricsEnabled ob then (None, s)
          else (case StandardMetricsOf reg of
                  (Inl _, reg1) \<Rightarrow> (None, s\<lparr>os_Registry := Some reg1\<rparr>)
                | (Inr std, reg1) \<Rightarrow> (Some (sm_Requests std), s\<lparr>os_Registry := Some reg1\<rparr>)))"

definition onlyGet :: "string \<Rightarrow> 'a \<Rightarrow> (HttpResponse \<Rightarrow> 'a) \<Rightarrow> 'a" where
  "onlyGet method handled refused =
     (case methodHandler [''GET''] method handled of
        Handled x \<Rightarrow> x | _ \<Rightarrow> refused (answerError 405 ''method not allowed''))"

definition serveRoutes ::
  "'v Observing \<Rightarrow> 'e LegacyServer \<Rightarrow> V1Surroundings \<Rightarrow> V1Request \<Rightarrow> ('v, 'e) ObservedState \<Rightarrow> HttpResponse \<times> ('v, 'e) ObservedState" where
  "serveRoutes ob sv sr r s =
     (let path = rq_Path (wr_Http r); method = rq_Method (wr_Http r)
      in case os_Registry s of
           Some reg \<Rightarrow>
             if path = ''/metrics'' \<and> metricsOn ob s
             then onlyGet method (metricsHandler (ob_Floats ob) reg, s) (\<lambda>e. (e, s))
             else if path = ''/readyz'' \<and> ob_ReadyEnabled ob
             then onlyGet method
                    (case readyz (ob_Floats ob) (ob_Quote ob) reg (os_Server s) of
                       (resp, reg1, srv1) \<Rightarrow> (resp, s\<lparr>os_Registry := Some reg1, os_Server := srv1\<rparr>))
                    (\<lambda>e. (e, s))
             else (case serveServer sv sr r (os_Server s) of (resp, srv1) \<Rightarrow> (resp, s\<lparr>os_Server := srv1\<rparr>))
         | None \<Rightarrow> (case serveServer sv sr r (os_Server s) of (resp, srv1) \<Rightarrow> (resp, s\<lparr>os_Server := srv1\<rparr>)))"

text \<open>\<^verbatim>\<open>requestMetricsMiddleware\<close>: \<open>counter\<close> is what \<open>buildHandler\<close> has found.\<close>

definition countRequest :: "'v Observing \<Rightarrow> string option \<Rightarrow> string \<Rightarrow> nat \<Rightarrow> ('v, 'e) ObservedState \<Rightarrow> ('v, 'e) ObservedState" where
  "countRequest ob counter method status s =
     (case (counter, os_Registry s) of
        (Some name, Some reg) \<Rightarrow>
          s\<lparr>os_Registry := Some (snd (Counter_Inc (ob_Floats ob) (ob_Quote ob) name
               [(''method'', method), (''status'', showNat status)] reg))\<rparr>
      | _ \<Rightarrow> s)"

definition serveObserved ::
  "'v Observing \<Rightarrow> string option \<Rightarrow> 'e LegacyServer \<Rightarrow> V1Surroundings \<Rightarrow> V1Request \<Rightarrow> ('v, 'e) ObservedState
     \<Rightarrow> HttpResponse \<times> ('v, 'e) ObservedState" where
  "serveObserved ob counter sv sr r s =
     (case serveRoutes ob sv sr r s of (resp, s1) \<Rightarrow> (resp, countRequest ob counter (rq_Method (wr_Http r)) (hr_Status resp) s1))"

end
