(* ===== verification/RegistryProofs.thy ===== *)
theory RegistryProofs
  imports Registry
begin

text \<open>
  The registry: its invariant over every sequence of calls, the totals of the counters and gauges as an
  abstract map from metric and labels to values, and the text format read back.
\<close>

section \<open>The keys of the series\<close>

text \<open>What is used of \<^verbatim>\<open>strconv.Quote\<close>: its result is a Go string literal, which ends itself.\<close>

definition quoteLaw :: "(string \<Rightarrow> string) \<Rightarrow> bool" where
  "quoteLaw quote \<longleftrightarrow> (\<forall>s t x y. quote s @ x = quote t @ y \<longrightarrow> s = t \<and> x = y)"

lemma quoteLawD: "quoteLaw quote \<Longrightarrow> quote s @ x = quote t @ y \<Longrightarrow> s = t \<and> x = y"
  unfolding quoteLaw_def by blast

lemma labelsKey_inject:
  "quoteLaw quote \<Longrightarrow> labelsKey quote names a = labelsKey quote names b \<Longrightarrow> n \<in> set names \<Longrightarrow> labelText a n = labelText b n"
proof (induction names)
  case (Cons m names)
  have "quote (labelText a m) @ '';'' @ labelsKey quote names a = quote (labelText b m) @ '';'' @ labelsKey quote names b"
    using Cons.prems(2) by (simp add: labelsKey_def)
  then have "labelText a m = labelText b m" "labelsKey quote names a = labelsKey quote names b"
    using quoteLawD[OF Cons.prems(1), of "labelText a m" "'';'' @ labelsKey quote names a"] by auto
  then show ?case
    using Cons.IH[OF Cons.prems(1)] Cons.prems(3) by auto
qed simp

lemma labelsKey_cong: "(\<And>n. n \<in> set names \<Longrightarrow> labelText a n = labelText b n) \<Longrightarrow> labelsKey quote names a = labelsKey quote names b"
  by (simp add: labelsKey_def cong: map_cong)

section \<open>The invariant\<close>

definition labelsFit :: "string list \<Rightarrow> Labels \<Rightarrow> bool" where
  "labelsFit names labels \<longleftrightarrow>
     distinct (map fst labels) \<and> set (map fst labels) = set names \<and> (\<forall>v\<in>snd ` set labels. \<not> contains (CHR 0x00) v)"

definition metricOk :: "(string \<Rightarrow> string) \<Rightarrow> 'v Metric \<Rightarrow> bool" where
  "metricOk quote m \<longleftrightarrow>
     sorted (mt_LabelNames m) \<and> distinct (mt_LabelNames m) \<and> (\<forall>n\<in>set (mt_LabelNames m). validateLabelName n = None) \<and>
     distinct (map fst (mt_Series m)) \<and>
     (\<forall>(key, s)\<in>set (mt_Series m). labelsFit (mt_LabelNames m) (sr_Labels s) \<and> key = labelsKey quote (mt_LabelNames m) (sr_Labels s))"

definition registryOk :: "(string \<Rightarrow> string) \<Rightarrow> ('v, 'w) Registry \<Rightarrow> bool" where
  "registryOk quote r \<longleftrightarrow>
     distinct (map fst (rg_Metrics r)) \<and> (\<forall>(name, m)\<in>set (rg_Metrics r). validIdentifier name True \<and> metricOk quote m) \<and>
     distinct (map fst (rg_Checks r)) \<and> (\<forall>name\<in>fst ` set (rg_Checks r). validateLabelName name = None)"

lemma labelNamesErr_None:
  "labelNamesErr prev ns = None \<Longrightarrow> sorted ns \<Longrightarrow> (\<And>p. prev = Some p \<Longrightarrow> \<forall>n\<in>set ns. p \<le> n) \<Longrightarrow>
     distinct ns \<and> (\<forall>p. prev = Some p \<longrightarrow> p \<notin> set ns) \<and> (\<forall>n\<in>set ns. validateLabelName n = None)"
proof (induction prev ns rule: labelNamesErr.induct)
  case (2 prev n ns)
  have n: "validateLabelName n = None" "prev \<noteq> Some n" "labelNamesErr (Some n) ns = None"
    using "2.prems"(1) by (auto split: option.splits if_splits)
  have IH: "distinct ns \<and> n \<notin> set ns \<and> (\<forall>n\<in>set ns. validateLabelName n = None)"
    using "2.IH"[OF n(1,2) n(3)] "2.prems"(2) by auto
  have "p \<notin> set (n # ns)" if "prev = Some p" for p
  proof -
    have "p \<le> n" "p \<noteq> n"
      using that "2.prems"(3) n(2) by auto
    then show ?thesis
      using "2.prems"(2) by fastforce
  qed
  then show ?case
    using IH n(1) by auto
qed simp

lemma normalizedLabelNames_ok:
  "normalizedLabelNames names = Inr labels \<Longrightarrow>
     sorted labels \<and> distinct labels \<and> (\<forall>n\<in>set labels. validateLabelName n = None)"
  using labelNamesErr_None[of None "sort names"] by (auto simp: normalizedLabelNames_def Let_def)

lemma metricFor_fits:
  assumes "metricFor name typ labels r = Inr m" "distinct (map fst labels)"
    and "distinct (mt_LabelNames m)"
  shows "map_of (rg_Metrics r) name = Some m \<and> mt_Type m = typ \<and> labelsFit (mt_LabelNames m) labels"
proof -
  have m: "map_of (rg_Metrics r) name = Some m" "mt_Type m = typ" "ValidateLabels labels = None"
    "length labels = length (mt_LabelNames m)" "\<forall>n\<in>set (mt_LabelNames m). map_of labels n \<noteq> None"
    using assms(1) by (auto simp: metricFor_def split: option.splits)
  have "set (mt_LabelNames m) \<subseteq> set (map fst labels)"
    using m(5) by (force simp: map_of_eq_None_iff)
  moreover have "card (set (map fst labels)) = card (set (mt_LabelNames m))"
    using assms(2,3) m(4) by (metis distinct_card length_map)
  ultimately have "set (map fst labels) = set (mt_LabelNames m)"
    by (metis List.finite_set card_subset_eq)
  moreover have "\<not> contains (CHR 0x00) v" if "v \<in> snd ` set labels" for v
    using that m(3) by (fastforce simp: ValidateLabels_def)
  ultimately show ?thesis
    using m assms(2) by (auto simp: labelsFit_def)
qed

lemma labelsFit_map_of:
  assumes "labelsFit names a" "labelsFit names b" "\<And>n. n \<in> set names \<Longrightarrow> labelText a n = labelText b n"
  shows "map_of a = map_of b"
proof
  fix n
  show "map_of a n = map_of b n"
  proof (cases "n \<in> set names")
    case True
    then have "map_of a n \<noteq> None" "map_of b n \<noteq> None"
      using assms(1,2) by (auto simp: labelsFit_def map_of_eq_None_iff)
    then show ?thesis
      using assms(3)[OF True] by (auto simp: labelText_def)
  next
    case False
    then show ?thesis
      using assms(1,2) by (metis labelsFit_def map_of_eq_None_iff list.set_map)
  qed
qed

lemma distinct_update: "distinct (map fst xs) \<Longrightarrow> distinct (map fst (AList.update k v xs))"
  by (simp add: distinct_update)

lemma update_members: "x \<in> set (AList.update k v xs) \<Longrightarrow> x = (k, v) \<or> x \<in> set xs"
  by (induction xs) (auto split: if_splits)

lemma putSeries_ok:
  assumes "registryOk quote r" "map_of (rg_Metrics r) name = Some m" "labelsFit (mt_LabelNames m) labels"
  shows "registryOk quote (putSeries name m (labelsKey quote (mt_LabelNames m) labels) \<lparr>sr_Labels = labels, sr_Value = v\<rparr> r)"
proof -
  have m: "validIdentifier name True" "metricOk quote m"
    using assms(1,2) by (auto simp: registryOk_def dest!: map_of_SomeD)
  have "metricOk quote (m\<lparr>mt_Series := AList.update (labelsKey quote (mt_LabelNames m) labels) \<lparr>sr_Labels = labels, sr_Value = v\<rparr> (mt_Series m)\<rparr>)"
    using m(2) assms(3) by (auto simp: metricOk_def distinct_update dest!: update_members)
  then show ?thesis
    using assms(1) m(1) by (auto simp: registryOk_def putSeries_def distinct_update dest!: update_members)
qed

section \<open>Every sequence of calls\<close>

datatype ('v, 'w) RegOp =
    OpRegister string string MetricType "string list"
  | OpCounterAdd string Labels 'v
  | OpGaugeSet string Labels 'v
  | OpGaugeAdd string Labels 'v
  | OpStandard
  | OpReadiness string "'w Check option"

text \<open>The labels of a call are a Go map.\<close>

fun goLabels :: "('v, 'w) RegOp \<Rightarrow> bool" where
  "goLabels (OpCounterAdd _ labels _) = distinct (map fst labels)"
| "goLabels (OpGaugeSet _ labels _) = distinct (map fst labels)"
| "goLabels (OpGaugeAdd _ labels _) = distinct (map fst labels)"
| "goLabels _ = True"

fun regOp :: "'v Floats \<Rightarrow> (string \<Rightarrow> string) \<Rightarrow> ('v, 'w) RegOp \<Rightarrow> ('v, 'w) Registry \<Rightarrow> ('v, 'w) Registry" where
  "regOp fl quote (OpRegister name help typ names) r = snd (registerMetric name help typ names r)"
| "regOp fl quote (OpCounterAdd name labels v) r = snd (Counter_Add fl quote name labels v r)"
| "regOp fl quote (OpGaugeSet name labels v) r = snd (Gauge_Set fl quote name labels v r)"
| "regOp fl quote (OpGaugeAdd name labels v) r = snd (Gauge_Add fl quote name labels v r)"
| "regOp fl quote OpStandard r = snd (StandardMetricsOf r)"
| "regOp fl quote (OpReadiness name check) r = snd (RegisterReadiness name check r)"

inductive regReach :: "'v Floats \<Rightarrow> (string \<Rightarrow> string) \<Rightarrow> ('v, 'w) Registry \<Rightarrow> bool" for fl quote where
  regStart: "regReach fl quote NewRegistry"
| regNext: "regReach fl quote r \<Longrightarrow> goLabels op1 \<Longrightarrow> regReach fl quote (regOp fl quote op1 r)"

lemma registerMetric_ok: "registryOk quote r \<Longrightarrow> registryOk quote (snd (registerMetric name help typ names r))"
  by (auto simp: registerMetric_def registryOk_def metricOk_def map_of_eq_None_iff split: sum.split option.split
      dest!: normalizedLabelNames_ok)

lemma registerAll_ok: "registryOk quote r \<Longrightarrow> registryOk quote (snd (registerAll ds r))"
proof (induction ds r rule: registerAll.induct)
  case (2 name h ty labels ds r)
  then show ?case
    using registerMetric_ok[OF "2.prems", of name h ty labels]
    by (auto split: prod.split option.split)
qed simp

lemma metric_names: "registryOk quote r \<Longrightarrow> map_of (rg_Metrics r) name = Some m \<Longrightarrow> distinct (mt_LabelNames m)"
  by (auto simp: registryOk_def metricOk_def dest!: map_of_SomeD)

lemma metricFor_some: "metricFor name typ labels r = Inr m \<Longrightarrow> map_of (rg_Metrics r) name = Some m"
  by (auto simp: metricFor_def split: option.splits)

lemma addSample_ok:
  assumes "registryOk quote r" "distinct (map fst labels)"
  shows "registryOk quote (snd (addSample fl quote name typ labels v r))"
proof (cases "metricFor name typ labels r")
  case (Inr m)
  note m = metricFor_fits[OF Inr assms(2) metric_names[OF assms(1) metricFor_some[OF Inr]]]
  then show ?thesis
    using putSeries_ok[OF assms(1)] by (simp add: addSample_def Inr Let_def)
qed (simp add: addSample_def assms(1))

lemma setSample_ok:
  assumes "registryOk quote r" "distinct (map fst labels)"
  shows "registryOk quote (snd (setSample quote name typ labels v r))"
proof (cases "metricFor name typ labels r")
  case (Inr m)
  note m = metricFor_fits[OF Inr assms(2) metric_names[OF assms(1) metricFor_some[OF Inr]]]
  then show ?thesis
    using putSeries_ok[OF assms(1)] by (simp add: setSample_def Inr)
qed (simp add: setSample_def assms(1))

lemma StandardMetricsOf_ok: "registryOk quote r \<Longrightarrow> registryOk quote (snd (StandardMetricsOf r))"
  using registerAll_ok[of quote r standardDefs] by (auto simp: StandardMetricsOf_def split: prod.split option.split)

lemma RegisterReadiness_ok: "registryOk quote r \<Longrightarrow> registryOk quote (snd (RegisterReadiness name check r))"
  by (auto simp: RegisterReadiness_def registryOk_def map_of_eq_None_iff split: option.split)

lemma regOp_ok: "registryOk quote r \<Longrightarrow> goLabels op1 \<Longrightarrow> registryOk quote (regOp fl quote op1 r)"
  by (cases op1)
    (auto simp: registerMetric_ok addSample_ok setSample_ok StandardMetricsOf_ok RegisterReadiness_ok Counter_Add_def Gauge_Set_def Gauge_Add_def)

lemma reach_ok: "regReach fl quote r \<Longrightarrow> registryOk quote r"
proof (induction rule: regReach.induct)
  case regStart
  then show ?case by (simp add: registryOk_def NewRegistry_def)
qed (rule regOp_ok)

section \<open>Totals\<close>

text \<open>The abstract registry: the value of a metric for given labels.\<close>

definition totalOf :: "(string \<Rightarrow> string) \<Rightarrow> ('v, 'w) Registry \<Rightarrow> string \<Rightarrow> Labels \<Rightarrow> 'v option" where
  "totalOf quote r name labels =
     (case map_of (rg_Metrics r) name of
        None \<Rightarrow> None
      | Some m \<Rightarrow> map_option sr_Value (map_of (mt_Series m) (labelsKey quote (mt_LabelNames m) labels)))"

definition orZero :: "'v Floats \<Rightarrow> 'v option \<Rightarrow> 'v" where
  "orZero fl x = (case x of None \<Rightarrow> fl_Zero fl | Some v \<Rightarrow> v)"

definition admitted :: "('v, 'w) Registry \<Rightarrow> string \<Rightarrow> Labels \<Rightarrow> bool" where
  "admitted r name labels \<longleftrightarrow> distinct (map fst labels) \<and> (\<exists>typ. isOk (metricFor name typ labels r))"

lemma totalOf_put:
  assumes "map_of (rg_Metrics r) name = Some m"
  shows "totalOf quote (putSeries name m key item r) name' labels' =
    (if name' = name \<and> labelsKey quote (mt_LabelNames m) labels' = key then Some (sr_Value item) else totalOf quote r name' labels')"
  using assms by (auto simp: totalOf_def putSeries_def AList.update_conv')

lemma total_elsewhere:
  assumes "quoteLaw quote" "registryOk quote r" "map_of (rg_Metrics r) name = Some m" "labelsFit (mt_LabelNames m) labels"
    and "admitted r name' labels'" "name' \<noteq> name \<or> map_of labels' \<noteq> map_of labels"
  shows "totalOf quote (putSeries name m (labelsKey quote (mt_LabelNames m) labels) item r) name' labels' = totalOf quote r name' labels'"
proof (cases "name' = name")
  case True
  obtain ty where "isOk (metricFor name ty labels' r)" and d: "distinct (map fst labels')"
    using assms(5) True by (auto simp: admitted_def)
  then obtain m' where m': "metricFor name ty labels' r = Inr m'"
    by (cases "metricFor name ty labels' r") auto
  have "m' = m"
    using metricFor_some[OF m'] assms(3) by simp
  then have fit: "labelsFit (mt_LabelNames m) labels'"
    using metricFor_fits[OF m' d] metric_names[OF assms(2,3)] by simp
  have "labelsKey quote (mt_LabelNames m) labels' \<noteq> labelsKey quote (mt_LabelNames m) labels"
    using labelsKey_inject[OF assms(1)] labelsFit_map_of[OF fit assms(4)] assms(6) True by blast
  then show ?thesis
    by (simp add: totalOf_put[OF assms(3)])
qed (simp add: totalOf_put[OF assms(3)])

text \<open>An update of one value leaves all others.\<close>

definition updatesTotal :: "(string \<Rightarrow> string) \<Rightarrow> ('v, 'w) Registry \<Rightarrow> string \<Rightarrow> Labels \<Rightarrow> 'v \<Rightarrow> ('v, 'w) Registry \<Rightarrow> bool" where
  "updatesTotal quote r name labels x r' \<longleftrightarrow>
     totalOf quote r' name labels = Some x \<and>
     (\<forall>name' labels'. admitted r name' labels' \<and> (name' \<noteq> name \<or> map_of labels' \<noteq> map_of labels) \<longrightarrow>
        totalOf quote r' name' labels' = totalOf quote r name' labels')"

lemma fits:
  assumes "registryOk quote r" "distinct (map fst labels)" "metricFor name ty labels r = Inr m"
  shows "map_of (rg_Metrics r) name = Some m \<and> labelsFit (mt_LabelNames m) labels"
  using metricFor_fits[OF assms(3,2) metric_names[OF assms(1) metricFor_some[OF assms(3)]]] by simp

lemma addSample_totals:
  assumes "quoteLaw quote" "registryOk quote r" "distinct (map fst labels)" "addSample fl quote name ty labels v r = (None, r')"
  shows "updatesTotal quote r name labels (fl_Add fl (orZero fl (totalOf quote r name labels)) v) r'"
proof (cases "metricFor name ty labels r")
  case (Inr m)
  have "r' = putSeries name m (labelsKey quote (mt_LabelNames m) labels)
      \<lparr>sr_Labels = labels, sr_Value = fl_Add fl (orZero fl (totalOf quote r name labels)) v\<rparr> r"
    using assms(4) fits[OF assms(2,3) Inr] by (auto simp: addSample_def Inr Let_def totalOf_def orZero_def split: option.splits)
  then show ?thesis
    using total_elsewhere[OF assms(1,2)] fits[OF assms(2,3) Inr] by (simp add: totalOf_put updatesTotal_def)
qed (use assms in \<open>simp add: addSample_def\<close>)

lemma setSample_totals:
  assumes "quoteLaw quote" "registryOk quote r" "distinct (map fst labels)" "setSample quote name ty labels v r = (None, r')"
  shows "updatesTotal quote r name labels v r'"
proof (cases "metricFor name ty labels r")
  case (Inr m)
  have "r' = putSeries name m (labelsKey quote (mt_LabelNames m) labels) \<lparr>sr_Labels = labels, sr_Value = v\<rparr> r"
    using assms(4) by (simp add: setSample_def Inr)
  then show ?thesis
    using total_elsewhere[OF assms(1,2)] fits[OF assms(2,3) Inr] by (simp add: totalOf_put updatesTotal_def)
qed (use assms in \<open>simp add: setSample_def\<close>)

text \<open>A registry is a map from a metric with a set of labels to a value.  An accepted addition adds to the value of
  its own labels, starting at zero, an accepted setting replaces it, and neither touches the value of any other
  metric or of other labels, whatever bytes the label values contain.\<close>

theorem updates_refine_totals:
  assumes "quoteLaw quote" "regReach fl quote r" "distinct (map fst labels)"
  shows "(\<forall>r'. Counter_Add fl quote name labels v r = (None, r') \<or> Gauge_Add fl quote name labels v r = (None, r') \<longrightarrow>
            updatesTotal quote r name labels (fl_Add fl (orZero fl (totalOf quote r name labels)) v) r') \<and>
         (\<forall>r'. Gauge_Set fl quote name labels v r = (None, r') \<longrightarrow> updatesTotal quote r name labels v r')"
  using addSample_totals[OF assms(1) reach_ok[OF assms(2)] assms(3)] setSample_totals[OF assms(1) reach_ok[OF assms(2)] assms(3)]
  by (simp add: Counter_Add_def Gauge_Add_def Gauge_Set_def)

section \<open>Sensitive names\<close>

lemma snapshot_metric:
  assumes "registryOk quote r" "m \<in> set (RegistrySnapshot r)"
  obtains mt where "metricOk quote mt" "ms_Samples m = map snd (inOrder (mt_Series mt))"
  using assms by (force simp: RegistrySnapshot_def metricSnapshot_def inOrder_def registryOk_def)

lemma sample_labels:
  assumes "metricOk quote mt" "s \<in> set (map snd (inOrder (mt_Series mt)))"
  shows "fst ` set (sr_Labels s) = set (mt_LabelNames mt)"
proof -
  obtain k where "(k, s) \<in> set (mt_Series mt)"
    using assms(2) by (auto simp: inOrder_def)
  then have "labelsFit (mt_LabelNames mt) (sr_Labels s)"
    using assms(1) by (auto simp: metricOk_def)
  then show ?thesis
    by (simp add: labelsFit_def)
qed

lemma samples_distinct:
  assumes mt: "metricOk quote mt"
  shows "distinct (map (\<lambda>s. map_of (sr_Labels s)) (map snd (inOrder (mt_Series mt))))"
proof -
  have keys: "distinct (map fst (inOrder (mt_Series mt)))"
    using mt by (simp add: metricOk_def inOrder_def distinct_map distinct_insort)
  have key: "fst x = labelsKey quote (mt_LabelNames mt) (sr_Labels (snd x))" if "x \<in> set (mt_Series mt)" for x
    using mt that by (auto simp: metricOk_def)
  have "fst a = fst b" if "a \<in> set (mt_Series mt)" "b \<in> set (mt_Series mt)" "map_of (sr_Labels (snd a)) = map_of (sr_Labels (snd b))" for a b
    using key[OF that(1)] key[OF that(2)] that(3) by (auto simp: labelText_def intro!: labelsKey_cong)
  then have "inj_on (\<lambda>x. map_of (sr_Labels (snd x))) (set (inOrder (mt_Series mt)))"
    using keys unfolding distinct_map inOrder_def set_sort by (metis (no_types, lifting) inj_on_def)
  then show ?thesis
    using keys by (simp add: distinct_map comp_def)
qed

lemma validateLabelName_None: "validateLabelName n = None \<longleftrightarrow> \<not> isSensitiveName n \<and> validIdentifier n False"
  by (auto simp: validateLabelName_def)

text \<open>Whatever is registered and counted, the published metrics never have a label whose name contains a word for a
  secret, or that is not an identifier; a sample has exactly the labels of its metric, no two samples of a metric
  have the same labels, and the names of the readiness checks obey the same rule.\<close>

theorem published_labels_safe:
  assumes "regReach fl quote r"
  shows "(\<forall>m\<in>set (RegistrySnapshot r). \<forall>s\<in>set (ms_Samples m). \<forall>n\<in>fst ` set (sr_Labels s). \<not> isSensitiveName n \<and> validIdentifier n False) \<and>
         (\<forall>m\<in>set (RegistrySnapshot r). distinct (map (\<lambda>s. map_of (sr_Labels s)) (ms_Samples m)) \<and>
            (\<forall>s\<in>set (ms_Samples m). \<forall>t\<in>set (ms_Samples m). fst ` set (sr_Labels s) = fst ` set (sr_Labels t))) \<and>
         (\<forall>n\<in>fst ` set (rg_Checks r). \<not> isSensitiveName n \<and> validIdentifier n False)"
proof (intro conjI ballI)
  note ok = reach_ok[OF assms]
  fix m assume m: "m \<in> set (RegistrySnapshot r)"
  obtain mt where mt: "metricOk quote mt" "ms_Samples m = map snd (inOrder (mt_Series mt))"
    by (rule snapshot_metric[OF ok m])
  show "distinct (map (\<lambda>s. map_of (sr_Labels s)) (ms_Samples m))"
    unfolding mt(2) by (rule samples_distinct[OF mt(1)])
  fix s assume s: "s \<in> set (ms_Samples m)"
  have names: "fst ` set (sr_Labels s) = set (mt_LabelNames mt)" if "s \<in> set (ms_Samples m)" for s
    using sample_labels[OF mt(1)] that by (simp add: mt(2))
  show "fst ` set (sr_Labels s) = fst ` set (sr_Labels t)" if "t \<in> set (ms_Samples m)" for t
    using names s that by simp
  fix n assume "n \<in> fst ` set (sr_Labels s)"
  then have "validateLabelName n = None"
    using names[OF s] mt(1) by (simp add: metricOk_def)
  then show "\<not> isSensitiveName n" "validIdentifier n False"
    by (simp_all add: validateLabelName_None)
next
  fix n assume "n \<in> fst ` set (rg_Checks r)"
  then show "\<not> isSensitiveName n" "validIdentifier n False"
    using reach_ok[OF assms] by (auto simp: registryOk_def validateLabelName_None)
qed

section \<open>The text read back\<close>

definition escapedByte :: "char \<Rightarrow> string" where
  "escapedByte c = (if c = CHR 0x5C then [CHR 0x5C, CHR 0x5C] else if c = CHR 0x0A then [CHR 0x5C, CHR ''n'']
     else if c = CHR 0x22 then [CHR 0x5C, CHR 0x22] else [c])"

lemma replaceAll_byte: "replaceAll [a] new s = concat (map (\<lambda>c. if c = a then new else [c]) s)"
  by (induction s) auto

lemma escapeLabelValue_bytes: "escapeLabelValue v = concat (map escapedByte v)"
  unfolding escapeLabelValue_def replaceAll_byte by (induction v) (auto simp: escapedByte_def)

text \<open>A reader of the exposition format: a value up to its closing quote, the pairs, a line.\<close>

fun readValue :: "string \<Rightarrow> (string \<times> string) option" where
  "readValue [] = None"
| "readValue (c # s) =
     (if c = CHR 0x22 then Some ([], s)
      else if c = CHR 0x5C
      then (case s of [] \<Rightarrow> None | d # s' \<Rightarrow> map_option (apfst ((#) (if d = CHR ''n'' then CHR 0x0A else d))) (readValue s'))
      else map_option (apfst ((#) c)) (readValue s))"

fun readPairs :: "nat \<Rightarrow> string \<Rightarrow> (Labels \<times> string) option" where
  "readPairs 0 s = None"
| "readPairs (Suc n) s =
     (let name = takeWhile (\<lambda>c. c \<noteq> CHR ''='') s
      in case readValue (drop (length name + 2) s) of
           Some (v, c # rest) \<Rightarrow>
             if c = CHR ''}'' then Some ([(name, v)], rest)
             else map_option (apfst ((#) (name, v))) (readPairs n rest)
         | _ \<Rightarrow> None)"

definition readLabels :: "string \<Rightarrow> (Labels \<times> string) option" where
  "readLabels s = (case s of c # rest \<Rightarrow> if c = CHR ''{'' then readPairs (length s) rest else Some ([], s) | [] \<Rightarrow> Some ([], []))"

definition readSample :: "string \<Rightarrow> (string \<times> Labels \<times> string) option" where
  "readSample s =
     (let name = takeWhile (\<lambda>c. c \<noteq> CHR ''{'' \<and> c \<noteq> CHR '' '') s
      in case readLabels (drop (length name) s) of
           Some (labels, _ # value) \<Rightarrow> Some (name, labels, takeWhile (\<lambda>c. c \<noteq> CHR 0x0A) value)
         | _ \<Rightarrow> None)"

lemma readValue_escaped: "readValue (escapeLabelValue v @ CHR 0x22 # rest) = Some (v, rest)"
  unfolding escapeLabelValue_bytes by (induction v) (auto simp: escapedByte_def)

lemma readPairs_format:
  assumes "ls \<noteq> []" "\<And>n. n \<in> fst ` set ls \<Longrightarrow> CHR ''='' \<notin> set n" "length ls \<le> k"
  shows "readPairs k (joinWith '','' (map (\<lambda>(n, v). n @ ''='' @ [CHR 0x22] @ escapeLabelValue v @ [CHR 0x22]) ls) @ CHR ''}'' # rest) = Some (ls, rest)"
  using assms
proof (induction ls arbitrary: k)
  case (Cons nv ls)
  obtain n v where nv: "nv = (n, v)" by (cases nv)
  obtain k' where k: "k = Suc k'" using Cons.prems(3) by (cases k) auto
  have n: "takeWhile (\<lambda>c. c \<noteq> CHR ''='') (n @ CHR ''='' # x) = n" for x
    using Cons.prems(2)[of n] nv by (auto intro: takeWhile_append2[of n, THEN trans] simp: takeWhile_append)
  show ?case
  proof (cases ls)
    case Nil
    then show ?thesis
      using n readValue_escaped[of v] by (simp add: nv k Let_def)
  next
    case (Cons nv' ls')
    then show ?thesis
      using Cons.IH[of k'] Cons.prems n readValue_escaped[of v] by (simp add: nv k Let_def split_beta)
  qed
qed simp

lemma inOrder_set [simp]: "set (inOrder xs) = set xs" "length (inOrder xs) = length xs" "inOrder xs = [] \<longleftrightarrow> xs = []"
  by (auto simp: inOrder_def) (metis length_0_conv length_sort)

lemma length_joinWith: "length xs \<le> Suc (length (joinWith sep xs))" if "sep \<noteq> []"
  using that by (cases sep, simp, induction sep xs rule: joinWith.induct) auto

text \<open>Every sample line of the metrics text reads back as the name, the labels and the number it was written
  from, whatever bytes the label values contain: no value can end its quotes, add a label or start a line.\<close>

theorem sample_line_roundtrip:
  assumes "validIdentifier name True" "\<forall>n\<in>fst ` set (sr_Labels s). validIdentifier n False"
    and "CHR 0x0A \<notin> set (fl_Format fl (sr_Value s))"
  shows "readSample (sampleLine fl name s) = Some (name, inOrder (sr_Labels s), fl_Format fl (sr_Value s))"
proof -
  have chars: "c \<noteq> CHR ''{'' \<and> c \<noteq> CHR '' '' \<and> c \<noteq> CHR ''=''" if "validIdentifier n b" "c \<in> set n" for n b c
  proof -
    have "identChar b c \<or> isDigit c"
      using that by (cases n) (auto simp: validIdentifier_def list_all_iff)
    then show ?thesis
      by (auto simp: identChar_def isASCIILetter_def byteIn_def byteval_def isDigit_def)
  qed
  let ?ls = "inOrder (sr_Labels s)" and ?tail = "'' '' @ fl_Format fl (sr_Value s) @ [CHR 0x0A]"
  have "readLabels (formatLabels (sr_Labels s) @ ?tail) = Some (?ls, ?tail)"
  proof (cases "sr_Labels s = []")
    case True
    then show ?thesis by (simp add: readLabels_def formatLabels_def inOrder_def)
  next
    case False
    let ?text = "joinWith '','' (map (\<lambda>(n, v). n @ ''='' @ [CHR 0x22] @ escapeLabelValue v @ [CHR 0x22]) ?ls)"
    have len: "length ?ls \<le> Suc (length ?text)"
      using length_joinWith[of "'',''" "map (\<lambda>(n, v). n @ ''='' @ [CHR 0x22] @ escapeLabelValue v @ [CHR 0x22]) ?ls"] by simp
    have "CHR ''='' \<notin> set n" if "n \<in> fst ` set ?ls" for n
      using chars[of n False] assms(2) that by auto
    then have "readPairs (length (formatLabels (sr_Labels s) @ ?tail)) (?text @ CHR ''}'' # ?tail) = Some (?ls, ?tail)"
      using False len by (intro readPairs_format) (auto simp: formatLabels_def)
    then show ?thesis
      using False by (simp add: readLabels_def formatLabels_def del: readPairs.simps)
  qed
  moreover have "takeWhile (\<lambda>c. c \<noteq> CHR ''{'' \<and> c \<noteq> CHR '' '') (name @ formatLabels (sr_Labels s) @ ?tail) = name"
    using chars[OF assms(1)] by (auto simp: takeWhile_append formatLabels_def)
  moreover have "takeWhile (\<lambda>c. c \<noteq> CHR 0x0A) (fl_Format fl (sr_Value s) @ [CHR 0x0A]) = fl_Format fl (sr_Value s)"
    using assms(3) by (auto simp: takeWhile_append)
  ultimately show ?thesis
    by (simp add: readSample_def sampleLine_def Let_def)
qed

end
