(* ===== verification/ObservedProofs.thy ===== *)
theory ObservedProofs
  imports Observed RegistryProofs LegacyProofs
begin

text \<open>The observed server: every request is counted once, and what the readiness endpoint says.\<close>

section \<open>The standard metrics stay\<close>

definition hasMetric :: "('v, 'w) Registry \<Rightarrow> string \<times> string \<times> MetricType \<times> string list \<Rightarrow> bool" where
  "hasMetric reg d \<longleftrightarrow>
     (case d of (name, h, ty, labels) \<Rightarrow> \<exists>m. map_of (rg_Metrics reg) name = Some m \<and> mt_Type m = ty \<and> mt_Help m = h \<and> mt_LabelNames m = sort labels)"

abbreviation hasStandard :: "('v, 'w) Registry \<Rightarrow> bool" where
  "hasStandard reg \<equiv> \<forall>d\<in>set standardDefs. hasMetric reg d"

lemma standard_names:
  "validIdentifier ''certkeeper_requests_total'' True" "validIdentifier ''certkeeper_acme_operations_total'' True"
  "validIdentifier ''certkeeper_jobs_total'' True" "validIdentifier ''certkeeper_deployments_total'' True"
  "validIdentifier ''certkeeper_readiness'' True"
  by code_simp+

lemma method_valid: "validateLabelName ''method'' = None" by code_simp

lemma status_valid: "validateLabelName ''status'' = None" by code_simp

lemma operation_valid: "validateLabelName ''operation'' = None" by code_simp

lemma job_valid: "validateLabelName ''job'' = None" by code_simp

lemma check_valid: "validateLabelName ''check'' = None" by code_simp

lemmas label_valid = method_valid status_valid operation_valid job_valid check_valid

lemma label_order:
  "sort [''method'', ''status''] = [''method'', ''status'']" "sort [''operation'', ''status''] = [''operation'', ''status'']"
  "sort [''job'', ''status''] = [''job'', ''status'']" "sort [''status''] = [''status'']" "sort [''check''] = [''check'']"
  by code_simp+

lemma standard_labels:
  "normalizedLabelNames [''method'', ''status''] = Inr (sort [''method'', ''status''])"
  "normalizedLabelNames [''operation'', ''status''] = Inr (sort [''operation'', ''status''])"
  "normalizedLabelNames [''job'', ''status''] = Inr (sort [''job'', ''status''])"
  "normalizedLabelNames [''status''] = Inr (sort [''status''])" "normalizedLabelNames [''check''] = Inr (sort [''check''])"
  unfolding normalizedLabelNames_def Let_def label_order by (simp_all add: label_valid)

lemma standard_valid:
  "\<forall>(name, h, ty, labels)\<in>set standardDefs. validIdentifier name True \<and> normalizedLabelNames labels = Inr (sort labels)"
  by (simp only: standardDefs_def list.set ball_simps prod.case standard_names standard_labels simp_thms)

lemma register_again:
  "hasMetric reg (name, h, ty, labels) \<Longrightarrow> validIdentifier name True \<Longrightarrow> normalizedLabelNames labels = Inr (sort labels) \<Longrightarrow>
     registerMetric name h ty labels reg = (None, reg)"
  by (auto simp: registerMetric_def hasMetric_def)

lemma registerAll_again:
  "\<forall>d\<in>set ds. hasMetric reg d \<Longrightarrow> \<forall>(name, h, ty, labels)\<in>set ds. validIdentifier name True \<and> normalizedLabelNames labels = Inr (sort labels) \<Longrightarrow>
     registerAll ds reg = (None, reg)"
  by (induction ds) (auto simp: register_again split: prod.split)

lemma registerMetric_keeps: "hasMetric reg d \<Longrightarrow> hasMetric (snd (registerMetric name h ty labels reg)) d"
  by (auto simp: registerMetric_def hasMetric_def split: prod.splits sum.split option.split)

lemma registerMetric_has:
  "registerMetric name h ty labels reg = (None, reg1) \<Longrightarrow> hasMetric reg1 (name, h, ty, labels)"
  by (auto simp: registerMetric_def hasMetric_def normalizedLabelNames_def Let_def split: if_splits sum.splits option.splits)

lemma registerAll_has:
  "registerAll ds reg = (None, reg1) \<Longrightarrow> (\<forall>d\<in>set ds. hasMetric reg1 d) \<and> (\<forall>d. hasMetric reg d \<longrightarrow> hasMetric reg1 d)"
proof (induction ds reg arbitrary: reg1 rule: registerAll.induct)
  case (2 name h ty labels ds reg)
  obtain reg2 where reg2: "registerMetric name h ty labels reg = (None, reg2)" "registerAll ds reg2 = (None, reg1)"
    using "2.prems" by (auto split: prod.splits option.splits)
  have IH: "(\<forall>d\<in>set ds. hasMetric reg1 d) \<and> (\<forall>d. hasMetric reg2 d \<longrightarrow> hasMetric reg1 d)"
    using "2.IH"[OF reg2(1)[symmetric] refl reg2(2)] .
  show ?case
    using IH registerMetric_has[OF reg2(1)] registerMetric_keeps[of reg _ name h ty labels] reg2(1) by auto
qed simp

lemma StandardMetricsOf_again: "hasStandard reg \<Longrightarrow> \<exists>std. StandardMetricsOf reg = (Inr std, reg) \<and> sm_Readiness std = ''certkeeper_readiness''"
  unfolding StandardMetricsOf_def by (subst registerAll_again[OF _ standard_valid]) auto

lemma putSeries_keeps: "hasMetric reg d \<Longrightarrow> map_of (rg_Metrics reg) name = Some m \<Longrightarrow> hasMetric (putSeries name m key item reg) d"
  by (auto simp: hasMetric_def putSeries_def AList.update_conv' split: prod.splits)

lemma setSample_keeps: "hasMetric reg d \<Longrightarrow> hasMetric (snd (setSample quote name ty labels v reg)) d"
  by (auto simp: setSample_def dest: metricFor_some intro: putSeries_keeps split: sum.split)

lemma addSample_keeps: "hasMetric reg d \<Longrightarrow> hasMetric (snd (addSample fl quote name ty labels v reg)) d"
  by (auto simp: addSample_def Let_def dest: metricFor_some intro: putSeries_keeps split: sum.split)

lemma buildHandler_has:
  assumes "buildHandler ob s = (Some name, s1)"
  shows "name = ''certkeeper_requests_total'' \<and> (\<exists>reg. os_Registry s1 = Some reg \<and> hasStandard reg)"
  using assms registerAll_has
  by (fastforce simp: buildHandler_def StandardMetricsOf_def split: option.splits if_splits prod.splits sum.splits)

section \<open>A request and the registry\<close>

lemma onlyGet_eq: "onlyGet method x f = (if method = ''GET'' then x else f (answerError 405 ''method not allowed''))"
  by (simp add: onlyGet_def methodHandler_def)

text \<open>What a request does to the registry before it is counted: nothing, or the readiness gauge.\<close>

definition readinessOnly :: "(string \<Rightarrow> string) \<Rightarrow> ('v, 'w) Registry \<Rightarrow> ('v, 'w) Registry \<Rightarrow> bool" where
  "readinessOnly quote reg reg' \<longleftrightarrow> (\<forall>d. hasMetric reg d \<longrightarrow> hasMetric reg' d) \<and>
     (\<forall>name. name \<noteq> ''certkeeper_readiness'' \<longrightarrow> map_of (rg_Metrics reg') name = map_of (rg_Metrics reg) name)"

lemma readinessOnly_refl: "readinessOnly quote reg reg"
  by (simp add: readinessOnly_def)

lemma recordChecks_reach:
  "regReach fl quote reg \<Longrightarrow>
     regReach fl quote (recordChecks fl quote ''certkeeper_readiness'' cs reg) \<and>
     readinessOnly quote reg (recordChecks fl quote ''certkeeper_readiness'' cs reg)"
proof (induction cs arbitrary: reg)
  case (Cons c cs)
  let ?reg = "snd (Gauge_Set fl quote ''certkeeper_readiness'' [(''check'', chk_Name c)] (if chk_Passed c then fl_One fl else fl_Zero fl) reg)"
  have "regReach fl quote ?reg"
    using regNext[OF Cons.prems, of "OpGaugeSet ''certkeeper_readiness'' [(''check'', chk_Name c)] (if chk_Passed c then fl_One fl else fl_Zero fl)"]
    by simp
  moreover have "readinessOnly quote reg ?reg"
    unfolding readinessOnly_def
    by (rule conjI)
      (simp add: Gauge_Set_def setSample_keeps, simp add: Gauge_Set_def setSample_def putSeries_def AList.update_conv' split: sum.split)
  ultimately show ?case
    using Cons.IH[of ?reg] by (auto simp: readinessOnly_def)
qed (simp add: readinessOnly_refl)

lemma serveRoutes_registry:
  assumes "serveRoutes ob sv sr r s = (resp, s1)" "os_Registry s = Some reg" "hasStandard reg" "regReach (ob_Floats ob) (ob_Quote ob) reg"
  shows "\<exists>reg1. os_Registry s1 = Some reg1 \<and> hasStandard reg1 \<and> regReach (ob_Floats ob) (ob_Quote ob) reg1 \<and> readinessOnly (ob_Quote ob) reg reg1"
proof -
  obtain std where std: "StandardMetricsOf reg = (Inr std, reg)" "sm_Readiness std = ''certkeeper_readiness''"
    using StandardMetricsOf_again[OF assms(3)] by blast
  have "\<exists>reg1. os_Registry s1 = Some reg1 \<and> (reg1 = reg \<or> (\<exists>cs. reg1 = recordChecks (ob_Floats ob) (ob_Quote ob) ''certkeeper_readiness'' cs reg))"
    using assms(1,2) std
    by (auto simp: serveRoutes_def onlyGet_eq Let_def readyz_def recordReadiness_def split: if_splits prod.splits routed.splits)
  then show ?thesis
    using recordChecks_reach[OF assms(4)] assms(3,4) readinessOnly_refl by (auto simp: readinessOnly_def)
qed

abbreviation requestLabels :: "string \<Rightarrow> nat \<Rightarrow> Labels" where
  "requestLabels method status \<equiv> [(''method'', method), (''status'', showNat status)]"

lemma showNat_no_nul: "\<not> contains (CHR 0x00) (showNat n)"
  using showNat_digits[of "CHR 0x00" n] by (auto simp: contains_def isDigit_def byteIn_def byteval_def)

lemma request_admitted:
  assumes "hasStandard reg" "\<not> contains (CHR 0x00) method"
  shows "\<exists>m. metricFor ''certkeeper_requests_total'' CounterType (requestLabels method status) reg = Inr m"
proof -
  obtain m where m: "map_of (rg_Metrics reg) ''certkeeper_requests_total'' = Some m" "mt_Type m = CounterType"
    "mt_LabelNames m = sort [''method'', ''status'']"
    using assms(1) by (auto simp: standardDefs_def hasMetric_def)
  then have "mt_LabelNames m = [''method'', ''status'']"
    by (simp only: label_order)
  then show ?thesis
    using m(1,2) assms(2) showNat_no_nul label_valid by (simp add: metricFor_def ValidateLabels_def)
qed

section \<open>Counting\<close>

abbreviation requestsTotal :: "(string \<Rightarrow> string) \<Rightarrow> ('v, 'w) Registry \<Rightarrow> string \<Rightarrow> nat \<Rightarrow> 'v option" where
  "requestsTotal quote reg method status \<equiv> totalOf quote reg ''certkeeper_requests_total'' (requestLabels method status)"

lemma count_step:
  fixes status :: nat
  assumes "quoteLaw quote" "regReach fl quote reg" "hasStandard reg" "\<not> contains (CHR 0x00) method"
    and "\<not> fl_Negative fl (fl_One fl)" "fl_Finite fl (fl_One fl)"
  defines "reg' \<equiv> snd (Counter_Inc fl quote ''certkeeper_requests_total'' (requestLabels method status) reg)"
  shows "regReach fl quote reg' \<and> hasStandard reg' \<and>
    requestsTotal quote reg' method status = Some (fl_Add fl (orZero fl (requestsTotal quote reg method status)) (fl_One fl)) \<and>
    (\<forall>m st. \<not> contains (CHR 0x00) m \<and> (m \<noteq> method \<or> st \<noteq> status) \<longrightarrow> requestsTotal quote reg' m st = requestsTotal quote reg m st)"
proof -
  let ?name = "''certkeeper_requests_total''" and ?ls = "requestLabels method status"
  obtain m where m: "metricFor ?name CounterType ?ls reg = Inr m"
    using request_admitted[OF assms(3,4)] by blast
  have "addSample fl quote ?name CounterType ?ls (fl_One fl) reg = (None, reg')"
    using assms(5,6) by (simp add: reg'_def Counter_Inc_def Counter_Add_def addSample_def m Let_def)
  then have up: "updatesTotal quote reg ?name ?ls (fl_Add fl (orZero fl (totalOf quote reg ?name ?ls)) (fl_One fl)) reg'"
    by (rule addSample_totals[OF assms(1) reach_ok[OF assms(2)], rotated]) simp
  have "regReach fl quote (regOp fl quote (OpCounterAdd ?name ?ls (fl_One fl)) reg)"
    by (rule regNext[OF assms(2)]) simp
  moreover have "hasStandard reg'"
    using assms(3) by (simp add: reg'_def Counter_Inc_def Counter_Add_def addSample_keeps)
  moreover have "requestsTotal quote reg' m2 st = requestsTotal quote reg m2 st"
    if "\<not> contains (CHR 0x00) m2" "m2 \<noteq> method \<or> st \<noteq> status" for m2 st
  proof -
    have "\<exists>mt. metricFor ?name CounterType (requestLabels m2 st) reg = Inr mt"
      using request_admitted[OF assms(3) that(1)] by blast
    then have "admitted reg ?name (requestLabels m2 st)"
      by (auto simp: admitted_def intro!: exI[of _ CounterType])
    moreover have "map_of (requestLabels m2 st) \<noteq> map_of ?ls"
    proof
      assume same: "map_of (requestLabels m2 st) = map_of ?ls"
      show False
        using fun_cong[OF same, of "''method''"] fun_cong[OF same, of "''status''"] that(2) by simp
    qed
    ultimately show ?thesis
      using up unfolding updatesTotal_def by blast
  qed
  moreover have "regOp fl quote (OpCounterAdd ?name ?ls (fl_One fl)) reg = reg'"
    by (simp add: reg'_def Counter_Inc_def)
  ultimately show ?thesis
    using up by (simp add: updatesTotal_def)
qed

definition countsOne :: "'v Floats \<Rightarrow> bool" where
  "countsOne fl \<longleftrightarrow> \<not> fl_Negative fl (fl_One fl) \<and> fl_Finite fl (fl_One fl)"

lemma serve_counts:
  assumes "quoteLaw (ob_Quote ob)" "countsOne (ob_Floats ob)" "os_Registry s = Some reg" "hasStandard reg"
    and "regReach (ob_Floats ob) (ob_Quote ob) reg" "\<not> contains (CHR 0x00) (rq_Method (wr_Http r))"
    and "serveObserved ob (Some ''certkeeper_requests_total'') sv sr r s = (resp, s')"
  shows "\<exists>reg'. os_Registry s' = Some reg' \<and> hasStandard reg' \<and> regReach (ob_Floats ob) (ob_Quote ob) reg' \<and>
    requestsTotal (ob_Quote ob) reg' (rq_Method (wr_Http r)) (hr_Status resp) =
      Some (fl_Add (ob_Floats ob) (orZero (ob_Floats ob) (requestsTotal (ob_Quote ob) reg (rq_Method (wr_Http r)) (hr_Status resp)))
              (fl_One (ob_Floats ob))) \<and>
    (\<forall>m st. \<not> contains (CHR 0x00) m \<and> (m \<noteq> rq_Method (wr_Http r) \<or> st \<noteq> hr_Status resp) \<longrightarrow>
       requestsTotal (ob_Quote ob) reg' m st = requestsTotal (ob_Quote ob) reg m st)"
proof -
  obtain s1 where s1: "serveRoutes ob sv sr r s = (resp, s1)"
    "s' = countRequest ob (Some ''certkeeper_requests_total'') (rq_Method (wr_Http r)) (hr_Status resp) s1"
    using assms(7) by (auto simp: serveObserved_def split: prod.splits)
  obtain reg1 where reg1: "os_Registry s1 = Some reg1" "hasStandard reg1" "regReach (ob_Floats ob) (ob_Quote ob) reg1"
    "readinessOnly (ob_Quote ob) reg reg1"
    using serveRoutes_registry[OF s1(1) assms(3-5)] by blast
  have "requestsTotal (ob_Quote ob) reg1 m st = requestsTotal (ob_Quote ob) reg m st" for m st
    using reg1(4) by (simp add: totalOf_def readinessOnly_def)
  then show ?thesis
    using count_step[OF assms(1) reg1(3,2) assms(6), of "hr_Status resp"] assms(2) reg1(1) s1(2)
    by (simp add: countRequest_def countsOne_def)
qed

text \<open>C0: a server whose handler was built with metrics counts every request exactly once, under its method and the status it
  was answered with, whatever the answer is, the metrics and readiness endpoints included; the totals of all
  other methods and statuses stay.  The method has no null byte, which the HTTP library guarantees; one is a
  finite number that is not negative; and the literals \<^verbatim>\<open>strconv.Quote\<close> writes end themselves (\<open>quoteLaw\<close>).\<close>

theorem request_counted_once:
  assumes "quoteLaw (ob_Quote ob)" "countsOne (ob_Floats ob)" "regReach (ob_Floats ob) (ob_Quote ob) reg0"
    and "buildHandler ob (s0\<lparr>os_Registry := Some reg0\<rparr>) = (Some counter, s)"
    and "\<not> contains (CHR 0x00) (rq_Method (wr_Http r))" "serveObserved ob (Some counter) sv sr r s = (resp, s')"
  shows "\<exists>reg reg'. os_Registry s = Some reg \<and> os_Registry s' = Some reg' \<and>
    requestsTotal (ob_Quote ob) reg' (rq_Method (wr_Http r)) (hr_Status resp) =
      Some (fl_Add (ob_Floats ob) (orZero (ob_Floats ob) (requestsTotal (ob_Quote ob) reg (rq_Method (wr_Http r)) (hr_Status resp)))
              (fl_One (ob_Floats ob))) \<and>
    (\<forall>m st. \<not> contains (CHR 0x00) m \<and> (m \<noteq> rq_Method (wr_Http r) \<or> st \<noteq> hr_Status resp) \<longrightarrow>
       requestsTotal (ob_Quote ob) reg' m st = requestsTotal (ob_Quote ob) reg m st)"
proof -
  have reg: "counter = ''certkeeper_requests_total''" "\<exists>reg. os_Registry s = Some reg \<and> hasStandard reg"
    using buildHandler_has[OF assms(4)] by auto
  then obtain reg where s: "os_Registry s = Some reg" "hasStandard reg"
    by blast
  have "reg = regOp (ob_Floats ob) (ob_Quote ob) OpStandard reg0"
    using assms(4) s(1) by (auto simp: buildHandler_def split: if_splits prod.splits sum.splits)
  then have "regReach (ob_Floats ob) (ob_Quote ob) reg"
    using regNext[OF assms(3), of OpStandard] by simp
  then show ?thesis
    using serve_counts[OF assms(1,2) s _ assms(5)] assms(6) s(1) reg(1) by blast
qed

section \<open>Growth\<close>

fun serveAll ::
  "'v Observing \<Rightarrow> string option \<Rightarrow> 'e LegacyServer \<Rightarrow> V1Surroundings \<Rightarrow> V1Request list \<Rightarrow> ('v, 'e) ObservedState \<Rightarrow> ('v, 'e) ObservedState" where
  "serveAll ob counter sv sr [] s = s"
| "serveAll ob counter sv sr (r # rs) s = serveAll ob counter sv sr rs (snd (serveObserved ob counter sv sr r s))"

lemma serveAll_counts:
  assumes "quoteLaw (ob_Quote ob)" "countsOne (ob_Floats ob)" "os_Registry s = Some reg" "hasStandard reg"
    and "regReach (ob_Floats ob) (ob_Quote ob) reg" "\<forall>r\<in>set rs. \<not> contains (CHR 0x00) (rq_Method (wr_Http r))"
  shows "\<exists>reg'. os_Registry (serveAll ob (Some ''certkeeper_requests_total'') sv sr rs s) = Some reg' \<and> hasStandard reg' \<and>
    (\<forall>r\<in>set rs. \<exists>st. requestsTotal (ob_Quote ob) reg' (rq_Method (wr_Http r)) st \<noteq> None) \<and>
    (\<forall>m st. \<not> contains (CHR 0x00) m \<and> requestsTotal (ob_Quote ob) reg m st \<noteq> None \<longrightarrow> requestsTotal (ob_Quote ob) reg' m st \<noteq> None)"
  using assms(3-6)
proof (induction rs arbitrary: s reg)
  case (Cons r rs)
  obtain resp s1 where s1: "serveObserved ob (Some ''certkeeper_requests_total'') sv sr r s = (resp, s1)"
    by fastforce
  obtain reg1 where reg1: "os_Registry s1 = Some reg1" "hasStandard reg1" "regReach (ob_Floats ob) (ob_Quote ob) reg1"
    "requestsTotal (ob_Quote ob) reg1 (rq_Method (wr_Http r)) (hr_Status resp) \<noteq> None"
    "\<forall>m st. \<not> contains (CHR 0x00) m \<and> (m \<noteq> rq_Method (wr_Http r) \<or> st \<noteq> hr_Status resp) \<longrightarrow>
       requestsTotal (ob_Quote ob) reg1 m st = requestsTotal (ob_Quote ob) reg m st"
    using serve_counts[OF assms(1,2) Cons.prems(1-3) _ s1] Cons.prems(4) by auto
  obtain reg' where reg': "os_Registry (serveAll ob (Some ''certkeeper_requests_total'') sv sr rs s1) = Some reg'" "hasStandard reg'"
    "\<forall>r\<in>set rs. \<exists>st. requestsTotal (ob_Quote ob) reg' (rq_Method (wr_Http r)) st \<noteq> None"
    "\<forall>m st. \<not> contains (CHR 0x00) m \<and> requestsTotal (ob_Quote ob) reg1 m st \<noteq> None \<longrightarrow> requestsTotal (ob_Quote ob) reg' m st \<noteq> None"
    using Cons.IH[OF reg1(1-3)] Cons.prems(4) by auto
  have first: "requestsTotal (ob_Quote ob) reg' (rq_Method (wr_Http r)) (hr_Status resp) \<noteq> None"
    using reg'(4) reg1(4) Cons.prems(4) by simp
  have kept: "requestsTotal (ob_Quote ob) reg' m st \<noteq> None"
    if "\<not> contains (CHR 0x00) m" "requestsTotal (ob_Quote ob) reg m st \<noteq> None" for m st
  proof (cases "m = rq_Method (wr_Http r) \<and> st = hr_Status resp")
    case True
    then show ?thesis using first by simp
  next
    case False
    then have "requestsTotal (ob_Quote ob) reg1 m st \<noteq> None"
      using reg1(5) that by simp
    then show ?thesis using reg'(4) that(1) by blast
  qed
  show ?case
    using reg'(1-3) first kept by (auto simp: s1)
qed auto

text \<open>The number of time series is in the hands of the clients.  The method is taken over as a label from any request, even
  one that is refused, so requests with different methods each leave a series in the memory for good.\<close>

theorem request_series_unbounded:
  assumes "quoteLaw (ob_Quote ob)" "countsOne (ob_Floats ob)" "os_Registry s = Some reg" "hasStandard reg"
    and "regReach (ob_Floats ob) (ob_Quote ob) reg"
    and "distinct (map (\<lambda>r. rq_Method (wr_Http r)) rs)" "\<forall>r\<in>set rs. \<not> contains (CHR 0x00) (rq_Method (wr_Http r))"
  shows "\<exists>reg' m. os_Registry (serveAll ob (Some ''certkeeper_requests_total'') sv sr rs s) = Some reg' \<and>
    map_of (rg_Metrics reg') ''certkeeper_requests_total'' = Some m \<and> length rs \<le> length (mt_Series m)"
proof -
  obtain reg' where reg': "os_Registry (serveAll ob (Some ''certkeeper_requests_total'') sv sr rs s) = Some reg'" "hasStandard reg'"
    "\<forall>r\<in>set rs. \<exists>st. requestsTotal (ob_Quote ob) reg' (rq_Method (wr_Http r)) st \<noteq> None"
    using serveAll_counts[OF assms(1-5,7)] by blast
  obtain m where m: "map_of (rg_Metrics reg') ''certkeeper_requests_total'' = Some m" "mt_LabelNames m = sort [''method'', ''status'']"
    using reg'(2) by (auto simp: standardDefs_def hasMetric_def)
  have names: "mt_LabelNames m = [''method'', ''status'']"
    unfolding m(2) by (rule label_order)
  obtain st where st: "\<And>r. r \<in> set rs \<Longrightarrow> requestsTotal (ob_Quote ob) reg' (rq_Method (wr_Http r)) (st r) \<noteq> None"
    using reg'(3) by metis
  define key where "key r = labelsKey (ob_Quote ob) (mt_LabelNames m) (requestLabels (rq_Method (wr_Http r)) (st r))" for r
  have "key r \<in> fst ` set (mt_Series m)" if "r \<in> set rs" for r
    using st[OF that] m(1) by (simp add: totalOf_def key_def map_of_eq_None_iff)
  moreover have "inj_on key (set rs)"
  proof (rule inj_onI)
    fix a b assume ab: "a \<in> set rs" "b \<in> set rs" "key a = key b"
    have "labelText (requestLabels (rq_Method (wr_Http a)) (st a)) ''method'' = labelText (requestLabels (rq_Method (wr_Http b)) (st b)) ''method''"
      by (rule labelsKey_inject[OF assms(1) ab(3)[unfolded key_def]]) (simp add: names)
    then have "rq_Method (wr_Http a) = rq_Method (wr_Http b)"
      by (simp add: labelText_def)
    then show "a = b"
      using ab assms(6) by (auto simp: distinct_map dest: inj_onD)
  qed
  ultimately have "card (set rs) \<le> card (fst ` set (mt_Series m))"
    by (metis card_mono card_image List.finite_set finite_imageI image_subsetI)
  also have "\<dots> \<le> length (mt_Series m)"
    by (metis card_length set_map length_map)
  finally show ?thesis
    using reg'(1) m(1) assms(6) by (simp add: distinct_card distinct_map)
qed

section \<open>Readiness\<close>

lemma runChecks_pass:
  "list_all2 (\<lambda>(n, c) (n', c'). n = n' \<and> (\<forall>w. (fst (c w) = None) = (fst (c' w) = None) \<and> snd (c w) = snd (c' w))) cs cs' \<Longrightarrow>
     runChecks cs w = runChecks cs' w"
proof (induction cs cs' arbitrary: w rule: list_all2_induct)
  case (Cons nc cs nc' cs')
  obtain n c c' where "nc = (n, c)" "nc' = (n, c')" and c: "\<And>w. (fst (c w) = None) = (fst (c' w) = None) \<and> snd (c w) = snd (c' w)"
    using Cons.hyps(1) by auto
  moreover have "snd (c w) = snd (c' w)" "(fst (c w) = None) = (fst (c' w) = None)"
    using c by auto
  ultimately show ?case
    using Cons.IH[of "snd (c w)"] by (simp add: case_prod_unfold)
qed simp

lemma runChecks_names: "map chk_Name (fst (runChecks cs w)) = map fst cs"
  by (induction cs w rule: runChecks.induct) (auto split: prod.split)

lemma map_insort_key: "map f (insort_key f x xs) = insort (f x) (map f xs)"
  by (induction xs) auto

lemma map_sort_key: "map f (sort_key f xs) = sort (map f xs)"
  by (induction xs) (auto simp: map_insort_key)

text \<open>The readiness endpoint runs every registered check, names each of them in the order of the names, and answers 200
  exactly when all of them pass, else 503.  Its answer says no more than that: checks that pass and fail alike
  with other error texts get the same answer.\<close>

theorem readiness_answer:
  assumes "readyz fl quote reg w = (resp, reg', w')"
    and "list_all2 (\<lambda>(n, c) (n', c'). n = n' \<and> (\<forall>w. (fst (c w) = None) = (fst (c' w) = None) \<and> snd (c w) = snd (c' w)))
           (inOrder (rg_Checks reg)) (inOrder (rg_Checks other))"
  shows "(\<exists>report. hr_Body resp = JsonBody (encodeReadiness report) \<and> map chk_Name (rdy_Checks report) = sort (map fst (rg_Checks reg)) \<and>
            rdy_Ready report = list_all chk_Passed (rdy_Checks report) \<and>
            hr_Status resp = (if list_all chk_Passed (rdy_Checks report) then 200 else 503)) \<and>
         fst (readyz fl quote other w) = resp"
proof -
  obtain results where results: "runChecks (inOrder (rg_Checks reg)) w = (results, w')"
    using assms(1) by (auto simp: readyz_def CheckReadiness_def split: prod.splits)
  have other: "runChecks (inOrder (rg_Checks other)) w = (results, w')"
    using runChecks_pass[OF assms(2)] results by simp
  have names: "map chk_Name results = sort (map fst (rg_Checks reg))"
    using runChecks_names[of "inOrder (rg_Checks reg)" w] results
    by (simp add: inOrder_def map_sort_key)
  let ?report = "\<lparr>rdy_Ready = list_all chk_Passed results, rdy_Checks = results\<rparr>"
  have fails: "map chk_Name (filter (\<lambda>c. \<not> chk_Passed c) results) = [] \<longleftrightarrow> list_all chk_Passed results"
    by (induction results) auto
  have resp: "resp = writeJSON (if list_all chk_Passed results then 200 else 503) (Some (JsonBody (encodeReadiness ?report)))"
    using assms(1) results fails by (auto simp: readyz_def CheckReadiness_def split: if_splits)
  moreover have "fst (readyz fl quote other w) = resp"
    using other fails by (auto simp: readyz_def CheckReadiness_def resp)
  ultimately show ?thesis
    using names by (intro conjI exI[of _ ?report]) (simp_all add: writeJSON_def)
qed

section \<open>A concrete server\<close>

text \<open>Natural numbers for the numbers, and the literals of the exposition format for \<^verbatim>\<open>strconv.Quote\<close>.\<close>

definition demoObserving :: "nat Observing" where
  "demoObserving =
     \<lparr>ob_Floats = \<lparr>fl_Zero = 0, fl_One = 1, fl_Add = (+), fl_Negative = (\<lambda>_. False), fl_Finite = (\<lambda>_. True), fl_Format = showNat\<rparr>,
      ob_Quote = (\<lambda>v. CHR 0x22 # escapeLabelValue v @ [CHR 0x22]), ob_MetricsEnabled = True, ob_ReadyEnabled = True\<rparr>"

lemma demo_quote: "quoteLaw (ob_Quote demoObserving)"
  unfolding quoteLaw_def
proof (intro allI impI)
  fix s t x y assume "ob_Quote demoObserving s @ x = ob_Quote demoObserving t @ y"
  then have "escapeLabelValue s @ CHR 0x22 # x = escapeLabelValue t @ CHR 0x22 # y"
    by (simp add: demoObserving_def)
  from arg_cong[OF this, of readValue] show "s = t \<and> x = y"
    unfolding readValue_escaped by simp
qed

definition demoObserved :: "(nat, nat) ObservedState" where
  "demoObserved = \<lparr>os_Server = \<lparr>ss_V1 = demoV1State emptyDb, ss_Root = demoCertRoot\<rparr>, os_Registry = None\<rparr>"

definition scrapeRequest :: V1Request where
  "scrapeRequest = demoJsonRequest ((demoRequest 1000)\<lparr>rq_Method := ''GET'', rq_Path := ''/metrics''\<rparr>) None"

lemma registerAll_fresh:
  "\<forall>(name, h, ty, labels)\<in>set ds. validIdentifier name True \<and> normalizedLabelNames labels = Inr (sort labels) \<and> map_of (rg_Metrics reg) name = None \<Longrightarrow>
     distinct (map fst ds) \<Longrightarrow> \<exists>reg'. registerAll ds reg = (None, reg')"
proof (induction ds arbitrary: reg)
  case (Cons d ds)
  obtain name h ty labels where d: "d = (name, h, ty, labels)"
    by (cases d)
  let ?reg = "reg\<lparr>rg_Metrics := (name, \<lparr>mt_Help = h, mt_Type = ty, mt_LabelNames = sort labels, mt_Series = []\<rparr>) # rg_Metrics reg\<rparr>"
  have "registerMetric name h ty labels reg = (None, ?reg)"
    using Cons.prems(1) by (simp add: registerMetric_def d)
  moreover have "\<exists>reg'. registerAll ds ?reg = (None, reg')"
  proof (rule Cons.IH)
    show "distinct (map fst ds)"
      using Cons.prems(2) by simp
    show "\<forall>(n, h, ty, ls)\<in>set ds. validIdentifier n True \<and> normalizedLabelNames ls = Inr (sort ls) \<and> map_of (rg_Metrics ?reg) n = None"
    proof (clarify, intro conjI)
      fix n h' ty' ls assume mem: "(n, h', ty', ls) \<in> set ds"
      then have "validIdentifier n True \<and> normalizedLabelNames ls = Inr (sort ls) \<and> map_of (rg_Metrics reg) n = None"
        using Cons.prems(1) by auto
      moreover have "n \<noteq> name"
        using Cons.prems(2) mem d by (metis distinct.simps(2) fst_conv image_eqI list.set_map list.simps(9))
      ultimately show "validIdentifier n True" "normalizedLabelNames ls = Inr (sort ls)" "map_of (rg_Metrics ?reg) n = None"
        by simp_all
    qed
  qed
  ultimately show ?case
    by (simp add: d)
qed simp

definition noSeries :: "('v, 'w) Registry \<Rightarrow> bool" where
  "noSeries reg \<longleftrightarrow> (\<forall>m\<in>snd ` set (rg_Metrics reg). mt_Series m = [])"

lemma registerAll_noSeries: "noSeries reg \<Longrightarrow> noSeries (snd (registerAll ds reg))"
proof (induction ds reg rule: registerAll.induct)
  case (2 name h ty labels ds reg)
  have "noSeries (snd (registerMetric name h ty labels reg))"
    using "2.prems" by (auto simp: registerMetric_def noSeries_def split: sum.split option.split)
  then show ?case
    using 2 by (auto split: prod.split option.split)
qed simp

lemma demo_standard:
  "\<exists>std reg. StandardMetricsOf (NewRegistry :: (nat, 'w) Registry) = (Inr std, reg) \<and> sm_Requests std = ''certkeeper_requests_total'' \<and>
     (\<exists>m. map_of (rg_Metrics reg) ''certkeeper_requests_total'' = Some m \<and> mt_Series m = [])"
proof -
  have "map fst standardDefs = [''certkeeper_requests_total'', ''certkeeper_acme_operations_total'', ''certkeeper_jobs_total'',
      ''certkeeper_deployments_total'', ''certkeeper_readiness'']"
    by (simp add: standardDefs_def)
  then have names: "distinct (map fst standardDefs)" "''certkeeper_requests_total'' \<in> fst ` set standardDefs"
    by (simp_all flip: list.set_map)
  obtain reg :: "(nat, 'w) Registry" where reg: "registerAll standardDefs NewRegistry = (None, reg)"
    using registerAll_fresh[of standardDefs NewRegistry] standard_valid names(1) by (auto simp: NewRegistry_def)
  have "noSeries reg"
    using registerAll_noSeries[of "NewRegistry :: (nat, 'w) Registry" standardDefs] unfolding reg by (simp add: noSeries_def NewRegistry_def)
  moreover obtain m where "map_of (rg_Metrics reg) ''certkeeper_requests_total'' = Some m"
    using registerAll_has[OF reg] names(2) by (fastforce simp: hasMetric_def)
  ultimately show ?thesis
    using reg by (auto simp: StandardMetricsOf_def noSeries_def dest!: map_of_SomeD)
qed

theorem request_counted_once_witness:
  "\<exists>s resp s' reg'. buildHandler demoObserving (demoObserved\<lparr>os_Registry := Some NewRegistry\<rparr>) = (Some ''certkeeper_requests_total'', s) \<and>
     serveObserved demoObserving (Some ''certkeeper_requests_total'') demoLegacy demoOutside scrapeRequest s = (resp, s') \<and>
     hr_Status resp = 200 \<and> os_Registry s' = Some reg' \<and> requestsTotal (ob_Quote demoObserving) reg' ''GET'' 200 = Some 1"
proof -
  obtain std reg m where std: "StandardMetricsOf (NewRegistry :: (nat, nat ServerState) Registry) = (Inr std, reg)"
    "sm_Requests std = ''certkeeper_requests_total''" "map_of (rg_Metrics reg) ''certkeeper_requests_total'' = Some m" "mt_Series m = []"
    using demo_standard by blast
  let ?s = "demoObserved\<lparr>os_Registry := Some reg\<rparr>"
  have build: "buildHandler demoObserving (demoObserved\<lparr>os_Registry := Some NewRegistry\<rparr>) = (Some ''certkeeper_requests_total'', ?s)"
    using std(1,2) by (simp add: buildHandler_def) (simp add: demoObserving_def)
  obtain resp s' where run: "serveObserved demoObserving (Some ''certkeeper_requests_total'') demoLegacy demoOutside scrapeRequest ?s = (resp, s')"
    by fastforce
  have req: "rq_Method (wr_Http scrapeRequest) = ''GET''" "rq_Path (wr_Http scrapeRequest) = ''/metrics''"
    by (simp_all add: scrapeRequest_def demoJsonRequest_def)
  have status: "hr_Status resp = 200"
    using run req by (auto simp: serveObserved_def serveRoutes_def onlyGet_eq metricsOn_def metricsHandler_def writeJSON_def demoObserving_def
        split: prod.splits)
  have "countsOne (ob_Floats demoObserving)" "\<not> contains (CHR 0x00) ''GET''"
    by (simp_all add: countsOne_def demoObserving_def contains_def)
  moreover have "totalOf (ob_Quote demoObserving) reg ''certkeeper_requests_total'' ls = None" for ls
    using std(3,4) by (simp add: totalOf_def)
  ultimately obtain reg' where "os_Registry s' = Some reg'" "requestsTotal (ob_Quote demoObserving) reg' ''GET'' 200 = Some 1"
    using request_counted_once[OF demo_quote _ regStart build _ run] by (auto simp: req status orZero_def demoObserving_def)
  then show ?thesis
    using build run status by blast
qed

end
