(* ===== verification/Spec2Isabelle.thy ===== *)
theory Spec2Isabelle
  imports Contract StoreGenerations ClientAuth Adapter CertCollect ServiceOutcomes SystemReady SecretProofs AcmeRunnerProofs LegacyProofs ClientV1Proofs ObservedProofs
begin

text \<open>cert-keeper\<close>

end
